(* ===== verification/Prelude.thy ===== *)
theory Prelude
  imports Main "HOL-Library.Char_ord" "HOL-Library.Multiset"
begin

text \<open>
  Shared vocabulary of the development: Go strings as byte lists, the pieces of
  the standard library the modelled code calls (strings.HasPrefix,
  strings.HasSuffix, strings.TrimSpace, the string order, sort.Slice), map reads
  with the zero default, and results that carry an error.  A Go string is a list
  of 8-bit characters, so \<^const>\<open>length\<close> is Go's byte length and slicing is by
  byte.  Facts used by many components are collected under the names below.
\<close>

named_theorems go_simps "unfoldings of the library functions shared by the components"
named_theorems legal_intros "facts that establish a legal step"

section \<open>Results\<close>

type_synonym ('e, 'a) result = "'e + 'a"

abbreviation Err :: "'e \<Rightarrow> ('e, 'a) result" where
  "Err e \<equiv> Inl e"

abbreviation Ok :: "'a \<Rightarrow> ('e, 'a) result" where
  "Ok a \<equiv> Inr a"

section \<open>Byte strings\<close>

definition has_prefix :: "string \<Rightarrow> string \<Rightarrow> bool" where
  "has_prefix s p = (length p \<le> length s \<and> take (length p) s = p)"

definition has_suffix :: "string \<Rightarrow> string \<Rightarrow> bool" where
  "has_suffix s p = (length p \<le> length s \<and> drop (length s - length p) s = p)"

lemma has_prefix_iff: "has_prefix s p \<longleftrightarrow> (\<exists>r. s = p @ r)"
  by (auto simp: has_prefix_def) (metis append_take_drop_id)

lemma has_suffix_iff: "has_suffix s p \<longleftrightarrow> (\<exists>r. s = r @ p)"
  by (auto simp: has_suffix_def) (metis append_take_drop_id)

lemma has_prefix_Nil [simp]: "has_prefix s []"
  by (simp add: has_prefix_def)

lemma has_prefix_refl [simp]: "has_prefix s s"
  by (simp add: has_prefix_def)

fun str_less :: "string \<Rightarrow> string \<Rightarrow> bool" where
  "str_less _ [] = False"
| "str_less [] (_ # _) = True"
| "str_less (a # s) (b # t) =
     ((of_char a :: nat) < of_char b \<or> (a = b \<and> str_less s t))"

lemma str_less_irrefl [simp]: "\<not> str_less s s"
  by (induction s) auto

lemma str_less_trans: "str_less a b \<Longrightarrow> str_less b c \<Longrightarrow> str_less a c"
proof (induction a b arbitrary: c rule: str_less.induct)
  case (2 b t)
  then show ?case by (cases c) auto
next
  case (3 a s b t)
  then show ?case by (cases c) auto
qed auto

lemma str_less_total: "a \<noteq> b \<Longrightarrow> str_less a b \<or> str_less b a"
proof (induction a b rule: str_less.induct)
  case (1 a)
  then show ?case by (cases a) auto
next
  case (3 a s b t)
  show ?case
  proof (cases "a = b")
    case True
    then show ?thesis using 3 by auto
  next
    case False
    then have "(of_char a :: nat) \<noteq> of_char b" by simp
    then have "(of_char a :: nat) < of_char b \<or> (of_char b :: nat) < of_char a"
      by (rule neq_iff [THEN iffD1])
    then show ?thesis by (simp only: str_less.simps) blast
  qed
qed auto

subsection \<open>strings.TrimSpace\<close>

text \<open>
  The white space that TrimSpace removes, as the UTF-8 encodings of the code
  points of unicode.IsSpace: one byte for ASCII, two for U+0085 and U+00A0,
  three for U+1680, U+2000..U+200A, U+2028, U+2029, U+202F, U+205F and U+3000.
\<close>

definition space1 :: "nat list" where
  "space1 = [9, 10, 11, 12, 13, 32]"

definition space2 :: "nat list list" where
  "space2 = [[194, 133], [194, 160]]"

definition space3 :: "nat list list" where
  "space3 = [[225, 154, 128], [226, 128, 128], [226, 128, 129], [226, 128, 130],
    [226, 128, 131], [226, 128, 132], [226, 128, 133], [226, 128, 134],
    [226, 128, 135], [226, 128, 136], [226, 128, 137], [226, 128, 138],
    [226, 128, 168], [226, 128, 169], [226, 128, 175], [226, 129, 159],
    [227, 128, 128]]"

abbreviation codes :: "string \<Rightarrow> nat list" where
  "codes s \<equiv> map of_char s"

fun trim_left :: "string \<Rightarrow> string" where
  "trim_left [] = []"
| "trim_left (a # s) =
     (if of_char a \<in> set space1 then trim_left s
      else case s of
        [] \<Rightarrow> a # s
      | b # s' \<Rightarrow>
          if codes [a, b] \<in> set space2 then trim_left s'
          else (case s' of
              [] \<Rightarrow> a # s
            | c # s'' \<Rightarrow>
                if codes [a, b, c] \<in> set space3 then trim_left s''
                else a # s))"

text \<open>The right side is trimmed on the reversed string, with the encodings reversed.\<close>

fun trim_rev :: "string \<Rightarrow> string" where
  "trim_rev [] = []"
| "trim_rev (a # s) =
     (if of_char a \<in> set space1 then trim_rev s
      else case s of
        [] \<Rightarrow> a # s
      | b # s' \<Rightarrow>
          if codes [b, a] \<in> set space2 then trim_rev s'
          else (case s' of
              [] \<Rightarrow> a # s
            | c # s'' \<Rightarrow>
                if codes [c, b, a] \<in> set space3 then trim_rev s''
                else a # s))"

definition trim_space :: "string \<Rightarrow> string" where
  "trim_space s = rev (trim_rev (rev (trim_left s)))"

lemma trim_space_Nil [simp]: "trim_space [] = []"
  by (simp add: trim_space_def)

lemma length_trim_left: "length (trim_left s) \<le> length s"
proof (induction s rule: measure_induct_rule [where f = length])
  case (less s)
  have IH: "length (trim_left t) \<le> length s" if "length t < length s" for t
    using less [OF that] that by linarith
  show ?case
  proof (cases s)
    case (Cons a t)
    show ?thesis
      unfolding Cons trim_left.simps
      using IH by (auto simp: Cons simp del: trim_left.simps split: list.split)
  qed simp
qed

lemma length_trim_rev: "length (trim_rev s) \<le> length s"
proof (induction s rule: measure_induct_rule [where f = length])
  case (less s)
  have IH: "length (trim_rev t) \<le> length s" if "length t < length s" for t
    using less [OF that] that by linarith
  show ?case
  proof (cases s)
    case (Cons a t)
    show ?thesis
      unfolding Cons trim_rev.simps
      using IH by (auto simp: Cons simp del: trim_rev.simps split: list.split)
  qed simp
qed

lemma length_trim_space: "length (trim_space s) \<le> length s"
  using length_trim_left [of s] length_trim_rev [of "rev (trim_left s)"]
  by (simp add: trim_space_def)

lemma trim_left_id: "s = [] \<or> ((of_char (hd s) :: nat) < 128 \<and> of_char (hd s) \<notin> set space1) \<Longrightarrow> trim_left s = s"
  by (cases s rule: trim_left.cases) (auto simp: space2_def space3_def split: list.split)

lemma trim_rev_id: "s = [] \<or> ((of_char (hd s) :: nat) < 128 \<and> of_char (hd s) \<notin> set space1) \<Longrightarrow> trim_rev s = s"
  by (cases s rule: trim_rev.cases) (auto simp: space2_def space3_def split: list.split)

lemma trim_space_id:
  assumes "s \<noteq> []" "(of_char (hd s) :: nat) < 128" "of_char (hd s) \<notin> set space1"
    and "(of_char (last s) :: nat) < 128" "of_char (last s) \<notin> set space1"
  shows "trim_space s = s"
  using assms trim_left_id [of s] trim_rev_id [of "rev s"] by (simp add: trim_space_def hd_rev)

definition to_lower_ascii :: "char \<Rightarrow> char" where
  "to_lower_ascii c = (if 65 \<le> (of_char c :: nat) \<and> (of_char c :: nat) \<le> 90
     then char_of ((of_char c :: nat) + 32) else c)"

text \<open>
  strings.ToLower, exact wherever the result is ASCII: of the non-ASCII letters
  only U+0130 and U+212A have ASCII lower case (i and k); the others are left as
  they are here, and the code only compares results with ASCII constants.
\<close>

fun to_lower :: "string \<Rightarrow> string" where
  "to_lower [] = []"
| "to_lower [a] = [to_lower_ascii a]"
| "to_lower [a, b] =
     (if codes [a, b] = [196, 176] then ''i'' else [to_lower_ascii a, to_lower_ascii b])"
| "to_lower (a # b # c # s) =
     (if codes [a, b] = [196, 176] then CHR ''i'' # to_lower (c # s)
      else if codes [a, b, c] = [226, 132, 170] then CHR ''k'' # to_lower s
      else to_lower_ascii a # to_lower (b # c # s))"

text \<open>
  strings.ToUpper, likewise exact wherever the result is ASCII: U+0131 and U+017F
  have ASCII upper case (I and S).
\<close>

definition to_upper_ascii :: "char \<Rightarrow> char" where
  "to_upper_ascii c = (if 97 \<le> (of_char c :: nat) \<and> (of_char c :: nat) \<le> 122
     then char_of ((of_char c :: nat) - 32) else c)"

fun to_upper :: "string \<Rightarrow> string" where
  "to_upper [] = []"
| "to_upper [a] = [to_upper_ascii a]"
| "to_upper (a # b # s) =
     (if codes [a, b] = [196, 177] then CHR ''I'' # to_upper s
      else if codes [a, b] = [197, 191] then CHR ''S'' # to_upper s
      else to_upper_ascii a # to_upper (b # s))"

text \<open>strings.EqualFold on the ASCII labels the code compares.\<close>

definition equal_fold :: "string \<Rightarrow> string \<Rightarrow> bool" where
  "equal_fold a b = (map to_lower_ascii a = map to_lower_ascii b)"

lemma equal_fold_refl [simp]: "equal_fold a a"
  by (simp add: equal_fold_def)

section \<open>Map reads\<close>

definition mget0 :: "('k \<rightharpoonup> int) \<Rightarrow> 'k \<Rightarrow> int" where
  "mget0 m k = (case m k of None \<Rightarrow> 0 | Some v \<Rightarrow> v)"

lemma mget0_simps [simp]:
  "mget0 Map.empty k = 0"
  "mget0 (m(k \<mapsto> v)) j = (if j = k then v else mget0 m j)"
  by (auto simp: mget0_def)

section \<open>sort.Slice\<close>

text \<open>
  sort.Slice is unspecified on elements the comparator does not separate; an
  insertion sort by the same comparator is one of its behaviours, and the only
  one when the comparator is total on the elements (\<open>sort_by_unique\<close>).
\<close>

fun insert_by :: "('a \<Rightarrow> 'a \<Rightarrow> bool) \<Rightarrow> 'a \<Rightarrow> 'a list \<Rightarrow> 'a list" where
  "insert_by lt x [] = [x]"
| "insert_by lt x (y # ys) = (if lt y x then y # insert_by lt x ys else x # y # ys)"

fun sort_by :: "('a \<Rightarrow> 'a \<Rightarrow> bool) \<Rightarrow> 'a list \<Rightarrow> 'a list" where
  "sort_by lt [] = []"
| "sort_by lt (x # xs) = insert_by lt x (sort_by lt xs)"

definition strict_order_on :: "'a set \<Rightarrow> ('a \<Rightarrow> 'a \<Rightarrow> bool) \<Rightarrow> bool" where
  "strict_order_on A lt = ((\<forall>x. \<not> lt x x) \<and> (\<forall>x y z. lt x y \<longrightarrow> lt y z \<longrightarrow> lt x z)
     \<and> (\<forall>x \<in> A. \<forall>y \<in> A. x \<noteq> y \<longrightarrow> lt x y \<or> lt y x))"

lemma mset_insert_by [simp]: "mset (insert_by lt x ys) = add_mset x (mset ys)"
  by (induction ys) auto

lemma mset_sort_by [simp]: "mset (sort_by lt xs) = mset xs"
  by (induction xs) auto

lemma set_sort_by [simp]: "set (sort_by lt xs) = set xs"
  by (metis mset_sort_by set_mset_mset)

lemma length_sort_by [simp]: "length (sort_by lt xs) = length xs"
  by (metis mset_sort_by size_mset)

lemma sorted_insert_by:
  assumes "sorted_wrt (\<lambda>x y. \<not> lt y x) ys"
    and "\<And>x y z. lt x y \<Longrightarrow> lt y z \<Longrightarrow> lt x z"
    and "\<And>y z. y \<in> set ys \<Longrightarrow> z \<in> set ys \<Longrightarrow> lt z x \<Longrightarrow> \<not> lt y x \<Longrightarrow> lt z y"
    and "\<And>x. \<not> lt x x"
  shows "sorted_wrt (\<lambda>x y. \<not> lt y x) (insert_by lt x ys)"
  using assms
proof (induction ys)
  case (Cons y ys)
  have set: "set (insert_by lt x ys) = insert x (set ys)"
    by (metis mset_insert_by set_mset_add_mset_insert set_mset_mset)
  show ?case
  proof (cases "lt y x")
    case True
    then have "sorted_wrt (\<lambda>x y. \<not> lt y x) (insert_by lt x ys)"
      by (intro Cons.IH) (use Cons.prems in auto)
    moreover have "\<not> lt z y" if "z \<in> insert x (set ys)" for z
    proof (cases "z = x")
      case True
      then show ?thesis using \<open>lt y x\<close> Cons.prems(2,4) by blast
    next
      case False
      then show ?thesis using that Cons.prems(1) by auto
    qed
    ultimately show ?thesis using True set by auto
  next
    case False
    then have "\<not> lt z x" if "z \<in> set ys" for z
      using that Cons.prems(1) Cons.prems(3) [of y z] by auto
    then show ?thesis using Cons.prems(1) False by auto
  qed
qed simp

lemma sorted_sort_by:
  assumes "strict_order_on (set xs) lt"
  shows "sorted_wrt (\<lambda>x y. \<not> lt y x) (sort_by lt xs)"
  using assms
proof (induction xs)
  case (Cons x xs)
  have tr: "\<And>x y z. lt x y \<Longrightarrow> lt y z \<Longrightarrow> lt x z" and ir: "\<And>x. \<not> lt x x"
    using Cons.prems by (auto simp: strict_order_on_def)
  have tot: "\<And>y z. y \<in> insert x (set xs) \<Longrightarrow> z \<in> insert x (set xs) \<Longrightarrow> y \<noteq> z \<Longrightarrow> lt y z \<or> lt z y"
    using Cons.prems by (auto simp: strict_order_on_def)
  have "strict_order_on (set xs) lt"
    using Cons.prems by (auto simp: strict_order_on_def)
  then have "sorted_wrt (\<lambda>x y. \<not> lt y x) (sort_by lt xs)" by (rule Cons.IH)
  moreover have "lt z y"
    if "y \<in> set xs" "z \<in> set xs" "lt z x" "\<not> lt y x" for y z
    using that tr ir tot [of y x] tot [of y z] by (metis insertCI)
  ultimately show ?case
    unfolding sort_by.simps
    by (intro sorted_insert_by) (auto intro: tr simp: ir)
qed simp

lemma sort_by_unique:
  assumes "strict_order_on (set xs) lt" and "mset ys = mset xs"
    and "sorted_wrt (\<lambda>x y. \<not> lt y x) ys"
  shows "ys = sort_by lt xs"
proof -
  have uniq: "as = bs"
    if "mset as = mset bs" "sorted_wrt (\<lambda>x y. \<not> lt y x) as" "sorted_wrt (\<lambda>x y. \<not> lt y x) bs"
      "strict_order_on (set as) lt" for as bs
    using that
  proof (induction as arbitrary: bs)
    case (Cons a as)
    then obtain b bs' where bs: "bs = b # bs'" by (cases bs) auto
    have eq: "set (a # as) = set bs" using Cons.prems(1) by (metis set_mset_mset)
    have "a = b"
    proof (rule ccontr)
      assume ne: "a \<noteq> b"
      then have "b \<in> set as" "a \<in> set bs'" using eq bs by auto
      then have "\<not> lt b a" "\<not> lt a b" using Cons.prems(2,3) bs by auto
      moreover have "lt a b \<or> lt b a"
        using Cons.prems(4) ne \<open>b \<in> set as\<close> unfolding strict_order_on_def by simp
      ultimately show False by blast
    qed
    moreover have "strict_order_on (set as) lt"
      using Cons.prems(4) unfolding strict_order_on_def by simp
    then have "as = bs'"
      by (intro Cons.IH) (use Cons.prems(1-3) bs \<open>a = b\<close> in auto)
    ultimately show ?case by (simp add: bs)
  qed simp
  have st: "set ys = set xs" using assms(2) by (metis set_mset_mset)
  show ?thesis
    by (rule uniq) (use assms st sorted_sort_by [OF assms(1)] in auto)
qed

lemma sort_by_perm:
  assumes "strict_order_on (set xs) lt" and "mset ys = mset xs"
  shows "sort_by lt ys = sort_by lt xs"
proof (rule sort_by_unique [OF assms(1)])
  have "set ys = set xs" using assms(2) by (metis set_mset_mset)
  then show "sorted_wrt (\<lambda>x y. \<not> lt y x) (sort_by lt ys)"
    using assms(1) by (intro sorted_sort_by) simp
qed (simp add: assms(2))

lemma hd_sort_by_min:
  assumes "strict_order_on (set xs) lt" and "y \<in> set xs"
  shows "\<not> lt y (hd (sort_by lt xs))"
proof -
  obtain z zs where z: "sort_by lt xs = z # zs"
    using assms(2) by (metis length_pos_if_in_set length_sort_by list.size(3) neq_Nil_conv less_irrefl)
  have "y \<in> set (z # zs)" using assms(2) z by (metis set_sort_by)
  then show ?thesis
    using sorted_sort_by [OF assms(1)] assms(1) z by (auto simp: strict_order_on_def)
qed

section \<open>Decimal numbers\<close>

text \<open>strconv.FormatInt and strconv.ParseInt in base 10 with 64 bits.\<close>

definition digit :: "nat \<Rightarrow> char" where
  "digit n = char_of (48 + n)"

fun dec_nat :: "nat \<Rightarrow> string" where
  "dec_nat n = (if n < 10 then [digit n] else dec_nat (n div 10) @ [digit (n mod 10)])"

declare dec_nat.simps [simp del]

definition dec :: "int \<Rightarrow> string" where
  "dec i = (if i < 0 then CHR ''-'' # dec_nat (nat (- i)) else dec_nat (nat i))"

definition is_digit :: "char \<Rightarrow> bool" where
  "is_digit c = (48 \<le> (of_char c :: nat) \<and> (of_char c :: nat) \<le> 57)"

definition digits_value :: "string \<Rightarrow> nat" where
  "digits_value s = foldl (\<lambda>v c. 10 * v + (of_char c - 48)) 0 s"

definition parse_int :: "string \<Rightarrow> int option" where
  "parse_int s =
     (let neg = has_prefix s ''-'';
          body = (if neg \<or> has_prefix s ''+'' then tl s else s);
          v = (if neg then - int (digits_value body) else int (digits_value body))
      in if body = [] \<or> \<not> list_all is_digit body then None
         else if - (2 ^ 63) \<le> v \<and> v < 2 ^ 63 then Some v else None)"

lemma of_char_digit: "n < 10 \<Longrightarrow> (of_char (digit n) :: nat) = 48 + n"
  by (simp add: digit_def)

lemma dec_nat_digits: "list_all is_digit (dec_nat n) \<and> dec_nat n \<noteq> []"
proof (induction n rule: dec_nat.induct)
  case (1 n)
  have "dec_nat n = (if n < 10 then [digit n] else dec_nat (n div 10) @ [digit (n mod 10)])"
    by (rule dec_nat.simps)
  moreover have "n mod 10 \<le> 9" by simp
  ultimately show ?case using 1 by (simp add: is_digit_def of_char_digit)
qed

lemma digits_value_dec_nat: "digits_value (dec_nat n) = n"
proof (induction n rule: dec_nat.induct)
  case (1 n)
  then show ?case
    by (subst dec_nat.simps) (simp add: digits_value_def of_char_digit)
qed

lemma digit_not_sign:
  assumes "list_all is_digit s" "s \<noteq> []"
  shows "\<not> has_prefix s ''-''" "\<not> has_prefix s ''+''"
  using assms by (cases s; force simp: has_prefix_def is_digit_def)+

lemma parse_int_dec: "- (2 ^ 63) \<le> i \<Longrightarrow> i < 2 ^ 63 \<Longrightarrow> parse_int (dec i) = Some i"
proof -
  assume r: "- (2 ^ 63) \<le> i" "i < 2 ^ 63"
  note d = dec_nat_digits [THEN conjunct1] dec_nat_digits [THEN conjunct2]
  show ?thesis
  proof (cases "i < 0")
    case True
    then have "has_prefix (dec i) ''-''" by (simp add: dec_def has_prefix_def)
    then show ?thesis using True r d
      by (simp add: parse_int_def dec_def digits_value_dec_nat)
  next
    case False
    then show ?thesis using r d digit_not_sign [OF d]
      by (simp add: parse_int_def dec_def digits_value_dec_nat)
  qed
qed

lemma dec_inj: "dec i = dec j \<longleftrightarrow> i = j"
proof
  assume eq: "dec i = dec j"
  have neg: "has_prefix (dec k) ''-'' \<longleftrightarrow> k < 0" for k
    using digit_not_sign(1) dec_nat_digits by (auto simp: dec_def has_prefix_def)
  have same: "i < 0 \<longleftrightarrow> j < 0" using eq neg by metis
  show "i = j"
  proof (cases "i < 0")
    case True
    then have "dec_nat (nat (- i)) = dec_nat (nat (- j))"
      using eq same by (simp add: dec_def)
    then have "nat (- i) = nat (- j)" by (metis digits_value_dec_nat)
    then show ?thesis using True same by linarith
  next
    case False
    then have "dec_nat (nat i) = dec_nat (nat j)"
      using eq same by (simp add: dec_def)
    then have "nat i = nat j" by (metis digits_value_dec_nat)
    then show ?thesis using False same by linarith
  qed
qed simp

section \<open>Integer division\<close>

text \<open>Go truncates towards zero.\<close>

definition go_div :: "int \<Rightarrow> int \<Rightarrow> int" where
  "go_div a b = sgn a * sgn b * (\<bar>a\<bar> div \<bar>b\<bar>)"

end
