(* ===== verification/ModelMap.thy ===== *)
theory ModelMap
  imports Prelude
begin

text \<open>
  Model mappings and model-scoped action rules: internal/routing/modelmap
  (match.go, action.go).  A Go map is the list of its entries in the order one
  range loop visits them; keys are distinct, the order is arbitrary, and the
  theorems show that the resolution does not depend on it.
\<close>

type_synonym mapping = "(string \<times> string) list"

definition go_map :: "mapping \<Rightarrow> bool" where
  "go_map m = distinct (map fst m)"

section \<open>Matching\<close>

definition Matches :: "string \<Rightarrow> string \<Rightarrow> bool" where
  "Matches pattern str =
     (if has_suffix pattern ''*''
      then has_prefix str (take (length pattern - 1) pattern)
      else pattern = str)"

text \<open>One pass of the range loop appends the matching entries.\<close>

fun collect_matches :: "string \<Rightarrow> mapping \<Rightarrow> mapping \<Rightarrow> mapping" where
  "collect_matches req [] acc = acc"
| "collect_matches req ((pattern, target) # rest) acc =
     collect_matches req rest
       (if Matches pattern req then acc @ [(pattern, target)] else acc)"

definition pattern_before :: "string \<times> string \<Rightarrow> string \<times> string \<Rightarrow> bool" where
  "pattern_before a b =
     (if length (fst a) \<noteq> length (fst b) then length (fst b) < length (fst a)
      else str_less (fst a) (fst b))"

definition MatchWildcard :: "mapping \<Rightarrow> string \<Rightarrow> string \<times> bool" where
  "MatchWildcard m req =
     (let matches = collect_matches req m [] in
      if matches = [] then (req, False)
      else (snd (hd (sort_by pattern_before matches)), True))"

definition Resolve :: "mapping \<Rightarrow> string \<Rightarrow> string \<times> bool" where
  "Resolve m req =
     (if req = [] then ([], False)
      else case map_of m req of
        Some target \<Rightarrow> (target, True)
      | None \<Rightarrow> MatchWildcard m req)"

section \<open>Action rules\<close>

record ActionRule =
  Action :: string
  ErrorMessage :: string
  ModelWhitelist :: "string list"
  FallbackAction :: string
  FallbackErrorMessage :: string

fun MatchesAny :: "string \<Rightarrow> string list \<Rightarrow> bool" where
  "MatchesAny model [] = False"
| "MatchesAny model (pattern # ps) = (if Matches pattern model then True else MatchesAny model ps)"

definition ResolveAction :: "ActionRule \<Rightarrow> string \<Rightarrow> string \<times> string" where
  "ResolveAction rule model =
     (if length (ModelWhitelist rule) = 0 then (Action rule, ErrorMessage rule)
      else if MatchesAny model (ModelWhitelist rule) then (Action rule, ErrorMessage rule)
      else if FallbackAction rule \<noteq> [] then (FallbackAction rule, FallbackErrorMessage rule)
      else (''pass'', []))"

section \<open>Lemmas\<close>

lemma Matches_iff:
  "Matches pattern str \<longleftrightarrow>
     (\<exists>p. pattern = p @ ''*'' \<and> (\<exists>r. str = p @ r)) \<or>
     ((\<nexists>p. pattern = p @ ''*'') \<and> str = pattern)"
proof (cases "has_suffix pattern ''*''")
  case True
  then obtain p where "pattern = p @ ''*''" by (auto simp: has_suffix_iff)
  then show ?thesis by (simp add: Matches_def has_suffix_iff has_prefix_iff)
next
  case False
  then show ?thesis by (auto simp: Matches_def has_suffix_iff)
qed

lemma Matches_literal: "(\<nexists>p. pattern = p @ ''*'') \<Longrightarrow> Matches pattern s \<longleftrightarrow> s = pattern"
  by (auto simp: Matches_iff)

lemma Matches_star [simp]: "Matches ''*'' s"
  by (auto simp: Matches_iff)

lemma collect_matches_filter:
  "collect_matches req m acc = acc @ filter (\<lambda>e. Matches (fst e) req) m"
  by (induction req m acc rule: collect_matches.induct) auto

lemma MatchesAny_iff: "MatchesAny model ps \<longleftrightarrow> (\<exists>p \<in> set ps. Matches p model)"
  by (induction ps) auto

lemma pattern_before_trans: "pattern_before a b \<Longrightarrow> pattern_before b c \<Longrightarrow> pattern_before a c"
  by (auto simp: pattern_before_def split: if_splits intro: str_less_trans)

lemma pattern_before_irrefl: "\<not> pattern_before a a"
  by (simp add: pattern_before_def)

lemma pattern_before_total: "fst a \<noteq> fst b \<Longrightarrow> pattern_before a b \<or> pattern_before b a"
  using str_less_total [of "fst a" "fst b"] by (auto simp: pattern_before_def)

lemma pattern_before_strict:
  assumes "go_map m"
  shows "strict_order_on (set m) pattern_before"
proof -
  have "pattern_before a b \<or> pattern_before b a"
    if "a \<in> set m" "b \<in> set m" "a \<noteq> b" for a b
  proof -
    have "fst a \<noteq> fst b"
      using that assms by (auto simp: go_map_def distinct_map dest: inj_onD)
    then show ?thesis by (rule pattern_before_total)
  qed
  moreover have "\<forall>x y z. pattern_before x y \<longrightarrow> pattern_before y z \<longrightarrow> pattern_before x z"
    using pattern_before_trans by blast
  ultimately show ?thesis
    unfolding strict_order_on_def using pattern_before_irrefl by blast
qed

lemma go_map_filter: "go_map m \<Longrightarrow> go_map (filter P m)"
  by (simp add: go_map_def distinct_map_filter)

lemma go_map_perm: "mset m' = mset m \<Longrightarrow> go_map m' = go_map m"
  unfolding go_map_def by (metis mset_map mset_eq_imp_distinct_iff)

lemma MatchWildcard_alt:
  "MatchWildcard m req =
     (let ms = filter (\<lambda>e. Matches (fst e) req) m in
      if ms = [] then (req, False) else (snd (hd (sort_by pattern_before ms)), True))"
  by (simp add: MatchWildcard_def collect_matches_filter)

lemma MatchWildcard_perm:
  assumes "go_map m" and "mset m' = mset m"
  shows "MatchWildcard m' req = MatchWildcard m req"
proof -
  let ?f = "filter (\<lambda>e. Matches (fst e) req)"
  have fs: "mset (?f m') = mset (?f m)" using assms(2) by simp
  have "sort_by pattern_before (?f m') = sort_by pattern_before (?f m)"
    by (rule sort_by_perm [OF pattern_before_strict [OF go_map_filter [OF assms(1)]] fs])
  moreover have "(?f m' = []) = (?f m = [])" using fs by (metis mset_zero_iff)
  ultimately show ?thesis by (simp add: MatchWildcard_alt Let_def)
qed

lemma MatchWildcard_winner:
  assumes "go_map m" and "MatchWildcard m req = (t, True)"
  obtains p where "(p, t) \<in> set m" "Matches p req"
    "\<And>q u. (q, u) \<in> set m \<Longrightarrow> Matches q req \<Longrightarrow> q = p \<or> pattern_before (p, t) (q, u)"
proof -
  let ?ms = "filter (\<lambda>e. Matches (fst e) req) m"
  have ne: "?ms \<noteq> []" and t: "t = snd (hd (sort_by pattern_before ?ms))"
    using assms(2) by (auto simp: MatchWildcard_alt Let_def split: if_splits)
  have so: "strict_order_on (set ?ms) pattern_before"
    by (rule pattern_before_strict [OF go_map_filter [OF assms(1)]])
  obtain p where p: "hd (sort_by pattern_before ?ms) = (p, t)" using t by (metis prod.collapse)
  have "(p, t) \<in> set ?ms"
    using p ne by (metis hd_in_set length_greater_0_conv length_sort_by set_sort_by)
  moreover have "q = p \<or> pattern_before (p, t) (q, u)"
    if "(q, u) \<in> set m" "Matches q req" for q u
    using hd_sort_by_min [OF so, of "(q, u)"] that p pattern_before_total [of "(p, t)" "(q, u)"]
    by auto
  ultimately show ?thesis using that by auto
qed

lemma MatchWildcard_False:
  "MatchWildcard m req = (t, False) \<longleftrightarrow> t = req \<and> (\<forall>(p, u) \<in> set m. \<not> Matches p req)"
  by (auto simp: MatchWildcard_alt Let_def filter_empty_conv)

section \<open>Properties\<close>

text \<open>
  Resolve does not depend on the order in which Go visits the map: for two
  orders of the same entries it returns the same model and the same match flag.
\<close>

theorem Resolve_order_independent:
  assumes "go_map m" and "mset m' = mset m"
  shows "Resolve m' req = Resolve m req"
proof -
  have "map_of m' = map_of m"
    using assms go_map_perm [OF assms(2)] map_of_eqI
    by (metis go_map_def map_of_inject_set set_mset_mset)
  then show ?thesis
    by (simp add: Resolve_def MatchWildcard_perm [OF assms] split: option.split)
qed

theorem Resolve_order_independent_witness:
  "Resolve [(''gpt-*'', ''b''), (''*'', ''a'')] ''gpt-5'' = Resolve [(''*'', ''a''), (''gpt-*'', ''b'')] ''gpt-5''"
  by (rule Resolve_order_independent) (simp_all add: go_map_def)

text \<open>
  C34: a matched Resolve returns a configured target: the literal key's when the
  request is a key, and otherwise the target of the matching pattern that is
  longest and, among the longest, least in byte order; an unmatched nonempty
  request is returned unchanged and no pattern matches it.
\<close>

theorem Resolve_selects:
  assumes "go_map m" and "req \<noteq> []" and "Resolve m req = (t, matched)"
  shows "if \<not> matched then t = req \<and> (\<forall>(p, u) \<in> set m. p \<noteq> req \<and> \<not> Matches p req)
    else (req, t) \<in> set m \<or>
      (req \<notin> fst ` set m \<and> (\<exists>p. (p, t) \<in> set m \<and> Matches p req \<and>
         (\<forall>(q, u) \<in> set m. Matches q req \<longrightarrow> q = p \<or>
            length q < length p \<or> (length q = length p \<and> str_less p q))))"
proof (cases "map_of m req")
  case (Some u)
  then show ?thesis using assms by (auto simp: Resolve_def dest: map_of_SomeD)
next
  case None
  then have nk: "req \<notin> fst ` set m" by (simp add: map_of_eq_None_iff)
  have W: "MatchWildcard m req = (t, matched)" using assms None by (simp add: Resolve_def)
  show ?thesis
  proof (cases matched)
    case True
    then have W': "MatchWildcard m req = (t, True)" using W by simp
    obtain p where p: "(p, t) \<in> set m" "Matches p req"
      and best: "\<And>q u. (q, u) \<in> set m \<Longrightarrow> Matches q req \<Longrightarrow> q = p \<or> pattern_before (p, t) (q, u)"
      using MatchWildcard_winner [OF assms(1) W'] by blast
    have "q = p \<or> length q < length p \<or> (length q = length p \<and> str_less p q)"
      if "(q, u) \<in> set m" "Matches q req" for q u
      using best [OF that] by (auto simp: pattern_before_def split: if_splits)
    then show ?thesis using True nk p by fastforce
  next
    case False
    then show ?thesis using W nk MatchWildcard_False [of m req t] by (auto simp: image_iff)
  qed
qed

theorem Resolve_selects_witness:
  "Resolve [(''*'', ''a''), (''gpt-*'', ''b''), (''gp*'', ''c'')] ''gpt-5'' = (''b'', True) \<and>
   (''gpt-5'', ''b'') \<notin> set [(''*'', ''a''), (''gpt-*'', ''b''), (''gp*'', ''c'')]"
proof -
  have run: "Resolve [(''*'', ''a''), (''gpt-*'', ''b''), (''gp*'', ''c'')] ''gpt-5'' = (''b'', True)"
    by code_simp
  show ?thesis using run Resolve_selects [OF _ _ run] by (auto simp: go_map_def)
qed

text \<open>
  ResolveAction applies the primary pair exactly when the whitelist is empty
  or one of its patterns matches; otherwise it yields the fallback pair, or pass
  with no message when no fallback action is configured.
\<close>

lemma ResolveAction_branches:
  "ResolveAction rule model =
    (if ModelWhitelist rule = [] \<or> (\<exists>p \<in> set (ModelWhitelist rule). Matches p model)
     then (Action rule, ErrorMessage rule)
     else if FallbackAction rule = [] then (''pass'', [])
     else (FallbackAction rule, FallbackErrorMessage rule))"
  by (auto simp: ResolveAction_def MatchesAny_iff)

end
