(* ===== verification/GoTime.thy ===== *)
theory GoTime
  imports Prelude
begin

text \<open>
  Instants and durations of the Go time package.  An instant is its signed
  number of nanoseconds since the Unix epoch and a duration is a number of
  nanoseconds; the zero Time is January 1 of year 1, UTC.  All instants the code
  handles lie far inside the representable range, so both are unbounded
  integers.  The clock of a request is part of the state the components thread:
  it advances while the code waits.
\<close>

type_synonym instant = int
type_synonym duration = int

definition zero_time :: instant where
  "zero_time = - 62135596800000000000"

definition is_zero :: "instant \<Rightarrow> bool" where
  "is_zero t = (t = zero_time)"

definition millisecond :: duration where
  "millisecond = 1000000"

definition second :: duration where
  "second = 1000000000"

definition minute :: duration where
  "minute = 60000000000"

definition hour :: duration where
  "hour = 3600000000000"

lemmas durations = millisecond_def second_def minute_def hour_def

lemma is_zero_zero [simp]: "is_zero zero_time"
  by (simp add: is_zero_def)

text \<open>time.Truncate(time.Microsecond), and the database's rounding to microseconds.\<close>

definition trunc_us :: "instant \<Rightarrow> instant" where
  "trunc_us t = t - t mod 1000"

definition db_us :: "instant \<Rightarrow> instant" where
  "db_us t = (t + 500) - (t + 500) mod 1000"

lemma db_us_trunc [simp]: "db_us (trunc_us t) = trunc_us t"
proof -
  obtain q where "trunc_us t = 1000 * q"
    using minus_mod_eq_mult_div [of t 1000] by (auto simp: trunc_us_def)
  then show ?thesis by (simp add: db_us_def)
qed

section \<open>A request context and its clock\<close>

text \<open>
  A request context as the code uses it: \<^term>\<open>Some t\<close> in \<open>cancel_at\<close> means the
  context is done from instant \<open>t\<close> on (cancellation or deadline), and the clock
  advances only when the goroutine waits.  When a timer and the cancellation are
  ready together, Go's select picks either one: \<open>tie_timer\<close> is that choice.
\<close>

record ctx =
  clock :: instant
  cancel_at :: "instant option"
  tie_timer :: bool

definition ctx_done :: "ctx \<Rightarrow> bool" where
  "ctx_done c = (case cancel_at c of None \<Rightarrow> False | Some t \<Rightarrow> t \<le> clock c)"

text \<open>The two-way select between Done and a timer of positive duration d.\<close>

definition select_timer :: "ctx \<Rightarrow> duration \<Rightarrow> bool \<times> ctx" where
  "select_timer c d =
     (case cancel_at c of
        None \<Rightarrow> (True, c\<lparr>clock := clock c + d\<rparr>)
      | Some t \<Rightarrow>
          if clock c + d < t \<or> (clock c + d = t \<and> tie_timer c)
          then (True, c\<lparr>clock := clock c + d\<rparr>)
          else (False, c\<lparr>clock := max (clock c) t\<rparr>))"

lemma select_timer_clock:
  "0 \<le> d \<Longrightarrow> select_timer c d = (b, c') \<Longrightarrow> clock c \<le> clock c' \<and> clock c' \<le> clock c + d"
  by (auto simp: select_timer_def split: option.splits if_splits)

lemma select_timer_False:
  "select_timer c d = (False, c') \<Longrightarrow> ctx_done c'"
  by (auto simp: select_timer_def ctx_done_def split: option.splits if_splits)

lemma select_timer_cancel_at:
  "select_timer c d = (b, c') \<Longrightarrow> cancel_at c' = cancel_at c"
  by (auto simp: select_timer_def split: option.splits if_splits)

end
