(* ===== verification/Failover.thy ===== *)
theory Failover
  imports GoTime
begin

text \<open>
  Request-local failover: internal/gateway/failover (state.go, budgets.go).  The
  upstream error type E is a type variable with its RetryFailure method as an
  argument; the TempUnscheduler adapter and the observer are events appended to
  the state the functions thread, in call order.  The clock and cancellation are
  those of the request context.
\<close>

section \<open>Data\<close>

datatype FailoverAction = FailoverContinue | FailoverExhausted | FailoverCanceled

definition MaxSameProviderRetries :: int where "MaxSameProviderRetries = 3"
definition SameProviderRetryDelay :: duration where "SameProviderRetryDelay = 500 * millisecond"
definition MaxRequestScopedRetryDelay :: duration where "MaxRequestScopedRetryDelay = 8 * second"
definition SingleProviderBackoffDelay :: duration where "SingleProviderBackoffDelay = 2 * second"

lemmas failover_consts = MaxSameProviderRetries_def SameProviderRetryDelay_def
  MaxRequestScopedRetryDelay_def SingleProviderBackoffDelay_def durations

record FailureInfo =
  StatusCode :: int
  FiForceCacheBilling :: bool
  RetryableOnSameProvider :: bool
  RequestScopedTransient :: bool
  FiSameProviderRetryDelay :: duration
  SameProviderRetryDeadline :: instant
  SameProviderRetryMax :: int
  RetryNext :: bool

datatype event =
    SameProviderRetryEvent int int int int duration
      \<comment> \<open>provider, status, retry count, retry limit, delay\<close>
  | SwitchProviderEvent int int int int
      \<comment> \<open>provider, status, switch count, maximum\<close>
  | SingleProviderBackoffEvent duration int int
  | SingleProviderRetryEvent int int
  | TempUnscheduled int

record 'e FailoverState =
  SwitchCount :: int
  MaxSwitches :: int
  FailedProviderIDs :: "int set"
  SameProviderRetryCount :: "int \<rightharpoonup> int"
  LastFailoverErr :: 'e
  ForceCacheBilling :: bool
  HasBoundSession :: bool

text \<open>What one call sees and leaves: the context and the calls it made outwards.\<close>

record fo_env =
  fo_ctx :: ctx
  fo_events :: "event list"

definition emit :: "event \<Rightarrow> fo_env \<Rightarrow> fo_env" where
  "emit e w = w\<lparr>fo_events := fo_events w @ [e]\<rparr>"

section \<open>Retry admission and delay\<close>

text \<open>The doubling loop: n is the number of iterations left, retryCount - i.\<close>

fun backoff_loop :: "nat \<Rightarrow> duration \<Rightarrow> duration" where
  "backoff_loop 0 delay = delay"
| "backoff_loop (Suc n) delay =
     (if MaxRequestScopedRetryDelay div 2 \<le> delay then MaxRequestScopedRetryDelay
      else backoff_loop n (delay * 2))"

definition SameProviderRetryDelayFor :: "FailureInfo option \<Rightarrow> int \<Rightarrow> duration" where
  "SameProviderRetryDelayFor failoverErr retryCount =
     (case failoverErr of
        Some f \<Rightarrow>
          if 0 < FiSameProviderRetryDelay f then FiSameProviderRetryDelay f
          else if \<not> RequestScopedTransient f \<or> retryCount \<le> 1 then SameProviderRetryDelay
          else backoff_loop (nat (retryCount - 1)) SameProviderRetryDelay
      | None \<Rightarrow> SameProviderRetryDelay)"

definition SameProviderRetryDeadlineAllows :: "instant \<Rightarrow> FailureInfo option \<Rightarrow> bool" where
  "SameProviderRetryDeadlineAllows now failoverErr =
     (case failoverErr of
        None \<Rightarrow> True
      | Some f \<Rightarrow> is_zero (SameProviderRetryDeadline f) \<or> now < SameProviderRetryDeadline f)"

definition SameProviderRetryAllowed :: "instant \<Rightarrow> FailureInfo option \<Rightarrow> int \<Rightarrow> int \<Rightarrow> bool" where
  "SameProviderRetryAllowed now failoverErr retryCount retryLimit =
     (case failoverErr of
        None \<Rightarrow> False
      | Some f \<Rightarrow>
          if \<not> RetryableOnSameProvider f then False
          else if \<not> SameProviderRetryDeadlineAllows now failoverErr then False
          else if 0 < SameProviderRetryMax f then
            (if retryLimit \<le> 0 then False
             else retryCount < (if SameProviderRetryMax f < retryLimit
                                then SameProviderRetryMax f else retryLimit))
          else if \<not> is_zero (SameProviderRetryDeadline f) then True
          else 0 < retryLimit \<and> retryCount < retryLimit)"

definition EffectiveSameProviderRetryLimit :: "FailureInfo option \<Rightarrow> int \<Rightarrow> int" where
  "EffectiveSameProviderRetryLimit failure limit =
     (case failure of
        None \<Rightarrow> limit
      | Some f \<Rightarrow>
          if 0 < limit \<and> 0 < SameProviderRetryMax f \<and> SameProviderRetryMax f < limit
          then SameProviderRetryMax f else limit)"

definition NeedForceCacheBilling :: "bool \<Rightarrow> FailureInfo option \<Rightarrow> bool \<Rightarrow> bool" where
  "NeedForceCacheBilling hasBoundSession failoverErr sameProviderRetry =
     ((hasBoundSession \<and> \<not> sameProviderRetry) \<or>
      (case failoverErr of None \<Rightarrow> False | Some f \<Rightarrow> FiForceCacheBilling f))"

definition SleepWithContext :: "duration \<Rightarrow> fo_env \<Rightarrow> bool \<times> fo_env" where
  "SleepWithContext d w =
     (if d \<le> 0 then (True, w)
      else case select_timer (fo_ctx w) d of (fired, c) \<Rightarrow> (fired, w\<lparr>fo_ctx := c\<rparr>))"

section \<open>The state machine\<close>

definition NewFailoverState :: "'e \<Rightarrow> int \<Rightarrow> bool \<Rightarrow> 'e FailoverState" where
  "NewFailoverState zeroE maxSwitches hasBoundSession =
     \<lparr>SwitchCount = 0, MaxSwitches = maxSwitches, FailedProviderIDs = {},
      SameProviderRetryCount = Map.empty, LastFailoverErr = zeroE,
      ForceCacheBilling = False, HasBoundSession = hasBoundSession\<rparr>"

definition PlatformAntigravity :: string where
  "PlatformAntigravity = ''antigravity''"

definition HandleFailoverError ::
  "('e \<Rightarrow> FailureInfo option) \<Rightarrow> 'e FailoverState \<Rightarrow> fo_env \<Rightarrow> int \<Rightarrow> string \<Rightarrow> int \<Rightarrow> 'e
   \<Rightarrow> FailoverAction \<times> 'e FailoverState \<times> fo_env" where
  "HandleFailoverError rf s w providerID platform retryLimit failoverErr =
     (if ctx_done (fo_ctx w) then (FailoverCanceled, s, w)
      else
        let s = s\<lparr>LastFailoverErr := failoverErr\<rparr> in
        case rf failoverErr of
          None \<Rightarrow> (FailoverExhausted, s, w)
        | Some failure \<Rightarrow>
          if \<not> RetryNext failure then (FailoverExhausted, s, w)
          else
            let retryCount = mget0 (SameProviderRetryCount s) providerID;
                sameProviderRetry =
                  SameProviderRetryAllowed (clock (fo_ctx w)) (Some failure) retryCount retryLimit;
                s = (if NeedForceCacheBilling (HasBoundSession s) (Some failure) sameProviderRetry
                     then s\<lparr>ForceCacheBilling := True\<rparr> else s)
            in if sameProviderRetry then
                 let s = s\<lparr>SameProviderRetryCount :=
                           (SameProviderRetryCount s)(providerID \<mapsto> retryCount + 1)\<rparr>;
                     retryDelay = SameProviderRetryDelayFor (Some failure) (retryCount + 1);
                     w = emit (SameProviderRetryEvent providerID (StatusCode failure)
                                 (retryCount + 1) retryLimit retryDelay) w;
                     (fired, w) = SleepWithContext retryDelay w
                 in ((if fired then FailoverContinue else FailoverCanceled), s, w)
               else
                 let w = (if RetryableOnSameProvider failure
                          then emit (TempUnscheduled providerID) w else w);
                     s = s\<lparr>FailedProviderIDs := insert providerID (FailedProviderIDs s)\<rparr>
                 in if MaxSwitches s \<le> SwitchCount s then (FailoverExhausted, s, w)
                    else
                      let s = s\<lparr>SwitchCount := SwitchCount s + 1\<rparr>;
                          w = emit (SwitchProviderEvent providerID (StatusCode failure)
                                      (SwitchCount s) (MaxSwitches s)) w
                      in if platform = PlatformAntigravity then
                           let (fired, w) = SleepWithContext ((SwitchCount s - 1) * second) w
                           in ((if fired then FailoverContinue else FailoverCanceled), s, w)
                         else (FailoverContinue, s, w))"

definition HandleSelectionExhausted ::
  "('e \<Rightarrow> FailureInfo option) \<Rightarrow> 'e FailoverState \<Rightarrow> fo_env
   \<Rightarrow> FailoverAction \<times> 'e FailoverState \<times> fo_env" where
  "HandleSelectionExhausted rf s w =
     (if ctx_done (fo_ctx w) then (FailoverCanceled, s, w)
      else case rf (LastFailoverErr s) of
        None \<Rightarrow> (FailoverExhausted, s, w)
      | Some failure \<Rightarrow>
          if StatusCode failure = 503 \<and> SwitchCount s \<le> MaxSwitches s then
            let w = emit (SingleProviderBackoffEvent SingleProviderBackoffDelay
                            (SwitchCount s) (MaxSwitches s)) w;
                (fired, w) = SleepWithContext SingleProviderBackoffDelay w
            in if \<not> fired then (FailoverCanceled, s, w)
               else (FailoverContinue, s\<lparr>FailedProviderIDs := {}\<rparr>,
                     emit (SingleProviderRetryEvent (SwitchCount s) (MaxSwitches s)) w)
          else (FailoverExhausted, s, w))"

section \<open>Budgets\<close>

definition OAuth429MaxProviderAttempts :: int where "OAuth429MaxProviderAttempts = 3"
definition OAuth429StormMinSwitches :: int where "OAuth429StormMinSwitches = 1"
definition FirstOutputTimeoutMaxSwitches :: int where "FirstOutputTimeoutMaxSwitches = 1"

lemmas budget_consts = OAuth429MaxProviderAttempts_def OAuth429StormMinSwitches_def
  FirstOutputTimeoutMaxSwitches_def

record OAuth429State =
  grokFollowupPending :: bool

record OAuth429Provider =
  OpenAI :: bool
  Grok :: bool

text \<open>A nil state is None; the updated state is returned beside the decision.\<close>

definition StopOAuth429 ::
  "OAuth429Provider \<Rightarrow> int \<Rightarrow> int \<Rightarrow> OAuth429State option \<Rightarrow> bool \<times> OAuth429State option" where
  "StopOAuth429 prov status failedSwitches state =
     (if failedSwitches < OAuth429StormMinSwitches then (False, state)
      else if (case state of None \<Rightarrow> False | Some st \<Rightarrow> grokFollowupPending st) then (True, state)
      else if Grok prov then
        (case state of
           None \<Rightarrow> (status = 429 \<and> 2 \<le> failedSwitches, state)
         | Some st \<Rightarrow>
             (False, Some (if status = 429 then st\<lparr>grokFollowupPending := True\<rparr> else st)))
      else if status \<noteq> 429 \<or> \<not> OpenAI prov then (False, state)
      else (OAuth429MaxProviderAttempts \<le> failedSwitches, state))"

definition FirstOutputExhausted :: "bool \<Rightarrow> int option \<Rightarrow> bool \<times> int option" where
  "FirstOutputExhausted eligible switches =
     (case switches of
        None \<Rightarrow> (False, None)
      | Some n \<Rightarrow>
          if \<not> eligible then (False, Some n)
          else if FirstOutputTimeoutMaxSwitches \<le> n then (True, Some n)
          else (False, Some (n + 1)))"

section \<open>Lemmas: delay and admission\<close>

lemma backoff_loop_closed:
  "backoff_loop n (SameProviderRetryDelay * 2 ^ k)
     = (if k + n \<le> 4 \<or> n = 0 then SameProviderRetryDelay * 2 ^ (k + n)
        else MaxRequestScopedRetryDelay)"
proof (induction n arbitrary: k)
  case (Suc n)
  have step: "SameProviderRetryDelay * 2 ^ k * 2 = SameProviderRetryDelay * 2 ^ Suc k"
    by simp
  show ?case
  proof (cases "3 \<le> k")
    case True
    then have "(8 :: int) \<le> 2 ^ k" using power_increasing [of 3 k "2 :: int"] by simp
    then have hit: "MaxRequestScopedRetryDelay div 2 \<le> SameProviderRetryDelay * 2 ^ k"
      by (simp add: failover_consts)
    show ?thesis
    proof (cases "k = 3 \<and> n = 0")
      case True
      then show ?thesis by (simp add: failover_consts)
    next
      case False
      then show ?thesis using hit True by auto
    qed
  next
    case False
    then have "k = 0 \<or> k = 1 \<or> k = 2" by auto
    then have miss: "\<not> MaxRequestScopedRetryDelay div 2 \<le> SameProviderRetryDelay * 2 ^ k"
      by (auto simp: failover_consts)
    have "backoff_loop (Suc n) (SameProviderRetryDelay * 2 ^ k)
        = backoff_loop n (SameProviderRetryDelay * 2 ^ Suc k)"
      unfolding backoff_loop.simps(2) if_not_P [OF miss] step ..
    then show ?thesis using Suc.IH [of "Suc k"] False by auto
  qed
qed simp

lemma SameProviderRetryDelayFor_pos: "0 < SameProviderRetryDelayFor f n"
proof -
  have "0 < backoff_loop k (SameProviderRetryDelay * 2 ^ 0)" for k
    unfolding backoff_loop_closed by (simp add: failover_consts)
  then have "0 < backoff_loop k SameProviderRetryDelay" for k
    by simp
  then show ?thesis
    by (auto simp: SameProviderRetryDelayFor_def failover_consts split: option.split)
qed

section \<open>Lemmas: the outcomes of HandleFailoverError\<close>

text \<open>
  The four ways the handler leaves the state.  Every later fact about it is a
  case distinction over this relation.
\<close>

inductive handled ::
  "('e \<Rightarrow> FailureInfo option) \<Rightarrow> int \<Rightarrow> int \<Rightarrow> 'e \<Rightarrow> 'e FailoverState \<Rightarrow> FailoverAction
   \<Rightarrow> 'e FailoverState \<Rightarrow> bool"
  for rf :: "'e \<Rightarrow> FailureInfo option" and pid limit :: int and err :: 'e and s :: "'e FailoverState"
where
  h_canceled: "handled rf pid limit err s FailoverCanceled s"
| h_final: "rf err = None \<or> (\<exists>f. rf err = Some f \<and> \<not> RetryNext f) \<Longrightarrow>
    handled rf pid limit err s FailoverExhausted (s\<lparr>LastFailoverErr := err\<rparr>)"
| h_retry: "rf err = Some f \<Longrightarrow> RetryNext f \<Longrightarrow>
    SameProviderRetryAllowed now (Some f) (mget0 (SameProviderRetryCount s) pid) limit \<Longrightarrow>
    a \<noteq> FailoverExhausted \<Longrightarrow>
    handled rf pid limit err s a
      (s\<lparr>LastFailoverErr := err,
         ForceCacheBilling := ForceCacheBilling s \<or> NeedForceCacheBilling (HasBoundSession s) (Some f) True,
         SameProviderRetryCount := (SameProviderRetryCount s)(pid \<mapsto> mget0 (SameProviderRetryCount s) pid + 1)\<rparr>)"
| h_exhausted: "rf err = Some f \<Longrightarrow> RetryNext f \<Longrightarrow> MaxSwitches s \<le> SwitchCount s \<Longrightarrow>
    handled rf pid limit err s FailoverExhausted
      (s\<lparr>LastFailoverErr := err,
         ForceCacheBilling := ForceCacheBilling s \<or> NeedForceCacheBilling (HasBoundSession s) (Some f) False,
         FailedProviderIDs := insert pid (FailedProviderIDs s)\<rparr>)"
| h_switch: "rf err = Some f \<Longrightarrow> RetryNext f \<Longrightarrow> SwitchCount s < MaxSwitches s \<Longrightarrow>
    a \<noteq> FailoverExhausted \<Longrightarrow>
    handled rf pid limit err s a
      (s\<lparr>LastFailoverErr := err,
         ForceCacheBilling := ForceCacheBilling s \<or> NeedForceCacheBilling (HasBoundSession s) (Some f) False,
         FailedProviderIDs := insert pid (FailedProviderIDs s),
         SwitchCount := SwitchCount s + 1\<rparr>)"

inductive_cases handled_continueE: "handled rf pid limit err s FailoverContinue s'"
inductive_cases handled_exhaustedE: "handled rf pid limit err s FailoverExhausted s'"
inductive_cases handledE: "handled rf pid limit err s a s'"

lemma HandleFailoverError_handled:
  assumes "HandleFailoverError rf s w pid platform limit err = (a, s', w')"
  shows "handled rf pid limit err s a s'"
proof -
  note U = HandleFailoverError_def Let_def
  show ?thesis
  proof (cases "ctx_done (fo_ctx w)")
    case True
    then show ?thesis using assms by (auto simp: U intro: h_canceled)
  next
    case live: False
    show ?thesis
    proof (cases "\<exists>f. rf err = Some f \<and> RetryNext f")
      case False
      then show ?thesis using assms live
        by (auto simp: U split: option.splits intro!: h_final)
    next
      case True
      then obtain f where f: "rf err = Some f" "RetryNext f" by blast
      show ?thesis
      proof (cases "SameProviderRetryAllowed (clock (fo_ctx w)) (Some f)
               (mget0 (SameProviderRetryCount s) pid) limit")
        case True
        have "a \<noteq> FailoverExhausted" "s' = (s\<lparr>LastFailoverErr := err,
           ForceCacheBilling := ForceCacheBilling s \<or> NeedForceCacheBilling (HasBoundSession s) (Some f) True,
           SameProviderRetryCount := (SameProviderRetryCount s)(pid \<mapsto> mget0 (SameProviderRetryCount s) pid + 1)\<rparr>)"
          using assms live f True by (auto simp: U split: prod.splits if_splits)
        then show ?thesis using f True by (simp only:) (rule h_retry)
      next
        case no: False
        show ?thesis
        proof (cases "MaxSwitches s \<le> SwitchCount s")
          case True
          have "a = FailoverExhausted" "s' = (s\<lparr>LastFailoverErr := err,
           ForceCacheBilling := ForceCacheBilling s \<or> NeedForceCacheBilling (HasBoundSession s) (Some f) False,
           FailedProviderIDs := insert pid (FailedProviderIDs s)\<rparr>)"
            using assms live f no True by (auto simp: U split: prod.splits if_splits)
          then show ?thesis using f True by (simp only:) (rule h_exhausted)
        next
          case False
          have "a \<noteq> FailoverExhausted" "s' = (s\<lparr>LastFailoverErr := err,
           ForceCacheBilling := ForceCacheBilling s \<or> NeedForceCacheBilling (HasBoundSession s) (Some f) False,
           FailedProviderIDs := insert pid (FailedProviderIDs s),
           SwitchCount := SwitchCount s + 1\<rparr>)"
            using assms live f no False by (auto simp: U split: prod.splits if_splits)
          then show ?thesis using f False by (simp only: not_le) (rule h_switch)
        qed
      qed
    qed
  qed
qed

section \<open>Lemmas: one request's recovery\<close>

fun is_switch :: "event \<Rightarrow> bool" where
  "is_switch (SwitchProviderEvent _ _ _ _) = True"
| "is_switch _ = False"

definition switches :: "event list \<Rightarrow> int" where
  "switches evs = int (length (filter is_switch evs))"

lemma switches_simps [simp]:
  "switches [] = 0"
  "switches (evs @ evs') = switches evs + switches evs'"
  "switches (e # evs) = (if is_switch e then 1 else 0) + switches evs"
  by (simp_all add: switches_def)

lemma emit_simps [simp]:
  "fo_ctx (emit e w) = fo_ctx w"
  "fo_events (emit e w) = fo_events w @ [e]"
  by (simp_all add: emit_def)

lemma SleepWithContext_events: "SleepWithContext d w = (b, w') \<Longrightarrow> fo_events w' = fo_events w"
  by (auto simp: SleepWithContext_def split: if_splits prod.splits)

lemma SleepWithContext_canceled: "SleepWithContext d w = (False, w') \<Longrightarrow> ctx_done (fo_ctx w')"
  by (auto simp: SleepWithContext_def split: if_splits prod.splits dest: select_timer_False)

lemma HandleFailoverError_events:
  assumes "HandleFailoverError rf s w pid platform limit err = (a, s', w')"
  shows "switches (fo_events w') - switches (fo_events w) = SwitchCount s' - SwitchCount s"
  using assms
  by (auto simp: HandleFailoverError_def Let_def split: if_splits option.splits prod.splits
      dest!: SleepWithContext_events)

lemma HandleSelectionExhausted_cases:
  assumes "HandleSelectionExhausted rf s w = (a, s', w')"
  shows "(s' = s \<and> a \<noteq> FailoverContinue) \<or>
    (a = FailoverContinue \<and> s' = s\<lparr>FailedProviderIDs := {}\<rparr> \<and>
      (\<exists>f. rf (LastFailoverErr s) = Some f \<and> StatusCode f = 503))"
  using assms
  by (auto simp: HandleSelectionExhausted_def Let_def split: if_splits option.splits prod.splits)

lemma HandleSelectionExhausted_events:
  assumes "HandleSelectionExhausted rf s w = (a, s', w')"
  shows "switches (fo_events w') = switches (fo_events w)"
  using assms
  by (auto simp: HandleSelectionExhausted_def Let_def split: if_splits option.splits prod.splits
      dest!: SleepWithContext_events)

text \<open>
  What the request loop may do with one state, in any order and with any
  provider, limit, failure and context: record a failure, report that selection
  ran out, or exclude a skipped candidate.
\<close>

inductive fo_run ::
  "('e \<Rightarrow> FailureInfo option) \<Rightarrow> 'e \<Rightarrow> int \<Rightarrow> bool \<Rightarrow> 'e FailoverState \<Rightarrow> event list \<Rightarrow> bool"
  for rf :: "'e \<Rightarrow> FailureInfo option" and zeroE :: 'e and maxSw :: int and bound :: bool
where
  fo_start: "fo_run rf zeroE maxSw bound (NewFailoverState zeroE maxSw bound) []"
| fo_fail: "fo_run rf zeroE maxSw bound s evs \<Longrightarrow>
    HandleFailoverError rf s \<lparr>fo_ctx = c, fo_events = evs\<rparr> pid platform limit err = (a, s', w') \<Longrightarrow>
    fo_run rf zeroE maxSw bound s' (fo_events w')"
| fo_select: "fo_run rf zeroE maxSw bound s evs \<Longrightarrow>
    HandleSelectionExhausted rf s \<lparr>fo_ctx = c, fo_events = evs\<rparr> = (a, s', w') \<Longrightarrow>
    fo_run rf zeroE maxSw bound s' (fo_events w')"
| fo_skip: "fo_run rf zeroE maxSw bound s evs \<Longrightarrow>
    fo_run rf zeroE maxSw bound (s\<lparr>FailedProviderIDs := insert pid (FailedProviderIDs s)\<rparr>) evs"

definition fo_inv :: "int \<Rightarrow> 'e FailoverState \<Rightarrow> event list \<Rightarrow> bool" where
  "fo_inv maxSw s evs = (MaxSwitches s = maxSw \<and> switches evs = SwitchCount s \<and>
     0 \<le> SwitchCount s \<and> SwitchCount s \<le> max 0 maxSw \<and>
     (\<forall>p. 0 \<le> mget0 (SameProviderRetryCount s) p))"

lemma handled_fields:
  assumes "handled rf pid limit err s a s'"
  shows "MaxSwitches s' = MaxSwitches s" "HasBoundSession s' = HasBoundSession s"
    "SwitchCount s' = SwitchCount s \<or> (SwitchCount s' = SwitchCount s + 1 \<and> SwitchCount s < MaxSwitches s)"
    "mget0 (SameProviderRetryCount s) p \<le> mget0 (SameProviderRetryCount s') p"
    "FailedProviderIDs s \<subseteq> FailedProviderIDs s'"
    "ForceCacheBilling s \<Longrightarrow> ForceCacheBilling s'"
  using assms by (auto elim!: handledE)

lemma handled_Continue:
  assumes "handled rf pid limit err s FailoverContinue s'"
  shows "(\<exists>f now. rf err = Some f \<and> RetryNext f \<and>
       SameProviderRetryAllowed now (Some f) (mget0 (SameProviderRetryCount s) pid) limit \<and>
       LastFailoverErr s' = err \<and> FailedProviderIDs s' = FailedProviderIDs s \<and>
       SwitchCount s' = SwitchCount s \<and>
       SameProviderRetryCount s' =
         (SameProviderRetryCount s)(pid \<mapsto> mget0 (SameProviderRetryCount s) pid + 1) \<and>
       ForceCacheBilling s' = (ForceCacheBilling s \<or> FiForceCacheBilling f)) \<or>
    (\<exists>f. rf err = Some f \<and> RetryNext f \<and> SwitchCount s < MaxSwitches s \<and>
       LastFailoverErr s' = err \<and> FailedProviderIDs s' = insert pid (FailedProviderIDs s) \<and>
       SwitchCount s' = SwitchCount s + 1 \<and>
       SameProviderRetryCount s' = SameProviderRetryCount s \<and>
       ForceCacheBilling s' = (ForceCacheBilling s \<or> HasBoundSession s \<or> FiForceCacheBilling f))"
  using assms by (rule handled_continueE) (auto simp: NeedForceCacheBilling_def)

lemma fo_run_inv: "fo_run rf zeroE maxSw bound s evs \<Longrightarrow> fo_inv maxSw s evs"
proof (induction rule: fo_run.induct)
  case fo_start
  then show ?case by (simp add: fo_inv_def NewFailoverState_def)
next
  case (fo_fail s evs c pid platform limit err a s' w')
  note h = HandleFailoverError_handled [OF fo_fail.hyps(2)]
  have "0 \<le> mget0 (SameProviderRetryCount s') p" for p
    using fo_fail.IH handled_fields(4) [OF h, of p] order_trans by (auto simp: fo_inv_def)
  then show ?case
    using fo_fail.IH handled_fields(1,3) [OF h] HandleFailoverError_events [OF fo_fail.hyps(2)]
    by (auto simp: fo_inv_def)
next
  case (fo_select s evs c a s' w')
  then show ?case
    using HandleSelectionExhausted_cases [OF fo_select.hyps(2)]
      HandleSelectionExhausted_events [OF fo_select.hyps(2)]
    by (auto simp: fo_inv_def)
next
  case (fo_skip s evs pid)
  then show ?case by (simp add: fo_inv_def)
qed

section \<open>Properties\<close>

text \<open>
  the wait before the n-th same-provider retry: a positive supplied duration
  wins; request-scoped transient failures wait half a second doubled n - 1
  times, capped at eight seconds; every other failure waits half a second.
\<close>

theorem SameProviderRetryDelayFor_closed:
  "SameProviderRetryDelayFor failure n =
     (case failure of
        None \<Rightarrow> 500 * millisecond
      | Some f \<Rightarrow>
          if 0 < FiSameProviderRetryDelay f then FiSameProviderRetryDelay f
          else if RequestScopedTransient f
            then min (8 * second) (500 * millisecond * 2 ^ nat (n - 1))
          else 500 * millisecond)"
proof -
  have loop: "backoff_loop k SameProviderRetryDelay = min (8 * second) (500 * millisecond * 2 ^ k)" for k
  proof (cases "k \<le> 4")
    case True
    then have "k \<in> {0, 1, 2, 3, 4}" by auto
    then show ?thesis using backoff_loop_closed [of k 0] by (auto simp: failover_consts)
  next
    case False
    then have "(2 :: int) ^ 5 \<le> 2 ^ k" by (intro power_increasing) auto
    then show ?thesis using backoff_loop_closed [of k 0] False by (auto simp: failover_consts)
  qed
  show ?thesis
    by (auto simp: SameProviderRetryDelayFor_def loop split: option.split)
       (simp_all add: failover_consts)
qed

text \<open>
  another same-provider attempt is admitted exactly when the failure opts in,
  its deadline (if any) is still ahead, and either the deadline stands alone or
  the count is below the effective limit of a positive budget.
\<close>

theorem SameProviderRetryAllowed_iff:
  "SameProviderRetryAllowed now failure n limit \<longleftrightarrow>
     (\<exists>f. failure = Some f \<and> RetryableOnSameProvider f \<and>
        (is_zero (SameProviderRetryDeadline f) \<or> now < SameProviderRetryDeadline f) \<and>
        ((SameProviderRetryMax f \<le> 0 \<and> \<not> is_zero (SameProviderRetryDeadline f)) \<or>
         (0 < limit \<and> n < EffectiveSameProviderRetryLimit failure limit)))"
  by (auto simp: SameProviderRetryAllowed_def SameProviderRetryDeadlineAllows_def
      EffectiveSameProviderRetryLimit_def split: option.splits)

text \<open>
  C35: whatever the request loop does with one failover state, the number of
  provider switches it announced is the switch count, and that never exceeds the
  configured budget (none for a negative one).
\<close>

theorem switch_budget_respected:
  assumes "fo_run rf zeroE maxSw bound s evs"
  shows "switches evs = SwitchCount s \<and> 0 \<le> SwitchCount s \<and> SwitchCount s \<le> max 0 maxSw"
  using fo_run_inv [OF assms] by (simp add: fo_inv_def)

definition sample_failure :: FailureInfo where
  "sample_failure = \<lparr>StatusCode = 503, FiForceCacheBilling = False, RetryableOnSameProvider = False,
     RequestScopedTransient = False, FiSameProviderRetryDelay = 0,
     SameProviderRetryDeadline = zero_time, SameProviderRetryMax = 0, RetryNext = True\<rparr>"

theorem switch_budget_respected_witness:
  "switches [SwitchProviderEvent 7 503 1 1] = 1 \<and>
   fo_run (\<lambda>e :: FailureInfo option. e) None 1 False
     \<lparr>SwitchCount = 1, MaxSwitches = 1, FailedProviderIDs = {7}, SameProviderRetryCount = Map.empty,
      LastFailoverErr = Some sample_failure, ForceCacheBilling = False, HasBoundSession = False\<rparr>
     [SwitchProviderEvent 7 503 1 1]"
proof -
  let ?c = "\<lparr>clock = 0, cancel_at = None, tie_timer = True\<rparr>"
  have run: "fo_run (\<lambda>e :: FailureInfo option. e) None 1 False
     \<lparr>SwitchCount = 1, MaxSwitches = 1, FailedProviderIDs = {7}, SameProviderRetryCount = Map.empty,
      LastFailoverErr = Some sample_failure, ForceCacheBilling = False, HasBoundSession = False\<rparr>
     (fo_events \<lparr>fo_ctx = ?c, fo_events = [SwitchProviderEvent 7 503 1 1]\<rparr>)"
    by (rule fo_fail [OF fo_start, where pid = 7 and platform = "''openai''" and limit = 0
          and err = "Some sample_failure" and a = FailoverContinue and c = ?c])
       (simp add: HandleFailoverError_def NewFailoverState_def sample_failure_def ctx_done_def
          SameProviderRetryAllowed_def SameProviderRetryDeadlineAllows_def NeedForceCacheBilling_def
          PlatformAntigravity_def emit_def)
  show ?thesis using switch_budget_respected [OF run] run by simp
qed

end
