(* ===== verification/MessagesLoop.thy ===== *)
theory MessagesLoop
  imports Failover
begin

text \<open>
  The Messages request loop: RunMessages of internal/gateway/text/messages.go.
  The adapter (the MessagePorts interface) is a parameter: each of its
  operations may answer anything that depends on everything that happened so
  far, so a port is a function of the trace of calls made up to that moment.
  The trace records the loop's calls in order, with the arguments the code
  passes; the waits and notices of the failover state appear in it as well.
\<close>

section \<open>Data\<close>

datatype FailureKind = FailureOther | FailurePolicy | FailurePromptTooLong

type_synonym go_error = string

record AttemptFailure =
  Cause :: go_error
  Policy :: "FailureInfo option"

text \<open>A nil pointer to an AttemptFailure is None.\<close>

definition RetryFailure :: "AttemptFailure option \<Rightarrow> FailureInfo option" where
  "RetryFailure e = (case e of None \<Rightarrow> None | Some f \<Rightarrow> Policy f)"

text \<open>
  Of a Selection the loop reads the provider's identity and platform and the
  retry limit; of an Outcome everything except the attempt result it carries.
\<close>

record Selection =
  ProviderID :: int
  Platform :: string
  RetryLimit :: int

record Outcome =
  OutErr :: "go_error option"
  OutFailure :: "AttemptFailure option"
  OutKind :: FailureKind
  OutputChanged :: bool
  HasResult :: bool
  Stop :: bool
  Skip :: bool

record AttemptState =
  AsSwitchCount :: int
  AsForceCacheBilling :: bool

record MessageOptions =
  OptMaxSwitches :: int
  CompletePartialFailure :: bool
  StopOnCanceledContext :: bool
  OptHasBoundSession :: bool

datatype call =
    CBegin
  | CFinish bool
  | CPrepareAttempt
  | CSelect "int set"
  | CFirstSelectionFailure bool
  | CSingleProviderRetry
  | CCanceled
  | CExhausted "AttemptFailure option" string bool
  | CIntercept
  | CAcquire
  | CForward AttemptState
  | CPolicyFailure go_error
  | CFallback go_error bool
  | COtherFailure go_error
  | CComplete AttemptState
  | CSuccess
  | CSwitched
  | CAbandon int
  | CFailover event

type_synonym trace = "call list"

record MessagePorts =
  Context_p :: "trace \<Rightarrow> ctx"
  PrepareAttempt_p :: "trace \<Rightarrow> bool"
  Select_p :: "trace \<Rightarrow> int set \<Rightarrow> (go_error, Selection) result"
  Intercept_p :: "trace \<Rightarrow> bool"
  Acquire_p :: "trace \<Rightarrow> bool"
  Forward_p :: "trace \<Rightarrow> AttemptState \<Rightarrow> Outcome"
  Fallback_p :: "trace \<Rightarrow> go_error \<Rightarrow> bool \<Rightarrow> bool"

section \<open>The loop body\<close>

type_synonym fstate = "AttemptFailure option FailoverState"

text \<open>
  How one pass of the inner loop ends: the function returns with its served
  decision, the inner loop continues, or an accepted group fallback breaks out
  of it.
\<close>

datatype pass = Return bool | Continue fstate | Restart

text \<open>A failover call runs on the current context; its notices enter the trace.\<close>

definition with_failover ::
  "MessagePorts \<Rightarrow> trace \<Rightarrow> (fo_env \<Rightarrow> FailoverAction \<times> fstate \<times> fo_env)
   \<Rightarrow> FailoverAction \<times> fstate \<times> trace" where
  "with_failover p tr f =
     (case f \<lparr>fo_ctx = Context_p p tr, fo_events = []\<rparr> of
        (a, s, w) \<Rightarrow> (a, s, tr @ map CFailover (fo_events w)))"

definition after_select_error ::
  "MessagePorts \<Rightarrow> bool \<Rightarrow> fstate \<Rightarrow> trace \<Rightarrow> pass \<times> trace" where
  "after_select_error p fallbackUsed state tr =
     (if FailedProviderIDs state = {} then (Return False, tr @ [CFirstSelectionFailure fallbackUsed])
      else case with_failover p tr (HandleSelectionExhausted RetryFailure state) of
        (a, state, tr) \<Rightarrow>
          (case a of
             FailoverContinue \<Rightarrow> (Continue state, tr @ [CSingleProviderRetry])
           | FailoverCanceled \<Rightarrow> (Return False, tr @ [CCanceled])
           | FailoverExhausted \<Rightarrow>
               (Return False, tr @ [CExhausted (LastFailoverErr state) [] False])))"

definition after_error ::
  "MessageOptions \<Rightarrow> MessagePorts \<Rightarrow> bool \<Rightarrow> fstate \<Rightarrow> Selection \<Rightarrow> AttemptState \<Rightarrow> Outcome
   \<Rightarrow> go_error \<Rightarrow> trace \<Rightarrow> pass \<times> trace" where
  "after_error options p fallbackUsed state selected attempt outcome err tr =
     (case OutKind outcome of
        FailurePolicy \<Rightarrow> (Return False, tr @ [CPolicyFailure err])
      | FailurePromptTooLong \<Rightarrow>
          (if Fallback_p p tr err fallbackUsed then (Restart, tr @ [CFallback err fallbackUsed])
           else (Return False, tr @ [CFallback err fallbackUsed]))
      | FailureOther \<Rightarrow>
          (case OutFailure outcome of
             Some failure \<Rightarrow>
               if OutputChanged outcome
               then (Return False, tr @ [CExhausted (Some failure) (Platform selected) True])
               else
                 (case with_failover p tr
                     (\<lambda>w. HandleFailoverError RetryFailure state w (ProviderID selected)
                        (Platform selected) (RetryLimit selected) (Some failure)) of
                    (a, state, tr) \<Rightarrow>
                      (case a of
                         FailoverContinue \<Rightarrow>
                           (Continue state, tr @ [CSwitched, CAbandon (ProviderID selected)])
                       | FailoverExhausted \<Rightarrow>
                           (Return False, tr @ [CExhausted (LastFailoverErr state) (Platform selected) False])
                       | FailoverCanceled \<Rightarrow> (Return False, tr @ [CCanceled])))
           | None \<Rightarrow>
               let tr = tr @ [COtherFailure err] in
               if CompletePartialFailure options
               then (Return (HasResult outcome), tr @ [CComplete attempt])
               else (Return False, tr)))"

definition after_select ::
  "MessageOptions \<Rightarrow> MessagePorts \<Rightarrow> bool \<Rightarrow> fstate \<Rightarrow> Selection \<Rightarrow> trace \<Rightarrow> pass \<times> trace" where
  "after_select options p fallbackUsed state selected tr =
     (let intercepted = Intercept_p p tr; tr = tr @ [CIntercept] in
      if intercepted then (Return False, tr)
      else
        let acquired = Acquire_p p tr; tr = tr @ [CAcquire] in
        if \<not> acquired then (Return False, tr)
        else
          let attempt = \<lparr>AsSwitchCount = SwitchCount state,
                         AsForceCacheBilling = ForceCacheBilling state\<rparr>;
              outcome = Forward_p p tr attempt;
              tr = tr @ [CForward attempt] in
          if Stop outcome then (Return False, tr)
          else if Skip outcome then
            (Continue (state\<lparr>FailedProviderIDs :=
               insert (ProviderID selected) (FailedProviderIDs state)\<rparr>), tr)
          else case OutErr outcome of
            Some err \<Rightarrow> after_error options p fallbackUsed state selected attempt outcome err tr
          | None \<Rightarrow> (Return True, tr @ [CSuccess, CComplete attempt]))"

definition loop_pass ::
  "MessageOptions \<Rightarrow> MessagePorts \<Rightarrow> bool \<Rightarrow> fstate \<Rightarrow> trace \<Rightarrow> pass \<times> trace" where
  "loop_pass options p fallbackUsed state tr =
     (if StopOnCanceledContext options \<and> ctx_done (Context_p p tr) then (Return False, tr)
      else
        let prepared = PrepareAttempt_p p tr; tr = tr @ [CPrepareAttempt] in
        if \<not> prepared then (Return False, tr)
        else
          let sel = Select_p p tr (FailedProviderIDs state);
              tr = tr @ [CSelect (FailedProviderIDs state)] in
          case sel of
            Inl _ \<Rightarrow> after_select_error p fallbackUsed state tr
          | Inr selected \<Rightarrow> after_select options p fallbackUsed state selected tr)"

section \<open>The loops\<close>

definition fresh_state :: "MessageOptions \<Rightarrow> fstate" where
  "fresh_state options = NewFailoverState None (OptMaxSwitches options) (OptHasBoundSession options)"

text \<open>
  Nothing in the code bounds the number of passes by itself, so the loop takes
  fuel: None is a run still going after that many passes.
\<close>

fun run_loop ::
  "nat \<Rightarrow> MessageOptions \<Rightarrow> MessagePorts \<Rightarrow> bool \<Rightarrow> fstate \<Rightarrow> trace \<Rightarrow> (bool \<times> trace) option" where
  "run_loop 0 options p fallbackUsed state tr = None"
| "run_loop (Suc n) options p fallbackUsed state tr =
     (case loop_pass options p fallbackUsed state tr of
        (Return served, tr) \<Rightarrow> Some (served, tr)
      | (Continue state, tr) \<Rightarrow> run_loop n options p fallbackUsed state tr
      | (Restart, tr) \<Rightarrow> run_loop n options p True (fresh_state options) tr)"

text \<open>Begin, the loops, and the deferred Finish with the served decision.\<close>

definition RunMessages :: "nat \<Rightarrow> MessageOptions \<Rightarrow> MessagePorts \<Rightarrow> trace option" where
  "RunMessages fuel options p =
     (case run_loop fuel options p False (fresh_state options) [CBegin] of
        None \<Rightarrow> None
      | Some (served, tr) \<Rightarrow> Some (tr @ [CFinish served]))"

section \<open>Lemmas: the shape of one pass\<close>

fun quiet :: "call \<Rightarrow> bool" where
  "quiet CPrepareAttempt = True"
| "quiet (CSelect _) = True"
| "quiet CSingleProviderRetry = True"
| "quiet CIntercept = True"
| "quiet CAcquire = True"
| "quiet (CForward _) = True"
| "quiet (CFallback _ _) = True"
| "quiet CSwitched = True"
| "quiet (CAbandon _) = True"
| "quiet (CFailover _) = True"
| "quiet _ = False"

fun terminal :: "call \<Rightarrow> bool" where
  "terminal CCanceled = True"
| "terminal (CFirstSelectionFailure _) = True"
| "terminal (CPolicyFailure _) = True"
| "terminal (COtherFailure _) = True"
| "terminal (CExhausted _ _ _) = True"
| "terminal _ = False"

fun is_forward :: "call \<Rightarrow> bool" where
  "is_forward (CForward _) = True"
| "is_forward _ = False"

text \<open>How the calls of a returning run end, by the served decision.\<close>

definition ending :: "MessageOptions \<Rightarrow> bool \<Rightarrow> call list \<Rightarrow> bool" where
  "ending options served c =
     ((served \<and> (\<exists>a. c = [CSuccess, CComplete a])) \<or>
      (CompletePartialFailure options \<and> (\<exists>e a. c = [COtherFailure e, CComplete a])) \<or>
      (\<not> served \<and> (c = [] \<or> (\<exists>t. c = [t] \<and> terminal t))))"

text \<open>
  When an attempt may be followed by another one: tr is the trace before it, and
  later the calls after it.  Skip is the adapter's mark that the candidate was set
  aside without a forward.
\<close>

definition replayable :: "MessagePorts \<Rightarrow> trace \<Rightarrow> AttemptState \<Rightarrow> trace \<Rightarrow> bool" where
  "replayable p tr a later =
     (let o' = Forward_p p tr a in \<not> Stop o' \<and> (Skip o' \<or> (\<exists>err. OutErr o' = Some err \<and>
        (OutKind o' = FailurePromptTooLong \<and>
           (\<exists>fb rest. later = CFallback err fb # rest \<and> Fallback_p p (tr @ [CForward a]) err fb) \<or>
         OutKind o' = FailureOther \<and> OutFailure o' \<noteq> None \<and> \<not> OutputChanged o'))))"

lemma replayable_append: "replayable p tr a x \<Longrightarrow> replayable p tr a (x @ y)"
  by (auto simp: replayable_def Let_def)

text \<open>
  Every attempt in the calls, the very last one excepted when the run ends
  there, had a replayable outcome; tr is the trace before the calls.
\<close>

fun fwds_ok :: "MessagePorts \<Rightarrow> bool \<Rightarrow> trace \<Rightarrow> trace \<Rightarrow> bool" where
  "fwds_ok p final tr [] = True"
| "fwds_ok p final tr (c # cs) =
     ((case c of
         CForward a \<Rightarrow>
           (final \<and> list_all (\<lambda>x. \<not> is_forward x) cs) \<or> replayable p tr a cs
       | _ \<Rightarrow> True) \<and> fwds_ok p final (tr @ [c]) cs)"

definition shaped :: "MessageOptions \<Rightarrow> MessagePorts \<Rightarrow> trace \<Rightarrow> pass \<Rightarrow> trace \<Rightarrow> bool" where
  "shaped options p tr r tr' = (\<exists>q c. tr' = tr @ q @ c \<and> list_all quiet q \<and>
     (case r of
        Return served \<Rightarrow> ending options served c \<and> fwds_ok p True tr q
      | _ \<Rightarrow> c = [] \<and> fwds_ok p False tr q))"

lemma fwds_ok_no_forward: "list_all (\<lambda>x. \<not> is_forward x) q \<Longrightarrow> fwds_ok p final tr q"
  by (induction q arbitrary: tr) (auto split: call.splits)

lemma fwds_ok_append:
  "fwds_ok p False tr a \<Longrightarrow> fwds_ok p final (tr @ a) b \<Longrightarrow> fwds_ok p final tr (a @ b)"
  by (induction a arbitrary: tr) (auto split: call.splits intro: replayable_append)

lemma fwds_ok_suffix:
  "fwds_ok p True tr q \<Longrightarrow> list_all (\<lambda>x. \<not> is_forward x) c \<Longrightarrow> fwds_ok p True tr (q @ c)"
  by (induction q arbitrary: tr) (auto simp: fwds_ok_no_forward split: call.splits intro: replayable_append)

lemma fwds_ok_mid:
  "fwds_ok p True tr (pre @ CForward a # rest) \<Longrightarrow> list_ex is_forward rest \<Longrightarrow>
   replayable p (tr @ pre) a rest"
proof (induction pre arbitrary: tr)
  case (Cons c pre)
  then show ?case using Cons.IH [of "tr @ [c]"] by simp
qed (auto simp: list_ex_iff list_all_iff)

lemma shaped_append:
  assumes "list_all quiet q" "fwds_ok p False tr q" "shaped options p (tr @ q) r tr'"
  shows "shaped options p tr r tr'"
proof -
  obtain q' c where s: "tr' = (tr @ q) @ q' @ c" "list_all quiet q'"
    and r: "case r of
        Return served \<Rightarrow> ending options served c \<and> fwds_ok p True (tr @ q) q'
      | _ \<Rightarrow> c = [] \<and> fwds_ok p False (tr @ q) q'"
    using assms(3) unfolding shaped_def by blast
  have "tr' = tr @ (q @ q') @ c" "list_all quiet (q @ q')" using s assms(1) by simp_all
  moreover have "case r of
        Return served \<Rightarrow> ending options served c \<and> fwds_ok p True tr (q @ q')
      | _ \<Rightarrow> c = [] \<and> fwds_ok p False tr (q @ q')"
    using r fwds_ok_append [OF assms(2)] by (auto split: pass.splits)
  ultimately show ?thesis unfolding shaped_def by blast
qed

lemma shaped_Return:
  assumes "list_all quiet q" "fwds_ok p True tr q" "ending options served c"
  shows "shaped options p tr (Return served) (tr @ q @ c)"
  using assms unfolding shaped_def by auto

lemma shaped_Return_now: "ending options served c \<Longrightarrow> shaped options p tr (Return served) (tr @ c)"
  using shaped_Return [of "[]"] by simp

lemma shaped_go_on:
  assumes "list_all quiet q" "fwds_ok p False tr q" "\<forall>b. r \<noteq> Return b"
  shows "shaped options p tr r (tr @ q)"
  using assms unfolding shaped_def by (auto split: pass.splits)

lemma ending_intros:
  "ending options True [CSuccess, CComplete a]"
  "CompletePartialFailure options \<Longrightarrow> ending options b [COtherFailure e, CComplete a]"
  "ending options False []"
  "terminal t \<Longrightarrow> ending options False [t]"
  by (simp_all add: ending_def)

lemma with_failover_trace:
  assumes "with_failover p tr f = (a, s, tr')"
  obtains q where "tr' = tr @ q" "list_all quiet q" "list_all (\<lambda>x. \<not> is_forward x) q"
proof -
  obtain a' s' w where "f \<lparr>fo_ctx = Context_p p tr, fo_events = []\<rparr> = (a', s', w)"
    by (metis prod_cases3)
  then have "tr' = tr @ map CFailover (fo_events w)"
    using assms by (simp add: with_failover_def)
  then show ?thesis using that by (simp add: list.pred_map list_all_iff)
qed

lemma after_select_error_shaped:
  assumes "after_select_error p fb state tr = (r, tr')"
  shows "shaped options p tr r tr'"
proof (cases "FailedProviderIDs state = {}")
  case True
  then show ?thesis using assms
    by (auto simp: after_select_error_def intro!: shaped_Return_now ending_intros)
next
  case False
  obtain a st t where w: "with_failover p tr (HandleSelectionExhausted RetryFailure state) = (a, st, t)"
    by (metis prod_cases3)
  from with_failover_trace [OF this]
  obtain q where q: "t = tr @ q" "list_all quiet q" "list_all (\<lambda>x. \<not> is_forward x) q" .
  show ?thesis
  proof (rule shaped_append [OF q(2)])
    show "fwds_ok p False tr q" using q(3) by (rule fwds_ok_no_forward)
    have "shaped options p t r tr'"
      using assms False w
      by (auto simp: after_select_error_def split: FailoverAction.splits
          intro!: shaped_Return_now shaped_go_on ending_intros)
    then show "shaped options p (tr @ q) r tr'" by (simp only: q(1))
  qed
qed

lemma after_error_ends:
  assumes "after_error options p fb state sel at o' err tr = (r, tr')"
  shows "\<exists>q c. tr' = tr @ q @ c \<and> list_all quiet q \<and> list_all (\<lambda>x. \<not> is_forward x) q \<and>
    ((\<exists>served. r = Return served \<and> ending options served c) \<or>
     ((\<forall>b. r \<noteq> Return b) \<and> c = [] \<and> (OutKind o' = FailurePromptTooLong \<and> q = [CFallback err fb] \<and> Fallback_p p tr err fb \<or>
       (OutKind o' = FailureOther \<and> OutFailure o' \<noteq> None \<and> \<not> OutputChanged o'))))"
proof (cases "OutKind o' = FailureOther \<and> (\<exists>f. OutFailure o' = Some f) \<and> \<not> OutputChanged o'")
  case True
  then obtain f where f: "OutFailure o' = Some f" by blast
  obtain a st t where w: "with_failover p tr (\<lambda>w. HandleFailoverError RetryFailure state w (ProviderID sel)
      (Platform sel) (RetryLimit sel) (Some f)) = (a, st, t)"
    by (metis prod_cases3)
  from with_failover_trace [OF this]
  obtain q where q: "t = tr @ q" "list_all quiet q" "list_all (\<lambda>x. \<not> is_forward x) q" .
  show ?thesis
  proof (cases a)
    case FailoverContinue
    then have "r = Continue st" "tr' = tr @ (q @ [CSwitched, CAbandon (ProviderID sel)]) @ []"
      using assms True f w by (auto simp: after_error_def q(1))
    then show ?thesis using True q(2,3)
      by (intro exI [of _ "q @ [CSwitched, CAbandon (ProviderID sel)]"] exI [of _ "[]"]) simp
  next
    case FailoverExhausted
    then have "r = Return False" "tr' = tr @ q @ [CExhausted (LastFailoverErr st) (Platform sel) False]"
      using assms True f w by (auto simp: after_error_def q(1))
    then show ?thesis using q(2,3) ending_intros(4) by (metis terminal.simps(5))
  next
    case FailoverCanceled
    then have "r = Return False" "tr' = tr @ q @ [CCanceled]"
      using assms True f w by (auto simp: after_error_def q(1))
    then show ?thesis using q(2,3) ending_intros(4) by (metis terminal.simps(1))
  qed
next
  case other: False
  show ?thesis
  proof (cases "OutKind o' = FailurePromptTooLong")
    case True
    then show ?thesis using assms
      by (intro exI [of _ "[CFallback err fb]"] exI [of _ "[]"])
         (auto simp: after_error_def ending_def split: if_splits)
  next
    case False
    have "\<exists>served c. tr' = tr @ c \<and> r = Return served \<and> ending options served c"
    proof (cases "OutKind o'")
      case FailurePolicy
      then have "tr' = tr @ [CPolicyFailure err]" "r = Return False"
        using assms by (simp_all add: after_error_def)
      then show ?thesis using ending_intros(4) by force
    next
      case FailureOther
      show ?thesis
      proof (cases "OutFailure o'")
        case (Some f)
        then have "tr' = tr @ [CExhausted (Some f) (Platform sel) True]" "r = Return False"
          using assms other FailureOther by (auto simp: after_error_def)
        then show ?thesis using ending_intros(4) by force
      next
        case None
        then show ?thesis using assms FailureOther
          by (cases "CompletePartialFailure options")
             (auto simp: after_error_def ending_def)
      qed
    qed (use False in simp)
    then obtain served c where "tr' = tr @ c" "r = Return served" "ending options served c"
      by blast
    then show ?thesis by (intro exI [of _ "[]"] exI [of _ c]) simp
  qed
qed

lemma after_select_shaped:
  assumes "after_select options p fb state sel tr = (r, tr')"
  shows "shaped options p tr r tr'"
proof -
  let ?t1 = "tr @ [CIntercept]" and ?t2 = "tr @ [CIntercept, CAcquire]"
  let ?at = "\<lparr>AsSwitchCount = SwitchCount state, AsForceCacheBilling = ForceCacheBilling state\<rparr>"
  let ?o = "Forward_p p ?t2 ?at" and ?q = "[CIntercept, CAcquire, CForward ?at]"
  have fin: "fwds_ok p True tr ?q" by simp
  have mid: "fwds_ok p False tr (?q @ q)" if "replayable p ?t2 ?at q" "list_all (\<lambda>x. \<not> is_forward x) q" for q
    using that fwds_ok_no_forward [OF that(2)] by simp
  consider (i) "Intercept_p p tr" | (a) "\<not> Intercept_p p tr" "\<not> Acquire_p p ?t1"
    | (s) "\<not> Intercept_p p tr" "Acquire_p p ?t1" "Stop ?o"
    | (k) "\<not> Intercept_p p tr" "Acquire_p p ?t1" "\<not> Stop ?o" "Skip ?o"
    | (ok) "\<not> Intercept_p p tr" "Acquire_p p ?t1" "\<not> Stop ?o" "\<not> Skip ?o" "OutErr ?o = None"
    | (e) err where "\<not> Intercept_p p tr" "Acquire_p p ?t1" "\<not> Stop ?o" "\<not> Skip ?o" "OutErr ?o = Some err"
    by fastforce
  then show ?thesis
  proof cases
    case i
    then have "r = Return False" "tr' = tr @ [CIntercept] @ []" using assms by (auto simp: after_select_def)
    then show ?thesis by (simp only:) (intro shaped_Return ending_intros, simp_all)
  next
    case a
    then have "r = Return False" "tr' = tr @ [CIntercept, CAcquire] @ []"
      using assms by (auto simp: after_select_def)
    then show ?thesis by (simp only:) (intro shaped_Return ending_intros, simp_all)
  next
    case s
    then have "r = Return False" "tr' = tr @ ?q @ []" using assms by (auto simp: after_select_def)
    then show ?thesis using fin by (simp only:) (intro shaped_Return ending_intros, simp_all)
  next
    case k
    then have "\<forall>b. r \<noteq> Return b" "tr' = tr @ ?q" using assms by (auto simp: after_select_def)
    moreover have "replayable p ?t2 ?at []" using k by (simp add: replayable_def Let_def)
    ultimately show ?thesis using mid [of "[]"]
      by (simp only:) (intro shaped_go_on, simp_all)
  next
    case ok
    then have "r = Return True" "tr' = tr @ ?q @ [CSuccess, CComplete ?at]"
      using assms by (auto simp: after_select_def Let_def)
    then show ?thesis using fin by (simp only:) (intro shaped_Return ending_intros, simp_all)
  next
    case e
    then have ae: "after_error options p fb state sel ?at ?o err (tr @ ?q) = (r, tr')"
      using assms by (simp add: after_select_def Let_def)
    from after_error_ends [OF this]
    obtain q c where qc: "tr' = tr @ (?q @ q) @ c" "list_all quiet q" "list_all (\<lambda>x. \<not> is_forward x) q"
      and r: "(\<exists>served. r = Return served \<and> ending options served c) \<or>
       ((\<forall>b. r \<noteq> Return b) \<and> c = [] \<and> replayable p ?t2 ?at q)"
      using e by (auto simp: replayable_def Let_def)
    have quiet: "list_all quiet (?q @ q)" using qc(2) by simp
    note tl = fwds_ok_no_forward [OF qc(3)]
    from r show ?thesis
    proof (elim disjE exE conjE)
      fix served assume "r = Return served" and en: "ending options served c"
      moreover have "fwds_ok p True tr (?q @ q)" using qc(3) tl by simp
      ultimately show ?thesis unfolding qc(1) by (simp only: shaped_Return [OF quiet _ en])
    next
      assume "\<forall>b. r \<noteq> Return b" "c = []" "replayable p ?t2 ?at q"
      moreover from this have "fwds_ok p False tr (?q @ q)" using mid qc(3) by blast
      ultimately show ?thesis unfolding qc(1) using shaped_go_on [OF quiet] by simp
    qed
  qed
qed

lemma loop_pass_shaped:
  assumes "loop_pass options p fb state tr = (r, tr')"
  shows "shaped options p tr r tr'"
proof -
  let ?q = "[CPrepareAttempt, CSelect (FailedProviderIDs state)]"
  have q: "list_all quiet ?q" "fwds_ok p False tr ?q" by simp_all
  let ?stop = "StopOnCanceledContext options \<and> ctx_done (Context_p p tr)"
  show ?thesis
  proof (cases "?stop \<or> \<not> PrepareAttempt_p p tr")
    case True
    then have "r = Return False \<and> (tr' = tr @ [] @ [] \<or> tr' = tr @ [CPrepareAttempt] @ [])"
      using assms by (auto simp: loop_pass_def split: if_splits)
    then show ?thesis
      using shaped_Return [of "[]" p tr options False "[]"]
        shaped_Return [of "[CPrepareAttempt]" p tr options False "[]"] ending_intros(3)
      by auto
  next
    case False
    then have "shaped options p (tr @ ?q) r tr'"
      using assms
      by (auto simp: loop_pass_def Let_def split: sum.splits
          intro: after_select_error_shaped after_select_shaped)
    then show ?thesis by (rule shaped_append [OF q])
  qed
qed

lemma run_loop_shaped:
  "run_loop n options p fb state tr = Some (served, tr') \<Longrightarrow> shaped options p tr (Return served) tr'"
proof (induction n arbitrary: fb state tr)
  case (Suc n)
  obtain r t where lp: "loop_pass options p fb state tr = (r, t)" by fastforce
  note sh = loop_pass_shaped [OF lp]
  show ?case
  proof (cases r)
    case (Return b)
    then show ?thesis using Suc.prems lp sh by simp
  next
    case (Continue s')
    then obtain q where "t = tr @ q" "list_all quiet q" "fwds_ok p False tr q"
      using sh unfolding shaped_def by auto
    then show ?thesis using Suc lp Continue by (auto intro: shaped_append)
  next
    case Restart
    then obtain q where "t = tr @ q" "list_all quiet q" "fwds_ok p False tr q"
      using sh unfolding shaped_def by auto
    then show ?thesis using Suc lp Restart by (auto intro: shaped_append)
  qed
qed simp

section \<open>Lemmas: the loop ends\<close>

text \<open>
  What the loop needs from its adapter to end by itself: candidates from a
  finite set and never an excluded one, a bounded retry limit, no unbounded
  deadline retry, no 503 that reopens the candidate set, and the documented
  refusal of a second group fallback.
\<close>

definition well_behaved :: "int set \<Rightarrow> int \<Rightarrow> MessagePorts \<Rightarrow> bool" where
  "well_behaved C R p = (finite C \<and>
     (\<forall>tr X sel. Select_p p tr X = Inr sel \<longrightarrow> ProviderID sel \<in> C - X \<and> RetryLimit sel \<le> R) \<and>
     (\<forall>tr a i. RetryFailure (OutFailure (Forward_p p tr a)) = Some i \<longrightarrow>
        StatusCode i \<noteq> 503 \<and> (is_zero (SameProviderRetryDeadline i) \<or> 0 < SameProviderRetryMax i)) \<and>
     (\<forall>tr e. \<not> Fallback_p p tr e True))"

definition pass_measure :: "int set \<Rightarrow> int \<Rightarrow> fstate \<Rightarrow> nat" where
  "pass_measure C R s = card (C - FailedProviderIDs s)
     + (\<Sum>c \<in> C. nat (R - mget0 (SameProviderRetryCount s) c))"

definition no_503 :: "fstate \<Rightarrow> bool" where
  "no_503 s = (\<forall>i. RetryFailure (LastFailoverErr s) = Some i \<longrightarrow> StatusCode i \<noteq> 503)"

lemma measure_exclude:
  assumes "finite C" "pid \<in> C - FailedProviderIDs s"
    "FailedProviderIDs s' = insert pid (FailedProviderIDs s)"
    "SameProviderRetryCount s' = SameProviderRetryCount s"
  shows "pass_measure C R s' < pass_measure C R s"
proof -
  have "C - FailedProviderIDs s' = (C - FailedProviderIDs s) - {pid}" using assms by auto
  then have "card (C - FailedProviderIDs s') < card (C - FailedProviderIDs s)"
    using assms(1,2) by (metis card_Diff1_less finite_Diff)
  then show ?thesis by (simp add: pass_measure_def assms(4))
qed

lemma measure_retry:
  assumes "finite C" "pid \<in> C" "mget0 (SameProviderRetryCount s) pid < R"
    "FailedProviderIDs s' = FailedProviderIDs s"
    "SameProviderRetryCount s' = (SameProviderRetryCount s)(pid \<mapsto> mget0 (SameProviderRetryCount s) pid + 1)"
  shows "pass_measure C R s' < pass_measure C R s"
proof -
  let ?f = "\<lambda>s c. nat (R - mget0 (SameProviderRetryCount s) c)"
  have "sum (?f s') C < sum (?f s) C"
    using assms by (intro sum_strict_mono_ex1) (auto intro!: bexI [of _ pid])
  then show ?thesis by (simp add: pass_measure_def assms(4))
qed

lemma SameProviderRetryAllowed_limit:
  assumes "SameProviderRetryAllowed now (Some i) n limit"
    "is_zero (SameProviderRetryDeadline i) \<or> 0 < SameProviderRetryMax i"
  shows "n < limit"
  using assms by (auto simp: SameProviderRetryAllowed_def split: if_splits)

lemma handle_decreases:
  assumes "HandleFailoverError RetryFailure s w pid platform limit err = (FailoverContinue, s', w')"
    and "finite C" "pid \<in> C - FailedProviderIDs s" "limit \<le> R"
    and "\<forall>i. RetryFailure err = Some i \<longrightarrow> StatusCode i \<noteq> 503 \<and>
      (is_zero (SameProviderRetryDeadline i) \<or> 0 < SameProviderRetryMax i)"
  shows "pass_measure C R s' < pass_measure C R s" "no_503 s'"
proof -
  note h = HandleFailoverError_handled [OF assms(1)]
  show "pass_measure C R s' < pass_measure C R s"
    using handled_Continue [OF h]
  proof (elim disjE exE conjE)
    fix f now
    assume f: "RetryFailure err = Some f" "SameProviderRetryAllowed now (Some f) (mget0 (SameProviderRetryCount s) pid) limit"
      and s': "FailedProviderIDs s' = FailedProviderIDs s"
        "SameProviderRetryCount s' = (SameProviderRetryCount s)(pid \<mapsto> mget0 (SameProviderRetryCount s) pid + 1)"
    have "mget0 (SameProviderRetryCount s) pid < R"
      using f assms(4,5) SameProviderRetryAllowed_limit by fastforce
    then show ?thesis using s' assms(2,3) by (intro measure_retry) auto
  next
    assume "FailedProviderIDs s' = insert pid (FailedProviderIDs s)"
      "SameProviderRetryCount s' = SameProviderRetryCount s"
    then show ?thesis using assms(2,3) by (intro measure_exclude) auto
  qed
  show "no_503 s'"
    using handled_Continue [OF h] assms(5) by (auto simp: no_503_def)
qed

lemma after_error_decreases:
  assumes "after_error options p fb s sel at o' err tr = (r, tr')"
    and wb: "well_behaved C R p" and o': "o' = Forward_p p t0 a0"
    and sel: "Select_p p t1 (FailedProviderIDs s) = Inr sel"
  shows "(\<forall>s'. r = Continue s' \<longrightarrow> pass_measure C R s' < pass_measure C R s \<and> no_503 s') \<and>
    (r = Restart \<longrightarrow> \<not> fb)"
proof (cases "OutKind o' = FailureOther \<and> (\<exists>f. OutFailure o' = Some f) \<and> \<not> OutputChanged o'")
  case True
  then obtain f where f: "OutFailure o' = Some f" by blast
  obtain a st t where w: "with_failover p tr (\<lambda>w. HandleFailoverError RetryFailure s w (ProviderID sel)
      (Platform sel) (RetryLimit sel) (Some f)) = (a, st, t)"
    by (metis prod_cases3)
  then obtain w' where hf: "HandleFailoverError RetryFailure s
      \<lparr>fo_ctx = Context_p p tr, fo_events = []\<rparr> (ProviderID sel) (Platform sel) (RetryLimit sel) (Some f) = (a, st, w')"
    by (auto simp: with_failover_def split: prod.splits)
  have dec: "pass_measure C R st < pass_measure C R s \<and> no_503 st" if "a = FailoverContinue"
    using handle_decreases [OF hf [unfolded that]] wb sel o' f
    unfolding well_behaved_def by metis
  show ?thesis using assms(1) True f w dec
    by (auto simp: after_error_def split: FailoverAction.splits)
next
  case False
  have "\<not> Fallback_p p tr err True" using wb by (simp add: well_behaved_def)
  then show ?thesis using assms(1) False
    by (cases fb; cases "OutKind o'")
       (auto simp: after_error_def Let_def split: option.splits if_splits)
qed

lemma after_select_decreases:
  assumes "after_select options p fb s sel tr = (r, tr')"
    and wb: "well_behaved C R p" and n: "no_503 s"
    and sel: "Select_p p t1 (FailedProviderIDs s) = Inr sel"
  shows "(\<forall>s'. r = Continue s' \<longrightarrow> pass_measure C R s' < pass_measure C R s \<and> no_503 s') \<and>
    (r = Restart \<longrightarrow> \<not> fb)"
proof -
  let ?at = "\<lparr>AsSwitchCount = SwitchCount s, AsForceCacheBilling = ForceCacheBilling s\<rparr>"
  let ?o = "Forward_p p (tr @ [CIntercept, CAcquire]) ?at"
  have pid: "ProviderID sel \<in> C - FailedProviderIDs s" and fin: "finite C"
    using wb sel by (auto simp: well_behaved_def)
  let ?s = "s\<lparr>FailedProviderIDs := insert (ProviderID sel) (FailedProviderIDs s)\<rparr>"
  have skip: "pass_measure C R ?s < pass_measure C R s"
    by (rule measure_exclude [OF fin pid]) simp_all
  have n': "no_503 ?s" using n by (simp add: no_503_def)
  consider (ret) b where "r = Return b" | (sk) "r = Continue ?s"
    | (er) err where "after_error options p fb s sel ?at ?o err (tr @ [CIntercept, CAcquire, CForward ?at]) = (r, tr')"
    using assms(1) by (auto simp: after_select_def Let_def split: if_splits option.splits)
  then show ?thesis
  proof cases
    case er
    then show ?thesis by (rule after_error_decreases [OF _ wb refl sel])
  qed (use skip n' in auto)
qed

lemma loop_pass_decreases:
  assumes "loop_pass options p fb s tr = (r, tr')" and wb: "well_behaved C R p" and n: "no_503 s"
  shows "(\<forall>s'. r = Continue s' \<longrightarrow> pass_measure C R s' < pass_measure C R s \<and> no_503 s') \<and>
    (r = Restart \<longrightarrow> \<not> fb)"
proof -
  let ?t = "tr @ [CPrepareAttempt]"
  consider (ret) b where "r = Return b"
    | (er) "after_select_error p fb s (?t @ [CSelect (FailedProviderIDs s)]) = (r, tr')"
    | (ok) sel where "Select_p p ?t (FailedProviderIDs s) = Inr sel"
        "after_select options p fb s sel (?t @ [CSelect (FailedProviderIDs s)]) = (r, tr')"
    using assms(1) by (auto simp: loop_pass_def Let_def split: if_splits sum.splits)
  then show ?thesis
  proof cases
    case er
    obtain a st w where h: "HandleSelectionExhausted RetryFailure s
        \<lparr>fo_ctx = Context_p p (?t @ [CSelect (FailedProviderIDs s)]), fo_events = []\<rparr> = (a, st, w)"
      by (metis prod_cases3)
    have "a \<noteq> FailoverContinue"
      using HandleSelectionExhausted_cases [OF h] n by (auto simp: no_503_def)
    then have "\<exists>b. r = Return b"
      using er h by (cases a) (auto simp: after_select_error_def with_failover_def split: if_splits)
    then show ?thesis by auto
  next
    case ok
    then show ?thesis using after_select_decreases [OF _ wb n] by blast
  qed simp
qed

lemma fresh_no_503 [simp]: "no_503 (fresh_state options)"
  by (simp add: no_503_def fresh_state_def NewFailoverState_def RetryFailure_def)

lemma fresh_measure: "pass_measure C R (fresh_state options) = card C + card C * nat R"
  by (simp add: pass_measure_def fresh_state_def NewFailoverState_def)

lemma run_loop_ends:
  assumes wb: "well_behaved C R p"
  shows "no_503 s \<Longrightarrow>
    pass_measure C R s + (if fb then 0 else Suc (card C + card C * nat R)) < n \<Longrightarrow>
    run_loop n options p fb s tr \<noteq> None"
proof (induction n arbitrary: fb s tr)
  case (Suc n)
  obtain r t where lp: "loop_pass options p fb s tr = (r, t)" by fastforce
  note d = loop_pass_decreases [OF lp wb Suc.prems(1)]
  show ?case
  proof (cases r)
    case (Return b)
    then show ?thesis using lp by simp
  next
    case (Continue s')
    then have "run_loop n options p fb s' t \<noteq> None"
      using d Suc.prems(2) by (intro Suc.IH) auto
    then show ?thesis using lp Continue by simp
  next
    case Restart
    then have "run_loop n options p True (fresh_state options) t \<noteq> None"
      using d Suc.prems(2) by (intro Suc.IH) (auto simp: fresh_measure)
    then show ?thesis using lp Restart by simp
  qed
qed simp

section \<open>An adapter that never lets the loop end\<close>

text \<open>
  Provider 1 answers 503 once and is then no longer offered; provider 2 is
  offered whenever it is not excluded and its attempts are skipped.
\<close>

definition attempted :: "trace \<Rightarrow> bool" where
  "attempted tr = list_ex is_forward tr"

definition stuck_failure :: AttemptFailure where
  "stuck_failure = \<lparr>Cause = ''503'', Policy = Some sample_failure\<rparr>"

definition stuck_ports :: MessagePorts where
  "stuck_ports =
     \<lparr>Context_p = (\<lambda>_. \<lparr>clock = 0, cancel_at = None, tie_timer = True\<rparr>),
      PrepareAttempt_p = (\<lambda>_. True),
      Select_p = (\<lambda>tr X.
        if \<not> attempted tr then Inr \<lparr>ProviderID = 1, Platform = ''gemini'', RetryLimit = 0\<rparr>
        else if 2 \<notin> X then Inr \<lparr>ProviderID = 2, Platform = ''openai'', RetryLimit = 0\<rparr>
        else Inl ''no available providers''),
      Intercept_p = (\<lambda>_. False), Acquire_p = (\<lambda>_. True),
      Forward_p = (\<lambda>tr _. \<lparr>OutErr = Some ''503'',
        OutFailure = (if attempted tr then None else Some stuck_failure), OutKind = FailureOther,
        OutputChanged = False, HasResult = False, Stop = False, Skip = attempted tr\<rparr>),
      Fallback_p = (\<lambda>_ _ _. False)\<rparr>"

definition stuck_options :: MessageOptions where
  "stuck_options = \<lparr>OptMaxSwitches = 3, CompletePartialFailure = False,
     StopOnCanceledContext = True, OptHasBoundSession = False\<rparr>"

definition stuck_state :: "fstate \<Rightarrow> bool" where
  "stuck_state s = (RetryFailure (LastFailoverErr s) = Some sample_failure \<and>
     SwitchCount s = 1 \<and> MaxSwitches s = 3)"

lemma attempted_append [simp]: "attempted (a @ b) = (attempted a \<or> attempted b)"
  by (simp add: attempted_def)

lemma stuck_ports_simps [simp]:
  "Context_p stuck_ports tr = \<lparr>clock = 0, cancel_at = None, tie_timer = True\<rparr>"
  "PrepareAttempt_p stuck_ports tr"
  "\<not> attempted tr \<Longrightarrow> Select_p stuck_ports tr X = Inr \<lparr>ProviderID = 1, Platform = ''gemini'', RetryLimit = 0\<rparr>"
  "attempted tr \<Longrightarrow> 2 \<notin> X \<Longrightarrow> Select_p stuck_ports tr X = Inr \<lparr>ProviderID = 2, Platform = ''openai'', RetryLimit = 0\<rparr>"
  "attempted tr \<Longrightarrow> 2 \<in> X \<Longrightarrow> Select_p stuck_ports tr X = Inl ''no available providers''"
  "\<not> Intercept_p stuck_ports tr"
  "Acquire_p stuck_ports tr"
  "Skip (Forward_p stuck_ports tr a) = attempted tr"
  "\<not> Stop (Forward_p stuck_ports tr a)"
  "OutErr (Forward_p stuck_ports tr a) = Some ''503''"
  "OutKind (Forward_p stuck_ports tr a) = FailureOther"
  "\<not> OutputChanged (Forward_p stuck_ports tr a)"
  "OutFailure (Forward_p stuck_ports tr a) = (if attempted tr then None else Some stuck_failure)"
  by (simp_all add: stuck_ports_def)

lemma attempted_simps [simp]:
  "attempted [] = False"
  "attempted (c # tr) = (is_forward c \<or> attempted tr)"
  by (simp_all add: attempted_def)

lemma stuck_ctx [simp]: "ctx_done \<lparr>clock = 0, cancel_at = None, tie_timer = True\<rparr> = False"
  by (simp add: ctx_done_def)

lemma stuck_pass:
  assumes "stuck_state s" "attempted tr"
  obtains s' tr' where "loop_pass stuck_options stuck_ports fb s tr = (Continue s', tr')"
    "stuck_state s'" "attempted tr'"
proof (cases "2 \<in> FailedProviderIDs s")
  case False
  then show ?thesis using assms that
    by (simp add: loop_pass_def after_select_def Let_def stuck_state_def)
next
  case True
  have ne: "FailedProviderIDs s \<noteq> {}" using True by auto
  have wf: "with_failover stuck_ports t (HandleSelectionExhausted RetryFailure s) =
      (FailoverContinue, s\<lparr>FailedProviderIDs := {}\<rparr>,
       t @ map CFailover [SingleProviderBackoffEvent SingleProviderBackoffDelay 1 3, SingleProviderRetryEvent 1 3])" for t
    using assms(1)
    by (simp add: with_failover_def HandleSelectionExhausted_def stuck_state_def
        sample_failure_def SleepWithContext_def select_timer_def emit_def Let_def failover_consts)
  have "loop_pass stuck_options stuck_ports fb s tr =
      (Continue (s\<lparr>FailedProviderIDs := {}\<rparr>),
       tr @ [CPrepareAttempt, CSelect (FailedProviderIDs s)]
         @ map CFailover [SingleProviderBackoffEvent SingleProviderBackoffDelay 1 3, SingleProviderRetryEvent 1 3]
         @ [CSingleProviderRetry])"
    using assms True ne wf by (simp add: loop_pass_def after_select_error_def Let_def)
  then show ?thesis using assms that by (simp add: stuck_state_def)
qed

lemma stuck_loop: "stuck_state s \<Longrightarrow> attempted tr \<Longrightarrow> run_loop n stuck_options stuck_ports fb s tr = None"
proof (induction n arbitrary: s tr)
  case (Suc n)
  obtain s' tr' where "loop_pass stuck_options stuck_ports fb s tr = (Continue s', tr')"
    "stuck_state s'" "attempted tr'"
    using stuck_pass [OF Suc.prems] .
  then show ?case using Suc.IH by simp
qed simp

section \<open>Properties\<close>

text \<open>
  C36: a request that returns has called Begin first and Finish last, each once,
  and in between only attempt handling followed by one ending: Success then
  Complete with served true, the enabled partial completion, or one terminal
  call (or none) with served false; so Complete runs at most once, never after a
  refusal, and never before another attempt.
\<close>

theorem RunMessages_shape:
  assumes "RunMessages fuel options p = Some tr"
  shows "\<exists>q c served. tr = CBegin # q @ c @ [CFinish served] \<and> list_all quiet q \<and>
    ending options served c"
proof -
  obtain served t where r: "run_loop fuel options p False (fresh_state options) [CBegin] = Some (served, t)"
    and tr: "tr = t @ [CFinish served]"
    using assms by (auto simp: RunMessages_def split: option.splits)
  obtain q c where "t = [CBegin] @ q @ c" "list_all quiet q" "ending options served c"
    using run_loop_shaped [OF r] unfolding shaped_def by auto
  then show ?thesis using tr by auto
qed

definition ok_ports :: MessagePorts where
  "ok_ports =
     \<lparr>Context_p = (\<lambda>_. \<lparr>clock = 0, cancel_at = None, tie_timer = True\<rparr>),
      PrepareAttempt_p = (\<lambda>_. True),
      Select_p = (\<lambda>tr X. if X = {} then Inr \<lparr>ProviderID = 1, Platform = ''openai'', RetryLimit = 0\<rparr>
        else if X = {1} then Inr \<lparr>ProviderID = 2, Platform = ''openai'', RetryLimit = 0\<rparr>
        else Inl ''no available providers''),
      Intercept_p = (\<lambda>_. False), Acquire_p = (\<lambda>_. True),
      Forward_p = (\<lambda>tr a.
        \<lparr>OutErr = (if AsSwitchCount a = 0 then Some ''502'' else None),
         OutFailure = (if AsSwitchCount a = 0
           then Some \<lparr>Cause = ''502'', Policy = Some (sample_failure\<lparr>StatusCode := 502\<rparr>)\<rparr> else None),
         OutKind = FailureOther, OutputChanged = False, HasResult = False, Stop = False, Skip = False\<rparr>),
      Fallback_p = (\<lambda>_ _ _. False)\<rparr>"

definition ok_trace :: trace where
  "ok_trace = [CBegin, CPrepareAttempt, CSelect {}, CIntercept, CAcquire,
     CForward \<lparr>AsSwitchCount = 0, AsForceCacheBilling = False\<rparr>,
     CFailover (SwitchProviderEvent 1 502 1 3), CSwitched, CAbandon 1,
     CPrepareAttempt, CSelect {1}, CIntercept, CAcquire,
     CForward \<lparr>AsSwitchCount = 1, AsForceCacheBilling = False\<rparr>,
     CSuccess, CComplete \<lparr>AsSwitchCount = 1, AsForceCacheBilling = False\<rparr>, CFinish True]"

lemma ok_run: "RunMessages 2 stuck_options ok_ports = Some ok_trace"
  by (simp add: RunMessages_def fresh_state_def NewFailoverState_def loop_pass_def after_select_def
      after_error_def with_failover_def HandleFailoverError_def ok_ports_def stuck_options_def
      ok_trace_def sample_failure_def RetryFailure_def ctx_done_def Let_def eval_nat_numeral
      SameProviderRetryAllowed_def SameProviderRetryDeadlineAllows_def NeedForceCacheBilling_def
      emit_def PlatformAntigravity_def)

theorem RunMessages_shape_witness:
  "\<exists>q c. ok_trace = CBegin # q @ c @ [CFinish True] \<and> list_all quiet q \<and> ending stuck_options True c"
proof -
  obtain q c served where s: "ok_trace = CBegin # q @ c @ [CFinish served]" "list_all quiet q"
    "ending stuck_options served c"
    using RunMessages_shape [OF ok_run] by blast
  have "last ok_trace = CFinish True" by (simp add: ok_trace_def)
  moreover have "last ok_trace = CFinish served" unfolding s(1) by simp
  ultimately have "served" by simp
  then show ?thesis using s by auto
qed

text \<open>
  C38: an attempt is followed by another one only when the adapter marked the candidate
  as skipped, or when it failed on prompt size and the adapter then accepted a group
  fallback, or when it carried a classified failure and had not changed the client's
  output.  So never after a stop, and, those skips and accepted fallbacks apart, never
  after a success, a policy refusal or changed output.
\<close>

theorem RunMessages_no_replay:
  assumes "RunMessages fuel options p = Some tr"
    and "tr = pre @ CForward a # mid @ CForward b # post"
  shows "replayable p pre a (mid @ CForward b # post)"
proof -
  obtain served t where r: "run_loop fuel options p False (fresh_state options) [CBegin] = Some (served, t)"
    and tr: "tr = t @ [CFinish served]"
    using assms(1) by (auto simp: RunMessages_def split: option.splits)
  obtain q c where t: "t = [CBegin] @ q @ c" and en: "ending options served c"
    and ok: "fwds_ok p True [CBegin] q"
    using run_loop_shaped [OF r] unfolding shaped_def by auto
  have "list_all (\<lambda>x. \<not> is_forward x) (c @ [CFinish served])"
    using en terminal.elims(2) by (fastforce simp: ending_def)
  then have "fwds_ok p True [] ([CBegin] @ q @ c @ [CFinish served])"
    using fwds_ok_suffix [OF ok] by simp
  moreover have "[CBegin] @ q @ c @ [CFinish served] = pre @ CForward a # mid @ CForward b # post"
    using assms(2) tr t by simp
  ultimately have "fwds_ok p True [] (pre @ CForward a # mid @ CForward b # post)"
    by (simp only:)
  then show ?thesis using fwds_ok_mid [of p "[]" pre a "mid @ CForward b # post"] by simp
qed

theorem RunMessages_no_replay_witness:
  "\<exists>later. replayable ok_ports [CBegin, CPrepareAttempt, CSelect {}, CIntercept, CAcquire]
     \<lparr>AsSwitchCount = 0, AsForceCacheBilling = False\<rparr> later"
  by (rule exI, rule RunMessages_no_replay [OF ok_run, where b = "\<lparr>AsSwitchCount = 1, AsForceCacheBilling = False\<rparr>"
        and mid = "[CFailover (SwitchProviderEvent 1 502 1 3), CSwitched, CAbandon 1,
          CPrepareAttempt, CSelect {1}, CIntercept, CAcquire]"])
     (simp add: ok_trace_def)

text \<open>
  C39: with candidates from a finite set, never an excluded one, retry limits of at
  most R, no 503 failures and one group fallback, the loop returns; the number of
  passes is bounded by the candidates and the retry limit alone, whatever the
  switch budget.
\<close>

theorem RunMessages_terminates:
  assumes "well_behaved C R p"
  shows "\<exists>tr. RunMessages (2 * (card C + card C * nat R) + 2) options p = Some tr"
proof -
  have "run_loop (2 * (card C + card C * nat R) + 2) options p False (fresh_state options) [CBegin] \<noteq> None"
    by (rule run_loop_ends [OF assms]) (simp_all add: fresh_measure)
  then show ?thesis by (auto simp: RunMessages_def)
qed

lemma ok_well_behaved: "well_behaved {1, 2} 0 ok_ports"
  by (auto simp: well_behaved_def ok_ports_def RetryFailure_def sample_failure_def split: if_splits)

theorem RunMessages_terminates_witness: "\<exists>tr. RunMessages 6 stuck_options ok_ports = Some tr"
  using RunMessages_terminates [OF ok_well_behaved, of stuck_options] by simp

text \<open>
  C40: without the no-503 hypothesis the loop need not end: after one recorded
  503, an adapter whose only remaining candidate is skipped each time keeps the
  loop reopening the candidate set, however many passes it is given and although
  the switch budget is never spent.
\<close>

theorem RunMessages_reopens_forever: "RunMessages n stuck_options stuck_ports = None"
proof (cases n)
  case (Suc m)
  let ?s = "(fresh_state stuck_options)\<lparr>LastFailoverErr := Some stuck_failure,
    FailedProviderIDs := {1}, SwitchCount := 1\<rparr>"
  let ?a = "\<lparr>AsSwitchCount = 0, AsForceCacheBilling = False\<rparr>"
  have "loop_pass stuck_options stuck_ports False (fresh_state stuck_options) [CBegin] =
      (Continue ?s, [CBegin, CPrepareAttempt, CSelect {}, CIntercept, CAcquire, CForward ?a,
         CFailover (SwitchProviderEvent 1 503 1 3), CSwitched, CAbandon 1])"
    by (simp add: fresh_state_def NewFailoverState_def loop_pass_def after_select_def
      after_error_def with_failover_def HandleFailoverError_def stuck_options_def
      stuck_failure_def sample_failure_def RetryFailure_def Let_def
      SameProviderRetryAllowed_def SameProviderRetryDeadlineAllows_def NeedForceCacheBilling_def
      emit_def PlatformAntigravity_def)
  moreover have "stuck_state ?s"
    by (simp add: stuck_state_def RetryFailure_def stuck_failure_def fresh_state_def
        NewFailoverState_def stuck_options_def)
  ultimately show ?thesis using stuck_loop Suc by (simp add: RunMessages_def)
qed (simp add: RunMessages_def)

end
