(* ===== verification/Float64.thy ===== *)
theory Float64
  imports Prelude Complex_Main "HOL-Library.Log_Nat"
begin

text \<open>
  Go's float64 arithmetic as the money code uses it: IEEE 754 binary64 with
  round to nearest, ties to even, gradual underflow and overflow to infinity.
  A finite value is the rational it denotes, so the sign of zero is not
  represented; nothing the modelled code does depends on it.  A constant of the
  source such as 1e-8 is \<open>rnd\<close> of its decimal value.
\<close>

datatype f64 = NaN | PInf | NInf | Fin rat

section \<open>Rounding\<close>

definition half_even :: "rat \<Rightarrow> int" where
  "half_even x =
     (let f = floor x; d = x - of_int f in
      if d < 1 / 2 then f else if 1 / 2 < d then f + 1 else if even f then f else f + 1)"

text \<open>The binary exponent: the k with 2^k \<le> x < 2^(k+1), for positive x.\<close>

definition ilog2 :: "rat \<Rightarrow> int" where
  "ilog2 x =
     (case quotient_of x of (p, q) \<Rightarrow>
        let k = bitlen p - bitlen q in if 2 powi k \<le> x then k else k - 1)"

definition ulp_exp :: "rat \<Rightarrow> int" where
  "ulp_exp x = max (ilog2 x - 52) (- 1074)"

definition round_pos :: "rat \<Rightarrow> rat" where
  "round_pos x =
     (if x \<le> 0 then 0 else of_int (half_even (x / 2 powi (ulp_exp x))) * 2 powi (ulp_exp x))"

definition round53 :: "rat \<Rightarrow> rat" where
  "round53 x = (if x < 0 then - round_pos (- x) else round_pos x)"

definition rnd :: "rat \<Rightarrow> f64" where
  "rnd x = (let y = round53 x in
     if 2 ^ 1024 \<le> y then PInf else if y \<le> - (2 ^ 1024) then NInf else Fin y)"

section \<open>Operations\<close>

fun fneg :: "f64 \<Rightarrow> f64" where
  "fneg NaN = NaN"
| "fneg PInf = NInf"
| "fneg NInf = PInf"
| "fneg (Fin x) = Fin (- x)"

fun fadd :: "f64 \<Rightarrow> f64 \<Rightarrow> f64" where
  "fadd (Fin x) (Fin y) = rnd (x + y)"
| "fadd NaN _ = NaN"
| "fadd _ NaN = NaN"
| "fadd PInf NInf = NaN"
| "fadd NInf PInf = NaN"
| "fadd PInf _ = PInf"
| "fadd _ PInf = PInf"
| "fadd NInf _ = NInf"
| "fadd _ NInf = NInf"

definition fsub :: "f64 \<Rightarrow> f64 \<Rightarrow> f64" where
  "fsub a b = fadd a (fneg b)"

definition inf_sign :: "rat \<Rightarrow> f64" where
  "inf_sign s = (if 0 < s then PInf else if s < 0 then NInf else NaN)"

fun fsign :: "f64 \<Rightarrow> rat" where
  "fsign NaN = 0"
| "fsign PInf = 1"
| "fsign NInf = - 1"
| "fsign (Fin x) = sgn x"

definition fmul :: "f64 \<Rightarrow> f64 \<Rightarrow> f64" where
  "fmul a b = (case (a, b) of
      (NaN, _) \<Rightarrow> NaN
    | (_, NaN) \<Rightarrow> NaN
    | (Fin x, Fin y) \<Rightarrow> rnd (x * y)
    | _ \<Rightarrow> inf_sign (fsign a * fsign b))"

definition fdiv :: "f64 \<Rightarrow> f64 \<Rightarrow> f64" where
  "fdiv a b = (case (a, b) of
      (NaN, _) \<Rightarrow> NaN
    | (_, NaN) \<Rightarrow> NaN
    | (Fin x, Fin y) \<Rightarrow> if y = 0 then inf_sign (sgn x) else rnd (x / y)
    | (Fin x, _) \<Rightarrow> Fin 0
    | (_, Fin y) \<Rightarrow> if y = 0 then a else inf_sign (fsign a * fsign b)
    | _ \<Rightarrow> NaN)"

fun flt :: "f64 \<Rightarrow> f64 \<Rightarrow> bool" where
  "flt (Fin x) (Fin y) = (x < y)"
| "flt NaN _ = False"
| "flt _ NaN = False"
| "flt NInf NInf = False"
| "flt NInf _ = True"
| "flt PInf _ = False"
| "flt (Fin _) PInf = True"
| "flt (Fin _) NInf = False"

fun fle :: "f64 \<Rightarrow> f64 \<Rightarrow> bool" where
  "fle (Fin x) (Fin y) = (x \<le> y)"
| "fle NaN _ = False"
| "fle _ NaN = False"
| "fle NInf _ = True"
| "fle PInf y = (y = PInf)"
| "fle (Fin _) PInf = True"
| "fle (Fin _) NInf = False"

definition fmin :: "f64 \<Rightarrow> f64 \<Rightarrow> f64" where
  "fmin a b =
     (if a = NInf \<or> b = NInf then NInf
      else if a = NaN \<or> b = NaN then NaN
      else if fle a b then a else b)"

definition fmax :: "f64 \<Rightarrow> f64 \<Rightarrow> f64" where
  "fmax a b =
     (if a = PInf \<or> b = PInf then PInf
      else if a = NaN \<or> b = NaN then NaN
      else if fle a b then b else a)"

fun fabs :: "f64 \<Rightarrow> f64" where
  "fabs NaN = NaN"
| "fabs PInf = PInf"
| "fabs NInf = PInf"
| "fabs (Fin x) = Fin (abs x)"

definition is_inf :: "f64 \<Rightarrow> bool" where
  "is_inf a = (a = PInf \<or> a = NInf)"

abbreviation f0 :: f64 where
  "f0 \<equiv> Fin 0"

section \<open>Lemmas: rounding\<close>

lemma half_even_mono: "x \<le> y \<Longrightarrow> half_even x \<le> half_even y"
proof -
  assume le: "x \<le> y"
  have fl: "floor x \<le> floor y" using le by (rule floor_mono)
  show ?thesis
  proof (cases "floor x = floor y")
    case True
    then show ?thesis using le by (auto simp: half_even_def Let_def)
  next
    case False
    have "half_even x \<le> floor x + 1" "floor y \<le> half_even y"
      by (auto simp: half_even_def Let_def)
    then show ?thesis using fl False by linarith
  qed
qed

lemma half_even_int [simp]: "half_even (of_int n) = n"
  by (simp add: half_even_def)

lemma half_even_error: "\<bar>of_int (half_even x) - x\<bar> \<le> 1 / 2"
proof -
  have "of_int (floor x) \<le> x" "x < of_int (floor x) + 1" by linarith+
  then show ?thesis by (auto simp: half_even_def Let_def abs_le_iff)
qed

lemma ilog2_bounds:
  assumes "0 < x"
  shows "2 powi (ilog2 x) \<le> x" "x < 2 powi (ilog2 x + 1)"
proof -
  obtain p q where pq: "quotient_of x = (p, q)" by fastforce
  have q: "0 < q" and x: "x = of_int p / of_int q"
    using quotient_of_denom_pos [OF pq] quotient_of_div [OF pq] by auto
  have p: "0 < p" using assms q x by (simp add: zero_less_divide_iff)
  have bp: "2 ^ nat (bitlen p - 1) \<le> p" "p < 2 ^ nat (bitlen p)" using bitlen_bounds [OF p] by auto
  have bq: "2 ^ nat (bitlen q - 1) \<le> q" "q < 2 ^ nat (bitlen q)" using bitlen_bounds [OF q] by auto
  have bl: "1 \<le> bitlen p" "1 \<le> bitlen q" using p q by (simp_all add: bitlen_def floorlog_def) 
  have pow: "(2 :: rat) powi (int n) = of_int (2 ^ n)" for n by (simp add: power_int_def)
  have P: "2 powi (bitlen p - 1) \<le> (of_int p :: rat)" "(of_int p :: rat) < 2 powi (bitlen p)"
    using bp bl pow [of "nat (bitlen p - 1)"] pow [of "nat (bitlen p)"] by (simp_all del: of_int_power)
  have Q: "2 powi (bitlen q - 1) \<le> (of_int q :: rat)" "(of_int q :: rat) < 2 powi (bitlen q)"
    using bq bl pow [of "nat (bitlen q - 1)"] pow [of "nat (bitlen q)"] by (simp_all del: of_int_power)
  let ?k = "bitlen p - bitlen q"
  have lo: "2 powi (?k - 1) \<le> x"
  proof -
    have "(2 :: rat) powi (?k - 1) = 2 powi (bitlen p - 1) / 2 powi (bitlen q)"
      by (simp add: power_int_diff)
    also have "\<dots> \<le> of_int p / of_int q"
      using P Q q p by (intro frac_le) auto
    finally show ?thesis by (simp add: x)
  qed
  have hi: "x < 2 powi (?k + 1)"
  proof -
    have "of_int p / of_int q < (2 :: rat) powi (bitlen p) / 2 powi (bitlen q - 1)"
      using P Q q p by (intro frac_less) auto
    also have "\<dots> = 2 powi (?k + 1)"
      by (simp add: power_int_diff power_int_add algebra_simps)
    finally show ?thesis by (simp add: x)
  qed
  show "2 powi (ilog2 x) \<le> x" using lo by (simp add: ilog2_def pq Let_def)
  show "x < 2 powi (ilog2 x + 1)" using hi by (simp add: ilog2_def pq Let_def)
qed

abbreviation p2 :: "int \<Rightarrow> rat" where "p2 k \<equiv> 2 powi k"

lemma p2_pos [simp]: "0 < p2 k" "\<not> p2 k < 0" "\<not> p2 k \<le> 0" "p2 k \<noteq> 0"
proof -
  show "0 < p2 k" by (rule zero_less_power_int) simp
  then show "\<not> p2 k < 0" "\<not> p2 k \<le> 0" "p2 k \<noteq> 0" by linarith+
qed

lemma p2_mono: "a \<le> b \<Longrightarrow> p2 a \<le> p2 b"
  by (simp add: power_int_increasing)

lemma p2_less: "p2 a < p2 b \<Longrightarrow> a < b"
  using p2_mono [of b a] by force

lemma p2_le: "p2 a \<le> p2 b \<Longrightarrow> a \<le> b"
proof (rule ccontr)
  assume le: "p2 a \<le> p2 b" and "\<not> a \<le> b"
  then have "p2 (b + 1) \<le> p2 a" by (intro p2_mono) simp
  moreover have "p2 (b + 1) = 2 * p2 b" by (simp add: power_int_add)
  ultimately show False using le p2_pos(1) [of b] by linarith
qed

lemma ilog2_eqI:
  assumes "p2 k \<le> x" "x < p2 (k + 1)"
  shows "ilog2 x = k"
proof -
  have "0 < x" by (rule less_le_trans [OF p2_pos(1) assms(1)])
  note b = ilog2_bounds [OF this]
  have "k < ilog2 x + 1" using assms(1) b(2) by (intro p2_less) linarith
  moreover have "ilog2 x < k + 1" using assms(2) b(1) by (intro p2_less) linarith
  ultimately show ?thesis by linarith
qed

lemma ilog2_mono: "0 < x \<Longrightarrow> x \<le> y \<Longrightarrow> ilog2 x \<le> ilog2 y"
proof -
  assume a: "0 < x" "x \<le> y"
  then have "p2 (ilog2 x) < p2 (ilog2 y + 1)"
    using ilog2_bounds(1) [of x] ilog2_bounds(2) [of y] by linarith
  then show ?thesis using p2_less by fastforce
qed

lemma ulp_exp_mono: "0 < x \<Longrightarrow> x \<le> y \<Longrightarrow> ulp_exp x \<le> ulp_exp y"
  using ilog2_mono [of x y] by (simp add: ulp_exp_def)

lemma round_pos_nonneg [simp]: "0 \<le> round_pos x"
proof -
  have "0 \<le> half_even (x / p2 (ulp_exp x))" if "0 < x"
    using half_even_mono [of 0 "x / p2 (ulp_exp x)"] half_even_int [of 0] that by simp
  then show ?thesis by (simp add: round_pos_def)
qed

lemma round_pos_nonpos: "x \<le> 0 \<Longrightarrow> round_pos x = 0"
  by (simp add: round_pos_def)

lemma p2_nat: "0 \<le> k \<Longrightarrow> p2 k = of_int (2 ^ nat k)"
  by (simp add: power_int_def)

text \<open>Rounding stays below (above) a power of two that bounds the argument.\<close>

lemma round_pos_upper:
  assumes "0 < x" "x \<le> p2 k" "ulp_exp x \<le> k"
  shows "round_pos x \<le> p2 k"
proof -
  let ?e = "ulp_exp x"
  have k: "p2 k = p2 (k - ?e) * p2 ?e" by (simp add: power_int_diff)
  have "x / p2 ?e \<le> p2 (k - ?e)"
    using assms(2) by (simp add: k divide_le_eq)
  then have "half_even (x / p2 ?e) \<le> 2 ^ nat (k - ?e)"
    using half_even_mono [of _ "of_int (2 ^ nat (k - ?e))"] assms(3)
    by (simp only: p2_nat half_even_int diff_ge_0_iff_ge)
  then have "of_int (half_even (x / p2 ?e)) \<le> p2 (k - ?e)"
    using assms(3) by (simp only: p2_nat of_int_le_iff diff_ge_0_iff_ge)
  then show ?thesis
    using assms(1) by (simp add: round_pos_def k)
qed

lemma round_pos_lower:
  assumes "p2 k \<le> x" "ulp_exp x \<le> k"
  shows "p2 k \<le> round_pos x"
proof -
  let ?e = "ulp_exp x"
  have pos: "0 < x" by (rule less_le_trans [OF p2_pos(1) assms(1)])
  have k: "p2 k = p2 (k - ?e) * p2 ?e" by (simp add: power_int_diff)
  have "p2 (k - ?e) \<le> x / p2 ?e"
    using assms(1) by (simp add: k le_divide_eq)
  then have "2 ^ nat (k - ?e) \<le> half_even (x / p2 ?e)"
    using half_even_mono [of "of_int (2 ^ nat (k - ?e))"] assms(2)
    by (simp only: p2_nat half_even_int diff_ge_0_iff_ge)
  then have "p2 (k - ?e) \<le> of_int (half_even (x / p2 ?e))"
    using assms(2) by (simp only: p2_nat of_int_le_iff diff_ge_0_iff_ge)
  then show ?thesis
    using pos by (simp add: round_pos_def k)
qed

lemma round_pos_mono: "x \<le> y \<Longrightarrow> round_pos x \<le> round_pos y"
proof -
  assume le: "x \<le> y"
  show ?thesis
  proof (cases "0 < x")
    case pos: True
    show ?thesis
    proof (cases "ulp_exp x = ulp_exp y")
      case True
      have "x / p2 (ulp_exp y) \<le> y / p2 (ulp_exp y)" using le by (simp add: divide_right_mono)
      then show ?thesis using pos le True half_even_mono by (simp add: round_pos_def)
    next
      case False
      then have lt: "ulp_exp x < ulp_exp y" using ulp_exp_mono [OF pos le] by linarith
      have ky: "ulp_exp y = ilog2 y - 52" using lt by (auto simp: ulp_exp_def max_def split: if_splits)
      have kx: "ilog2 x < ilog2 y" using lt by (auto simp: ulp_exp_def max_def split: if_splits)
      have "p2 (ilog2 y) \<le> y" using pos le by (intro ilog2_bounds) linarith
      then have "p2 (ilog2 y) \<le> round_pos y" by (rule round_pos_lower) (simp add: ky)
      moreover have "x \<le> p2 (ilog2 y)"
        using ilog2_bounds(2) [OF pos] p2_mono [of "ilog2 x + 1" "ilog2 y"] kx by linarith
      then have "round_pos x \<le> p2 (ilog2 y)" by (rule round_pos_upper [OF pos]) (use lt ky in linarith)
      ultimately show ?thesis by linarith
    qed
  qed (simp add: round_pos_nonpos)
qed

text \<open>The values of the format: integer multiples of a large enough power of two.\<close>

definition representable :: "rat \<Rightarrow> bool" where
  "representable x = (\<exists>n e. x = of_int n * p2 e \<and> \<bar>n\<bar> \<le> 2 ^ 53 \<and> - 1074 \<le> e)"

lemma round_pos_exact:
  assumes "0 < x" "x = of_int n * p2 e" "\<bar>n\<bar> \<le> 2 ^ 53" "- 1074 \<le> e"
  shows "round_pos x = x"
proof -
  let ?u = "ulp_exp x"
  have n: "0 < n" using assms(1,2) by (simp add: zero_less_mult_iff)
  show ?thesis
  proof (cases "?u \<le> e")
    case True
    then have "p2 (e - ?u) = of_int (2 ^ nat (e - ?u))" by (simp add: p2_nat)
    moreover have "x / p2 ?u = of_int n * p2 (e - ?u)"
      unfolding assms(2) by (simp add: power_int_diff)
    ultimately have "x / p2 ?u = of_int (n * 2 ^ nat (e - ?u))" by simp
    then have "of_int (half_even (x / p2 ?u)) = x / p2 ?u" by (simp only: half_even_int)
    then show ?thesis using assms(1) by (simp add: round_pos_def)
  next
    case False
    then have u: "?u = ilog2 x - 52" using assms(4) by (simp add: ulp_exp_def max_def split: if_splits)
    have "p2 (ilog2 x) \<le> x" by (rule ilog2_bounds [OF assms(1)])
    also have "x \<le> p2 53 * p2 e"
      using assms(3) n by (auto simp: assms(2) p2_nat simp flip: of_int_power)
    also have "\<dots> = p2 (53 + e)" by (simp add: power_int_add)
    finally have "ilog2 x \<le> 53 + e" by (rule p2_le)
    then have ue: "?u = e + 1" using u False by linarith
    then have "ilog2 x = 53 + e" using u by linarith
    then have "x = p2 (53 + e)" using \<open>p2 (ilog2 x) \<le> x\<close> \<open>x \<le> p2 53 * p2 e\<close> by (simp add: power_int_add)
    then have "x / p2 (e + 1) = of_int (2 ^ 52)"
      by (simp add: power_int_add)
    then have "x / p2 ?u = of_int (2 ^ 52)" by (simp only: ue)
    then have "of_int (half_even (x / p2 ?u)) = x / p2 ?u" by (simp only: half_even_int)
    then show ?thesis using assms(1) by (simp add: round_pos_def)
  qed
qed

lemma round53_mono: "x \<le> y \<Longrightarrow> round53 x \<le> round53 y"
  using round_pos_mono [of x y] round_pos_mono [of "- y" "- x"]
    order_trans [OF _ round_pos_nonneg, of "- round_pos (- x)" y]
  by (auto simp: round53_def)

lemma round53_0 [simp]: "round53 0 = 0"
  by (simp add: round53_def round_pos_def)

lemma round53_exact: "representable x \<Longrightarrow> round53 x = x"
proof -
  assume "representable x"
  then obtain n e where x: "x = of_int n * p2 e" "\<bar>n\<bar> \<le> 2 ^ 53" "- 1074 \<le> e"
    unfolding representable_def by blast
  consider "x = 0" | "0 < x" | "0 < - x" by linarith
  then show ?thesis
  proof cases
    case 2
    then show ?thesis using round_pos_exact [OF 2 x] by (simp add: round53_def)
  next
    case 3
    have "round_pos (- x) = - x"
      by (rule round_pos_exact [OF 3, of "- n" e]) (use x in simp_all)
    then show ?thesis using 3 by (simp add: round53_def)
  qed simp
qed

lemma representable_of_int: "\<bar>n\<bar> \<le> 2 ^ 53 \<Longrightarrow> representable (of_int n)"
  unfolding representable_def by (intro exI [of _ n] exI [of _ 0]) simp

lemma rnd_exact: "representable x \<Longrightarrow> \<bar>x\<bar> < 2 ^ 1024 \<Longrightarrow> rnd x = Fin x"
  by (auto simp: rnd_def Let_def round53_exact abs_less_iff)

lemma rnd_of_int: "\<bar>n\<bar> \<le> 2 ^ 53 \<Longrightarrow> rnd (of_int n) = Fin (of_int n)"
proof -
  assume n: "\<bar>n\<bar> \<le> 2 ^ 53"
  have "(of_int \<bar>n\<bar> :: rat) \<le> of_int (2 ^ 53)" using n by (simp only: of_int_le_iff)
  also have "\<dots> < 2 ^ 1024" by simp
  finally show ?thesis by (intro rnd_exact representable_of_int n) simp
qed

lemma rnd_0 [simp]: "rnd 0 = Fin 0"
  using rnd_of_int [of 0] by simp

lemma rnd_numeral: "(numeral k :: int) \<le> 2 ^ 53 \<Longrightarrow> rnd (numeral k) = Fin (numeral k)"
  using rnd_of_int [of "numeral k"] by simp

lemma rnd_1 [simp]: "rnd 1 = Fin 1"
  using rnd_of_int [of 1] by simp

section \<open>Lemmas: order\<close>

lemma rnd_not_NaN [simp]: "rnd x \<noteq> NaN"
  by (simp add: rnd_def Let_def)

lemma rnd_mono: "x \<le> y \<Longrightarrow> fle (rnd x) (rnd y)"
  using round53_mono [of x y] by (auto simp: rnd_def Let_def)

lemma fle_refl: "a \<noteq> NaN \<Longrightarrow> fle a a"
  by (cases a) auto

lemma fle_trans: "fle a b \<Longrightarrow> fle b c \<Longrightarrow> fle a c"
  by (cases a; cases b; cases c) auto

lemma flt_fle_trans: "flt a b \<Longrightarrow> fle b c \<Longrightarrow> flt a c"
  by (cases a; cases b; cases c) auto

lemma fle_flt_trans: "fle a b \<Longrightarrow> flt b c \<Longrightarrow> flt a c"
  by (cases a; cases b; cases c) auto

lemma flt_imp_fle: "flt a b \<Longrightarrow> fle a b"
  by (cases a; cases b) auto

lemma not_fle_iff: "a \<noteq> NaN \<Longrightarrow> b \<noteq> NaN \<Longrightarrow> \<not> fle a b \<longleftrightarrow> flt b a"
  by (cases a; cases b) auto

lemma not_flt_iff: "a \<noteq> NaN \<Longrightarrow> b \<noteq> NaN \<Longrightarrow> \<not> flt a b \<longleftrightarrow> fle b a"
  by (cases a; cases b) auto

lemma flt_irrefl [simp]: "\<not> flt a a"
  by (cases a) auto

lemma fle_antisym: "fle a b \<Longrightarrow> fle b a \<Longrightarrow> a = b"
  by (cases a; cases b) auto

lemma fle_not_NaN: "fle a b \<Longrightarrow> a \<noteq> NaN \<and> b \<noteq> NaN"
  by (cases a; cases b) auto

lemma flt_not_NaN: "flt a b \<Longrightarrow> a \<noteq> NaN \<and> b \<noteq> NaN"
  by (cases a; cases b) auto

lemma rnd_nonneg: "0 \<le> x \<Longrightarrow> fle f0 (rnd x)"
  using rnd_mono [of 0 x] by simp

lemma rnd_le_exact: "x \<le> y \<Longrightarrow> rnd y = Fin y \<Longrightarrow> fle (rnd x) (Fin y)"
  using rnd_mono [of x y] by simp

section \<open>Lemmas: operations\<close>

text \<open>The values a program can hold: finite values of the format, or none.\<close>

definition is_f64 :: "f64 \<Rightarrow> bool" where
  "is_f64 a = (case a of Fin x \<Rightarrow> rnd x = Fin x | _ \<Rightarrow> True)"

lemma fmin_le: "a \<noteq> NaN \<Longrightarrow> b \<noteq> NaN \<Longrightarrow> fle (fmin a b) a \<and> fle (fmin a b) b"
  by (cases a; cases b) (auto simp: fmin_def)

lemma fmin_cases: "fmin a b = a \<or> fmin a b = b"
  by (auto simp: fmin_def)

lemma fsub_Fin: "fsub (Fin x) (Fin y) = rnd (x - y)"
  by (simp add: fsub_def)

lemma fsub_nonneg: "fle b a \<Longrightarrow> is_f64 a \<Longrightarrow> a \<noteq> PInf \<Longrightarrow> b \<noteq> NInf \<Longrightarrow> fle f0 (fsub a b)"
  by (cases a; cases b) (auto simp: fsub_Fin rnd_nonneg)

lemma fadd_nonneg: "fle f0 a \<Longrightarrow> fle f0 b \<Longrightarrow> fle f0 (fadd a b)"
  by (cases a; cases b) (auto intro!: rnd_nonneg)

lemma fmul_nonneg: "fle f0 a \<Longrightarrow> fle f0 b \<Longrightarrow> fmul a b \<noteq> NaN \<Longrightarrow> fle f0 (fmul a b)"
  by (cases a; cases b) (auto simp: fmul_def inf_sign_def sgn_if intro!: rnd_nonneg split: if_splits)

lemma representable_round_pos: "representable (round_pos x)"
proof (cases "0 < x")
  case True
  let ?e = "ulp_exp x"
  have "x < p2 (ilog2 x + 1)" by (rule ilog2_bounds [OF True])
  also have "\<dots> \<le> p2 (53 + ?e)" by (rule p2_mono) (simp add: ulp_exp_def)
  finally have "x / p2 ?e \<le> of_int (2 ^ 53)"
    by (simp add: power_int_add divide_le_eq)
  then have "half_even (x / p2 ?e) \<le> 2 ^ 53"
    using half_even_mono by (metis half_even_int)
  moreover have "0 \<le> half_even (x / p2 ?e)"
    using half_even_mono [of 0 "x / p2 ?e"] half_even_int [of 0] True by simp
  ultimately show ?thesis
    using True unfolding representable_def round_pos_def
    by (intro exI [of _ "half_even (x / p2 ?e)"] exI [of _ ?e]) (simp add: ulp_exp_def)
next
  case False
  then show ?thesis using representable_of_int [of 0] by (simp add: round_pos_def)
qed

lemma representable_uminus: "representable x \<Longrightarrow> representable (- x)"
proof -
  assume "representable x"
  then obtain n e where "x = of_int n * p2 e" "\<bar>n\<bar> \<le> 2 ^ 53" "- 1074 \<le> e"
    unfolding representable_def by blast
  then show ?thesis
    unfolding representable_def by (intro exI [of _ "- n"] exI [of _ e]) simp
qed

lemma representable_round53: "representable (round53 x)"
  by (simp add: round53_def representable_round_pos representable_uminus)

lemma rnd_is_f64 [simp]: "is_f64 (rnd x)"
  using representable_round53 [of x]
  by (auto simp: is_f64_def rnd_def Let_def round53_exact split: f64.splits if_splits)

lemma is_f64_simps [simp]: "is_f64 NaN" "is_f64 PInf" "is_f64 NInf" "is_f64 (Fin 0)" "is_f64 (Fin 1)"
  by (simp_all add: is_f64_def)

lemma is_f64_fadd [simp]: "is_f64 (fadd a b)"
  by (cases a; cases b) auto

lemma is_f64_fsub [simp]: "is_f64 (fsub a b)"
  by (simp add: fsub_def)

lemma is_f64_fmul [simp]: "is_f64 (fmul a b)"
  by (cases a; cases b) (auto simp: fmul_def inf_sign_def)

lemma is_f64_fdiv [simp]: "is_f64 (fdiv a b)"
  by (cases a; cases b) (auto simp: fdiv_def inf_sign_def)

lemma is_f64_of_int: "\<bar>n\<bar> \<le> 2 ^ 53 \<Longrightarrow> is_f64 (Fin (of_int n))"
  by (simp add: is_f64_def rnd_of_int)

lemma fadd_0 [simp]: "is_f64 a \<Longrightarrow> fadd a f0 = a" "is_f64 a \<Longrightarrow> fadd f0 a = a"
  by (cases a; simp add: is_f64_def)+

text \<open>Subtraction never overshoots zero, and a positive amount never raises.\<close>

lemma fsub_le: "is_f64 a \<Longrightarrow> fle f0 b \<Longrightarrow> fle f0 a \<Longrightarrow> fsub a b \<noteq> NaN \<Longrightarrow> fle (fsub a b) a"
  by (cases a; cases b) (auto simp: fsub_def is_f64_def intro: rnd_le_exact split: if_splits)

lemma fadd_le: "is_f64 a \<Longrightarrow> fle f0 b \<Longrightarrow> a \<noteq> NaN \<Longrightarrow> a \<noteq> NInf \<Longrightarrow> fle a (fadd a b)"
proof (cases a; cases b)
  fix x y assume "is_f64 a" "fle f0 b" "a = Fin x" "b = Fin y"
  then show "fle a (fadd a b)" using rnd_mono [of x "x + y"] by (simp add: is_f64_def)
qed auto

lemma small_abs: "\<bar>x :: rat\<bar> \<le> 2 ^ 60 \<Longrightarrow> \<bar>x\<bar> < 2 ^ 1024"
  by (rule le_less_trans [of _ "2 ^ 60"]) (simp_all only: power_strict_increasing_iff one_less_numeral_iff, simp_all)

lemma rnd_between:
  assumes "representable a" "representable b" "\<bar>a\<bar> \<le> 2 ^ 60" "\<bar>b\<bar> \<le> 2 ^ 60" "a \<le> x" "x \<le> b"
  shows "\<exists>y. rnd x = Fin y \<and> a \<le> y \<and> y \<le> b"
  using rnd_mono [OF assms(5)] rnd_mono [OF assms(6)] rnd_exact [OF assms(1) small_abs [OF assms(3)]]
    rnd_exact [OF assms(2) small_abs [OF assms(4)]]
  by (cases "rnd x") auto

section \<open>Decimal text and numeric columns\<close>

text \<open>
  A float64 reaches the database as its shortest decimal text (strconv format 'f',
  precision -1): the fewest fraction digits that read back as the same float, of
  the candidates the nearest.  This is exact for magnitudes below 2^53.  A numeric
  column of a scale rounds the text half away from zero, and reading the column
  rounds its value to a float again.
\<close>

definition half_away :: "rat \<Rightarrow> int" where
  "half_away x = (if x < 0 then - \<lfloor>1 / 2 - x\<rfloor> else \<lfloor>x + 1 / 2\<rfloor>)"

fun decimal_from :: "nat \<Rightarrow> nat \<Rightarrow> rat \<Rightarrow> rat" where
  "decimal_from 0 k x = x"
| "decimal_from (Suc n) k x =
     (let lo = of_int \<lfloor>x * 10 ^ k\<rfloor> / 10 ^ k; hi = of_int (\<lfloor>x * 10 ^ k\<rfloor> + 1) / 10 ^ k in
      if rnd lo = Fin x \<and> (rnd hi = Fin x \<longrightarrow> x - lo \<le> hi - x) then lo
      else if rnd hi = Fin x then hi
      else decimal_from n (Suc k) x)"

definition decimal_text :: "rat \<Rightarrow> rat" where
  "decimal_text x = decimal_from 400 0 x"

definition db_numeric :: "nat \<Rightarrow> f64 \<Rightarrow> f64" where
  "db_numeric scale v = (case v of Fin x \<Rightarrow> rnd (of_int (half_away (decimal_text x * 10 ^ scale)) / 10 ^ scale) | _ \<Rightarrow> v)"

lemma half_away_int [simp]: "half_away (of_int n) = n"
proof -
  have "\<lfloor>1 / 2 - rat_of_int n\<rfloor> = - n" by linarith
  moreover have "\<lfloor>rat_of_int n + 1 / 2\<rfloor> = n" by linarith
  ultimately show ?thesis by (simp add: half_away_def)
qed

lemma half_away_error: "\<bar>of_int (half_away x) - x\<bar> \<le> 1 / 2"
proof -
  have "of_int \<lfloor>1 / 2 - x\<rfloor> \<le> 1 / 2 - x" "1 / 2 - x < of_int \<lfloor>1 / 2 - x\<rfloor> + 1"
    "of_int \<lfloor>x + 1 / 2\<rfloor> \<le> x + 1 / 2" "x + 1 / 2 < of_int \<lfloor>x + 1 / 2\<rfloor> + 1" by linarith+
  then show ?thesis by (cases "x < 0") (simp_all only: half_away_def if_True if_False of_int_minus abs_le_iff, linarith+)
qed

lemma round_pos_error:
  assumes "0 < x" "x \<le> p2 k" "- 1022 \<le> k"
  shows "\<bar>round_pos x - x\<bar> \<le> p2 (k - 53)"
proof -
  let ?u = "ulp_exp x"
  have "p2 (ilog2 x) \<le> p2 k" using ilog2_bounds(1) [OF assms(1)] assms(2) by linarith
  then have u: "?u \<le> k - 52" using assms(3) p2_le by (auto simp: ulp_exp_def)
  have "round_pos x - x = (of_int (half_even (x / p2 ?u)) - x / p2 ?u) * p2 ?u"
    using assms(1) by (simp add: round_pos_def algebra_simps)
  then have "\<bar>round_pos x - x\<bar> = \<bar>of_int (half_even (x / p2 ?u)) - x / p2 ?u\<bar> * p2 ?u"
    by (simp add: abs_mult)
  also have "\<dots> \<le> 1 / 2 * p2 (k - 52)"
    using half_even_error [of "x / p2 ?u"] p2_mono [OF u] by (intro mult_mono) auto
  also have "\<dots> = p2 (k - 53)" using power_int_diff [of "2::rat" k 53] power_int_diff [of "2::rat" k 52] by simp
  finally show ?thesis .
qed

lemma round53_error: "\<bar>x\<bar> \<le> 2 ^ k \<Longrightarrow> \<bar>round53 x - x\<bar> \<le> p2 (int k - 53)"
proof -
  assume x: "\<bar>x\<bar> \<le> 2 ^ k"
  have p: "p2 (int k) = 2 ^ k" by (simp add: power_int_def)
  consider "x = 0" | "0 < x" | "0 < - x" by linarith
  then show ?thesis
  proof cases
    case 2 then show ?thesis using round_pos_error [of x "int k"] x by (simp add: p round53_def)
  next
    case 3 then show ?thesis using round_pos_error [of "- x" "int k"] x
      by (simp add: p round53_def abs_minus_commute add.commute)
  qed simp
qed

lemma rnd_small: "\<bar>x\<bar> \<le> 2 ^ 52 \<Longrightarrow> rnd x = Fin (round53 x)"
proof -
  assume x: "\<bar>x\<bar> \<le> 2 ^ 52"
  then have "\<bar>round53 x\<bar> \<le> 2 ^ 60" using round53_error [OF x] x
    unfolding abs_le_iff by (simp only: power_numeral) (auto simp: abs_le_iff power_int_def)
  then have "\<bar>round53 x\<bar> < 2 ^ 1024" by (rule small_abs)
  then show ?thesis by (simp only: rnd_def Let_def abs_less_iff) (simp add: not_le)
qed

text \<open>
  Values of m fraction digits below 2^j are told apart, and print as themselves,
  when 4 * 10^m * 2^j fits the 53 bits.
\<close>

definition scaled :: "nat \<Rightarrow> rat \<Rightarrow> bool" where
  "scaled k c \<longleftrightarrow> of_int \<lfloor>c * 10 ^ k\<rfloor> = c * 10 ^ k"

definition precise :: "nat \<Rightarrow> nat \<Rightarrow> rat \<Rightarrow> bool" where
  "precise m j c \<longleftrightarrow> scaled m c \<and> \<bar>c\<bar> + 2 \<le> 2 ^ j \<and> (4 :: nat) * 10 ^ m * 2 ^ j \<le> 2 ^ 53"

lemma precise_error:
  assumes "(4 :: nat) * 10 ^ m * 2 ^ j \<le> 2 ^ 53" "\<bar>c\<bar> \<le> 2 ^ j"
  shows "rnd c = Fin (round53 c)" "\<bar>round53 c - c\<bar> * 10 ^ m \<le> 1 / 4"
proof -
  have "(4 * 2 ^ j) * 1 \<le> (4 * 2 ^ j) * (10 :: nat) ^ m" by (intro mult_le_mono2) simp
  then have "(2 :: nat) ^ j * 4 \<le> 2 ^ 53" using assms(1) by (simp only: mult_ac mult_1_right mult_1)
  then have "(2 :: nat) ^ j \<le> 2 ^ 51" by simp
  then have j: "j \<le> 51" by (rule power_le_imp_le_exp [rotated]) simp
  then have "(2 :: rat) ^ j \<le> 2 ^ 52" by (intro power_increasing) simp_all
  then show "rnd c = Fin (round53 c)" using assms(2) by (intro rnd_small) linarith
  have "p2 (int j - 53) * 2 ^ 53 = 2 ^ j" by (simp add: power_int_diff)
  moreover have "of_nat (4 * 10 ^ m * 2 ^ j) \<le> (of_nat (2 ^ 53) :: rat)" using assms(1) by (simp only: of_nat_le_iff)
  then have "(4 :: rat) * 10 ^ m * 2 ^ j \<le> 2 ^ 53" by (simp only: of_nat_mult of_nat_power of_nat_numeral)
  ultimately have "(4 * 10 ^ m) * (p2 (int j - 53) * 2 ^ 53) \<le> 2 ^ 53" by (simp only: mult.assoc)
  then have "p2 (int j - 53) * (4 * 10 ^ m) * 2 ^ 53 \<le> 1 * 2 ^ 53" by (simp only: mult_ac mult_1_right)
  then have "p2 (int j - 53) * (4 * 10 ^ m) \<le> 1" by (rule mult_right_le_imp_le) simp
  moreover have "\<bar>round53 c - c\<bar> * (4 * 10 ^ m) \<le> p2 (int j - 53) * (4 * 10 ^ m)"
    by (intro mult_right_mono round53_error [OF assms(2)]) simp
  ultimately have "\<bar>round53 c - c\<bar> * (4 * 10 ^ m) \<le> 1" by (rule order_trans [rotated])
  then show "\<bar>round53 c - c\<bar> * 10 ^ m \<le> 1 / 4" by simp
qed

lemma rnd_precise_inj:
  assumes "(4 :: nat) * 10 ^ m * 2 ^ j \<le> 2 ^ 53" "\<bar>a\<bar> \<le> 2 ^ j" "\<bar>b\<bar> \<le> 2 ^ j" "scaled m a" "scaled m b" "rnd a = rnd b"
  shows "a = b"
proof -
  have "round53 a = round53 b" using assms(6) precise_error(1) [OF assms(1,2)] precise_error(1) [OF assms(1,3)] by simp
  moreover have "\<bar>round53 a * 10 ^ m - a * 10 ^ m\<bar> \<le> 1 / 4" "\<bar>round53 b * 10 ^ m - b * 10 ^ m\<bar> \<le> 1 / 4"
    using precise_error(2) [OF assms(1,2)] precise_error(2) [OF assms(1,3)] by (simp_all add: abs_mult flip: left_diff_distrib)
  ultimately have "\<bar>a * 10 ^ m - b * 10 ^ m\<bar> \<le> 1 / 2" by (simp only: abs_le_iff) linarith
  moreover have i: "of_int \<lfloor>a * 10 ^ m\<rfloor> = a * 10 ^ m" "of_int \<lfloor>b * 10 ^ m\<rfloor> = b * 10 ^ m"
    using assms(4,5) unfolding scaled_def by blast+
  then have d: "a * 10 ^ m - b * 10 ^ m = of_int (\<lfloor>a * 10 ^ m\<rfloor> - \<lfloor>b * 10 ^ m\<rfloor>)" by (simp only: of_int_diff)
  ultimately have "\<bar>of_int (\<lfloor>a * 10 ^ m\<rfloor> - \<lfloor>b * 10 ^ m\<rfloor>) :: rat\<bar> < 1" by linarith
  then have "\<lfloor>a * 10 ^ m\<rfloor> - \<lfloor>b * 10 ^ m\<rfloor> = 0" by linarith
  then show ?thesis using d by simp
qed

lemma scaled_mono: "scaled k c \<Longrightarrow> k \<le> m \<Longrightarrow> scaled m c"
proof -
  assume "scaled k c" "k \<le> m"
  then have c: "of_int \<lfloor>c * 10 ^ k\<rfloor> = c * 10 ^ k" and m: "10 ^ m = (10 ^ k * 10 ^ (m - k) :: rat)"
    by (simp_all add: scaled_def flip: power_add)
  have "c * 10 ^ m = of_int (\<lfloor>c * 10 ^ k\<rfloor> * 10 ^ (m - k))"
    by (simp only: m of_int_mult c of_int_power of_int_numeral mult.assoc)
  then show ?thesis by (simp only: scaled_def floor_of_int)
qed

lemma scaled_frac: "scaled k (of_int n / 10 ^ k)"
  by (simp add: scaled_def)

lemma decimal_from_precise:
  assumes "precise m j c" "rnd c = Fin x" "k + n > m" "k \<le> m"
  shows "decimal_from n k x = c"
  using assms(3,4)
proof (induction n arbitrary: k)
  case (Suc n)
  have c: "scaled m c" "\<bar>c\<bar> \<le> 2 ^ j" "\<bar>c\<bar> + 2 \<le> 2 ^ j" and fit: "(4 :: nat) * 10 ^ m * 2 ^ j \<le> 2 ^ 53"
    using assms(1) unfolding precise_def by (blast, linarith, linarith, blast)
  have xc: "\<bar>x - c\<bar> * 10 ^ m \<le> 1 / 4"
    using assms(2) precise_error [OF fit c(2)] by simp
  have "\<bar>x - c\<bar> * 10 ^ k \<le> \<bar>x - c\<bar> * 10 ^ m"
    using Suc.prems(2) by (intro mult_left_mono power_increasing) simp_all
  then have xk: "\<bar>x * 10 ^ k - c * 10 ^ k\<bar> \<le> 1 / 4" using xc by (simp add: abs_mult flip: left_diff_distrib)
  have "\<bar>x - c\<bar> * 1 \<le> \<bar>x - c\<bar> * 10 ^ m" by (intro mult_left_mono) simp_all
  let ?f = "\<lfloor>x * 10 ^ k\<rfloor>"
  have fl: "of_int ?f \<le> x * 10 ^ k" "x * 10 ^ k < of_int ?f + 1" by linarith+
  have near: "a = c" if "a = of_int i / 10 ^ k" "i \<in> {?f, ?f + 1}" "rnd a = Fin x" for a i
  proof (rule rnd_precise_inj [OF fit])
    show "scaled m a" using scaled_mono [OF scaled_frac Suc.prems(2)] that(1) by simp
    show "\<bar>a\<bar> \<le> 2 ^ j"
    proof -
      have "a * 10 ^ k = of_int i" using that(1) by simp
      moreover have "of_int i = (of_int ?f :: rat) \<or> of_int i = (of_int ?f + 1 :: rat)" using that(2) by auto
      ultimately have "\<bar>a * 10 ^ k - c * 10 ^ k\<bar> \<le> 1 + 1 / 4" using fl xk unfolding abs_le_iff by linarith
      then have "\<bar>a - c\<bar> * 10 ^ k \<le> 5 / 4" by (simp add: abs_mult flip: left_diff_distrib)
      moreover have "\<bar>a - c\<bar> * 1 \<le> \<bar>a - c\<bar> * 10 ^ k" by (intro mult_left_mono) simp_all
      ultimately have "\<bar>a - c\<bar> \<le> 5 / 4" by simp
      moreover have "\<bar>a\<bar> \<le> \<bar>c\<bar> + \<bar>a - c\<bar>" using abs_triangle_ineq [of c "a - c"] by simp
      ultimately show ?thesis using c(3) by linarith
    qed
  qed (use assms(2) c that(3) in simp_all)
  have found: "rnd (of_int ?f / 10 ^ k) = Fin x \<or> rnd (of_int (?f + 1) / 10 ^ k) = Fin x" if "k = m"
  proof -
    have i: "of_int \<lfloor>c * 10 ^ k\<rfloor> = c * 10 ^ k" using c(1) that unfolding scaled_def by blast
    then have "?f \<le> \<lfloor>c * 10 ^ k\<rfloor>" "\<lfloor>c * 10 ^ k\<rfloor> \<le> ?f + 1"
      using fl xk unfolding abs_le_iff by linarith+
    then have "\<lfloor>c * 10 ^ k\<rfloor> = ?f \<or> \<lfloor>c * 10 ^ k\<rfloor> = ?f + 1" by linarith
    moreover have "of_int \<lfloor>c * 10 ^ k\<rfloor> / 10 ^ k = c" by (simp only: i) simp
    ultimately show ?thesis using assms(2) by auto
  qed
  show ?case
  proof (cases "rnd (of_int ?f / 10 ^ k) = Fin x \<or> rnd (of_int (?f + 1) / 10 ^ k) = Fin x")
    case True
    then show ?thesis using near [of _ ?f] near [of _ "?f + 1"]
      by (simp only: decimal_from.simps Let_def split: if_splits) blast
  next
    case False
    then have "k < m" using found Suc.prems(2) by fastforce
    then show ?thesis using False Suc by simp
  qed
qed simp

lemma decimal_text_precise: "precise m j c \<Longrightarrow> m < 400 \<Longrightarrow> rnd c = Fin x \<Longrightarrow> decimal_text x = c"
  by (simp add: decimal_text_def decimal_from_precise)

lemma precise_Fin: "precise m j c \<Longrightarrow> rnd c = Fin (round53 c)"
  unfolding precise_def by (rule precise_error) (blast, linarith)

lemma rnd_half_away:
  assumes "scaled m c"
  shows "of_int (half_away (c * 10 ^ m)) / 10 ^ m = c"
proof -
  have i: "of_int \<lfloor>c * 10 ^ m\<rfloor> = c * 10 ^ m" using assms unfolding scaled_def by blast
  then have "half_away (c * 10 ^ m) = \<lfloor>c * 10 ^ m\<rfloor>" by (metis half_away_int)
  then show ?thesis by (simp only: i) simp
qed

lemma db_numeric_precise:
  assumes "precise m j c" "m < 400"
  shows "db_numeric m (rnd c) = rnd c"
proof -
  have s: "scaled m c" using assms(1) by (simp add: precise_def)
  show ?thesis
    unfolding db_numeric_def precise_Fin [OF assms(1)] f64.case
      decimal_text_precise [OF assms precise_Fin [OF assms(1)]] rnd_half_away [OF s] by (simp only: precise_Fin [OF assms(1)])
qed

lemma db_numeric_scaled:
  "\<exists>c. scaled s c \<and> db_numeric s (Fin x) = rnd c \<and> \<bar>c - decimal_text x\<bar> \<le> 1 / (2 * 10 ^ s)"
proof -
  let ?y = "decimal_text x * 10 ^ s"
  let ?c = "of_int (half_away ?y) / 10 ^ s :: rat"
  have "\<bar>of_int (half_away ?y) - ?y\<bar> / 10 ^ s \<le> 1 / 2 / 10 ^ s"
    using half_away_error [of ?y] by (intro divide_right_mono) simp_all
  moreover have "?c - decimal_text x = (of_int (half_away ?y) - ?y) / 10 ^ s" by (simp add: field_simps)
  ultimately have "\<bar>?c - decimal_text x\<bar> \<le> 1 / (2 * 10 ^ s)" by (simp add: abs_divide)
  then show ?thesis using scaled_frac by (auto simp: db_numeric_def)
qed

end
