(* ===== verification/Calendar.thy ===== *)
theory Calendar
  imports GoTime
begin

text \<open>
  Locations and calendar days: the parts of the time package that
  internal/pkg/timezone/calendar.go and the quota windows use.  A location is
  its list of transitions (Unix second, offset from then on) after an initial
  offset; a Time is an instant with its location.  A civil date is its day
  number, counted from 1970-01-01, so AddDate by days and the first instant of a
  day are arithmetic on day numbers, resolved as time.Date does.
\<close>

record location =
  base_offset :: int
  transitions :: "(int \<times> int) list"

record gtime =
  ns :: instant
  loc :: location

definition utc :: location where
  "utc = \<lparr>base_offset = 0, transitions = []\<rparr>"

definition Before :: "gtime \<Rightarrow> gtime \<Rightarrow> bool" where "Before a b = (ns a < ns b)"
definition After :: "gtime \<Rightarrow> gtime \<Rightarrow> bool" where "After a b = (ns b < ns a)"
definition IsZero :: "gtime \<Rightarrow> bool" where "IsZero a = is_zero (ns a)"
definition Add :: "gtime \<Rightarrow> duration \<Rightarrow> gtime" where "Add t d = t\<lparr>ns := ns t + d\<rparr>"
definition In :: "gtime \<Rightarrow> location \<Rightarrow> gtime" where "In t l = t\<lparr>loc := l\<rparr>"

lemmas time_order = Before_def After_def IsZero_def

definition nanos :: int where "nanos = 1000000000"
definition day_secs :: int where "day_secs = 86400"

definition unix_sec :: "gtime \<Rightarrow> int" where
  "unix_sec t = ns t div nanos"

text \<open>
  Location.lookup: the offset in force at a Unix second, with the start and end
  of its validity (None where unbounded).
\<close>

fun lookup_from :: "int \<Rightarrow> int option \<Rightarrow> (int \<times> int) list \<Rightarrow> int \<Rightarrow> int \<times> int option \<times> int option" where
  "lookup_from off start [] sec = (off, start, None)"
| "lookup_from off start ((at, off') # ts) sec =
     (if sec < at then (off, start, Some at) else lookup_from off' (Some at) ts sec)"

definition lookup :: "location \<Rightarrow> int \<Rightarrow> int \<times> int option \<times> int option" where
  "lookup l sec = lookup_from (base_offset l) None (transitions l) sec"

definition offset_at :: "location \<Rightarrow> int \<Rightarrow> int" where
  "offset_at l sec = fst (lookup l sec)"

text \<open>
  The end of time.Date: a local second count becomes a Unix second.  The offset
  is first looked up as if the local count were Unix; when the corrected instant
  falls outside that offset's validity, the offset at the corrected instant is
  used.
\<close>

definition resolve_local :: "location \<Rightarrow> int \<Rightarrow> int" where
  "resolve_local l local =
     (case lookup l local of (off, start, stop) \<Rightarrow>
        if off = 0 then local
        else
          let u = local - off;
              outside = (case start of None \<Rightarrow> False | Some s \<Rightarrow> u < s)
                \<or> (case stop of None \<Rightarrow> False | Some e \<Rightarrow> e \<le> u)
          in local - (if outside then offset_at l u else off))"

definition local_sec :: "gtime \<Rightarrow> int" where
  "local_sec t = unix_sec t + offset_at (loc t) (unix_sec t)"

definition day_number :: "gtime \<Rightarrow> int" where
  "day_number t = local_sec t div day_secs"

text \<open>time.Date for a day number with a clock time of that day, in a location.\<close>

definition Date :: "int \<Rightarrow> int \<Rightarrow> int \<Rightarrow> location \<Rightarrow> gtime" where
  "Date day secs nsec l = \<lparr>ns = resolve_local l (day * day_secs + secs) * nanos + nsec, loc = l\<rparr>"

definition AddDays :: "gtime \<Rightarrow> int \<Rightarrow> gtime" where
  "AddDays t n = Date (day_number t + n) (local_sec t mod day_secs) (ns t mod nanos) (loc t)"

text \<open>Sunday is 0; day 0 was a Thursday.\<close>

definition Weekday :: "gtime \<Rightarrow> int" where
  "Weekday t = (day_number t + 4) mod 7"

section \<open>Calendar of internal/pkg/timezone\<close>

text \<open>A calendar is its location; the process-local location is a parameter.\<close>

record Calendar =
  location :: "location option"

definition Location :: "location \<Rightarrow> Calendar \<Rightarrow> location" where
  "Location local c = (case location c of None \<Rightarrow> local | Some l \<Rightarrow> l)"

definition StartOfDay :: "location \<Rightarrow> Calendar \<Rightarrow> gtime \<Rightarrow> gtime" where
  "StartOfDay local c t =
     (let l = Location local c; t = In t l in Date (day_number t) 0 0 l)"

definition EndOfDay :: "location \<Rightarrow> Calendar \<Rightarrow> gtime \<Rightarrow> gtime" where
  "EndOfDay local c t =
     (let l = Location local c; t = In t l in
      Date (day_number t) (23 * 3600 + 59 * 60 + 59) 999999999 l)"

definition StartOfWeek :: "location \<Rightarrow> Calendar \<Rightarrow> gtime \<Rightarrow> gtime" where
  "StartOfWeek local c t =
     (let l = Location local c; t = In t l;
          weekday = Weekday t;
          weekday = (if weekday = 0 then 7 else weekday) in
      Date (day_number t - weekday + 1) 0 0 l)"

text \<open>The day of the month of a day number (proleptic Gregorian calendar).\<close>

definition month_day :: "int \<Rightarrow> int" where
  "month_day day =
     (let doe = (day + 719468) mod 146097;
          yoe = (doe - doe div 1460 + doe div 36524 - doe div 146096) div 365;
          doy = doe - (365 * yoe + yoe div 4 - yoe div 100);
          mp = (5 * doy + 2) div 153
      in doy - (153 * mp + 2) div 5 + 1)"

definition StartOfMonth :: "location \<Rightarrow> Calendar \<Rightarrow> gtime \<Rightarrow> gtime" where
  "StartOfMonth local c t =
     (let l = Location local c; t = In t l in Date (day_number t - month_day (day_number t) + 1) 0 0 l)"

section \<open>Lemmas\<close>

lemma loc_simps [simp]:
  "loc (Add t d) = loc t" "ns (Add t d) = ns t + d" "loc (In t l) = l" "ns (In t l) = ns t"
  "loc (Date d s n l) = l" "loc (AddDays t k) = loc t"
  by (simp_all add: Add_def In_def Date_def AddDays_def)

definition fixed_zone :: "int \<Rightarrow> location" where
  "fixed_zone off = \<lparr>base_offset = off, transitions = []\<rparr>"

lemma fixed_lookup [simp]: "lookup (fixed_zone off) s = (off, None, None)"
  by (simp add: lookup_def fixed_zone_def)

lemma fixed_offset [simp]: "offset_at (fixed_zone off) s = off"
  by (simp add: offset_at_def)

lemma fixed_resolve [simp]: "resolve_local (fixed_zone off) s = s - off"
  by (simp add: resolve_local_def)

text \<open>
  In a location without transitions the day of an instant starts at or before
  it, less than 24 hours before, and the start of the start is the start.
\<close>

lemma fixed_start_of_day:
  assumes "location c = Some (fixed_zone off)"
  shows "ns (StartOfDay l c t) \<le> ns t \<and> ns t < ns (StartOfDay l c t) + 24 * hour"
    and "ns (StartOfDay l c (StartOfDay l c t)) = ns (StartOfDay l c t)"
proof -
  let ?u = "ns t div nanos"
  let ?d = "(?u + off) div day_secs"
  have s: "ns (StartOfDay l c t) = (?d * day_secs - off) * nanos"
    using assms by (simp add: StartOfDay_def Location_def Date_def day_number_def local_sec_def unix_sec_def In_def)
  have "?d * day_secs \<le> ?u + off" "?u + off < ?d * day_secs + day_secs"
    by (simp_all add: day_secs_def)
  moreover have "?u * nanos \<le> ns t" "ns t < ?u * nanos + nanos"
    by (simp_all add: nanos_def)
  ultimately show "ns (StartOfDay l c t) \<le> ns t \<and> ns t < ns (StartOfDay l c t) + 24 * hour"
    unfolding s by (simp add: day_secs_def nanos_def hour_def algebra_simps)
  have "((?d * day_secs - off) * nanos div nanos + off) div day_secs = ?d"
    by (simp add: nanos_def day_secs_def)
  then show "ns (StartOfDay l c (StartOfDay l c t)) = ns (StartOfDay l c t)"
    using assms s
    by (simp add: StartOfDay_def Location_def Date_def day_number_def local_sec_def unix_sec_def In_def)
qed

lemma lookup_from_valid:
  assumes "sorted_wrt (<) (map fst ts)" "\<forall>s. start = Some s \<longrightarrow> s \<le> sec \<and> (\<forall>a \<in> fst ` set ts. s < a)"
    and "lookup_from off start ts sec = (o', a, b)"
  shows "(\<forall>s. a = Some s \<longrightarrow> s \<le> sec) \<and> (\<forall>e. b = Some e \<longrightarrow> sec < e)"
  using assms
  by (induction off start ts sec rule: lookup_from.induct) (auto split: if_splits)

lemma AddDays_ns_fixed:
  "loc t = fixed_zone off \<Longrightarrow> ns (AddDays t n) = ns t + n * (24 * hour)"
  by (simp add: AddDays_def Date_def day_number_def local_sec_def unix_sec_def day_secs_def
      nanos_def hour_def algebra_simps minus_div_mult_eq_mod [symmetric])

end
