(* ===== verification/SubscriptionStatus.thy ===== *)
theory SubscriptionStatus
  imports Prelude
begin

text \<open>
  The stored statuses of a user subscription (internal/billing/subscription.go),
  which the subscription rules, the refund workflow and the settlement share.
\<close>

definition SubscriptionStatusActive :: string where "SubscriptionStatusActive = ''active''"
definition SubscriptionStatusPending :: string where "SubscriptionStatusPending = ''pending''"
definition SubscriptionStatusExpired :: string where "SubscriptionStatusExpired = ''expired''"
definition SubscriptionStatusSuspended :: string where "SubscriptionStatusSuspended = ''suspended''"
definition SubscriptionStatusRevoked :: string where "SubscriptionStatusRevoked = ''revoked''"

lemmas status_consts = SubscriptionStatusActive_def SubscriptionStatusPending_def
  SubscriptionStatusExpired_def SubscriptionStatusSuspended_def SubscriptionStatusRevoked_def

end
