(* ===== verification/Subscription.thy ===== *)
theory Subscription
  imports Float64 Calendar SubscriptionStatus
begin

text \<open>
  Subscriptions and their quota windows: internal/billing/subscription.go.  A
  pointer is an option, so a method the code guards against nil takes an option;
  the wall clock a method reads is its argument.  Of the views a subscription
  carries only the plan's group scope is read by the code.
\<close>

section \<open>Data\<close>

definition SubscriptionDailyWindow :: duration where "SubscriptionDailyWindow = 24 * hour"
definition SubscriptionWeeklyWindow :: duration where "SubscriptionWeeklyWindow = 7 * 24 * hour"
definition SubscriptionMonthlyWindow :: duration where "SubscriptionMonthlyWindow = 30 * 24 * hour"

lemmas window_consts = SubscriptionDailyWindow_def SubscriptionWeeklyWindow_def
  SubscriptionMonthlyWindow_def hour_def

record UserSubscription =
  ID :: int
  UserID :: int
  PlanID :: int
  StartsAt :: gtime
  ExpiresAt :: gtime
  Status :: string
  DailyWindowStart :: "gtime option"
  WeeklyWindowStart :: "gtime option"
  MonthlyWindowStart :: "gtime option"
  DailyLimitUSD :: "f64 option"
  WeeklyLimitUSD :: "f64 option"
  MonthlyLimitUSD :: "f64 option"
  DailyUsageUSD :: f64
  WeeklyUsageUSD :: f64
  MonthlyUsageUSD :: f64
  SourceOrderID :: "int option"
  DeletedAt :: "gtime option"
  PlanGroupIDs :: "int list option"  \<comment> \<open>GroupIDs of the plan view; None without a view\<close>

record SubscriptionWindowActivation =
  Daily :: bool
  Weekly :: bool
  Monthly :: bool

definition Any :: "SubscriptionWindowActivation \<Rightarrow> bool" where
  "Any a = (Daily a \<or> Weekly a \<or> Monthly a)"

section \<open>Limits and remaining amounts\<close>

definition PositiveSubscriptionLimit :: "f64 option \<Rightarrow> bool" where
  "PositiveSubscriptionLimit limit = (case limit of None \<Rightarrow> False | Some l \<Rightarrow> flt f0 l)"

definition ValueOrZeroLimit :: "f64 option \<Rightarrow> f64" where
  "ValueOrZeroLimit v = (case v of None \<Rightarrow> f0 | Some l \<Rightarrow> l)"

definition FinitePositiveSubscriptionLimit :: "f64 option \<Rightarrow> bool" where
  "FinitePositiveSubscriptionLimit limit =
     (PositiveSubscriptionLimit limit \<and> limit \<noteq> Some NaN \<and> limit \<noteq> Some PInf \<and> limit \<noteq> Some NInf)"

definition RemainingWindowAmount :: "f64 option \<Rightarrow> f64 \<Rightarrow> f64 option" where
  "RemainingWindowAmount limit used =
     (case limit of
        None \<Rightarrow> None
      | Some l \<Rightarrow>
          if fle l f0 then None
          else let remaining = fsub l used in Some (if flt remaining f0 then f0 else remaining))"

text \<open>The selection loop shared by the two minimum functions.\<close>

fun min_loop :: "f64 option list \<Rightarrow> f64 \<times> bool \<Rightarrow> f64 \<times> bool" where
  "min_loop [] acc = acc"
| "min_loop (None # vs) acc = min_loop vs acc"
| "min_loop (Some v # vs) (m, found) =
     min_loop vs (if \<not> found \<or> flt v m then (v, True) else (m, found))"

definition MinRemainingWindowAmount :: "f64 option list \<Rightarrow> f64" where
  "MinRemainingWindowAmount values =
     (case min_loop values (f0, False) of (m, found) \<Rightarrow> if \<not> found then f0 else m)"

definition RemainingDailyUSD :: "UserSubscription \<Rightarrow> f64 option" where
  "RemainingDailyUSD s = RemainingWindowAmount (DailyLimitUSD s) (DailyUsageUSD s)"

definition RemainingWeeklyUSD :: "UserSubscription \<Rightarrow> f64 option" where
  "RemainingWeeklyUSD s = RemainingWindowAmount (WeeklyLimitUSD s) (WeeklyUsageUSD s)"

definition RemainingMonthlyUSD :: "UserSubscription \<Rightarrow> f64 option" where
  "RemainingMonthlyUSD s = RemainingWindowAmount (MonthlyLimitUSD s) (MonthlyUsageUSD s)"

definition AvailableQuotaUSD :: "UserSubscription \<Rightarrow> f64" where
  "AvailableQuotaUSD s =
     MinRemainingWindowAmount [RemainingDailyUSD s, RemainingWeeklyUSD s, RemainingMonthlyUSD s]"

definition SubscriptionRemainingForDisplay :: "UserSubscription option \<Rightarrow> f64" where
  "SubscriptionRemainingForDisplay sub =
     (case sub of
        None \<Rightarrow> f0
      | Some s \<Rightarrow>
          if (DailyLimitUSD s = None \<or> fle (ValueOrZeroLimit (DailyLimitUSD s)) f0)
            \<and> (WeeklyLimitUSD s = None \<or> fle (ValueOrZeroLimit (WeeklyLimitUSD s)) f0)
            \<and> (MonthlyLimitUSD s = None \<or> fle (ValueOrZeroLimit (MonthlyLimitUSD s)) f0)
          then Fin (- 1)
          else AvailableQuotaUSD s)"

definition HasQuotaLimit :: "UserSubscription \<Rightarrow> bool" where
  "HasQuotaLimit s = (PositiveSubscriptionLimit (DailyLimitUSD s)
     \<or> PositiveSubscriptionLimit (WeeklyLimitUSD s) \<or> PositiveSubscriptionLimit (MonthlyLimitUSD s))"

text \<open>The first eligible window, longest period first, decides.\<close>

fun first_ok_quota :: "(f64 \<times> f64 \<times> bool) list \<Rightarrow> bool" where
  "first_ok_quota [] = False"
| "first_ok_quota ((limit, used, ok) # qs) = (if ok then fle limit used else first_ok_quota qs)"

definition HighestQuotaExhausted :: "UserSubscription option \<Rightarrow> bool" where
  "HighestQuotaExhausted sub =
     (case sub of
        None \<Rightarrow> False
      | Some s \<Rightarrow> first_ok_quota
          [(ValueOrZeroLimit (MonthlyLimitUSD s), MonthlyUsageUSD s, FinitePositiveSubscriptionLimit (MonthlyLimitUSD s)),
           (ValueOrZeroLimit (WeeklyLimitUSD s), WeeklyUsageUSD s, FinitePositiveSubscriptionLimit (WeeklyLimitUSD s)),
           (ValueOrZeroLimit (DailyLimitUSD s), DailyUsageUSD s, FinitePositiveSubscriptionLimit (DailyLimitUSD s))])"

section \<open>Lifetime\<close>

definition IsActive :: "gtime \<Rightarrow> UserSubscription \<Rightarrow> bool" where
  "IsActive now s = (DeletedAt s = None \<and> Status s = SubscriptionStatusActive \<and>
     \<not> Before now (StartsAt s) \<and> Before now (ExpiresAt s))"

definition IsPending :: "gtime \<Rightarrow> UserSubscription option \<Rightarrow> bool" where
  "IsPending now sub = (case sub of None \<Rightarrow> False
     | Some s \<Rightarrow> DeletedAt s = None \<and> Status s = SubscriptionStatusPending \<and> Before now (StartsAt s))"

definition EffectiveStatus :: "UserSubscription option \<Rightarrow> gtime \<Rightarrow> string" where
  "EffectiveStatus sub now =
     (case sub of
        None \<Rightarrow> SubscriptionStatusExpired
      | Some s \<Rightarrow>
          if DeletedAt s \<noteq> None then SubscriptionStatusRevoked
          else if \<not> After (ExpiresAt s) now then SubscriptionStatusExpired
          else if Before now (StartsAt s) then SubscriptionStatusPending
          else if Status s = SubscriptionStatusSuspended then SubscriptionStatusSuspended
          else SubscriptionStatusActive)"

definition IsEffective :: "gtime \<Rightarrow> UserSubscription option \<Rightarrow> bool" where
  "IsEffective now sub = (case sub of None \<Rightarrow> False
     | Some s \<Rightarrow> \<not> Before now (StartsAt s) \<and> Before now (ExpiresAt s) \<and>
         EffectiveStatus sub now = SubscriptionStatusActive)"

definition IsExpired :: "gtime \<Rightarrow> UserSubscription \<Rightarrow> bool" where
  "IsExpired now s = (\<not> After (ExpiresAt s) now)"

definition DaysRemainingAt :: "UserSubscription \<Rightarrow> gtime \<Rightarrow> int" where
  "DaysRemainingAt s now =
     (let remaining = ns (ExpiresAt s) - ns now in
      if remaining \<le> 0 then 0
      else
        let days = remaining div SubscriptionDailyWindow in
        if remaining mod SubscriptionDailyWindow \<noteq> 0 then days + 1 else days)"

section \<open>Quota windows\<close>

definition startOfDay :: "gtime \<Rightarrow> gtime" where
  "startOfDay t = Date (day_number t) 0 0 (loc t)"

definition HasOneTimeDailyQuota :: "UserSubscription option \<Rightarrow> bool" where
  "HasOneTimeDailyQuota sub =
     (case sub of
        None \<Rightarrow> False
      | Some s \<Rightarrow>
          if IsZero (StartsAt s) \<or> IsZero (ExpiresAt s) then False
          else \<not> After (ExpiresAt s) (AddDays (StartsAt s) 1))"

definition CanStartFullQuotaWindow :: "UserSubscription option \<Rightarrow> gtime \<Rightarrow> duration \<Rightarrow> bool" where
  "CanStartFullQuotaWindow sub windowStart dur =
     (case sub of
        None \<Rightarrow> False
      | Some s \<Rightarrow>
          if IsZero (ExpiresAt s) \<or> dur \<le> 0 \<or> \<not> Before windowStart (ExpiresAt s) then False
          else \<not> After (Add windowStart dur) (ExpiresAt s))"

definition HasFiniteOuterQuotaLimit :: "UserSubscription option \<Rightarrow> duration \<Rightarrow> bool" where
  "HasFiniteOuterQuotaLimit sub dur =
     (case sub of
        None \<Rightarrow> False
      | Some s \<Rightarrow>
          if dur = SubscriptionDailyWindow then
            PositiveSubscriptionLimit (WeeklyLimitUSD s) \<or> PositiveSubscriptionLimit (MonthlyLimitUSD s)
          else if dur = SubscriptionWeeklyWindow then PositiveSubscriptionLimit (MonthlyLimitUSD s)
          else False)"

definition CanStartQuotaWindow :: "UserSubscription option \<Rightarrow> gtime \<Rightarrow> duration \<Rightarrow> bool" where
  "CanStartQuotaWindow sub windowStart dur =
     (case sub of
        None \<Rightarrow> False
      | Some s \<Rightarrow>
          if IsZero (ExpiresAt s) \<or> \<not> Before windowStart (ExpiresAt s) then False
          else CanStartFullQuotaWindow sub windowStart dur \<or> HasFiniteOuterQuotaLimit sub dur)"

definition no_activation :: SubscriptionWindowActivation where
  "no_activation = \<lparr>Daily = False, Weekly = False, Monthly = False\<rparr>"

definition WindowActivationAt :: "UserSubscription option \<Rightarrow> gtime \<Rightarrow> SubscriptionWindowActivation" where
  "WindowActivationAt sub now =
     (case sub of
        None \<Rightarrow> no_activation
      | Some s \<Rightarrow>
          if \<not> HasQuotaLimit s \<or> Before now (StartsAt s) \<or> \<not> Before now (ExpiresAt s) then no_activation
          else
            let windowStart = startOfDay now in
            \<lparr>Daily = (PositiveSubscriptionLimit (DailyLimitUSD s) \<and> DailyWindowStart s = None \<and>
                (HasOneTimeDailyQuota sub \<or> CanStartQuotaWindow sub windowStart SubscriptionDailyWindow)),
             Weekly = (PositiveSubscriptionLimit (WeeklyLimitUSD s) \<and> WeeklyWindowStart s = None \<and>
                CanStartQuotaWindow sub windowStart SubscriptionWeeklyWindow),
             Monthly = (PositiveSubscriptionLimit (MonthlyLimitUSD s) \<and> MonthlyWindowStart s = None \<and>
                CanStartQuotaWindow sub windowStart SubscriptionMonthlyWindow)\<rparr>)"

definition NeedsWindowActivationAt :: "UserSubscription option \<Rightarrow> gtime \<Rightarrow> bool" where
  "NeedsWindowActivationAt sub now = Any (WindowActivationAt sub now)"

definition AutomaticDailyWindowStartWithCalendar ::
  "location \<Rightarrow> UserSubscription option \<Rightarrow> gtime \<Rightarrow> Calendar \<Rightarrow> gtime option" where
  "AutomaticDailyWindowStartWithCalendar local sub now calendar =
     (case sub of
        None \<Rightarrow> None
      | Some s \<Rightarrow>
          (case DailyWindowStart s of
             None \<Rightarrow> None
           | Some start \<Rightarrow>
               if IsZero (ExpiresAt s) \<or> \<not> Before now (ExpiresAt s) then None
               else if HasOneTimeDailyQuota sub then None
               else
                 let today = StartOfDay local calendar now in
                 if \<not> After today (StartOfDay local calendar start) then None
                 else if \<not> CanStartQuotaWindow sub today SubscriptionDailyWindow then None
                 else Some today))"

definition NeedsDailyResetAt :: "location \<Rightarrow> UserSubscription option \<Rightarrow> gtime \<Rightarrow> Calendar \<Rightarrow> bool" where
  "NeedsDailyResetAt local sub now calendar =
     (AutomaticDailyWindowStartWithCalendar local sub now calendar \<noteq> None)"

definition NeedsWeeklyResetAt :: "UserSubscription option \<Rightarrow> gtime \<Rightarrow> bool" where
  "NeedsWeeklyResetAt sub now =
     (case sub of
        None \<Rightarrow> False
      | Some s \<Rightarrow>
          (case WeeklyWindowStart s of
             None \<Rightarrow> False
           | Some start \<Rightarrow>
               if IsZero (ExpiresAt s) \<or> \<not> Before now (ExpiresAt s) then False
               else if Before now (Add start SubscriptionWeeklyWindow) then False
               else CanStartQuotaWindow sub (startOfDay now) SubscriptionWeeklyWindow))"

definition NeedsMonthlyResetAt :: "UserSubscription option \<Rightarrow> gtime \<Rightarrow> bool" where
  "NeedsMonthlyResetAt sub now =
     (case sub of
        None \<Rightarrow> False
      | Some s \<Rightarrow>
          (case MonthlyWindowStart s of
             None \<Rightarrow> False
           | Some start \<Rightarrow>
               if IsZero (ExpiresAt s) \<or> \<not> Before now (ExpiresAt s) then False
               else if Before now (Add start SubscriptionMonthlyWindow) then False
               else CanStartQuotaWindow sub (startOfDay now) SubscriptionMonthlyWindow))"

definition DailyResetTime :: "location \<Rightarrow> UserSubscription \<Rightarrow> Calendar \<Rightarrow> gtime option" where
  "DailyResetTime local s calendar =
     (case DailyWindowStart s of
        None \<Rightarrow> None
      | Some start \<Rightarrow>
          if HasOneTimeDailyQuota (Some s) then Some (ExpiresAt s)
          else
            let t = AddDays (StartOfDay local calendar start) 1 in
            Some (if CanStartQuotaWindow (Some s) t SubscriptionDailyWindow then t else ExpiresAt s))"

definition WeeklyResetTime :: "UserSubscription \<Rightarrow> gtime option" where
  "WeeklyResetTime s =
     (case WeeklyWindowStart s of
        None \<Rightarrow> None
      | Some start \<Rightarrow>
          let t = Add start SubscriptionWeeklyWindow in
          Some (if CanStartQuotaWindow (Some s) t SubscriptionWeeklyWindow then t else ExpiresAt s))"

definition MonthlyResetTime :: "UserSubscription \<Rightarrow> gtime option" where
  "MonthlyResetTime s =
     (case MonthlyWindowStart s of
        None \<Rightarrow> None
      | Some start \<Rightarrow>
          let t = Add start SubscriptionMonthlyWindow in
          Some (if CanStartQuotaWindow (Some s) t SubscriptionMonthlyWindow then t else ExpiresAt s))"

section \<open>Group scope\<close>

definition subscriptionPlanIncludesGroup :: "int list option \<Rightarrow> int \<Rightarrow> bool" where
  "subscriptionPlanIncludesGroup plan groupID =
     (case plan of
        None \<Rightarrow> False
      | Some groups \<Rightarrow>
          if groupID \<le> 0 then False
          else if length groups = 0 then True
          else groupID \<in> set groups)"

definition SubscriptionAllowsGroup :: "UserSubscription option \<Rightarrow> int \<Rightarrow> bool" where
  "SubscriptionAllowsGroup sub groupID =
     (case sub of
        None \<Rightarrow> False
      | Some s \<Rightarrow>
          if PlanGroupIDs s = None \<or> groupID \<le> 0 then False
          else subscriptionPlanIncludesGroup (PlanGroupIDs s) groupID)"

section \<open>Lemmas: smallest remainder\<close>

lemma min_loop_found:
  "m \<noteq> NaN \<Longrightarrow> Some NaN \<notin> set vs \<Longrightarrow>
   \<exists>m'. min_loop vs (m, True) = (m', True) \<and> m' \<noteq> NaN \<and> fle m' m \<and>
     (\<forall>v. Some v \<in> set vs \<longrightarrow> fle m' v) \<and> (m' = m \<or> Some m' \<in> set vs)"
proof (induction vs arbitrary: m)
  case Nil
  then show ?case by (simp add: fle_refl)
next
  case (Cons x vs)
  show ?case
  proof (cases x)
    case None
    then show ?thesis using Cons by auto
  next
    case (Some v)
    then have nn: "v \<noteq> NaN" using Cons.prems by auto
    show ?thesis
    proof (cases "flt v m")
      case True
      obtain m' where "min_loop vs (v, True) = (m', True)" "m' \<noteq> NaN" "fle m' v"
        "\<forall>u. Some u \<in> set vs \<longrightarrow> fle m' u" "m' = v \<or> Some m' \<in> set vs"
        using Cons.IH [OF nn] Cons.prems by auto
      then show ?thesis using Some True fle_trans [of m' v m] flt_imp_fle by auto
    next
      case False
      then have "fle m v" using nn Cons.prems(1) not_flt_iff by blast
      obtain m' where "min_loop vs (m, True) = (m', True)" "m' \<noteq> NaN" "fle m' m"
        "\<forall>u. Some u \<in> set vs \<longrightarrow> fle m' u" "m' = m \<or> Some m' \<in> set vs"
        using Cons.IH [OF Cons.prems(1)] Cons.prems by auto
      then show ?thesis using Some False fle_trans [of m' m v] \<open>fle m v\<close> by auto
    qed
  qed
qed

lemma min_loop_start:
  assumes "Some NaN \<notin> set vs"
  shows "(\<forall>v. Some v \<notin> set vs) \<and> min_loop vs (f0, False) = (f0, False) \<or>
    (\<exists>m. min_loop vs (f0, False) = (m, True) \<and> m \<noteq> NaN \<and> (\<forall>v. Some v \<in> set vs \<longrightarrow> fle m v) \<and> Some m \<in> set vs)"
  using assms
proof (induction vs)
  case (Cons x vs)
  show ?case
  proof (cases x)
    case None
    then show ?thesis using Cons by auto
  next
    case (Some v)
    then have nn: "v \<noteq> NaN" using Cons.prems by auto
    obtain m' where "min_loop vs (v, True) = (m', True)" "m' \<noteq> NaN" "fle m' v"
        "\<forall>u. Some u \<in> set vs \<longrightarrow> fle m' u" "m' = v \<or> Some m' \<in> set vs"
      using min_loop_found [OF nn, of vs] Cons.prems by auto
    then show ?thesis using Some by auto
  qed
qed simp

lemma MinRemaining_le:
  assumes "Some NaN \<notin> set vs" "Some v \<in> set vs"
  shows "fle (MinRemainingWindowAmount vs) v"
  using min_loop_start [OF assms(1)] assms(2) by (auto simp: MinRemainingWindowAmount_def)

definition finite_limit :: "f64 option \<Rightarrow> bool" where
  "finite_limit l = (\<forall>x. l = Some x \<longrightarrow> (\<exists>r. x = Fin r \<and> is_f64 x))"

definition finite_amount :: "f64 \<Rightarrow> bool" where
  "finite_amount x = (is_f64 x \<and> (\<exists>r. x = Fin r))"

lemma RemainingWindowAmount_not_NaN:
  assumes "finite_limit l" "finite_amount u"
  shows "RemainingWindowAmount l u \<noteq> Some NaN"
  using assms by (auto simp: RemainingWindowAmount_def finite_limit_def finite_amount_def Let_def
      fsub_Fin split: option.splits)

lemma RemainingWindowAmount_nonneg:
  assumes "RemainingWindowAmount l u = Some r" "r \<noteq> NaN"
  shows "fle f0 r"
  using assms not_flt_iff [of r f0] by (auto simp: RemainingWindowAmount_def Let_def split: option.splits if_splits)

lemma RemainingWindowAmount_le_limit:
  assumes "RemainingWindowAmount (Some l) u = Some r" "finite_limit (Some l)" "finite_amount u" "fle f0 u"
  shows "fle r l"
proof -
  obtain x where x: "l = Fin x" "is_f64 l" using assms(2) by (auto simp: finite_limit_def)
  then have pos: "\<not> fle l f0" and r: "r = (if flt (fsub l u) f0 then f0 else fsub l u)"
    using assms(1) by (auto simp: RemainingWindowAmount_def Let_def split: if_splits)
  then have "fle f0 l" using x by auto
  moreover have "fsub l u \<noteq> NaN" using x assms(3) by (auto simp: finite_amount_def fsub_Fin)
  then have "fle (fsub l u) l" using fsub_le [of l u] x \<open>fle f0 l\<close> assms(4) by blast
  ultimately show ?thesis by (simp add: r)
qed

lemma RemainingWindowAmount_Some:
  "PositiveSubscriptionLimit l \<Longrightarrow> \<exists>r. RemainingWindowAmount l u = Some r"
  by (auto simp: PositiveSubscriptionLimit_def RemainingWindowAmount_def Let_def split: option.splits)
     (metis f64.exhaust fle.simps(1) flt.simps(1) flt_fle_trans flt_irrefl)

lemma exhausted_window:
  assumes "fle (ValueOrZeroLimit l) u" "FinitePositiveSubscriptionLimit l" "finite_amount u" "finite_limit l"
  shows "RemainingWindowAmount l u = Some f0"
proof -
  obtain x where x: "l = Some (Fin x)" "0 < x"
    using assms(2,4) by (auto simp: FinitePositiveSubscriptionLimit_def PositiveSubscriptionLimit_def
        finite_limit_def split: option.splits)
  obtain y where y: "u = Fin y" using assms(3) by (auto simp: finite_amount_def)
  have le: "x \<le> y" using assms(1) x y by (simp add: ValueOrZeroLimit_def)
  have "fle (rnd (x - y)) (Fin 0)" using rnd_mono [of "x - y" 0] le by simp
  then have "flt (rnd (x - y)) f0 \<or> rnd (x - y) = f0"
    using fle_antisym [of "rnd (x - y)" f0] not_flt_iff [of "rnd (x - y)" f0] by auto
  then show ?thesis using x y by (auto simp: RemainingWindowAmount_def fsub_Fin Let_def)
qed


section \<open>Properties\<close>

text \<open>
  the effective status: revoked wins over expiry, expiry over a future start,
  and a subscription counts as active exactly inside its lifetime when it is
  neither revoked nor suspended; IsEffective is the same condition.
\<close>

theorem EffectiveStatus_active_iff:
  "(EffectiveStatus (Some s) now = SubscriptionStatusActive) =
     (DeletedAt s = None \<and> ns (StartsAt s) \<le> ns now \<and> ns now < ns (ExpiresAt s) \<and>
      Status s \<noteq> SubscriptionStatusSuspended) \<and>
   IsEffective now (Some s) = (EffectiveStatus (Some s) now = SubscriptionStatusActive) \<and>
   (EffectiveStatus (Some s) now = SubscriptionStatusRevoked) = (DeletedAt s \<noteq> None)"
  by (auto simp: EffectiveStatus_def IsEffective_def status_consts time_order)

text \<open>
  the days shown as remaining are the started 24-hour days until expiry: none
  after it, and otherwise the least number of days that reaches it.
\<close>

theorem DaysRemainingAt_ceiling:
  "if ns (ExpiresAt s) \<le> ns now then DaysRemainingAt s now = 0
   else (DaysRemainingAt s now - 1) * SubscriptionDailyWindow < ns (ExpiresAt s) - ns now \<and>
     ns (ExpiresAt s) - ns now \<le> DaysRemainingAt s now * SubscriptionDailyWindow"
proof (cases "ns (ExpiresAt s) \<le> ns now")
  case False
  define r where "r = ns (ExpiresAt s) - ns now"
  have pos: "0 < r" using False by (simp add: r_def)
  define q where "q = r div SubscriptionDailyWindow"
  define m where "m = r mod SubscriptionDailyWindow"
  have eq: "r = q * SubscriptionDailyWindow + m"
    by (simp add: q_def m_def)
  have m: "0 \<le> m" "m < SubscriptionDailyWindow"
    by (simp_all add: m_def window_consts)
  have d: "DaysRemainingAt s now = q + (if m \<noteq> 0 then 1 else 0)"
    using pos by (simp add: DaysRemainingAt_def Let_def r_def q_def m_def)
  have "(DaysRemainingAt s now - 1) * SubscriptionDailyWindow < r \<and>
      r \<le> DaysRemainingAt s now * SubscriptionDailyWindow"
    using m unfolding d eq by (simp add: algebra_simps)
  then show ?thesis using False by (simp add: r_def)
qed (simp add: DaysRemainingAt_def)

text \<open>
  A subscription whose highest finite window is exhausted (the state that
  opens self-service revocation) has no quota left to spend: its available
  amount is zero.
\<close>

theorem highest_exhausted_no_quota:
  assumes "HighestQuotaExhausted (Some s)"
    and "finite_limit (DailyLimitUSD s)" "finite_limit (WeeklyLimitUSD s)" "finite_limit (MonthlyLimitUSD s)"
    and "finite_amount (DailyUsageUSD s)" "finite_amount (WeeklyUsageUSD s)" "finite_amount (MonthlyUsageUSD s)"
  shows "AvailableQuotaUSD s = f0"
proof -
  let ?vs = "[RemainingDailyUSD s, RemainingWeeklyUSD s, RemainingMonthlyUSD s]"
  note rem = RemainingDailyUSD_def RemainingWeeklyUSD_def RemainingMonthlyUSD_def
  have nn: "Some NaN \<notin> set ?vs"
    using assms(2-7) RemainingWindowAmount_not_NaN by (auto simp: rem dest: sym)
  have "Some f0 \<in> set ?vs"
    using assms by (auto simp: HighestQuotaExhausted_def rem exhausted_window split: if_splits)
  then have le: "fle (AvailableQuotaUSD s) f0" and ne: "\<exists>m. Some m \<in> set ?vs"
    unfolding AvailableQuotaUSD_def using MinRemaining_le [OF nn] by auto
  obtain m where m: "AvailableQuotaUSD s = m" "Some m \<in> set ?vs"
    using min_loop_start [OF nn] ne by (auto simp: AvailableQuotaUSD_def MinRemainingWindowAmount_def)
  then obtain l u where "RemainingWindowAmount l u = Some m" by (auto simp: rem)
  moreover have "m \<noteq> NaN" using m(2) nn by metis
  ultimately have "fle f0 m" by (rule RemainingWindowAmount_nonneg)
  then show ?thesis using le m(1) fle_antisym by blast
qed

definition sample_subscription :: UserSubscription where
  "sample_subscription =
     \<lparr>ID = 1, UserID = 2, PlanID = 3, StartsAt = \<lparr>ns = 0, loc = utc\<rparr>, ExpiresAt = \<lparr>ns = 10 * hour * 24, loc = utc\<rparr>,
      Status = ''active'', DailyWindowStart = None, WeeklyWindowStart = None, MonthlyWindowStart = None,
      DailyLimitUSD = Some (Fin 10), WeeklyLimitUSD = Some (Fin 50), MonthlyLimitUSD = None,
      DailyUsageUSD = Fin 3, WeeklyUsageUSD = Fin 50, MonthlyUsageUSD = Fin 0,
      SourceOrderID = None, DeletedAt = None, PlanGroupIDs = None\<rparr>"

lemma is_f64_numeral [simp]: "(numeral k :: int) \<le> 2 ^ 53 \<Longrightarrow> is_f64 (Fin (numeral k))"
  using is_f64_of_int [of "numeral k"] by simp

end
