(* ===== verification/Allocation.thy ===== *)
theory Allocation
  imports Subscription "HOL-Library.Sublist"
begin

text \<open>
  Subscription settlement: internal/billing/subscription_allocation.go with the
  types of allocation.go, the funding modes of mode.go and the settlement
  command of settlement.go.  AllocateSubscriptions walks the rows in the order
  storage supplies, normalizes their quota windows, and charges each row up to
  its smallest remaining window.  The fields of a command that only feed its
  fingerprint live in the record's extension.
\<close>

section \<open>Data\<close>

definition APIKeyBillingModeAuto :: string where "APIKeyBillingModeAuto = ''auto''"
definition APIKeyBillingModeSubscription :: string where "APIKeyBillingModeSubscription = ''subscription''"
definition APIKeyBillingModeBalance :: string where "APIKeyBillingModeBalance = ''balance''"

lemmas mode_consts = APIKeyBillingModeAuto_def APIKeyBillingModeSubscription_def APIKeyBillingModeBalance_def

definition NormalizeAPIKeyBillingMode :: "string \<Rightarrow> string \<times> bool" where
  "NormalizeAPIKeyBillingMode value =
     (let normalized = to_lower (trim_space value) in
      if normalized = [] \<or> normalized = APIKeyBillingModeAuto then (APIKeyBillingModeAuto, True)
      else if normalized = APIKeyBillingModeSubscription \<or> normalized = APIKeyBillingModeBalance
        then (normalized, True)
      else ([], False))"

datatype BillingAllocationType = BillingAllocationTypeSubscription | BillingAllocationTypeBalance

record BillingAllocation =
  AllocType :: BillingAllocationType
  AmountUSD :: f64
  AllocBaseAmountUSD :: f64
  RateMultiplier :: f64
  SubscriptionID :: "int option"
  AllocPlanID :: "int option"

record UsageBillingCommand =
  RequestID :: string
  RequestFingerprint :: string
  APIKeyBillingMode :: string
  PreferredSubscriptionID :: "int option"
  GroupID :: "int option"
  BillableAmountUSD :: f64
  BaseAmountUSD :: f64
  SubscriptionRateMultiplier :: f64
  SubscriptionRateMultiplierScale :: f64
  BalanceRateMultiplier :: f64
  DisablePlanGroupRateMultiplier :: bool
  IncludeAllocationPricing :: bool
  APIKeyQuotaCost :: f64
  APIKeyRateLimitCost :: f64
  ProviderQuotaCost :: f64

record SettlementSubscription =
  SsID :: int
  SsPlanID :: int
  SsStartsAt :: gtime
  SsExpiresAt :: gtime
  SsDailyWindowStart :: "gtime option"
  SsWeeklyWindowStart :: "gtime option"
  SsMonthlyWindowStart :: "gtime option"
  SsDailyLimitUSD :: "f64 option"
  SsWeeklyLimitUSD :: "f64 option"
  SsMonthlyLimitUSD :: "f64 option"
  SsDailyUsageUSD :: f64
  SsWeeklyUsageUSD :: f64
  SsMonthlyUsageUSD :: f64
  PlanGroupRateMultipliers :: "int \<rightharpoonup> f64"

record SubscriptionAllocationPlan =
  Remaining :: f64
  SubscriptionAmount :: f64
  Allocations :: "BillingAllocation list"
  Updates :: "SettlementSubscription list"

datatype allocation_error = ErrPreferredSubscriptionInvalid | ErrPreferredSubscriptionInsufficient

section \<open>Normalizing a command\<close>

text \<open>
  The digest of the command (SHA-256 of its formatted fields) and the decimal
  package's rounding of a float to eight places are parameters.
\<close>

definition QuantizeUsageBillingAmount :: "(f64 \<Rightarrow> f64) \<Rightarrow> f64 \<Rightarrow> f64" where
  "QuantizeUsageBillingAmount decimal_round v =
     (if v = f0 \<or> v = NaN \<or> is_inf v then v else decimal_round v)"

definition NormalizeCommand ::
  "('a UsageBillingCommand_scheme \<Rightarrow> string) \<Rightarrow> (f64 \<Rightarrow> f64) \<Rightarrow> 'a UsageBillingCommand_scheme
   \<Rightarrow> 'a UsageBillingCommand_scheme" where
  "NormalizeCommand fingerprint decimal_round c =
     (let c = c\<lparr>RequestID := trim_space (RequestID c)\<rparr>;
          rawMode = trim_space (APIKeyBillingMode c);
          (mode, ok) = NormalizeAPIKeyBillingMode (APIKeyBillingMode c);
          mode = (if \<not> ok then APIKeyBillingModeAuto else mode);
          c = (if trim_space (RequestFingerprint c) = [] then
                 let fc = c\<lparr>APIKeyBillingMode := (if rawMode = [] then [] else mode)\<rparr>;
                     fc = (if mode \<noteq> APIKeyBillingModeSubscription
                           then fc\<lparr>PreferredSubscriptionID := None\<rparr> else fc)
                 in c\<lparr>RequestFingerprint := fingerprint fc\<rparr>
               else c);
          c = c\<lparr>APIKeyBillingMode := mode\<rparr>;
          c = (if mode \<noteq> APIKeyBillingModeSubscription then c\<lparr>PreferredSubscriptionID := None\<rparr> else c)
      in c\<lparr>APIKeyQuotaCost := QuantizeUsageBillingAmount decimal_round (APIKeyQuotaCost c),
           APIKeyRateLimitCost := QuantizeUsageBillingAmount decimal_round (APIKeyRateLimitCost c),
           ProviderQuotaCost := QuantizeUsageBillingAmount decimal_round (ProviderQuotaCost c)\<rparr>)"

section \<open>Rates\<close>

definition UsesBaseAmount :: "'a UsageBillingCommand_scheme option \<Rightarrow> bool" where
  "UsesBaseAmount cmd = (case cmd of None \<Rightarrow> False | Some c \<Rightarrow> flt f0 (BaseAmountUSD c))"

definition NonNegativeRate :: "f64 \<Rightarrow> f64" where
  "NonNegativeRate rate = (if flt rate f0 then f0 else rate)"

definition SettlementSubscriptionRateMultiplier ::
  "SettlementSubscription \<Rightarrow> int option \<Rightarrow> f64 \<Rightarrow> f64 \<Rightarrow> f64" where
  "SettlementSubscriptionRateMultiplier row groupID defaultRate scale =
     NonNegativeRate
       (case groupID of
          None \<Rightarrow> defaultRate
        | Some g \<Rightarrow>
            if 0 < g then
              (case PlanGroupRateMultipliers row g of
                 None \<Rightarrow> defaultRate
               | Some value \<Rightarrow>
                   if flt f0 value
                   then fmul value (if fle scale f0 then Fin 1 else scale)
                   else defaultRate)
            else defaultRate)"

section \<open>Quota windows at settlement\<close>

definition CanStartSettlementWindow :: "gtime \<Rightarrow> duration \<Rightarrow> gtime \<Rightarrow> bool \<Rightarrow> bool" where
  "CanStartSettlementWindow windowStart dur expiresAt hasFiniteOuterLimit =
     (if IsZero expiresAt \<or> dur \<le> 0 \<or> \<not> Before windowStart expiresAt then False
      else hasFiniteOuterLimit \<or> \<not> After (Add windowStart dur) expiresAt)"

definition missing_anchor :: "gtime option \<Rightarrow> bool" where
  "missing_anchor w = (case w of None \<Rightarrow> True | Some t \<Rightarrow> IsZero t)"

definition NormalizeSettlementWindow ::
  "gtime option \<Rightarrow> f64 option \<Rightarrow> f64 \<Rightarrow> gtime \<Rightarrow> duration \<Rightarrow> gtime \<Rightarrow> gtime \<Rightarrow> gtime \<Rightarrow> bool
   \<Rightarrow> gtime option \<times> f64" where
  "NormalizeSettlementWindow windowStart limit used resetStart dur now startsAt expiresAt hasFiniteOuterLimit =
     (if limit = None \<or> fle (ValueOrZeroLimit limit) f0 then (windowStart, used)
      else if dur = 24 * hour \<and> \<not> After expiresAt (AddDays startsAt 1) then
        (if missing_anchor windowStart then (Some resetStart, f0) else (windowStart, used))
      else if \<not> CanStartSettlementWindow resetStart dur expiresAt hasFiniteOuterLimit then
        (if missing_anchor windowStart then (None, used) else (windowStart, used))
      else if missing_anchor windowStart
        \<or> (case windowStart of None \<Rightarrow> True | Some w \<Rightarrow> \<not> After (Add w dur) now)
        then (Some resetStart, f0)
      else (windowStart, used))"

definition NormalizeSettlementSubscription ::
  "SettlementSubscription \<Rightarrow> gtime \<Rightarrow> SettlementSubscription" where
  "NormalizeSettlementSubscription row now =
     (let windowStart = startOfDay now;
          dailyHasFiniteOuterLimit =
            PositiveSubscriptionLimit (SsWeeklyLimitUSD row) \<or> PositiveSubscriptionLimit (SsMonthlyLimitUSD row);
          weeklyHasFiniteOuterLimit = PositiveSubscriptionLimit (SsMonthlyLimitUSD row);
          (dailyStart, dailyUsage) =
            NormalizeSettlementWindow (SsDailyWindowStart row) (SsDailyLimitUSD row) (SsDailyUsageUSD row)
              windowStart (24 * hour) now (SsStartsAt row) (SsExpiresAt row) dailyHasFiniteOuterLimit;
          (weeklyStart, weeklyUsage) =
            NormalizeSettlementWindow (SsWeeklyWindowStart row) (SsWeeklyLimitUSD row) (SsWeeklyUsageUSD row)
              windowStart (7 * 24 * hour) now (SsStartsAt row) (SsExpiresAt row) weeklyHasFiniteOuterLimit;
          (monthlyStart, monthlyUsage) =
            NormalizeSettlementWindow (SsMonthlyWindowStart row) (SsMonthlyLimitUSD row) (SsMonthlyUsageUSD row)
              windowStart (30 * 24 * hour) now (SsStartsAt row) (SsExpiresAt row) False
      in row\<lparr>SsDailyWindowStart := dailyStart, SsWeeklyWindowStart := weeklyStart,
             SsMonthlyWindowStart := monthlyStart, SsDailyUsageUSD := dailyUsage,
             SsWeeklyUsageUSD := weeklyUsage, SsMonthlyUsageUSD := monthlyUsage\<rparr>)"

definition SubscriptionAvailableAmount :: "f64 \<Rightarrow> f64 option list \<Rightarrow> f64" where
  "SubscriptionAvailableAmount unlimitedAmount values =
     (case min_loop values (f0, False) of (m, found) \<Rightarrow> if \<not> found then unlimitedAmount else m)"

section \<open>Allocation\<close>

definition SubscriptionAllocationRequest ::
  "'a UsageBillingCommand_scheme option \<Rightarrow> (allocation_error, f64 \<times> bool) result" where
  "SubscriptionAllocationRequest cmd =
     (case cmd of
        None \<Rightarrow> Ok (f0, False)
      | Some c \<Rightarrow>
          let amountUSD = (if UsesBaseAmount cmd then BaseAmountUSD c else BillableAmountUSD c) in
          if fle amountUSD f0 then Ok (f0, False)
          else if APIKeyBillingMode c = APIKeyBillingModeBalance then Ok (amountUSD, False)
          else if APIKeyBillingMode c = APIKeyBillingModeSubscription
              \<and> (case PreferredSubscriptionID c of None \<Rightarrow> True | Some i \<Rightarrow> i \<le> 0)
            then Err ErrPreferredSubscriptionInvalid
          else Ok (amountUSD, True))"

text \<open>The rate of one row: one without a base amount, else the selected rate.\<close>

definition row_rate :: "'a UsageBillingCommand_scheme \<Rightarrow> SettlementSubscription \<Rightarrow> f64" where
  "row_rate c row =
     (if UsesBaseAmount (Some c) then
        (if DisablePlanGroupRateMultiplier c then NonNegativeRate (SubscriptionRateMultiplier c)
         else SettlementSubscriptionRateMultiplier row (GroupID c)
                (SubscriptionRateMultiplier c) (SubscriptionRateMultiplierScale c))
      else Fin 1)"

definition add_usage :: "f64 option \<Rightarrow> f64 \<Rightarrow> f64 \<Rightarrow> f64" where
  "add_usage limit used allocated = (if PositiveSubscriptionLimit limit then fadd used allocated else used)"

definition row_charge :: "SettlementSubscription \<Rightarrow> f64 \<Rightarrow> SettlementSubscription" where
  "row_charge row allocated =
     row\<lparr>SsDailyUsageUSD := add_usage (SsDailyLimitUSD row) (SsDailyUsageUSD row) allocated,
         SsWeeklyUsageUSD := add_usage (SsWeeklyLimitUSD row) (SsWeeklyUsageUSD row) allocated,
         SsMonthlyUsageUSD := add_usage (SsMonthlyLimitUSD row) (SsMonthlyUsageUSD row) allocated\<rparr>"

definition row_available :: "f64 \<Rightarrow> SettlementSubscription \<Rightarrow> f64" where
  "row_available remainingBillable row =
     SubscriptionAvailableAmount remainingBillable
       [RemainingWindowAmount (SsDailyLimitUSD row) (SsDailyUsageUSD row),
        RemainingWindowAmount (SsWeeklyLimitUSD row) (SsWeeklyUsageUSD row),
        RemainingWindowAmount (SsMonthlyLimitUSD row) (SsMonthlyUsageUSD row)]"

text \<open>The range loop: what is left to do, and the plan built so far.\<close>

fun allocate_loop ::
  "'a UsageBillingCommand_scheme \<Rightarrow> gtime \<Rightarrow> SettlementSubscription list
   \<Rightarrow> SubscriptionAllocationPlan \<Rightarrow> SubscriptionAllocationPlan" where
  "allocate_loop c now [] plan = plan"
| "allocate_loop c now (row # rows) plan =
     (if fle (Remaining plan) f0 then plan
      else
        let row = NormalizeSettlementSubscription row now;
            rateMultiplier = row_rate c row
        in
        if UsesBaseAmount (Some c) \<and> fle rateMultiplier f0 then plan\<lparr>Remaining := f0\<rparr>
        else
          let remainingBillable =
                (if UsesBaseAmount (Some c) then fmul (Remaining plan) rateMultiplier else Remaining plan);
              available = row_available remainingBillable row
          in
          if fle available f0 then allocate_loop c now rows plan
          else
            let allocated = fmin remainingBillable available in
            if fle allocated f0 then allocate_loop c now rows plan
            else
              let coveredBaseAmount =
                    (if UsesBaseAmount (Some c) then fdiv allocated rateMultiplier else allocated);
                  allocation =
                    \<lparr>AllocType = BillingAllocationTypeSubscription, AmountUSD = allocated,
                     AllocBaseAmountUSD = (if IncludeAllocationPricing c then coveredBaseAmount else f0),
                     RateMultiplier = (if IncludeAllocationPricing c then rateMultiplier else f0),
                     SubscriptionID = Some (SsID row), AllocPlanID = Some (SsPlanID row)\<rparr>
              in allocate_loop c now rows
                   (plan\<lparr>Updates := Updates plan @ [row_charge row allocated],
                         Allocations := Allocations plan @ [allocation],
                         SubscriptionAmount := fadd (SubscriptionAmount plan) allocated,
                         Remaining := fsub (Remaining plan) coveredBaseAmount\<rparr>))"

definition empty_plan :: "f64 \<Rightarrow> SubscriptionAllocationPlan" where
  "empty_plan remaining = \<lparr>Remaining = remaining, SubscriptionAmount = f0, Allocations = [], Updates = []\<rparr>"

definition AllocateSubscriptions ::
  "'a UsageBillingCommand_scheme option \<Rightarrow> SettlementSubscription list \<Rightarrow> gtime
   \<Rightarrow> (allocation_error, SubscriptionAllocationPlan) result" where
  "AllocateSubscriptions cmd subscriptions now =
     (case SubscriptionAllocationRequest cmd of
        Inl err \<Rightarrow> Err err
      | Inr (amountUSD, query) \<Rightarrow>
          (case cmd of
             None \<Rightarrow> Ok (empty_plan amountUSD)
           | Some c \<Rightarrow>
               if \<not> query then Ok (empty_plan amountUSD)
               else if APIKeyBillingMode c = APIKeyBillingModeSubscription \<and> length subscriptions = 0
                 then Err ErrPreferredSubscriptionInsufficient
               else Ok (allocate_loop c now subscriptions (empty_plan amountUSD))))"

section \<open>Lemmas: windows\<close>

lemma SubscriptionAvailableAmount_le:
  assumes "Some NaN \<notin> set vs" "Some v \<in> set vs"
  shows "fle (SubscriptionAvailableAmount u vs) v"
  using min_loop_start [OF assms(1)] assms(2) by (auto simp: SubscriptionAvailableAmount_def)

lemma window_equivalence:
  "0 < d \<Longrightarrow> CanStartQuotaWindow (Some s) w d =
     CanStartSettlementWindow w d (ExpiresAt s) (HasFiniteOuterQuotaLimit (Some s) d)"
  by (auto simp: CanStartQuotaWindow_def CanStartSettlementWindow_def CanStartFullQuotaWindow_def)

lemma CanStart_mono:
  "CanStartSettlementWindow w d e False \<Longrightarrow> CanStartSettlementWindow w d e True"
  by (auto simp: CanStartSettlementWindow_def split: if_splits)

section \<open>Lemmas: normalization\<close>

lemma NormalizeSettlementWindow_cases:
  assumes "NormalizeSettlementWindow w l u rs d now st ex outer = (w', u')"
  shows "(w' = w \<and> u' = u) \<or> (w' = None \<and> u' = u \<and> missing_anchor w) \<or> (w' = Some rs \<and> u' = f0)"
  using assms by (auto simp: NormalizeSettlementWindow_def split: if_splits)

lemma NormalizeSettlementWindow_finite:
  assumes "NormalizeSettlementWindow w l u rs d now st ex outer = (w', u')" "finite_amount u"
  shows "finite_amount u'"
  using NormalizeSettlementWindow_cases [OF assms(1)] assms(2) by (auto simp: finite_amount_def)

lemma NormalizeSettlementWindow_nonneg:
  assumes "NormalizeSettlementWindow w l u rs d now st ex outer = (w', u')" "fle f0 u"
  shows "fle f0 u'"
  using NormalizeSettlementWindow_cases [OF assms(1)] assms(2) by auto

lemma NormalizeSettlementWindow_idem:
  assumes "NormalizeSettlementWindow w l u rs d now st ex outer = (w', u')"
    and "ns now < ns rs + d" "\<not> IsZero rs"
  shows "NormalizeSettlementWindow w' l u' rs d now st ex outer = (w', u')"
  using assms
  by (auto simp: NormalizeSettlementWindow_def missing_anchor_def After_def
      split: if_splits option.splits)

section \<open>Lemmas: the allocation loop\<close>

lemma NormalizeSettlementSubscription_fields [simp]:
  "SsID (NormalizeSettlementSubscription row now) = SsID row"
  "SsPlanID (NormalizeSettlementSubscription row now) = SsPlanID row"
  "SsStartsAt (NormalizeSettlementSubscription row now) = SsStartsAt row"
  "SsExpiresAt (NormalizeSettlementSubscription row now) = SsExpiresAt row"
  "SsDailyLimitUSD (NormalizeSettlementSubscription row now) = SsDailyLimitUSD row"
  "SsWeeklyLimitUSD (NormalizeSettlementSubscription row now) = SsWeeklyLimitUSD row"
  "SsMonthlyLimitUSD (NormalizeSettlementSubscription row now) = SsMonthlyLimitUSD row"
  "PlanGroupRateMultipliers (NormalizeSettlementSubscription row now) = PlanGroupRateMultipliers row"
  by (simp_all add: NormalizeSettlementSubscription_def Let_def split: prod.splits)

definition finite_row :: "SettlementSubscription \<Rightarrow> bool" where
  "finite_row row = (finite_limit (SsDailyLimitUSD row) \<and> finite_limit (SsWeeklyLimitUSD row) \<and>
     finite_limit (SsMonthlyLimitUSD row) \<and> finite_amount (SsDailyUsageUSD row) \<and>
     finite_amount (SsWeeklyUsageUSD row) \<and> finite_amount (SsMonthlyUsageUSD row))"

lemma finite_row_normalized:
  "finite_row row \<Longrightarrow> finite_row (NormalizeSettlementSubscription row now)"
  unfolding finite_row_def NormalizeSettlementSubscription_fields
  by (auto simp: NormalizeSettlementSubscription_def Let_def split: prod.splits
      dest: NormalizeSettlementWindow_finite)

definition row_windows :: "SettlementSubscription \<Rightarrow> (f64 option \<times> f64) list" where
  "row_windows row = [(SsDailyLimitUSD row, SsDailyUsageUSD row),
     (SsWeeklyLimitUSD row, SsWeeklyUsageUSD row), (SsMonthlyLimitUSD row, SsMonthlyUsageUSD row)]"

lemma row_available_alt:
  "row_available r row = SubscriptionAvailableAmount r (map (\<lambda>(l, u). RemainingWindowAmount l u) (row_windows row))"
  by (simp add: row_available_def row_windows_def)

lemma finite_row_windows:
  "finite_row row \<Longrightarrow> (l, u) \<in> set (row_windows row) \<Longrightarrow> finite_limit l \<and> finite_amount u"
  by (auto simp: finite_row_def row_windows_def)

lemma row_available_le:
  assumes "finite_row row" "(l, u) \<in> set (row_windows row)" "PositiveSubscriptionLimit l"
  shows "fle (row_available r row) (the (RemainingWindowAmount l u))"
proof -
  let ?vs = "map (\<lambda>(l, u). RemainingWindowAmount l u) (row_windows row)"
  have "Some NaN \<notin> set ?vs"
    using finite_row_windows [OF assms(1)] RemainingWindowAmount_not_NaN by (fastforce dest: sym)
  moreover obtain v where "RemainingWindowAmount l u = Some v"
    using RemainingWindowAmount_Some [OF assms(3)] by blast
  moreover from this have "Some v \<in> set ?vs" using assms(2) by force
  ultimately show ?thesis
    using SubscriptionAvailableAmount_le by (simp add: row_available_alt)
qed

text \<open>One row's contribution to a plan.\<close>

definition charged ::
  "gtime \<Rightarrow> SettlementSubscription \<Rightarrow> BillingAllocation \<Rightarrow> SettlementSubscription \<Rightarrow> bool" where
  "charged now row a u =
     (AllocType a = BillingAllocationTypeSubscription \<and> SubscriptionID a = Some (SsID row) \<and>
      AllocPlanID a = Some (SsPlanID row) \<and> \<not> fle (AmountUSD a) f0 \<and>
      u = row_charge (NormalizeSettlementSubscription row now) (AmountUSD a) \<and>
      (\<exists>r. AmountUSD a = fmin r (row_available r (NormalizeSettlementSubscription row now))))"

text \<open>The rows of a plan are charged in their order, each at most once.\<close>

inductive rows_charged ::
  "gtime \<Rightarrow> SettlementSubscription list \<Rightarrow> BillingAllocation list \<Rightarrow> SettlementSubscription list \<Rightarrow> bool"
  for now :: gtime
where
  rc_done: "rows_charged now rows [] []"
| rc_skip: "rows_charged now rows as us \<Longrightarrow> rows_charged now (row # rows) as us"
| rc_take: "charged now row a u \<Longrightarrow> rows_charged now rows as us \<Longrightarrow>
    rows_charged now (row # rows) (a # as) (u # us)"

lemma rows_charged_lengths: "rows_charged now rows as us \<Longrightarrow> length as = length us \<and> length as \<le> length rows"
  by (induction rule: rows_charged.induct) auto

lemma rows_charged_order:
  "rows_charged now rows as us \<Longrightarrow> subseq (map SubscriptionID as) (map (\<lambda>r. Some (SsID r)) rows)"
  by (induction rule: rows_charged.induct) (auto simp: charged_def)

lemma rows_charged_zip:
  "rows_charged now rows as us \<Longrightarrow> (a, u) \<in> set (zip as us) \<Longrightarrow> \<exists>row \<in> set rows. charged now row a u"
  by (induction rule: rows_charged.induct) auto

lemma allocate_loop_charges:
  "\<exists>as us. Allocations (allocate_loop c now rows plan) = Allocations plan @ as \<and>
     Updates (allocate_loop c now rows plan) = Updates plan @ us \<and>
     rows_charged now rows as us \<and>
     SubscriptionAmount (allocate_loop c now rows plan) = foldl fadd (SubscriptionAmount plan) (map AmountUSD as)"
proof (induction c now rows plan rule: allocate_loop.induct)
  case (1 c now plan)
  then show ?case by (auto intro: rc_done)
next
  case (2 c now row rows plan)
  let ?n = "NormalizeSettlementSubscription row now"
  let ?rate = "row_rate c ?n"
  let ?base = "UsesBaseAmount (Some c)"
  let ?rb = "if ?base then fmul (Remaining plan) ?rate else Remaining plan"
  let ?av = "row_available ?rb ?n"
  let ?al = "fmin ?rb ?av"
  let ?res = "allocate_loop c now (row # rows) plan"
  consider (stop) "fle (Remaining plan) f0" | (free) "\<not> fle (Remaining plan) f0" "?base \<and> fle ?rate f0"
    | (skip) "\<not> fle (Remaining plan) f0" "\<not> (?base \<and> fle ?rate f0)" "fle ?av f0 \<or> fle ?al f0"
    | (take) "\<not> fle (Remaining plan) f0" "\<not> (?base \<and> fle ?rate f0)" "\<not> fle ?av f0" "\<not> fle ?al f0"
    by blast
  then show ?case
  proof cases
    case stop
    then show ?thesis by (auto intro: rc_done)
  next
    case free
    then have "?res = plan\<lparr>Remaining := f0\<rparr>" by (simp add: Let_def)
    then show ?thesis by (auto intro: rc_done)
  next
    case skip
    then have r: "?res = allocate_loop c now rows plan" by (auto simp: Let_def)
    have IH: "\<exists>as us. Allocations (allocate_loop c now rows plan) = Allocations plan @ as \<and>
       Updates (allocate_loop c now rows plan) = Updates plan @ us \<and> rows_charged now rows as us \<and>
       SubscriptionAmount (allocate_loop c now rows plan) = foldl fadd (SubscriptionAmount plan) (map AmountUSD as)"
    proof (cases "fle ?av f0")
      case True
      then show ?thesis using 2(1) [OF skip(1) refl refl skip(2) refl refl] by blast
    next
      case False
      then show ?thesis using 2(2) [OF skip(1) refl refl skip(2) refl refl _ refl] skip(3) by blast
    qed
    then show ?thesis unfolding r by (auto intro: rc_skip)
  next
    case take
    define al where "al = ?al"
    define cov where "cov = (if ?base then fdiv al ?rate else al)"
    define a where "a = \<lparr>AllocType = BillingAllocationTypeSubscription, AmountUSD = al,
                     AllocBaseAmountUSD = (if IncludeAllocationPricing c then cov else f0),
                     RateMultiplier = (if IncludeAllocationPricing c then ?rate else f0),
                     SubscriptionID = Some (SsID ?n), AllocPlanID = Some (SsPlanID ?n)\<rparr>"
    define u where "u = row_charge ?n al"
    define p where "p = plan\<lparr>Updates := Updates plan @ [u], Allocations := Allocations plan @ [a],
                         SubscriptionAmount := fadd (SubscriptionAmount plan) al,
                         Remaining := fsub (Remaining plan) cov\<rparr>"
    note defs = p_def a_def u_def cov_def al_def
    have r: "?res = allocate_loop c now rows p"
      unfolding allocate_loop.simps(2) Let_def if_not_P [OF take(1)] if_not_P [OF take(2)]
        if_not_P [OF take(3)] if_not_P [OF take(4)] defs ..
    have ch: "charged now row a u" using take by (auto simp: charged_def defs)
    have am: "AmountUSD a = al" by (simp add: a_def)
    have "\<exists>as us. Allocations ?res = Allocations p @ as \<and> Updates ?res = Updates p @ us \<and>
        rows_charged now rows as us \<and> SubscriptionAmount ?res = foldl fadd (SubscriptionAmount p) (map AmountUSD as)"
      unfolding r defs
      by (rule 2(3) [OF take(1) refl refl take(2) refl refl take(3) refl take(4) refl refl])
    then obtain as us where "Allocations ?res = Allocations p @ as" "Updates ?res = Updates p @ us"
      "rows_charged now rows as us" "SubscriptionAmount ?res = foldl fadd (SubscriptionAmount p) (map AmountUSD as)"
      by blast
    moreover have "Allocations p = Allocations plan @ [a]" "Updates p = Updates plan @ [u]"
      "SubscriptionAmount p = fadd (SubscriptionAmount plan) al" by (simp_all add: p_def)
    ultimately show ?thesis
      using rc_take [OF ch] am
      by (intro exI [of _ "a # as"] exI [of _ "u # us"]) (simp del: allocate_loop.simps)
  qed
qed

lemma AllocateSubscriptions_cases:
  assumes "AllocateSubscriptions cmd rows now = Ok plan"
  obtains amt where "SubscriptionAllocationRequest cmd = Ok (amt, False)" "plan = empty_plan amt"
  | c amt where "cmd = Some c" "SubscriptionAllocationRequest cmd = Ok (amt, True)" "\<not> fle amt f0"
      "plan = allocate_loop c now rows (empty_plan amt)"
proof -
  obtain amt query where req: "SubscriptionAllocationRequest cmd = Ok (amt, query)"
    using assms by (auto simp: AllocateSubscriptions_def split: sum.splits)
  show ?thesis
  proof (cases query)
    case True
    then obtain c where "cmd = Some c" "\<not> fle amt f0"
      using req by (auto simp: SubscriptionAllocationRequest_def Let_def split: option.splits if_splits)
    then show ?thesis using that(2) assms req True
      by (auto simp: AllocateSubscriptions_def split: if_splits)
  next
    case False
    then show ?thesis using that(1) assms req
      by (auto simp: AllocateSubscriptions_def split: option.splits)
  qed
qed

lemma finite_amount_Fin: "finite_amount x \<Longrightarrow> \<exists>r. x = Fin r"
  by (simp add: finite_amount_def)

text \<open>Charging a part of a finite amount leaves a finite amount between zero and it.\<close>

lemma fsub_part:
  assumes "finite_amount a" "fle f0 b" "fle b a"
  shows "finite_amount (fsub a b)" "fle f0 (fsub a b)" "fle (fsub a b) a"
proof -
  obtain x where x: "a = Fin x" "is_f64 a" using assms(1) by (auto simp: finite_amount_def)
  obtain y where y: "b = Fin y" using assms(2,3) x by (cases b) auto
  show nn: "fle f0 (fsub a b)" using assms(3) by (intro fsub_nonneg) (simp_all add: x y x(2)[unfolded x])
  have "fsub a b \<noteq> NaN" by (simp add: x y fsub_Fin)
  moreover have "fle f0 a" using assms(2,3) fle_trans by blast
  ultimately show le: "fle (fsub a b) a" using fsub_le [of a b] x(2) assms(2) by simp
  then have "\<exists>r. fsub a b = Fin r" using nn x(1) by (cases "fsub a b") auto
  then show "finite_amount (fsub a b)" by (simp add: finite_amount_def)
qed

lemma row_available_not_NaN:
  assumes "finite_row row" "r \<noteq> NaN"
  shows "row_available r row \<noteq> NaN"
proof -
  let ?vs = "map (\<lambda>(l, u). RemainingWindowAmount l u) (row_windows row)"
  have "Some NaN \<notin> set ?vs"
    using finite_row_windows [OF assms(1)] RemainingWindowAmount_not_NaN by (fastforce dest: sym)
  then show ?thesis
    using min_loop_start [of ?vs] assms(2)
    by (auto simp: row_available_alt SubscriptionAvailableAmount_def)
qed

lemma allocate_loop_remaining:
  assumes "\<not> UsesBaseAmount (Some c)" "\<forall>row \<in> set rows. finite_row row"
    "finite_amount (Remaining plan)" "fle f0 (Remaining plan)"
  shows "finite_amount (Remaining (allocate_loop c now rows plan)) \<and>
    fle f0 (Remaining (allocate_loop c now rows plan)) \<and>
    fle (Remaining (allocate_loop c now rows plan)) (Remaining plan)"
  using assms
proof (induction rows arbitrary: plan)
  case Nil
  then show ?case using fle_refl fle_not_NaN by auto
next
  case (Cons row rows)
  let ?n = "NormalizeSettlementSubscription row now"
  let ?R = "Remaining plan"
  let ?av = "row_available ?R ?n"
  let ?al = "fmin ?R ?av"
  let ?res = "allocate_loop c now (row # rows) plan"
  have refl: "fle ?R ?R" using Cons.prems(4) fle_not_NaN fle_refl by blast
  consider (stop) "?res = plan" | (skip) "?res = allocate_loop c now rows plan"
    | (take) p where "?res = allocate_loop c now rows p" "Remaining p = fsub ?R ?al" "\<not> fle ?al f0"
  proof (cases "fle ?R f0")
    case False
    then show ?thesis using Cons.prems(1) that(2,3)
      by (cases "fle ?av f0"; cases "fle ?al f0") (simp_all add: Let_def)
  qed (use that(1) in simp)
  then show ?case
  proof cases
    case stop
    then show ?thesis using Cons.prems refl by simp
  next
    case skip
    then show ?thesis using Cons.IH Cons.prems by simp
  next
    case take
    have nR: "?R \<noteq> NaN" using refl fle_not_NaN by blast
    have av: "?av \<noteq> NaN"
      using Cons.prems(2) nR by (intro row_available_not_NaN finite_row_normalized) auto
    have al: "fle ?al ?R" using fmin_le [OF nR av] by blast
    then have "fle f0 ?al" using take(3) not_fle_iff [of ?al f0] flt_imp_fle fle_not_NaN by blast
    note part = fsub_part [OF Cons.prems(3) this al]
    have "finite_amount (Remaining ?res) \<and> fle f0 (Remaining ?res) \<and> fle (Remaining ?res) (Remaining p)"
      unfolding take(1) by (rule Cons.IH) (use Cons.prems part take(2) in auto)
    then show ?thesis using part(3) take(2) fle_trans by metis
  qed
qed

lemma normalized_windows:
  "NormalizeSettlementSubscription row now =
     (let w = startOfDay now;
          d = NormalizeSettlementWindow (SsDailyWindowStart row) (SsDailyLimitUSD row) (SsDailyUsageUSD row)
                w (24 * hour) now (SsStartsAt row) (SsExpiresAt row)
                (PositiveSubscriptionLimit (SsWeeklyLimitUSD row) \<or> PositiveSubscriptionLimit (SsMonthlyLimitUSD row));
          k = NormalizeSettlementWindow (SsWeeklyWindowStart row) (SsWeeklyLimitUSD row) (SsWeeklyUsageUSD row)
                w (7 * 24 * hour) now (SsStartsAt row) (SsExpiresAt row) (PositiveSubscriptionLimit (SsMonthlyLimitUSD row));
          m = NormalizeSettlementWindow (SsMonthlyWindowStart row) (SsMonthlyLimitUSD row) (SsMonthlyUsageUSD row)
                w (30 * 24 * hour) now (SsStartsAt row) (SsExpiresAt row) False
      in row\<lparr>SsDailyWindowStart := fst d, SsWeeklyWindowStart := fst k, SsMonthlyWindowStart := fst m,
             SsDailyUsageUSD := snd d, SsWeeklyUsageUSD := snd k, SsMonthlyUsageUSD := snd m\<rparr>)"
  by (simp add: NormalizeSettlementSubscription_def Let_def case_prod_beta)

lemma NormalizeSettlementWindow_idem':
  assumes "ns now < ns rs + d" "\<not> IsZero rs"
  shows "NormalizeSettlementWindow (fst (NormalizeSettlementWindow w l u rs d now st ex outer)) l
      (snd (NormalizeSettlementWindow w l u rs d now st ex outer)) rs d now st ex outer
    = NormalizeSettlementWindow w l u rs d now st ex outer"
  using NormalizeSettlementWindow_idem [OF _ assms] by (metis prod.collapse)

section \<open>Properties\<close>

text \<open>
  C32: every allocation belongs to one of the rows in the order storage supplied
  them, each row charged at most once; the stored update is that row's normalized
  windows with the allocated amount added to every enabled window, and the
  reported subscription amount is the sum of the allocations.
\<close>

theorem AllocateSubscriptions_charges:
  assumes "AllocateSubscriptions cmd rows now = Ok plan"
  shows "rows_charged now rows (Allocations plan) (Updates plan) \<and>
    SubscriptionAmount plan = foldl fadd f0 (map AmountUSD (Allocations plan)) \<and>
    subseq (map SubscriptionID (Allocations plan)) (map (\<lambda>r. Some (SsID r)) rows)"
proof -
  have "rows_charged now rows (Allocations plan) (Updates plan) \<and>
    SubscriptionAmount plan = foldl fadd f0 (map AmountUSD (Allocations plan))"
    using assms
  proof (cases rule: AllocateSubscriptions_cases)
    case (1 amt)
    then show ?thesis by (simp add: empty_plan_def rc_done)
  next
    case (2 c amt)
    then show ?thesis using allocate_loop_charges [of c now rows "empty_plan amt"]
      by (auto simp: empty_plan_def)
  qed
  then show ?thesis using rows_charged_order by blast
qed

definition sample_row :: SettlementSubscription where
  "sample_row = \<lparr>SsID = 7, SsPlanID = 3, SsStartsAt = \<lparr>ns = 0, loc = utc\<rparr>,
     SsExpiresAt = \<lparr>ns = 4000000 * second, loc = utc\<rparr>,
     SsDailyWindowStart = Some \<lparr>ns = 86400 * second, loc = utc\<rparr>, SsWeeklyWindowStart = None, SsMonthlyWindowStart = None,
     SsDailyLimitUSD = Some (Fin 10), SsWeeklyLimitUSD = None, SsMonthlyLimitUSD = None,
     SsDailyUsageUSD = Fin 4, SsWeeklyUsageUSD = f0, SsMonthlyUsageUSD = f0,
     PlanGroupRateMultipliers = Map.empty\<rparr>"

definition sample_command :: UsageBillingCommand where
  "sample_command = \<lparr>RequestID = ''r'', RequestFingerprint = ''f'', APIKeyBillingMode = ''auto'',
     PreferredSubscriptionID = None, GroupID = None, BillableAmountUSD = Fin 8, BaseAmountUSD = f0,
     SubscriptionRateMultiplier = Fin 1, SubscriptionRateMultiplierScale = Fin 1,
     BalanceRateMultiplier = Fin 1, DisablePlanGroupRateMultiplier = False, IncludeAllocationPricing = False,
     APIKeyQuotaCost = f0, APIKeyRateLimitCost = f0, ProviderQuotaCost = f0\<rparr>"

definition sample_now :: gtime where
  "sample_now = \<lparr>ns = 90000 * second, loc = utc\<rparr>"

definition sample_allocation :: BillingAllocation where
  "sample_allocation = \<lparr>AllocType = BillingAllocationTypeSubscription, AmountUSD = Fin 6,
     AllocBaseAmountUSD = f0, RateMultiplier = f0, SubscriptionID = Some 7, AllocPlanID = Some 3\<rparr>"

lemmas run_settlement = AllocateSubscriptions_def SubscriptionAllocationRequest_def UsesBaseAmount_def
  empty_plan_def row_rate_def row_available_def row_charge_def add_usage_def PositiveSubscriptionLimit_def
  SubscriptionAvailableAmount_def RemainingWindowAmount_def NormalizeSettlementSubscription_def
  NormalizeSettlementWindow_def CanStartSettlementWindow_def missing_anchor_def ValueOrZeroLimit_def
  startOfDay_def Date_def day_number_def local_sec_def unix_sec_def AddDays_def offset_at_def
  resolve_local_def lookup_def time_order zero_time_def is_zero_def nanos_def day_secs_def
  hour_def second_def mode_consts fsub_Fin fmin_def rnd_numeral utc_def

lemma sample_run:
  "AllocateSubscriptions (Some sample_command) [sample_row] sample_now =
     Ok \<lparr>Remaining = Fin 2, SubscriptionAmount = Fin 6, Allocations = [sample_allocation],
         Updates = [sample_row\<lparr>SsDailyUsageUSD := Fin 10\<rparr>]\<rparr>"
  by (simp add: run_settlement sample_command_def sample_row_def sample_now_def sample_allocation_def Let_def)

theorem AllocateSubscriptions_charges_witness:
  "rows_charged sample_now [sample_row] [sample_allocation] [sample_row\<lparr>SsDailyUsageUSD := Fin 10\<rparr>]"
  using AllocateSubscriptions_charges [OF sample_run] by simp

text \<open>Finite rates, and amounts that are then never NaN.\<close>

definition finite_rate :: "'a UsageBillingCommand_scheme \<Rightarrow> SettlementSubscription \<Rightarrow> bool" where
  "finite_rate c row \<longleftrightarrow> (\<exists>q. row_rate c row = Fin q)"

lemma row_rate_normalized [simp]: "row_rate c (NormalizeSettlementSubscription row now) = row_rate c row"
  unfolding row_rate_def SettlementSubscriptionRateMultiplier_def NormalizeSettlementSubscription_fields ..

lemma covered_not_NaN:
  assumes "\<not> fle al f0" "al \<noteq> NaN" "0 < q"
  shows "fle f0 (fdiv al (Fin q))"
  using assms by (cases al) (auto simp: fdiv_def inf_sign_def intro!: rnd_nonneg)

lemma fsub_finite_or_below:
  assumes "finite_amount a" "fle f0 a" "fle f0 b"
  shows "finite_amount (fsub a b) \<or> fle (fsub a b) f0"
proof (cases "fle b a")
  case True
  then show ?thesis using fsub_part [OF assms(1,3)] by blast
next
  case False
  obtain x where x: "a = Fin x" using assms(1) by (auto simp: finite_amount_def)
  then show ?thesis using False assms(3) rnd_mono [of "x - y" 0 for y] by (cases b) (auto simp: fsub_Fin, simp add: fsub_def)
qed

lemma allocate_loop_not_NaN:
  assumes "\<forall>row \<in> set rows. finite_row row \<and> finite_rate c row"
    "finite_amount (Remaining plan) \<or> fle (Remaining plan) f0" "\<forall>a \<in> set (Allocations plan). AmountUSD a \<noteq> NaN"
  shows "\<forall>a \<in> set (Allocations (allocate_loop c now rows plan)). AmountUSD a \<noteq> NaN"
  using assms
proof (induction rows arbitrary: plan)
  case (Cons row rows)
  let ?n = "NormalizeSettlementSubscription row now"
  let ?R = "Remaining plan"
  let ?base = "UsesBaseAmount (Some c)"
  let ?rate = "row_rate c ?n"
  obtain q where q: "?rate = Fin q" using Cons.prems(1) by (auto simp: finite_rate_def)
  let ?rb = "if ?base then fmul ?R ?rate else ?R"
  let ?av = "row_available ?rb ?n"
  let ?al = "fmin ?rb ?av"
  let ?cov = "if ?base then fdiv ?al ?rate else ?al"
  let ?a = "\<lparr>AllocType = BillingAllocationTypeSubscription, AmountUSD = ?al,
      AllocBaseAmountUSD = (if IncludeAllocationPricing c then ?cov else f0),
      RateMultiplier = (if IncludeAllocationPricing c then ?rate else f0),
      SubscriptionID = Some (SsID ?n), AllocPlanID = Some (SsPlanID ?n)\<rparr>"
  let ?res = "allocate_loop c now (row # rows) plan"
  consider (stop) "Allocations ?res = Allocations plan" | (skip) "?res = allocate_loop c now rows plan"
    | (take) p where "?res = allocate_loop c now rows p" "\<not> fle ?R f0" "\<not> (?base \<and> fle ?rate f0)" "\<not> fle ?al f0"
        "Allocations p = Allocations plan @ [?a]" "Remaining p = fsub ?R ?cov"
  proof (cases "fle ?R f0 \<or> ?base \<and> fle ?rate f0")
    case True
    then show ?thesis using that(1) by (auto simp: Let_def)
  next
    case False
    then have f: "\<not> fle ?R f0" "\<not> (?base \<and> fle ?rate f0)" by blast+
    show ?thesis
    proof (cases "fle ?av f0 \<or> fle ?al f0")
      case True
      then show ?thesis using f by (intro that(2)) (auto simp: Let_def)
    next
      case no: False
      then have n: "\<not> fle ?av f0" "\<not> fle ?al f0" by blast+
      have "?res = allocate_loop c now rows (plan\<lparr>Updates := Updates plan @ [row_charge ?n ?al],
          Allocations := Allocations plan @ [?a], SubscriptionAmount := fadd (SubscriptionAmount plan) ?al,
          Remaining := fsub ?R ?cov\<rparr>)"
        unfolding allocate_loop.simps(2) Let_def if_not_P [OF f(1)] if_not_P [OF f(2)] if_not_P [OF n(1)] if_not_P [OF n(2)] ..
      then show ?thesis by (rule that(3) [OF _ f n(2)]) simp_all
    qed
  qed
  then show ?case
  proof cases
    case stop
    then show ?thesis using Cons.prems by simp
  next
    case skip
    then show ?thesis using Cons.IH Cons.prems by simp
  next
    case take
    have R: "finite_amount ?R" "fle f0 ?R" using Cons.prems(2) take(2) by (auto simp: finite_amount_def)
    then have rb: "?rb \<noteq> NaN" using q by (auto simp: finite_amount_def fmul_def)
    have "finite_row ?n" using Cons.prems(1) by (simp add: finite_row_normalized)
    from row_available_not_NaN [OF this rb] have al: "?al \<noteq> NaN" using rb by (simp add: fmin_def)
    then have "fle f0 ?al" using take(4) not_fle_iff [of ?al f0] flt_imp_fle by auto
    then have cov: "fle f0 ?cov" using covered_not_NaN [OF take(4) al, of q] take(3) q by (auto simp: not_le)
    have "\<forall>b \<in> set (Allocations p). AmountUSD b \<noteq> NaN" using Cons.prems(3) al take(5) by auto
    moreover have "finite_amount (Remaining p) \<or> fle (Remaining p) f0"
      unfolding take(6) by (rule fsub_finite_or_below [OF R cov])
    ultimately show ?thesis unfolding take(1) using Cons.IH Cons.prems(1) by simp
  qed
qed simp

text \<open>
  C31: with finite amounts, limits, usage and rates, every allocated amount is
  positive and within what is left of every enabled window of its row at that
  moment, so the smallest window caps the charge; no amount is NaN.
\<close>

theorem allocation_within_every_window:
  assumes "AllocateSubscriptions (Some c) rows now = Ok plan" "\<forall>row \<in> set rows. finite_row row \<and> finite_rate c row"
    and "finite_amount (BillableAmountUSD c)" "finite_amount (BaseAmountUSD c)"
    and "(a, u) \<in> set (zip (Allocations plan) (Updates plan))"
  shows "flt f0 (AmountUSD a) \<and> (\<exists>row \<in> set rows. SubscriptionID a = Some (SsID row) \<and>
     (\<forall>(l, used) \<in> set (row_windows (NormalizeSettlementSubscription row now)).
        PositiveSubscriptionLimit l \<longrightarrow> fle (AmountUSD a) (the (RemainingWindowAmount l used))))"
proof -
  have "rows_charged now rows (Allocations plan) (Updates plan)"
    using AllocateSubscriptions_cases [OF assms(1)] allocate_loop_charges
    by (metis append_Nil empty_plan_def SubscriptionAllocationPlan.select_convs(3,4) rc_done)
  then obtain row where row: "row \<in> set rows" and ch: "charged now row a u"
    using rows_charged_zip assms(5) by blast
  have nn: "AmountUSD a \<noteq> NaN"
    using assms(1)
  proof (cases rule: AllocateSubscriptions_cases)
    case (1 amt)
    then show ?thesis using assms(5) by (simp add: empty_plan_def)
  next
    case (2 c' amt)
    then have "finite_amount amt" using assms(3,4)
      by (auto simp: SubscriptionAllocationRequest_def Let_def split: if_splits option.splits)
    then have "\<forall>a \<in> set (Allocations plan). AmountUSD a \<noteq> NaN"
      using 2 assms(2) allocate_loop_not_NaN [of rows c "empty_plan amt" now] by (simp add: empty_plan_def)
    then show ?thesis using assms(5) by (meson in_set_zipE)
  qed
  let ?n = "NormalizeSettlementSubscription row now"
  obtain r where amt: "AmountUSD a = fmin r (row_available r ?n)"
    using ch by (auto simp: charged_def)
  have fin: "finite_row ?n" using assms(2) row by (simp add: finite_row_normalized)
  have "fle (AmountUSD a) (the (RemainingWindowAmount l used))"
    if "(l, used) \<in> set (row_windows ?n)" "PositiveSubscriptionLimit l" for l used
  proof -
    have av: "fle (row_available r ?n) (the (RemainingWindowAmount l used))"
      by (rule row_available_le [OF fin that])
    have "AmountUSD a \<noteq> NInf" using ch by (auto simp: charged_def)
    then have "r \<noteq> NaN" using nn fle_not_NaN [OF av] by (auto simp: amt fmin_def split: if_splits)
    then have "fle (AmountUSD a) (row_available r ?n)"
      using fmin_le fle_not_NaN [OF av] by (simp add: amt)
    then show ?thesis using av by (rule fle_trans)
  qed
  moreover have "flt f0 (AmountUSD a)"
    using ch nn not_fle_iff [of "AmountUSD a" f0] by (auto simp: charged_def)
  ultimately show ?thesis using row ch by (auto simp: charged_def)
qed

theorem allocation_within_every_window_witness:
  "fle (AmountUSD sample_allocation) (the (RemainingWindowAmount (Some (Fin 10)) (Fin 4)))"
proof -
  let ?n = "NormalizeSettlementSubscription sample_row sample_now"
  have fin: "\<forall>row \<in> set [sample_row]. finite_row row \<and> finite_rate sample_command row"
    by (simp add: finite_row_def sample_row_def finite_limit_def finite_amount_def finite_rate_def row_rate_def
        UsesBaseAmount_def sample_command_def)
  have amounts: "finite_amount (BillableAmountUSD sample_command)" "finite_amount (BaseAmountUSD sample_command)"
    by (simp_all add: sample_command_def finite_amount_def)
  have w: "(Some (Fin 10), Fin 4) \<in> set (row_windows ?n)"
    by (simp add: row_windows_def run_settlement sample_row_def sample_now_def Let_def)
  have "(sample_allocation, sample_row\<lparr>SsDailyUsageUSD := Fin 10\<rparr>)
      \<in> set (zip [sample_allocation] [sample_row\<lparr>SsDailyUsageUSD := Fin 10\<rparr>])" by simp
  then show ?thesis
    using allocation_within_every_window [OF sample_run fin amounts] w
    by (fastforce simp: sample_allocation_def PositiveSubscriptionLimit_def)
qed

text \<open>
  Without a base amount (the billed amount is allocated directly) and with
  finite rows, what is left uncovered is a finite amount between zero and the
  request: allocation never charges more than was asked.
\<close>

theorem remaining_never_negative:
  assumes "AllocateSubscriptions (Some c) rows now = Ok plan"
    and "\<not> UsesBaseAmount (Some c)" and "finite_amount (BillableAmountUSD c)"
    and "\<forall>row \<in> set rows. finite_row row"
  shows "fle f0 (Remaining plan) \<and>
    (fle (Remaining plan) (BillableAmountUSD c) \<or> Remaining plan = f0)"
  using assms(1)
proof (cases rule: AllocateSubscriptions_cases)
  case (1 amt)
  have "amt = f0 \<or> (amt = BillableAmountUSD c \<and> \<not> fle amt f0)"
    using assms(2) 1(1)
    by (auto simp: SubscriptionAllocationRequest_def Let_def split: if_splits option.splits)
  then show ?thesis using 1 assms(3) by (auto simp: empty_plan_def finite_amount_def)
next
  case (2 c' amt)
  then have amt: "amt = BillableAmountUSD c"
    using assms(2) by (auto simp: SubscriptionAllocationRequest_def Let_def split: if_splits)
  have nn: "fle f0 (Remaining (empty_plan amt))"
    using 2(3) assms(3) by (auto simp: empty_plan_def finite_amount_def amt)
  show ?thesis
    using allocate_loop_remaining [OF assms(2,4) _ nn, of now] assms(3) 2 amt
    by (auto simp: empty_plan_def)
qed

text \<open>
  while the day of now is at most 24 hours old, normalizing the quota windows
  of a row is idempotent: a second settlement in the same instant sees the anchors
  and usage the first one left, so no usage is dropped.
\<close>

theorem normalization_idempotent:
  assumes "ns now < ns (startOfDay now) + 24 * hour" and "\<not> IsZero (startOfDay now)"
  shows "NormalizeSettlementSubscription (NormalizeSettlementSubscription row now) now =
    NormalizeSettlementSubscription row now"
proof -
  have b: "ns now < ns (startOfDay now) + 168 * hour" "ns now < ns (startOfDay now) + 720 * hour"
    using assms(1) by (simp_all add: hour_def)
  note idem = NormalizeSettlementWindow_idem' [OF assms] NormalizeSettlementWindow_idem' [OF b(1) assms(2)]
    NormalizeSettlementWindow_idem' [OF b(2) assms(2)]
  show ?thesis
    unfolding normalized_windows Let_def by (simp add: idem)
qed

theorem normalization_idempotent_witness:
  "NormalizeSettlementSubscription (NormalizeSettlementSubscription sample_row sample_now) sample_now =
     NormalizeSettlementSubscription sample_row sample_now"
  by (rule normalization_idempotent) (simp_all add: run_settlement sample_now_def)

text \<open>
  A row whose daily window was opened at the given midnight, with a limit, for a
  subscription of more than one day in which a daily window may start.
\<close>

definition daily_window_at :: "gtime \<Rightarrow> SettlementSubscription \<Rightarrow> bool" where
  "daily_window_at midnight row \<longleftrightarrow>
     PositiveSubscriptionLimit (SsDailyLimitUSD row) \<and> SsDailyWindowStart row = Some midnight \<and>
     After (SsExpiresAt row) (AddDays (SsStartsAt row) 1) \<and>
     CanStartSettlementWindow midnight (24 * hour) (SsExpiresAt row)
       (PositiveSubscriptionLimit (SsWeeklyLimitUSD row) \<or> PositiveSubscriptionLimit (SsMonthlyLimitUSD row))"

lemma enabled_limit: "PositiveSubscriptionLimit l \<Longrightarrow> l \<noteq> None \<and> \<not> fle (ValueOrZeroLimit l) f0"
  by (cases "the l") (auto simp: PositiveSubscriptionLimit_def ValueOrZeroLimit_def split: option.splits)

lemma long_day_normalized:
  assumes "daily_window_at (startOfDay now) row" "ns (startOfDay now) + 24 * hour \<le> ns now"
  shows "NormalizeSettlementSubscription (row\<lparr>SsDailyUsageUSD := x\<rparr>) now = NormalizeSettlementSubscription row now"
    and "SsDailyUsageUSD (NormalizeSettlementSubscription row now) = f0"
    and "SsDailyWindowStart (NormalizeSettlementSubscription row now) = Some (startOfDay now)"
proof -
  have "NormalizeSettlementWindow (SsDailyWindowStart row) (SsDailyLimitUSD row) y (startOfDay now) (24 * hour) now
      (SsStartsAt row) (SsExpiresAt row)
      (PositiveSubscriptionLimit (SsWeeklyLimitUSD row) \<or> PositiveSubscriptionLimit (SsMonthlyLimitUSD row)) = (Some (startOfDay now), f0)"
    for y
    using assms enabled_limit [of "SsDailyLimitUSD row"]
    by (auto simp: daily_window_at_def NormalizeSettlementWindow_def After_def)
  then show "NormalizeSettlementSubscription (row\<lparr>SsDailyUsageUSD := x\<rparr>) now = NormalizeSettlementSubscription row now"
    "SsDailyUsageUSD (NormalizeSettlementSubscription row now) = f0"
    "SsDailyWindowStart (NormalizeSettlementSubscription row now) = Some (startOfDay now)"
    by (simp_all add: normalized_windows Let_def)
qed

lemma allocate_loop_normalized:
  "list_all2 (\<lambda>r r'. NormalizeSettlementSubscription r now = NormalizeSettlementSubscription r' now) rows rows' \<Longrightarrow>
     allocate_loop c now rows plan = allocate_loop c now rows' plan"
  by (induction rows rows' arbitrary: plan rule: list_all2_induct) (simp_all add: Let_def)

text \<open>
  C33: in the last hour of a 25-hour day the daily quota is not enforced: at every
  instant at least 24 hours after its day's midnight, in any location, for any command
  and any rows whose daily windows were opened at that midnight, a settlement allocates
  the same whatever the rows had used that day; and it leaves each charged row with its
  own amount as the only usage and with the same midnight as its window's start, so the
  next settlement of that hour forgets this one too.
\<close>

theorem long_day_restarts_quota:
  assumes "ns (startOfDay now) + 24 * hour \<le> ns now" "\<forall>row \<in> set rows. daily_window_at (startOfDay now) row"
  shows "AllocateSubscriptions (Some c) (map (\<lambda>row. row\<lparr>SsDailyUsageUSD := used row\<rparr>) rows) now =
      AllocateSubscriptions (Some c) rows now \<and>
    (\<forall>plan a u. AllocateSubscriptions (Some c) rows now = Ok plan \<and> (a, u) \<in> set (zip (Allocations plan) (Updates plan)) \<longrightarrow>
      SsDailyUsageUSD u = fadd f0 (AmountUSD a) \<and> daily_window_at (startOfDay now) u)"
proof -
  have "list_all2 (\<lambda>r r'. NormalizeSettlementSubscription r now = NormalizeSettlementSubscription r' now)
      (map (\<lambda>row. row\<lparr>SsDailyUsageUSD := used row\<rparr>) rows) rows"
    using long_day_normalized(1) [OF _ assms(1)] assms(2) by (auto simp: list_all2_conv_all_nth)
  then have "allocate_loop c now (map (\<lambda>row. row\<lparr>SsDailyUsageUSD := used row\<rparr>) rows) plan = allocate_loop c now rows plan" for plan
    by (rule allocate_loop_normalized)
  then have "AllocateSubscriptions (Some c) (map (\<lambda>row. row\<lparr>SsDailyUsageUSD := used row\<rparr>) rows) now =
      AllocateSubscriptions (Some c) rows now"
    unfolding AllocateSubscriptions_def length_map by (simp only: option.case)
  moreover have "SsDailyUsageUSD u = fadd f0 (AmountUSD a) \<and> daily_window_at (startOfDay now) u"
    if al: "AllocateSubscriptions (Some c) rows now = Ok plan" and zp: "(a, u) \<in> set (zip (Allocations plan) (Updates plan))" for plan a u
  proof -
    have "rows_charged now rows (Allocations plan) (Updates plan)"
      using AllocateSubscriptions_cases [OF al] allocate_loop_charges
      by (metis append_Nil empty_plan_def SubscriptionAllocationPlan.select_convs(3,4) rc_done)
    then obtain row where row: "row \<in> set rows" "charged now row a u"
      using rows_charged_zip zp by blast
    then have u: "u = row_charge (NormalizeSettlementSubscription row now) (AmountUSD a)" by (simp add: charged_def)
    have w: "daily_window_at (startOfDay now) row" using assms(2) row(1) by blast
    show ?thesis unfolding u using w long_day_normalized(2,3) [OF w assms(1)]
      by (simp add: row_charge_def add_usage_def daily_window_at_def)
  qed
  ultimately show ?thesis by blast
qed

text \<open>
  23:30 on 2 November 2025 in a location that leaves daylight saving time that
  morning, so that day has 25 hours; a row whose daily window was opened at its
  midnight.
\<close>

definition eastern :: location where
  "eastern = \<lparr>base_offset = - 14400, transitions = [(1762063200, - 18000)]\<rparr>"

definition late_evening :: gtime where
  "late_evening = \<lparr>ns = 1762144200 * second, loc = eastern\<rparr>"

definition spent_row :: "f64 \<Rightarrow> SettlementSubscription" where
  "spent_row used = \<lparr>SsID = 7, SsPlanID = 3, SsStartsAt = \<lparr>ns = 1760000000 * second, loc = eastern\<rparr>,
     SsExpiresAt = \<lparr>ns = 1770000000 * second, loc = eastern\<rparr>,
     SsDailyWindowStart = Some (startOfDay late_evening), SsWeeklyWindowStart = None, SsMonthlyWindowStart = None,
     SsDailyLimitUSD = Some (Fin 10), SsWeeklyLimitUSD = None, SsMonthlyLimitUSD = None,
     SsDailyUsageUSD = used, SsWeeklyUsageUSD = f0, SsMonthlyUsageUSD = f0,
     PlanGroupRateMultipliers = Map.empty\<rparr>"

lemma spent_row_charged: "AllocateSubscriptions (Some sample_command) [spent_row f0] late_evening =
     Ok \<lparr>Remaining = f0, SubscriptionAmount = Fin 8, Allocations = [sample_allocation\<lparr>AmountUSD := Fin 8\<rparr>],
         Updates = [spent_row (Fin 8)]\<rparr>"
  by (simp add: run_settlement sample_command_def spent_row_def late_evening_def eastern_def
      sample_allocation_def Let_def)

theorem long_day_restarts_quota_witness:
  "AllocateSubscriptions (Some sample_command) [spent_row (Fin 10)] late_evening =
     Ok \<lparr>Remaining = f0, SubscriptionAmount = Fin 8, Allocations = [sample_allocation\<lparr>AmountUSD := Fin 8\<rparr>],
         Updates = [spent_row (Fin 8)]\<rparr>"
proof -
  have "ns (startOfDay late_evening) + 24 * hour \<le> ns late_evening"
    by (simp add: run_settlement late_evening_def eastern_def Let_def)
  moreover have "\<forall>row \<in> set [spent_row f0]. daily_window_at (startOfDay late_evening) row"
    by (simp add: daily_window_at_def spent_row_def run_settlement late_evening_def eastern_def Let_def)
  ultimately have "AllocateSubscriptions (Some sample_command) (map (\<lambda>row. row\<lparr>SsDailyUsageUSD := Fin 10\<rparr>) [spent_row f0]) late_evening =
      AllocateSubscriptions (Some sample_command) [spent_row f0] late_evening"
    using long_day_restarts_quota [of late_evening "[spent_row f0]" sample_command "\<lambda>_. Fin 10"] by blast
  moreover have "map (\<lambda>row. row\<lparr>SsDailyUsageUSD := Fin 10\<rparr>) [spent_row f0] = [spent_row (Fin 10)]"
    by (simp add: spent_row_def)
  ultimately show ?thesis using spent_row_charged by simp
qed

text \<open>
  for a positive amount the funding mode decides: balance mode leaves it all
  uncovered, subscription mode needs a positive preferred identity and at least
  one row, and every other mode walks the rows.
\<close>

theorem settlement_modes:
  "\<not> fle amt f0 \<Longrightarrow> amt = (if UsesBaseAmount (Some c) then BaseAmountUSD c else BillableAmountUSD c) \<Longrightarrow>
   AllocateSubscriptions (Some c) rows now =
     (if APIKeyBillingMode c = APIKeyBillingModeBalance then Ok (empty_plan amt)
      else if APIKeyBillingMode c = APIKeyBillingModeSubscription then
        (if \<exists>i. PreferredSubscriptionID c = Some i \<and> 0 < i
         then (if rows = [] then Err ErrPreferredSubscriptionInsufficient
               else Ok (allocate_loop c now rows (empty_plan amt)))
         else Err ErrPreferredSubscriptionInvalid)
      else Ok (allocate_loop c now rows (empty_plan amt)))"
  by (auto simp: AllocateSubscriptions_def SubscriptionAllocationRequest_def Let_def mode_consts
      split: option.split)


end
