(* ===== verification/TaskFunds.thy ===== *)
theory TaskFunds
  imports Allocation
begin

text \<open>
  Task funding: the reservation command, its normalization and the capture plan
  of internal/billing/settlement.go, and the task-reference checks of funds.go.
  A capture keeps recorded subscription holds in their order, covers the rest
  from the balance hold, and returns the unused parts as releases.  Fields that
  only feed the command's digest live in the record's extension.
\<close>

section \<open>Data\<close>

definition taskCostEpsilon :: f64 where
  "taskCostEpsilon = rnd (1 / 100000000)"

datatype task_error =
    ErrTaskSettlementCostExceedsHold
  | ErrTaskReferenceIncomplete string

record TaskReference =
  Scope :: string
  TaskID :: string
  ReserveRequestID :: string

record TaskFundsCommand =
  TfRequestID :: string
  TfRequestFingerprint :: string
  TfAPIKeyBillingMode :: string
  TfPreferredSubscriptionID :: "int option"
  Task :: TaskReference
  HoldAmount :: f64
  ActualAmount :: f64
  PricingSnapshotVersion :: int
  TfBaseAmountUSD :: f64
  ActualBaseAmountUSD :: f64
  TfBalanceRateMultiplier :: f64
  SettlementRateScale :: f64
  BalanceHoldAmount :: f64
  SubscriptionHoldAllocations :: "BillingAllocation list"

record TaskCapturePlan =
  TpBalanceHoldAmount :: f64
  ActualAmountUSD :: f64
  SubscriptionAmountUSD :: f64
  BalanceAmountUSD :: f64
  BillingAllocations :: "BillingAllocation list"
  SubscriptionReleases :: "BillingAllocation list"

section \<open>Operations\<close>

definition NormalizeTaskCommand ::
  "('a TaskFundsCommand_scheme \<Rightarrow> string) \<Rightarrow> 'a TaskFundsCommand_scheme \<Rightarrow> 'a TaskFundsCommand_scheme" where
  "NormalizeTaskCommand fingerprint c =
     (let c = c\<lparr>TfRequestID := trim_space (TfRequestID c),
                Task := (Task c)\<lparr>TaskID := trim_space (TaskID (Task c))\<rparr>\<rparr>;
          rawMode = trim_space (TfAPIKeyBillingMode c);
          (mode, ok) = NormalizeAPIKeyBillingMode (TfAPIKeyBillingMode c);
          mode = (if \<not> ok then APIKeyBillingModeAuto else mode);
          c = (if trim_space (TfRequestFingerprint c) = [] then
                 let fc = c\<lparr>TfAPIKeyBillingMode := (if rawMode = [] then [] else mode)\<rparr>;
                     fc = (if mode \<noteq> APIKeyBillingModeSubscription
                           then fc\<lparr>TfPreferredSubscriptionID := None\<rparr> else fc)
                 in c\<lparr>TfRequestFingerprint := fingerprint fc\<rparr>
               else c);
          c = c\<lparr>TfAPIKeyBillingMode := mode\<rparr>
      in if mode \<noteq> APIKeyBillingModeSubscription then c\<lparr>TfPreferredSubscriptionID := None\<rparr> else c)"

definition EffectiveTaskBalanceHoldAmount :: "'a TaskFundsCommand_scheme option \<Rightarrow> f64" where
  "EffectiveTaskBalanceHoldAmount cmd =
     (case cmd of
        None \<Rightarrow> f0
      | Some c \<Rightarrow>
          if flt f0 (BalanceHoldAmount c) \<or> 0 < length (SubscriptionHoldAllocations c)
          then fmax (BalanceHoldAmount c) f0
          else fmax (HoldAmount c) f0)"

fun hold_sum :: "BillingAllocation list \<Rightarrow> f64 \<Rightarrow> f64" where
  "hold_sum [] acc = acc"
| "hold_sum (a # as) acc =
     hold_sum as (if AllocType a = BillingAllocationTypeSubscription \<and> flt f0 (AmountUSD a)
                  then fadd acc (AmountUSD a) else acc)"

definition TotalTaskHoldAmount :: "'a TaskFundsCommand_scheme option \<Rightarrow> f64" where
  "TotalTaskHoldAmount cmd =
     (case cmd of
        None \<Rightarrow> f0
      | Some c \<Rightarrow> hold_sum (SubscriptionHoldAllocations c) (EffectiveTaskBalanceHoldAmount cmd))"

text \<open>Copying an allocation with its identities; values here have no aliasing.\<close>

definition CloneBillingAllocation :: "BillingAllocation \<Rightarrow> f64 \<Rightarrow> BillingAllocation" where
  "CloneBillingAllocation allocation amount = allocation\<lparr>AmountUSD := amount\<rparr>"

definition held :: "BillingAllocation \<Rightarrow> bool" where
  "held a = (\<not> (AllocType a \<noteq> BillingAllocationTypeSubscription \<or> fle (AmountUSD a) f0
     \<or> SubscriptionID a = None))"

definition empty_capture :: TaskCapturePlan where
  "empty_capture = \<lparr>TpBalanceHoldAmount = f0, ActualAmountUSD = f0, SubscriptionAmountUSD = f0,
     BalanceAmountUSD = f0, BillingAllocations = [], SubscriptionReleases = []\<rparr>"

definition keep :: "BillingAllocation \<Rightarrow> f64 \<Rightarrow> TaskCapturePlan \<Rightarrow> TaskCapturePlan" where
  "keep k amount plan = plan\<lparr>BillingAllocations := BillingAllocations plan @ [k],
     SubscriptionAmountUSD := fadd (SubscriptionAmountUSD plan) amount\<rparr>"

definition release_rest :: "BillingAllocation \<Rightarrow> f64 \<Rightarrow> TaskCapturePlan \<Rightarrow> TaskCapturePlan" where
  "release_rest a kept plan =
     (let released = fsub (AmountUSD a) kept in
      if flt taskCostEpsilon released
      then plan\<lparr>SubscriptionReleases := SubscriptionReleases plan @ [CloneBillingAllocation a released]\<rparr>
      else plan)"

text \<open>The monetary capture loop: remaining charge and plan.\<close>

fun capture_loop :: "BillingAllocation list \<Rightarrow> f64 \<times> TaskCapturePlan \<Rightarrow> f64 \<times> TaskCapturePlan" where
  "capture_loop [] st = st"
| "capture_loop (a # as) (remaining, plan) =
     (if \<not> held a then capture_loop as (remaining, plan)
      else
        let kept = fmin (AmountUSD a) remaining;
            (remaining, plan) =
              (if flt f0 kept
               then (fsub remaining kept, keep (CloneBillingAllocation a kept) kept plan)
               else (remaining, plan))
        in capture_loop as (remaining, release_rest a kept plan))"

text \<open>The base-amount loop: each source at its recorded rate, scaled.\<close>

fun base_capture_loop ::
  "f64 \<Rightarrow> BillingAllocation list \<Rightarrow> f64 \<times> TaskCapturePlan \<Rightarrow> f64 \<times> TaskCapturePlan" where
  "base_capture_loop scale [] st = st"
| "base_capture_loop scale (a # as) (remainingBase, plan) =
     (if \<not> held a then base_capture_loop scale as (remainingBase, plan)
      else
        let rate = fmul (RateMultiplier a) scale in
        if fle rate f0 then base_capture_loop scale as (remainingBase, plan)
        else
          let kept = fmin (AmountUSD a) (fmul remainingBase rate);
              (remainingBase, plan) =
                (if flt f0 kept
                 then (fsub remainingBase (fdiv kept rate),
                       keep ((CloneBillingAllocation a kept)\<lparr>AllocBaseAmountUSD := fdiv kept rate,
                               RateMultiplier := rate\<rparr>) kept plan)
                 else (remainingBase, plan))
          in base_capture_loop scale as (remainingBase, release_rest a kept plan))"

definition balance_allocation :: "f64 \<Rightarrow> f64 \<Rightarrow> f64 \<Rightarrow> BillingAllocation" where
  "balance_allocation amount base rate =
     \<lparr>AllocType = BillingAllocationTypeBalance, AmountUSD = amount, AllocBaseAmountUSD = base,
      RateMultiplier = rate, SubscriptionID = None, AllocPlanID = None\<rparr>"

definition planTaskBaseAmountCapture ::
  "'a TaskFundsCommand_scheme \<Rightarrow> (task_error, TaskCapturePlan) result" where
  "planTaskBaseAmountCapture cmd =
     (let plan = empty_capture\<lparr>TpBalanceHoldAmount := EffectiveTaskBalanceHoldAmount (Some cmd)\<rparr>;
          settlementScale = fmax (SettlementRateScale cmd) f0;
          (remainingBase, plan) =
            base_capture_loop settlementScale (SubscriptionHoldAllocations cmd)
              (fmax (ActualBaseAmountUSD cmd) f0, plan);
          balanceRate = fmul (fmax (TfBalanceRateMultiplier cmd) f0) settlementScale;
          balanceAmount = fmul remainingBase balanceRate
      in if flt taskCostEpsilon (fsub balanceAmount (TpBalanceHoldAmount plan))
         then Err ErrTaskSettlementCostExceedsHold
         else
           let charge = fmin balanceAmount (TpBalanceHoldAmount plan);
               plan = plan\<lparr>BalanceAmountUSD := charge\<rparr>;
               (remainingBase, plan) =
                 (if flt f0 charge then
                    let baseAmount = (if flt f0 balanceRate then fdiv charge balanceRate else f0) in
                    (fsub remainingBase baseAmount,
                     plan\<lparr>BillingAllocations := BillingAllocations plan @
                            [balance_allocation charge baseAmount balanceRate]\<rparr>)
                  else (remainingBase, plan))
           in if flt taskCostEpsilon remainingBase \<and> flt f0 balanceRate
              then Err ErrTaskSettlementCostExceedsHold
              else Ok (plan\<lparr>ActualAmountUSD := fadd (SubscriptionAmountUSD plan) (BalanceAmountUSD plan)\<rparr>))"

definition PlanTaskCapture ::
  "'a TaskFundsCommand_scheme option \<Rightarrow> (task_error, TaskCapturePlan) result" where
  "PlanTaskCapture cmd =
     (case cmd of
        None \<Rightarrow> Ok empty_capture
      | Some c \<Rightarrow>
          if 2 \<le> PricingSnapshotVersion c \<and> flt f0 (TfBaseAmountUSD c) then planTaskBaseAmountCapture c
          else
            let (remaining, plan) =
                  capture_loop (SubscriptionHoldAllocations c) (fmax (ActualAmount c) f0, empty_capture);
                plan = plan\<lparr>TpBalanceHoldAmount := EffectiveTaskBalanceHoldAmount cmd\<rparr>
            in if flt taskCostEpsilon (fsub remaining (TpBalanceHoldAmount plan))
               then Err ErrTaskSettlementCostExceedsHold
               else
                 let charge = fmin remaining (TpBalanceHoldAmount plan);
                     plan = plan\<lparr>BalanceAmountUSD := charge\<rparr>;
                     plan = (if flt f0 charge
                       then plan\<lparr>BillingAllocations := BillingAllocations plan @ [balance_allocation charge f0 f0]\<rparr>
                       else plan)
                 in Ok (plan\<lparr>ActualAmountUSD := fadd (SubscriptionAmountUSD plan) (BalanceAmountUSD plan)\<rparr>))"

section \<open>The funds entry points\<close>

text \<open>
  Reserve, Capture and Release check the task reference and delegate to the
  store, which is an argument.
\<close>

definition with_task_reference ::
  "('a TaskFundsCommand_scheme option \<Rightarrow> (task_error, 'r) result) \<Rightarrow> 'a TaskFundsCommand_scheme option
   \<Rightarrow> (task_error, 'r) result" where
  "with_task_reference store cmd =
     (case cmd of
        None \<Rightarrow> store None
      | Some c \<Rightarrow>
          if Scope (Task c) = [] \<or> ReserveRequestID (Task c) = []
          then Err (ErrTaskReferenceIncomplete (Scope (Task c)))
          else store cmd)"

section \<open>Lemmas\<close>

lemma epsilon_pos: "fle f0 taskCostEpsilon" "taskCostEpsilon \<noteq> NaN"
  by (simp_all add: taskCostEpsilon_def rnd_nonneg)

lemma fmax_nonneg: "a \<noteq> NaN \<Longrightarrow> fle f0 (fmax a f0)"
  by (cases a) (auto simp: fmax_def)

text \<open>
  What a capture does with the holds, in their order: each is skipped, or a part
  of it (no more than the hold) is kept, and at most one release of it is made.
\<close>

inductive captured ::
  "BillingAllocation list \<Rightarrow> BillingAllocation list \<Rightarrow> BillingAllocation list \<Rightarrow> bool"
where
  ca_done: "captured [] [] []"
| ca_skip: "captured as ks rs \<Longrightarrow> captured (a # as) ks rs"
| ca_hold: "held a \<Longrightarrow> captured as ks rs \<Longrightarrow>
    ks' = [] \<or> (\<exists>k. ks' = [k] \<and> SubscriptionID k = SubscriptionID a \<and> AllocType k = AllocType a \<and>
      flt f0 (AmountUSD k) \<and> fle (AmountUSD k) (AmountUSD a)) \<Longrightarrow>
    rs' = [] \<or> (\<exists>kept. rs' = [CloneBillingAllocation a (fsub (AmountUSD a) kept)] \<and>
      flt taskCostEpsilon (fsub (AmountUSD a) kept) \<and>
      (ks' = [] \<longrightarrow> \<not> flt f0 kept) \<and> (\<forall>k. ks' = [k] \<longrightarrow> kept = AmountUSD k)) \<Longrightarrow>
    captured (a # as) (ks' @ ks) (rs' @ rs)"

lemma captured_kept:
  "captured as ks rs \<Longrightarrow> k \<in> set ks \<Longrightarrow>
    \<exists>a \<in> set as. held a \<and> SubscriptionID k = SubscriptionID a \<and> fle (AmountUSD k) (AmountUSD a)"
  by (induction rule: captured.induct) auto

lemma captured_lengths: "captured as ks rs \<Longrightarrow> length ks \<le> length as \<and> length rs \<le> length as"
  by (induction rule: captured.induct) auto

lemma keep_simps [simp]:
  "BillingAllocations (keep k amt plan) = BillingAllocations plan @ [k]"
  "SubscriptionReleases (keep k amt plan) = SubscriptionReleases plan"
  "SubscriptionAmountUSD (keep k amt plan) = fadd (SubscriptionAmountUSD plan) amt"
  "TpBalanceHoldAmount (keep k amt plan) = TpBalanceHoldAmount plan"
  by (simp_all add: keep_def)

lemma release_rest_simps [simp]:
  "BillingAllocations (release_rest a kept plan) = BillingAllocations plan"
  "SubscriptionAmountUSD (release_rest a kept plan) = SubscriptionAmountUSD plan"
  "TpBalanceHoldAmount (release_rest a kept plan) = TpBalanceHoldAmount plan"
  "SubscriptionReleases (release_rest a kept plan) = SubscriptionReleases plan @
     (if flt taskCostEpsilon (fsub (AmountUSD a) kept)
      then [CloneBillingAllocation a (fsub (AmountUSD a) kept)] else [])"
  by (simp_all add: release_rest_def Let_def)

lemma CloneBillingAllocation_simps [simp]:
  "AmountUSD (CloneBillingAllocation a x) = x"
  "SubscriptionID (CloneBillingAllocation a x) = SubscriptionID a"
  "AllocType (CloneBillingAllocation a x) = AllocType a"
  "AllocPlanID (CloneBillingAllocation a x) = AllocPlanID a"
  by (simp_all add: CloneBillingAllocation_def)

lemma fmin_pos_le: "flt f0 (fmin a b) \<Longrightarrow> fle (fmin a b) a \<and> fle (fmin a b) b"
  by (cases a; cases b) (auto simp: fmin_def split: if_splits)

lemma capture_loop_captured:
  "capture_loop as (rem, plan) = (rem', plan') \<Longrightarrow>
    \<exists>ks rs. BillingAllocations plan' = BillingAllocations plan @ ks \<and>
      SubscriptionReleases plan' = SubscriptionReleases plan @ rs \<and> captured as ks rs \<and>
      SubscriptionAmountUSD plan' = foldl fadd (SubscriptionAmountUSD plan) (map AmountUSD ks) \<and>
      TpBalanceHoldAmount plan' = TpBalanceHoldAmount plan \<and>
      rem' = foldl fsub rem (map AmountUSD ks)"
proof (induction as arbitrary: rem plan)
  case Nil
  then show ?case by (auto intro: ca_done)
next
  case (Cons a as)
  show ?case
  proof (cases "held a")
    case False
    then have "capture_loop as (rem, plan) = (rem', plan')" using Cons.prems by simp
    from Cons.IH [OF this] show ?thesis by (blast intro: ca_skip)
  next
    case True
    let ?kept = "fmin (AmountUSD a) rem"
    let ?ks = "if flt f0 ?kept then [CloneBillingAllocation a ?kept] else []"
    let ?rs = "if flt taskCostEpsilon (fsub (AmountUSD a) ?kept)
      then [CloneBillingAllocation a (fsub (AmountUSD a) ?kept)] else []"
    let ?rem = "if flt f0 ?kept then fsub rem ?kept else rem"
    let ?plan = "release_rest a ?kept (if flt f0 ?kept then keep (CloneBillingAllocation a ?kept) ?kept plan else plan)"
    have "capture_loop as (?rem, ?plan) = (rem', plan')"
      using Cons.prems True by (simp add: Let_def split: if_splits)
    from Cons.IH [OF this] obtain ks rs where
      IH: "BillingAllocations plan' = BillingAllocations ?plan @ ks"
        "SubscriptionReleases plan' = SubscriptionReleases ?plan @ rs" "captured as ks rs"
        "SubscriptionAmountUSD plan' = foldl fadd (SubscriptionAmountUSD ?plan) (map AmountUSD ks)"
        "TpBalanceHoldAmount plan' = TpBalanceHoldAmount ?plan" "rem' = foldl fsub ?rem (map AmountUSD ks)"
      by blast
    have "captured (a # as) (?ks @ ks) (?rs @ rs)"
      by (rule ca_hold [OF True IH(3)]) (auto dest: fmin_pos_le)
    then show ?thesis using IH
      by (intro exI [of _ "?ks @ ks"] exI [of _ "?rs @ rs"]) simp
  qed
qed

lemma base_capture_loop_captured:
  "base_capture_loop scale as (rem, plan) = (rem', plan') \<Longrightarrow>
    \<exists>ks rs. BillingAllocations plan' = BillingAllocations plan @ ks \<and>
      SubscriptionReleases plan' = SubscriptionReleases plan @ rs \<and> captured as ks rs \<and>
      SubscriptionAmountUSD plan' = foldl fadd (SubscriptionAmountUSD plan) (map AmountUSD ks) \<and>
      TpBalanceHoldAmount plan' = TpBalanceHoldAmount plan"
proof (induction as arbitrary: rem plan)
  case Nil
  then show ?case by (auto intro: ca_done)
next
  case (Cons a as)
  let ?rate = "fmul (RateMultiplier a) scale"
  show ?case
  proof (cases "held a \<and> \<not> fle ?rate f0")
    case False
    then have "base_capture_loop scale as (rem, plan) = (rem', plan')"
      using Cons.prems by (auto simp: Let_def split: if_splits)
    from Cons.IH [OF this] show ?thesis by (blast intro: ca_skip)
  next
    case True
    let ?kept = "fmin (AmountUSD a) (fmul rem ?rate)"
    let ?k = "(CloneBillingAllocation a ?kept)\<lparr>AllocBaseAmountUSD := fdiv ?kept ?rate, RateMultiplier := ?rate\<rparr>"
    let ?ks = "if flt f0 ?kept then [?k] else []"
    let ?rs = "if flt taskCostEpsilon (fsub (AmountUSD a) ?kept)
      then [CloneBillingAllocation a (fsub (AmountUSD a) ?kept)] else []"
    let ?rem = "if flt f0 ?kept then fsub rem (fdiv ?kept ?rate) else rem"
    let ?plan = "release_rest a ?kept (if flt f0 ?kept then keep ?k ?kept plan else plan)"
    have "base_capture_loop scale as (?rem, ?plan) = (rem', plan')"
      using Cons.prems True by (simp add: Let_def split: if_splits)
    from Cons.IH [OF this] obtain ks rs where
      IH: "BillingAllocations plan' = BillingAllocations ?plan @ ks"
        "SubscriptionReleases plan' = SubscriptionReleases ?plan @ rs" "captured as ks rs"
        "SubscriptionAmountUSD plan' = foldl fadd (SubscriptionAmountUSD ?plan) (map AmountUSD ks)"
        "TpBalanceHoldAmount plan' = TpBalanceHoldAmount ?plan"
      by blast
    have "captured (a # as) (?ks @ ks) (?rs @ rs)"
      by (rule ca_hold [OF conjunct1 [OF True] IH(3)]) (auto dest: fmin_pos_le)
    then show ?thesis using IH
      by (intro exI [of _ "?ks @ ks"] exI [of _ "?rs @ rs"]) simp
  qed
qed

section \<open>Properties\<close>

text \<open>
  an accepted capture keeps, in the order of the recorded holds, at most one
  part of each hold and no more than that hold, returns at most one release of
  it, and charges the rest to the balance within the effective balance hold; the
  totals are those sums.
\<close>

theorem capture_within_holds:
  assumes "PlanTaskCapture (Some c) = Ok plan"
  shows "\<exists>ks. captured (SubscriptionHoldAllocations c) ks (SubscriptionReleases plan) \<and>
    SubscriptionAmountUSD plan = foldl fadd f0 (map AmountUSD ks) \<and>
    ActualAmountUSD plan = fadd (SubscriptionAmountUSD plan) (BalanceAmountUSD plan) \<and>
    (if flt f0 (BalanceAmountUSD plan)
     then (\<exists>b. BillingAllocations plan = ks @ [b] \<and> AllocType b = BillingAllocationTypeBalance \<and>
             AmountUSD b = BalanceAmountUSD plan) \<and>
          fle (BalanceAmountUSD plan) (EffectiveTaskBalanceHoldAmount (Some c))
     else BillingAllocations plan = ks)"
proof (cases "2 \<le> PricingSnapshotVersion c \<and> flt f0 (TfBaseAmountUSD c)")
  case True
  let ?hold = "EffectiveTaskBalanceHoldAmount (Some c)" and ?scale = "fmax (SettlementRateScale c) f0"
  obtain rem p where l: "base_capture_loop ?scale (SubscriptionHoldAllocations c)
      (fmax (ActualBaseAmountUSD c) f0, empty_capture\<lparr>TpBalanceHoldAmount := ?hold\<rparr>) = (rem, p)"
    by fastforce
  from base_capture_loop_captured [OF l] obtain ks rs where k: "BillingAllocations p = ks"
    "SubscriptionReleases p = rs" "captured (SubscriptionHoldAllocations c) ks rs"
    "SubscriptionAmountUSD p = foldl fadd f0 (map AmountUSD ks)" "TpBalanceHoldAmount p = ?hold"
    by (auto simp: empty_capture_def)
  show ?thesis using assms True l k fmin_pos_le
    by (intro exI [of _ ks])
       (auto simp: PlanTaskCapture_def planTaskBaseAmountCapture_def balance_allocation_def Let_def split: if_splits)
next
  case False
  obtain rem p where l: "capture_loop (SubscriptionHoldAllocations c) (fmax (ActualAmount c) f0, empty_capture) = (rem, p)"
    by fastforce
  from capture_loop_captured [OF l] obtain ks rs where k: "BillingAllocations p = ks"
    "SubscriptionReleases p = rs" "captured (SubscriptionHoldAllocations c) ks rs"
    "SubscriptionAmountUSD p = foldl fadd f0 (map AmountUSD ks)"
    by (auto simp: empty_capture_def)
  show ?thesis using assms False l k fmin_pos_le
    by (intro exI [of _ ks])
       (auto simp: PlanTaskCapture_def balance_allocation_def Let_def split: if_splits)
qed

definition sample_task :: TaskFundsCommand where
  "sample_task = \<lparr>TfRequestID = ''r'', TfRequestFingerprint = ''f'', TfAPIKeyBillingMode = ''auto'',
     TfPreferredSubscriptionID = None,
     Task = \<lparr>Scope = ''batch_image'', TaskID = ''t'', ReserveRequestID = ''r0''\<rparr>,
     HoldAmount = Fin 12, ActualAmount = Fin 8, PricingSnapshotVersion = 1, TfBaseAmountUSD = f0,
     ActualBaseAmountUSD = f0, TfBalanceRateMultiplier = Fin 1, SettlementRateScale = Fin 1,
     BalanceHoldAmount = Fin 4, SubscriptionHoldAllocations = [sample_allocation]\<rparr>"

definition sample_capture :: TaskCapturePlan where
  "sample_capture = \<lparr>TpBalanceHoldAmount = Fin 4, ActualAmountUSD = Fin 8, SubscriptionAmountUSD = Fin 6,
     BalanceAmountUSD = Fin 2,
     BillingAllocations = [sample_allocation, balance_allocation (Fin 2) f0 f0], SubscriptionReleases = []\<rparr>"

lemma epsilon_not_less [simp]: "flt taskCostEpsilon (Fin (- x)) = False" if "0 \<le> x"
proof -
  have "fle (Fin (- x)) f0" using that by simp
  then have "fle (Fin (- x)) taskCostEpsilon" using epsilon_pos(1) fle_trans by blast
  then show ?thesis using fle_flt_trans flt_irrefl by blast
qed

lemma epsilon_zero [simp]: "flt taskCostEpsilon f0 = False"
  using epsilon_not_less [of 0] by simp

lemma rnd_neg_numeral: "(numeral k :: int) \<le> 2 ^ 53 \<Longrightarrow> rnd (- numeral k) = Fin (- numeral k)"
  using rnd_of_int [of "- numeral k"] by simp

lemma sample_capture_run: "PlanTaskCapture (Some sample_task) = Ok sample_capture"
  by (simp add: PlanTaskCapture_def sample_task_def sample_allocation_def sample_capture_def
      empty_capture_def EffectiveTaskBalanceHoldAmount_def held_def keep_def release_rest_def
      CloneBillingAllocation_def balance_allocation_def fmin_def fmax_def fsub_Fin rnd_numeral
      rnd_neg_numeral Let_def)

theorem capture_within_holds_witness:
  "\<exists>ks. captured [sample_allocation] ks [] \<and> Fin 6 = foldl fadd f0 (map AmountUSD ks)"
  using capture_within_holds [OF sample_capture_run]
  by (auto simp: sample_task_def sample_capture_def)

text \<open>
  Monetary capture (no versioned base amount): the balance pays the least of
  the charge left after the kept holds and the effective hold, and the plan is
  rejected exactly when that rest exceeds the hold by more than the tolerance.
\<close>

theorem capture_balance_part:
  assumes "\<not> (2 \<le> PricingSnapshotVersion c \<and> flt f0 (TfBaseAmountUSD c))"
  shows "\<exists>ks rs rest. captured (SubscriptionHoldAllocations c) ks rs \<and>
    rest = foldl fsub (fmax (ActualAmount c) f0) (map AmountUSD ks) \<and>
    (if flt taskCostEpsilon (fsub rest (EffectiveTaskBalanceHoldAmount (Some c)))
     then PlanTaskCapture (Some c) = Err ErrTaskSettlementCostExceedsHold
     else \<exists>plan. PlanTaskCapture (Some c) = Ok plan \<and> SubscriptionReleases plan = rs \<and>
       BalanceAmountUSD plan = fmin rest (EffectiveTaskBalanceHoldAmount (Some c)))"
proof -
  obtain rem p where l: "capture_loop (SubscriptionHoldAllocations c) (fmax (ActualAmount c) f0, empty_capture) = (rem, p)"
    by fastforce
  from capture_loop_captured [OF l] obtain ks rs where k:
    "SubscriptionReleases p = rs" "captured (SubscriptionHoldAllocations c) ks rs"
    "rem = foldl fsub (fmax (ActualAmount c) f0) (map AmountUSD ks)"
    by (auto simp: empty_capture_def)
  show ?thesis using assms l k
    by (intro exI [of _ ks] exI [of _ rs] exI [of _ rem]) (auto simp: PlanTaskCapture_def Let_def)
qed

text \<open>
  base-amount capture with a settlement scale of zero (or less) neither keeps
  nor releases anything: the plan is empty although the reservation's subscription
  holds are still recorded.
\<close>

theorem zero_scale_leaves_holds:
  assumes "2 \<le> PricingSnapshotVersion c" and "flt f0 (TfBaseAmountUSD c)"
    and "fle (SettlementRateScale c) f0" and "finite_amount (ActualBaseAmountUSD c)"
    and "finite_amount (TfBalanceRateMultiplier c)"
    and "\<forall>a \<in> set (SubscriptionHoldAllocations c). \<exists>r. RateMultiplier a = Fin r"
    and "finite_amount (EffectiveTaskBalanceHoldAmount (Some c))"
  shows "\<exists>plan. PlanTaskCapture (Some c) = Ok plan \<and> BillingAllocations plan = [] \<and>
    SubscriptionReleases plan = [] \<and> BalanceAmountUSD plan = f0"
proof -
  have scale: "fmax (SettlementRateScale c) f0 = f0"
    using assms(3) by (cases "SettlementRateScale c") (auto simp: fmax_def)
  have loop: "base_capture_loop f0 as st = st" if "\<forall>a \<in> set as. \<exists>r. RateMultiplier a = Fin r" for as st
    using that by (induction as arbitrary: st) (auto simp: fmul_def split: prod.splits)
  have "\<exists>b. fmax (ActualBaseAmountUSD c) f0 = Fin b" "\<exists>r. fmax (TfBalanceRateMultiplier c) f0 = Fin r"
    using assms(4,5) by (auto simp: fmax_def finite_amount_def)
  then obtain b r where b: "fmax (ActualBaseAmountUSD c) f0 = Fin b" and r: "fmax (TfBalanceRateMultiplier c) f0 = Fin r"
    by blast
  obtain h where h: "EffectiveTaskBalanceHoldAmount (Some c) = Fin h" "is_f64 (Fin h)"
    using assms(7) by (auto simp: finite_amount_def)
  have hold: "0 \<le> h"
    using h(1) by (auto simp: EffectiveTaskBalanceHoldAmount_def fmax_def split: if_splits)
  have nb: "is_f64 (Fin (- h))"
    using h(2) by (auto simp: is_f64_def rnd_def round53_def Let_def round_pos_nonpos split: if_splits)
  show ?thesis
    using assms(1,2) hold nb loop [OF assms(6)]
    by (auto simp: PlanTaskCapture_def planTaskBaseAmountCapture_def scale b r h(1) fmul_def fsub_Fin
        fmin_def empty_capture_def is_f64_def Let_def)
qed


end
