(* ===== verification/Connection.thy ===== *)
theory Connection
  imports Prelude
begin

text \<open>
  A shared server (Redis, or the database) as one process sees it through its
  client.  Every command may be preceded by other clients' work and by the
  passing of time, and a call may fail before, during or after its commands have
  run.
\<close>

section \<open>Connections and calls\<close>

text \<open>
  Before each command the server may have changed (other clients, time), and a
  call of n commands may be answered or fail after its first k commands ran.
  A connection holds the changes and the faults still to come; when the lists
  are used up nothing else happens.
\<close>

datatype fault = Answered | Failed nat

record 'r conn =
  server :: 'r
  changes :: "('r \<Rightarrow> 'r) list"
  faults :: "fault list"

fun next_change :: "'r conn \<Rightarrow> 'r conn" where
  "next_change c = (case changes c of [] \<Rightarrow> c
     | g # gs \<Rightarrow> c\<lparr>server := g (server c), changes := gs\<rparr>)"

fun run_commands :: "('r \<Rightarrow> 'a \<times> 'r) list \<Rightarrow> 'r conn \<Rightarrow> 'a list \<times> 'r conn" where
  "run_commands [] c = ([], c)"
| "run_commands (f # fs) c =
     (let c = next_change c; (a, s) = f (server c);
          (as, c) = run_commands fs (c\<lparr>server := s\<rparr>) in (a # as, c))"

type_synonym call_error = string

definition exec :: "('r \<Rightarrow> 'a \<times> 'r) list \<Rightarrow> 'r conn \<Rightarrow> (call_error, 'a list) result \<times> 'r conn" where
  "exec fs c =
     (case faults c of
        [] \<Rightarrow> (case run_commands fs c of (as, c) \<Rightarrow> (Ok as, c))
      | Answered # r \<Rightarrow> (case run_commands fs (c\<lparr>faults := r\<rparr>) of (as, c) \<Rightarrow> (Ok as, c))
      | Failed k # r \<Rightarrow> (case run_commands (take k fs) (c\<lparr>faults := r\<rparr>) of (as, c) \<Rightarrow> (Err ''call failed'', c)))"

text \<open>A call of one command or script.\<close>

definition call :: "('r \<Rightarrow> 'a \<times> 'r) \<Rightarrow> 'r conn \<Rightarrow> (call_error, 'a) result \<times> 'r conn" where
  "call f c = (case exec [f] c of
      (Inl e, c) \<Rightarrow> (Err e, c)
    | (Inr as, c) \<Rightarrow> (Ok (hd as), c))"

definition quiet_conn :: "'r \<Rightarrow> 'r conn" where
  "quiet_conn s = \<lparr>server = s, changes = [], faults = []\<rparr>"

definition reads :: "('r \<Rightarrow> 'a) \<Rightarrow> 'r \<Rightarrow> 'a \<times> 'r" where
  "reads f s = (f s, s)"

definition writes :: "('r \<Rightarrow> 'r) \<Rightarrow> 'a \<Rightarrow> 'r \<Rightarrow> 'a \<times> 'r" where
  "writes f a s = (a, f s)"

lemma call_quiet [simp]: "call f (quiet_conn s) = (case f s of (a, s') \<Rightarrow> (Ok a, quiet_conn s'))"
  by (simp add: call_def exec_def quiet_conn_def split: prod.splits)

lemma quiet_eq [simp]: "quiet_conn a = quiet_conn b \<longleftrightarrow> a = b" "server (quiet_conn a) = a"
  by (simp_all add: quiet_conn_def)

text \<open>An answered call ran the command on some state of the server, and left its result.\<close>

lemma call_Ok:
  assumes "call f c = (Ok a, c')"
  obtains s where "f s = (a, server c')"
  using assms by (auto simp: call_def exec_def Let_def split: list.splits fault.splits prod.splits sum.splits)

end
