(* ===== verification/Database.thy ===== *)
theory Database
  imports Float64
begin

text \<open>
  What the stores share: errors, transactions as state passing that keeps or undoes
  its effect, numeric columns, and UPDATE statements over the rows of a table.
\<close>

section \<open>Errors\<close>

text \<open>
  An application error with its reason, a plain error with its fixed text, or an
  error wrapping another (fmt.Errorf with a cause).  Values printed into an error
  text are left out.
\<close>

datatype perror =
    App string string
  | Plain string
  | RowNotFound
  | RowNotSingular
  | ErrOrderNotFound
  | ErrProviderOrderNotFound
  | Wrap string perror

fun unwraps_to :: "perror \<Rightarrow> perror \<Rightarrow> bool" where
  "unwraps_to (Wrap m e) x = (Wrap m e = x \<or> unwraps_to e x)"
| "unwraps_to e x = (e = x)"

section \<open>Transactions\<close>

text \<open>A body threads the state; the transaction around it commits or undoes everything.\<close>

type_synonym ('s, 'a) trans = "'s \<Rightarrow> (perror, 'a) result \<times> 's"

definition tx_then :: "('s, 'a) trans \<Rightarrow> ('a \<Rightarrow> ('s, 'b) trans) \<Rightarrow> ('s, 'b) trans" where
  "tx_then m k s = (case m s of (Inl e, s) \<Rightarrow> (Err e, s) | (Inr a, s) \<Rightarrow> k a s)"

definition tx_return :: "(perror, 'a) result \<Rightarrow> ('s, 'a) trans" where
  "tx_return r s = (r, s)"

definition tx_check :: "bool \<Rightarrow> perror \<Rightarrow> ('s, unit) trans" where
  "tx_check b e s = (if b then Ok () else Err e, s)"

text \<open>Begin, the body, and commit; an error rolls everything back.\<close>

definition atomically :: "('s, 'a) trans \<Rightarrow> ('s, 'a) trans" where
  "atomically m s = (case m s of (Inl e, _) \<Rightarrow> (Err e, s) | (Inr a, s') \<Rightarrow> (Ok a, s'))"

lemma tx_then_Ok: "tx_then m k s = (Ok b, s') \<longleftrightarrow> (\<exists>a s1. m s = (Ok a, s1) \<and> k a s1 = (Ok b, s'))"
  by (cases "m s"; cases "fst (m s)") (auto simp: tx_then_def)

lemma tx_then_Err: "tx_then m k s = (Err e, s') \<longleftrightarrow> m s = (Err e, s') \<or> (\<exists>a s1. m s = (Ok a, s1) \<and> k a s1 = (Err e, s'))"
  by (cases "m s"; cases "fst (m s)") (auto simp: tx_then_def)

lemma atomically_Ok: "atomically m s = (Ok a, s') \<longleftrightarrow> m s = (Ok a, s')"
  by (cases "m s"; cases "fst (m s)") (auto simp: atomically_def)

lemma atomically_Err: "atomically m s = (Err e, s') \<longleftrightarrow> (\<exists>t. m s = (Err e, t)) \<and> s' = s"
  by (cases "m s"; cases "fst (m s)") (auto simp: atomically_def)

lemma tx_return_simp [simp]: "tx_return r s = (r, s)"
  by (simp add: tx_return_def)

section \<open>Numeric columns\<close>

text \<open>Storing into numeric(20,k): k decimals, rounded half away from zero, and no more than 20 digits.\<close>

definition numeric :: "nat \<Rightarrow> rat \<Rightarrow> rat option" where
  "numeric k x = (let c = of_int (half_away (x * 10 ^ k)) / 10 ^ k in if \<bar>c\<bar> < 10 ^ (20 - k) then Some c else None)"

lemma numeric_scaled: "scaled k x \<Longrightarrow> \<bar>x\<bar> < 10 ^ (20 - k) \<Longrightarrow> numeric k x = Some x"
  by (simp only: numeric_def Let_def rnd_half_away if_True)

lemma half_away_nonneg: "0 \<le> x \<Longrightarrow> 0 \<le> half_away x"
  by (simp add: half_away_def)

lemma half_away_mono: "x \<le> y \<Longrightarrow> half_away x \<le> half_away y"
proof -
  assume le: "x \<le> y"
  have "- \<lfloor>1 / 2 - x\<rfloor> \<le> \<lfloor>y + 1 / 2\<rfloor>" if "x < 0" "0 \<le> y"
  proof -
    have "0 \<le> \<lfloor>1 / 2 - x\<rfloor>" "0 \<le> \<lfloor>y + 1 / 2\<rfloor>" using that by simp_all
    then show ?thesis by linarith
  qed
  moreover have "\<lfloor>1 / 2 - y\<rfloor> \<le> \<lfloor>1 / 2 - x\<rfloor>" "\<lfloor>x + 1 / 2\<rfloor> \<le> \<lfloor>y + 1 / 2\<rfloor>" using le by (simp_all add: floor_mono)
  ultimately show ?thesis using le by (auto simp: half_away_def)
qed

lemma numeric_nonneg: "numeric k x = Some c \<Longrightarrow> 0 \<le> x \<Longrightarrow> 0 \<le> c"
  using half_away_nonneg [of "x * 10 ^ k"] by (auto simp: numeric_def Let_def split: if_splits)

lemma numeric_bound: "numeric k x = Some c \<Longrightarrow> scaled k c \<and> \<bar>c\<bar> < 10 ^ (20 - k)"
  unfolding numeric_def Let_def by (auto simp: scaled_frac split: if_splits simp del: power_numeral)

text \<open>Rounding does not carry a value past a bound that the column itself holds.\<close>

lemma numeric_le: "numeric k x = Some c \<Longrightarrow> x \<le> y \<Longrightarrow> scaled k y \<Longrightarrow> c \<le> y"
proof -
  assume n: "numeric k x = Some c" and le: "x \<le> y" "scaled k y"
  have c: "c = of_int (half_away (x * 10 ^ k)) / 10 ^ k" using n by (simp add: numeric_def Let_def split: if_splits)
  have "half_away (x * 10 ^ k) \<le> half_away (y * 10 ^ k)" using le(1) by (intro half_away_mono) simp
  then have "c \<le> of_int (half_away (y * 10 ^ k)) / 10 ^ k" unfolding c by (simp add: divide_right_mono)
  then show "c \<le> y" by (simp only: rnd_half_away [OF le(2)])
qed

lemma scaled_diff: "scaled m a \<Longrightarrow> scaled m b \<Longrightarrow> scaled m (a - b)"
proof -
  assume "scaled m a" "scaled m b"
  then have "of_int \<lfloor>a * 10 ^ m\<rfloor> = a * 10 ^ m" "of_int \<lfloor>b * 10 ^ m\<rfloor> = b * 10 ^ m" unfolding scaled_def by blast+
  then have "(a - b) * 10 ^ m = of_int (\<lfloor>a * 10 ^ m\<rfloor> - \<lfloor>b * 10 ^ m\<rfloor>)" by (simp only: of_int_diff left_diff_distrib)
  then show ?thesis by (simp only: scaled_def floor_of_int)
qed

lemma scaled_0 [simp]: "scaled m 0"
  by (simp add: scaled_def)

lemma scaled_add: "scaled m a \<Longrightarrow> scaled m b \<Longrightarrow> scaled m (a + b)"
  using scaled_diff [of m a "0 - b"] scaled_diff [of m 0 b] by simp

lemma numeric_exact: "scaled k x \<Longrightarrow> numeric k x = Some c \<Longrightarrow> c = x"
  unfolding numeric_def Let_def by (auto simp only: rnd_half_away split: if_splits)

lemma numeric_again: "numeric k x = Some c \<Longrightarrow> numeric k c = Some c"
  using numeric_bound numeric_scaled by blast

lemma scaled_uminus: "scaled m a \<Longrightarrow> scaled m (- a)"
  using scaled_diff [of m 0 a] by simp

text \<open>A float argument enters a statement as its decimal text.\<close>

definition amount_arg :: "f64 \<Rightarrow> (rat \<Rightarrow> ('s, 'a) trans) \<Rightarrow> ('s, 'a) trans" where
  "amount_arg v k us = (case v of Fin x \<Rightarrow> k (decimal_text x) us | _ \<Rightarrow> (Err (Plain ''not a finite amount''), us))"

lemma amount_arg_precise: "precise m j a \<Longrightarrow> m < 400 \<Longrightarrow> amount_arg (rnd a) k us = k a us"
  by (simp add: amount_arg_def precise_Fin decimal_text_precise)

lemma amount_arg_Ok: "amount_arg v k s = (Ok r, s') \<Longrightarrow> \<exists>x. v = Fin x \<and> k (decimal_text x) s = (Ok r, s')"
  by (cases v) (auto simp: amount_arg_def)

section \<open>Decimal texts\<close>

text \<open>A float nearest to a decimal of m places prints with at most m places, and printing keeps the order.\<close>

lemma rnd_between_Fin: "rnd c = Fin x \<Longrightarrow> c \<le> y \<Longrightarrow> y \<le> x \<Longrightarrow> rnd x = Fin x \<Longrightarrow> rnd y = Fin x"
  using rnd_mono [of c y] rnd_mono [of y x] by (cases "rnd y") auto

lemma rnd_between_Fin': "rnd c = Fin x \<Longrightarrow> y \<le> c \<Longrightarrow> x \<le> y \<Longrightarrow> rnd x = Fin x \<Longrightarrow> rnd y = Fin x"
  using rnd_mono [of y c] rnd_mono [of x y] by (cases "rnd y") auto

lemma decimal_from_scaled:
  assumes "scaled m c" "rnd c = Fin x" "rnd x = Fin x" "k \<le> m" "m < k + n"
  shows "scaled m (decimal_from n k x)"
  using assms(4,5)
proof (induction n arbitrary: k)
  case (Suc n)
  let ?lo = "of_int \<lfloor>x * 10 ^ k\<rfloor> / 10 ^ k :: rat" and ?hi = "of_int (\<lfloor>x * 10 ^ k\<rfloor> + 1) / 10 ^ k :: rat"
  have s: "scaled m ?lo" "scaled m ?hi" using scaled_mono [OF scaled_frac Suc.prems(1)] by blast+
  show ?case
  proof (cases "k = m")
    case False
    then have "scaled m (decimal_from n (Suc k) x)" using Suc by simp
    then show ?thesis using s by (simp add: Let_def del: of_int_add)
  next
    case True
    have c: "c * 10 ^ m = of_int \<lfloor>c * 10 ^ m\<rfloor>" using assms(1) unfolding scaled_def by (rule sym)
    have "rnd ?lo = Fin x \<or> rnd ?hi = Fin x"
    proof (cases "c \<le> x")
      case le: True
      then have "\<lfloor>c * 10 ^ m\<rfloor> \<le> \<lfloor>x * 10 ^ m\<rfloor>" by (simp add: floor_mono)
      then have "c * 10 ^ m \<le> of_int \<lfloor>x * 10 ^ m\<rfloor>" using c by (metis of_int_le_iff)
      then have "c \<le> ?lo" "?lo \<le> x" using True by (simp_all add: le_divide_eq divide_le_eq)
      then show ?thesis using rnd_between_Fin [OF assms(2) _ _ assms(3)] by blast
    next
      case gt: False
      then have "x * 10 ^ m < of_int \<lfloor>c * 10 ^ m\<rfloor>" using c by simp
      then have "\<lfloor>x * 10 ^ m\<rfloor> + 1 \<le> \<lfloor>c * 10 ^ m\<rfloor>" by linarith
      then have "of_int (\<lfloor>x * 10 ^ m\<rfloor> + 1) \<le> c * 10 ^ m" using c by (metis of_int_le_iff)
      moreover have "x * 10 ^ m \<le> of_int (\<lfloor>x * 10 ^ m\<rfloor> + 1)" by linarith
      ultimately have "?hi \<le> c" "x \<le> ?hi" using True by (simp_all only: divide_le_eq le_divide_eq zero_less_power zero_less_numeral if_True)
      then show ?thesis using rnd_between_Fin' [OF assms(2) _ _ assms(3)] by blast
    qed
    then show ?thesis using s True by (auto simp: Let_def simp del: of_int_add)
  qed
qed simp

lemma decimal_text_scaled: "scaled m c \<Longrightarrow> rnd c = Fin x \<Longrightarrow> m < 400 \<Longrightarrow> scaled m (decimal_text x)"
proof -
  assume a: "scaled m c" "rnd c = Fin x" "m < 400"
  have "rnd x = Fin x" using rnd_is_f64 [of c] a(2) by (simp add: is_f64_def)
  then show ?thesis unfolding decimal_text_def using a by (intro decimal_from_scaled [of m c x 0 400]) simp_all
qed

lemma half_away_f64: "is_f64 (Fin y) \<Longrightarrow> rnd (of_int (half_away y)) = Fin (of_int (half_away y))"
proof -
  assume y: "is_f64 (Fin y)"
  show ?thesis
  proof (cases "\<bar>y\<bar> \<le> 2 ^ 53")
    case True
    have "half_away y \<le> half_away (of_int (2 ^ 53))" "half_away (of_int (- (2 ^ 53))) \<le> half_away y"
      using True by (intro half_away_mono; simp add: abs_le_iff)+
    then have "\<bar>half_away y\<bar> \<le> 2 ^ 53" by (simp only: half_away_int)
    then show ?thesis by (rule rnd_of_int)
  next
    case False
    have "representable y" using y representable_round53 [of y] by (simp add: is_f64_def rnd_def Let_def split: if_splits)
    then obtain n e where n: "y = of_int n * p2 e" "\<bar>n\<bar> \<le> 2 ^ 53" unfolding representable_def by blast
    have "0 \<le> e"
    proof (rule ccontr)
      assume "\<not> 0 \<le> e"
      then have "p2 e \<le> 1" using p2_mono [of e 0] by simp
      then have "\<bar>of_int n\<bar> * p2 e \<le> \<bar>of_int n\<bar> * 1" by (intro mult_left_mono) simp_all
      then have "\<bar>y\<bar> \<le> of_int \<bar>n\<bar>" using n(1) by (simp add: abs_mult)
      moreover have "(of_int \<bar>n\<bar> :: rat) \<le> of_int (2 ^ 53)" using n(2) by (simp only: of_int_le_iff)
      ultimately show False using False by simp
    qed
    then have "y = of_int (n * 2 ^ nat e)" using n(1) by (simp add: p2_nat)
    then have "of_int (half_away y) = y" by (metis half_away_int)
    then show ?thesis using y by (simp add: is_f64_def)
  qed
qed

lemma rnd_decimal_from: "rnd x = Fin x \<Longrightarrow> rnd (decimal_from n k x) = Fin x"
  by (induction n arbitrary: k) (auto simp: Let_def simp del: of_int_add)

lemma decimal_text_le:
  assumes "rnd x = Fin x" "rnd y = Fin y" "x \<le> y"
  shows "decimal_text x \<le> decimal_text y"
proof (rule ccontr)
  assume "\<not> decimal_text x \<le> decimal_text y"
  then have "fle (rnd (decimal_text y)) (rnd (decimal_text x))" "x \<noteq> y" by (auto intro: rnd_mono)
  then show False using assms rnd_decimal_from [OF assms(1)] rnd_decimal_from [OF assms(2)] by (simp add: decimal_text_def)
qed

lemma rnd_text: "rnd x = Fin x \<Longrightarrow> rnd (decimal_text x) = Fin x"
  by (simp add: decimal_text_def rnd_decimal_from)

lemma fle_infinite [simp]: "fle NInf (rnd z)" "fle (rnd z) PInf"
  using rnd_not_NaN [of z] by (cases "rnd z"; simp)+

section \<open>Tables\<close>

fun rewrite :: "('r \<Rightarrow> bool) \<Rightarrow> ('r \<Rightarrow> 'r option) \<Rightarrow> 'r list \<Rightarrow> 'r list option" where
  "rewrite guard f [] = Some []"
| "rewrite guard f (r # rs) =
     (case if guard r then f r else Some r of
        None \<Rightarrow> None
      | Some r' \<Rightarrow> (case rewrite guard f rs of None \<Rightarrow> None | Some rs' \<Rightarrow> Some (r' # rs')))"

text \<open>UPDATE ... WHERE guard RETURNING: the matched rows, before and after.\<close>

definition sql_update ::
  "('r \<Rightarrow> bool) \<Rightarrow> ('r \<Rightarrow> 'r option) \<Rightarrow> ('r list, ('r \<times> 'r) list) trans" where
  "sql_update guard f us =
     (case rewrite guard f us of
        None \<Rightarrow> (Err (Plain ''numeric field overflow''), us)
      | Some us' \<Rightarrow> (Ok (filter (\<lambda>m. guard (fst m)) (zip us us')), us'))"

lemma rewrite_idle: "(\<forall>r \<in> set us. \<not> g r) \<Longrightarrow> rewrite g f us = Some us"
  by (induction us) auto

lemma rewrite_all:
  "rewrite g f us = Some us' \<Longrightarrow> \<forall>r \<in> set us. P r \<Longrightarrow> (\<And>r r'. P r \<Longrightarrow> f r = Some r' \<Longrightarrow> g r \<Longrightarrow> P r') \<Longrightarrow>
    \<forall>r' \<in> set us'. P r'"
  by (induction us arbitrary: us') (auto split: if_splits option.splits)

lemma sql_update_none:
  assumes "\<forall>x \<in> set us. \<not> g x" shows "sql_update g f us = (Ok [], us)"
proof -
  have "filter (\<lambda>m. g (fst m)) (zip us us) = []" using assms by (auto simp: filter_empty_conv dest: set_zip_leftD)
  then show ?thesis using rewrite_idle [OF assms] by (simp add: sql_update_def)
qed

text \<open>The row of a unique key, and the table with it replaced.\<close>

definition row_at :: "('r \<Rightarrow> 'k) \<Rightarrow> 'k \<Rightarrow> 'r list \<Rightarrow> 'r option" where
  "row_at key i us = find (\<lambda>r. key r = i) us"

definition put_row :: "('r \<Rightarrow> 'k) \<Rightarrow> 'k \<Rightarrow> 'r \<Rightarrow> 'r list \<Rightarrow> 'r list" where
  "put_row key i r us = map (\<lambda>x. if key x = i then r else x) us"

lemma row_at_SomeD: "row_at key i us = Some r \<Longrightarrow> r \<in> set us \<and> key r = i"
  by (auto simp: row_at_def find_Some_iff in_set_conv_nth)

lemma row_at_None: "row_at key i us = None \<longleftrightarrow> (\<forall>r \<in> set us. key r \<noteq> i)"
  by (auto simp: row_at_def find_None_iff)

lemma row_at_unique: "distinct (map key us) \<Longrightarrow> x \<in> set us \<Longrightarrow> key x = i \<Longrightarrow> row_at key i us = Some x"
  by (induction us) (auto simp: row_at_def)

lemma row_at_put [simp]:
  "row_at key i us = Some r \<Longrightarrow> key r' = i \<Longrightarrow> row_at key i (put_row key i r' us) = Some r'"
  "i \<noteq> k \<Longrightarrow> key r' = i \<Longrightarrow> row_at key k (put_row key i r' us) = row_at key k us"
  by (induction us) (auto simp: row_at_def put_row_def split: if_splits)

lemma key_put [simp]: "key r' = i \<Longrightarrow> map key (put_row key i r' us) = map key us"
  by (induction us) (auto simp: put_row_def)

lemma put_row_set: "x \<in> set (put_row key i r us) \<Longrightarrow> x = r \<or> x \<in> set us"
  by (auto simp: put_row_def)

lemma put_row_same: "distinct (map key us) \<Longrightarrow> row_at key i us = Some r \<Longrightarrow> put_row key i r us = us"
  unfolding put_row_def by (rule map_idI) (metis row_at_unique option.inject)

lemma put_row_put [simp]: "key r = i \<Longrightarrow> put_row key i r' (put_row key i r us) = put_row key i r' us"
  by (auto simp: put_row_def)

lemma rewrite_one:
  assumes "distinct (map key us)" "row_at key i us = Some r" "\<And>x. g x \<Longrightarrow> key x = i" "g r"
  shows "rewrite g f us = map_option (\<lambda>r'. put_row key i r' us) (f r)"
  using assms(1,2)
proof (induction us)
  case (Cons x us)
  show ?case
  proof (cases "key x = i")
    case True
    then have x: "x = r" using Cons.prems(2) by (simp add: row_at_def)
    have "\<forall>y \<in> set us. key y \<noteq> i" using Cons.prems(1) True by (auto simp: image_iff)
    then have "rewrite g f us = Some us" "put_row key i r' us = us" for r'
      using assms(3) by (auto intro: rewrite_idle simp: put_row_def map_idI)
    then show ?thesis using x True assms(4) by (cases "f r") (auto simp: put_row_def)
  next
    case False
    then have "row_at key i us = Some r" "\<not> g x" using Cons.prems(2) assms(3) by (auto simp: row_at_def)
    then show ?thesis using Cons.IH Cons.prems(1) False by (cases "f r") (auto simp: put_row_def)
  qed
qed (simp add: row_at_def)

lemma zip_put:
  "distinct (map key us) \<Longrightarrow> row_at key i us = Some r \<Longrightarrow> (\<And>x. g x \<Longrightarrow> key x = i) \<Longrightarrow> g r \<Longrightarrow>
    filter (\<lambda>m. g (fst m)) (zip us (put_row key i r' us)) = [(r, r')]"
proof (induction us)
  case (Cons x us)
  show ?case
  proof (cases "key x = i")
    case True
    then have "\<forall>y \<in> set us. key y \<noteq> i" using Cons.prems(1) True by (auto simp: image_iff)
    then have "\<forall>y \<in> set us. \<not> g y" using Cons.prems(3) by blast
    then have "filter (\<lambda>m. g (fst m)) (zip us ws) = []" for ws by (auto simp: filter_empty_conv dest: set_zip_leftD)
    then show ?thesis using True Cons.prems(2,4) by (auto simp: put_row_def row_at_def)
  next
    case False
    then show ?thesis using Cons by (auto simp: put_row_def row_at_def)
  qed
qed (simp add: row_at_def)

lemma sql_update_one:
  assumes "distinct (map key us)" "row_at key i us = Some r" and g: "\<And>x. g x \<Longrightarrow> key x = i" and "g r"
  shows "sql_update g f us = (case f r of None \<Rightarrow> (Err (Plain ''numeric field overflow''), us)
    | Some r' \<Rightarrow> (Ok [(r, r')], put_row key i r' us))"
proof (cases "f r")
  case None
  then show ?thesis using rewrite_one [of key us i r g f, OF assms(1,2) g assms(4)] by (simp add: sql_update_def)
next
  case (Some r')
  then show ?thesis using rewrite_one [of key us i r g f, OF assms(1,2) g assms(4)]
    zip_put [of key us i r g r', OF assms(1,2) g assms(4)] by (simp add: sql_update_def)
qed

lemma row_at_append: "row_at key i (xs @ ys) = (case row_at key i xs of None \<Rightarrow> row_at key i ys | Some r \<Rightarrow> Some r)"
  by (induction xs) (auto simp: row_at_def)

lemma row_at_Cons: "row_at key i (x # xs) = (if key x = i then Some x else row_at key i xs)"
  by (simp add: row_at_def)

lemma row_at_Nil [simp]: "row_at key i [] = None"
  by (simp add: row_at_def)

lemma row_at_perm:
  "distinct (map key xs) \<Longrightarrow> mset xs = mset ys \<Longrightarrow> row_at key i xs = row_at key i ys"
proof -
  assume d: "distinct (map key xs)" and m: "mset xs = mset ys"
  then have "set xs = set ys" "distinct (map key ys)" 
    by (auto dest: mset_eq_setD) (metis mset_map mset_eq_imp_distinct_iff)
  note s = this
  show ?thesis
  proof (cases "row_at key i ys")
    case None
    then have "row_at key i xs = None" using s(1) by (simp add: row_at_None)
    then show ?thesis using None by simp
  next
    case (Some r)
    then have "r \<in> set xs" "key r = i" using s(1) row_at_SomeD [OF Some] by auto
    then show ?thesis using Some row_at_unique [OF d] by simp
  qed
qed


text \<open>The rows an update matched are in the table it leaves.\<close>

lemma updated_row:
  "sql_update g f us = (Ok ms, us') \<Longrightarrow> ms \<noteq> [] \<Longrightarrow> \<exists>r r'. r \<in> set us \<and> g r \<and> f r = Some r' \<and> r' \<in> set us'"
proof -
  assume u: "sql_update g f us = (Ok ms, us')" "ms \<noteq> []"
  have zip: "(r, r') \<in> set (zip us us') \<Longrightarrow> rewrite g f us = Some us' \<Longrightarrow> g r \<Longrightarrow> f r = Some r'" for r r' us us'
    by (induction us arbitrary: us') (auto split: if_splits option.splits)
  from u have r: "rewrite g f us = Some us'" "ms = filter (\<lambda>m. g (fst m)) (zip us us')"
    by (auto simp: sql_update_def split: option.splits)
  from u(2) obtain m where "m \<in> set ms" by (cases ms) auto
  then have "m \<in> set (filter (\<lambda>m. g (fst m)) (zip us us'))" using r(2) by simp
  then have "m \<in> set (zip us us') \<and> g (fst m)" by simp
  then obtain x x' where m: "(x, x') \<in> set (zip us us')" "g x" by (metis fst_conv prod.collapse)
  then show ?thesis using zip [OF m(1) r(1) m(2)] set_zip_leftD [OF m(1)] set_zip_rightD [OF m(1)] by blast
qed


section \<open>What a transaction leaves alone\<close>

definition keeps :: "('s \<Rightarrow> bool) \<Rightarrow> ('s, 'a) trans \<Rightarrow> bool" where
  "keeps P m \<longleftrightarrow> (\<forall>s. P s \<longrightarrow> P (snd (m s)))"

lemma keepsI: "(\<And>s. P s \<Longrightarrow> P (snd (m s))) \<Longrightarrow> keeps P m"
  by (simp add: keeps_def)

lemma keepsD: "keeps P m \<Longrightarrow> P s \<Longrightarrow> m s = (r, s') \<Longrightarrow> P s'"
  unfolding keeps_def by (metis snd_conv)

lemma keepsD': "keeps P m \<Longrightarrow> P s \<Longrightarrow> P (snd (m s))"
  by (simp add: keeps_def)

named_theorems keep_intros

lemma keeps_return [keep_intros]: "keeps P (tx_return r)" "keeps P (tx_check b e)"
  by (simp_all add: keeps_def tx_check_def)

lemma keeps_answer: "keeps P (\<lambda>s. (r s, s))"
  by (simp add: keeps_def)

lemma keeps_then [keep_intros]: "keeps P m \<Longrightarrow> (\<And>a. keeps P (k a)) \<Longrightarrow> keeps P (tx_then m k)"
  by (auto simp: keeps_def tx_then_def split: prod.split sum.split)

lemma keeps_amount [keep_intros]: "(\<And>x. v = Fin x \<Longrightarrow> keeps P (k (decimal_text x))) \<Longrightarrow> keeps P (amount_arg v k)"
  by (cases v) (simp_all add: amount_arg_def keeps_def)

lemma keeps_cases [keep_intros]:
  "(b \<Longrightarrow> keeps P m) \<Longrightarrow> (\<not> b \<Longrightarrow> keeps P m') \<Longrightarrow> keeps P (if b then m else m')"
  "(o' = None \<Longrightarrow> keeps P m) \<Longrightarrow> (\<And>x. o' = Some x \<Longrightarrow> keeps P (f x)) \<Longrightarrow> keeps P (case o' of None \<Rightarrow> m | Some x \<Rightarrow> f x)"
  "(xs = [] \<Longrightarrow> keeps P m) \<Longrightarrow> (\<And>y ys. xs = y # ys \<Longrightarrow> keeps P (g y ys)) \<Longrightarrow> keeps P (case xs of [] \<Rightarrow> m | y # ys \<Rightarrow> g y ys)"
  "(\<And>x y. pr = (x, y) \<Longrightarrow> keeps P (h x y)) \<Longrightarrow> keeps P (case pr of (x, y) \<Rightarrow> h x y)"
  by (simp_all add: keeps_def split: option.split list.split prod.split)

lemma keeps_part:
  assumes "\<And>v. keeps (\<lambda>s. h s = v) m" "m s = (r, s')"
  shows "h s' = h s"
proof -
  have "h (snd (m s)) = h s" by (rule keepsD' [OF assms(1)]) simp
  then show ?thesis using assms(2) by simp
qed

end
