(* ===== verification/Orders.thy ===== *)
theory Orders
  imports GoTime Float64 Connection Database
begin

text \<open>
  Payment orders and their store: the labels of internal/payment/types.go, the
  order of internal/payment/order.go (the fields the confirmation, fulfillment
  and reconciliation code reads or writes), the conditional updates and queries
  of internal/payment/postgres/order_transitions.go and order_lifecycle.go on the
  rows of the table, and the snapshot readers of order_snapshot.go.
\<close>

section \<open>Labels\<close>

definition TypeAlipay :: string where "TypeAlipay = ''alipay''"
definition TypeWxpay :: string where "TypeWxpay = ''wxpay''"
definition TypeStripe :: string where "TypeStripe = ''stripe''"
definition TypeCard :: string where "TypeCard = ''card''"
definition TypeLink :: string where "TypeLink = ''link''"
definition TypeEasyPay :: string where "TypeEasyPay = ''easypay''"
definition TypeAirwallex :: string where "TypeAirwallex = ''airwallex''"

definition OrderStatusPending :: string where "OrderStatusPending = ''PENDING''"
definition OrderStatusProcessing :: string where "OrderStatusProcessing = ''PROCESSING''"
definition OrderStatusPaid :: string where "OrderStatusPaid = ''PAID''"
definition OrderStatusRecharging :: string where "OrderStatusRecharging = ''RECHARGING''"
definition OrderStatusCompleted :: string where "OrderStatusCompleted = ''COMPLETED''"
definition OrderStatusExpired :: string where "OrderStatusExpired = ''EXPIRED''"
definition OrderStatusCancelled :: string where "OrderStatusCancelled = ''CANCELLED''"
definition OrderStatusFailed :: string where "OrderStatusFailed = ''FAILED''"
definition OrderStatusRefundRequested :: string where "OrderStatusRefundRequested = ''REFUND_REQUESTED''"
definition OrderStatusRefunding :: string where "OrderStatusRefunding = ''REFUNDING''"
definition OrderStatusRefundPending :: string where "OrderStatusRefundPending = ''REFUND_PENDING''"
definition OrderStatusPartiallyRefunded :: string where "OrderStatusPartiallyRefunded = ''PARTIALLY_REFUNDED''"
definition OrderStatusRefunded :: string where "OrderStatusRefunded = ''REFUNDED''"
definition OrderStatusRefundFailed :: string where "OrderStatusRefundFailed = ''REFUND_FAILED''"

lemmas statuses = OrderStatusPending_def OrderStatusProcessing_def OrderStatusPaid_def
  OrderStatusRecharging_def OrderStatusCompleted_def OrderStatusExpired_def OrderStatusCancelled_def
  OrderStatusFailed_def OrderStatusRefundRequested_def OrderStatusRefunding_def
  OrderStatusRefundPending_def OrderStatusPartiallyRefunded_def OrderStatusRefunded_def
  OrderStatusRefundFailed_def

definition OrderTypeBalance :: string where "OrderTypeBalance = ''balance''"
definition OrderTypeSubscription :: string where "OrderTypeSubscription = ''subscription''"

definition NotificationStatusSuccess :: string where "NotificationStatusSuccess = ''success''"
definition NotificationStatusPaid :: string where "NotificationStatusPaid = ''paid''"
definition ProviderStatusPending :: string where "ProviderStatusPending = ''pending''"
definition ProviderStatusProcessing :: string where "ProviderStatusProcessing = ''processing''"
definition ProviderStatusPaid :: string where "ProviderStatusPaid = ''paid''"
definition ProviderStatusSuccess :: string where "ProviderStatusSuccess = ''success''"
definition ProviderStatusFailed :: string where "ProviderStatusFailed = ''failed''"

lemmas progress_labels = NotificationStatusSuccess_def NotificationStatusPaid_def ProviderStatusPending_def
  ProviderStatusProcessing_def ProviderStatusPaid_def ProviderStatusSuccess_def ProviderStatusFailed_def

definition GetBasePaymentType :: "string \<Rightarrow> string" where
  "GetBasePaymentType t =
     (if t = TypeEasyPay then TypeEasyPay
      else if t = TypeAirwallex then TypeAirwallex
      else if t = TypeStripe \<or> t = TypeCard \<or> t = TypeLink then TypeStripe
      else if has_prefix t TypeAlipay then TypeAlipay
      else if has_prefix t TypeWxpay then TypeWxpay
      else t)"

definition IsRefundStatus :: "string \<Rightarrow> bool" where
  "IsRefundStatus s = (s \<in> {OrderStatusRefundRequested, OrderStatusRefunding, OrderStatusRefundPending,
     OrderStatusPartiallyRefunded, OrderStatusRefunded, OrderStatusRefundFailed})"

section \<open>Errors\<close>

fun IsNotFound :: "perror \<Rightarrow> bool" where
  "IsNotFound RowNotFound = True"
| "IsNotFound (Wrap m e) = IsNotFound e"
| "IsNotFound _ = False"

section \<open>The order\<close>

text \<open>
  Values of a decoded JSON object: its numbers are finite.  A time is kept apart
  from other text, and a value the code never reads is left out.
\<close>

datatype jvalue =
    JString string
  | JInt int
  | JFloat rat
  | JBool bool
  | JTime instant
  | JNull
  | JArray "jvalue list"
  | JObject "(string \<times> jvalue) list"
  | JOther

record SubscriptionPlanSnapshot =
  PlanName :: string
  PlanCurrency :: string
  ValidityDays :: int
  DailyLimitUSD :: "f64 option"
  WeeklyLimitUSD :: "f64 option"
  MonthlyLimitUSD :: "f64 option"

record Order =
  ID :: int
  UserID :: int
  Amount :: f64
  PayAmount :: f64
  RechargeCode :: string
  OutTradeNo :: string
  PaymentType :: string
  PaymentTradeNo :: string
  PaymentInvoiceID :: "string option"
  PaymentInvoiceURL :: "string option"
  PaymentInvoicePdfURL :: "string option"
  PaymentInvoiceStatus :: "string option"
  OrderType :: string
  PlanID :: "int option"
  PlanSnapshot :: SubscriptionPlanSnapshot
  ProviderKey :: "string option"
  ProviderSnapshot :: "(string \<times> jvalue) list"
  Status :: string
  RefundAmount :: f64
  RefundReason :: "string option"
  RefundAt :: "instant option"
  ForceRefund :: bool
  RefundRequestedAt :: "instant option"
  RefundRequestReason :: "string option"
  RefundRequestedBy :: "string option"
  ExpiresAt :: instant
  PaidAt :: "instant option"
  CompletedAt :: "instant option"
  FailedAt :: "instant option"
  FailedReason :: "string option"
  CreatedAt :: instant
  UpdatedAt :: instant

section \<open>The store\<close>

text \<open>
  The state shared by all processes: the rows of the order table, the payment
  audit log (order, action, operator, decoded detail; a unique index allows one
  row for an order and action), the wall clock, and the rest of the world
  (wallets, redeem codes, subscriptions, rebates, the payment providers).
\<close>

type_synonym audit = "int \<times> string \<times> string \<times> jvalue"

record 'g sys =
  rows :: "Order list"
  audits :: "audit list"
  wall :: instant
  rest :: 'g

type_synonym ('g, 'a) op = "'g sys conn \<Rightarrow> (perror, 'a) result \<times> 'g sys conn"

definition db_call :: "('g sys \<Rightarrow> 'a \<times> 'g sys) \<Rightarrow> ('g, 'a) op" where
  "db_call f w = (case call f w of (Inl e, w) \<Rightarrow> (Err (Plain e), w) | (Inr a, w) \<Rightarrow> (Ok a, w))"

text \<open>
  UPDATE ... WHERE guard: rewrites every matching row and returns their number.
  The generated client sets updated_at to the current time on every update that
  does not set it itself.
\<close>

definition update_rows :: "(Order \<Rightarrow> bool) \<Rightarrow> (instant \<Rightarrow> Order \<Rightarrow> Order) \<Rightarrow> 'g sys \<Rightarrow> int \<times> 'g sys" where
  "update_rows guard eff s =
     (int (length (filter guard (rows s))),
      s\<lparr>rows := map (\<lambda>ord. if guard ord then eff (db_us (wall s)) ord else ord) (rows s)\<rparr>)"

definition only_row :: "Order list \<Rightarrow> (perror, Order) result" where
  "only_row os = (case os of [] \<Rightarrow> Err RowNotFound | [ord] \<Rightarrow> Ok ord | _ \<Rightarrow> Err RowNotSingular)"

definition store_Order :: "int \<Rightarrow> ('g, Order) op" where
  "store_Order i w =
     (case db_call (reads (\<lambda>s. only_row (filter (\<lambda>ord. ID ord = i) (rows s)))) w of
        (Inl e, w) \<Rightarrow> (Err e, w) | (Inr r, w) \<Rightarrow> (r, w))"

definition store_OrderByTradeNumber :: "string \<Rightarrow> ('g, Order) op" where
  "store_OrderByTradeNumber no w =
     (case db_call (reads (\<lambda>s. only_row (filter (\<lambda>ord. OutTradeNo ord = no) (rows s)))) w of
        (Inl e, w) \<Rightarrow> (Err e, w) | (Inr r, w) \<Rightarrow> (r, w))"

record OrderTransition =
  tID :: int
  From :: "string list"
  Version :: "instant option"
  tStatus :: string
  tTradeNo :: string
  tPayAmount :: "f64 option"
  tPaidAt :: "instant option"
  tCompletedAt :: "instant option"
  tFailedAt :: "instant option"
  tFailedReason :: "string option"
  ClearFailure :: bool
  InvoiceID :: string
  InvoiceURL :: string
  InvoicePDF :: string
  InvoiceStatus :: string

definition transition :: "int \<Rightarrow> string list \<Rightarrow> string \<Rightarrow> OrderTransition" where
  "transition i from st = \<lparr>tID = i, From = from, Version = None, tStatus = st, tTradeNo = [], tPayAmount = None,
     tPaidAt = None, tCompletedAt = None, tFailedAt = None, tFailedReason = None, ClearFailure = False,
     InvoiceID = [], InvoiceURL = [], InvoicePDF = [], InvoiceStatus = []\<rparr>"

definition transition_guard :: "OrderTransition \<Rightarrow> Order \<Rightarrow> bool" where
  "transition_guard c ord \<longleftrightarrow> ID ord = tID c \<and> Status ord \<in> set (From c) \<and>
     (case Version c of None \<Rightarrow> True | Some v \<Rightarrow> UpdatedAt ord = v)"

definition set_if :: "'a option \<Rightarrow> 'a option \<Rightarrow> 'a option" where
  "set_if new old = (case new of None \<Rightarrow> old | Some v \<Rightarrow> Some v)"

definition set_text :: "string \<Rightarrow> string option \<Rightarrow> string option" where
  "set_text new old = (if new \<noteq> [] then Some new else old)"

definition transition_effect :: "OrderTransition \<Rightarrow> instant \<Rightarrow> Order \<Rightarrow> Order" where
  "transition_effect c now ord = ord\<lparr>
     PayAmount := (case tPayAmount c of None \<Rightarrow> PayAmount ord | Some v \<Rightarrow> db_numeric 2 v),
     PaymentTradeNo := (if tTradeNo c \<noteq> [] then tTradeNo c else PaymentTradeNo ord),
     PaymentInvoiceID := set_text (InvoiceID c) (PaymentInvoiceID ord),
     PaymentInvoiceURL := set_text (InvoiceURL c) (PaymentInvoiceURL ord),
     PaymentInvoicePdfURL := set_text (InvoicePDF c) (PaymentInvoicePdfURL ord),
     PaymentInvoiceStatus := set_text (InvoiceStatus c) (PaymentInvoiceStatus ord),
     Status := tStatus c,
     PaidAt := set_if (map_option db_us (tPaidAt c)) (PaidAt ord),
     CompletedAt := set_if (map_option db_us (tCompletedAt c)) (CompletedAt ord),
     FailedAt := set_if (map_option db_us (tFailedAt c)) (if ClearFailure c then None else FailedAt ord),
     FailedReason := set_if (tFailedReason c) (if ClearFailure c then None else FailedReason ord),
     UpdatedAt := now\<rparr>"

definition TransitionOrder :: "OrderTransition \<Rightarrow> ('g, int) op" where
  "TransitionOrder c = db_call (update_rows (transition_guard c) (transition_effect c))"

definition claim_guard :: "int \<Rightarrow> instant \<Rightarrow> Order \<Rightarrow> bool" where
  "claim_guard i stale ord \<longleftrightarrow> ID ord = i \<and>
     (Status ord = OrderStatusPaid \<or> Status ord = OrderStatusFailed \<or>
      (Status ord = OrderStatusRecharging \<and> UpdatedAt ord \<le> stale))"

definition claim_effect :: "instant \<Rightarrow> Order \<Rightarrow> Order" where
  "claim_effect now ord = ord\<lparr>Status := OrderStatusRecharging, UpdatedAt := db_us now, FailedAt := None, FailedReason := None\<rparr>"

definition ClaimFulfillment :: "int \<Rightarrow> instant \<Rightarrow> instant \<Rightarrow> ('g, int) op" where
  "ClaimFulfillment i now stale = db_call (update_rows (claim_guard i stale) (\<lambda>_. claim_effect now))"

definition has_audit :: "int \<Rightarrow> string \<Rightarrow> 'g sys \<Rightarrow> bool" where
  "has_audit i action s = (\<exists>a \<in> set (audits s). fst a = i \<and> fst (snd a) = action)"

text \<open>The insertion of a row the unique index refuses changes nothing.\<close>

definition add_audit :: "int \<Rightarrow> string \<Rightarrow> string \<Rightarrow> jvalue \<Rightarrow> 'g sys \<Rightarrow> 'g sys" where
  "add_audit i action operator detail s =
     (if has_audit i action s then s else s\<lparr>audits := audits s @ [(i, action, operator, detail)]\<rparr>)"

lemma add_audit_frame [simp]:
  "rows (add_audit i a operator d s) = rows s" "wall (add_audit i a operator d s) = wall s"
  "rest (add_audit i a operator d s) = rest s"
  by (simp_all add: add_audit_def)

text \<open>A failed count reads as absent.\<close>

definition HasAudit :: "int \<Rightarrow> string \<Rightarrow> 'g sys conn \<Rightarrow> bool \<times> 'g sys conn" where
  "HasAudit i action w =
     (case db_call (reads (has_audit i action)) w of
        (Inl e, w) \<Rightarrow> (False, w) | (Inr b, w) \<Rightarrow> (b, w))"

text \<open>The injected audit writer adds a row; its own failure is logged only.\<close>

definition Audit :: "int \<Rightarrow> string \<Rightarrow> string \<Rightarrow> 'g sys conn \<Rightarrow> 'g sys conn" where
  "Audit i action operator w = snd (call (writes (add_audit i action operator JOther) ()) w)"

section \<open>Lifecycle queries\<close>

definition RecoverableFulfillmentIDs :: "instant \<Rightarrow> duration \<Rightarrow> duration \<Rightarrow> ('g, int list) op" where
  "RecoverableFulfillmentIDs now retryDelay leaseDuration =
     db_call (reads (\<lambda>s. sort (map ID (filter (\<lambda>ord. PaidAt ord \<noteq> None \<and>
       (((Status ord = OrderStatusPaid \<or> Status ord = OrderStatusFailed) \<and> UpdatedAt ord \<le> now - retryDelay) \<or>
        (Status ord = OrderStatusRecharging \<and> UpdatedAt ord \<le> now - leaseDuration))) (rows s)))))"

definition ProcessingIDs :: "('g, int list) op" where
  "ProcessingIDs = db_call (reads (\<lambda>s. sort (map ID (filter (\<lambda>ord. Status ord = OrderStatusProcessing) (rows s)))))"

definition ProcessingOrders :: "int list \<Rightarrow> ('g, Order list) op" where
  "ProcessingOrders pageIDs =
     db_call (reads (\<lambda>s. sort_key ID (filter (\<lambda>ord. ID ord \<in> set pageIDs \<and> Status ord = OrderStatusProcessing) (rows s))))"

definition ExpiredPending :: "instant \<Rightarrow> ('g, Order list) op" where
  "ExpiredPending now =
     db_call (reads (\<lambda>s. filter (\<lambda>ord. Status ord = OrderStatusPending \<and> ExpiresAt ord \<le> now) (rows s)))"

definition is_or_prefixed :: "string \<Rightarrow> string \<Rightarrow> bool" where
  "is_or_prefixed v k = (v = k \<or> has_prefix v (k @ ''_''))"

definition reconcilable :: "Order \<Rightarrow> bool" where
  "reconcilable ord = (\<exists>k \<in> {TypeWxpay, TypeAlipay}. is_or_prefixed (PaymentType ord) k \<or>
     (case ProviderKey ord of None \<Rightarrow> False | Some v \<Rightarrow> is_or_prefixed v k))"

definition PendingReconciliation :: "instant \<Rightarrow> nat \<Rightarrow> ('g, Order list) op" where
  "PendingReconciliation now limit =
     db_call (reads (\<lambda>s. take limit (sort_key CreatedAt
       (filter (\<lambda>ord. Status ord = OrderStatusPending \<and> now < ExpiresAt ord \<and> reconcilable ord) (rows s)))))"

text \<open>
  One transaction: the conditional update, its race diagnosis and the audit entry
  commit together or not at all.
\<close>

definition force_expire_tx :: "int \<Rightarrow> 'g sys \<Rightarrow> (perror, unit) result \<times> 'g sys" where
  "force_expire_tx i s =
     (let (n, s') = update_rows (\<lambda>ord. ID ord = i \<and> Status ord = OrderStatusPending)
                      (\<lambda>now ord. ord\<lparr>Status := OrderStatusExpired, UpdatedAt := now\<rparr>) s
      in if n = 0 then
           (if filter (\<lambda>ord. ID ord = i) (rows s) = [] then (Err (App ''NOT_FOUND'' ''order not found''), s)
            else (Err (App ''ORDER_STATUS_CHANGED'' ''order status changed before force expiration''), s))
         else if has_audit i ''ORDER_FORCE_EXPIRED'' s' then (Err (Plain ''write force expiration audit log''), s)
         else (Ok (), add_audit i ''ORDER_FORCE_EXPIRED'' ''admin'' JOther s'))"

definition store_ForceExpire :: "int \<Rightarrow> ('g, unit) op" where
  "store_ForceExpire i w =
     (case db_call (force_expire_tx i) w of (Inl e, w) \<Rightarrow> (Err e, w) | (Inr r, w) \<Rightarrow> (r, w))"

definition TouchPending :: "int \<Rightarrow> instant \<Rightarrow> ('g, int) op" where
  "TouchPending i now = db_call (update_rows (\<lambda>ord. ID ord = i \<and> Status ord = OrderStatusPending)
     (\<lambda>_ ord. ord\<lparr>UpdatedAt := db_us now\<rparr>))"

definition SaveUpstreamTradeNumber :: "int \<Rightarrow> string \<Rightarrow> ('g, int) op" where
  "SaveUpstreamTradeNumber i trade = db_call (update_rows (\<lambda>ord. ID ord = i)
     (\<lambda>now ord. ord\<lparr>PaymentTradeNo := trade, UpdatedAt := now\<rparr>))"

section \<open>The provider snapshot\<close>

record OrderProviderSnapshot =
  SchemaVersion :: int
  snapProviderInstanceID :: string
  snapProviderKey :: string
  PaymentMode :: string
  MerchantAppID :: string
  MerchantID :: string
  Currency :: string

definition PsSnapshotStringValue :: "jvalue option \<Rightarrow> string" where
  "PsSnapshotStringValue v = (case v of Some (JString s) \<Rightarrow> trim_space s | _ \<Rightarrow> [])"

definition PsSnapshotIntValue :: "jvalue option \<Rightarrow> int" where
  "PsSnapshotIntValue v = (case v of
      Some (JInt n) \<Rightarrow> n
    | Some (JFloat x) \<Rightarrow> (if x < 0 then - \<lfloor>- x\<rfloor> else \<lfloor>x\<rfloor>)
    | Some (JString s) \<Rightarrow> (case parse_int (trim_space s) of Some n \<Rightarrow> n | None \<Rightarrow> 0)
    | _ \<Rightarrow> 0)"

definition PsOrderProviderSnapshot :: "Order \<Rightarrow> OrderProviderSnapshot option" where
  "PsOrderProviderSnapshot ord =
     (if ProviderSnapshot ord = [] then None
      else let m = map_of (ProviderSnapshot ord);
               snap = \<lparr>SchemaVersion = PsSnapshotIntValue (m ''schema_version''),
                 snapProviderInstanceID = PsSnapshotStringValue (m ''provider_instance_id''),
                 snapProviderKey = PsSnapshotStringValue (m ''provider_key''),
                 PaymentMode = PsSnapshotStringValue (m ''payment_mode''),
                 MerchantAppID = PsSnapshotStringValue (m ''merchant_app_id''),
                 MerchantID = PsSnapshotStringValue (m ''merchant_id''),
                 Currency = PsSnapshotStringValue (m ''currency'')\<rparr>
      in if SchemaVersion snap = 0 \<and> snapProviderInstanceID snap = [] \<and> snapProviderKey snap = [] \<and>
            PaymentMode snap = [] \<and> MerchantAppID snap = [] \<and> MerchantID snap = [] \<and> Currency snap = []
         then None else Some snap)"

end
