(* ===== verification/Fulfillment.thy ===== *)
theory Fulfillment
  imports Orders
begin

text \<open>
  Payment confirmation and entitlement delivery: internal/payment/fulfillment.go
  and fulfillment_values.go, with the currency tolerance of currency.go and
  amount_rules.go.  A method is a function on the connection to the shared state,
  call by call; the services the component is constructed with are a parameter.
  Log output and the notification mails sent in the background are left out.
\<close>

section \<open>Currencies and tolerances\<close>

definition DefaultPaymentCurrency :: string where "DefaultPaymentCurrency = ''CNY''"

definition NormalizePaymentCurrency :: "string \<Rightarrow> (perror, string) result" where
  "NormalizePaymentCurrency raw =
     (let currency = to_upper (trim_space raw) in
      if currency = [] then Ok DefaultPaymentCurrency
      else if length currency \<noteq> 3 then Err (Plain ''payment currency must be a 3-letter ISO currency code'')
      else if \<exists>ch \<in> set currency. (of_char ch :: nat) < 65 \<or> 90 < (of_char ch :: nat)
      then Err (Plain ''payment currency must be a 3-letter ISO currency code'')
      else Ok currency)"

text \<open>API exponent and accepted fraction digits of the currencies that differ from 2 and 2.\<close>

definition paymentCurrencyAmountUnits :: "(string \<times> nat \<times> nat) list" where
  "paymentCurrencyAmountUnits =
     map (\<lambda>c. (c, 0, 0)) [''BIF'', ''CLP'', ''DJF'', ''GNF'', ''JPY'', ''KMF'', ''KRW'', ''MGA'', ''PYG'',
       ''RWF'', ''VND'', ''VUV'', ''XAF'', ''XOF'', ''XPF''] @
     map (\<lambda>c. (c, 2, 0)) [''ISK'', ''UGX''] @
     map (\<lambda>c. (c, 3, 3)) [''BHD'', ''IQD'', ''JOD'', ''KWD'', ''LYD'', ''OMR'', ''TND'']"

definition paymentCurrencyAmountUnitFor :: "string \<Rightarrow> nat \<times> nat" where
  "paymentCurrencyAmountUnitFor currency =
     (case NormalizePaymentCurrency currency of
        Inl e \<Rightarrow> (2, 2)
      | Inr n \<Rightarrow> (case map_of paymentCurrencyAmountUnits n of Some u \<Rightarrow> u | None \<Rightarrow> (2, 2)))"

definition CurrencyMinorUnit :: "string \<Rightarrow> nat" where
  "CurrencyMinorUnit currency = fst (paymentCurrencyAmountUnitFor currency)"

definition CurrencyMaxFractionDigits :: "string \<Rightarrow> nat" where
  "CurrencyMaxFractionDigits currency = snd (paymentCurrencyAmountUnitFor currency)"

definition PaymentAmountToleranceForCurrency :: "string \<Rightarrow> f64" where
  "PaymentAmountToleranceForCurrency currency =
     (let minorUnit = CurrencyMinorUnit currency in
      if minorUnit \<le> 2 then rnd (1 / 100) else fdiv (rnd (1 / 10 ^ minorUnit)) (rnd 2))"

definition PaymentOrderCurrency :: "Order \<Rightarrow> string" where
  "PaymentOrderCurrency ord =
     (case PsOrderProviderSnapshot ord of
        None \<Rightarrow> DefaultPaymentCurrency
      | Some snap \<Rightarrow> (case NormalizePaymentCurrency (Currency snap) of
            Inr c \<Rightarrow> c | Inl e \<Rightarrow> DefaultPaymentCurrency))"

definition IsValidProviderAmount :: "f64 \<Rightarrow> bool" where
  "IsValidProviderAmount amount = (flt f0 amount \<and> amount \<noteq> NaN \<and> \<not> is_inf amount)"

section \<open>Values\<close>

type_synonym metadata = "(string \<times> string) list"

text \<open>A missing key of a Go map reads as the empty text.\<close>

definition md :: "metadata \<Rightarrow> string \<Rightarrow> string" where
  "md m k = (case map_of m k of None \<Rightarrow> [] | Some v \<Rightarrow> v)"

definition option_text :: "string option \<Rightarrow> string" where
  "option_text v = (case v of None \<Rightarrow> [] | Some s \<Rightarrow> s)"

definition ApplyInvoiceMetadata :: "OrderTransition \<Rightarrow> metadata \<Rightarrow> OrderTransition" where
  "ApplyInvoiceMetadata change m = change\<lparr>InvoiceID := trim_space (md m ''invoice_id''),
     InvoiceURL := trim_space (md m ''invoice_url''), InvoicePDF := trim_space (md m ''invoice_pdf''),
     InvoiceStatus := trim_space (md m ''invoice_status'')\<rparr>"

definition usable_limit :: "f64 option \<Rightarrow> f64 option" where
  "usable_limit l = (case l of None \<Rightarrow> None
     | Some v \<Rightarrow> if fle v f0 \<or> v = NaN \<or> is_inf v then None else Some v)"

definition OrderPurchasedReasoningPoints :: "Order \<Rightarrow> f64 option" where
  "OrderPurchasedReasoningPoints ord =
     (if OrderType ord = OrderTypeBalance then usable_limit (Some (Amount ord))
      else if OrderType ord = OrderTypeSubscription then
        (case usable_limit (MonthlyLimitUSD (PlanSnapshot ord)) of
           Some v \<Rightarrow> Some v
         | None \<Rightarrow> (case usable_limit (WeeklyLimitUSD (PlanSnapshot ord)) of
             Some v \<Rightarrow> Some v
           | None \<Rightarrow> usable_limit (DailyLimitUSD (PlanSnapshot ord))))
      else None)"

definition AffiliateRebateBasePoints :: "Order \<Rightarrow> f64" where
  "AffiliateRebateBasePoints ord = (case OrderPurchasedReasoningPoints ord of None \<Rightarrow> f0 | Some v \<Rightarrow> v)"

definition ParseLegacyPaymentOrderID :: "string \<Rightarrow> bool \<Rightarrow> int option" where
  "ParseLegacyPaymentOrderID orderID notFound =
     (if \<not> notFound then None
      else let orderID = trim_space orderID in
        if \<not> has_prefix orderID ''sub2_'' then None
        else let trimmed = drop 5 orderID in
          if trimmed = [] \<or> trimmed = orderID then None
          else case parse_int trimmed of
            None \<Rightarrow> None
          | Some oid \<Rightarrow> if oid \<le> 0 then None else Some oid)"

section \<open>Services\<close>

record AssignSubscriptionInput =
  asUserID :: int
  asPlanID :: int
  asSourceOrderID :: int
  asTemplate :: "(int \<times> f64 option \<times> f64 option \<times> f64 option) option"
    \<comment> \<open>validity and limits with UseProvidedTemplate\<close>

text \<open>
  The collaborators of the constructor, acting on the rest of the world.  The
  redeem lookup answers whether the code found is used up; a service the code
  tests for nil is an option.  The rebate transaction also writes audit entries.
  \<open>ErrorText\<close> prints an error with the values its constructor leaves out.
\<close>

record 'g services =
  InstanceKey :: "Order \<Rightarrow> 'g \<Rightarrow> (perror, string option) result \<times> 'g"
  RegistryKey :: "(string \<Rightarrow> string) option"
  GetByCode :: "string \<Rightarrow> 'g \<Rightarrow> (perror, bool option) result \<times> 'g"
  CreateCode :: "string \<Rightarrow> f64 \<Rightarrow> 'g \<Rightarrow> (perror, unit) result \<times> 'g"
  Redeem :: "int \<Rightarrow> string \<Rightarrow> 'g \<Rightarrow> (perror, unit) result \<times> 'g"
  AssignOrExtend :: "(AssignSubscriptionInput \<Rightarrow> 'g \<Rightarrow> (perror, unit) result \<times> 'g) option"
  RebateEnabled :: "('g \<Rightarrow> bool) option"
  ApplyOrderRebate :: "Order \<Rightarrow> f64 \<Rightarrow> 'g \<Rightarrow> (perror, unit) result \<times> audit list \<times> 'g"
  ErrorText :: "perror \<Rightarrow> string"

definition service :: "('g \<Rightarrow> (perror, 'a) result \<times> 'g) \<Rightarrow> ('g, 'a) op" where
  "service f w =
     (case db_call (\<lambda>s. case f (rest s) of (r, g) \<Rightarrow> (r, s\<lparr>rest := g\<rparr>)) w of
        (Inl e, w) \<Rightarrow> (Err e, w) | (Inr r, w) \<Rightarrow> (r, w))"

definition rebate_service ::
  "('g \<Rightarrow> (perror, unit) result \<times> audit list \<times> 'g) \<Rightarrow> ('g, unit) op" where
  "rebate_service f w =
     (case db_call (\<lambda>s. case f (rest s) of (r, as, g) \<Rightarrow> (r, s\<lparr>audits := audits s @ as, rest := g\<rparr>)) w of
        (Inl e, w) \<Rightarrow> (Err e, w) | (Inr r, w) \<Rightarrow> (r, w))"

definition Now :: "'g sys conn \<Rightarrow> instant" where
  "Now w = wall (server w)"

section \<open>Validating a notification\<close>

definition ExpectedNotificationProviderKey ::
  "(string \<Rightarrow> string) option \<Rightarrow> string \<Rightarrow> string \<Rightarrow> string \<Rightarrow> string" where
  "ExpectedNotificationProviderKey registry orderPaymentType orderProviderKey instanceProviderKey =
     (if trim_space instanceProviderKey \<noteq> [] then trim_space instanceProviderKey
      else if trim_space orderProviderKey \<noteq> [] then trim_space orderProviderKey
      else case registry of
        Some key \<Rightarrow> if trim_space (key orderPaymentType) \<noteq> [] then trim_space (key orderPaymentType)
                   else trim_space orderPaymentType
      | None \<Rightarrow> trim_space orderPaymentType)"

definition ExpectedNotificationProviderKeyForOrder ::
  "(string \<Rightarrow> string) option \<Rightarrow> Order \<Rightarrow> string \<Rightarrow> string" where
  "ExpectedNotificationProviderKeyForOrder registry ord instanceProviderKey =
     (let orderProviderKey = (case PsOrderProviderSnapshot ord of
            Some snap \<Rightarrow> if snapProviderKey snap \<noteq> [] then snapProviderKey snap else option_text (ProviderKey ord)
          | None \<Rightarrow> option_text (ProviderKey ord))
      in ExpectedNotificationProviderKey registry (PaymentType ord) orderProviderKey instanceProviderKey)"

text \<open>An attribute of the snapshot that the metadata must repeat.\<close>

definition check_attribute :: "string \<Rightarrow> string \<Rightarrow> string \<Rightarrow> string \<Rightarrow> (perror, unit) result" where
  "check_attribute expected actual missing mismatch =
     (if trim_space expected = [] then Ok ()
      else if actual = [] then Err (Plain missing)
      else if \<not> equal_fold (trim_space expected) actual then Err (Plain mismatch)
      else Ok ())"

definition check_state :: "string \<Rightarrow> string \<Rightarrow> string \<Rightarrow> (perror, unit) result" where
  "check_state actual expected mismatch =
     (if actual \<noteq> [] \<and> \<not> equal_fold actual expected then Err (Plain mismatch) else Ok ())"

definition and_then :: "(perror, unit) result \<Rightarrow> (perror, unit) result \<Rightarrow> (perror, unit) result" where
  "and_then a b = (case a of Inl e \<Rightarrow> Err e | Inr _ \<Rightarrow> b)"

definition ValidateProviderSnapshotMetadata :: "Order \<Rightarrow> string \<Rightarrow> metadata \<Rightarrow> (perror, unit) result" where
  "ValidateProviderSnapshotMetadata ord providerKey m =
     (if length m = 0 then Ok ()
      else case PsOrderProviderSnapshot ord of
        None \<Rightarrow> Ok ()
      | Some snap \<Rightarrow>
          let key = trim_space providerKey; get = (\<lambda>k. trim_space (md m k)) in
          if key = TypeWxpay then
            and_then (check_attribute (MerchantAppID snap) (get ''appid'') ''wxpay notification missing appid'' ''wxpay appid mismatch'')
            (and_then (check_attribute (MerchantID snap) (get ''mchid'') ''wxpay notification missing mchid'' ''wxpay mchid mismatch'')
            (and_then (check_attribute (Currency snap) (to_upper (get ''currency'')) ''wxpay notification missing currency'' ''wxpay currency mismatch'')
              (check_state (get ''trade_state'') ''SUCCESS'' ''wxpay trade_state mismatch'')))
          else if key = TypeAlipay then
            check_attribute (MerchantAppID snap) (get ''app_id'') ''alipay app_id missing'' ''alipay app_id mismatch''
          else if key = TypeEasyPay then
            check_attribute (MerchantID snap) (get ''pid'') ''easypay pid missing'' ''easypay pid mismatch''
          else if key = TypeStripe then
            check_attribute (Currency snap) (to_upper (get ''currency'')) ''stripe notification missing currency'' ''stripe currency mismatch''
          else if key = TypeAirwallex then
            and_then (check_attribute (MerchantID snap) (get ''account_id'') ''airwallex account_id missing'' ''airwallex account_id mismatch'')
            (and_then (check_attribute (Currency snap) (to_upper (get ''currency'')) ''airwallex notification missing currency'' ''airwallex currency mismatch'')
              (check_state (get ''status'') ''SUCCEEDED'' ''airwallex status mismatch''))
          else Ok ())"

definition validateEasyPayTradeNumber :: "Order \<Rightarrow> string \<Rightarrow> string \<Rightarrow> (perror, unit) result" where
  "validateEasyPayTradeNumber ord providerKey tradeNo =
     (if GetBasePaymentType providerKey = TypeEasyPay \<and> PaymentTradeNo ord \<noteq> [] \<and> PaymentTradeNo ord \<noteq> tradeNo
      then Err (Plain ''easypay transaction number conflicts with the stored order'') else Ok ())"

definition ValidatePaymentNotificationOrder ::
  "'g services \<Rightarrow> Order \<Rightarrow> string \<Rightarrow> string \<Rightarrow> metadata \<Rightarrow> ('g, unit) op" where
  "ValidatePaymentNotificationOrder sv ord pk tradeNo m w =
     (case validateEasyPayTradeNumber ord pk tradeNo of
        Inl e \<Rightarrow> (Err e, w)
      | Inr _ \<Rightarrow>
          let (inst, w) = service (InstanceKey sv ord) w;
              instanceProviderKey = (case inst of Inr (Some k) \<Rightarrow> k | _ \<Rightarrow> []);
              expected = ExpectedNotificationProviderKeyForOrder (RegistryKey sv) ord instanceProviderKey
          in if expected \<noteq> [] \<and> trim_space pk \<noteq> [] \<and> \<not> equal_fold expected (trim_space pk) then
               (Err (Plain ''provider mismatch''), Audit (ID ord) ''PAYMENT_PROVIDER_MISMATCH'' pk w)
             else case ValidateProviderSnapshotMetadata ord pk m of
               Inl e \<Rightarrow> (Err e, Audit (ID ord) ''PAYMENT_PROVIDER_METADATA_MISMATCH'' pk w)
             | Inr _ \<Rightarrow> (Ok (), w))"

definition FindPaymentNotificationOrder :: "string \<Rightarrow> ('g, Order) op" where
  "FindPaymentNotificationOrder orderID w =
     (case store_OrderByTradeNumber orderID w of
        (Inr ord, w) \<Rightarrow> (Ok ord, w)
      | (Inl e, w) \<Rightarrow>
          if \<not> IsNotFound e then (Err (Wrap ''lookup order failed'' e), w)
          else case ParseLegacyPaymentOrderID orderID (IsNotFound e) of
            None \<Rightarrow> (Err ErrOrderNotFound, w)
          | Some oid \<Rightarrow>
              (case store_Order oid w of
                 (Inr ord, w) \<Rightarrow> (Ok ord, w)
               | (Inl e', w) \<Rightarrow> if \<not> IsNotFound e' then (Err (Wrap ''lookup legacy payment order'' e'), w)
                               else (Err ErrOrderNotFound, w)))"

end
