(* ===== verification/Confirmation.thy ===== *)
theory Confirmation
  imports Fulfillment
begin

text \<open>
  The operations of internal/payment/fulfillment.go that change an order: from a
  provider's notification over the recorded payment to the delivered entitlement,
  its failure and its retry.
\<close>

definition RedeemActionCreate :: nat where "RedeemActionCreate = 0"
definition RedeemActionRedeem :: nat where "RedeemActionRedeem = 1"
definition RedeemActionSkipCompleted :: nat where "RedeemActionSkipCompleted = 2"

definition FulfillmentLeaseDuration :: duration where "FulfillmentLeaseDuration = 5 * minute"

section \<open>The fulfillment lease\<close>

text \<open>A lease is the updated_at of the claimed order.\<close>

definition AcquirePaymentFulfillmentLease :: "Order \<Rightarrow> ('g, instant option) op" where
  "AcquirePaymentFulfillmentLease ord w =
     (let now = trunc_us (Now w); staleBefore = now - FulfillmentLeaseDuration in
      case ClaimFulfillment (ID ord) now staleBefore w of
        (Inl e, w) \<Rightarrow> (Err (Wrap ''acquire fulfillment lease'' e), w)
      | (Inr updated, w) \<Rightarrow>
          if updated = 0 then
            (case store_Order (ID ord) w of
               (Inl e, w) \<Rightarrow> (Err (Wrap ''reload fulfillment lease'' e), w)
             | (Inr current, w) \<Rightarrow>
                 if Status current = OrderStatusCompleted then (Ok None, w)
                 else if Status current = OrderStatusRecharging
                 then (Err (App ''CONFLICT'' ''order is being processed''), w)
                 else (Err (App ''CONFLICT'' ''order status changed while acquiring fulfillment lease''), w))
          else
            (case store_Order (ID ord) w of
               (Inl e, w) \<Rightarrow> (Err (Wrap ''reload acquired fulfillment lease'' e), w)
             | (Inr claimed, w) \<Rightarrow>
                 if Status claimed \<noteq> OrderStatusRecharging
                 then (Err (App ''CONFLICT'' ''fulfillment lease was lost''), w)
                 else (Ok (Some (UpdatedAt claimed)), w)))"

definition loadFulfillableOrder :: "int \<Rightarrow> ('g, Order option) op" where
  "loadFulfillableOrder oid w =
     (case store_Order oid w of
        (Inl e, w) \<Rightarrow> (Err (App ''NOT_FOUND'' ''order not found''), w)
      | (Inr ord, w) \<Rightarrow>
          if Status ord = OrderStatusCompleted then (Ok None, w)
          else if IsRefundStatus (Status ord)
          then (Err (App ''INVALID_STATUS'' ''refund-related order cannot fulfill''), w)
          else if Status ord \<noteq> OrderStatusPaid \<and> Status ord \<noteq> OrderStatusFailed \<and> Status ord \<noteq> OrderStatusRecharging
          then (Err (App ''INVALID_STATUS'' ''order cannot fulfill in status''), w)
          else (Ok (Some ord), w))"

section \<open>Recording the outcome of a delivery\<close>

definition MarkCompleted :: "Order \<Rightarrow> instant option \<Rightarrow> string \<Rightarrow> ('g, unit) op" where
  "MarkCompleted ord lease auditAction w =
     (case lease of
        None \<Rightarrow> (Err (Plain ''missing payment fulfillment lease''), w)
      | Some version \<Rightarrow>
          let now = Now w in
          case TransitionOrder ((transition (ID ord) [OrderStatusRecharging] OrderStatusCompleted)
                 \<lparr>Version := Some version, tCompletedAt := Some now\<rparr>) w of
            (Inl e, w) \<Rightarrow> (Err (Wrap ''mark completed'' e), w)
          | (Inr updated, w) \<Rightarrow>
              if updated = 0 then
                (case store_Order (ID ord) w of
                   (Inr current, w) \<Rightarrow>
                     if Status current = OrderStatusCompleted then (Ok (), w)
                     else (Err (App ''CONFLICT'' ''fulfillment lease was lost before completion''), w)
                 | (Inl e, w) \<Rightarrow> (Err (App ''CONFLICT'' ''fulfillment lease was lost before completion''), w))
              else
                (case HasAudit (ID ord) auditAction w of
                   (True, w) \<Rightarrow> (Ok (), w)
                 | (False, w) \<Rightarrow> (Ok (), Audit (ID ord) auditAction ''system'' w)))"

definition MarkFailed :: "'g services \<Rightarrow> int \<Rightarrow> instant option \<Rightarrow> perror \<Rightarrow> 'g sys conn \<Rightarrow> 'g sys conn" where
  "MarkFailed sv oid lease cause w =
     (case lease of
        None \<Rightarrow> w
      | Some version \<Rightarrow>
          let now = Now w in
          case TransitionOrder ((transition oid [OrderStatusRecharging] OrderStatusFailed)
                 \<lparr>Version := Some version, tFailedAt := Some now, tFailedReason := Some (ErrorText sv cause)\<rparr>) w of
            (Inl e, w) \<Rightarrow> w
          | (Inr c, w) \<Rightarrow> if 0 < c then Audit oid ''FULFILLMENT_FAILED'' ''system'' w else w)"

definition ApplyAffiliateRebateForOrder :: "'g services \<Rightarrow> Order \<Rightarrow> ('g, unit) op" where
  "ApplyAffiliateRebateForOrder sv ord w =
     (let base = AffiliateRebateBasePoints ord in
      if fle base f0 then (Ok (), w)
      else case RebateEnabled sv of
        None \<Rightarrow> (Ok (), w)
      | Some enabled \<Rightarrow>
          (case db_call (reads (\<lambda>s. enabled (rest s))) w of
             (Inr True, w) \<Rightarrow> rebate_service (ApplyOrderRebate sv ord base) w
           | (_, w) \<Rightarrow> (Ok (), w)))"

section \<open>Delivering a balance\<close>

definition ResolveRedeemAction :: "(perror, bool option) result \<Rightarrow> nat" where
  "ResolveRedeemAction found = (case found of
      Inr (Some used) \<Rightarrow> if used then RedeemActionSkipCompleted else RedeemActionRedeem
    | _ \<Rightarrow> RedeemActionCreate)"

definition redeem_and_complete :: "'g services \<Rightarrow> Order \<Rightarrow> instant option \<Rightarrow> ('g, unit) op" where
  "redeem_and_complete sv ord lease w =
     (case service (Redeem sv (UserID ord) (RechargeCode ord)) w of
        (Inl e, w) \<Rightarrow> (Err (Wrap ''redeem balance'' e), w)
      | (Inr _, w) \<Rightarrow>
          (case ApplyAffiliateRebateForOrder sv ord w of
             (Inl e, w) \<Rightarrow> (Err e, w)
           | (Inr _, w) \<Rightarrow> MarkCompleted ord lease ''RECHARGE_SUCCESS'' w))"

definition DoBalance :: "'g services \<Rightarrow> Order \<Rightarrow> instant option \<Rightarrow> ('g, unit) op" where
  "DoBalance sv ord lease w =
     (let (found, w) = service (GetByCode sv (RechargeCode ord)) w;
          action = ResolveRedeemAction found
      in if action = RedeemActionSkipCompleted then
           (case ApplyAffiliateRebateForOrder sv ord w of
              (Inl e, w) \<Rightarrow> (Err e, w)
            | (Inr _, w) \<Rightarrow> MarkCompleted ord lease ''RECHARGE_SUCCESS'' w)
         else if action = RedeemActionCreate then
           (case service (CreateCode sv (RechargeCode ord) (Amount ord)) w of
              (Inl e, w) \<Rightarrow> (Err (Wrap ''create redeem code'' e), w)
            | (Inr _, w) \<Rightarrow> redeem_and_complete sv ord lease w)
         else redeem_and_complete sv ord lease w)"

definition ExecuteBalanceFulfillment :: "'g services \<Rightarrow> int \<Rightarrow> ('g, unit) op" where
  "ExecuteBalanceFulfillment sv oid w =
     (case loadFulfillableOrder oid w of
        (Inl e, w) \<Rightarrow> (Err e, w)
      | (Inr None, w) \<Rightarrow> (Ok (), w)
      | (Inr (Some ord), w) \<Rightarrow>
          (case AcquirePaymentFulfillmentLease ord w of
             (Inl e, w) \<Rightarrow> (Err e, w)
           | (Inr None, w) \<Rightarrow> (Ok (), w)
           | (Inr (Some version), w) \<Rightarrow>
               (case DoBalance sv ord (Some version) w of
                  (Inl e, w) \<Rightarrow> (Err e, MarkFailed sv oid (Some version) e w)
                | (Inr _, w) \<Rightarrow> (Ok (), w))))"

section \<open>Delivering a subscription\<close>

definition subscription_input :: "Order \<Rightarrow> int \<Rightarrow> AssignSubscriptionInput" where
  "subscription_input ord plan =
     (let snap = PlanSnapshot ord in
      \<lparr>asUserID = UserID ord, asPlanID = plan, asSourceOrderID = ID ord,
       asTemplate = (if 0 < ValidityDays snap \<or> DailyLimitUSD snap \<noteq> None \<or> WeeklyLimitUSD snap \<noteq> None \<or>
                        MonthlyLimitUSD snap \<noteq> None
         then Some (ValidityDays snap, DailyLimitUSD snap, WeeklyLimitUSD snap, MonthlyLimitUSD snap) else None)\<rparr>)"

definition finish_subscription :: "'g services \<Rightarrow> Order \<Rightarrow> instant option \<Rightarrow> ('g, unit) op" where
  "finish_subscription sv ord lease w =
     (case ApplyAffiliateRebateForOrder sv ord w of
        (Inl e, w) \<Rightarrow> (Err e, w)
      | (Inr _, w) \<Rightarrow> MarkCompleted ord lease ''SUBSCRIPTION_SUCCESS'' w)"

definition DoSub :: "'g services \<Rightarrow> Order \<Rightarrow> instant option \<Rightarrow> ('g, unit) op" where
  "DoSub sv ord lease w =
     (case PlanID ord of
        None \<Rightarrow> (Err (Plain ''order missing plan id''), w)
      | Some plan \<Rightarrow>
          if plan \<le> 0 then (Err (Plain ''order missing plan id''), w)
          else case AssignOrExtend sv of
            None \<Rightarrow> (Err (Plain ''subscription service is unavailable''), w)
          | Some assign \<Rightarrow>
              (let (a, w) = HasAudit (ID ord) ''SUBSCRIPTION_ASSIGNED'' w;
                   (assigned, w) = (if a then (True, w) else HasAudit (ID ord) ''SUBSCRIPTION_SUCCESS'' w)
               in if assigned then finish_subscription sv ord lease w
                  else case service (assign (subscription_input ord plan)) w of
                    (Inl e, w) \<Rightarrow> (Err (Wrap ''assign subscription'' e), w)
                  | (Inr _, w) \<Rightarrow>
                      finish_subscription sv ord lease (Audit (ID ord) ''SUBSCRIPTION_ASSIGNED'' ''system'' w)))"

definition ExecuteSubscriptionFulfillment :: "'g services \<Rightarrow> int \<Rightarrow> ('g, unit) op" where
  "ExecuteSubscriptionFulfillment sv oid w =
     (case loadFulfillableOrder oid w of
        (Inl e, w) \<Rightarrow> (Err e, w)
      | (Inr None, w) \<Rightarrow> (Ok (), w)
      | (Inr (Some ord), w) \<Rightarrow>
          if (case PlanID ord of None \<Rightarrow> True | Some p \<Rightarrow> p \<le> 0)
          then (Err (App ''INVALID_STATUS'' ''missing subscription info''), w)
          else case AcquirePaymentFulfillmentLease ord w of
            (Inl e, w) \<Rightarrow> (Err e, w)
          | (Inr None, w) \<Rightarrow> (Ok (), w)
          | (Inr (Some version), w) \<Rightarrow>
              (case DoSub sv ord (Some version) w of
                 (Inl e, w) \<Rightarrow> (Err e, MarkFailed sv oid (Some version) e w)
               | (Inr _, w) \<Rightarrow> (Ok (), w)))"

definition ExecuteFulfillment :: "'g services \<Rightarrow> int \<Rightarrow> ('g, unit) op" where
  "ExecuteFulfillment sv oid w =
     (case store_Order oid w of
        (Inl e, w) \<Rightarrow> (Err (Wrap ''get order'' e), w)
      | (Inr ord, w) \<Rightarrow>
          if OrderType ord = OrderTypeSubscription then ExecuteSubscriptionFulfillment sv oid w
          else ExecuteBalanceFulfillment sv oid w)"

definition RetryFulfillment :: "'g services \<Rightarrow> int \<Rightarrow> ('g, unit) op" where
  "RetryFulfillment sv oid w =
     (case store_Order oid w of
        (Inl e, w) \<Rightarrow> (Err (App ''NOT_FOUND'' ''order not found''), w)
      | (Inr ord, w) \<Rightarrow>
          if PaidAt ord = None then (Err (App ''INVALID_STATUS'' ''order is not paid''), w)
          else if IsRefundStatus (Status ord)
          then (Err (App ''INVALID_STATUS'' ''refund-related order cannot retry''), w)
          else if Status ord = OrderStatusCompleted
          then (Err (App ''INVALID_STATUS'' ''order already completed''), w)
          else if Status ord \<noteq> OrderStatusFailed \<and> Status ord \<noteq> OrderStatusPaid \<and> Status ord \<noteq> OrderStatusRecharging
          then (Err (App ''INVALID_STATUS'' ''only paid, failed, and recoverable recharging orders can retry''), w)
          else ExecuteFulfillment sv oid (Audit oid ''RECHARGE_RETRY'' ''admin'' w))"

section \<open>Recording what the provider reports\<close>

text \<open>A reload of the order may find another status: at most five rounds.\<close>

fun to_paid_loop ::
  "nat \<Rightarrow> 'g services \<Rightarrow> Order \<Rightarrow> string \<Rightarrow> f64 \<Rightarrow> string \<Rightarrow> metadata \<Rightarrow> ('g, unit) op" where
  "to_paid_loop 0 sv ord tradeNo paid pk m w =
     (Err (Plain ''payment order status kept changing while recording success''), w)"
| "to_paid_loop (Suc n) sv ord tradeNo paid pk m w =
     (case validateEasyPayTradeNumber ord pk tradeNo of
        Inl e \<Rightarrow> (Err e, w)
      | Inr _ \<Rightarrow>
          let previousStatus = Status ord in
          if previousStatus = OrderStatusPending \<or> previousStatus = OrderStatusProcessing \<or>
             previousStatus = OrderStatusExpired \<or> previousStatus = OrderStatusCancelled then
            (let now = Now w;
                 change = ApplyInvoiceMetadata ((transition (ID ord) [previousStatus] OrderStatusPaid)
                   \<lparr>tPayAmount := Some paid, tPaidAt := Some now, ClearFailure := True,
                    tTradeNo := trim_space tradeNo\<rparr>) m
             in case TransitionOrder change w of
               (Inl e, w) \<Rightarrow> (Err (Wrap ''update to PAID'' e), w)
             | (Inr updated, w) \<Rightarrow>
                 if updated = 0 then
                   (case store_Order (ID ord) w of
                      (Inl e, w) \<Rightarrow> (Err (Wrap ''reload payment order after success race'' e), w)
                    | (Inr ord', w) \<Rightarrow> to_paid_loop n sv ord' tradeNo paid pk m w)
                 else
                   let w = (if previousStatus \<noteq> OrderStatusPending then Audit (ID ord) ''ORDER_RECOVERED'' pk w else w);
                       w = Audit (ID ord) ''ORDER_PAID'' pk w
                   in ExecuteFulfillment sv (ID ord) w)
          else if previousStatus = OrderStatusFailed \<or> previousStatus = OrderStatusPaid \<or>
                  previousStatus = OrderStatusRecharging
          then ExecuteFulfillment sv (ID ord) w
          else (Ok (), w))"

definition ToPaid ::
  "'g services \<Rightarrow> Order \<Rightarrow> string \<Rightarrow> f64 \<Rightarrow> string \<Rightarrow> metadata \<Rightarrow> ('g, unit) op" where
  "ToPaid sv ord tradeNo paid pk m w =
     (let tradeNo = (if GetBasePaymentType pk = TypeStripe \<and> has_prefix (trim_space tradeNo) ''in_'' \<and>
            has_prefix (trim_space (PaymentTradeNo ord)) ''pi_'' then PaymentTradeNo ord else tradeNo)
      in to_paid_loop 5 sv ord tradeNo paid pk m w)"

definition ConfirmPayment ::
  "'g services \<Rightarrow> Order \<Rightarrow> string \<Rightarrow> f64 \<Rightarrow> string \<Rightarrow> metadata \<Rightarrow> ('g, unit) op" where
  "ConfirmPayment sv ord tradeNo paid pk m w =
     (if \<not> IsValidProviderAmount paid then
        (Err (Plain ''invalid paid amount from provider''), Audit (ID ord) ''PAYMENT_INVALID_AMOUNT'' pk w)
      else if flt (PaymentAmountToleranceForCurrency (PaymentOrderCurrency ord)) (fabs (fsub paid (PayAmount ord))) then
        (Err (Plain ''amount mismatch''), Audit (ID ord) ''PAYMENT_AMOUNT_MISMATCH'' pk w)
      else ToPaid sv ord tradeNo paid pk m w)"

definition MarkPaymentProcessing :: "Order \<Rightarrow> string \<Rightarrow> string \<Rightarrow> metadata \<Rightarrow> ('g, unit) op" where
  "MarkPaymentProcessing ord tradeNo pk m w =
     (if Status ord \<noteq> OrderStatusPending then (Ok (), w)
      else
        let sessionID = trim_space (md m ''checkout_session_id'');
            processingTradeNo = (if GetBasePaymentType pk = TypeStripe \<and> has_prefix sessionID ''cs_''
              then sessionID else trim_space tradeNo);
            change = ApplyInvoiceMetadata ((transition (ID ord) [OrderStatusPending] OrderStatusProcessing)
              \<lparr>ClearFailure := True, tTradeNo := processingTradeNo\<rparr>) m
        in case TransitionOrder change w of
          (Inl e, w) \<Rightarrow> (Err (Wrap ''update to PROCESSING'' e), w)
        | (Inr updated, w) \<Rightarrow>
            (Ok (), if 0 < updated then Audit (ID ord) ''PAYMENT_PROCESSING'' pk w else w))"

fun mark_payment_failed_loop :: "nat \<Rightarrow> Order \<Rightarrow> string \<Rightarrow> string \<Rightarrow> ('g, unit) op" where
  "mark_payment_failed_loop 0 ord tradeNo pk w =
     (Err (Plain ''payment order status kept changing while recording failure''), w)"
| "mark_payment_failed_loop (Suc n) ord tradeNo pk w =
     (let previousStatus = Status ord in
      if previousStatus \<noteq> OrderStatusPending \<and> previousStatus \<noteq> OrderStatusProcessing then (Ok (), w)
      else let now = Now w in
        case TransitionOrder ((transition (ID ord) [previousStatus] OrderStatusExpired)
               \<lparr>tFailedAt := Some now, tFailedReason := Some ''payment provider reported failure'',
                tTradeNo := trim_space tradeNo\<rparr>) w of
          (Inl e, w) \<Rightarrow> (Err (Wrap ''update payment failure'' e), w)
        | (Inr updated, w) \<Rightarrow>
            if 0 < updated then (Ok (), Audit (ID ord) ''PAYMENT_FAILED'' pk w)
            else case store_Order (ID ord) w of
              (Inl e, w) \<Rightarrow> (Err (Wrap ''reload payment order after failure race'' e), w)
            | (Inr ord', w) \<Rightarrow> mark_payment_failed_loop n ord' tradeNo pk w)"

definition MarkPaymentFailed :: "Order \<Rightarrow> string \<Rightarrow> string \<Rightarrow> ('g, unit) op" where
  "MarkPaymentFailed = mark_payment_failed_loop 3"

record PaymentNotification =
  nTradeNo :: string
  nOrderID :: string
  nAmount :: f64
  nStatus :: string
  nMetadata :: metadata

definition HandlePaymentNotification ::
  "'g services \<Rightarrow> PaymentNotification option \<Rightarrow> string \<Rightarrow> ('g, unit) op" where
  "HandlePaymentNotification sv notification pk w =
     (case notification of
        None \<Rightarrow> (Ok (), w)
      | Some n \<Rightarrow>
          if nStatus n = ProviderStatusFailed \<and> GetBasePaymentType pk \<noteq> TypeStripe then (Ok (), w)
          else if nStatus n \<notin> {NotificationStatusSuccess, NotificationStatusPaid, ProviderStatusProcessing, ProviderStatusFailed}
          then (Ok (), w)
          else case FindPaymentNotificationOrder (nOrderID n) w of
            (Inl e, w) \<Rightarrow> (Err e, w)
          | (Inr ord, w) \<Rightarrow>
              (case ValidatePaymentNotificationOrder sv ord pk (nTradeNo n) (nMetadata n) w of
                 (Inl e, w) \<Rightarrow> (Err e, w)
               | (Inr _, w) \<Rightarrow>
                   if nStatus n = NotificationStatusSuccess \<or> nStatus n = NotificationStatusPaid
                   then ConfirmPayment sv ord (nTradeNo n) (nAmount n) pk (nMetadata n) w
                   else if nStatus n = ProviderStatusProcessing
                   then MarkPaymentProcessing ord (nTradeNo n) pk (nMetadata n) w
                   else if nStatus n = ProviderStatusFailed
                   then MarkPaymentFailed ord (nTradeNo n) pk w
                   else (Ok (), w)))"

end
