(* ===== verification/OrderMoves.thy ===== *)
theory OrderMoves
  imports Confirmation
begin

text \<open>
  The status graph of payment orders, the contract of the store's conditional
  updates, and the proof rules with which every operation is shown to move the
  rows along the graph, whatever the other processes do meanwhile.
\<close>

section \<open>Conditional updates\<close>

text \<open>
  The status graph: the moves the confirmation, delivery and closing code makes.
\<close>

inductive legal_move :: "string \<Rightarrow> string \<Rightarrow> bool" where
  mv_processing: "legal_move OrderStatusPending OrderStatusProcessing"
| mv_expire: "s \<in> {OrderStatusPending, OrderStatusProcessing} \<Longrightarrow> legal_move s OrderStatusExpired"
| mv_cancel: "legal_move OrderStatusPending OrderStatusCancelled"
| mv_paid: "s \<in> {OrderStatusPending, OrderStatusProcessing, OrderStatusExpired, OrderStatusCancelled} \<Longrightarrow>
    legal_move s OrderStatusPaid"
| mv_claim: "s \<in> {OrderStatusPaid, OrderStatusFailed, OrderStatusRecharging} \<Longrightarrow> legal_move s OrderStatusRecharging"
| mv_complete: "legal_move OrderStatusRecharging OrderStatusCompleted"
| mv_fail: "legal_move OrderStatusRecharging OrderStatusFailed"

inductive_cases legal_move_cases: "legal_move s t"

lemma completed_final: "legal_move\<^sup>*\<^sup>* OrderStatusCompleted t \<Longrightarrow> t = OrderStatusCompleted"
proof (induction rule: rtranclp_induct)
  case (step y z)
  then have "legal_move OrderStatusCompleted z" by simp
  then show ?case by (rule legal_move_cases) (auto simp: statuses)
qed simp

text \<open>
  Rows keep their place and their identity, their status moves along M, and new
  rows may follow.
\<close>

definition moved :: "(string \<Rightarrow> string \<Rightarrow> bool) \<Rightarrow> Order list \<Rightarrow> Order list \<Rightarrow> bool" where
  "moved M rs rs' \<longleftrightarrow> length rs \<le> length rs' \<and>
     (\<forall>i < length rs. ID (rs' ! i) = ID (rs ! i) \<and> M\<^sup>*\<^sup>* (Status (rs ! i)) (Status (rs' ! i)))"

lemma moved_refl [simp]: "moved M rs rs"
  by (simp add: moved_def)

lemma moved_trans: "moved M a b \<Longrightarrow> moved M b c \<Longrightarrow> moved M a c"
  by (auto simp: moved_def) (metis order_less_le_trans rtranclp_trans)+

text \<open>
  An operation that rewrites the rows under a guard: the contract every
  conditional UPDATE of the store shares.
\<close>

locale conditional_update =
  fixes upd :: "'g sys \<Rightarrow> int \<times> 'g sys"
    and guard :: "Order \<Rightarrow> bool"
    and eff :: "instant \<Rightarrow> Order \<Rightarrow> Order"
  assumes upd: "upd s = (int (length (filter guard (rows s))),
      s\<lparr>rows := map (\<lambda>r. if guard r then eff (db_us (wall s)) r else r) (rows s)\<rparr>)"
    and keeps_id: "guard r \<Longrightarrow> ID (eff t r) = ID r"
    and moves: "guard r \<Longrightarrow> Status (eff t r) = Status r \<or> legal_move (Status r) (Status (eff t r))"
begin

lemma count_zero: "fst (upd s) = 0 \<Longrightarrow> snd (upd s) = s"
  by (auto simp: upd filter_empty_conv map_idI intro!: sys.equality)

lemma count_nonneg: "0 \<le> fst (upd s)"
  by (simp add: upd)

lemma others_kept: "j < length (rows s) \<Longrightarrow> \<not> guard (rows s ! j) \<Longrightarrow> rows (snd (upd s)) ! j = rows s ! j"
  by (simp add: upd)

lemma moved_upd:
  assumes "\<And>a b. legal_move a b \<Longrightarrow> M a b"
  shows "moved M (rows s) (rows (snd (upd s)))"
  using moves keeps_id assms by (auto simp: moved_def upd) (metis r_into_rtranclp rtranclp.rtrancl_refl)

lemma upd_frame: "audits (snd (upd s)) = audits s" "wall (snd (upd s)) = wall s" "rest (snd (upd s)) = rest s"
  by (simp_all add: upd)

end

text \<open>The store's conditional updates meet the contract.\<close>

definition legal_transition :: "OrderTransition \<Rightarrow> bool" where
  "legal_transition c \<longleftrightarrow> (\<forall>s \<in> set (From c). s = tStatus c \<or> legal_move s (tStatus c))"

lemma conditional_transition:
  "legal_transition c \<Longrightarrow> conditional_update
    (update_rows (transition_guard c) (transition_effect c)) (transition_guard c) (transition_effect c)"
  by unfold_locales
    (auto simp: update_rows_def transition_guard_def transition_effect_def legal_transition_def)

interpretation claim: conditional_update "update_rows (claim_guard i stale) (\<lambda>_. claim_effect now)" "claim_guard i stale" "\<lambda>_. claim_effect now"
  for i stale now
  by unfold_locales (auto simp: update_rows_def claim_guard_def claim_effect_def intro: mv_claim)

interpretation touch: conditional_update "update_rows (\<lambda>r. ID r = i \<and> Status r = OrderStatusPending)
    (\<lambda>_ r. r\<lparr>UpdatedAt := db_us now\<rparr>)" "\<lambda>r. ID r = i \<and> Status r = OrderStatusPending"
    "\<lambda>_ r. r\<lparr>UpdatedAt := db_us now\<rparr>"
  for i now by unfold_locales (auto simp: update_rows_def)

interpretation save_trade: conditional_update "update_rows (\<lambda>r. ID r = i)
    (\<lambda>now r. r\<lparr>PaymentTradeNo := trade, UpdatedAt := now\<rparr>)" "\<lambda>r. ID r = i"
    "\<lambda>now r. r\<lparr>PaymentTradeNo := trade, UpdatedAt := now\<rparr>"
  for i trade by unfold_locales (auto simp: update_rows_def)

interpretation force: conditional_update "update_rows (\<lambda>r. ID r = i \<and> Status r = OrderStatusPending)
    (\<lambda>now r. r\<lparr>Status := OrderStatusExpired, UpdatedAt := now\<rparr>)" "\<lambda>r. ID r = i \<and> Status r = OrderStatusPending"
    "\<lambda>now r. r\<lparr>Status := OrderStatusExpired, UpdatedAt := now\<rparr>"
  for i by unfold_locales (auto simp: update_rows_def intro: mv_expire)

section \<open>Every operation moves the rows along the graph\<close>

text \<open>
  The other processes may move orders along any M that includes the graph; what
  one operation and they do together is then again a move along M.
\<close>

definition others_move :: "(string \<Rightarrow> string \<Rightarrow> bool) \<Rightarrow> 'g sys conn \<Rightarrow> bool" where
  "others_move M w \<longleftrightarrow> (\<forall>f \<in> set (changes w). \<forall>s. moved M (rows s) (rows (f s)))"

definition keeps :: "(string \<Rightarrow> string \<Rightarrow> bool) \<Rightarrow> 'g sys conn \<Rightarrow> 'g sys conn \<Rightarrow> bool" where
  "keeps M w w' \<longleftrightarrow> (others_move M w \<longrightarrow> moved M (rows (server w)) (rows (server w')) \<and> others_move M w')"

lemma keeps_refl [simp, intro]: "keeps M w w"
  by (simp add: keeps_def)

lemma keeps_trans: "keeps M a b \<Longrightarrow> keeps M b c \<Longrightarrow> keeps M a c"
  unfolding keeps_def by (meson moved_trans)

lemma keeps_call:
  assumes "\<And>s. moved M (rows s) (rows (snd (f s)))"
  shows "keeps M w (snd (call f w))"
proof -
  have nc: "keeps M v (next_change v)" for v
    by (auto simp: keeps_def others_move_def split: list.splits)
  have srv: "keeps M v (v\<lparr>server := snd (f (server v))\<rparr>)" for v
    using assms by (auto simp: keeps_def others_move_def)
  have fl: "keeps M v (v\<lparr>faults := r\<rparr>)" for v r
    by (auto simp: keeps_def others_move_def)
  have one: "keeps M v (snd (run_commands [f] v))" for v
    by (auto simp: Let_def case_prod_beta simp del: next_change.simps intro: keeps_trans [OF nc srv])
  have any: "keeps M v (snd (run_commands (take k [f]) v))" for k v
    using one by (cases k) auto
  show ?thesis
    by (auto simp: call_def exec_def case_prod_beta split: list.splits fault.splits sum.splits
        intro: one keeps_trans [OF fl one] keeps_trans [OF fl any] simp del: run_commands.simps)
qed

lemma keeps_db_call:
  "(\<And>s. moved M (rows s) (rows (snd (f s)))) \<Longrightarrow> db_call f w = (r, w') \<Longrightarrow> keeps M w w'"
  using keeps_call [of M f w] by (auto simp: db_call_def split: prod.splits sum.splits)


named_theorems keeps_intros

lemma keeps_pair [keeps_intros]: "keeps M w v \<Longrightarrow> keeps M w (snd (r, v))"
  by simp

lemma keeps_if [keeps_intros]:
  "(c \<Longrightarrow> keeps M w (snd a)) \<Longrightarrow> (\<not> c \<Longrightarrow> keeps M w (snd b)) \<Longrightarrow> keeps M w (snd (if c then a else b))"
  by simp

lemma keeps_ifw [keeps_intros]:
  "(c \<Longrightarrow> keeps M w a) \<Longrightarrow> (\<not> c \<Longrightarrow> keeps M w b) \<Longrightarrow> keeps M w (if c then a else b)"
  by simp

lemma keeps_Let [keeps_intros]: "keeps M w (snd (f x)) \<Longrightarrow> keeps M w (snd (Let x f))"
  by simp

lemma keeps_prod [keeps_intros]:
  "keeps M w (snd m) \<Longrightarrow> (\<And>a v. keeps M w v \<Longrightarrow> keeps M w (snd (F a v))) \<Longrightarrow>
    keeps M w (snd (case m of (a, v) \<Rightarrow> F a v))"
  by (cases m) simp

lemma keeps_prodw [keeps_intros]:
  "keeps M w (snd m) \<Longrightarrow> (\<And>a v. keeps M w v \<Longrightarrow> keeps M w (F a v)) \<Longrightarrow>
    keeps M w (case m of (a, v) \<Rightarrow> F a v)"
  by (cases m) simp

lemma keeps_sum [keeps_intros]:
  "(\<And>e. keeps M w (snd (F e))) \<Longrightarrow> (\<And>a. keeps M w (snd (G a))) \<Longrightarrow>
    keeps M w (snd (case x of Inl e \<Rightarrow> F e | Inr a \<Rightarrow> G a))"
  "(\<And>e. keeps M w (F' e)) \<Longrightarrow> (\<And>a. keeps M w (G' a)) \<Longrightarrow>
    keeps M w (case x of Inl e \<Rightarrow> F' e | Inr a \<Rightarrow> G' a)"
  by (cases x; simp)+

lemma keeps_option [keeps_intros]:
  "keeps M w (snd F) \<Longrightarrow> (\<And>a. keeps M w (snd (G a))) \<Longrightarrow>
    keeps M w (snd (case x of None \<Rightarrow> F | Some a \<Rightarrow> G a))"
  "keeps M w F' \<Longrightarrow> (\<And>a. keeps M w (G' a)) \<Longrightarrow> keeps M w (case x of None \<Rightarrow> F' | Some a \<Rightarrow> G' a)"
  by (cases x; simp)+

lemma keeps_bool [keeps_intros]:
  "keeps M w (snd F) \<Longrightarrow> keeps M w (snd G) \<Longrightarrow> keeps M w (snd (case b of True \<Rightarrow> F | False \<Rightarrow> G))"
  by (cases b) simp_all

lemma keeps_db [keeps_intros]:
  assumes "\<And>s. moved M (rows s) (rows (snd (f s)))" "keeps M w v"
  shows "keeps M w (snd (db_call f v))"
  using keeps_trans [OF assms(2) keeps_call [OF assms(1)]]
  by (auto simp: db_call_def split: prod.splits sum.splits)

lemma moved_reads [keeps_intros]: "moved M (rows s) (rows (snd (reads f s)))"
  by (simp add: reads_def)

lemma keeps_store [keeps_intros]:
  "keeps M w v \<Longrightarrow> keeps M w (snd (store_Order i v))"
  "keeps M w v \<Longrightarrow> keeps M w (snd (store_OrderByTradeNumber no v))"
  "keeps M w v \<Longrightarrow> keeps M w (snd (HasAudit i a v))"
  unfolding store_Order_def store_OrderByTradeNumber_def HasAudit_def
  by (intro keeps_intros; assumption)+

lemma keeps_Audit [keeps_intros]: "keeps M w v \<Longrightarrow> keeps M w (Audit i a op v)"
  unfolding Audit_def by (rule keeps_trans, assumption, rule keeps_call) (simp add: writes_def)

lemma keeps_service [keeps_intros]:
  "keeps M w v \<Longrightarrow> keeps M w (snd (service f v))"
  "keeps M w v \<Longrightarrow> keeps M w (snd (rebate_service g v))"
  unfolding service_def rebate_service_def
  by (intro keeps_intros; (assumption | simp add: case_prod_beta))+

definition legal_within :: "(string \<Rightarrow> string \<Rightarrow> bool) \<Rightarrow> bool" where
  "legal_within M \<longleftrightarrow> (\<forall>a b. legal_move a b \<longrightarrow> M a b)"

lemma keeps_transition [keeps_intros]:
  "legal_transition c \<Longrightarrow> legal_within M \<Longrightarrow> keeps M w v \<Longrightarrow> keeps M w (snd (TransitionOrder c v))"
  unfolding TransitionOrder_def legal_within_def
  by (intro keeps_db) (auto intro: conditional_update.moved_upd [OF conditional_transition])

lemma keeps_claim [keeps_intros]:
  "legal_within M \<Longrightarrow> keeps M w v \<Longrightarrow> keeps M w (snd (ClaimFulfillment i now stale v))"
  unfolding ClaimFulfillment_def legal_within_def by (intro keeps_db) (auto intro: claim.moved_upd)

text \<open>The transitions the operations ask for.\<close>

lemma legal_transitions [keeps_intros]:
  "legal_transition ((transition i [OrderStatusRecharging] OrderStatusCompleted)\<lparr>Version := v, tCompletedAt := t\<rparr>)"
  "legal_transition ((transition i [OrderStatusRecharging] OrderStatusFailed)\<lparr>Version := v, tFailedAt := t, tFailedReason := r\<rparr>)"
  "st = OrderStatusPending \<or> st = OrderStatusProcessing \<or> st = OrderStatusExpired \<or> st = OrderStatusCancelled \<Longrightarrow>
    legal_transition (ApplyInvoiceMetadata ((transition i [st] OrderStatusPaid)
      \<lparr>tPayAmount := p, tPaidAt := t, ClearFailure := b, tTradeNo := no\<rparr>) m)"
  "legal_transition (ApplyInvoiceMetadata ((transition i [OrderStatusPending] OrderStatusProcessing)
      \<lparr>ClearFailure := b, tTradeNo := no\<rparr>) m)"
  "\<not> (st \<noteq> OrderStatusPending \<and> st \<noteq> OrderStatusProcessing) \<Longrightarrow>
    legal_transition ((transition i [st] OrderStatusExpired)\<lparr>tFailedAt := t, tFailedReason := r, tTradeNo := no\<rparr>)"
  by (auto simp: legal_transition_def transition_def ApplyInvoiceMetadata_def intro: legal_move.intros)

lemma keeps_lease [keeps_intros]:
  "legal_within M \<Longrightarrow> keeps M w v \<Longrightarrow> keeps M w (snd (AcquirePaymentFulfillmentLease ord v))"
  "legal_within M \<Longrightarrow> keeps M w v \<Longrightarrow> keeps M w (snd (loadFulfillableOrder oid v))"
  "legal_within M \<Longrightarrow> keeps M w v \<Longrightarrow> keeps M w (snd (MarkCompleted ord lease act v))"
  "legal_within M \<Longrightarrow> keeps M w v \<Longrightarrow> keeps M w (MarkFailed sv oid lease e v)"
  "legal_within M \<Longrightarrow> keeps M w v \<Longrightarrow> keeps M w (snd (ApplyAffiliateRebateForOrder sv ord v))"
  unfolding AcquirePaymentFulfillmentLease_def loadFulfillableOrder_def MarkCompleted_def MarkFailed_def
    ApplyAffiliateRebateForOrder_def Let_def
  by ((intro keeps_intros; assumption?)+)

lemma keeps_delivery [keeps_intros]:
  "legal_within M \<Longrightarrow> keeps M w v \<Longrightarrow> keeps M w (snd (redeem_and_complete sv ord lease v))"
  "legal_within M \<Longrightarrow> keeps M w v \<Longrightarrow> keeps M w (snd (finish_subscription sv ord lease v))"
  unfolding redeem_and_complete_def finish_subscription_def
  by ((intro keeps_intros; assumption?)+)

lemma keeps_grants [keeps_intros]:
  "legal_within M \<Longrightarrow> keeps M w v \<Longrightarrow> keeps M w (snd (DoBalance sv ord lease v))"
  "legal_within M \<Longrightarrow> keeps M w v \<Longrightarrow> keeps M w (snd (DoSub sv ord lease v))"
  unfolding DoBalance_def DoSub_def Let_def
  by ((intro keeps_intros; assumption?)+)

lemma keeps_execute [keeps_intros]:
  "legal_within M \<Longrightarrow> keeps M w v \<Longrightarrow> keeps M w (snd (ExecuteBalanceFulfillment sv oid v))"
  "legal_within M \<Longrightarrow> keeps M w v \<Longrightarrow> keeps M w (snd (ExecuteSubscriptionFulfillment sv oid v))"
  unfolding ExecuteBalanceFulfillment_def ExecuteSubscriptionFulfillment_def
  by ((intro keeps_intros; assumption?)+)

lemma keeps_fulfillment [keeps_intros]:
  "legal_within M \<Longrightarrow> keeps M w v \<Longrightarrow> keeps M w (snd (ExecuteFulfillment sv oid v))"
  unfolding ExecuteFulfillment_def by ((intro keeps_intros; assumption?)+)

lemma keeps_retry [keeps_intros]:
  "legal_within M \<Longrightarrow> keeps M w v \<Longrightarrow> keeps M w (snd (RetryFulfillment sv oid v))"
  unfolding RetryFulfillment_def by ((intro keeps_intros; assumption?)+)

lemma keeps_to_paid_loop [keeps_intros]:
  "legal_within M \<Longrightarrow> keeps M w v \<Longrightarrow> keeps M w (snd (to_paid_loop n sv ord tradeNo paid pk m v))"
  by (induction n arbitrary: ord v; unfold to_paid_loop.simps Let_def)
    ((intro keeps_intros; assumption?)+)

lemma keeps_mark_failed_loop [keeps_intros]:
  "legal_within M \<Longrightarrow> keeps M w v \<Longrightarrow> keeps M w (snd (mark_payment_failed_loop n ord tradeNo pk v))"
  by (induction n arbitrary: ord v; unfold mark_payment_failed_loop.simps Let_def)
    ((intro keeps_intros; assumption?)+)

lemma keeps_confirm [keeps_intros]:
  "legal_within M \<Longrightarrow> keeps M w v \<Longrightarrow> keeps M w (snd (ToPaid sv ord tradeNo paid pk m v))"
  "legal_within M \<Longrightarrow> keeps M w v \<Longrightarrow> keeps M w (snd (ConfirmPayment sv ord tradeNo paid pk m v))"
  "legal_within M \<Longrightarrow> keeps M w v \<Longrightarrow> keeps M w (snd (MarkPaymentProcessing ord tradeNo pk m v))"
  "legal_within M \<Longrightarrow> keeps M w v \<Longrightarrow> keeps M w (snd (MarkPaymentFailed ord tradeNo pk v))"
  unfolding ToPaid_def ConfirmPayment_def MarkPaymentProcessing_def MarkPaymentFailed_def Let_def
  by ((intro keeps_intros; assumption?)+)

lemma keeps_notification [keeps_intros]:
  "legal_within M \<Longrightarrow> keeps M w v \<Longrightarrow> keeps M w (snd (FindPaymentNotificationOrder no v))"
  "legal_within M \<Longrightarrow> keeps M w v \<Longrightarrow> keeps M w (snd (ValidatePaymentNotificationOrder sv ord pk no m v))"
  "legal_within M \<Longrightarrow> keeps M w v \<Longrightarrow> keeps M w (snd (HandlePaymentNotification sv n pk v))"
  unfolding FindPaymentNotificationOrder_def ValidatePaymentNotificationOrder_def HandlePaymentNotification_def Let_def
  by ((intro keeps_intros; assumption?)+)

end
