(* ===== verification/OrderLifecycle.thy ===== *)
theory OrderLifecycle
  imports Confirmation
begin

text \<open>
  Closing and reconciling orders: internal/payment/order_lifecycle.go.  A payment
  provider is an argument: its key, its order query and, if it can cancel, its
  cancellation; the resolver of an order's provider is a service.  The context is
  done from an instant on, or never.
\<close>

definition LifecycleCheckPaidResultAlreadyPaid :: string where
  "LifecycleCheckPaidResultAlreadyPaid = ''already_paid''"
definition LifecycleCheckPaidResultCancelled :: string where
  "LifecycleCheckPaidResultCancelled = ''cancelled''"
definition LifecycleCheckPaidResultProcessing :: string where
  "LifecycleCheckPaidResultProcessing = ''processing''"
definition LifecycleCheckPaidResultFailed :: string where
  "LifecycleCheckPaidResultFailed = ''failed''"
definition LifecycleCheckPaidResultUncertain :: string where
  "LifecycleCheckPaidResultUncertain = ''uncertain''"

lemmas outcomes = LifecycleCheckPaidResultAlreadyPaid_def LifecycleCheckPaidResultCancelled_def
  LifecycleCheckPaidResultProcessing_def LifecycleCheckPaidResultFailed_def
  LifecycleCheckPaidResultUncertain_def

definition LifecyclePendingPaymentReconcileLimit :: nat where "LifecyclePendingPaymentReconcileLimit = 20"
definition LifecycleProcessingReconcileLimit :: nat where "LifecycleProcessingReconcileLimit = 20"
definition LifecycleFulfillmentReconcileLimit :: nat where "LifecycleFulfillmentReconcileLimit = 20"
definition LifecycleFulfillmentRetryDelay :: duration where "LifecycleFulfillmentRetryDelay = minute"
definition LifecycleProcessingStaleAfter :: duration where "LifecycleProcessingStaleAfter = 24 * hour"
definition LifecyclePaymentExpiryRetryDelay :: duration where "LifecyclePaymentExpiryRetryDelay = 15 * minute"

record QueryOrderResponse =
  qTradeNo :: string
  qStatus :: string
  qAmount :: f64
  qMetadata :: metadata

record 'g provider =
  pKey :: string
  QueryOrder :: "string \<Rightarrow> 'g \<Rightarrow> (perror, QueryOrderResponse option) result \<times> 'g"
  CancelPayment :: "(string \<Rightarrow> 'g \<Rightarrow> (perror, unit) result \<times> 'g) option"

type_synonym 'g resolver = "Order \<Rightarrow> 'g \<Rightarrow> (perror, 'g provider) result \<times> 'g"

text \<open>ctx.Err: the context is done from an instant on.\<close>

definition ctx_err :: "instant option \<Rightarrow> 'g sys conn \<Rightarrow> bool" where
  "ctx_err deadline w = (case deadline of None \<Rightarrow> False | Some t \<Rightarrow> t \<le> Now w)"

definition ContextDone :: perror where "ContextDone = Plain ''context done''"

section \<open>Asking the provider\<close>

definition PaymentOrderQueryReference :: "Order \<Rightarrow> 'g provider \<Rightarrow> string" where
  "PaymentOrderQueryReference ord prov =
     (let first = (\<lambda>a b. if a \<noteq> [] then a else b);
          snapKey = (case PsOrderProviderSnapshot ord of Some snap \<Rightarrow> trim_space (snapProviderKey snap) | None \<Rightarrow> []);
          providerKey = first (trim_space (pKey prov)) (first snapKey
            (first (trim_space (option_text (ProviderKey ord))) (trim_space (PaymentType ord))));
          tradeNo = trim_space (PaymentTradeNo ord);
          base = GetBasePaymentType providerKey
      in if base = TypeAlipay \<or> base = TypeEasyPay \<or> base = TypeWxpay then trim_space (OutTradeNo ord)
         else if base = TypeStripe then
           (if has_prefix tradeNo ''cs_'' then tradeNo
            else let invoiceID = trim_space (option_text (PaymentInvoiceID ord)) in
              if invoiceID \<noteq> [] then invoiceID
              else if tradeNo \<noteq> [] then tradeNo else trim_space (OutTradeNo ord))
         else if tradeNo \<noteq> [] then tradeNo else trim_space (OutTradeNo ord))"

definition PaymentOrderShouldPersistUpstreamTradeNo :: "string \<Rightarrow> string \<Rightarrow> string \<Rightarrow> bool" where
  "PaymentOrderShouldPersistUpstreamTradeNo queryRef upstreamTradeNo currentTradeNo =
     (let up = trim_space upstreamTradeNo in
      if up = [] then False
      else if equal_fold up (trim_space currentTradeNo) then False
      else if equal_fold up (trim_space queryRef) then False
      else True)"

definition QueryPaymentOrderWithProvider :: "'g provider \<Rightarrow> string \<Rightarrow> ('g, QueryOrderResponse) op" where
  "QueryPaymentOrderWithProvider prov queryRef w =
     (case service (QueryOrder prov queryRef) w of
        (Inl e, w) \<Rightarrow>
          if GetBasePaymentType (pKey prov) = TypeEasyPay \<and> unwraps_to e ErrProviderOrderNotFound
          then (Ok \<lparr>qTradeNo = [], qStatus = ProviderStatusPending, qAmount = f0, qMetadata = []\<rparr>, w)
          else (Err (Wrap ''query upstream payment'' e), w)
      | (Inr None, w) \<Rightarrow> (Err (Plain ''query upstream payment returned no response''), w)
      | (Inr (Some resp), w) \<Rightarrow> (Ok resp, w))"

text \<open>The provider, the reference and the answer, as far as they were reached.\<close>

definition QueryPaymentOrderProvider ::
  "'g resolver \<Rightarrow> Order \<Rightarrow> 'g sys conn
   \<Rightarrow> ('g provider option \<times> string \<times> (perror, QueryOrderResponse) result) \<times> 'g sys conn" where
  "QueryPaymentOrderProvider bindings ord w =
     (case service (bindings ord) w of
        (Inl e, w) \<Rightarrow> ((None, [], Err (Wrap ''resolve order provider'' e)), w)
      | (Inr prov, w) \<Rightarrow>
          let queryRef = PaymentOrderQueryReference ord prov in
          if queryRef = [] then ((Some prov, [], Err (Plain ''payment order has no upstream query reference'')), w)
          else case QueryPaymentOrderWithProvider prov queryRef w of
            (r, w) \<Rightarrow> ((Some prov, queryRef, r), w))"

definition RequeryPaidOrderOnce ::
  "'g provider \<Rightarrow> string \<Rightarrow> 'g sys conn \<Rightarrow> QueryOrderResponse option \<times> 'g sys conn" where
  "RequeryPaidOrderOnce prov queryRef w =
     (if trim_space queryRef = [] then (None, w)
      else case service (QueryOrder prov queryRef) w of
        (Inr (Some resp), w) \<Rightarrow>
          (if qStatus resp \<noteq> ProviderStatusPaid \<or> \<not> IsValidProviderAmount (qAmount resp) then None else Some resp, w)
      | (_, w) \<Rightarrow> (None, w))"

section \<open>Applying the answer\<close>

text \<open>The outcome text and the error are both returned; an empty outcome is the pending one.\<close>

type_synonym outcome = "string \<times> perror option"

definition error_of :: "(perror, 'a) result \<Rightarrow> perror option" where
  "error_of r = (case r of Inl e \<Rightarrow> Some e | Inr _ \<Rightarrow> None)"

definition apply_paid ::
  "'g services \<Rightarrow> Order \<Rightarrow> 'g provider \<Rightarrow> string \<Rightarrow> QueryOrderResponse \<Rightarrow> 'g sys conn \<Rightarrow> outcome \<times> 'g sys conn" where
  "apply_paid sv ord prov queryRef resp w =
     (case validateEasyPayTradeNumber ord (pKey prov) (qTradeNo resp) of
        Inl e \<Rightarrow> ((LifecycleCheckPaidResultUncertain, Some e), w)
      | Inr _ \<Rightarrow>
          let notify = (\<lambda>tradeNo w. case HandlePaymentNotification sv
                (Some \<lparr>nTradeNo = tradeNo, nOrderID = OutTradeNo ord, nAmount = qAmount resp,
                       nStatus = ProviderStatusSuccess, nMetadata = qMetadata resp\<rparr>) (pKey prov) w of
                (r, w) \<Rightarrow> ((LifecycleCheckPaidResultAlreadyPaid, error_of r), w));
              upstream = trim_space (qTradeNo resp)
          in if GetBasePaymentType (pKey prov) = TypeEasyPay then notify (qTradeNo resp) w
             else if PaymentOrderShouldPersistUpstreamTradeNo queryRef upstream (PaymentTradeNo ord) then
               (case SaveUpstreamTradeNumber (ID ord) upstream w of
                  (Inl e, w) \<Rightarrow> ((LifecycleCheckPaidResultAlreadyPaid,
                     Some (Wrap ''persist upstream trade no during checkPaid'' e)), w)
                | (Inr _, w) \<Rightarrow> notify upstream w)
             else notify (PaymentTradeNo ord) w)"

definition ApplyQueriedPaymentStatus ::
  "'g services \<Rightarrow> Order \<Rightarrow> 'g provider \<Rightarrow> string \<Rightarrow> QueryOrderResponse option \<Rightarrow> 'g sys conn
   \<Rightarrow> outcome \<times> 'g sys conn" where
  "ApplyQueriedPaymentStatus sv ord prov queryRef answer w =
     (case answer of
        None \<Rightarrow> (([], Some (Plain ''missing provider query response'')), w)
      | Some resp \<Rightarrow>
          if qStatus resp = ProviderStatusPaid then
            (if IsValidProviderAmount (qAmount resp) then apply_paid sv ord prov queryRef resp w
             else case RequeryPaidOrderOnce prov queryRef (Audit (ID ord) ''PAYMENT_INVALID_AMOUNT'' (pKey prov) w) of
               (None, w) \<Rightarrow> ((LifecycleCheckPaidResultUncertain, None), w)
             | (Some resp, w) \<Rightarrow> apply_paid sv ord prov queryRef resp w)
          else if qStatus resp = ProviderStatusProcessing then
            (let tradeNo = (if trim_space (qTradeNo resp) \<noteq> [] then trim_space (qTradeNo resp)
                            else trim_space (PaymentTradeNo ord))
             in case HandlePaymentNotification sv
                  (Some \<lparr>nTradeNo = tradeNo, nOrderID = OutTradeNo ord, nAmount = qAmount resp,
                         nStatus = ProviderStatusProcessing, nMetadata = qMetadata resp\<rparr>) (pKey prov) w of
               (r, w) \<Rightarrow> ((LifecycleCheckPaidResultProcessing, error_of r), w))
          else if qStatus resp = ProviderStatusFailed then ((LifecycleCheckPaidResultFailed, None), w)
          else (([], None), w))"

definition CheckPaid :: "'g services \<Rightarrow> 'g resolver \<Rightarrow> Order \<Rightarrow> 'g sys conn \<Rightarrow> outcome \<times> 'g sys conn" where
  "CheckPaid sv bindings ord w =
     (case QueryPaymentOrderProvider bindings ord w of
        ((Some prov, queryRef, Inr resp), w) \<Rightarrow> ApplyQueriedPaymentStatus sv ord prov queryRef (Some resp) w
      | (_, w) \<Rightarrow> (([], None), w))"

section \<open>Closing\<close>

definition PaymentStatusUnavailableError :: "perror \<Rightarrow> perror" where
  "PaymentStatusUnavailableError cause = Wrap ''PAYMENT_STATUS_UNAVAILABLE'' cause"

definition RecordPaymentCancelFailure :: "Order \<Rightarrow> 'g provider option \<Rightarrow> 'g sys conn \<Rightarrow> 'g sys conn" where
  "RecordPaymentCancelFailure ord prov w =
     (let (logged, w) = HasAudit (ID ord) ''PAYMENT_CANCEL_FAILED'' w;
          w = (if logged then w else Audit (ID ord) ''PAYMENT_CANCEL_FAILED''
                 (case prov of None \<Rightarrow> ''system'' | Some p \<Rightarrow> pKey p) w)
      in snd (TouchPending (ID ord) (Now w) w))"

definition ProcessingCancellationResult :: "string \<Rightarrow> outcome" where
  "ProcessingCancellationResult finalStatus =
     (if finalStatus = OrderStatusExpired then (LifecycleCheckPaidResultProcessing, None)
      else (LifecycleCheckPaidResultProcessing,
            Some (App ''INVALID_STATUS'' ''payment is processing and cannot be cancelled'')))"

definition FinalizePendingOrder :: "Order \<Rightarrow> string \<Rightarrow> string \<Rightarrow> 'g sys conn \<Rightarrow> outcome \<times> 'g sys conn" where
  "FinalizePendingOrder ord fs operator w =
     (case TransitionOrder (transition (ID ord) [OrderStatusPending] fs) w of
        (Inl e, w) \<Rightarrow> (([], Some (Wrap ''update order status'' e)), w)
      | (Inr c, w) \<Rightarrow>
          if 0 < c then
            ((LifecycleCheckPaidResultCancelled, None),
             Audit (ID ord) (if fs = OrderStatusExpired then ''ORDER_EXPIRED'' else ''ORDER_CANCELLED'') operator w)
          else case store_Order (ID ord) w of
            (Inl e, w) \<Rightarrow> (([], Some (Wrap ''reload order after cancellation race'' e)), w)
          | (Inr current, w) \<Rightarrow>
              (if Status current \<in> {OrderStatusPaid, OrderStatusRecharging, OrderStatusCompleted}
               then (LifecycleCheckPaidResultAlreadyPaid, None)
               else if Status current = OrderStatusProcessing then ProcessingCancellationResult fs
               else if Status current \<in> {OrderStatusCancelled, OrderStatusExpired}
               then (LifecycleCheckPaidResultCancelled, None)
               else ([], Some (Plain ''order status changed while cancelling'')), w))"

text \<open>The upstream cancellation failed: ask once more before giving up.\<close>

definition cancel_failed ::
  "'g services \<Rightarrow> Order \<Rightarrow> 'g provider \<Rightarrow> string \<Rightarrow> perror \<Rightarrow> string \<Rightarrow> string \<Rightarrow> 'g sys conn \<Rightarrow> outcome \<times> 'g sys conn" where
  "cancel_failed sv ord prov queryRef cancelErr fs operator w =
     (case QueryPaymentOrderWithProvider prov queryRef w of
        (Inl retryErr, w) \<Rightarrow>
          (([], Some (PaymentStatusUnavailableError (Wrap ''cancel upstream payment; requery'' cancelErr))),
           RecordPaymentCancelFailure ord (Some prov) w)
      | (Inr resp, w) \<Rightarrow>
          (case ApplyQueriedPaymentStatus sv ord prov queryRef (Some resp) w of
             ((out, Some e), w) \<Rightarrow> ((out, Some e), w)
           | ((out, None), w) \<Rightarrow>
               if out = LifecycleCheckPaidResultAlreadyPaid then ((out, None), w)
               else if out = LifecycleCheckPaidResultProcessing then (ProcessingCancellationResult fs, w)
               else if out = LifecycleCheckPaidResultFailed then FinalizePendingOrder ord fs operator w
               else (([], Some (PaymentStatusUnavailableError (Wrap ''cancel upstream payment'' cancelErr))),
                     RecordPaymentCancelFailure ord (Some prov) w)))"

definition CancelCore ::
  "'g services \<Rightarrow> 'g resolver \<Rightarrow> Order \<Rightarrow> string \<Rightarrow> string \<Rightarrow> 'g sys conn \<Rightarrow> outcome \<times> 'g sys conn" where
  "CancelCore sv bindings ord fs operator w =
     (if PaymentTradeNo ord = [] \<and> PaymentType ord = [] then FinalizePendingOrder ord fs operator w
      else case QueryPaymentOrderProvider bindings ord w of
        ((prov, queryRef, Inl e), w) \<Rightarrow>
          (([], Some (PaymentStatusUnavailableError e)), RecordPaymentCancelFailure ord prov w)
      | ((None, queryRef, Inr resp), w) \<Rightarrow> FinalizePendingOrder ord fs operator w
      | ((Some prov, queryRef, Inr resp), w) \<Rightarrow>
          (case ApplyQueriedPaymentStatus sv ord prov queryRef (Some resp) w of
             ((out, Some e), w) \<Rightarrow> ((out, Some e), w)
           | ((out, None), w) \<Rightarrow>
               if out = LifecycleCheckPaidResultAlreadyPaid then ((out, None), w)
               else if out = LifecycleCheckPaidResultProcessing then (ProcessingCancellationResult fs, w)
               else if out = LifecycleCheckPaidResultUncertain then
                 (([], Some (Plain ''provider returned an invalid paid response'')),
                  RecordPaymentCancelFailure ord (Some prov) w)
               else if out = LifecycleCheckPaidResultFailed then FinalizePendingOrder ord fs operator w
               else case CancelPayment prov of
                 None \<Rightarrow> FinalizePendingOrder ord fs operator w
               | Some cancel \<Rightarrow>
                   (case service (cancel queryRef) w of
                      (Inr _, w) \<Rightarrow> FinalizePendingOrder ord fs operator w
                    | (Inl cancelErr, w) \<Rightarrow> cancel_failed sv ord prov queryRef cancelErr fs operator w)))"

definition CancelOrder ::
  "'g services \<Rightarrow> 'g resolver \<Rightarrow> int \<Rightarrow> int \<Rightarrow> 'g sys conn \<Rightarrow> outcome \<times> 'g sys conn" where
  "CancelOrder sv bindings orderID userID w =
     (case store_Order orderID w of
        (Inl e, w) \<Rightarrow> (([], Some (App ''NOT_FOUND'' ''order not found'')), w)
      | (Inr ord, w) \<Rightarrow>
          if UserID ord \<noteq> userID then (([], Some (App ''FORBIDDEN'' ''no permission for this order'')), w)
          else if Status ord \<noteq> OrderStatusPending
          then (([], Some (App ''INVALID_STATUS'' ''order cannot be cancelled in current status'')), w)
          else CancelCore sv bindings ord OrderStatusCancelled (''user:'' @ dec userID) w)"

definition AdminCancelOrder ::
  "'g services \<Rightarrow> 'g resolver \<Rightarrow> int \<Rightarrow> 'g sys conn \<Rightarrow> outcome \<times> 'g sys conn" where
  "AdminCancelOrder sv bindings orderID w =
     (case store_Order orderID w of
        (Inl e, w) \<Rightarrow> (([], Some (App ''NOT_FOUND'' ''order not found'')), w)
      | (Inr ord, w) \<Rightarrow>
          if Status ord \<noteq> OrderStatusPending
          then (([], Some (App ''INVALID_STATUS'' ''order cannot be cancelled in current status'')), w)
          else CancelCore sv bindings ord OrderStatusCancelled ''admin'' w)"

text \<open>The rune count of valid UTF-8 text: its bytes that are no continuation bytes.\<close>

definition rune_count :: "string \<Rightarrow> nat" where
  "rune_count s = length (filter (\<lambda>c. \<not> (128 \<le> (of_char c :: nat) \<and> (of_char c :: nat) < 192)) s)"

definition ForceExpireOrder :: "int \<Rightarrow> string \<Rightarrow> ('g, unit) op" where
  "ForceExpireOrder orderID reason w =
     (let reason = trim_space reason in
      if reason = [] \<or> 500 < rune_count reason
      then (Err (App ''INVALID_FORCE_EXPIRE_REASON'' ''force expiration reason is invalid''), w)
      else store_ForceExpire orderID w)"

section \<open>Reconciliation\<close>

definition NormalizeOrderLookupOutTradeNo :: "string \<Rightarrow> (perror, string) result" where
  "NormalizeOrderLookupOutTradeNo raw =
     (let no = trim_space raw; code = (\<lambda>c. of_char c :: nat) in
      if no = [] then Err (App ''INVALID_OUT_TRADE_NO'' ''out_trade_no is required'')
      else if 64 < length no then Err (App ''INVALID_OUT_TRADE_NO'' ''out_trade_no is invalid'')
      else if list_all (\<lambda>c. (97 \<le> code c \<and> code c \<le> 122) \<or> (65 \<le> code c \<and> code c \<le> 90) \<or>
                (48 \<le> code c \<and> code c \<le> 57) \<or> c = CHR ''_'' \<or> c = CHR ''-'') no
      then Ok no else Err (App ''INVALID_OUT_TRADE_NO'' ''out_trade_no is invalid''))"

definition VerifyOrderByOutTradeNo ::
  "'g services \<Rightarrow> 'g resolver \<Rightarrow> string \<Rightarrow> int \<Rightarrow> ('g, Order) op" where
  "VerifyOrderByOutTradeNo sv bindings outTradeNo userID w =
     (case NormalizeOrderLookupOutTradeNo outTradeNo of
        Inl e \<Rightarrow> (Err e, w)
      | Inr no \<Rightarrow>
          (case store_OrderByTradeNumber no w of
             (Inl e, w) \<Rightarrow> (Err (App ''NOT_FOUND'' ''order not found''), w)
           | (Inr ord, w) \<Rightarrow>
               if UserID ord \<noteq> userID then (Err (App ''FORBIDDEN'' ''no permission for this order''), w)
               else if Status ord = OrderStatusPending \<or> Status ord = OrderStatusExpired then
                 (case CheckPaid sv bindings ord w of
                    ((out, Some e), w) \<Rightarrow> (Err e, w)
                  | ((out, None), w) \<Rightarrow>
                      if out = LifecycleCheckPaidResultAlreadyPaid \<or> out = LifecycleCheckPaidResultProcessing then
                        (case store_Order (ID ord) w of
                           (Inl e, w) \<Rightarrow> (Err (Wrap ''reload order'' e), w)
                         | (Inr ord, w) \<Rightarrow> (Ok ord, w))
                      else (Ok ord, w))
               else (Ok ord, w)))"

definition VerifyOrderPublic :: "string \<Rightarrow> ('g, Order) op" where
  "VerifyOrderPublic outTradeNo w =
     (case NormalizeOrderLookupOutTradeNo outTradeNo of
        Inl e \<Rightarrow> (Err e, w)
      | Inr no \<Rightarrow>
          (case store_OrderByTradeNumber no w of
             (Inl e, w) \<Rightarrow> (Err (App ''NOT_FOUND'' ''order not found''), w)
           | (Inr ord, w) \<Rightarrow> (Ok ord, w)))"

text \<open>The count reached so far and an error, as Go returns both.\<close>

type_synonym count = "nat \<times> perror option"

fun reconcile_pending_loop ::
  "'g services \<Rightarrow> 'g resolver \<Rightarrow> instant option \<Rightarrow> Order list \<Rightarrow> nat \<Rightarrow> 'g sys conn \<Rightarrow> count \<times> 'g sys conn" where
  "reconcile_pending_loop sv bindings deadline [] recovered w = ((recovered, None), w)"
| "reconcile_pending_loop sv bindings deadline (ord # os) recovered w =
     (if ctx_err deadline w then ((recovered, Some ContextDone), w)
      else case CheckPaid sv bindings ord w of
        ((out, Some e), w) \<Rightarrow> reconcile_pending_loop sv bindings deadline os recovered w
      | ((out, None), w) \<Rightarrow> reconcile_pending_loop sv bindings deadline os
          (if out = LifecycleCheckPaidResultAlreadyPaid then recovered + 1 else recovered) w)"

definition ReconcilePendingPaymentOrders ::
  "'g services \<Rightarrow> 'g resolver \<Rightarrow> instant option \<Rightarrow> 'g sys conn \<Rightarrow> count \<times> 'g sys conn" where
  "ReconcilePendingPaymentOrders sv bindings deadline w =
     (case PendingReconciliation (Now w) LifecyclePendingPaymentReconcileLimit w of
        (Inl e, w) \<Rightarrow> ((0, Some (Wrap ''query pending payment orders'' e)), w)
      | (Inr os, w) \<Rightarrow> reconcile_pending_loop sv bindings deadline os 0 w)"

definition ShouldRetryTimedOutOrder :: "Order \<Rightarrow> instant \<Rightarrow> 'g sys conn \<Rightarrow> bool \<times> 'g sys conn" where
  "ShouldRetryTimedOutOrder ord now w =
     (let (logged, w) = HasAudit (ID ord) ''PAYMENT_CANCEL_FAILED'' w in
      (if \<not> logged then True else \<not> now - LifecyclePaymentExpiryRetryDelay < UpdatedAt ord, w))"

fun expire_loop ::
  "'g services \<Rightarrow> 'g resolver \<Rightarrow> instant option \<Rightarrow> instant \<Rightarrow> Order list \<Rightarrow> nat \<Rightarrow> 'g sys conn \<Rightarrow> count \<times> 'g sys conn" where
  "expire_loop sv bindings deadline now [] n w = ((n, None), w)"
| "expire_loop sv bindings deadline now (ord # os) n w =
     (if ctx_err deadline w then ((n, Some ContextDone), w)
      else case ShouldRetryTimedOutOrder ord now w of
        (False, w) \<Rightarrow> expire_loop sv bindings deadline now os n w
      | (True, w) \<Rightarrow>
          (case CancelCore sv bindings ord OrderStatusExpired ''system'' w of
             ((out, Some e), w) \<Rightarrow> expire_loop sv bindings deadline now os n w
           | ((out, None), w) \<Rightarrow> expire_loop sv bindings deadline now os
               (if out = LifecycleCheckPaidResultCancelled then n + 1 else n) w))"

definition ExpireTimedOutOrdersAt ::
  "'g services \<Rightarrow> 'g resolver \<Rightarrow> instant option \<Rightarrow> instant \<Rightarrow> 'g sys conn \<Rightarrow> count \<times> 'g sys conn" where
  "ExpireTimedOutOrdersAt sv bindings deadline now w =
     (case ExpiredPending now w of
        (Inl e, w) \<Rightarrow> ((0, Some (Wrap ''query expired'' e)), w)
      | (Inr os, w) \<Rightarrow> expire_loop sv bindings deadline now os 0 w)"

definition ExpireTimedOutOrders ::
  "'g services \<Rightarrow> 'g resolver \<Rightarrow> instant option \<Rightarrow> 'g sys conn \<Rightarrow> count \<times> 'g sys conn" where
  "ExpireTimedOutOrders sv bindings deadline w = ExpireTimedOutOrdersAt sv bindings deadline (Now w) w"

section \<open>Pages\<close>

definition ReconcilePageIDs :: "int list \<Rightarrow> nat \<Rightarrow> nat \<Rightarrow> int list" where
  "ReconcilePageIDs ids cursor limit =
     (if length ids = 0 \<or> limit = 0 then []
      else if length ids \<le> limit then ids
      else let pageCount = (length ids + limit - 1) div limit;
               page = cursor mod pageCount;
               start = page * limit;
               e = min (start + limit) (length ids)
           in take (e - start) (drop start ids))"

text \<open>The cursor is a uint64 under a mutex; it advances only when the pages rotate.\<close>

definition NextReconcilePageIDs :: "int list \<Rightarrow> nat \<Rightarrow> nat \<Rightarrow> int list \<times> nat" where
  "NextReconcilePageIDs ids cursor limit =
     (ReconcilePageIDs ids cursor limit,
      if limit < length ids then (cursor + 1) mod 2 ^ 64 else cursor)"

definition MaybeAuditStaleProcessingOrder :: "Order \<Rightarrow> instant \<Rightarrow> 'g sys conn \<Rightarrow> 'g sys conn" where
  "MaybeAuditStaleProcessingOrder ord now w =
     (if now - LifecycleProcessingStaleAfter < UpdatedAt ord then w
      else case HasAudit (ID ord) ''PAYMENT_PROCESSING_STALE'' w of
        (True, w) \<Rightarrow> w
      | (False, w) \<Rightarrow> Audit (ID ord) ''PAYMENT_PROCESSING_STALE'' ''system'' w)"

fun reconcile_processing_loop ::
  "'g services \<Rightarrow> 'g resolver \<Rightarrow> instant option \<Rightarrow> instant \<Rightarrow> Order list \<Rightarrow> nat \<Rightarrow> 'g sys conn \<Rightarrow> count \<times> 'g sys conn" where
  "reconcile_processing_loop sv bindings deadline now [] recovered w = ((recovered, None), w)"
| "reconcile_processing_loop sv bindings deadline now (ord # os) recovered w =
     (if ctx_err deadline w then ((recovered, Some ContextDone), w)
      else case QueryPaymentOrderProvider bindings ord w of
        ((Some prov, queryRef, Inr resp), w) \<Rightarrow>
          (case ApplyQueriedPaymentStatus sv ord prov queryRef (Some resp) w of
             ((out, Some e), w) \<Rightarrow> reconcile_processing_loop sv bindings deadline now os recovered w
           | ((out, None), w) \<Rightarrow>
               if out = LifecycleCheckPaidResultAlreadyPaid
               then reconcile_processing_loop sv bindings deadline now os (recovered + 1) w
               else if out = LifecycleCheckPaidResultFailed
               then reconcile_processing_loop sv bindings deadline now os recovered
                      (snd (MarkPaymentFailed ord (qTradeNo resp) (pKey prov) w))
               else reconcile_processing_loop sv bindings deadline now os recovered
                      (MaybeAuditStaleProcessingOrder ord now w))
      | (_, w) \<Rightarrow> reconcile_processing_loop sv bindings deadline now os recovered
                    (MaybeAuditStaleProcessingOrder ord now w))"

definition ReconcileProcessingOrdersAt ::
  "'g services \<Rightarrow> 'g resolver \<Rightarrow> instant option \<Rightarrow> instant \<Rightarrow> nat \<Rightarrow> 'g sys conn \<Rightarrow> (count \<times> nat) \<times> 'g sys conn" where
  "ReconcileProcessingOrdersAt sv bindings deadline now cursor w =
     (case ProcessingIDs w of
        (Inl e, w) \<Rightarrow> (((0, Some (Wrap ''query processing payment order ids'' e)), cursor), w)
      | (Inr ids, w) \<Rightarrow>
          let (pageIDs, cursor) = NextReconcilePageIDs ids cursor LifecycleProcessingReconcileLimit in
          if length pageIDs = 0 then (((0, None), cursor), w)
          else case ProcessingOrders pageIDs w of
            (Inl e, w) \<Rightarrow> (((0, Some (Wrap ''query processing payment orders'' e)), cursor), w)
          | (Inr os, w) \<Rightarrow>
              (case reconcile_processing_loop sv bindings deadline now os 0 w of (c, w) \<Rightarrow> ((c, cursor), w)))"

fun reconcile_paid_loop ::
  "'g services \<Rightarrow> instant option \<Rightarrow> int list \<Rightarrow> nat \<Rightarrow> 'g sys conn \<Rightarrow> count \<times> 'g sys conn" where
  "reconcile_paid_loop sv deadline [] recovered w = ((recovered, None), w)"
| "reconcile_paid_loop sv deadline (i # is) recovered w =
     (if ctx_err deadline w then ((recovered, Some ContextDone), w)
      else case ExecuteFulfillment sv i w of
        (Inl e, w) \<Rightarrow> reconcile_paid_loop sv deadline is recovered w
      | (Inr _, w) \<Rightarrow>
          (case store_Order i w of
             (Inl e, w) \<Rightarrow> reconcile_paid_loop sv deadline is recovered w
           | (Inr ord, w) \<Rightarrow> reconcile_paid_loop sv deadline is
               (if Status ord = OrderStatusCompleted then recovered + 1 else recovered) w))"

definition ReconcilePaidFulfillmentOrdersAt ::
  "'g services \<Rightarrow> instant option \<Rightarrow> instant \<Rightarrow> nat \<Rightarrow> 'g sys conn \<Rightarrow> (count \<times> nat) \<times> 'g sys conn" where
  "ReconcilePaidFulfillmentOrdersAt sv deadline now cursor w =
     (case RecoverableFulfillmentIDs now LifecycleFulfillmentRetryDelay FulfillmentLeaseDuration w of
        (Inl e, w) \<Rightarrow> (((0, Some (Wrap ''query paid fulfillment order ids'' e)), cursor), w)
      | (Inr ids, w) \<Rightarrow>
          let (pageIDs, cursor) = NextReconcilePageIDs ids cursor LifecycleFulfillmentReconcileLimit in
          if length pageIDs = 0 then (((0, None), cursor), w)
          else case reconcile_paid_loop sv deadline pageIDs 0 w of (c, w) \<Rightarrow> ((c, cursor), w))"

definition ReconcileProcessingOrders ::
  "'g services \<Rightarrow> 'g resolver \<Rightarrow> instant option \<Rightarrow> nat \<Rightarrow> 'g sys conn \<Rightarrow> (count \<times> nat) \<times> 'g sys conn" where
  "ReconcileProcessingOrders sv bindings deadline cursor w =
     ReconcileProcessingOrdersAt sv bindings deadline (Now w) cursor w"

definition ReconcilePaidFulfillmentOrders ::
  "'g services \<Rightarrow> instant option \<Rightarrow> nat \<Rightarrow> 'g sys conn \<Rightarrow> (count \<times> nat) \<times> 'g sys conn" where
  "ReconcilePaidFulfillmentOrders sv deadline cursor w =
     ReconcilePaidFulfillmentOrdersAt sv deadline (Now w) cursor w"

end
