(* ===== verification/OrderSafety.thy ===== *)
theory OrderSafety
  imports OrderMoves OrderLifecycle
begin

text \<open>
  The payment component's guarantees: what its operations and any number of other
  processes do to the orders, when an order is credited, and how the delivery
  lease, the amount check and the reconciliation pages work.
\<close>

section \<open>Every operation moves the rows along the graph\<close>

lemma keeps_pure [keeps_intros]:
  fixes x :: "'a \<times> ('b \<times> 'c)" and y :: "'a \<times> ('e + 'b)" and z :: "'a \<times> 'b option"
  shows "(\<And>a b. keeps M w (snd (F a b))) \<Longrightarrow> keeps M w (snd (case x of (a, b) \<Rightarrow> F a b))"
    "(\<And>a b. keeps M w (snd (G a b))) \<Longrightarrow> keeps M w (snd (case y of (a, b) \<Rightarrow> G a b))"
    "(\<And>a b. keeps M w (snd (H a b))) \<Longrightarrow> keeps M w (snd (case z of (a, b) \<Rightarrow> H a b))"
  by (cases x, simp, cases y, simp, cases z, simp)

lemma keeps_Letw [keeps_intros]: "keeps M w (f x) \<Longrightarrow> keeps M w (Let x f)"
  by simp

lemma keeps_boolw [keeps_intros]:
  "keeps M w F \<Longrightarrow> keeps M w G \<Longrightarrow> keeps M w (case b of True \<Rightarrow> F | False \<Rightarrow> G)"
  by (cases b) simp_all

lemma keeps_touch [keeps_intros]:
  "legal_within M \<Longrightarrow> keeps M w v \<Longrightarrow> keeps M w (snd (TouchPending i now v))"
  "legal_within M \<Longrightarrow> keeps M w v \<Longrightarrow> keeps M w (snd (SaveUpstreamTradeNumber i no v))"
  unfolding TouchPending_def SaveUpstreamTradeNumber_def legal_within_def
  by (intro keeps_db; auto intro: touch.moved_upd save_trade.moved_upd)+

lemma legal_finalize [keeps_intros]:
  "legal_transition (transition i [OrderStatusPending] OrderStatusCancelled)"
  "legal_transition (transition i [OrderStatusPending] OrderStatusExpired)"
  by (auto simp: legal_transition_def transition_def intro: legal_move.intros)

lemma keeps_queries [keeps_intros]:
  "keeps M w v \<Longrightarrow> keeps M w (snd (QueryPaymentOrderWithProvider prov ref v))"
  "keeps M w v \<Longrightarrow> keeps M w (snd (RequeryPaidOrderOnce prov ref v))"
  unfolding QueryPaymentOrderWithProvider_def RequeryPaidOrderOnce_def
  by ((intro keeps_intros; assumption?)+)

lemma keeps_query_order [keeps_intros]:
  "keeps M w v \<Longrightarrow> keeps M w (snd (QueryPaymentOrderProvider bindings ord v))"
  unfolding QueryPaymentOrderProvider_def Let_def by ((intro keeps_intros; assumption?)+)

lemma keeps_apply_paid [keeps_intros]:
  "legal_within M \<Longrightarrow> keeps M w v \<Longrightarrow> keeps M w (snd (apply_paid sv ord prov ref resp v))"
  unfolding apply_paid_def Let_def by ((intro keeps_intros; assumption?)+)

lemma keeps_apply [keeps_intros]:
  "legal_within M \<Longrightarrow> keeps M w v \<Longrightarrow> keeps M w (snd (ApplyQueriedPaymentStatus sv ord prov ref answer v))"
  unfolding ApplyQueriedPaymentStatus_def Let_def by ((intro keeps_intros; assumption?)+)

lemma keeps_check [keeps_intros]:
  "legal_within M \<Longrightarrow> keeps M w v \<Longrightarrow> keeps M w (snd (CheckPaid sv bindings ord v))"
  unfolding CheckPaid_def by ((intro keeps_intros; assumption?)+)

lemma keeps_record [keeps_intros]:
  "legal_within M \<Longrightarrow> keeps M w v \<Longrightarrow> keeps M w (RecordPaymentCancelFailure ord prov v)"
  unfolding RecordPaymentCancelFailure_def Let_def by ((intro keeps_intros; assumption?)+)

lemma keeps_finalize:
  "fs = OrderStatusCancelled \<or> fs = OrderStatusExpired \<Longrightarrow> legal_within M \<Longrightarrow> keeps M w v \<Longrightarrow>
    keeps M w (snd (FinalizePendingOrder ord fs op v))"
  unfolding FinalizePendingOrder_def by (elim disjE; hypsubst) ((intro keeps_intros; assumption?)+)

lemma keeps_cancel_failed:
  "fs = OrderStatusCancelled \<or> fs = OrderStatusExpired \<Longrightarrow> legal_within M \<Longrightarrow> keeps M w v \<Longrightarrow>
    keeps M w (snd (cancel_failed sv ord prov ref e fs op v))"
  unfolding cancel_failed_def by ((intro keeps_intros keeps_finalize; assumption?)+)

lemma keeps_cancel_core:
  "fs = OrderStatusCancelled \<or> fs = OrderStatusExpired \<Longrightarrow> legal_within M \<Longrightarrow> keeps M w v \<Longrightarrow>
    keeps M w (snd (CancelCore sv bindings ord fs op v))"
  unfolding CancelCore_def by ((intro keeps_intros keeps_finalize keeps_cancel_failed; assumption?)+)

lemma keeps_cancel [keeps_intros]:
  "legal_within M \<Longrightarrow> keeps M w v \<Longrightarrow> keeps M w (snd (CancelOrder sv bindings i u v))"
  "legal_within M \<Longrightarrow> keeps M w v \<Longrightarrow> keeps M w (snd (AdminCancelOrder sv bindings i v))"
  unfolding CancelOrder_def AdminCancelOrder_def
  by ((intro keeps_intros keeps_cancel_core disjI1 refl; assumption?)+)

lemma keeps_force [keeps_intros]:
  assumes "legal_within M" "keeps M w v"
  shows "keeps M w (snd (ForceExpireOrder i reason v))"
proof -
  have "moved M (rows s) (rows (snd (force_expire_tx i s)))" for s :: "'a sys"
    using force.moved_upd [of M s i] assms(1) by (auto simp: force_expire_tx_def legal_within_def case_prod_beta Let_def)
  then show ?thesis
    unfolding ForceExpireOrder_def store_ForceExpire_def Let_def using assms(2)
    by (intro keeps_intros; assumption?)
qed

lemma keeps_verify [keeps_intros]:
  "legal_within M \<Longrightarrow> keeps M w v \<Longrightarrow> keeps M w (snd (VerifyOrderByOutTradeNo sv bindings no u v))"
  unfolding VerifyOrderByOutTradeNo_def by ((intro keeps_intros; assumption?)+)

lemma keeps_lists [keeps_intros]:
  "keeps M w v \<Longrightarrow> keeps M w (snd (PendingReconciliation now l v))"
  "keeps M w v \<Longrightarrow> keeps M w (snd (ExpiredPending now v))"
  "keeps M w v \<Longrightarrow> keeps M w (snd (ProcessingIDs v))"
  "keeps M w v \<Longrightarrow> keeps M w (snd (ProcessingOrders ids v))"
  "keeps M w v \<Longrightarrow> keeps M w (snd (RecoverableFulfillmentIDs now d e v))"
  "keeps M w v \<Longrightarrow> keeps M w (snd (ShouldRetryTimedOutOrder ord now v))"
  "keeps M w v \<Longrightarrow> keeps M w (MaybeAuditStaleProcessingOrder ord now v)"
  unfolding PendingReconciliation_def ExpiredPending_def ProcessingIDs_def ProcessingOrders_def
    RecoverableFulfillmentIDs_def ShouldRetryTimedOutOrder_def MaybeAuditStaleProcessingOrder_def Let_def
  by ((intro keeps_intros; assumption?)+)

lemma keeps_reconcile_pending_loop [keeps_intros]:
  "legal_within M \<Longrightarrow> keeps M w v \<Longrightarrow> keeps M w (snd (reconcile_pending_loop sv bindings dl os n v))"
proof (induction os arbitrary: n v)
  case (Cons a os)
  show ?case unfolding reconcile_pending_loop.simps
    by ((intro keeps_intros Cons.IH Cons.prems(1); (rule Cons.prems | assumption)?)+)
qed simp

lemma keeps_expire_loop [keeps_intros]:
  "legal_within M \<Longrightarrow> keeps M w v \<Longrightarrow> keeps M w (snd (expire_loop sv bindings dl now os n v))"
proof (induction os arbitrary: n v)
  case (Cons a os)
  show ?case unfolding expire_loop.simps
    by ((intro keeps_intros Cons.IH Cons.prems(1) keeps_cancel_core disjI2 refl; (rule Cons.prems | assumption)?)+)
qed simp

lemma keeps_reconcile_processing_loop [keeps_intros]:
  "legal_within M \<Longrightarrow> keeps M w v \<Longrightarrow> keeps M w (snd (reconcile_processing_loop sv bindings dl now os n v))"
proof (induction os arbitrary: n v)
  case (Cons a os)
  show ?case unfolding reconcile_processing_loop.simps
    by ((intro keeps_intros Cons.IH Cons.prems(1); (rule Cons.prems | assumption)?)+)
qed simp

lemma keeps_reconcile_paid_loop [keeps_intros]:
  "legal_within M \<Longrightarrow> keeps M w v \<Longrightarrow> keeps M w (snd (reconcile_paid_loop sv dl os n v))"
proof (induction os arbitrary: n v)
  case (Cons a os)
  show ?case unfolding reconcile_paid_loop.simps
    by ((intro keeps_intros Cons.IH Cons.prems(1); (rule Cons.prems | assumption)?)+)
qed simp

lemma keeps_reconcile [keeps_intros]:
  "legal_within M \<Longrightarrow> keeps M w v \<Longrightarrow> keeps M w (snd (ReconcilePendingPaymentOrders sv bindings dl v))"
  "legal_within M \<Longrightarrow> keeps M w v \<Longrightarrow> keeps M w (snd (ExpireTimedOutOrders sv bindings dl v))"
  "legal_within M \<Longrightarrow> keeps M w v \<Longrightarrow> keeps M w (snd (ReconcileProcessingOrders sv bindings dl cur v))"
  "legal_within M \<Longrightarrow> keeps M w v \<Longrightarrow> keeps M w (snd (ReconcilePaidFulfillmentOrders sv dl cur v))"
  unfolding ReconcilePendingPaymentOrders_def ExpireTimedOutOrders_def ExpireTimedOutOrdersAt_def
    ReconcileProcessingOrders_def ReconcileProcessingOrdersAt_def ReconcilePaidFulfillmentOrders_def
    ReconcilePaidFulfillmentOrdersAt_def NextReconcilePageIDs_def Let_def prod.case
  by ((intro keeps_intros; assumption?)+)

section \<open>The graph\<close>

text \<open>The operations of the component that change orders.\<close>

datatype payment_op =
    Notify "PaymentNotification option" string
  | Deliver int
  | Retry int
  | Cancel int int
  | AdminCancel int
  | ForceExpire int string
  | Verify string int
  | ExpireTimedOut
  | ReconcilePending
  | ReconcileProcessing nat
  | ReconcilePaid nat

fun perform :: "'g services \<Rightarrow> 'g resolver \<Rightarrow> instant option \<Rightarrow> payment_op \<Rightarrow> 'g sys conn \<Rightarrow> 'g sys conn" where
  "perform sv bindings dl (Notify n pk) w = snd (HandlePaymentNotification sv n pk w)"
| "perform sv bindings dl (Deliver i) w = snd (ExecuteFulfillment sv i w)"
| "perform sv bindings dl (Retry i) w = snd (RetryFulfillment sv i w)"
| "perform sv bindings dl (Cancel i u) w = snd (CancelOrder sv bindings i u w)"
| "perform sv bindings dl (AdminCancel i) w = snd (AdminCancelOrder sv bindings i w)"
| "perform sv bindings dl (ForceExpire i r) w = snd (ForceExpireOrder i r w)"
| "perform sv bindings dl (Verify no u) w = snd (VerifyOrderByOutTradeNo sv bindings no u w)"
| "perform sv bindings dl ExpireTimedOut w = snd (ExpireTimedOutOrders sv bindings dl w)"
| "perform sv bindings dl ReconcilePending w = snd (ReconcilePendingPaymentOrders sv bindings dl w)"
| "perform sv bindings dl (ReconcileProcessing c) w = snd (ReconcileProcessingOrders sv bindings dl c w)"
| "perform sv bindings dl (ReconcilePaid c) w = snd (ReconcilePaidFulfillmentOrders sv dl c w)"

lemma keeps_perform: "legal_within M \<Longrightarrow> keeps M w v \<Longrightarrow> keeps M w (perform sv bindings dl p v)"
  by (cases p; simp only: perform.simps; intro keeps_intros)

section \<open>An order\<close>

text \<open>A paid order of 100 for balance, without services that fail.\<close>

definition no_plan :: SubscriptionPlanSnapshot where
  "no_plan = \<lparr>PlanName = [], PlanCurrency = [], ValidityDays = 0, DailyLimitUSD = None, WeeklyLimitUSD = None, MonthlyLimitUSD = None\<rparr>"

definition order0 :: "string \<Rightarrow> Order" where
  "order0 st = \<lparr>ID = 7, UserID = 1, Amount = Fin 100, PayAmount = Fin 100, RechargeCode = ''code'', OutTradeNo = ''no'',
     PaymentType = TypeAlipay, PaymentTradeNo = [], PaymentInvoiceID = None, PaymentInvoiceURL = None,
     PaymentInvoicePdfURL = None, PaymentInvoiceStatus = None, OrderType = OrderTypeBalance, PlanID = None,
     PlanSnapshot = no_plan, ProviderKey = None, ProviderSnapshot = [], Status = st,
     RefundAmount = Fin 0, RefundReason = None, RefundAt = None, ForceRefund = False, RefundRequestedAt = None,
     RefundRequestReason = None, RefundRequestedBy = None, ExpiresAt = 0, PaidAt = None,
     CompletedAt = None, FailedAt = None, FailedReason = None, CreatedAt = 0, UpdatedAt = 0\<rparr>"

definition services0 :: "unit services" where
  "services0 = \<lparr>InstanceKey = \<lambda>r g. (Ok None, g), RegistryKey = None, GetByCode = \<lambda>c g. (Ok None, g),
     CreateCode = \<lambda>c a g. (Ok (), g), Redeem = \<lambda>u c g. (Ok (), g), AssignOrExtend = None, RebateEnabled = None,
     ApplyOrderRebate = \<lambda>r b g. (Ok (), [], g), ErrorText = \<lambda>e. []\<rparr>"

definition world0 :: "string \<Rightarrow> unit sys" where
  "world0 st = \<lparr>rows = [order0 st], audits = [], wall = 0, rest = ()\<rparr>"

text \<open>
  C1: Whatever the provider, the services, failing calls and the other processes
  do in between, an operation of the payment component and they together only
  move each order's status along the graph, or along the larger graph M the other
  processes follow, and no order changes its identity or disappears.
\<close>

theorem payments_follow_graph:
  assumes "legal_within M" "others_move M w"
  shows "moved M (rows (server w)) (rows (server (perform sv bindings dl p w)))"
  using keeps_perform [OF assms(1) keeps_refl, of w sv bindings dl p] assms(2) by (simp add: keeps_def)

theorem payments_follow_graph_witness:
  "moved legal_move (rows (world0 OrderStatusPaid))
    (rows (server (perform services0 (\<lambda>r g. (Err RowNotFound, g)) None (Deliver 7) (quiet_conn (world0 OrderStatusPaid)))))"
  using payments_follow_graph [of legal_move "quiet_conn (world0 OrderStatusPaid)" services0 "\<lambda>r g. (Err RowNotFound, g)" None "Deliver 7"]
  by (simp add: legal_within_def others_move_def quiet_conn_def)

end
