(* ===== verification/Delivery.thy ===== *)
theory Delivery
  imports OrderSafety
begin

text \<open>
  What one payment operation does when no other process interferes and the
  database answers: the lease and its takeover, the outcome of a delivery, the
  guards of a confirmation, and the pages of the reconciliation.
\<close>

section \<open>Alone on the connection\<close>

lemma db_quiet [simp]: "db_call f (quiet_conn s) = (Ok (fst (f s)), quiet_conn (snd (f s)))"
  by (simp add: db_call_def split: prod.split)

lemma store_quiet [simp]:
  "store_Order i (quiet_conn s) = (only_row (filter (\<lambda>r. ID r = i) (rows s)), quiet_conn s)"
  "store_OrderByTradeNumber no (quiet_conn s) = (only_row (filter (\<lambda>r. OutTradeNo r = no) (rows s)), quiet_conn s)"
  "Audit i a operator (quiet_conn s) = quiet_conn (add_audit i a operator JOther s)"
  "HasAudit i a (quiet_conn s) = (has_audit i a s, quiet_conn s)"
  "Now (quiet_conn s) = wall s"
  by (simp_all add: store_Order_def store_OrderByTradeNumber_def Audit_def HasAudit_def Now_def reads_def writes_def)

lemma update_quiet:
  "TransitionOrder c (quiet_conn s) = (Ok (fst (update_rows (transition_guard c) (transition_effect c) s)),
     quiet_conn (snd (update_rows (transition_guard c) (transition_effect c) s)))"
  "ClaimFulfillment i now stale (quiet_conn s) = (Ok (fst (update_rows (claim_guard i stale) (\<lambda>_. claim_effect now) s)),
     quiet_conn (snd (update_rows (claim_guard i stale) (\<lambda>_. claim_effect now) s)))"
  by (simp_all add: TransitionOrder_def ClaimFulfillment_def)

text \<open>The row of an order, and a conditional update of it.\<close>

definition row :: "int \<Rightarrow> 'g sys \<Rightarrow> Order \<Rightarrow> bool" where
  "row i s r \<longleftrightarrow> filter (\<lambda>x. ID x = i) (rows s) = [r]"

lemma row_ID: "row i s r \<Longrightarrow> ID r = i"
proof -
  assume "row i s r"
  then have "set (filter (\<lambda>x. ID x = i) (rows s)) = {r}" by (simp add: row_def)
  then show "ID r = i" by auto
qed

lemma row_update:
  assumes "row i s r" "\<And>x. guard x \<Longrightarrow> ID x = i" "\<And>x t. ID (eff t x) = ID x"
  shows "fst (update_rows guard eff s) = (if guard r then 1 else 0)"
    and "row i (snd (update_rows guard eff s)) (if guard r then eff (db_us (wall s)) r else r)"
    and "\<not> guard r \<Longrightarrow> snd (update_rows guard eff s) = s"
proof -
  have g: "filter guard (rows s) = filter guard [r]"
  proof -
    have "filter guard (filter (\<lambda>x. ID x = i) (rows s)) = filter guard (rows s)"
      unfolding filter_filter using assms(2) by (intro filter_cong) auto
    then show ?thesis using assms(1) by (simp only: row_def)
  qed
  then show "fst (update_rows guard eff s) = (if guard r then 1 else 0)"
    by (simp add: update_rows_def)
  let ?f = "\<lambda>x. if guard x then eff (db_us (wall s)) x else x"
  have "filter (\<lambda>x. ID x = i) (map ?f xs) = map ?f (filter (\<lambda>x. ID x = i) xs)" for xs
    using assms(3) by (induction xs) auto
  then show "row i (snd (update_rows guard eff s)) (?f r)"
    using assms(1) by (simp add: row_def update_rows_def)
  show "snd (update_rows guard eff s) = s" if "\<not> guard r"
  proof -
    have "\<forall>x \<in> set (rows s). \<not> guard x" using g that by (simp add: filter_empty_conv)
    then show ?thesis by (auto simp: update_rows_def map_idI intro!: sys.equality)
  qed
qed

lemma only_row_row [simp]: "row i s r \<Longrightarrow> only_row (filter (\<lambda>x. ID x = i) (rows s)) = Ok r"
  by (simp add: row_def only_row_def)

lemma row_frame [simp]:
  "row i (s\<lparr>audits := a\<rparr>) r = row i s r" "row i (s\<lparr>rest := g\<rparr>) r = row i s r" "row i (s\<lparr>wall := t\<rparr>) r = row i s r"
  "row i (add_audit i' act op d s) r = row i s r"
  by (simp_all add: row_def)


section \<open>The lease\<close>

lemma acquire_claims:
  assumes "row i s r" "ID ord = i" "claim_guard i (trunc_us (wall s) - FulfillmentLeaseDuration) r"
  shows "\<exists>s'. AcquirePaymentFulfillmentLease ord (quiet_conn s) = (Ok (Some (trunc_us (wall s))), quiet_conn s') \<and>
    row i s' (claim_effect (trunc_us (wall s)) r) \<and> wall s' = wall s \<and> audits s' = audits s \<and> rest s' = rest s"
proof -
  let ?now = "trunc_us (wall s)"
  let ?u = "update_rows (claim_guard i (?now - FulfillmentLeaseDuration)) (\<lambda>_. claim_effect ?now) s"
  note u = row_update [of i s r "claim_guard i (?now - FulfillmentLeaseDuration)" "\<lambda>_. claim_effect ?now", OF assms(1)]
  have n: "fst ?u = 1" and rw: "row i (snd ?u) (claim_effect ?now r)"
    using u(1,2) assms(3) by (simp_all add: claim_guard_def claim_effect_def)
  have "wall (snd ?u) = wall s" "audits (snd ?u) = audits s" "rest (snd ?u) = rest s"
    by (simp_all add: update_rows_def)
  then show ?thesis
    using n rw assms(2) by (intro exI [of _ "snd ?u"])
      (simp add: AcquirePaymentFulfillmentLease_def Let_def update_quiet claim_effect_def)
qed

lemma acquire_refused:
  assumes "row i s r" "ID ord = i" "\<not> claim_guard i (trunc_us (wall s) - FulfillmentLeaseDuration) r"
  shows "AcquirePaymentFulfillmentLease ord (quiet_conn s) =
    (if Status r = OrderStatusCompleted then Ok None
     else if Status r = OrderStatusRecharging then Err (App ''CONFLICT'' ''order is being processed'')
     else Err (App ''CONFLICT'' ''order status changed while acquiring fulfillment lease''), quiet_conn s)"
proof -
  let ?now = "trunc_us (wall s)"
  note u = row_update [of i s r "claim_guard i (?now - FulfillmentLeaseDuration)" "\<lambda>_. claim_effect ?now", OF assms(1)]
  have "fst (update_rows (claim_guard i (?now - FulfillmentLeaseDuration)) (\<lambda>_. claim_effect ?now) s) = 0"
    "snd (update_rows (claim_guard i (?now - FulfillmentLeaseDuration)) (\<lambda>_. claim_effect ?now) s) = s"
    using u(1,3) assms(3) by (simp_all add: claim_guard_def claim_effect_def)
  then show ?thesis
    using assms(1,2) by (simp add: AcquirePaymentFulfillmentLease_def Let_def update_quiet)
qed

lemma finish_refused:
  assumes "row i s r" "ID ord = i" "Status r \<noteq> OrderStatusRecharging \<or> UpdatedAt r \<noteq> v"
  shows "MarkCompleted ord (Some v) act (quiet_conn s) =
      (if Status r = OrderStatusCompleted then Ok ()
       else Err (App ''CONFLICT'' ''fulfillment lease was lost before completion''), quiet_conn s)"
    and "MarkFailed sv i (Some v) cause (quiet_conn s) = quiet_conn s"
proof -
  have u: "fst (update_rows (transition_guard c) (transition_effect c) s) = 0"
    "snd (update_rows (transition_guard c) (transition_effect c) s) = s"
    if "tID c = i" "From c = [OrderStatusRecharging]" "Version c = Some v" for c
    using row_update [of i s r "transition_guard c" "transition_effect c", OF assms(1)] assms(3) that
    by (auto simp: transition_guard_def transition_effect_def)
  show "MarkCompleted ord (Some v) act (quiet_conn s) =
      (if Status r = OrderStatusCompleted then Ok ()
       else Err (App ''CONFLICT'' ''fulfillment lease was lost before completion''), quiet_conn s)"
    using assms(1,2) by (simp add: MarkCompleted_def Let_def update_quiet u transition_def)
  show "MarkFailed sv i (Some v) cause (quiet_conn s) = quiet_conn s"
    by (simp add: MarkFailed_def Let_def update_quiet u transition_def)
qed

lemma row0: "row 7 (world0 st) (order0 st)"
  by (simp add: row_def world0_def order0_def)

text \<open>
  C3: Two runs that try to deliver one order: while the first run's lease is fresh
  the second is refused and changes nothing; once it is stale the second takes the
  order over, and from then on the first run can neither complete nor fail it.
\<close>

theorem lease_fences_holder:
  assumes "row i s r" "ID ord = i"
    and "AcquirePaymentFulfillmentLease ord (quiet_conn s) = (Ok (Some v), quiet_conn s1)"
    and "AcquirePaymentFulfillmentLease ord (quiet_conn (s1\<lparr>wall := t\<rparr>)) = (res, w2)"
  shows "if trunc_us t < v + FulfillmentLeaseDuration
    then res = Err (App ''CONFLICT'' ''order is being processed'') \<and> w2 = quiet_conn (s1\<lparr>wall := t\<rparr>)
    else res = Ok (Some (trunc_us t)) \<and> MarkFailed sv i (Some v) cause w2 = w2 \<and>
      MarkCompleted ord (Some v) act w2 = (Err (App ''CONFLICT'' ''fulfillment lease was lost before completion''), w2)"
proof -
  have g: "claim_guard i (trunc_us (wall s) - FulfillmentLeaseDuration) r"
    by (rule ccontr) (use acquire_refused [OF assms(1,2)] assms(3) in \<open>simp split: if_splits\<close>)
  obtain v: "v = trunc_us (wall s)" and r1: "row i (s1\<lparr>wall := t\<rparr>) (claim_effect v r)"
    using acquire_claims [OF assms(1,2) g] assms(3) by (auto simp: quiet_conn_def)
  have st: "Status (claim_effect v r) = OrderStatusRecharging" "UpdatedAt (claim_effect v r) = v"
    by (simp_all add: claim_effect_def v)
  have guard: "claim_guard i (trunc_us t - FulfillmentLeaseDuration) (claim_effect v r) \<longleftrightarrow>
      v + FulfillmentLeaseDuration \<le> trunc_us t"
    using row_ID [OF r1] by (auto simp: claim_guard_def st statuses)
  show ?thesis
  proof (cases "trunc_us t < v + FulfillmentLeaseDuration")
    case True
    then show ?thesis using acquire_refused [OF r1 assms(2)] guard assms(4) by (simp add: st statuses)
  next
    case False
    then obtain s2 where s2: "res = Ok (Some (trunc_us t))" "w2 = quiet_conn s2"
      "row i s2 (claim_effect (trunc_us t) (claim_effect v r))"
      using acquire_claims [OF r1 assms(2)] guard assms(4) by auto
    have "UpdatedAt (claim_effect (trunc_us t) (claim_effect v r)) \<noteq> v"
      using False by (auto simp: claim_effect_def FulfillmentLeaseDuration_def minute_def)
    moreover have "Status (claim_effect (trunc_us t) (claim_effect v r)) = OrderStatusRecharging"
      by (simp add: claim_effect_def)
    ultimately show ?thesis
      using finish_refused [OF s2(3) assms(2), of v] s2(1,2) False by (simp add: statuses)
  qed
qed

theorem lease_fences_holder_witness:
  "\<exists>s1 res w2. AcquirePaymentFulfillmentLease (order0 OrderStatusPaid) (quiet_conn (world0 OrderStatusPaid)) =
      (Ok (Some 0), quiet_conn s1) \<and>
    AcquirePaymentFulfillmentLease (order0 OrderStatusPaid) (quiet_conn (s1\<lparr>wall := 300000000000\<rparr>)) = (res, w2) \<and>
    res = Ok (Some 300000000000) \<and> MarkFailed services0 7 (Some 0) RowNotFound w2 = w2"
proof -
  have id: "ID (order0 OrderStatusPaid) = 7" by (simp add: order0_def)
  have "claim_guard 7 (trunc_us (wall (world0 OrderStatusPaid)) - FulfillmentLeaseDuration) (order0 OrderStatusPaid)"
    by (simp add: claim_guard_def order0_def)
  then obtain s1 where s1: "AcquirePaymentFulfillmentLease (order0 OrderStatusPaid) (quiet_conn (world0 OrderStatusPaid)) =
      (Ok (Some (trunc_us (wall (world0 OrderStatusPaid)))), quiet_conn s1)"
    using acquire_claims [OF row0 id] by blast
  obtain res w2 where two: "AcquirePaymentFulfillmentLease (order0 OrderStatusPaid)
      (quiet_conn (s1\<lparr>wall := 300000000000\<rparr>)) = (res, w2)" by fastforce
  show ?thesis
    using lease_fences_holder [OF row0 id s1 two, of services0 RowNotFound "[]"] s1 two
    by (intro exI [of _ s1] exI [of _ res] exI [of _ w2])
      (simp add: trunc_us_def world0_def FulfillmentLeaseDuration_def minute_def)
qed

section \<open>A delivery\<close>

definition same_rows :: "'g sys \<Rightarrow> 'g sys conn \<Rightarrow> bool" where
  "same_rows s w \<longleftrightarrow> (\<exists>s'. w = quiet_conn s' \<and> rows s' = rows s \<and> wall s' = wall s)"

lemma same_rows_refl: "same_rows s (quiet_conn s)"
  by (auto simp: same_rows_def)

lemma same_rows_calls:
  assumes "same_rows s w"
  shows "same_rows s (snd (service f w))" "same_rows s (snd (rebate_service h w))" "same_rows s (snd (HasAudit i a w))"
    "same_rows s (Audit i a operator w)" "same_rows s (snd (ApplyAffiliateRebateForOrder sv ord w))"
proof -
  obtain s' where w: "w = quiet_conn s'" "rows s' = rows s" "wall s' = wall s" using assms by (auto simp: same_rows_def)
  show sv: "same_rows s (snd (service f w))" "same_rows s (snd (rebate_service h w))" for f :: "'a \<Rightarrow> (perror, 'b) result \<times> 'a" and h
    using w(2,3) by (auto simp: w(1) service_def rebate_service_def same_rows_def split: prod.split)
  show "same_rows s (snd (HasAudit i a w))" "same_rows s (Audit i a operator w)"
    using w(2,3) by (auto simp: w(1) same_rows_def)
  show "same_rows s (snd (ApplyAffiliateRebateForOrder sv ord w))"
    using sv(2) assms by (auto simp: ApplyAffiliateRebateForOrder_def w(1) reads_def Let_def split: option.split bool.split)
qed


text \<open>A delivery ends in its completion, or leaves the rows to the failure record.\<close>

definition delivered :: "int \<Rightarrow> 'g sys \<Rightarrow> (perror, unit) result \<times> 'g sys conn \<Rightarrow> bool" where
  "delivered i s p \<longleftrightarrow> (case p of
      (Inl e, w) \<Rightarrow> same_rows s w
    | (Inr _, w) \<Rightarrow> \<exists>s' r'. w = quiet_conn s' \<and> row i s' r' \<and> Status r' = OrderStatusCompleted \<and>
        CompletedAt r' = Some (db_us (wall s)))"

lemma delivered_complete:
  assumes "row i s r" "ID ord = i" "Status r = OrderStatusRecharging" "UpdatedAt r = v" "same_rows s w"
  shows "delivered i s (MarkCompleted ord (Some v) act w)"
proof -
  obtain s' where w: "w = quiet_conn s'" "rows s' = rows s" "wall s' = wall s" using assms(5) by (auto simp: same_rows_def)
  have r': "row i s' r" using assms(1) w(2) by (simp add: row_def)
  let ?c = "(transition i [OrderStatusRecharging] OrderStatusCompleted)\<lparr>Version := Some v, tCompletedAt := Some (wall s)\<rparr>"
  let ?u = "update_rows (transition_guard ?c) (transition_effect ?c) s'"
  have g: "transition_guard ?c r" using assms row_ID [OF assms(1)] by (simp add: transition_guard_def transition_def)
  note u = row_update [of i s' r "transition_guard ?c" "transition_effect ?c", OF r']
  have "fst ?u = 1" "row i (snd ?u) (transition_effect ?c (db_us (wall s')) r)"
    using u(1,2) g by (simp_all add: transition_guard_def transition_effect_def transition_def)
  moreover have "Status (transition_effect ?c t r) = OrderStatusCompleted"
    "CompletedAt (transition_effect ?c t r) = Some (db_us (wall s))" for t
    by (simp_all add: transition_effect_def transition_def set_if_def)
  moreover obtain b where b: "HasAudit i act (quiet_conn (snd ?u)) = (b, quiet_conn (snd ?u))" by simp
  then have "MarkCompleted ord (Some v) act w = (Ok (), quiet_conn
      (if b then snd ?u else add_audit i act ''system'' JOther (snd ?u)))"
    using calculation(1) assms(2) w by (cases b) (simp_all add: MarkCompleted_def Let_def update_quiet del: store_quiet(4))
  ultimately show ?thesis unfolding delivered_def by (auto split: if_splits)
qed

lemma delivered_Err: "same_rows s w \<Longrightarrow> delivered i s (Err e, w)"
  by (simp add: delivered_def)

lemma delivered_step:
  assumes "same_rows s (snd m)" "\<And>a w. same_rows s w \<Longrightarrow> delivered i s (k a w)"
  shows "delivered i s (case m of (Inl e, w) \<Rightarrow> (Err (h e), w) | (Inr a, w) \<Rightarrow> k a w)"
proof (cases m)
  case (Pair r w)
  then show ?thesis
  proof (cases r)
    case (Inl e)
    then show ?thesis using assms(1) Pair by (simp add: delivered_def)
  next
    case (Inr a)
    then show ?thesis using assms Pair by simp
  qed
qed

lemma delivered_rebate:
  assumes "row i s r" "ID ord = i" "Status r = OrderStatusRecharging" "UpdatedAt r = v" "same_rows s w"
  shows "delivered i s (case ApplyAffiliateRebateForOrder sv ord w of
      (Inl e, w) \<Rightarrow> (Err e, w) | (Inr _, w) \<Rightarrow> MarkCompleted ord (Some v) act w)"
  by (intro delivered_step delivered_complete [OF assms(1-4)] same_rows_calls assms(5))

lemma delivered_redeem:
  assumes "row i s r" "ID ord = i" "Status r = OrderStatusRecharging" "UpdatedAt r = v" "same_rows s w"
  shows "delivered i s (redeem_and_complete sv ord (Some v) w)"
  unfolding redeem_and_complete_def by (intro delivered_step delivered_rebate [OF assms(1-4)] same_rows_calls assms(5))

lemma delivered_balance:
  assumes "row i s r" "ID ord = i" "Status r = OrderStatusRecharging" "UpdatedAt r = v" "same_rows s w"
  shows "delivered i s (DoBalance sv ord (Some v) w)"
proof -
  obtain found w1 where f: "service (GetByCode sv (RechargeCode ord)) w = (found, w1)" by fastforce
  then have w1: "same_rows s w1" using same_rows_calls(1) [OF assms(5)] by (metis snd_conv)
  have "delivered i s (case service (CreateCode sv (RechargeCode ord) (Amount ord)) w1 of
      (Inl e, w) \<Rightarrow> (Err (Wrap ''create redeem code'' e), w) | (Inr _, w) \<Rightarrow> redeem_and_complete sv ord (Some v) w)"
    by (intro delivered_step delivered_redeem [OF assms(1-4)] same_rows_calls w1)
  then show ?thesis
    using delivered_redeem [OF assms(1-4) w1] delivered_rebate [OF assms(1-4) w1]
    by (simp add: DoBalance_def f Let_def)
qed

lemma delivered_sub:
  assumes "row i s r" "ID ord = i" "Status r = OrderStatusRecharging" "UpdatedAt r = v" "same_rows s w"
  shows "delivered i s (DoSub sv ord (Some v) w)"
proof -
  have fin: "delivered i s (finish_subscription sv ord (Some v) u)" if "same_rows s u" for u
    unfolding finish_subscription_def by (rule delivered_rebate [OF assms(1-4) that])
  obtain a w1 where a: "HasAudit (ID ord) ''SUBSCRIPTION_ASSIGNED'' w = (a, w1)" by fastforce
  then have w1: "same_rows s w1" using same_rows_calls(3) [OF assms(5)] by (metis snd_conv)
  obtain b w2 where b: "(if a then (True, w1) else HasAudit (ID ord) ''SUBSCRIPTION_SUCCESS'' w1) = (b, w2)" by fastforce
  then have w2: "same_rows s w2" using same_rows_calls(3) [OF w1] w1 by (metis snd_conv)
  have "delivered i s (case service (assign x) w2 of (Inl e, w) \<Rightarrow> (Err (Wrap ''assign subscription'' e), w)
      | (Inr _, w) \<Rightarrow> finish_subscription sv ord (Some v) (Audit (ID ord) ''SUBSCRIPTION_ASSIGNED'' ''system'' w))"
    for assign :: "AssignSubscriptionInput \<Rightarrow> 'a \<Rightarrow> (perror, unit) result \<times> 'a" and x
    by (intro delivered_step fin same_rows_calls w2)
  then show ?thesis
    using fin [OF w2] delivered_Err [OF assms(5)] by (simp add: DoSub_def a b Let_def split: option.split)
qed

lemma MarkFailed_records:
  assumes "row i s r" "Status r = OrderStatusRecharging" "UpdatedAt r = v"
  shows "\<exists>s' r'. MarkFailed sv i (Some v) cause (quiet_conn s) = quiet_conn s' \<and> row i s' r' \<and>
    Status r' = OrderStatusFailed \<and> FailedReason r' = Some (ErrorText sv cause)"
proof -
  let ?c = "(transition i [OrderStatusRecharging] OrderStatusFailed)
    \<lparr>Version := Some v, tFailedAt := Some (wall s), tFailedReason := Some (ErrorText sv cause)\<rparr>"
  let ?u = "update_rows (transition_guard ?c) (transition_effect ?c) s"
  have g: "transition_guard ?c r" using assms row_ID [OF assms(1)] by (simp add: transition_guard_def transition_def)
  note u = row_update [of i s r "transition_guard ?c" "transition_effect ?c", OF assms(1)]
  have "fst ?u = 1" "row i (snd ?u) (transition_effect ?c (db_us (wall s)) r)"
    using u(1,2) g by (simp_all add: transition_guard_def transition_effect_def transition_def)
  moreover have "Status (transition_effect ?c t r) = OrderStatusFailed"
    "FailedReason (transition_effect ?c t r) = Some (ErrorText sv cause)" for t
    by (simp_all add: transition_effect_def transition_def set_if_def)
  ultimately show ?thesis
    by (auto simp: MarkFailed_def Let_def update_quiet)
qed


lemma execute_delivers:
  assumes "row i s r" "claim_guard i (trunc_us (wall s) - FulfillmentLeaseDuration) r"
    and "OrderType r = OrderTypeSubscription \<longrightarrow> (\<exists>p > 0. PlanID r = Some p)"
  shows "\<exists>s' r'. snd (ExecuteFulfillment sv i (quiet_conn s)) = quiet_conn s' \<and> row i s' r' \<and>
    (case fst (ExecuteFulfillment sv i (quiet_conn s)) of
       Inr _ \<Rightarrow> Status r' = OrderStatusCompleted \<and> CompletedAt r' = Some (db_us (wall s))
     | Inl e \<Rightarrow> Status r' = OrderStatusFailed \<and> FailedReason r' = Some (ErrorText sv e))"
proof -
  let ?v = "trunc_us (wall s)"
  have id: "ID r = i" by (rule row_ID [OF assms(1)])
  obtain s1 where s1: "AcquirePaymentFulfillmentLease r (quiet_conn s) = (Ok (Some ?v), quiet_conn s1)"
    and r1: "row i s1 (claim_effect ?v r)" and w1: "wall s1 = wall s"
    using acquire_claims [OF assms(1) id assms(2)] by auto
  have st: "Status (claim_effect ?v r) = OrderStatusRecharging" "UpdatedAt (claim_effect ?v r) = ?v"
    by (simp_all add: claim_effect_def)
  have load: "loadFulfillableOrder i (quiet_conn s) = (Ok (Some r), quiet_conn s)"
    using assms(1,2) by (auto simp: loadFulfillableOrder_def claim_guard_def IsRefundStatus_def statuses)
  have close: "\<exists>s' r'. snd (case p of (Inl e, w) \<Rightarrow> (Err e, MarkFailed sv i (Some ?v) e w) | (Inr _, w) \<Rightarrow> (Ok (), w)) = quiet_conn s' \<and>
      row i s' r' \<and> (case fst (case p of (Inl e, w) \<Rightarrow> (Err e, MarkFailed sv i (Some ?v) e w) | (Inr _, w) \<Rightarrow> (Ok (), w)) of
         Inr _ \<Rightarrow> Status r' = OrderStatusCompleted \<and> CompletedAt r' = Some (db_us (wall s))
       | Inl e \<Rightarrow> Status r' = OrderStatusFailed \<and> FailedReason r' = Some (ErrorText sv e))"
    if dp: "delivered i s1 p" for p :: "(perror, unit) result \<times> 'a sys conn"
  proof (cases p)
    case (Pair x w)
    show ?thesis
    proof (cases x)
      case (Inl e)
      then obtain s2 where "w = quiet_conn s2" "row i s2 (claim_effect ?v r)"
        using dp r1 Pair by (auto simp: delivered_def same_rows_def row_def)
      then show ?thesis using MarkFailed_records [OF _ st, of i s2 sv e] Pair Inl by auto
    next
      case (Inr a)
      then show ?thesis using dp Pair w1 by (auto simp: delivered_def)
    qed
  qed
  have "delivered i s1 (DoBalance sv r (Some ?v) (quiet_conn s1))" "delivered i s1 (DoSub sv r (Some ?v) (quiet_conn s1))"
    by (rule delivered_balance [OF r1 id st same_rows_refl] delivered_sub [OF r1 id st same_rows_refl])+
  note ends = this [THEN close]
  show ?thesis
  proof (cases "OrderType r = OrderTypeSubscription")
    case True
    have "ExecuteFulfillment sv i (quiet_conn s) = (case DoSub sv r (Some ?v) (quiet_conn s1) of
        (Inl e, w) \<Rightarrow> (Err e, MarkFailed sv i (Some ?v) e w) | (Inr _, w) \<Rightarrow> (Ok (), w))"
      using True assms(1,3) by (auto simp: ExecuteFulfillment_def ExecuteSubscriptionFulfillment_def load s1)
    then show ?thesis using ends(2) by simp
  next
    case False
    then have "ExecuteFulfillment sv i (quiet_conn s) = (case DoBalance sv r (Some ?v) (quiet_conn s1) of
        (Inl e, w) \<Rightarrow> (Err e, MarkFailed sv i (Some ?v) e w) | (Inr _, w) \<Rightarrow> (Ok (), w))"
      using assms(1) by (simp add: ExecuteFulfillment_def ExecuteBalanceFulfillment_def load s1)
    then show ?thesis using ends(1) by simp
  qed
qed

text \<open>
  C4: When the database answers and no other process interferes, delivering an
  order that may be claimed (paid, failed, or recharging with a stale lease; a
  subscription order with its plan) ends, whatever the services answer, with the
  order completed exactly when no error is returned, and failed with that error's
  text otherwise; no delivery leaves an order behind in recharging.
\<close>

theorem delivery_outcome:
  assumes "row i s r" "claim_guard i (trunc_us (wall s) - FulfillmentLeaseDuration) r"
    and "OrderType r = OrderTypeSubscription \<longrightarrow> (\<exists>p > 0. PlanID r = Some p)"
  shows "\<exists>s' r'. snd (ExecuteFulfillment sv i (quiet_conn s)) = quiet_conn s' \<and> row i s' r' \<and>
    (case fst (ExecuteFulfillment sv i (quiet_conn s)) of
       Inr _ \<Rightarrow> Status r' = OrderStatusCompleted \<and> CompletedAt r' = Some (db_us (wall s))
     | Inl e \<Rightarrow> Status r' = OrderStatusFailed \<and> FailedReason r' = Some (ErrorText sv e))"
  by (rule execute_delivers [OF assms])

theorem delivery_outcome_witness:
  "\<exists>s' r'. snd (ExecuteFulfillment services0 7 (quiet_conn (world0 OrderStatusPaid))) = quiet_conn s' \<and> row 7 s' r' \<and>
    Status r' = OrderStatusCompleted"
proof -
  have "fst (ExecuteFulfillment services0 7 (quiet_conn (world0 OrderStatusPaid))) = Ok ()"
    by code_simp
  moreover have "claim_guard 7 (trunc_us (wall (world0 OrderStatusPaid)) - FulfillmentLeaseDuration) (order0 OrderStatusPaid)"
    by (simp add: claim_guard_def order0_def)
  ultimately show ?thesis
    using delivery_outcome [OF row0, of OrderStatusPaid services0]
    by (simp add: order0_def OrderTypeBalance_def OrderTypeSubscription_def) blast
qed

section \<open>A confirmation\<close>

text \<open>The amounts a confirmation accepts.\<close>

definition accepted_amount :: "Order \<Rightarrow> f64 \<Rightarrow> bool" where
  "accepted_amount ord paid =
     (IsValidProviderAmount paid \<and>
      \<not> flt (PaymentAmountToleranceForCurrency (PaymentOrderCurrency ord)) (fabs (fsub paid (PayAmount ord))))"

lemma wrong_amount_refused:
  "\<not> accepted_amount ord paid \<Longrightarrow>
     rows (server (snd (ConfirmPayment sv ord tradeNo paid pk m (quiet_conn s)))) = rows s \<and>
     (\<exists>e. fst (ConfirmPayment sv ord tradeNo paid pk m (quiet_conn s)) = Err e)"
  by (auto simp: ConfirmPayment_def accepted_amount_def)

lemma confirmed_payment_delivers:
  assumes "row i s r" "OrderType r = OrderTypeSubscription \<longrightarrow> (\<exists>p > 0. PlanID r = Some p)"
    and "validateEasyPayTradeNumber r pk tradeNo = Ok ()"
    and "Status r \<in> {OrderStatusPending, OrderStatusProcessing, OrderStatusExpired, OrderStatusCancelled}"
    and "accepted_amount r paid"
  shows "\<exists>s' r'. snd (ConfirmPayment sv r tradeNo paid pk m (quiet_conn s)) = quiet_conn s' \<and> row i s' r' \<and>
      (case fst (ConfirmPayment sv r tradeNo paid pk m (quiet_conn s)) of
         Inr _ \<Rightarrow> Status r' = OrderStatusCompleted
       | Inl e \<Rightarrow> Status r' = OrderStatusFailed \<and> FailedReason r' = Some (ErrorText sv e))"
proof -
  note True = assms(5) [unfolded accepted_amount_def]
  let ?tn = "if GetBasePaymentType pk = TypeStripe \<and> has_prefix (trim_space tradeNo) ''in_'' \<and>
    has_prefix (trim_space (PaymentTradeNo r)) ''pi_'' then PaymentTradeNo r else tradeNo"
  let ?c = "ApplyInvoiceMetadata ((transition i [Status r] OrderStatusPaid)
    \<lparr>tPayAmount := Some paid, tPaidAt := Some (wall s), ClearFailure := True, tTradeNo := trim_space ?tn\<rparr>) m"
  let ?u = "update_rows (transition_guard ?c) (transition_effect ?c) s"
  have id: "ID r = i" by (rule row_ID [OF assms(1)])
  have val: "validateEasyPayTradeNumber r pk ?tn = Ok ()"
    using assms(3) by (auto simp: validateEasyPayTradeNumber_def TypeStripe_def TypeEasyPay_def split: if_splits)
  have g: "transition_guard ?c r" using id by (simp add: transition_guard_def transition_def ApplyInvoiceMetadata_def)
  note u = row_update [of i s r "transition_guard ?c" "transition_effect ?c", OF assms(1)]
  have n: "fst ?u = 1" and r1: "row i (snd ?u) (transition_effect ?c (db_us (wall s)) r)"
    using u(1,2) g by (simp_all add: transition_guard_def transition_effect_def transition_def ApplyInvoiceMetadata_def)
  have eff: "Status (transition_effect ?c t r) = OrderStatusPaid" "OrderType (transition_effect ?c t r) = OrderType r"
    "PlanID (transition_effect ?c t r) = PlanID r" "ID (transition_effect ?c t r) = i" for t
    using id by (simp_all add: transition_effect_def transition_def ApplyInvoiceMetadata_def)
  obtain s2 where s2: "rows s2 = rows (snd ?u)"
    "ConfirmPayment sv r tradeNo paid pk m (quiet_conn s) = ExecuteFulfillment sv i (quiet_conn s2)"
  proof -
    let ?v = "if Status r \<noteq> OrderStatusPending then add_audit i ''ORDER_RECOVERED'' pk JOther (snd ?u) else snd ?u"
    have "ConfirmPayment sv r tradeNo paid pk m (quiet_conn s) = ExecuteFulfillment sv i
        (quiet_conn (add_audit i ''ORDER_PAID'' pk JOther ?v))"
      using True val assms(4) n id
      by (simp add: ConfirmPayment_def ToPaid_def Let_def numeral_eq_Suc update_quiet)
    then show thesis by (intro that [of "add_audit i ''ORDER_PAID'' pk JOther ?v"]) simp_all
  qed
  have "row i s2 (transition_effect ?c (db_us (wall s)) r)" using r1 s2(1) by (simp add: row_def)
  moreover have "claim_guard i (trunc_us (wall s2) - FulfillmentLeaseDuration) (transition_effect ?c (db_us (wall s)) r)"
    by (simp add: claim_guard_def eff)
  ultimately obtain s' r' where "snd (ExecuteFulfillment sv i (quiet_conn s2)) = quiet_conn s'" "row i s' r'"
    "case fst (ExecuteFulfillment sv i (quiet_conn s2)) of
       Inr _ \<Rightarrow> Status r' = OrderStatusCompleted \<and> CompletedAt r' = Some (db_us (wall s2))
     | Inl e \<Rightarrow> Status r' = OrderStatusFailed \<and> FailedReason r' = Some (ErrorText sv e)"
    using execute_delivers [of i s2 _ sv] assms(2) eff(2,3) by metis
  then show ?thesis unfolding s2(2) by (auto split: sum.splits)
qed

text \<open>
  C5: A reported payment whose amount is not a positive finite number, or differs
  from the amount due by more than the currency's tolerance, is an error and changes
  no order, whatever the state of the order and the trade number.  A reported payment
  with an accepted amount and trade number on an order that is pending, processing,
  expired or cancelled (and has its plan, when it buys one) ends, when no other process
  interferes, with the order paid for and delivered, or failed with the delivery's error.
\<close>

theorem confirmation_outcome:
  "(\<not> accepted_amount ord paid \<longrightarrow>
      rows (server (snd (ConfirmPayment sv ord tradeNo paid pk m (quiet_conn s)))) = rows s \<and>
      (\<exists>e. fst (ConfirmPayment sv ord tradeNo paid pk m (quiet_conn s)) = Err e)) \<and>
    (accepted_amount ord paid \<and> row i s ord \<and> validateEasyPayTradeNumber ord pk tradeNo = Ok () \<and>
        Status ord \<in> {OrderStatusPending, OrderStatusProcessing, OrderStatusExpired, OrderStatusCancelled} \<and>
        (OrderType ord = OrderTypeSubscription \<longrightarrow> (\<exists>p > 0. PlanID ord = Some p)) \<longrightarrow>
      (\<exists>s' r'. snd (ConfirmPayment sv ord tradeNo paid pk m (quiet_conn s)) = quiet_conn s' \<and> row i s' r' \<and>
        (case fst (ConfirmPayment sv ord tradeNo paid pk m (quiet_conn s)) of
           Inr _ \<Rightarrow> Status r' = OrderStatusCompleted
         | Inl e \<Rightarrow> Status r' = OrderStatusFailed \<and> FailedReason r' = Some (ErrorText sv e))))"
proof (rule conjI, rule impI)
  show "rows (server (snd (ConfirmPayment sv ord tradeNo paid pk m (quiet_conn s)))) = rows s \<and>
      (\<exists>e. fst (ConfirmPayment sv ord tradeNo paid pk m (quiet_conn s)) = Err e)" if "\<not> accepted_amount ord paid"
    by (rule wrong_amount_refused [OF that])
qed (intro impI, elim conjE, rule confirmed_payment_delivers)

theorem confirmation_outcome_witness:
  "rows (server (snd (ConfirmPayment services0 (order0 OrderStatusPending) ''t'' NaN TypeAlipay []
      (quiet_conn (world0 OrderStatusPending))))) = [order0 OrderStatusPending] \<and>
   (\<exists>s' r'. snd (ConfirmPayment services0 (order0 OrderStatusPending) ''t'' (PayAmount (order0 OrderStatusPending)) TypeAlipay []
      (quiet_conn (world0 OrderStatusPending))) = quiet_conn s' \<and> row 7 s' r')"
proof -
  let ?o = "order0 OrderStatusPending" and ?w = "quiet_conn (world0 OrderStatusPending)"
  have "\<not> accepted_amount (order0 OrderStatusPending) NaN" by (simp add: accepted_amount_def IsValidProviderAmount_def)
  then have one: "rows (server (snd (ConfirmPayment services0 ?o ''t'' NaN TypeAlipay [] ?w))) = rows (world0 OrderStatusPending)"
    by (rule confirmation_outcome [of ?o NaN services0 "''t''" TypeAlipay "[]" "world0 OrderStatusPending",
          THEN conjunct1, THEN mp, THEN conjunct1])
  have "CurrencyMinorUnit (PaymentOrderCurrency ?o) \<le> 2" by code_simp
  then have "PaymentAmountToleranceForCurrency (PaymentOrderCurrency ?o) = rnd (1 / 100)"
    by (simp add: PaymentAmountToleranceForCurrency_def)
  moreover have "\<not> flt (rnd (1 / 100)) (Fin 0)" using rnd_nonneg [of "1 / 100"] by (cases "rnd (1 / 100)") simp_all
  moreover have "fabs (fsub (PayAmount ?o) (PayAmount ?o)) = Fin 0"
    by (simp add: order0_def fsub_Fin)
  moreover have "IsValidProviderAmount (PayAmount ?o)" by (simp add: IsValidProviderAmount_def order0_def is_inf_def)
  ultimately have "accepted_amount ?o (PayAmount ?o)"
    by (simp add: accepted_amount_def)
  then have "accepted_amount ?o (PayAmount ?o) \<and> row 7 (world0 OrderStatusPending) ?o \<and>
      validateEasyPayTradeNumber ?o TypeAlipay ''t'' = Ok () \<and>
      Status ?o \<in> {OrderStatusPending, OrderStatusProcessing, OrderStatusExpired, OrderStatusCancelled} \<and>
      (OrderType ?o = OrderTypeSubscription \<longrightarrow> (\<exists>p > 0. PlanID ?o = Some p))"
    using row0 by (simp add: order0_def OrderTypeBalance_def OrderTypeSubscription_def validateEasyPayTradeNumber_def)
  note confirmation_outcome [of ?o "PayAmount ?o" services0 "''t''" TypeAlipay "[]" "world0 OrderStatusPending" 7,
      THEN conjunct2, THEN mp, OF this]
  moreover have "rows (world0 OrderStatusPending) = [?o]" by (simp add: world0_def)
  ultimately show ?thesis using one by metis
qed

section \<open>Pages and references\<close>

lemma page_eq:
  assumes "0 < limit" "limit < length ids" "pages = (length ids + limit - 1) div limit"
  shows "ReconcilePageIDs ids c limit = take limit (drop (c mod pages * limit) ids)"
proof -
  have "take (min (a + limit) (length ids) - a) (drop a ids) = take limit (drop a ids)" for a
    by (cases "a + limit \<le> length ids") (simp_all add: min_def)
  then show ?thesis using assms by (simp add: ReconcilePageIDs_def Let_def)
qed

lemma concat_pages: "concat (map (\<lambda>c. take limit (drop (c * limit) xs)) [0..<n]) = take (n * limit) xs"
  by (induction n) (simp_all add: add.commute [of limit] take_add)

lemma mset_rotate:
  fixes g :: "nat \<Rightarrow> 'a list"
  assumes "\<And>c. g (c + p) = g c"
  shows "mset (concat (map g [c..<c + p])) = mset (concat (map g [0..<p]))"
proof (induction c)
  case (Suc c)
  have "mset (concat (map g [Suc c..<Suc c + p])) + mset (g c) = mset (concat (map g [c..<c + p])) + mset (g (c + p))"
  proof (cases p)
    case (Suc q)
    have "[c..<c + p] = c # [Suc c..<c + p]" by (rule upt_conv_Cons) (simp add: Suc)
    moreover have "[Suc c..<Suc c + p] = [Suc c..<c + p] @ [c + p]" by (simp add: Suc)
    ultimately show ?thesis by (simp del: upt_Suc)
  qed simp
  then show ?case using Suc assms [of c] by simp
qed simp

text \<open>
  A page of the reconciliation holds at most the limit, and as many successive
  cursors as there are pages visit every order, each in its page exactly once.
\<close>

theorem ReconcilePageIDs_covers:
  assumes "0 < limit" "limit < length ids"
    and "pages = (length ids + limit - 1) div limit"
  shows "(\<forall>c. length (ReconcilePageIDs ids c limit) \<le> limit) \<and>
    concat (map (\<lambda>c. ReconcilePageIDs ids c limit) [0..<pages]) = ids \<and>
    (\<forall>c. mset (concat (map (\<lambda>c. ReconcilePageIDs ids c limit) [c..<c + pages])) = mset ids)"
proof (intro conjI allI)
  note eq = page_eq [OF assms]
  show len: "length (ReconcilePageIDs ids c limit) \<le> limit" for c by (simp add: eq)
  have covered: "length ids \<le> pages * limit"
    using minus_mod_eq_div_mult [of "length ids + limit - 1" limit] mod_less_divisor [OF assms(1), of "length ids + limit - 1"]
    unfolding assms(3) by linarith
  have same: "map (\<lambda>c. ReconcilePageIDs ids c limit) [0..<pages] = map (\<lambda>c. take limit (drop (c * limit) ids)) [0..<pages]"
    by (simp add: eq)
  show all: "concat (map (\<lambda>c. ReconcilePageIDs ids c limit) [0..<pages]) = ids"
    unfolding same using concat_pages [of limit ids pages] covered by simp
  show "mset (concat (map (\<lambda>c. ReconcilePageIDs ids c limit) [c..<c + pages])) = mset ids" for c
    using mset_rotate [of "\<lambda>c. ReconcilePageIDs ids c limit" pages c] all by (simp add: eq)
qed


text \<open>
  The order number of the former scheme, the prefix and the decimal id, is read
  back as that id.
\<close>

theorem legacy_order_id_roundtrip:
  assumes "0 < i" "i < 2 ^ 63"
  shows "ParseLegacyPaymentOrderID (''sub2_'' @ dec i) True = Some i"
proof -
  have d: "list_all is_digit (dec i)" "dec i \<noteq> []"
    using assms(1) dec_nat_digits by (auto simp: dec_def)
  have "is_digit (last (dec i))" using d by (simp add: list_all_iff)
  then have "trim_space (''sub2_'' @ dec i) = ''sub2_'' @ dec i"
    using d(2) by (intro trim_space_id) (auto simp: is_digit_def space1_def)
  then show ?thesis
    using assms d(2) parse_int_dec [of i]
    by (simp add: ParseLegacyPaymentOrderID_def has_prefix_def Let_def del: append.append_Cons)
qed


end
