(* ===== verification/AppError.thy ===== *)
theory AppError
  imports Prelude
begin

text \<open>
  The classified errors of internal/pkg/apperror: a public status with category
  code, reason, message and string details, and the cause behind it.  An error of
  another package is its text, possibly wrapping another error.
\<close>

record ErrStatus =
  Code :: int
  Reason :: string
  Message :: string
  Metadata :: "(string \<times> string) list option"

datatype goerror = AppErr ErrStatus "goerror option" | Text string | Wrapped string goerror

definition UnknownCode :: int where "UnknownCode = 500"
definition UnknownReason :: string where "UnknownReason = []"
definition UnknownMessage :: string where "UnknownMessage = ''internal error''"

definition NewError :: "int \<Rightarrow> string \<Rightarrow> string \<Rightarrow> goerror" where
  "NewError code reason message = AppErr \<lparr>Code = code, Reason = reason, Message = message, Metadata = None\<rparr> None"

fun WithCause :: "goerror \<Rightarrow> goerror \<Rightarrow> goerror" where
  "WithCause (AppErr st c) cause = AppErr st (Some cause)"
| "WithCause e cause = e"

fun WithMetadata :: "goerror \<Rightarrow> (string \<times> string) list \<Rightarrow> goerror" where
  "WithMetadata (AppErr st c) m = AppErr (st\<lparr>Metadata := Some m\<rparr>) c"
| "WithMetadata e m = e"

text \<open>errors.As: the first application error along the chain.\<close>

fun as_app :: "goerror \<Rightarrow> (ErrStatus \<times> goerror option) option" where
  "as_app (AppErr st c) = Some (st, c)"
| "as_app (Text m) = None"
| "as_app (Wrapped m e) = as_app e"

definition FromError :: "goerror \<Rightarrow> ErrStatus \<times> goerror option" where
  "FromError e = (case as_app e of
      Some a \<Rightarrow> a
    | None \<Rightarrow> (\<lparr>Code = UnknownCode, Reason = UnknownReason, Message = UnknownMessage, Metadata = None\<rparr>, Some e))"

definition CategoryOf :: "goerror \<Rightarrow> int" where
  "CategoryOf e = Code (fst (FromError e))"

definition ReasonOf :: "goerror \<Rightarrow> string" where
  "ReasonOf e = Reason (fst (FromError e))"

definition MessageOf :: "goerror \<Rightarrow> string" where
  "MessageOf e = Message (fst (FromError e))"

text \<open>ApplicationError.Is compares the category and the reason.\<close>

definition is_error :: "goerror \<Rightarrow> goerror \<Rightarrow> bool" where
  "is_error e target = (case (e, as_app target) of
      (AppErr st c, Some (st', c')) \<Rightarrow> Code st' = Code st \<and> Reason st' = Reason st
    | _ \<Rightarrow> False)"

section \<open>Categories\<close>

definition CategoryBadRequest :: int where "CategoryBadRequest = 400"
definition CategoryUnauthorized :: int where "CategoryUnauthorized = 401"
definition CategoryForbidden :: int where "CategoryForbidden = 403"
definition CategoryNotFound :: int where "CategoryNotFound = 404"
definition CategoryConflict :: int where "CategoryConflict = 409"
definition CategoryTooManyRequests :: int where "CategoryTooManyRequests = 429"
definition CategoryInternalServer :: int where "CategoryInternalServer = 500"
definition CategoryServiceUnavailable :: int where "CategoryServiceUnavailable = 503"
definition CategoryGatewayTimeout :: int where "CategoryGatewayTimeout = 504"

definition BadRequest :: "string \<Rightarrow> string \<Rightarrow> goerror" where "BadRequest r m = NewError CategoryBadRequest r m"
definition Unauthorized :: "string \<Rightarrow> string \<Rightarrow> goerror" where "Unauthorized r m = NewError CategoryUnauthorized r m"
definition Forbidden :: "string \<Rightarrow> string \<Rightarrow> goerror" where "Forbidden r m = NewError CategoryForbidden r m"
definition NotFound :: "string \<Rightarrow> string \<Rightarrow> goerror" where "NotFound r m = NewError CategoryNotFound r m"
definition Conflict :: "string \<Rightarrow> string \<Rightarrow> goerror" where "Conflict r m = NewError CategoryConflict r m"
definition TooManyRequests :: "string \<Rightarrow> string \<Rightarrow> goerror" where "TooManyRequests r m = NewError CategoryTooManyRequests r m"
definition InternalServer :: "string \<Rightarrow> string \<Rightarrow> goerror" where "InternalServer r m = NewError CategoryInternalServer r m"
definition ServiceUnavailable :: "string \<Rightarrow> string \<Rightarrow> goerror" where "ServiceUnavailable r m = NewError CategoryServiceUnavailable r m"
definition GatewayTimeout :: "string \<Rightarrow> string \<Rightarrow> goerror" where "GatewayTimeout r m = NewError CategoryGatewayTimeout r m"

end
