(* ===== verification/Idempotency.thy ===== *)
theory Idempotency
  imports GoTime Float64 Connection AppError
begin

text \<open>
  Idempotent commands: internal/idempotency/idempotency.go and the record store of
  internal/idempotency/postgres/repository.go.  The table is the state all
  processes share; the coordinator runs over a connection to it, call by call.
  The JSON encoder, SHA-256 and the redaction of responses are parameters.
  Observer events and log entries are left out.
\<close>

section \<open>Records and configuration\<close>

definition IdempotencyStatusProcessing :: string where
  "IdempotencyStatusProcessing = ''processing''"
definition IdempotencyStatusSucceeded :: string where
  "IdempotencyStatusSucceeded = ''succeeded''"
definition IdempotencyStatusFailedRetryable :: string where
  "IdempotencyStatusFailedRetryable = ''failed_retryable''"

lemmas idem_statuses = IdempotencyStatusProcessing_def IdempotencyStatusSucceeded_def
  IdempotencyStatusFailedRetryable_def

definition ErrIdempotencyKeyRequired :: goerror where
  "ErrIdempotencyKeyRequired = BadRequest ''IDEMPOTENCY_KEY_REQUIRED'' ''idempotency key is required''"
definition ErrIdempotencyKeyInvalid :: goerror where
  "ErrIdempotencyKeyInvalid = BadRequest ''IDEMPOTENCY_KEY_INVALID'' ''idempotency key is invalid''"
definition ErrIdempotencyKeyConflict :: goerror where
  "ErrIdempotencyKeyConflict = Conflict ''IDEMPOTENCY_KEY_CONFLICT'' ''idempotency key reused with different payload''"
definition ErrIdempotencyInProgress :: goerror where
  "ErrIdempotencyInProgress = Conflict ''IDEMPOTENCY_IN_PROGRESS'' ''idempotent request is still processing''"
definition ErrIdempotencyRetryBackoff :: goerror where
  "ErrIdempotencyRetryBackoff = Conflict ''IDEMPOTENCY_RETRY_BACKOFF'' ''idempotent request is in retry backoff window''"
definition ErrIdempotencyStoreUnavail :: goerror where
  "ErrIdempotencyStoreUnavail = ServiceUnavailable ''IDEMPOTENCY_STORE_UNAVAILABLE'' ''idempotency store unavailable''"
definition ErrIdempotencyInvalidPayload :: goerror where
  "ErrIdempotencyInvalidPayload = BadRequest ''IDEMPOTENCY_PAYLOAD_INVALID'' ''failed to normalize request payload''"

record IdempotencyRecord =
  recID :: int
  recScope :: string
  recKeyHash :: string
  recFingerprint :: string
  recStatus :: string
  recResponseStatus :: "int option"
  recResponseBody :: "string option"
  recErrorReason :: "string option"
  recLockedUntil :: "instant option"
  recExpiresAt :: instant
  recCreatedAt :: instant
  recUpdatedAt :: instant

record IdempotencyConfig =
  DefaultTTL :: duration
  SystemOperationTTL :: duration
  ProcessingTimeout :: duration
  FailedRetryBackoff :: duration
  MaxStoredResponseLen :: int
  ObserveOnly :: bool

record 'p IdempotencyExecuteOptions =
  optScope :: string
  optActorScope :: string
  optMethod :: string
  optRoute :: string
  optKey :: string
  optPayload :: 'p
  optTTL :: duration
  optRequireKey :: bool

record 'd IdempotencyExecuteResult =
  Data :: 'd
  Replayed :: bool

definition DefaultIdempotencyConfig :: IdempotencyConfig where
  "DefaultIdempotencyConfig = \<lparr>DefaultTTL = 24 * hour, SystemOperationTTL = 1 * hour, ProcessingTimeout = 30 * second,
     FailedRetryBackoff = 5 * second, MaxStoredResponseLen = 64 * 1024, ObserveOnly = True\<rparr>"

definition DefaultWriteIdempotencyTTL :: "IdempotencyConfig option \<Rightarrow> duration" where
  "DefaultWriteIdempotencyTTL c = (case c of
      Some cfg \<Rightarrow> if 0 < DefaultTTL cfg then DefaultTTL cfg else DefaultTTL DefaultIdempotencyConfig
    | None \<Rightarrow> DefaultTTL DefaultIdempotencyConfig)"

definition DefaultSystemOperationIdempotencyTTL :: "IdempotencyConfig option \<Rightarrow> duration" where
  "DefaultSystemOperationIdempotencyTTL c = (case c of
      Some cfg \<Rightarrow> if 0 < SystemOperationTTL cfg then SystemOperationTTL cfg else SystemOperationTTL DefaultIdempotencyConfig
    | None \<Rightarrow> SystemOperationTTL DefaultIdempotencyConfig)"

section \<open>Keys, fingerprints and stored responses\<close>

text \<open>
  The parameters: json.Marshal of the payload and of the data, json.Unmarshal into
  any, the empty object, the hexadecimal SHA-256 digest and the redaction.
\<close>

record ('p, 'd) codec =
  MarshalPayload :: "'p \<Rightarrow> string option"
  MarshalData :: "'d \<Rightarrow> string option"
  UnmarshalData :: "string \<Rightarrow> 'd option"
  EmptyObject :: 'd
  Sha256Hex :: "string \<Rightarrow> string"
  RedactText :: "string \<Rightarrow> string"

text \<open>
  Ranging over the runes of a key: a byte above 126 belongs to a rune above 126 or
  is the replacement rune, so the runes are in range exactly when the bytes are.
\<close>

definition NormalizeIdempotencyKey :: "string \<Rightarrow> (goerror, string) result" where
  "NormalizeIdempotencyKey raw =
     (let key = trim_space raw in
      if key = [] then Ok []
      else if 128 < length key then Err ErrIdempotencyKeyInvalid
      else if \<exists>r \<in> set key. (of_char r :: nat) < 33 \<or> 126 < (of_char r :: nat) then Err ErrIdempotencyKeyInvalid
      else Ok key)"

definition HashIdempotencyKey :: "('p, 'd) codec \<Rightarrow> string \<Rightarrow> string" where
  "HashIdempotencyKey cd key = Sha256Hex cd key"

definition newline :: string where "newline = [CHR 0x0A]"

definition BuildIdempotencyFingerprint ::
  "('p, 'd) codec \<Rightarrow> string \<Rightarrow> string \<Rightarrow> string \<Rightarrow> 'p \<Rightarrow> (goerror, string) result" where
  "BuildIdempotencyFingerprint cd method route actorScope payload =
     (let method = (if method = [] then ''POST'' else method);
          route = (if route = [] then ''/'' else route);
          actorScope = (if actorScope = [] then ''anonymous'' else actorScope)
      in case MarshalPayload cd payload of
        None \<Rightarrow> Err (WithCause ErrIdempotencyInvalidPayload (Text ''json: unsupported value''))
      | Some raw \<Rightarrow> Ok (Sha256Hex cd (to_upper method @ newline @ route @ newline @ actorScope @ newline @ raw)))"

text \<open>Time.Sub saturates; Seconds and the conversion to int go through float64.\<close>

definition max_duration :: int where "max_duration = 2 ^ 63 - 1"

definition time_sub :: "instant \<Rightarrow> instant \<Rightarrow> duration" where
  "time_sub t u = max (- max_duration - 1) (min max_duration (t - u))"

definition Seconds :: "duration \<Rightarrow> f64" where
  "Seconds d = fadd (rnd (of_int (sgn d * (\<bar>d\<bar> div 1000000000))))
     (fdiv (rnd (of_int (sgn d * (\<bar>d\<bar> mod 1000000000)))) (rnd 1000000000))"

definition int_of_f64 :: "f64 \<Rightarrow> int" where
  "int_of_f64 x = (case x of Fin q \<Rightarrow> if q < 0 then - \<lfloor>- q\<rfloor> else \<lfloor>q\<rfloor> | _ \<Rightarrow> - (2 ^ 63))"

definition conflictWithRetryAfter :: "goerror \<Rightarrow> instant option \<Rightarrow> instant \<Rightarrow> goerror" where
  "conflictWithRetryAfter base lockedUntil now =
     (case lockedUntil of
        None \<Rightarrow> base
      | Some l \<Rightarrow>
          let sec = int_of_f64 (Seconds (time_sub l now));
              sec = (if sec \<le> 0 then 1 else sec)
          in WithMetadata base [(''retry_after'', dec sec)])"

definition RetryAfterSecondsFromError :: "goerror \<Rightarrow> int" where
  "RetryAfterSecondsFromError e =
     (case as_app e of
        None \<Rightarrow> 0
      | Some (st, c) \<Rightarrow>
          (case Metadata st of
             None \<Rightarrow> 0
           | Some m \<Rightarrow>
               let v = trim_space (case map_of m ''retry_after'' of None \<Rightarrow> [] | Some v \<Rightarrow> v) in
               if v = [] then 0
               else case parse_int v of None \<Rightarrow> 0 | Some seconds \<Rightarrow> if seconds \<le> 0 then 0 else seconds))"

text \<open>utf8.ValidString.\<close>

definition cont :: "char \<Rightarrow> bool" where
  "cont c = (128 \<le> (of_char c :: nat) \<and> (of_char c :: nat) < 192)"

definition between :: "nat \<Rightarrow> nat \<Rightarrow> char \<Rightarrow> bool" where
  "between lo hi c = (lo \<le> of_char c \<and> of_char c \<le> hi)"

fun valid_utf8 :: "string \<Rightarrow> bool" where
  "valid_utf8 [] = True"
| "valid_utf8 (a # s) =
     (if between 0 127 a then valid_utf8 s
      else case s of
        [] \<Rightarrow> False
      | b # s' \<Rightarrow>
          if between 194 223 a then cont b \<and> valid_utf8 s'
          else (case s' of
              [] \<Rightarrow> False
            | c # s'' \<Rightarrow>
                if between 224 239 a
                then cont b \<and> cont c \<and> (a = char_of (224 :: nat) \<longrightarrow> between 160 191 b) \<and>
                     (a = char_of (237 :: nat) \<longrightarrow> between 128 159 b) \<and> valid_utf8 s''
                else (case s'' of
                    [] \<Rightarrow> False
                  | d # t \<Rightarrow> between 240 244 a \<and> cont b \<and> cont c \<and> cont d \<and>
                      (a = char_of (240 :: nat) \<longrightarrow> between 144 191 b) \<and>
                      (a = char_of (244 :: nat) \<longrightarrow> between 128 143 b) \<and> valid_utf8 t)))"

fun truncate_loop :: "string \<Rightarrow> nat \<Rightarrow> string" where
  "truncate_loop s 0 = []"
| "truncate_loop s (Suc n) = (if \<not> valid_utf8 (take (Suc n) s) then truncate_loop s n else take (Suc n) s)"

definition truncateUTF8 :: "string \<Rightarrow> int \<Rightarrow> string" where
  "truncateUTF8 s maxBytes =
     (if maxBytes \<le> 0 \<or> int (length s) \<le> maxBytes then s else truncate_loop s (nat maxBytes))"

definition marshalStoredResponse :: "('p, 'd) codec \<Rightarrow> IdempotencyConfig \<Rightarrow> 'd \<Rightarrow> string option" where
  "marshalStoredResponse cd cfg d =
     (case MarshalData cd d of
        None \<Rightarrow> None
      | Some raw \<Rightarrow>
          let redacted = RedactText cd raw in
          Some (if 0 < MaxStoredResponseLen cfg \<and> MaxStoredResponseLen cfg < int (length redacted)
                then truncateUTF8 redacted (MaxStoredResponseLen cfg) @ ''...(truncated)'' else redacted))"

definition decodeStoredResponse :: "('p, 'd) codec \<Rightarrow> string option \<Rightarrow> 'd option" where
  "decodeStoredResponse cd stored =
     (case stored of
        None \<Rightarrow> Some (EmptyObject cd)
      | Some s \<Rightarrow> if trim_space s = [] then Some (EmptyObject cd) else UnmarshalData cd s)"

section \<open>The record store\<close>

text \<open>
  The table, the next value of its id sequence, the clock, and the rest of the
  world on which the commands act.
\<close>

record 'g table =
  recs :: "IdempotencyRecord list"
  next_id :: int
  now_at :: instant
  world :: 'g

definition has_key :: "string \<Rightarrow> string \<Rightarrow> IdempotencyRecord \<Rightarrow> bool" where
  "has_key scope keyHash r = (recScope r = scope \<and> recKeyHash r = keyHash)"

text \<open>An insert that meets an existing key still uses up a sequence value.\<close>

definition CreateProcessing :: "IdempotencyRecord \<Rightarrow> 'g table \<Rightarrow> int option \<times> 'g table" where
  "CreateProcessing r s =
     (if \<exists>x \<in> set (recs s). has_key (recScope r) (recKeyHash r) x then (None, s\<lparr>next_id := next_id s + 1\<rparr>)
      else (Some (next_id s),
        s\<lparr>next_id := next_id s + 1,
          recs := recs s @ [r\<lparr>recID := next_id s, recLockedUntil := map_option db_us (recLockedUntil r),
            recExpiresAt := db_us (recExpiresAt r), recCreatedAt := db_us (now_at s), recUpdatedAt := db_us (now_at s)\<rparr>]\<rparr>))"

definition GetByScopeAndKeyHash :: "string \<Rightarrow> string \<Rightarrow> 'g table \<Rightarrow> IdempotencyRecord option" where
  "GetByScopeAndKeyHash scope keyHash s = find (has_key scope keyHash) (recs s)"

definition update_recs ::
  "(IdempotencyRecord \<Rightarrow> bool) \<Rightarrow> (IdempotencyRecord \<Rightarrow> IdempotencyRecord) \<Rightarrow> 'g table \<Rightarrow> int \<times> 'g table" where
  "update_recs guard eff s =
     (int (length (filter guard (recs s))),
      s\<lparr>recs := map (\<lambda>r. if guard r then (eff r)\<lparr>recUpdatedAt := db_us (now_at s)\<rparr> else r) (recs s)\<rparr>)"

definition unlocked :: "instant \<Rightarrow> IdempotencyRecord \<Rightarrow> bool" where
  "unlocked now r = (case recLockedUntil r of None \<Rightarrow> True | Some l \<Rightarrow> l \<le> db_us now)"

definition TryReclaim :: "int \<Rightarrow> string \<Rightarrow> instant \<Rightarrow> instant \<Rightarrow> instant \<Rightarrow> 'g table \<Rightarrow> bool \<times> 'g table" where
  "TryReclaim i fromStatus now newLockedUntil newExpiresAt s =
     (case update_recs (\<lambda>r. recID r = i \<and> recStatus r = fromStatus \<and> unlocked now r)
         (\<lambda>r. r\<lparr>recStatus := IdempotencyStatusProcessing, recLockedUntil := Some (db_us newLockedUntil),
                recErrorReason := None, recExpiresAt := db_us newExpiresAt\<rparr>) s of
        (n, s') \<Rightarrow> (0 < n, s'))"

definition MarkSucceeded :: "int \<Rightarrow> int \<Rightarrow> string \<Rightarrow> instant \<Rightarrow> 'g table \<Rightarrow> unit \<times> 'g table" where
  "MarkSucceeded i responseStatus responseBody expiresAt s =
     ((), snd (update_recs (\<lambda>r. recID r = i)
       (\<lambda>r. r\<lparr>recStatus := IdempotencyStatusSucceeded, recResponseStatus := Some responseStatus,
              recResponseBody := Some responseBody, recErrorReason := None, recLockedUntil := None,
              recExpiresAt := db_us expiresAt\<rparr>) s))"

definition MarkFailedRetryable :: "int \<Rightarrow> string \<Rightarrow> instant \<Rightarrow> instant \<Rightarrow> 'g table \<Rightarrow> unit \<times> 'g table" where
  "MarkFailedRetryable i errorReason lockedUntil expiresAt s =
     ((), snd (update_recs (\<lambda>r. recID r = i)
       (\<lambda>r. r\<lparr>recStatus := IdempotencyStatusFailedRetryable, recErrorReason := Some errorReason,
              recLockedUntil := Some (db_us lockedUntil), recExpiresAt := db_us expiresAt\<rparr>) s))"

definition DeleteExpired :: "instant \<Rightarrow> int \<Rightarrow> 'g table \<Rightarrow> int \<times> 'g table" where
  "DeleteExpired now limit s =
     (let limit = (if limit \<le> 0 then 500 else limit);
          victims = map recID (take (nat limit) (sort_key recExpiresAt (filter (\<lambda>r. recExpiresAt r \<le> db_us now) (recs s))));
          doomed = (\<lambda>r. recID r \<in> set victims)
      in (int (length (filter doomed (recs s))), s\<lparr>recs := filter (\<lambda>r. \<not> doomed r) (recs s)\<rparr>))"

section \<open>The coordinator\<close>

text \<open>The outcome of the claim: an error, a stored response, or the id of the claimed record.\<close>

datatype 'd claim = Refused goerror | Replay 'd | Claimed int

definition store_error :: "call_error \<Rightarrow> goerror" where
  "store_error e = WithCause ErrIdempotencyStoreUnavail (Text e)"

text \<open>The decision on an existing record of the same fingerprint.\<close>

definition decide_existing ::
  "('p, 'd) codec \<Rightarrow> IdempotencyRecord \<Rightarrow> instant \<Rightarrow> instant \<Rightarrow> instant \<Rightarrow> 'g table conn \<Rightarrow> 'd claim \<times> 'g table conn" where
  "decide_existing cd existing now lockedUntil expiresAt w =
     (if recStatus existing = IdempotencyStatusSucceeded then
        (case decodeStoredResponse cd (recResponseBody existing) of
           None \<Rightarrow> (Refused (WithCause ErrIdempotencyStoreUnavail (Text ''decode stored response'')), w)
         | Some d \<Rightarrow> (Replay d, w))
      else if recStatus existing = IdempotencyStatusProcessing then
        (Refused (conflictWithRetryAfter ErrIdempotencyInProgress (recLockedUntil existing) now), w)
      else if recStatus existing = IdempotencyStatusFailedRetryable then
        (if (case recLockedUntil existing of None \<Rightarrow> False | Some l \<Rightarrow> now < l)
         then (Refused (conflictWithRetryAfter ErrIdempotencyRetryBackoff (recLockedUntil existing) now), w)
         else case call (TryReclaim (recID existing) IdempotencyStatusFailedRetryable now lockedUntil expiresAt) w of
           (Inl e, w) \<Rightarrow> (Refused (store_error e), w)
         | (Inr taken, w) \<Rightarrow>
             if \<not> taken then (Refused (conflictWithRetryAfter ErrIdempotencyInProgress (recLockedUntil existing) now), w)
             else (Claimed (recID existing), w))
      else (Refused ErrIdempotencyKeyConflict, w))"

definition claim_existing ::
  "('p, 'd) codec \<Rightarrow> string \<Rightarrow> string \<Rightarrow> string \<Rightarrow> instant \<Rightarrow> instant \<Rightarrow> instant \<Rightarrow> 'g table conn \<Rightarrow> 'd claim \<times> 'g table conn" where
  "claim_existing cd scope keyHash fingerprint now lockedUntil expiresAt w =
     (case call (reads (GetByScopeAndKeyHash scope keyHash)) w of
        (Inl e, w) \<Rightarrow> (Refused (store_error e), w)
      | (Inr None, w) \<Rightarrow> (Refused ErrIdempotencyStoreUnavail, w)
      | (Inr (Some existing), w) \<Rightarrow>
          if recFingerprint existing \<noteq> fingerprint then (Refused ErrIdempotencyKeyConflict, w)
          else if \<not> now < recExpiresAt existing then
            (case call (TryReclaim (recID existing) (recStatus existing) now lockedUntil expiresAt) w of
               (Inl e, w) \<Rightarrow> (Refused (store_error e), w)
             | (Inr True, w) \<Rightarrow> (Claimed (recID existing), w)
             | (Inr False, w) \<Rightarrow>
                 (case call (reads (GetByScopeAndKeyHash scope keyHash)) w of
                    (Inl e, w) \<Rightarrow> (Refused (store_error e), w)
                  | (Inr None, w) \<Rightarrow> (Refused ErrIdempotencyStoreUnavail, w)
                  | (Inr (Some latest), w) \<Rightarrow>
                      if recFingerprint latest \<noteq> fingerprint then (Refused ErrIdempotencyKeyConflict, w)
                      else decide_existing cd latest now lockedUntil expiresAt w))
          else decide_existing cd existing now lockedUntil expiresAt w)"

definition new_record :: "string \<Rightarrow> string \<Rightarrow> string \<Rightarrow> instant \<Rightarrow> instant \<Rightarrow> IdempotencyRecord" where
  "new_record scope keyHash fingerprint lockedUntil expiresAt =
     \<lparr>recID = 0, recScope = scope, recKeyHash = keyHash, recFingerprint = fingerprint,
      recStatus = IdempotencyStatusProcessing, recResponseStatus = None, recResponseBody = None,
      recErrorReason = None, recLockedUntil = Some lockedUntil, recExpiresAt = expiresAt,
      recCreatedAt = zero_time, recUpdatedAt = zero_time\<rparr>"

definition claim_record ::
  "('p, 'd) codec \<Rightarrow> string \<Rightarrow> string \<Rightarrow> string \<Rightarrow> instant \<Rightarrow> instant \<Rightarrow> instant \<Rightarrow> 'g table conn \<Rightarrow> 'd claim \<times> 'g table conn" where
  "claim_record cd scope keyHash fingerprint now lockedUntil expiresAt w =
     (case call (CreateProcessing (new_record scope keyHash fingerprint lockedUntil expiresAt)) w of
        (Inl e, w) \<Rightarrow> (Refused (store_error e), w)
      | (Inr (Some i), w) \<Rightarrow> (Claimed i, w)
      | (Inr None, w) \<Rightarrow> claim_existing cd scope keyHash fingerprint now lockedUntil expiresAt w)"

text \<open>A command acts on the state through the same server, for as long as it takes.\<close>

type_synonym ('g, 'd) command = "'g table conn \<Rightarrow> (goerror, 'd) result \<times> 'g table conn"

definition run_claimed ::
  "('p, 'd) codec \<Rightarrow> IdempotencyConfig \<Rightarrow> int \<Rightarrow> instant \<Rightarrow> ('g, 'd) command \<Rightarrow> 'g table conn
   \<Rightarrow> (goerror, 'd IdempotencyExecuteResult) result \<times> 'g table conn" where
  "run_claimed cd cfg i expiresAt execute w =
     (case execute w of
        (Inl execErr, w) \<Rightarrow>
          let backoffUntil = now_at (server w) + FailedRetryBackoff cfg;
              reason = (if ReasonOf execErr = [] then ''EXECUTION_FAILED'' else ReasonOf execErr)
          in (Err execErr, snd (call (MarkFailedRetryable i reason backoffUntil expiresAt) w))
      | (Inr d, w) \<Rightarrow>
          (case marshalStoredResponse cd cfg d of
             None \<Rightarrow> (Err (WithCause ErrIdempotencyStoreUnavail (Text ''json: unsupported value'')), w)
           | Some storedBody \<Rightarrow>
               (case call (MarkSucceeded i 200 storedBody expiresAt) w of
                  (Inl e, w) \<Rightarrow> (Err (store_error e), w)
                | (Inr _, w) \<Rightarrow> (Ok \<lparr>Data = d, Replayed = False\<rparr>, w))))"

text \<open>The repository may be nil, and so may the command.\<close>

definition Execute ::
  "('p, 'd) codec \<Rightarrow> IdempotencyConfig \<Rightarrow> bool \<Rightarrow> 'p IdempotencyExecuteOptions \<Rightarrow> ('g, 'd) command option \<Rightarrow> 'g table conn
   \<Rightarrow> (goerror, 'd IdempotencyExecuteResult) result \<times> 'g table conn" where
  "Execute cd cfg has_repo opts command w =
     (case command of
        None \<Rightarrow> (Err (InternalServer ''IDEMPOTENCY_EXECUTOR_NIL'' ''idempotency executor is nil''), w)
      | Some execute \<Rightarrow>
          (case NormalizeIdempotencyKey (optKey opts) of
             Inl e \<Rightarrow> (Err e, w)
           | Inr key \<Rightarrow>
               if key = [] then
                 (if optRequireKey opts \<and> \<not> ObserveOnly cfg then (Err ErrIdempotencyKeyRequired, w)
                  else case execute w of
                    (Inl execErr, w) \<Rightarrow> (Err execErr, w)
                  | (Inr d, w) \<Rightarrow> (Ok \<lparr>Data = d, Replayed = False\<rparr>, w))
               else if \<not> has_repo then (Err ErrIdempotencyStoreUnavail, w)
               else if optScope opts = [] then
                 (Err (BadRequest ''IDEMPOTENCY_SCOPE_REQUIRED'' ''idempotency scope is required''), w)
               else case BuildIdempotencyFingerprint cd (optMethod opts) (optRoute opts) (optActorScope opts) (optPayload opts) of
                 Inl e \<Rightarrow> (Err e, w)
               | Inr fingerprint \<Rightarrow>
                   let ttl = (if optTTL opts \<le> 0 then DefaultTTL cfg else optTTL opts);
                       now = now_at (server w);
                       expiresAt = now + ttl;
                       lockedUntil = now + ProcessingTimeout cfg
                   in case claim_record cd (optScope opts) (HashIdempotencyKey cd key) fingerprint now lockedUntil expiresAt w of
                     (Refused e, w) \<Rightarrow> (Err e, w)
                   | (Replay d, w) \<Rightarrow> (Ok \<lparr>Data = d, Replayed = True\<rparr>, w)
                   | (Claimed i, w) \<Rightarrow>
                       if i = 0 then (Err ErrIdempotencyStoreUnavail, w)
                       else run_claimed cd cfg i expiresAt execute w))"

end
