(* ===== verification/Replays.thy ===== *)
theory Replays
  imports Idempotency
begin

text \<open>
  What the idempotency store and its coordinator guarantee: the table stays well
  formed; under every interleaving a key has one unexpired claim at a time unless a
  command outlives its own lock; a second request never runs its command again and
  replays the stored response when that fits; and the retry delay of a conflict.
\<close>


section \<open>The store's steps\<close>

text \<open>
  What any process does to the table, one statement at a time: claims, their
  outcomes, the clean-up, and the passing of time.  A claim carries the key, the
  id and the stored lock, an outcome the id of the record, which is all its statement
  looks at, and the lock of the claim whose command reports it; the instants a process compares with are not in the
  future, and the retention of a claim reaches its lock.
\<close>

datatype store_event = EClaim string string int instant | EFinish int instant | EOther

inductive store_step :: "'g table \<Rightarrow> store_event \<Rightarrow> 'g table \<Rightarrow> bool" where
  st_create: "CreateProcessing (new_record sc kh fp lk ex) s = (Some i, s') \<Longrightarrow> lk \<le> ex \<Longrightarrow>
    store_step s (EClaim sc kh i (db_us lk)) s'"
| st_exists: "CreateProcessing (new_record sc kh fp lk ex) s = (None, s') \<Longrightarrow> store_step s EOther s'"
| st_reclaim: "TryReclaim i st now lk ex s = (True, s') \<Longrightarrow> r \<in> set (recs s) \<Longrightarrow> recID r = i \<Longrightarrow>
    now \<le> now_at s \<Longrightarrow> lk \<le> ex \<Longrightarrow> store_step s (EClaim (recScope r) (recKeyHash r) i (db_us lk)) s'"
| st_refused: "TryReclaim i st now lk ex s = (False, s') \<Longrightarrow> store_step s EOther s'"
| st_succeed: "store_step s (EFinish i l) (snd (MarkSucceeded i 200 body ex s))"
| st_fail: "store_step s (EFinish i l) (snd (MarkFailedRetryable i reason lk ex s))"
| st_delete: "now \<le> now_at s \<Longrightarrow> store_step s EOther (snd (DeleteExpired now limit s))"
| st_tick: "now_at s \<le> t \<Longrightarrow> store_step s EOther (s\<lparr>now_at := t, world := g\<rparr>)"

inductive store_run :: "'g table \<Rightarrow> store_event list \<Rightarrow> 'g table \<Rightarrow> bool" where
  run_nil: "store_run s [] s"
| run_step: "store_run s es s' \<Longrightarrow> store_step s' e s'' \<Longrightarrow> store_run s (es @ [e]) s''"

text \<open>
  What the schema and the statements keep: ids and keys are unique, ids are
  positive and below the sequence, and the status says which fields are set.
\<close>

definition record_ok :: "IdempotencyRecord \<Rightarrow> bool" where
  "record_ok r \<longleftrightarrow>
     (recStatus r = IdempotencyStatusProcessing \<and> recLockedUntil r \<noteq> None) \<or>
     (recStatus r = IdempotencyStatusSucceeded \<and> recLockedUntil r = None \<and> recResponseStatus r = Some 200 \<and>
        recResponseBody r \<noteq> None \<and> recErrorReason r = None) \<or>
     (recStatus r = IdempotencyStatusFailedRetryable \<and> recLockedUntil r \<noteq> None \<and> recErrorReason r \<noteq> None)"

definition the_key :: "IdempotencyRecord \<Rightarrow> string \<times> string" where
  "the_key r = (recScope r, recKeyHash r)"

definition table_ok :: "'g table \<Rightarrow> bool" where
  "table_ok s \<longleftrightarrow> distinct (map recID (recs s)) \<and> distinct (map the_key (recs s)) \<and> 0 < next_id s \<and>
     (\<forall>r \<in> set (recs s). 0 < recID r \<and> recID r < next_id s \<and> record_ok r)"

lemma update_ok:
  assumes "table_ok s" "\<And>r. guard r \<Longrightarrow> recID (eff r) = recID r \<and> the_key (eff r) = the_key r"
    and "\<And>r t. guard r \<Longrightarrow> record_ok r \<Longrightarrow> record_ok ((eff r)\<lparr>recUpdatedAt := t\<rparr>)"
  shows "table_ok (snd (update_recs guard eff s))"
proof -
  let ?f = "\<lambda>r. if guard r then (eff r)\<lparr>recUpdatedAt := db_us (now_at s)\<rparr> else r"
  have "map recID (recs (snd (update_recs guard eff s))) = map recID (recs s)"
    "map the_key (recs (snd (update_recs guard eff s))) = map the_key (recs s)"
    using assms(2) by (auto simp: update_recs_def the_key_def)
  then show ?thesis
    using assms unfolding table_ok_def by (simp only:) (auto simp: update_recs_def)
qed

lemma reclaim_snd: "snd (TryReclaim i st now lk ex s) = snd (update_recs (\<lambda>r. recID r = i \<and> recStatus r = st \<and> unlocked now r)
    (\<lambda>r. r\<lparr>recStatus := IdempotencyStatusProcessing, recLockedUntil := Some (db_us lk), recErrorReason := None, recExpiresAt := db_us ex\<rparr>) s)"
  by (simp add: TryReclaim_def split: prod.split)

lemma statements_ok:
  assumes "table_ok s"
  shows "table_ok (snd (CreateProcessing (new_record sc kh fp lk ex) s))"
    and "table_ok (snd (TryReclaim i st now lk ex s))"
    and "table_ok (snd (MarkSucceeded i 200 body ex s))"
    and "table_ok (snd (MarkFailedRetryable i reason lk ex s))"
    and "table_ok (snd (DeleteExpired now limit s))"
proof -
  show "table_ok (snd (CreateProcessing (new_record sc kh fp lk ex) s))"
    using assms by (force simp: CreateProcessing_def table_ok_def new_record_def the_key_def has_key_def record_ok_def)
  show "table_ok (snd (TryReclaim i st now lk ex s))"
    unfolding reclaim_snd by (rule update_ok [OF assms]) (auto simp: the_key_def record_ok_def)
  show "table_ok (snd (MarkSucceeded i 200 body ex s))" "table_ok (snd (MarkFailedRetryable i reason lk ex s))"
    unfolding MarkSucceeded_def MarkFailedRetryable_def snd_conv
    by (rule update_ok [OF assms]; auto simp: the_key_def record_ok_def)+
  show "table_ok (snd (DeleteExpired now limit s))"
    using assms by (auto simp: table_ok_def DeleteExpired_def Let_def distinct_map intro: inj_on_subset)
qed

lemma step_ok: "store_step s e s' \<Longrightarrow> table_ok s \<Longrightarrow> table_ok s'"
proof (induction rule: store_step.induct)
  case (st_create sc kh fp lk ex s i s')
  then show ?case using statements_ok(1) [of s sc kh fp lk ex] by simp
next
  case (st_exists sc kh fp lk ex s s')
  then show ?case using statements_ok(1) [of s sc kh fp lk ex] by simp
next
  case (st_reclaim i st now lk ex s s' r)
  then show ?case using statements_ok(2) [of s i st now lk ex] by simp
next
  case (st_refused i st now lk ex s s')
  then show ?case using statements_ok(2) [of s i st now lk ex] by simp
next
  case (st_tick s t g)
  then show ?case by (simp add: table_ok_def)
qed (simp_all add: statements_ok(3-5))

text \<open>
  C37: Every statement of the coordinator, of any number of processes in any order,
  and the clean-up keep the table well formed: ids and keys unique, ids positive,
  and the fields of a record fit its status.
\<close>

theorem store_well_formed: "store_run s es s' \<Longrightarrow> table_ok s \<Longrightarrow> table_ok s'"
  by (induction rule: store_run.induct) (auto intro: step_ok)


theorem store_well_formed_witness:
  "table_ok (snd (CreateProcessing (new_record ''s'' ''h'' ''f'' 5 9) \<lparr>recs = [], next_id = 1, now_at = 0, world = ()\<rparr>))"
proof -
  let ?s = "\<lparr>recs = [], next_id = 1, now_at = 0, world = ()\<rparr>"
  have "store_run ?s ([] @ [EClaim ''s'' ''h'' 1 (db_us 5)])
      (snd (CreateProcessing (new_record ''s'' ''h'' ''f'' 5 9) ?s))"
    by (intro run_step [OF run_nil] st_create [where ex = 9]) (simp_all add: CreateProcessing_def)
  then show ?thesis by (rule store_well_formed) (simp add: table_ok_def)
qed

section \<open>One holder per key\<close>

lemma db_us_mono: "t \<le> u \<Longrightarrow> db_us t \<le> db_us u"
  using minus_mod_eq_mult_div [of "t + 500" 1000] minus_mod_eq_mult_div [of "u + 500" 1000]
    zdiv_mono1 [of "t + 500" "u + 500" 1000] by (simp add: db_us_def)

definition held :: "string \<Rightarrow> string \<Rightarrow> int \<Rightarrow> instant \<Rightarrow> 'g table \<Rightarrow> bool" where
  "held sc kh i l s \<longleftrightarrow> (\<exists>r \<in> set (recs s). recScope r = sc \<and> recKeyHash r = kh \<and> recID r = i \<and>
     recStatus r = IdempotencyStatusProcessing \<and> recLockedUntil r = Some l \<and> l \<le> recExpiresAt r)"

lemma table_unique:
  assumes "table_ok s" "r \<in> set (recs s)" "x \<in> set (recs s)"
  shows "recID r = recID x \<Longrightarrow> r = x"
    and "recScope r = recScope x \<Longrightarrow> recKeyHash r = recKeyHash x \<Longrightarrow> r = x"
  using assms by (auto simp: table_ok_def distinct_map inj_on_def the_key_def)

lemma update_in: "r \<in> set (recs s) \<Longrightarrow> guard r \<Longrightarrow>
    (eff r)\<lparr>recUpdatedAt := db_us (now_at s)\<rparr> \<in> set (recs (snd (update_recs guard eff s)))"
  by (auto simp: update_recs_def image_iff intro!: bexI [of _ r])

lemma held_update:
  assumes "held sc kh i l s" "\<And>r. recID r = i \<Longrightarrow> recLockedUntil r = Some l \<Longrightarrow> \<not> guard r"
  shows "held sc kh i l (snd (update_recs guard eff s))"
  using assms by (force simp: held_def update_recs_def)

lemma reclaim_row:
  assumes "table_ok s" "TryReclaim i st now lk ex s = (True, s')" "r \<in> set (recs s)" "recID r = i"
  shows "recStatus r = st \<and> unlocked now r"
proof -
  obtain x where "x \<in> set (recs s)" "recID x = i" "recStatus x = st" "unlocked now x"
    using assms(2) by (auto simp: TryReclaim_def update_recs_def filter_empty_conv)
  then show ?thesis using table_unique(1) [OF assms(1,3)] assms(4) by metis
qed

lemma claim_holds:
  assumes "store_step s (EClaim sc kh i l) s'" "table_ok s"
  shows "held sc kh i l s'"
  using assms(1)
proof cases
  case (st_create fp lk ex)
  then show ?thesis
    by (auto simp: CreateProcessing_def held_def new_record_def db_us_mono split: if_splits)
next
  case (st_reclaim st now lk ex r)
  then have "recStatus r = st \<and> unlocked now r" using reclaim_row [OF assms(2)] by blast
  then have "\<exists>x \<in> set (recs (snd (TryReclaim i st now lk ex s))). recScope x = sc \<and> recKeyHash x = kh \<and> recID x = i \<and>
      recStatus x = IdempotencyStatusProcessing \<and> recLockedUntil x = Some l \<and> l \<le> recExpiresAt x"
    unfolding reclaim_snd using st_reclaim by (intro bexI [OF _ update_in [of r]]) (simp_all add: db_us_mono)
  then show ?thesis using st_reclaim by (simp add: held_def)
qed

lemma held_step:
  assumes "store_step s e s'" "table_ok s" "held sc kh i l s \<or> l \<le> db_us (now_at s)" "\<forall>l0. e \<noteq> EFinish i l0"
  shows "held sc kh i l s' \<or> l \<le> db_us (now_at s')"
  using assms
proof (induction rule: store_step.induct)
  case (st_create sc' kh' fp lk ex s i' s')
  then show ?case by (auto simp: CreateProcessing_def held_def split: if_splits)
next
  case (st_exists sc kh fp lk ex s s')
  then show ?case by (auto simp: CreateProcessing_def held_def split: if_splits)
next
  case (st_reclaim j st now lk ex s s' r)
  show ?case
  proof (cases "l \<le> db_us (now_at s)")
    case True
    then show ?thesis using st_reclaim.hyps(1) by (auto simp: TryReclaim_def update_recs_def)
  next
    case False
    then have "l > db_us now" using db_us_mono [OF st_reclaim.hyps(4)] by simp
    then have "held sc kh i l (snd (TryReclaim j st now lk ex s))"
      unfolding reclaim_snd using st_reclaim.prems(2) False by (intro held_update) (auto simp: unlocked_def)
    then show ?thesis using st_reclaim.hyps(1) by simp
  qed
next
  case (st_refused j st now lk ex s s')
  have "recs s' = recs s \<and> now_at s' = now_at s"
    using st_refused.hyps by (auto simp: TryReclaim_def update_recs_def filter_empty_conv intro!: map_idI)
  then show ?case using st_refused.prems by (simp add: held_def)
next
  case (st_succeed s j l' body ex)
  then show ?case
    using held_update [of sc kh i l s "\<lambda>r. recID r = j"] by (auto simp: MarkSucceeded_def update_recs_def)
next
  case (st_fail s j l' reason lk ex)
  then show ?case
    using held_update [of sc kh i l s "\<lambda>r. recID r = j"] by (auto simp: MarkFailedRetryable_def update_recs_def)
next
  case (st_delete now s limit)
  show ?case
  proof (cases "l \<le> db_us (now_at s)")
    case False
    then have "db_us now < l" using db_us_mono [OF st_delete.hyps] by simp
    obtain r where r: "r \<in> set (recs s)" "recScope r = sc" "recKeyHash r = kh" "recID r = i"
      "recStatus r = IdempotencyStatusProcessing" "recLockedUntil r = Some l" "l \<le> recExpiresAt r"
      using st_delete.prems(2) False by (auto simp: held_def)
    have late: "x \<in> set (recs s) \<Longrightarrow> recExpiresAt x \<le> db_us now \<Longrightarrow> recID x = i \<Longrightarrow> False" for x
      using table_unique(1) [OF st_delete.prems(1) r(1)] r(4,7) \<open>db_us now < l\<close> by force
    then have "r \<in> set (recs (snd (DeleteExpired now limit s)))"
      using r(1,4) by (auto simp: DeleteExpired_def Let_def dest!: in_set_takeD dest: late)
    then show ?thesis using r by (auto simp: held_def)
  qed (simp add: DeleteExpired_def Let_def)
next
  case (st_tick s t g)
  then show ?case using db_us_mono [OF st_tick.hyps] by (auto simp: held_def)
qed

lemma claim_excluded:
  assumes "store_step s (EClaim sc kh j l') s'" "table_ok s" "held sc kh i l s"
  shows "l \<le> db_us (now_at s)"
proof (rule ccontr)
  assume nl: "\<not> l \<le> db_us (now_at s)"
  obtain r where r: "r \<in> set (recs s)" "recScope r = sc" "recKeyHash r = kh" "recLockedUntil r = Some l"
    using assms(3) by (auto simp: held_def)
  from assms(1) show False
  proof cases
    case (st_create fp lk ex)
    then show False using r by (auto simp: CreateProcessing_def new_record_def has_key_def split: if_splits)
  next
    case (st_reclaim st now lk ex x)
    then have "x = r" using table_unique(2) [OF assms(2), of x r] r by simp
    then have "unlocked now r" using reclaim_row [OF assms(2)] st_reclaim by blast
    then show False using r(4) nl db_us_mono [of now "now_at s"] st_reclaim by (simp add: unlocked_def)
  qed
qed

lemma step_time: "store_step s e s' \<Longrightarrow> now_at s \<le> now_at s'"
  by (induction rule: store_step.induct)
    (auto simp: CreateProcessing_def TryReclaim_def update_recs_def MarkSucceeded_def MarkFailedRetryable_def
      DeleteExpired_def Let_def split: if_splits)

text \<open>
  A claim is running from its claim until its command reports its outcome, which it
  does at most once; a process that dies reports nothing, and its claim stays in the
  list.  A run from an empty table collects the running claims and whether any
  command reported after its own lock had run out.
\<close>

type_synonym claim_id = "string \<times> string \<times> int \<times> instant"

inductive claim_run :: "'g table \<Rightarrow> claim_id list \<Rightarrow> bool \<Rightarrow> bool" where
  cr_empty: "recs s = [] \<Longrightarrow> 0 < next_id s \<Longrightarrow> claim_run s [] False"
| cr_claim: "claim_run s cs late \<Longrightarrow> store_step s (EClaim sc kh i l) s' \<Longrightarrow> claim_run s' ((sc, kh, i, l) # cs) late"
| cr_finish: "claim_run s cs late \<Longrightarrow> (sc, kh, i, l) \<in> set cs \<Longrightarrow> store_step s (EFinish i l) s' \<Longrightarrow>
    claim_run s' (remove1 (sc, kh, i, l) cs) (late \<or> l \<le> db_us (now_at s))"
| cr_other: "claim_run s cs late \<Longrightarrow> store_step s EOther s' \<Longrightarrow> claim_run s' cs late"

definition unexpired :: "'g table \<Rightarrow> claim_id list \<Rightarrow> claim_id list" where
  "unexpired s cs = filter (\<lambda>(sc, kh, i, l). db_us (now_at s) < l) cs"

definition claim_key :: "claim_id \<Rightarrow> string \<times> string" where
  "claim_key c = (case c of (sc, kh, i, l) \<Rightarrow> (sc, kh))"

definition claims_held :: "'g table \<Rightarrow> claim_id list \<Rightarrow> bool" where
  "claims_held s cs \<longleftrightarrow> table_ok s \<and> distinct (map claim_key (unexpired s cs)) \<and>
     (\<forall>(sc, kh, i, l) \<in> set cs. held sc kh i l s \<or> l \<le> db_us (now_at s))"

lemma unexpired_shrinks: "now_at s \<le> now_at s' \<Longrightarrow> unexpired s' cs = unexpired s' (unexpired s cs)"
  using db_us_mono [of "now_at s" "now_at s'"] by (auto simp: unexpired_def intro: filter_cong)

lemma distinct_keys_remove1: "distinct (map f xs) \<Longrightarrow> distinct (map f (remove1 x xs))"
  by (auto simp: distinct_map intro: inj_on_diff)

lemma keys_shrink:
  assumes "store_step s e s'" "distinct (map claim_key (unexpired s cs))"
  shows "distinct (map claim_key (unexpired s' cs))"
  unfolding unexpired_shrinks [OF step_time [OF assms(1)], of cs] unfolding unexpired_def [of s']
  by (rule distinct_map_filter [OF assms(2)])

lemma claims_held_claim:
  assumes "claims_held s cs" "store_step s (EClaim sc kh i l) s'"
  shows "claims_held s' ((sc, kh, i, l) # cs)"
proof -
  have ok: "table_ok s" "table_ok s'" using assms step_ok by (auto simp: claims_held_def)
  have h: "held a b j m s' \<or> m \<le> db_us (now_at s')" if "(a, b, j, m) \<in> set cs" for a b j m
    using held_step [OF assms(2) ok(1), of a b j m] assms(1) that by (auto simp: claims_held_def)
  have "claim_key c \<noteq> (sc, kh)" if "c \<in> set (unexpired s' cs)" for c
  proof -
    obtain a b j m where c: "c = (a, b, j, m)" by (cases c) auto
    have m: "db_us (now_at s) < m" "(a, b, j, m) \<in> set cs"
      using that c db_us_mono [OF step_time [OF assms(2)]] by (auto simp: unexpired_def)
    then have "held a b j m s" using assms(1) by (auto simp: claims_held_def)
    then show ?thesis using claim_excluded [OF assms(2) ok(1), of j m] m(1) c by (auto simp: claim_key_def)
  qed
  then have "distinct (map claim_key (unexpired s' ((sc, kh, i, l) # cs)))"
    using keys_shrink [OF assms(2), of cs] assms(1)
    by (auto simp: claims_held_def unexpired_def claim_key_def)
  then show ?thesis using ok(2) h claim_holds [OF assms(2) ok(1)] by (auto simp: claims_held_def)
qed

lemma claims_held_finish:
  assumes "claims_held s cs" "store_step s (EFinish i l) s'" "(sc, kh, i, l) \<in> set cs" "db_us (now_at s) < l"
  shows "claims_held s' (remove1 (sc, kh, i, l) cs)"
proof -
  let ?c = "(sc, kh, i, l)"
  have ok: "table_ok s" "table_ok s'" using assms step_ok by (auto simp: claims_held_def)
  have own: "held sc kh i l s" using assms by (auto simp: claims_held_def)
  have "held a b j m s' \<or> m \<le> db_us (now_at s')" if "(a, b, j, m) \<in> set (remove1 ?c cs)" for a b j m
  proof (cases "db_us (now_at s) < m \<and> j = i")
    case True
    have "(a, b, j, m) \<in> set cs" using that by (meson notin_set_remove1)
    then have "held a b j m s" using assms(1) True by (auto simp: claims_held_def)
    then have same: "(a, b, j, m) = ?c" using own True table_unique(1) [OF ok(1)] by (force simp: held_def)
    have "distinct (unexpired s cs)" using assms(1) by (auto simp: claims_held_def distinct_map)
    then have "?c \<notin> set (unexpired s (remove1 ?c cs))"
      by (simp add: unexpired_def filter_remove1 set_remove1_eq)
    then show ?thesis using that same assms(4) by (simp add: unexpired_def)
  next
    case False
    have "(a, b, j, m) \<in> set cs" using that by (meson notin_set_remove1)
    then have "held a b j m s \<or> m \<le> db_us (now_at s)" using assms(1) by (auto simp: claims_held_def)
    then show ?thesis
      using held_step [OF assms(2) ok(1), of a b j m] False db_us_mono [OF step_time [OF assms(2)]] by auto
  qed
  moreover have "distinct (map claim_key (unexpired s (remove1 ?c cs)))"
    using assms(1) distinct_keys_remove1 [of claim_key "unexpired s cs" ?c]
    by (simp add: claims_held_def unexpired_def filter_remove1)
  ultimately show ?thesis using ok(2) keys_shrink [OF assms(2)] by (auto simp: claims_held_def)
qed

lemma claims_held_run: "claim_run s cs late \<Longrightarrow> \<not> late \<Longrightarrow> claims_held s cs"
proof (induction rule: claim_run.induct)
  case (cr_empty s)
  then show ?case by (simp add: claims_held_def table_ok_def unexpired_def)
next
  case (cr_claim s cs late sc kh i l s')
  then show ?case using claims_held_claim by blast
next
  case (cr_finish s cs late sc kh i l s')
  then show ?case using claims_held_finish by (metis linorder_not_le)
next
  case (cr_other s cs late s')
  then have ch: "claims_held s cs" by simp
  have "held a b j m s' \<or> m \<le> db_us (now_at s')" if "(a, b, j, m) \<in> set cs" for a b j m
    using held_step [OF cr_other.hyps(2), of a b j m] ch that by (auto simp: claims_held_def)
  then show ?case
    using ch keys_shrink [OF cr_other.hyps(2)] step_ok [OF cr_other.hyps(2)] by (auto simp: claims_held_def)
qed

text \<open>
  C27: No two commands of one key run under unexpired claims at the same time, under
  every interleaving of any number of processes from an empty table, with the clean-up
  and with processes that die: at every instant the running claims whose lock has not
  run out have different keys, as long as no command has reported an outcome after its
  own lock ran out.  (Such a late outcome is written by record id alone and can free a
  record that another process has claimed since.)
\<close>

theorem claims_exclusive:
  assumes "claim_run s cs late" "\<not> late"
  shows "distinct (map claim_key (unexpired s cs))"
  using claims_held_run [OF assms] by (simp add: claims_held_def)

definition table1 :: "unit table" where
  "table1 = \<lparr>recs = [(new_record ''s'' ''h'' ''f'' 5000 9000)\<lparr>recID := 1\<rparr>], next_id = 2, now_at = 0, world = ()\<rparr>"

theorem claims_exclusive_witness:
  "\<exists>s :: unit table. claim_run s [(''s'', ''h'', 1, 5000)] False \<and> length (unexpired s [(''s'', ''h'', 1, 5000)]) = 1 \<and>
     distinct (map claim_key (unexpired s [(''s'', ''h'', 1, 5000)]))"
proof -
  let ?s = "\<lparr>recs = [], next_id = 1, now_at = 0, world = ()\<rparr>"
  have one: "store_step ?s (EClaim ''s'' ''h'' 1 5000) (table1\<lparr>recs := [(new_record ''s'' ''h'' ''f'' 5000 9000)\<lparr>recID := 1,
      recCreatedAt := 0, recUpdatedAt := 0\<rparr>]\<rparr>)" (is "store_step _ _ ?t")
    using st_create [of "''s''" "''h''" "''f''" 5000 9000 ?s 1 ?t]
    by (simp add: CreateProcessing_def new_record_def db_us_def table1_def)
  have "claim_run ?s [] False" by (rule cr_empty) simp_all
  note run = cr_claim [OF this one]
  have "length (unexpired ?t [(''s'', ''h'', 1, 5000)]) = 1" by (simp add: unexpired_def table1_def db_us_def)
  with claims_exclusive [OF run] run show ?thesis by blast
qed

section \<open>The second request\<close>

text \<open>A command that acts on the rest of the world and takes d.\<close>

definition on_world :: "duration \<Rightarrow> ('g \<Rightarrow> (goerror, 'd) result \<times> 'g) \<Rightarrow> ('g, 'd) command" where
  "on_world d f w = (case f (world (server w)) of
     (r, g) \<Rightarrow> (r, w\<lparr>server := (server w)\<lparr>world := g, now_at := now_at (server w) + d\<rparr>\<rparr>))"

lemma find_key:
  assumes "table_ok s" "r \<in> set (recs s)"
  shows "find (has_key (recScope r) (recKeyHash r)) (recs s) = Some r"
proof (cases "find (has_key (recScope r) (recKeyHash r)) (recs s)")
  case None
  then show ?thesis using assms(2) by (auto simp: find_None_iff has_key_def)
next
  case (Some x)
  then have "x \<in> set (recs s)" "has_key (recScope r) (recKeyHash r) x" by (auto simp: find_Some_iff)
  then show ?thesis using table_unique(2) [OF assms(1) _ assms(2), of x] Some by (auto simp: has_key_def)
qed

text \<open>The claimed record.\<close>

definition claimed :: "string \<Rightarrow> string \<Rightarrow> string \<Rightarrow> int \<Rightarrow> instant \<Rightarrow> instant \<Rightarrow> IdempotencyRecord \<Rightarrow> bool" where
  "claimed sc kh fp i lk ex r \<longleftrightarrow> recScope r = sc \<and> recKeyHash r = kh \<and> recFingerprint r = fp \<and> recID r = i \<and>
     recStatus r = IdempotencyStatusProcessing \<and> recLockedUntil r = Some (db_us lk) \<and> recExpiresAt r = db_us ex"

lemma reclaim_claims:
  assumes "table_ok s" "TryReclaim (recID r) st now lk ex s = (True, s')" "r \<in> set (recs s)"
  shows "\<exists>x \<in> set (recs s'). claimed (recScope r) (recKeyHash r) (recFingerprint r) (recID r) lk ex x"
proof -
  have "recStatus r = st \<and> unlocked now r" using reclaim_row [OF assms] by simp
  then have "\<exists>x \<in> set (recs (snd (TryReclaim (recID r) st now lk ex s))). claimed (recScope r) (recKeyHash r) (recFingerprint r) (recID r) lk ex x"
    unfolding reclaim_snd using assms(3) by (intro bexI [OF _ update_in [of r]]) (simp_all add: claimed_def)
  then show ?thesis using assms(2) by simp
qed

lemma reclaim_False: "TryReclaim i st now lk ex s = (False, s') \<Longrightarrow> s' = s"
  by (auto simp: TryReclaim_def update_recs_def filter_empty_conv intro!: map_idI table.equality)

lemma reclaim_frame: "TryReclaim i st now lk ex s = (b, s') \<Longrightarrow> now_at s' = now_at s \<and> world s' = world s \<and> next_id s' = next_id s"
  by (auto simp: TryReclaim_def update_recs_def)

lemma decide_claims:
  assumes "table_ok s" "r \<in> set (recs s)" "decide_existing cd r now lk ex (quiet_conn s) = (Claimed i, w)"
  shows "i = recID r \<and> (\<exists>s'. TryReclaim i IdempotencyStatusFailedRetryable now lk ex s = (True, s') \<and> w = quiet_conn s')"
  using assms(3) by (auto simp: decide_existing_def split: if_splits option.splits prod.splits)

lemma claim_existing_row:
  assumes "table_ok s" "r \<in> set (recs s)"
  shows "claim_existing cd (recScope r) (recKeyHash r) fp now lk ex (quiet_conn s) =
    (if recFingerprint r \<noteq> fp then (Refused ErrIdempotencyKeyConflict, quiet_conn s)
     else if now < recExpiresAt r then decide_existing cd r now lk ex (quiet_conn s)
     else case TryReclaim (recID r) (recStatus r) now lk ex s of
       (True, s') \<Rightarrow> (Claimed (recID r), quiet_conn s')
     | (False, s') \<Rightarrow> decide_existing cd r now lk ex (quiet_conn s))"
  using find_key [OF assms] reclaim_False [of "recID r" "recStatus r" now lk ex s]
  by (auto simp: claim_existing_def reads_def GetByScopeAndKeyHash_def split: prod.split bool.split)

lemma claim_row:
  assumes "table_ok s" "r \<in> set (recs s)"
  shows "claim_record cd (recScope r) (recKeyHash r) fp now lk ex (quiet_conn s) =
    claim_existing cd (recScope r) (recKeyHash r) fp now lk ex (quiet_conn (s\<lparr>next_id := next_id s + 1\<rparr>))"
  using assms by (auto simp: claim_record_def CreateProcessing_def new_record_def has_key_def)

lemma bump_ok: "table_ok s \<Longrightarrow> table_ok (s\<lparr>next_id := next_id s + 1\<rparr>)"
  by (auto simp: table_ok_def)

lemma claim_quiet:
  assumes "table_ok s" "claim_record cd sc kh fp now lk ex (quiet_conn s) = (Claimed i, w)"
  shows "\<exists>s'. w = quiet_conn s' \<and> table_ok s' \<and> now_at s' = now_at s \<and> world s' = world s \<and>
    (\<exists>r \<in> set (recs s'). claimed sc kh fp i lk ex r)"
proof (cases "\<exists>r \<in> set (recs s). has_key sc kh r")
  case False
  then obtain s' where s': "CreateProcessing (new_record sc kh fp lk ex) s = (Some i, s')" "w = quiet_conn s'"
    using assms(2) by (auto simp: claim_record_def CreateProcessing_def new_record_def)
  then have "table_ok s'" using statements_ok(1) [OF assms(1), of sc kh fp lk ex] by simp
  then show ?thesis
    using s' by (auto simp: CreateProcessing_def new_record_def claimed_def split: if_splits)
next
  case True
  then obtain r where r: "r \<in> set (recs s)" "recScope r = sc" "recKeyHash r = kh" by (auto simp: has_key_def)
  let ?s = "s\<lparr>next_id := next_id s + 1\<rparr>"
  have ok: "table_ok ?s" "r \<in> set (recs ?s)" using bump_ok [OF assms(1)] r(1) by simp_all
  have c: "claim_existing cd sc kh fp now lk ex (quiet_conn ?s) = (Claimed i, w)"
    using claim_row [OF assms(1) r(1), of cd fp now lk ex] assms(2) r(2,3) by simp
  have "\<exists>st s'. TryReclaim (recID r) st now lk ex ?s = (True, s') \<and> w = quiet_conn s' \<and> i = recID r \<and> recFingerprint r = fp"
    using c claim_existing_row [OF ok, of cd fp now lk ex] r(2,3) decide_claims [OF ok, of cd now lk ex i w]
    by (auto split: if_splits prod.splits bool.splits)
  then obtain st s' where t: "TryReclaim (recID r) st now lk ex ?s = (True, s')" "w = quiet_conn s'" "i = recID r" "recFingerprint r = fp"
    by blast
  then have "table_ok s'" using statements_ok(2) [OF ok(1), of "recID r" st now lk ex] by simp
  then show ?thesis
    using reclaim_claims [OF ok(1) t(1) ok(2)] reclaim_frame [OF t(1)] t r(2,3) by auto
qed


lemma on_world_quiet: "on_world d f (quiet_conn s) =
    (fst (f (world s)), quiet_conn (s\<lparr>world := snd (f (world s)), now_at := now_at s + d\<rparr>))"
  by (simp add: on_world_def quiet_conn_def split: prod.split)

lemma run_claimed_row:
  assumes "table_ok s" "r \<in> set (recs s)" "claimed sc kh fp i lk ex r"
    and "run_claimed cd cfg i ex (on_world d f) (quiet_conn s) = (Ok res, w)"
  shows "\<exists>s' x body. w = quiet_conn s' \<and> table_ok s' \<and> x \<in> set (recs s') \<and> recScope x = sc \<and> recKeyHash x = kh \<and>
    recFingerprint x = fp \<and> recStatus x = IdempotencyStatusSucceeded \<and> recExpiresAt x = db_us ex \<and>
    marshalStoredResponse cd cfg (Data res) = Some body \<and> recResponseBody x = Some body"
proof -
  let ?s = "s\<lparr>world := snd (f (world s)), now_at := now_at s + d\<rparr>"
  have ok: "table_ok ?s" "r \<in> set (recs ?s)" using assms(1,2) by (simp_all add: table_ok_def)
  obtain v body where v: "fst (f (world s)) = Ok v" "marshalStoredResponse cd cfg v = Some body"
    "res = \<lparr>Data = v, Replayed = False\<rparr>" "w = quiet_conn (snd (MarkSucceeded i 200 body ex ?s))"
    using assms(4) by (auto simp: run_claimed_def on_world_quiet Let_def split: sum.splits option.splits prod.splits)
  have "\<exists>x \<in> set (recs (snd (MarkSucceeded i 200 body ex ?s))). recScope x = sc \<and> recKeyHash x = kh \<and>
    recFingerprint x = fp \<and> recStatus x = IdempotencyStatusSucceeded \<and> recExpiresAt x = db_us ex \<and> recResponseBody x = Some body"
    unfolding MarkSucceeded_def snd_conv using ok(2) assms(3)
    by (intro bexI [OF _ update_in [of r]]) (simp_all add: claimed_def)
  then show ?thesis using v statements_ok(3) [OF ok(1)] by auto
qed

text \<open>
  The stored length allows a response, and what a replay answers for it: the text is
  cut and marked when it is longer.  No JSON text ends with the mark.
\<close>

definition fits :: "IdempotencyConfig \<Rightarrow> string \<Rightarrow> bool" where
  "fits cfg redacted \<longleftrightarrow> MaxStoredResponseLen cfg \<le> 0 \<or> int (length redacted) \<le> MaxStoredResponseLen cfg"

definition rejects_cut :: "('p, 'd) codec \<Rightarrow> bool" where
  "rejects_cut cd \<longleftrightarrow> (\<forall>x. UnmarshalData cd (x @ ''...(truncated)'') = None)"

definition replay_answer :: "('p, 'd) codec \<Rightarrow> IdempotencyConfig \<Rightarrow> string \<Rightarrow> (goerror, 'd IdempotencyExecuteResult) result" where
  "replay_answer cd cfg redacted =
     (case (if fits cfg redacted then decodeStoredResponse cd (Some redacted) else None) of
        Some v \<Rightarrow> Ok \<lparr>Data = v, Replayed = True\<rparr>
      | None \<Rightarrow> Err (WithCause ErrIdempotencyStoreUnavail (Text ''decode stored response'')))"

text \<open>Trimming removes only white space, so a text with another ASCII character is not blank.\<close>

lemma wide_space:
  assumes "codes p \<in> set (space2 @ space3)" "c \<in> set p"
  shows "\<not> (of_char c :: nat) < 128"
proof -
  have "list_all (list_all (\<lambda>x. \<not> x < 128)) (space2 @ space3)" by code_simp
  then have "\<forall>ys \<in> set (space2 @ space3). \<forall>x \<in> set ys. \<not> x < 128" unfolding list_all_iff .
  from bspec [OF this assms(1)] have "\<forall>x \<in> set (codes p). \<not> x < 128" .
  then show ?thesis by (rule bspec) (simp only: set_map imageI assms(2))
qed

lemma space_cases:
  obtains (empty) "s = []" | (space) a t where "s = a # t" "of_char a \<in> set space1"
  | (single) a where "s = [a]" "of_char a \<notin> set space1" | (pair) a b t where "s = a # b # t" "of_char a \<notin> set space1"
  by (metis neq_Nil_conv)

lemma trim_left_last:
  "s \<noteq> [] \<Longrightarrow> (of_char (last s) :: nat) < 128 \<Longrightarrow> of_char (last s) \<notin> set space1 \<Longrightarrow>
     trim_left s \<noteq> [] \<and> last (trim_left s) = last s"
proof (induction "length s" arbitrary: s rule: less_induct)
  case less
  note ascii = wide_space [THEN notE, OF _ _ less.prems(2)]
  show ?case
  proof (cases s rule: space_cases)
    case (space a t)
    then have "trim_left s = trim_left t" "t \<noteq> []" using less.prems(3) by auto
    then show ?thesis using less space by simp
  next
    case (pair a b t)
    consider "codes [a, b] \<in> set space2" | d u where "t = d # u" "codes [a, b, d] \<in> set space3" "codes [a, b] \<notin> set space2"
      | "trim_left s = s"
      unfolding pair(1) trim_left.simps list.case using pair(2) by (cases t) (simp_all only: if_False list.case, metis+)
    then show ?thesis
    proof cases
      case 1
      then have "trim_left s = trim_left t" unfolding pair(1) trim_left.simps list.case using pair(2) by (simp only: if_True if_False)
      moreover have "t \<noteq> []" using ascii [of "[a, b]"] 1 pair(1) by auto
      ultimately show ?thesis using less pair(1) by simp
    next
      case (2 d u)
      then have "trim_left s = trim_left u" unfolding pair(1) 2(1) trim_left.simps list.case
        using pair(2) by (simp only: if_True if_False)
      moreover have "u \<noteq> []" using ascii [of "[a, b, d]"] 2 pair(1) by auto
      ultimately show ?thesis using less pair(1) 2(1) by simp
    qed (use less.prems(1) in simp)
  qed (use less.prems in simp_all)
qed

lemma not_blank:
  assumes "s \<noteq> []" "(of_char (last s) :: nat) < 128" "of_char (last s) \<notin> set space1"
  shows "trim_space s \<noteq> []"
  using trim_left_last [OF assms] assms trim_rev_id [of "rev (trim_left s)"] by (simp add: trim_space_def hd_rev)

lemma stored_decodes:
  assumes "rejects_cut cd" "MarshalData cd v = Some raw" "marshalStoredResponse cd cfg v = Some body"
  shows "decodeStoredResponse cd (Some body) =
    (if fits cfg (RedactText cd raw) then decodeStoredResponse cd (Some (RedactText cd raw)) else None)"
proof (cases "fits cfg (RedactText cd raw)")
  case True
  then show ?thesis using assms(2,3) by (auto simp: marshalStoredResponse_def fits_def Let_def)
next
  case False
  then obtain x where "body = x @ ''...(truncated)''" using assms(2,3) by (auto simp: marshalStoredResponse_def fits_def Let_def)
  moreover have "trim_space (x @ ''...(truncated)'') \<noteq> []"
    by (rule not_blank) (simp_all add: space1_def)
  ultimately show ?thesis using False assms(1) by (simp add: decodeStoredResponse_def rejects_cut_def)
qed

text \<open>
  C28: After a keyed request has returned its result, a request with the same scope
  and key before the retention ends does not run its command and changes no record:
  with another fingerprint it answers the key conflict; with the same one it replays
  the redacted response, read back with json.Unmarshal, when that fits the stored
  length, and answers store unavailable when it does not fit (a cut text is no JSON)
  or cannot be read back.
\<close>

theorem second_request_replays:
  assumes "table_ok s" "rejects_cut cd"
    and "Execute cd cfg True opts (Some (on_world d f)) (quiet_conn s) = (Ok \<lparr>Data = v, Replayed = False\<rparr>, w)"
    and "NormalizeIdempotencyKey (optKey opts) = Ok key" "key \<noteq> []"
    and "BuildIdempotencyFingerprint cd (optMethod opts) (optRoute opts) (optActorScope opts) (optPayload opts) = Ok fp"
    and "NormalizeIdempotencyKey (optKey opts') = Ok key" "optScope opts' = optScope opts"
    and "BuildIdempotencyFingerprint cd (optMethod opts') (optRoute opts') (optActorScope opts') (optPayload opts') = Ok fp'"
    and "t < db_us (now_at s + (if optTTL opts \<le> 0 then DefaultTTL cfg else optTTL opts))"
  shows "\<exists>s1 raw. w = quiet_conn s1 \<and> MarshalData cd v = Some raw \<and>
    Execute cd cfg' True opts' (Some command) (quiet_conn (s1\<lparr>now_at := t\<rparr>)) =
      (if fp' = fp then replay_answer cd cfg (RedactText cd raw) else Err ErrIdempotencyKeyConflict,
       quiet_conn (s1\<lparr>now_at := t, next_id := next_id s1 + 1\<rparr>))"
proof -
  let ?kh = "HashIdempotencyKey cd key"
  let ?ex = "now_at s + (if optTTL opts \<le> 0 then DefaultTTL cfg else optTTL opts)"
  let ?lk = "now_at s + ProcessingTimeout cfg"
  have scope: "optScope opts \<noteq> []" using assms(3-5) by (auto simp: Execute_def)
  obtain i wc where c: "claim_record cd (optScope opts) ?kh fp (now_at s) ?lk ?ex (quiet_conn s) = (Claimed i, wc)"
    "run_claimed cd cfg i ?ex (on_world d f) wc = (Ok \<lparr>Data = v, Replayed = False\<rparr>, w)"
    using assms(3-6) scope by (auto simp: Execute_def Let_def split: prod.splits claim.splits if_splits)
  obtain sc r where sc: "wc = quiet_conn sc" "table_ok sc" "r \<in> set (recs sc)" "claimed (optScope opts) ?kh fp i ?lk ?ex r"
    using claim_quiet [OF assms(1) c(1)] by auto
  obtain s1 x body where s1: "w = quiet_conn s1" "table_ok s1" "x \<in> set (recs s1)" "recScope x = optScope opts" "recKeyHash x = ?kh"
    "recFingerprint x = fp" "recStatus x = IdempotencyStatusSucceeded" "recExpiresAt x = db_us ?ex"
    "marshalStoredResponse cd cfg v = Some body" "recResponseBody x = Some body"
    using run_claimed_row [OF sc(2-4) c(2) [unfolded sc(1)]] by auto
  obtain raw where raw: "MarshalData cd v = Some raw" using s1(9) by (auto simp: marshalStoredResponse_def split: option.splits)
  note dec = stored_decodes [OF assms(2) raw s1(9)]
  let ?s2 = "s1\<lparr>now_at := t\<rparr>"
  have ok: "table_ok ?s2" "x \<in> set (recs ?s2)" using s1(2,3) by (simp_all add: table_ok_def)
  have ok': "table_ok (?s2\<lparr>next_id := next_id ?s2 + 1\<rparr>)" "x \<in> set (recs (?s2\<lparr>next_id := next_id ?s2 + 1\<rparr>))"
    using bump_ok [OF ok(1)] ok(2) by simp_all
  have "claim_record cd (optScope opts) ?kh fp' now' lk' ex' (quiet_conn ?s2) =
      (if fp' \<noteq> fp then Refused ErrIdempotencyKeyConflict
       else case decodeStoredResponse cd (Some body) of
         None \<Rightarrow> Refused (WithCause ErrIdempotencyStoreUnavail (Text ''decode stored response''))
       | Some v' \<Rightarrow> Replay v', quiet_conn (?s2\<lparr>next_id := next_id ?s2 + 1\<rparr>))"
    if "now' = t" for now' lk' ex'
    using claim_row [OF ok, of cd fp' now' lk' ex'] claim_existing_row [OF ok', of cd fp' now' lk' ex'] s1 assms(10) that
    by (simp add: decide_existing_def split: option.split)
  then have "Execute cd cfg' True opts' (Some command) (quiet_conn ?s2) =
    (if fp' = fp then replay_answer cd cfg (RedactText cd raw) else Err ErrIdempotencyKeyConflict,
     quiet_conn (?s2\<lparr>next_id := next_id ?s2 + 1\<rparr>))"
    using assms(5,7-9) scope unfolding replay_answer_def dec [symmetric]
    by (simp add: Execute_def Let_def split: option.split)
  then show ?thesis using s1(1) raw by auto
qed


definition codec0 :: "(string, string) codec" where
  "codec0 = \<lparr>MarshalPayload = Some, MarshalData = Some,
     UnmarshalData = (\<lambda>s. if drop (length s - 14) s = ''...(truncated)'' then None else Some s), EmptyObject = [], Sha256Hex = id, RedactText = id\<rparr>"

definition options0 :: "string \<Rightarrow> string IdempotencyExecuteOptions" where
  "options0 body = \<lparr>optScope = ''s'', optActorScope = ''u'', optMethod = ''POST'', optRoute = ''/r'', optKey = ''k'',
     optPayload = body, optTTL = 0, optRequireKey = True\<rparr>"

theorem second_request_replays_witness:
  "\<exists>s1. Execute codec0 DefaultIdempotencyConfig True (options0 ''a'') (Some (on_world 5 (\<lambda>n :: nat. (Ok ''done'', n + 1)))) (quiet_conn \<lparr>recs = [], next_id = 1, now_at = 0, world = 0\<rparr>) =
      (Ok \<lparr>Data = ''done'', Replayed = False\<rparr>, quiet_conn s1) \<and>
    Execute codec0 DefaultIdempotencyConfig True (options0 ''a'') (Some (on_world 5 (\<lambda>n :: nat. (Ok ''done'', n + 1)))) (quiet_conn (s1\<lparr>now_at := 1000\<rparr>)) =
      (Ok \<lparr>Data = ''done'', Replayed = True\<rparr>, quiet_conn (s1\<lparr>now_at := 1000, next_id := next_id s1 + 1\<rparr>))"
proof -
  let ?s = "\<lparr>recs = [], next_id = 1, now_at = 0, world = 0 :: nat\<rparr>"
  let ?cmd = "on_world 5 (\<lambda>n. (Ok ''done'', n + 1))"
  obtain w where w: "Execute codec0 DefaultIdempotencyConfig True (options0 ''a'') (Some ?cmd) (quiet_conn ?s) =
      (Ok \<lparr>Data = ''done'', Replayed = False\<rparr>, w)"
  proof -
    have "fst (Execute codec0 DefaultIdempotencyConfig True (options0 ''a'') (Some ?cmd) (quiet_conn ?s)) =
        Ok \<lparr>Data = ''done'', Replayed = False\<rparr>"
      by code_simp
    then show thesis by (metis that prod.collapse)
  qed
  have fp: "BuildIdempotencyFingerprint codec0 (optMethod (options0 ''a'')) (optRoute (options0 ''a'')) (optActorScope (options0 ''a''))
      (optPayload (options0 ''a'')) = Ok (Sha256Hex codec0 (''POST'' @ newline @ ''/r'' @ newline @ ''u'' @ newline @ ''a''))"
    by code_simp
  have key: "NormalizeIdempotencyKey (optKey (options0 ''a'')) = Ok ''k''" by code_simp
  have cut: "rejects_cut codec0" by (simp add: rejects_cut_def codec0_def)
  have ans: "replay_answer codec0 DefaultIdempotencyConfig ''done'' = Ok \<lparr>Data = ''done'', Replayed = True\<rparr>" by code_simp
  have "table_ok ?s" by (simp add: table_ok_def)
  from second_request_replays [OF this cut w key _ fp key refl fp, of 1000 DefaultIdempotencyConfig ?cmd]
  obtain s1 where "w = quiet_conn s1"
    "Execute codec0 DefaultIdempotencyConfig True (options0 ''a'') (Some ?cmd) (quiet_conn (s1\<lparr>now_at := 1000\<rparr>)) =
      (replay_answer codec0 DefaultIdempotencyConfig ''done'', quiet_conn (s1\<lparr>now_at := 1000, next_id := next_id s1 + 1\<rparr>))"
    by (auto simp: options0_def DefaultIdempotencyConfig_def hour_def db_us_def codec0_def)
  then show ?thesis using w unfolding ans by blast
qed

section \<open>The retry delay\<close>

lemma representable_pred: "0 \<le> q \<Longrightarrow> q < 2 ^ 23 \<Longrightarrow> representable (of_int q + 1 - 1 / 2 ^ 30)"
  unfolding representable_def
  by (intro exI [of _ "(q + 1) * 2 ^ 30 - 1"] exI [of _ "- 30"]) (auto simp: power_int_minus field_simps)

lemma Seconds_floor:
  assumes "0 \<le> d" "d < 2 ^ 23 * 1000000000"
  shows "int_of_f64 (Seconds d) = d div 1000000000"
proof -
  let ?q = "d div 1000000000" and ?n = "d mod 1000000000"
  have q: "0 \<le> ?q" "?q < 2 ^ 23" and n: "0 \<le> ?n" "?n \<le> 999999999" using assms by auto
  have qr: "(0 :: rat) \<le> of_int ?q" "(of_int ?q :: rat) \<le> 2 ^ 23"
    using q by (simp_all only: of_int_0_le_iff) (metis less_imp_le of_int_le_iff of_int_numeral of_int_power)
  have nr: "0 \<le> (of_int ?n :: rat) / 1000000000" "(of_int ?n :: rat) / 1000000000 \<le> 0 + 1 - 1 / 2 ^ 30"
  proof -
    have "(of_int ?n :: rat) \<le> of_int 999999999" using n(2) by (simp only: of_int_le_iff)
    then show "(of_int ?n :: rat) / 1000000000 \<le> 0 + 1 - 1 / 2 ^ 30" by simp
  qed (use n in simp)
  obtain y where y: "rnd (of_int ?n / 1000000000) = Fin y" "0 \<le> y" "y \<le> 0 + 1 - 1 / 2 ^ 30"
    using rnd_between [of 0 "0 + 1 - 1 / 2 ^ 30", OF _ _ _ _ nr] representable_of_int [of 0] representable_pred [of 0] by auto
  have big: "\<bar>of_int ?q + 1 - 1 / 2 ^ 30 :: rat\<bar> \<le> 2 ^ 60" "\<bar>of_int ?q :: rat\<bar> \<le> 2 ^ 60"
    using qr by (simp_all add: abs_if)
  obtain z where z: "rnd (of_int ?q + y) = Fin z" "of_int ?q \<le> z" "z \<le> of_int ?q + 1 - 1 / 2 ^ 30"
    using rnd_between [OF representable_of_int [of ?q] representable_pred [OF q] big(2,1), of "of_int ?q + y"] y q
    by auto
  have "Seconds d = Fin z"
    using assms(1) q n y z rnd_of_int [of ?q] rnd_of_int [of ?n]
    by (cases "d = 0") (simp_all add: Seconds_def fdiv_def rnd_numeral)
  moreover have "\<lfloor>z\<rfloor> = ?q" using z(2,3) by (simp add: floor_eq_iff)
  ultimately show ?thesis using z(2) qr(1) by (simp add: int_of_f64_def)
qed

lemma Seconds_nonpos:
  assumes "d \<le> 0" "- (2 ^ 63) \<le> d"
  shows "int_of_f64 (Seconds d) \<le> 0"
proof (cases "d = 0")
  case True
  then show ?thesis using Seconds_floor [of 0] by simp
next
  case False
  let ?q = "- (\<bar>d\<bar> div 1000000000)" and ?n = "- (\<bar>d\<bar> mod 1000000000)"
  have q: "- (2 ^ 34) \<le> ?q" "?q \<le> 0" and n: "- 999999999 \<le> ?n" "?n \<le> 0" using assms by auto
  have nr: "(of_int (- 1) :: rat) \<le> of_int ?n / 1000000000" "(of_int ?n :: rat) / 1000000000 \<le> of_int 0"
  proof -
    have "(of_int (- 1000000000) :: rat) \<le> of_int ?n" using n(1) by (simp only: of_int_le_iff)
    then show "(of_int (- 1) :: rat) \<le> of_int ?n / 1000000000" by simp
  qed (use n in simp)
  obtain y where y: "rnd (of_int ?n / 1000000000) = Fin y" "- 1 \<le> y" "y \<le> 0"
    using rnd_between [OF representable_of_int [of "- 1"] representable_of_int [of 0] _ _ nr] by auto
  have qr: "(of_int (- (2 ^ 35)) :: rat) \<le> of_int ?q + y" "(of_int ?q :: rat) + y \<le> of_int 0"
  proof -
    have "(of_int (- (2 ^ 34)) :: rat) \<le> of_int ?q" "(of_int ?q :: rat) \<le> of_int 0" using q by (simp_all only: of_int_le_iff)
    then show "(of_int (- (2 ^ 35)) :: rat) \<le> of_int ?q + y" "(of_int ?q :: rat) + y \<le> of_int 0" using y(2,3) by simp_all
  qed
  obtain z where z: "rnd (of_int ?q + y) = Fin z" "z \<le> 0"
    using rnd_between [OF representable_of_int [of "- (2 ^ 35)"] representable_of_int [of 0] _ _ qr] by auto
  have "sgn d = - 1" using False assms(1) by simp
  then have "Seconds d = Fin z"
    using q n y(1) z(1) rnd_of_int [of ?q] rnd_of_int [of ?n] by (simp add: Seconds_def fdiv_def rnd_numeral)
  then show ?thesis using z(2) by (simp add: int_of_f64_def)
qed

text \<open>
  The delay in a conflict for a locked record, as the HTTP layer reads it back,
  is the whole seconds until the lock ends and at least one, for every lock that
  ends within 97 days or is already over.
\<close>

theorem retry_after_roundtrip:
  assumes "l - now < 2 ^ 23 * 1000000000"
  shows "RetryAfterSecondsFromError (conflictWithRetryAfter (AppErr st c) (Some l) now) = max 1 ((l - now) div 1000000000)"
proof -
  let ?sec = "int_of_f64 (Seconds (time_sub l now))"
  have sec: "(if ?sec \<le> 0 then 1 else ?sec) = max 1 ((l - now) div 1000000000)"
  proof (cases "0 \<le> l - now")
    case True
    then have "time_sub l now = l - now" using assms by (simp add: time_sub_def max_duration_def)
    then show ?thesis using Seconds_floor [OF True assms] True by (simp add: max_def)
  next
    case False
    then have "?sec \<le> 0" by (intro Seconds_nonpos) (auto simp: time_sub_def max_duration_def)
    moreover have "(l - now) div 1000000000 < 0" using False by simp
    ultimately show ?thesis by simp
  qed
  define n where "n = max 1 ((l - now) div 1000000000)"
  have n: "1 \<le> n" "n < 2 ^ 63" using assms by (auto simp: n_def)
  have d: "list_all is_digit (dec n)" "dec n \<noteq> []" using n(1) dec_nat_digits by (auto simp: dec_def)
  have "is_digit (hd (dec n))" "is_digit (last (dec n))" using d by (simp_all add: list_all_iff)
  then have "trim_space (dec n) = dec n" using d(2) by (intro trim_space_id) (auto simp: is_digit_def space1_def)
  then show ?thesis
    using sec d(2) n parse_int_dec [of n]
    by (simp add: RetryAfterSecondsFromError_def conflictWithRetryAfter_def Let_def flip: n_def)
qed


end
