(* ===== verification/OperationLease.thy ===== *)
theory OperationLease
  imports Replays
begin

text \<open>
  The maintenance lease: its statements in
  internal/idempotency/postgres/operation_lease.go and the lock service of
  internal/ops/maintenance/lock.go, and their refinement of an abstract lease.
  The random token is an argument of the acquisition; the renewal ticker is one
  function per tick.
\<close>

section \<open>The statements\<close>

record OperationClaim =
  cScope :: string
  cKeyHash :: string
  cOperationID :: string
  cOwnership :: string
  cNow :: instant
  cLockedUntil :: instant
  cExpiresAt :: instant

definition operation_record :: "OperationClaim \<Rightarrow> IdempotencyRecord" where
  "operation_record c = \<lparr>recID = 0, recScope = cScope c, recKeyHash = cKeyHash c, recFingerprint = cOperationID c,
     recStatus = IdempotencyStatusProcessing, recResponseStatus = None, recResponseBody = Some (cOwnership c),
     recErrorReason = None, recLockedUntil = Some (cLockedUntil c), recExpiresAt = cExpiresAt c,
     recCreatedAt = zero_time, recUpdatedAt = zero_time\<rparr>"

text \<open>INSERT ... ON CONFLICT DO UPDATE ... WHERE unlocked RETURNING id.\<close>

definition upsert_operation :: "OperationClaim \<Rightarrow> 'g table \<Rightarrow> int option \<times> 'g table" where
  "upsert_operation c s =
     (case find (has_key (cScope c) (cKeyHash c)) (recs s) of
        None \<Rightarrow> CreateProcessing (operation_record c) s
      | Some r \<Rightarrow>
          let s = s\<lparr>next_id := next_id s + 1\<rparr> in
          if unlocked (cNow c) r then
            (Some (recID r), snd (update_recs (has_key (cScope c) (cKeyHash c))
               (\<lambda>r. r\<lparr>recFingerprint := cOperationID c, recStatus := IdempotencyStatusProcessing,
                      recResponseBody := Some (cOwnership c), recResponseStatus := None, recErrorReason := None,
                      recLockedUntil := Some (db_us (cLockedUntil c)), recExpiresAt := db_us (cExpiresAt c)\<rparr>) s))
          else (None, s))"

definition ClaimOperation ::
  "OperationClaim \<Rightarrow> 'g table conn \<Rightarrow> (call_error, IdempotencyRecord option \<times> bool) result \<times> 'g table conn" where
  "ClaimOperation c w =
     (case call (upsert_operation c) w of
        (Inl e, w) \<Rightarrow> (Err e, w)
      | (Inr None, w) \<Rightarrow>
          (case call (reads (GetByScopeAndKeyHash (cScope c) (cKeyHash c))) w of
             (Inl e, w) \<Rightarrow> (Err e, w)
           | (Inr r, w) \<Rightarrow> (Ok (r, False), w))
      | (Inr (Some i), w) \<Rightarrow> (Ok (Some ((operation_record c)\<lparr>recID := i\<rparr>), True), w))"

definition owned :: "int \<Rightarrow> string \<Rightarrow> string \<Rightarrow> IdempotencyRecord \<Rightarrow> bool" where
  "owned i operationID ownership r = (recID r = i \<and> recFingerprint r = operationID \<and>
     recResponseBody r = Some ownership \<and> recStatus r = IdempotencyStatusProcessing)"

definition RenewOperation :: "int \<Rightarrow> string \<Rightarrow> string \<Rightarrow> instant \<Rightarrow> instant \<Rightarrow> 'g table \<Rightarrow> bool \<times> 'g table" where
  "RenewOperation i operationID ownership until expires s =
     (case update_recs (owned i operationID ownership)
         (\<lambda>r. r\<lparr>recLockedUntil := Some (db_us until), recExpiresAt := db_us expires\<rparr>) s of
        (n, s') \<Rightarrow> (n = 1, s'))"

text \<open>The released marker is encoded with the operation id, which needs the encoder.\<close>

definition FinishOperation ::
  "(string \<Rightarrow> string) \<Rightarrow> int \<Rightarrow> string \<Rightarrow> string \<Rightarrow> bool \<Rightarrow> string \<Rightarrow> instant \<Rightarrow> 'g table \<Rightarrow> bool \<times> 'g table" where
  "FinishOperation released i operationID ownership success reason expires s =
     (case update_recs (owned i operationID ownership)
         (\<lambda>r. if success
              then r\<lparr>recStatus := IdempotencyStatusSucceeded, recResponseStatus := Some 200,
                     recResponseBody := Some (released operationID), recErrorReason := None,
                     recLockedUntil := None, recExpiresAt := db_us expires\<rparr>
              else r\<lparr>recStatus := IdempotencyStatusFailedRetryable, recResponseStatus := None,
                     recResponseBody := None, recErrorReason := (if reason = [] then None else Some reason),
                     recLockedUntil := Some (db_us (now_at s)), recExpiresAt := db_us expires\<rparr>) s of
        (n, s') \<Rightarrow> (n = 1, s'))"

section \<open>The lock service\<close>

definition systemOperationLockScope :: string where
  "systemOperationLockScope = ''admin.system.operations.global_lock''"
definition systemOperationLockKey :: string where
  "systemOperationLockKey = ''global-system-operation-lock''"

definition ErrSystemOperationBusy :: goerror where
  "ErrSystemOperationBusy = Conflict ''SYSTEM_OPERATION_BUSY'' ''another system operation is in progress''"
definition ErrOperationOwnershipLost :: goerror where
  "ErrOperationOwnershipLost = Conflict ''SYSTEM_OPERATION_OWNERSHIP_LOST'' ''system operation ownership lost''"

record SystemOperationLockService =
  svcLease :: duration
  renewInterval :: duration
  svcTTL :: duration

definition NewSystemOperationLockService :: "duration \<Rightarrow> duration \<Rightarrow> SystemOperationLockService" where
  "NewSystemOperationLockService processingTimeout systemOperationTTL =
     (let lease = (if processingTimeout \<le> 0 then 30 * second else processingTimeout);
          interval = max (go_div lease 3) second;
          ttl = (if systemOperationTTL \<le> 0 then hour else systemOperationTTL)
      in \<lparr>svcLease = lease, renewInterval = interval, svcTTL = ttl\<rparr>)"

text \<open>The handle: its accepted work may be cancelled, and its completion is attempted once.\<close>

record SystemOperationLock =
  recordID :: int
  ownership :: string
  operationID :: string
  work_cancelled :: bool
  released :: "goerror option option"

definition busyError :: "string \<Rightarrow> instant option \<Rightarrow> instant \<Rightarrow> goerror" where
  "busyError operation lockedUntil now =
     (let metadata = (if operation \<noteq> [] then [(''operation_id'', operation)] else []);
          metadata = (case lockedUntil of
              None \<Rightarrow> metadata
            | Some l \<Rightarrow>
                let sec = int_of_f64 (Seconds (time_sub l now));
                    sec = (if sec \<le> 0 then 1 else sec)
                in metadata @ [(''retry_after'', dec sec)])
      in if length metadata = 0 then ErrSystemOperationBusy else WithMetadata ErrSystemOperationBusy metadata)"

definition owner_json :: "string \<Rightarrow> string" where
  "owner_json hex = ''{'' @ [CHR 0x22] @ ''owner_token'' @ [CHR 0x22] @ '':'' @ [CHR 0x22] @ hex @ [CHR 0x22] @ ''}''"

definition Acquire ::
  "(string \<Rightarrow> string) \<Rightarrow> SystemOperationLockService \<Rightarrow> string \<Rightarrow> string \<Rightarrow> 'g table conn
   \<Rightarrow> (goerror, SystemOperationLock) result \<times> 'g table conn" where
  "Acquire sha svc token operation w =
     (if operation = [] then (Err (BadRequest ''SYSTEM_OPERATION_ID_REQUIRED'' ''operation id is required''), w)
      else
        let now = now_at (server w); own = owner_json token;
            c = \<lparr>cScope = systemOperationLockScope, cKeyHash = sha systemOperationLockKey, cOperationID = operation,
                 cOwnership = own, cNow = now, cLockedUntil = now + svcLease svc, cExpiresAt = now + svcTTL svc\<rparr>
        in case ClaimOperation c w of
          (Inl e, w) \<Rightarrow> (Err (WithCause ErrIdempotencyStoreUnavail (Text e)), w)
        | (Inr (None, owner), w) \<Rightarrow> (Err ErrIdempotencyStoreUnavail, w)
        | (Inr (Some r, owner), w) \<Rightarrow>
            if \<not> owner then (Err (busyError (recFingerprint r) (recLockedUntil r) now), w)
            else if recID r = 0 then (Err ErrIdempotencyStoreUnavail, w)
            else (Ok \<lparr>recordID = recID r, ownership = own, operationID = operation, work_cancelled = False, released = None\<rparr>, w))"

text \<open>One tick of the renewal loop: whether it goes on, and the handle.\<close>

definition renew_tick ::
  "SystemOperationLockService \<Rightarrow> SystemOperationLock \<Rightarrow> 'g table conn \<Rightarrow> (bool \<times> SystemOperationLock) \<times> 'g table conn" where
  "renew_tick svc lock w =
     (let now = now_at (server w) in
      case call (RenewOperation (recordID lock) (operationID lock) (ownership lock) (now + svcLease svc) (now + svcTTL svc)) w of
        (Inl e, w) \<Rightarrow> ((True, lock), w)
      | (Inr True, w) \<Rightarrow> ((True, lock), w)
      | (Inr False, w) \<Rightarrow> ((False, lock\<lparr>work_cancelled := True\<rparr>), w))"

definition Release ::
  "(string \<Rightarrow> string) \<Rightarrow> SystemOperationLockService \<Rightarrow> SystemOperationLock \<Rightarrow> bool \<Rightarrow> string \<Rightarrow> 'g table conn
   \<Rightarrow> (goerror option \<times> SystemOperationLock) \<times> 'g table conn" where
  "Release released_body svc lock succeeded failureReason w =
     (case released lock of
        Some r \<Rightarrow> ((r, lock), w)
      | None \<Rightarrow>
          let reason = (if failureReason = [] then ''SYSTEM_OPERATION_FAILED'' else failureReason);
              (r, w) = call (FinishOperation released_body (recordID lock) (operationID lock) (ownership lock) succeeded reason
                         (now_at (server w) + svcTTL svc)) w;
              e = (case r of Inl e \<Rightarrow> Some (Text e) | Inr ok \<Rightarrow> if ok then None else Some ErrOperationOwnershipLost)
          in ((e, lock\<lparr>work_cancelled := True, released := Some e\<rparr>), w))"

section \<open>The abstract lease\<close>

text \<open>Who holds it, and until when it is locked.\<close>

record lease =
  holder :: "(string \<times> string) option"
  locked :: "instant option"

datatype lease_op =
    LClaim string string instant instant instant
  | LRenew string string instant instant
  | LFinish string string bool string instant

fun lease_spec :: "instant \<Rightarrow> lease_op \<Rightarrow> lease \<Rightarrow> bool \<times> lease" where
  "lease_spec t (LClaim operation token now until ex) l =
     (if (case locked l of None \<Rightarrow> True | Some u \<Rightarrow> u \<le> db_us now)
      then (True, \<lparr>holder = Some (operation, token), locked = Some (db_us until)\<rparr>) else (False, l))"
| "lease_spec t (LRenew operation token until ex) l =
     (if holder l = Some (operation, token) then (True, l\<lparr>locked := Some (db_us until)\<rparr>) else (False, l))"
| "lease_spec t (LFinish operation token success reason ex) l =
     (if holder l = Some (operation, token)
      then (True, \<lparr>holder = None, locked = (if success then None else Some (db_us t))\<rparr>) else (False, l))"

fun run_spec :: "(instant \<times> lease_op) list \<Rightarrow> lease \<Rightarrow> bool list \<times> lease" where
  "run_spec [] l = ([], l)"
| "run_spec ((t, p) # ps) l = (let (b, l) = lease_spec t p l; (bs, l) = run_spec ps l in (b # bs, l))"

text \<open>The same operations on the table, by holders of the row i.\<close>

fun lease_table :: "(string \<Rightarrow> string) \<Rightarrow> string \<Rightarrow> string \<Rightarrow> int \<Rightarrow> lease_op \<Rightarrow> 'g table \<Rightarrow> bool \<times> 'g table" where
  "lease_table rel sc kh i (LClaim operation token now until ex) s =
     (case upsert_operation \<lparr>cScope = sc, cKeyHash = kh, cOperationID = operation, cOwnership = token, cNow = now,
           cLockedUntil = until, cExpiresAt = ex\<rparr> s of (r, s') \<Rightarrow> (r = Some i, s'))"
| "lease_table rel sc kh i (LRenew operation token until ex) s = RenewOperation i operation token until ex s"
| "lease_table rel sc kh i (LFinish operation token success reason ex) s = FinishOperation rel i operation token success reason ex s"

fun run_table :: "(string \<Rightarrow> string) \<Rightarrow> string \<Rightarrow> string \<Rightarrow> int \<Rightarrow> (instant \<times> lease_op) list \<Rightarrow> 'g table \<Rightarrow> bool list \<times> 'g table" where
  "run_table rel sc kh i [] s = ([], s)"
| "run_table rel sc kh i ((t, p) # ps) s =
     (let (b, s) = lease_table rel sc kh i p (s\<lparr>now_at := t\<rparr>); (bs, s) = run_table rel sc kh i ps s in (b # bs, s))"

text \<open>The lease a row stands for.\<close>

definition lease_of :: "IdempotencyRecord \<Rightarrow> lease" where
  "lease_of r = \<lparr>holder = (if recStatus r = IdempotencyStatusProcessing
     then map_option (\<lambda>tok. (recFingerprint r, tok)) (recResponseBody r) else None), locked = recLockedUntil r\<rparr>"

definition lease_row :: "string \<Rightarrow> string \<Rightarrow> int \<Rightarrow> IdempotencyRecord \<Rightarrow> 'g table \<Rightarrow> bool" where
  "lease_row sc kh i r s \<longleftrightarrow> distinct (map recID (recs s)) \<and> distinct (map the_key (recs s)) \<and>
     r \<in> set (recs s) \<and> the_key r = (sc, kh) \<and> recID r = i"

lemma lease_row_unique:
  assumes "lease_row sc kh i r s" "x \<in> set (recs s)"
  shows "recID x = i \<Longrightarrow> x = r" "has_key sc kh x \<Longrightarrow> x = r"
  using assms by (auto simp: lease_row_def distinct_map inj_on_def the_key_def has_key_def)

lemma lease_find: "lease_row sc kh i r s \<Longrightarrow> find (has_key sc kh) (recs s) = Some r"
proof (cases "find (has_key sc kh) (recs s)")
  case None
  then show "lease_row sc kh i r s \<Longrightarrow> ?thesis" by (auto simp: find_None_iff has_key_def lease_row_def the_key_def)
next
  case (Some x)
  then have "x \<in> set (recs s)" "has_key sc kh x" by (auto simp: find_Some_iff)
  then show "lease_row sc kh i r s \<Longrightarrow> ?thesis" using lease_row_unique(2) Some by metis
qed

lemma lease_row_frame [simp]:
  "lease_row sc kh i r (s\<lparr>next_id := n\<rparr>) = lease_row sc kh i r s" "lease_row sc kh i r (s\<lparr>now_at := t\<rparr>) = lease_row sc kh i r s"
  by (simp_all add: lease_row_def)

text \<open>An update that addresses the row alone.\<close>

lemma filter_single: "distinct xs \<Longrightarrow> r \<in> set xs \<Longrightarrow> filter (\<lambda>x. x = r \<and> g) xs = (if g then [r] else [])"
  by (induction xs) (auto simp: filter_empty_conv)

lemma lease_update:
  assumes "lease_row sc kh i r s" "\<And>x. x \<in> set (recs s) \<Longrightarrow> guard x \<Longrightarrow> x = r"
    and "\<And>x. recID (eff x) = recID x \<and> the_key (eff x) = the_key x"
  shows "fst (update_recs guard eff s) = (if guard r then 1 else 0)"
    and "lease_row sc kh i (if guard r then (eff r)\<lparr>recUpdatedAt := db_us (now_at s)\<rparr> else r) (snd (update_recs guard eff s))"
proof -
  have r: "r \<in> set (recs s)" "distinct (recs s)" using assms(1) by (auto simp: lease_row_def distinct_map)
  have "filter guard (recs s) = filter (\<lambda>x. x = r \<and> guard r) (recs s)"
    using assms(2) by (intro filter_cong) auto
  also have "\<dots> = (if guard r then [r] else [])"
    by (rule filter_single [OF r(2,1)])
  finally show "fst (update_recs guard eff s) = (if guard r then 1 else 0)" by (simp add: update_recs_def)
  have "map recID (recs (snd (update_recs guard eff s))) = map recID (recs s)"
    "map the_key (recs (snd (update_recs guard eff s))) = map the_key (recs s)"
    using assms(3) by (auto simp: update_recs_def the_key_def)
  then show "lease_row sc kh i (if guard r then (eff r)\<lparr>recUpdatedAt := db_us (now_at s)\<rparr> else r) (snd (update_recs guard eff s))"
    using assms(1,3) r(1) unfolding lease_row_def
    by (simp only:) (auto simp: update_recs_def the_key_def)
qed

lemma lease_step:
  assumes "lease_row sc kh i r s"
  shows "\<exists>r'. lease_row sc kh i r' (snd (lease_table rel sc kh i p s)) \<and>
    lease_spec (now_at s) p (lease_of r) = (fst (lease_table rel sc kh i p s), lease_of r')"
proof (cases p)
  case (LClaim operation token now until ex)
  have row: "lease_row sc kh i r (s\<lparr>next_id := next_id s + 1\<rparr>)" using assms by simp
  have key: "has_key sc kh r" "recID r = i" using assms by (auto simp: lease_row_def has_key_def the_key_def)
  show ?thesis
  proof (cases "unlocked now r")
    case True
    then show ?thesis
      using lease_update(2) [OF row, of "has_key sc kh", OF lease_row_unique(2) [OF row], of "\<lambda>r. r\<lparr>recFingerprint := operation,
          recStatus := IdempotencyStatusProcessing, recResponseBody := Some token, recResponseStatus := None, recErrorReason := None,
          recLockedUntil := Some (db_us until), recExpiresAt := db_us ex\<rparr>"] key
      by (intro exI conjI) (auto simp: LClaim upsert_operation_def lease_find [OF assms] the_key_def lease_of_def unlocked_def)
  next
    case False
    then show ?thesis
      using row by (intro exI [of _ r]) (simp add: LClaim upsert_operation_def lease_find [OF assms] Let_def lease_of_def unlocked_def)
  qed
next
  case (LRenew operation token until ex)
  have guard: "owned i operation token r \<longleftrightarrow> holder (lease_of r) = Some (operation, token)"
    using assms by (auto simp: owned_def lease_of_def lease_row_def)
  note u = lease_update [OF assms, of "owned i operation token" "\<lambda>r. r\<lparr>recLockedUntil := Some (db_us until), recExpiresAt := db_us ex\<rparr>"]
  have o: "x \<in> set (recs s) \<Longrightarrow> owned i operation token x \<Longrightarrow> x = r" for x
    using lease_row_unique(1) [OF assms] by (simp add: owned_def)
  show ?thesis
    using u [OF o] guard
    by (cases "owned i operation token r"; intro exI conjI)
      (auto simp: LRenew RenewOperation_def the_key_def owned_def lease_of_def split: prod.split)
next
  case (LFinish operation token success reason ex)
  have guard: "owned i operation token r \<longleftrightarrow> holder (lease_of r) = Some (operation, token)"
    using assms by (auto simp: owned_def lease_of_def lease_row_def)
  have o: "x \<in> set (recs s) \<Longrightarrow> owned i operation token x \<Longrightarrow> x = r" for x
    using lease_row_unique(1) [OF assms] by (simp add: owned_def)
  let ?eff = "\<lambda>r. if success
              then r\<lparr>recStatus := IdempotencyStatusSucceeded, recResponseStatus := Some 200,
                     recResponseBody := Some (rel operation), recErrorReason := None,
                     recLockedUntil := None, recExpiresAt := db_us ex\<rparr>
              else r\<lparr>recStatus := IdempotencyStatusFailedRetryable, recResponseStatus := None,
                     recResponseBody := None, recErrorReason := (if reason = [] then None else Some reason),
                     recLockedUntil := Some (db_us (now_at s)), recExpiresAt := db_us ex\<rparr>"
  note u = lease_update [OF assms, of "owned i operation token" ?eff, OF o]
  show ?thesis
    using u guard
    by (cases "owned i operation token r"; cases success; cases "reason = []"; intro exI conjI)
      (auto simp: LFinish FinishOperation_def the_key_def lease_of_def idem_statuses split: prod.split)
qed

text \<open>
  C29: Whatever sequence of acquisitions, renewals and completions runs against the
  row of a lease, the table answers each of them as the abstract lease does, and
  the row stands for the abstract lease afterwards: an acquisition succeeds exactly
  when the lease is not locked, and a renewal or completion exactly when it comes
  from the current holder.
\<close>

theorem lease_refines:
  assumes "lease_row sc kh i r s"
  shows "\<exists>r'. lease_row sc kh i r' (snd (run_table rel sc kh i ops s)) \<and>
    run_spec ops (lease_of r) = (fst (run_table rel sc kh i ops s), lease_of r')"
  using assms
proof (induction ops arbitrary: r s)
  case (Cons q ops)
  obtain t p where q: "q = (t, p)" by fastforce
  let ?c = "lease_table rel sc kh i p (s\<lparr>now_at := t\<rparr>)"
  obtain r1 where r1: "lease_row sc kh i r1 (snd ?c)" "lease_spec t p (lease_of r) = (fst ?c, lease_of r1)"
    using lease_step [of sc kh i r "s\<lparr>now_at := t\<rparr>"] Cons.prems by auto
  then show ?case using Cons.IH [OF r1(1)] by (auto simp: q split: prod.split)
qed auto


theorem lease_refines_witness:
  "fst (run_table id ''s'' ''h'' 1 [(0, LClaim ''op'' ''tok'' 0 5000 9000), (1, LRenew ''op'' ''tok'' 6000 9000), (7000, LClaim ''op'' ''new'' 7000 8000 9000),
     (7000, LRenew ''op'' ''tok'' 9000 9000)] (table1\<lparr>recs := [(new_record ''s'' ''h'' ''f'' 0 9)\<lparr>recID := 1\<rparr>]\<rparr>)) = [True, True, True, False]"
proof -
  let ?r = "(new_record ''s'' ''h'' ''f'' 0 9)\<lparr>recID := 1\<rparr>"
  let ?ops = "[(0, LClaim ''op'' ''tok'' 0 5000 9000), (1, LRenew ''op'' ''tok'' 6000 9000),
      (7000, LClaim ''op'' ''new'' 7000 8000 9000), (7000, LRenew ''op'' ''tok'' 9000 9000)]"
  have row: "lease_row ''s'' ''h'' 1 ?r (table1\<lparr>recs := [?r]\<rparr>)" by (simp add: lease_row_def new_record_def the_key_def)
  have "fst (run_spec ?ops (lease_of ?r)) = [True, True, True, False]"
    by (simp add: lease_of_def new_record_def db_us_def)
  then show ?thesis using lease_refines [OF row, of id ?ops] by (metis fst_conv)
qed

end
