(* ===== verification/Redis.thy ===== *)
theory Redis
  imports Connection "HOL-Library.AList"
begin

text \<open>
  The Redis commands the scheduler's cache sends, as an interface.  Redis is a
  service, so its commands are a parameter (\<open>redis_ops\<close>); the locale
  \<open>redis_laws\<close> names the documented behaviour the code relies on, seen
  through two views of a server state: the sorted sets (member to score) and the
  counters that are alive at that moment.  An in-memory server with key expiry
  satisfies the laws.  The cache sends its commands over a connection (theory
  Connection).
\<close>

section \<open>Commands\<close>

text \<open>Scores and counters are integers (Unix seconds, INCR values).\<close>

record 'r redis_ops =
  r_time :: "'r \<Rightarrow> int"
  r_zremrangebyscore :: "string \<Rightarrow> int \<Rightarrow> 'r \<Rightarrow> 'r"  \<comment> \<open>from -inf to the score, inclusive\<close>
  r_zscore :: "string \<Rightarrow> string \<Rightarrow> 'r \<Rightarrow> int option"
  r_zadd :: "string \<Rightarrow> int \<Rightarrow> string \<Rightarrow> 'r \<Rightarrow> 'r"
  r_zrem :: "string \<Rightarrow> string \<Rightarrow> 'r \<Rightarrow> int \<times> 'r"
  r_zcard :: "string \<Rightarrow> 'r \<Rightarrow> int"
  r_zrange :: "string \<Rightarrow> 'r \<Rightarrow> string list"
  r_zrangebyscore :: "string \<Rightarrow> int \<Rightarrow> nat \<Rightarrow> 'r \<Rightarrow> string list"  \<comment> \<open>-inf to the score, first n\<close>
  r_expire :: "string \<Rightarrow> int \<Rightarrow> 'r \<Rightarrow> 'r"
  r_del :: "string \<Rightarrow> 'r \<Rightarrow> 'r"
  r_get :: "string \<Rightarrow> 'r \<Rightarrow> int option"
  r_incr :: "string \<Rightarrow> 'r \<Rightarrow> 'r"
  r_decr :: "string \<Rightarrow> 'r \<Rightarrow> 'r"
  r_exists :: "string \<Rightarrow> 'r \<Rightarrow> bool"
  r_set :: "string \<Rightarrow> int \<Rightarrow> 'r \<Rightarrow> 'r"
  r_scan :: "nat \<Rightarrow> string \<Rightarrow> 'r \<Rightarrow> string list \<times> nat"  \<comment> \<open>cursor, prefix pattern\<close>

definition drop_upto :: "int \<Rightarrow> (string \<rightharpoonup> int) \<Rightarrow> string \<rightharpoonup> int" where
  "drop_upto m z = (\<lambda>x. case z x of None \<Rightarrow> None | Some v \<Rightarrow> if v \<le> m then None else Some v)"

lemma drop_upto_Some [simp]: "drop_upto m z x = Some v \<longleftrightarrow> z x = Some v \<and> m < v"
  by (cases "z x") (auto simp: drop_upto_def split: if_splits)

lemma dom_drop_upto: "dom (drop_upto m z) = {x \<in> dom z. m < the (z x)}"
  by (auto simp: drop_upto_def split: option.splits if_splits)

lemma drop_upto_finite: "finite (dom z) \<Longrightarrow> finite (dom (drop_upto m z))"
  by (simp add: dom_drop_upto)

section \<open>What the code relies on\<close>

locale redis_laws =
  fixes R :: "'r redis_ops"
    and zset :: "'r \<Rightarrow> string \<Rightarrow> string \<rightharpoonup> int"
    and cnt :: "'r \<Rightarrow> string \<Rightarrow> int option"
  assumes finite_zset: "finite (dom (zset s k))"
    and zscore: "r_zscore R k x s = zset s k x"
    and zcard: "r_zcard R k s = int (card (dom (zset s k)))"
    and zrange: "set (r_zrange R k s) = dom (zset s k)" "distinct (r_zrange R k s)"
    and get: "r_get R k s = cnt s k"
    and zremrange: "zset (r_zremrangebyscore R k m s) = (zset s)(k := drop_upto m (zset s k))"
      "cnt (r_zremrangebyscore R k m s) = cnt s"
    and zadd: "cnt s k = None \<Longrightarrow> zset (r_zadd R k v x s) = (zset s)(k := (zset s k)(x \<mapsto> v))"
      "cnt s k = None \<Longrightarrow> cnt (r_zadd R k v x s) = cnt s"
    and zrem: "zset (snd (r_zrem R k x s)) = (zset s)(k := (zset s k)(x := None))"
      "cnt (snd (r_zrem R k x s)) = cnt s"
      "fst (r_zrem R k x s) = (if x \<in> dom (zset s k) then 1 else 0)"
    and expire: "0 < ttl \<Longrightarrow> zset (r_expire R k ttl s) = zset s"
      "0 < ttl \<Longrightarrow> cnt (r_expire R k ttl s) = cnt s"
    and del: "zset (r_del R k s) = (zset s)(k := Map.empty)"
      "cnt (r_del R k s) = (cnt s)(k := None)"
    and incr: "zset s k = Map.empty \<Longrightarrow>
        cnt (r_incr R k s) = (cnt s)(k \<mapsto> (case cnt s k of None \<Rightarrow> 0 | Some n \<Rightarrow> n) + 1)"
      "zset s k = Map.empty \<Longrightarrow> zset (r_incr R k s) = zset s"
    and decr: "zset s k = Map.empty \<Longrightarrow>
        cnt (r_decr R k s) = (cnt s)(k \<mapsto> (case cnt s k of None \<Rightarrow> 0 | Some n \<Rightarrow> n) - 1)"
      "zset s k = Map.empty \<Longrightarrow> zset (r_decr R k s) = zset s"
    and times: "r_time R (r_zremrangebyscore R k m s) = r_time R s"
      "r_time R (r_zadd R k v x s) = r_time R s" "r_time R (r_expire R k ttl s) = r_time R s"
      "r_time R (snd (r_zrem R k x s)) = r_time R s" "r_time R (r_del R k s) = r_time R s"
      "r_time R (r_incr R k s) = r_time R s" "r_time R (r_decr R k s) = r_time R s"
begin

lemmas views = zremrange zadd zrem expire del incr decr

lemma zcard_prune:
  "r_zcard R k (r_zremrangebyscore R k m s) = int (card (dom (drop_upto m (zset s k))))"
  by (simp add: zcard zremrange)

end

section \<open>An in-memory server\<close>

datatype rvalue = ZSet "(string \<times> int) list" | Counter int

record mem =
  mnow :: int
  mdata :: "string \<rightharpoonup> rvalue \<times> int option"  \<comment> \<open>value and the second it expires\<close>

definition expired :: "int option \<Rightarrow> int \<Rightarrow> bool" where
  "expired e now = (case e of None \<Rightarrow> False | Some t \<Rightarrow> t \<le> now)"

text \<open>A key past its expiry, or an empty sorted set, reads as absent.\<close>

definition alive :: "mem \<Rightarrow> string \<Rightarrow> (rvalue \<times> int option) option" where
  "alive s k = (case mdata s k of
      None \<Rightarrow> None
    | Some (v, e) \<Rightarrow> if expired e (mnow s) \<or> v = ZSet [] then None else Some (v, e))"

text \<open>The first entry of a member is the one that counts.\<close>

definition mem_entries :: "mem \<Rightarrow> string \<Rightarrow> (string \<times> int) list" where
  "mem_entries s k = (case alive s k of Some (ZSet es, _) \<Rightarrow> AList.clearjunk es | _ \<Rightarrow> [])"

definition mem_zset :: "mem \<Rightarrow> string \<Rightarrow> string \<rightharpoonup> int" where
  "mem_zset s k = map_of (mem_entries s k)"

definition mem_cnt :: "mem \<Rightarrow> string \<Rightarrow> int option" where
  "mem_cnt s k = (case alive s k of Some (Counter n, _) \<Rightarrow> Some n | _ \<Rightarrow> None)"

definition mem_expiry :: "mem \<Rightarrow> string \<Rightarrow> int option" where
  "mem_expiry s k = (case alive s k of Some (_, e) \<Rightarrow> e | None \<Rightarrow> None)"

text \<open>A sorted set left empty is removed; a counter key is not a sorted set.\<close>

definition mem_put :: "string \<Rightarrow> (string \<times> int) list \<Rightarrow> mem \<Rightarrow> mem" where
  "mem_put k es s = (case alive s k of
      Some (Counter _, _) \<Rightarrow> s
    | _ \<Rightarrow> s\<lparr>mdata := (mdata s)(k := if es = [] then None else Some (ZSet es, mem_expiry s k))\<rparr>)"

definition mem_add :: "string \<Rightarrow> int \<Rightarrow> mem \<Rightarrow> mem" where
  "mem_add k d s = (case alive s k of
      Some (ZSet _, _) \<Rightarrow> s
    | Some (Counter n, e) \<Rightarrow> s\<lparr>mdata := (mdata s)(k \<mapsto> (Counter (n + d), e))\<rparr>
    | None \<Rightarrow> s\<lparr>mdata := (mdata s)(k \<mapsto> (Counter d, None))\<rparr>)"

definition mem_ops :: "mem redis_ops" where
  "mem_ops =
     \<lparr>r_time = mnow,
      r_zremrangebyscore = (\<lambda>k m s. mem_put k (filter (\<lambda>(x, v). m < v) (mem_entries s k)) s),
      r_zscore = (\<lambda>k x s. mem_zset s k x),
      r_zadd = (\<lambda>k v x s. mem_put k ((x, v) # filter (\<lambda>(y, _). y \<noteq> x) (mem_entries s k)) s),
      r_zrem = (\<lambda>k x s. (if x \<in> fst ` set (mem_entries s k) then 1 else 0,
                  mem_put k (filter (\<lambda>(y, _). y \<noteq> x) (mem_entries s k)) s)),
      r_zcard = (\<lambda>k s. int (length (mem_entries s k))),
      r_zrange = (\<lambda>k s. map fst (mem_entries s k)),
      r_zrangebyscore = (\<lambda>k m n s. take n (map fst (filter (\<lambda>(x, v). v \<le> m) (mem_entries s k)))),
      r_expire = (\<lambda>k ttl s. (case alive s k of
           None \<Rightarrow> s
         | Some (v, _) \<Rightarrow> if ttl \<le> 0 then s\<lparr>mdata := (mdata s)(k := None)\<rparr>
             else s\<lparr>mdata := (mdata s)(k \<mapsto> (v, Some (mnow s + ttl)))\<rparr>)),
      r_del = (\<lambda>k s. s\<lparr>mdata := (mdata s)(k := None)\<rparr>),
      r_get = (\<lambda>k s. mem_cnt s k),
      r_incr = (\<lambda>k s. mem_add k 1 s),
      r_decr = (\<lambda>k s. mem_add k (- 1) s),
      r_exists = (\<lambda>k s. alive s k \<noteq> None),
      r_set = (\<lambda>k n s. s\<lparr>mdata := (mdata s)(k \<mapsto> (Counter n, None))\<rparr>),
      r_scan = (\<lambda>_ _ _. ([], 0))\<rparr>"

lemma mnow_put [simp]: "mnow (mem_put k es s) = mnow s"
  by (simp add: mem_put_def split: option.splits rvalue.splits)

lemma mnow_add [simp]: "mnow (mem_add k d s) = mnow s"
  by (simp add: mem_add_def split: option.splits rvalue.splits)

lemma expiry_alive: "\<not> expired (mem_expiry s k) (mnow s)"
  by (auto simp: mem_expiry_def alive_def expired_def split: option.splits if_splits)

lemma alive_update:
  "alive (s\<lparr>mdata := (mdata s)(k \<mapsto> (v, e))\<rparr>) j =
     (if j = k then (if expired e (mnow s) \<or> v = ZSet [] then None else Some (v, e)) else alive s j)"
  "alive (s\<lparr>mdata := (mdata s)(k := None)\<rparr>) j = (if j = k then None else alive s j)"
  by (cases "mdata s j"; auto simp: alive_def)+

lemma alive_put:
  "alive (mem_put k es s) j = (if j = k \<and> (\<forall>n e. alive s k \<noteq> Some (Counter n, e))
     then (if es = [] then None else Some (ZSet es, mem_expiry s k)) else alive s j)"
proof -
  have "alive (s\<lparr>mdata := (mdata s)(k := if es = [] then None else Some (ZSet es, mem_expiry s k))\<rparr>) j =
      (if j = k then (if es = [] then None else Some (ZSet es, mem_expiry s k)) else alive s j)"
    using expiry_alive [of s k] by (cases "es = []") (auto simp: alive_update)
  then show ?thesis
    by (auto simp: mem_put_def split: option.splits rvalue.splits)
qed

lemma mem_entries_put:
  "mem_cnt s k = None \<Longrightarrow> mem_entries (mem_put k es s) = (mem_entries s)(k := AList.clearjunk es)"
  "mem_cnt s k = None \<Longrightarrow> mem_cnt (mem_put k es s) = mem_cnt s"
  by (rule ext, auto simp: mem_entries_def mem_cnt_def alive_put split: option.splits rvalue.splits)+

lemma mem_put_counter: "mem_cnt s k = Some n \<Longrightarrow> mem_put k es s = s \<and> mem_entries s k = []"
  by (auto simp: mem_cnt_def mem_put_def mem_entries_def split: option.splits rvalue.splits)

lemma map_of_filter_key: "map_of (filter (\<lambda>(y, _). y \<noteq> x) es) = (map_of es)(x := None)"
  by (rule ext, induction es) auto

lemma distinct_entries [simp]: "distinct (map fst (mem_entries s k))"
  by (auto simp: mem_entries_def distinct_clearjunk split: option.splits rvalue.splits)

lemma map_of_filter_upto:
  "distinct (map fst es) \<Longrightarrow> map_of (filter (\<lambda>(x, v). m < v) es) = drop_upto m (map_of es)"
proof (induction es)
  case (Cons e es)
  have "fst e \<notin> dom (map_of es)" using Cons.prems by (simp add: dom_map_of_conv_image_fst)
  then have "map_of es (fst e) = None" by (simp add: domIff)
  then show ?case using Cons
    by (cases e) (rule ext, auto simp: drop_upto_def split: option.splits)
qed (auto simp: drop_upto_def)

lemma mem_zset_put:
  "mem_cnt s k = None \<Longrightarrow> mem_zset (mem_put k es s) = (mem_zset s)(k := map_of es)"
  by (rule ext) (simp add: mem_zset_def mem_entries_put map_of_clearjunk)

lemma mem_counter_zset: "mem_cnt s k = Some n \<Longrightarrow> mem_zset s k = Map.empty"
  by (auto simp: mem_zset_def mem_entries_def mem_cnt_def split: option.splits rvalue.splits)

lemma mem_cnt_put [simp]: "mem_cnt (mem_put k es s) = mem_cnt s"
  by (cases "mem_cnt s k") (simp_all add: mem_entries_put mem_put_counter)

text \<open>Rewriting the entries by a function that keeps an empty set empty.\<close>

lemma mem_zset_put_map:
  assumes "map_of es = f (mem_zset s k)" "f Map.empty = Map.empty"
  shows "mem_zset (mem_put k es s) = (mem_zset s)(k := f (mem_zset s k))"
proof (cases "mem_cnt s k")
  case None
  then show ?thesis using assms(1) by (simp add: mem_zset_put)
next
  case (Some n)
  then have "mem_put k es s = s" "mem_zset s k = Map.empty"
    using mem_put_counter mem_counter_zset by blast+
  then show ?thesis using assms(2) by (metis fun_upd_triv)
qed

lemma mem_zset_update:
  "mem_zset (s\<lparr>mdata := (mdata s)(k \<mapsto> (v, e))\<rparr>) j = (if j = k then
     (if expired e (mnow s) then Map.empty else case v of ZSet es \<Rightarrow> map_of es | Counter n \<Rightarrow> Map.empty)
     else mem_zset s j)"
  "mem_zset (s\<lparr>mdata := (mdata s)(k := None)\<rparr>) j = (if j = k then Map.empty else mem_zset s j)"
  "mem_cnt (s\<lparr>mdata := (mdata s)(k \<mapsto> (v, e))\<rparr>) j = (if j = k then
     (if expired e (mnow s) then None else case v of ZSet es \<Rightarrow> None | Counter n \<Rightarrow> Some n)
     else mem_cnt s j)"
  "mem_cnt (s\<lparr>mdata := (mdata s)(k := None)\<rparr>) j = (if j = k then None else mem_cnt s j)"
  by (auto simp: mem_zset_def mem_cnt_def mem_entries_def alive_update map_of_clearjunk split: rvalue.splits)

lemma mem_add_views:
  assumes "mem_zset s k = Map.empty"
  shows "mem_cnt (mem_add k d s) = (mem_cnt s)(k \<mapsto> (case mem_cnt s k of None \<Rightarrow> 0 | Some n \<Rightarrow> n) + d)"
    "mem_zset (mem_add k d s) = mem_zset s"
proof -
  have ne: "\<not> expired e (mnow s)" if "alive s k = Some (v, e)" for v e
    using that by (auto simp: alive_def split: option.splits if_splits)
  have no: False if "alive s k = Some (ZSet es, e)" for es e
  proof -
    have "map_of es = Map.empty"
      using assms that by (simp add: mem_zset_def mem_entries_def map_of_clearjunk)
    then have "es = []" by (metis list.set_cases map_of_eq_empty_iff)
    then show False using that by (auto simp: alive_def split: option.splits if_splits)
  qed
  consider (z) "alive s k = None" | (c) n e where "alive s k = Some (Counter n, e)"
    using no by (metis option.exhaust rvalue.exhaust surj_pair)
  then have "mem_cnt (mem_add k d s) = (mem_cnt s)(k \<mapsto> (case mem_cnt s k of None \<Rightarrow> 0 | Some n \<Rightarrow> n) + d) \<and>
      mem_zset (mem_add k d s) = mem_zset s"
  proof cases
    case z
    then have "mem_cnt s k = None" by (simp add: mem_cnt_def)
    then show ?thesis using z assms
      by (auto simp: mem_add_def fun_eq_iff mem_zset_update expired_def)
  next
    case c
    then have "mem_cnt s k = Some n" by (simp add: mem_cnt_def)
    then show ?thesis using assms ne [OF c] c
      by (auto simp: mem_add_def fun_eq_iff mem_zset_update)
  qed
  then show "mem_cnt (mem_add k d s) = (mem_cnt s)(k \<mapsto> (case mem_cnt s k of None \<Rightarrow> 0 | Some n \<Rightarrow> n) + d)"
    "mem_zset (mem_add k d s) = mem_zset s" by auto
qed

lemma mem_expire_views:
  assumes "alive s k = Some (v, e)" "0 < (ttl :: int)"
  shows "mem_zset (s\<lparr>mdata := (mdata s)(k \<mapsto> (v, Some (mnow s + ttl)))\<rparr>) = mem_zset s"
    "mem_cnt (s\<lparr>mdata := (mdata s)(k \<mapsto> (v, Some (mnow s + ttl)))\<rparr>) = mem_cnt s"
proof -
  let ?s = "s\<lparr>mdata := (mdata s)(k \<mapsto> (v, Some (mnow s + ttl)))\<rparr>"
  have "v \<noteq> ZSet []" using assms(1) by (auto simp: alive_def split: option.splits if_splits)
  then have "alive ?s j = (if j = k then Some (v, Some (mnow s + ttl)) else alive s j)" for j
    using assms(2) unfolding alive_update by (simp add: expired_def)
  then have "mem_zset ?s j = mem_zset s j" "mem_cnt ?s j = mem_cnt s j" for j
    using assms(1) by (cases v; simp add: mem_zset_def mem_entries_def mem_cnt_def)+
  then show "mem_zset ?s = mem_zset s" "mem_cnt ?s = mem_cnt s" by auto
qed

interpretation mem: redis_laws mem_ops mem_zset mem_cnt
proof unfold_locales
  fix s k
  show "finite (dom (mem_zset s k))" by (simp add: mem_zset_def finite_dom_map_of)
  show "r_zcard mem_ops k s = int (card (dom (mem_zset s k)))"
    using distinct_card [OF distinct_entries [of s k]]
    by (simp add: mem_ops_def mem_zset_def dom_map_of_conv_image_fst)
  show "set (r_zrange mem_ops k s) = dom (mem_zset s k)"
    by (simp add: mem_ops_def mem_zset_def dom_map_of_conv_image_fst)
  show "distinct (r_zrange mem_ops k s)" by (simp add: mem_ops_def)
  show "r_get mem_ops k s = mem_cnt s k" by (simp add: mem_ops_def)
  fix m
  show "mem_zset (r_zremrangebyscore mem_ops k m s) = (mem_zset s)(k := drop_upto m (mem_zset s k))"
    by (simp add: mem_ops_def) (rule mem_zset_put_map, simp add: mem_zset_def map_of_filter_upto, simp add: drop_upto_def)
next
  fix s k v x assume "mem_cnt s k = None"
  then show "mem_zset (r_zadd mem_ops k v x s) = (mem_zset s)(k := (mem_zset s k)(x \<mapsto> v))"
    by (simp add: mem_ops_def mem_zset_put map_of_filter_key) (simp add: mem_zset_def)
next
  fix s k x
  show "mem_zset (snd (r_zrem mem_ops k x s)) = (mem_zset s)(k := (mem_zset s k)(x := None))"
    by (simp add: mem_ops_def) (rule mem_zset_put_map [of _ "\<lambda>z. z(x := None)"], simp add: mem_zset_def map_of_filter_key, simp)
  show "fst (r_zrem mem_ops k x s) = (if x \<in> dom (mem_zset s k) then 1 else 0)"
    by (simp add: mem_ops_def mem_zset_def dom_map_of_conv_image_fst)
next
  fix s k ttl assume "0 < (ttl :: int)"
  then show "mem_zset (r_expire mem_ops k ttl s) = mem_zset s" "mem_cnt (r_expire mem_ops k ttl s) = mem_cnt s"
    using mem_expire_views by (auto simp: mem_ops_def split: option.split)
qed (auto simp: mem_ops_def mem_zset_update fun_eq_iff mem_add_views split: option.splits)

end
