(* ===== verification/Concurrency.thy ===== *)
theory Concurrency
  imports Redis
begin

text \<open>
  The scheduler's concurrency cache:
  internal/scheduler/rediscache/concurrency_cache.go.  The Lua scripts are
  functions on a server state (Redis runs a script atomically, at one TIME); the
  cache's methods are functions on a connection, call by call.  Log output is
  left out; an error is the text of a failed call.
\<close>

section \<open>Keys\<close>

definition providerSlotKeyPrefix :: string where "providerSlotKeyPrefix = ''concurrency:provider:''"
definition userSlotKeyPrefix :: string where "userSlotKeyPrefix = ''concurrency:user:''"
definition apiKeySlotKeyPrefix :: string where "apiKeySlotKeyPrefix = ''concurrency:api_key:''"
definition liveProviderSlotKeyPrefix :: string where "liveProviderSlotKeyPrefix = ''concurrency:live:provider:''"
definition liveUserSlotKeyPrefix :: string where "liveUserSlotKeyPrefix = ''concurrency:live:user:''"
definition liveAPIKeySlotKeyPrefix :: string where "liveAPIKeySlotKeyPrefix = ''concurrency:live:api_key:''"
definition openAIWSIngressLeaseKeyPrefix :: string where
  "openAIWSIngressLeaseKeyPrefix = ''concurrency:openai_ws_ingress:api_key:''"
definition waitQueueKeyPrefix :: string where "waitQueueKeyPrefix = ''concurrency:wait:''"
definition providerWaitKeyPrefix :: string where "providerWaitKeyPrefix = ''wait:provider:''"
definition providerActiveIndexKey :: string where "providerActiveIndexKey = ''concurrency:provider:active_index''"
definition userActiveIndexKey :: string where "userActiveIndexKey = ''concurrency:user:active_index''"
definition legacyWaitSweepMarkerKey :: string where
  "legacyWaitSweepMarkerKey = ''concurrency:startup:legacy_wait_sweep:v1''"

lemmas key_prefixes = providerSlotKeyPrefix_def userSlotKeyPrefix_def apiKeySlotKeyPrefix_def
  liveProviderSlotKeyPrefix_def liveUserSlotKeyPrefix_def liveAPIKeySlotKeyPrefix_def
  openAIWSIngressLeaseKeyPrefix_def waitQueueKeyPrefix_def providerWaitKeyPrefix_def

definition openAIWSIngressLeaseTTLSeconds :: int where "openAIWSIngressLeaseTTLSeconds = 60"
definition liveLeaseTTLSeconds :: int where "liveLeaseTTLSeconds = 60"
definition defaultSlotTTLMinutes :: int where "defaultSlotTTLMinutes = 15"
definition activeIndexCleanupBatchSize :: nat where "activeIndexCleanupBatchSize = 1000"
definition activeIndexPipelineChunkSize :: nat where "activeIndexPipelineChunkSize = 500"

definition providerSlotKey :: "int \<Rightarrow> string" where "providerSlotKey i = providerSlotKeyPrefix @ dec i"
definition userSlotKey :: "int \<Rightarrow> string" where "userSlotKey i = userSlotKeyPrefix @ dec i"
definition apiKeySlotKey :: "int \<Rightarrow> string" where "apiKeySlotKey i = apiKeySlotKeyPrefix @ dec i"
definition liveProviderSlotKey :: "int \<Rightarrow> string" where "liveProviderSlotKey i = liveProviderSlotKeyPrefix @ dec i"
definition liveUserSlotKey :: "int \<Rightarrow> string" where "liveUserSlotKey i = liveUserSlotKeyPrefix @ dec i"
definition liveAPIKeySlotKey :: "int \<Rightarrow> string" where "liveAPIKeySlotKey i = liveAPIKeySlotKeyPrefix @ dec i"
definition openAIWSIngressLeaseKey :: "int \<Rightarrow> string" where
  "openAIWSIngressLeaseKey i = openAIWSIngressLeaseKeyPrefix @ dec i"
definition waitQueueKey :: "int \<Rightarrow> string" where "waitQueueKey i = waitQueueKeyPrefix @ dec i"
definition providerWaitKey :: "int \<Rightarrow> string" where "providerWaitKey i = providerWaitKeyPrefix @ dec i"

lemmas key_builders = providerSlotKey_def userSlotKey_def apiKeySlotKey_def liveProviderSlotKey_def
  liveUserSlotKey_def liveAPIKeySlotKey_def openAIWSIngressLeaseKey_def waitQueueKey_def providerWaitKey_def

section \<open>Scripts\<close>

definition acquireScript ::
  "'r redis_ops \<Rightarrow> string \<Rightarrow> string \<Rightarrow> int \<Rightarrow> int \<Rightarrow> string \<Rightarrow> 'r \<Rightarrow> (int \<times> int) \<times> 'r" where
  "acquireScript R key liveKey maxConcurrency ttl requestID s =
     (let now = r_time R s;
          s = r_zremrangebyscore R key (now - ttl) s;
          s = r_zremrangebyscore R liveKey (now - 60) s
      in if r_zscore R key requestID s \<noteq> None then
           ((1, now), r_expire R key ttl (r_zadd R key now requestID s))
         else
           let count = r_zcard R key s + r_zcard R liveKey s in
           if count < maxConcurrency then
             ((1, now), r_expire R key ttl (r_zadd R key now requestID s))
           else ((0, now), s))"

definition getCountScript ::
  "'r redis_ops \<Rightarrow> string \<Rightarrow> string \<Rightarrow> int \<Rightarrow> 'r \<Rightarrow> int \<times> 'r" where
  "getCountScript R key liveKey ttl s =
     (let now = r_time R s;
          s = r_zremrangebyscore R key (now - ttl) s;
          s = r_zremrangebyscore R liveKey (now - 60) s
      in (r_zcard R key s + r_zcard R liveKey s, s))"

definition add_lease :: "'r redis_ops \<Rightarrow> int \<Rightarrow> int \<Rightarrow> string \<Rightarrow> string list \<Rightarrow> 'r \<Rightarrow> 'r" where
  "add_lease R now ttl leaseID keys s =
     fold (\<lambda>k. r_expire R k ttl) keys (fold (\<lambda>k. r_zadd R k now leaseID) keys s)"

definition acquireLiveLeaseScript ::
  "'r redis_ops \<Rightarrow> string \<Rightarrow> string \<Rightarrow> string \<Rightarrow> string \<Rightarrow> string \<Rightarrow> int \<Rightarrow> int \<Rightarrow> int \<Rightarrow> string \<Rightarrow> int
   \<Rightarrow> 'r \<Rightarrow> int \<times> 'r" where
  "acquireLiveLeaseScript R providerRegular providerLive userRegular userLive apiLive
       providerMax userMax ttl leaseID replacing s =
     (let now = r_time R s;
          liveExpireBefore = now - ttl;
          s = r_zremrangebyscore R providerLive liveExpireBefore s;
          s = r_zremrangebyscore R userLive liveExpireBefore s;
          s = r_zremrangebyscore R apiLive liveExpireBefore s
      in if r_zscore R providerLive leaseID s \<noteq> None then (1, s)
         else
           let providerCount = r_zcard R providerRegular s + r_zcard R providerLive s;
               userCount = r_zcard R userRegular s + r_zcard R userLive s;
               allowance = (if replacing = 1 then 1 else 0)
           in if 0 < providerMax \<and> providerMax + allowance \<le> providerCount then (0, s)
              else if 0 < userMax \<and> userMax + allowance \<le> userCount then (0, s)
              else (1, add_lease R now ttl leaseID [providerLive, userLive, apiLive] s))"

text \<open>The first loop prunes key by key and stops at the first one without the lease.\<close>

fun check_leases :: "'r redis_ops \<Rightarrow> int \<Rightarrow> string \<Rightarrow> string list \<Rightarrow> 'r \<Rightarrow> bool \<times> 'r" where
  "check_leases R expireBefore leaseID [] s = (True, s)"
| "check_leases R expireBefore leaseID (k # ks) s =
     (let s = r_zremrangebyscore R k expireBefore s in
      if r_zscore R k leaseID s = None then (False, s)
      else check_leases R expireBefore leaseID ks s)"

fun refresh_leases :: "'r redis_ops \<Rightarrow> int \<Rightarrow> int \<Rightarrow> string \<Rightarrow> string list \<Rightarrow> 'r \<Rightarrow> 'r" where
  "refresh_leases R now ttl leaseID [] s = s"
| "refresh_leases R now ttl leaseID (k # ks) s =
     refresh_leases R now ttl leaseID ks (r_expire R k ttl (r_zadd R k now leaseID s))"

definition refreshLiveLeaseScript ::
  "'r redis_ops \<Rightarrow> string list \<Rightarrow> int \<Rightarrow> string \<Rightarrow> 'r \<Rightarrow> int \<times> 'r" where
  "refreshLiveLeaseScript R keys ttl leaseID s =
     (let now = r_time R s; expireBefore = now - ttl in
      case check_leases R expireBefore leaseID keys s of
        (False, s) \<Rightarrow> (0, s)
      | (True, s) \<Rightarrow> (1, refresh_leases R now ttl leaseID keys s))"

definition trackSlotScript :: "'r redis_ops \<Rightarrow> string \<Rightarrow> int \<Rightarrow> string \<Rightarrow> 'r \<Rightarrow> int \<times> 'r" where
  "trackSlotScript R key ttl requestID s =
     (let now = r_time R s;
          s = r_zremrangebyscore R key (now - ttl) s
      in (1, r_expire R key ttl (r_zadd R key now requestID s)))"

definition acquireOpenAIWSIngressLeaseScript ::
  "'r redis_ops \<Rightarrow> string \<Rightarrow> int \<Rightarrow> int \<Rightarrow> string \<Rightarrow> 'r \<Rightarrow> int \<times> 'r" where
  "acquireOpenAIWSIngressLeaseScript R key maxConnections ttl leaseID s =
     (let now = r_time R s;
          s = r_zremrangebyscore R key (now - ttl) s
      in if r_zscore R key leaseID s \<noteq> None then
           (1, r_expire R key ttl (r_zadd R key now leaseID s))
         else if r_zcard R key s < maxConnections then
           (1, r_expire R key ttl (r_zadd R key now leaseID s))
         else (0, s))"

definition refreshOpenAIWSIngressLeaseScript ::
  "'r redis_ops \<Rightarrow> string \<Rightarrow> int \<Rightarrow> string \<Rightarrow> 'r \<Rightarrow> int \<times> 'r" where
  "refreshOpenAIWSIngressLeaseScript R key ttl leaseID s =
     (let now = r_time R s;
          s = r_zremrangebyscore R key (now - ttl) s
      in if r_zscore R key leaseID s = None then (0, s)
         else (1, r_expire R key ttl (r_zadd R key now leaseID s)))"

text \<open>The user and the provider counter use the same script text.\<close>

definition incrementWaitScript ::
  "'r redis_ops \<Rightarrow> string \<Rightarrow> int \<Rightarrow> int \<Rightarrow> 'r \<Rightarrow> (int \<times> int) \<times> 'r" where
  "incrementWaitScript R key maxWait ttl s =
     (let current = (case r_get R key s of None \<Rightarrow> 0 | Some n \<Rightarrow> n);
          now = r_time R s
      in if maxWait \<le> current then ((0, now), s)
         else ((1, now), r_expire R key ttl (r_incr R key s)))"

definition decrementWaitScript :: "'r redis_ops \<Rightarrow> string \<Rightarrow> 'r \<Rightarrow> int \<times> 'r" where
  "decrementWaitScript R key s =
     (case r_get R key s of
        None \<Rightarrow> (1, s)
      | Some n \<Rightarrow> if 0 < n then (1, r_decr R key s) else (1, s))"

definition cleanupExpiredSlotsScript :: "'r redis_ops \<Rightarrow> string \<Rightarrow> int \<Rightarrow> 'r \<Rightarrow> int \<times> 'r" where
  "cleanupExpiredSlotsScript R key ttl s =
     (let now = r_time R s;
          s = r_zremrangebyscore R key (now - ttl) s
      in if r_zcard R key s = 0 then (1, r_del R key s) else (1, r_expire R key ttl s))"

fun remove_foreign :: "'r redis_ops \<Rightarrow> string \<Rightarrow> string \<Rightarrow> string list \<Rightarrow> int \<times> 'r \<Rightarrow> int \<times> 'r" where
  "remove_foreign R key activePrefix [] st = st"
| "remove_foreign R key activePrefix (m # ms) (removed, s) =
     (if \<not> has_prefix m activePrefix then
        (case r_zrem R key m s of (n, s) \<Rightarrow> remove_foreign R key activePrefix ms (removed + n, s))
      else remove_foreign R key activePrefix ms (removed, s))"

definition startupCleanupSlotScript ::
  "'r redis_ops \<Rightarrow> string \<Rightarrow> string \<Rightarrow> int \<Rightarrow> 'r \<Rightarrow> (int \<times> int) \<times> 'r" where
  "startupCleanupSlotScript R key activePrefix slotTTL s =
     (let (removed, s) = remove_foreign R key activePrefix (r_zrange R key s) (0, s);
          remaining = r_zcard R key s
      in if remaining = 0 then ((removed, remaining), r_del R key s)
         else ((removed, remaining), r_expire R key slotTTL s))"

section \<open>The cache\<close>

record cache =
  slotTTLSeconds :: int
  waitQueueTTLSeconds :: int
  has_rdb :: bool  \<comment> \<open>neither the cache nor its client is nil\<close>

definition NewConcurrencyCache :: "bool \<Rightarrow> int \<Rightarrow> int \<Rightarrow> cache" where
  "NewConcurrencyCache rdb slotTTLMinutes waitTTL =
     (let slotTTLMinutes = (if slotTTLMinutes \<le> 0 then defaultSlotTTLMinutes else slotTTLMinutes);
          waitTTL = (if waitTTL \<le> 0 then slotTTLMinutes * 60 else waitTTL)
      in \<lparr>slotTTLSeconds = slotTTLMinutes * 60, waitQueueTTLSeconds = waitTTL, has_rdb = rdb\<rparr>)"

record slotIndexSpec =
  indexKey :: string
  slotKey :: "int \<Rightarrow> string"
  waitKey :: "int \<Rightarrow> string"

definition providerSlotIndex :: slotIndexSpec where
  "providerSlotIndex = \<lparr>indexKey = providerActiveIndexKey, slotKey = providerSlotKey, waitKey = providerWaitKey\<rparr>"

definition userSlotIndex :: slotIndexSpec where
  "userSlotIndex = \<lparr>indexKey = userActiveIndexKey, slotKey = userSlotKey, waitKey = waitQueueKey\<rparr>"

record activeIndexLoad =
  lid :: int
  lmember :: string
  slotCount :: int
  waitCount :: int

definition redisUnixSeconds :: "'r redis_ops \<Rightarrow> 'r conn \<Rightarrow> (call_error, int) result \<times> 'r conn" where
  "redisUnixSeconds R = call (reads (r_time R))"

definition touchActiveIndexAt ::
  "'r redis_ops \<Rightarrow> cache \<Rightarrow> string \<Rightarrow> int \<Rightarrow> int \<Rightarrow> 'r conn \<Rightarrow> 'r conn" where
  "touchActiveIndexAt R c index i expireAt w =
     (if \<not> has_rdb c \<or> i \<le> 0 \<or> expireAt \<le> 0 then w
      else snd (call (writes (r_zadd R index expireAt (dec i)) ()) w))"

definition activeIndexTTL :: "cache \<Rightarrow> int \<Rightarrow> int \<Rightarrow> int" where
  "activeIndexTTL c slots waiters =
     (let ttl = (if 0 < slots then slotTTLSeconds c else 0) in
      if 0 < waiters \<and> ttl < waitQueueTTLSeconds c then waitQueueTTLSeconds c else ttl)"

text \<open>The three pipelined commands that read one entity's load.\<close>

definition load_commands ::
  "'r redis_ops \<Rightarrow> string \<Rightarrow> string \<Rightarrow> int \<Rightarrow> ('r \<Rightarrow> int option \<times> 'r) list" where
  "load_commands R slot wait cutoff =
     [writes (r_zremrangebyscore R slot cutoff) None,
      reads (\<lambda>s. Some (r_zcard R slot s)),
      reads (r_get R wait)]"

definition positive_or_zero :: "int option \<Rightarrow> int" where
  "positive_or_zero v = (case v of None \<Rightarrow> 0 | Some n \<Rightarrow> if 0 < n then n else 0)"

definition readActiveLoadForKey ::
  "'r redis_ops \<Rightarrow> cache \<Rightarrow> int \<Rightarrow> string \<Rightarrow> string \<Rightarrow> int \<Rightarrow> 'r conn
   \<Rightarrow> (call_error, activeIndexLoad) result \<times> 'r conn" where
  "readActiveLoadForKey R c i slot wait now w =
     (case exec (load_commands R slot wait (now - slotTTLSeconds c)) w of
        (Inl e, w) \<Rightarrow> (Err e, w)
      | (Inr rs, w) \<Rightarrow>
          (Ok \<lparr>lid = i, lmember = dec i,
               slotCount = (case rs ! 1 of None \<Rightarrow> 0 | Some n \<Rightarrow> n),
               waitCount = positive_or_zero (rs ! 2)\<rparr>, w))"

definition refreshActiveIndex ::
  "'r redis_ops \<Rightarrow> cache \<Rightarrow> string \<Rightarrow> int \<Rightarrow> string \<Rightarrow> string \<Rightarrow> 'r conn \<Rightarrow> 'r conn" where
  "refreshActiveIndex R c index i slot wait w =
     (if \<not> has_rdb c \<or> i \<le> 0 then w
      else case redisUnixSeconds R w of
        (Inl e, w) \<Rightarrow> w
      | (Inr now, w) \<Rightarrow>
          (case readActiveLoadForKey R c i slot wait now w of
             (Inl e, w) \<Rightarrow> w
           | (Inr load, w) \<Rightarrow>
               if slotCount load = 0 \<and> waitCount load \<le> 0
               then snd (call (r_zrem R index (dec i)) w)
               else
                 let ttl = activeIndexTTL c (slotCount load) (waitCount load) in
                 if ttl \<le> 0 then w else touchActiveIndexAt R c index i (now + ttl) w))"

definition refreshProviderActiveIndex :: "'r redis_ops \<Rightarrow> cache \<Rightarrow> int \<Rightarrow> 'r conn \<Rightarrow> 'r conn" where
  "refreshProviderActiveIndex R c i =
     refreshActiveIndex R c providerActiveIndexKey i (providerSlotKey i) (providerWaitKey i)"

definition refreshUserActiveIndex :: "'r redis_ops \<Rightarrow> cache \<Rightarrow> int \<Rightarrow> 'r conn \<Rightarrow> 'r conn" where
  "refreshUserActiveIndex R c i =
     refreshActiveIndex R c userActiveIndexKey i (userSlotKey i) (waitQueueKey i)"

section \<open>Slots and leases\<close>

definition acquire_slot ::
  "'r redis_ops \<Rightarrow> cache \<Rightarrow> string \<Rightarrow> string \<Rightarrow> string \<Rightarrow> int \<Rightarrow> int \<Rightarrow> string \<Rightarrow> 'r conn
   \<Rightarrow> (call_error, bool) result \<times> 'r conn" where
  "acquire_slot R c index key liveKey i maxConcurrency requestID w =
     (case call (acquireScript R key liveKey maxConcurrency (slotTTLSeconds c) requestID) w of
        (Inl e, w) \<Rightarrow> (Err e, w)
      | (Inr (res, now), w) \<Rightarrow>
          (Ok (res = 1),
           if res = 1 then touchActiveIndexAt R c index i (now + slotTTLSeconds c) w else w))"

definition AcquireProviderSlot ::
  "'r redis_ops \<Rightarrow> cache \<Rightarrow> int \<Rightarrow> int \<Rightarrow> string \<Rightarrow> 'r conn \<Rightarrow> (call_error, bool) result \<times> 'r conn" where
  "AcquireProviderSlot R c i maxConcurrency requestID =
     acquire_slot R c providerActiveIndexKey (providerSlotKey i) (liveProviderSlotKey i) i maxConcurrency requestID"

definition AcquireUserSlot ::
  "'r redis_ops \<Rightarrow> cache \<Rightarrow> int \<Rightarrow> int \<Rightarrow> string \<Rightarrow> 'r conn \<Rightarrow> (call_error, bool) result \<times> 'r conn" where
  "AcquireUserSlot R c i maxConcurrency requestID =
     acquire_slot R c userActiveIndexKey (userSlotKey i) (liveUserSlotKey i) i maxConcurrency requestID"

definition ReleaseProviderSlot ::
  "'r redis_ops \<Rightarrow> cache \<Rightarrow> int \<Rightarrow> string \<Rightarrow> 'r conn \<Rightarrow> (call_error, unit) result \<times> 'r conn" where
  "ReleaseProviderSlot R c i requestID w =
     (case call (r_zrem R (providerSlotKey i) requestID) w of
        (Inl e, w) \<Rightarrow> (Err e, w)
      | (Inr _, w) \<Rightarrow> (Ok (), refreshProviderActiveIndex R c i w))"

definition ReleaseUserSlot ::
  "'r redis_ops \<Rightarrow> cache \<Rightarrow> int \<Rightarrow> string \<Rightarrow> 'r conn \<Rightarrow> (call_error, unit) result \<times> 'r conn" where
  "ReleaseUserSlot R c i requestID w =
     (case call (r_zrem R (userSlotKey i) requestID) w of
        (Inl e, w) \<Rightarrow> (Err e, w)
      | (Inr _, w) \<Rightarrow> (Ok (), refreshUserActiveIndex R c i w))"

definition GetProviderConcurrency ::
  "'r redis_ops \<Rightarrow> cache \<Rightarrow> int \<Rightarrow> 'r conn \<Rightarrow> (call_error, int) result \<times> 'r conn" where
  "GetProviderConcurrency R c i =
     call (getCountScript R (providerSlotKey i) (liveProviderSlotKey i) (slotTTLSeconds c))"

definition GetUserConcurrency ::
  "'r redis_ops \<Rightarrow> cache \<Rightarrow> int \<Rightarrow> 'r conn \<Rightarrow> (call_error, int) result \<times> 'r conn" where
  "GetUserConcurrency R c i =
     call (getCountScript R (userSlotKey i) (liveUserSlotKey i) (slotTTLSeconds c))"

definition TrackAPIKeySlot ::
  "'r redis_ops \<Rightarrow> cache \<Rightarrow> int \<Rightarrow> string \<Rightarrow> 'r conn \<Rightarrow> (call_error, int) result \<times> 'r conn" where
  "TrackAPIKeySlot R c i requestID = call (trackSlotScript R (apiKeySlotKey i) (slotTTLSeconds c) requestID)"

definition ReleaseAPIKeySlot ::
  "'r redis_ops \<Rightarrow> int \<Rightarrow> string \<Rightarrow> 'r conn \<Rightarrow> (call_error, int) result \<times> 'r conn" where
  "ReleaseAPIKeySlot R i requestID = call (r_zrem R (apiKeySlotKey i) requestID)"

definition AcquireOpenAIWSIngressLease ::
  "'r redis_ops \<Rightarrow> cache \<Rightarrow> int \<Rightarrow> int \<Rightarrow> string \<Rightarrow> 'r conn \<Rightarrow> (call_error, bool) result \<times> 'r conn" where
  "AcquireOpenAIWSIngressLease R c apiKeyID maxConnections leaseID w =
     (if \<not> has_rdb c \<or> apiKeyID \<le> 0 \<or> maxConnections \<le> 0 \<or> leaseID = [] then (Ok False, w)
      else case call (acquireOpenAIWSIngressLeaseScript R (openAIWSIngressLeaseKey apiKeyID)
                        maxConnections openAIWSIngressLeaseTTLSeconds leaseID) w of
        (Inl e, w) \<Rightarrow> (Err e, w)
      | (Inr res, w) \<Rightarrow> (Ok (res = 1), w))"

definition RefreshOpenAIWSIngressLease ::
  "'r redis_ops \<Rightarrow> cache \<Rightarrow> int \<Rightarrow> string \<Rightarrow> 'r conn \<Rightarrow> (call_error, bool) result \<times> 'r conn" where
  "RefreshOpenAIWSIngressLease R c apiKeyID leaseID w =
     (if \<not> has_rdb c \<or> apiKeyID \<le> 0 \<or> leaseID = [] then (Ok False, w)
      else case call (refreshOpenAIWSIngressLeaseScript R (openAIWSIngressLeaseKey apiKeyID)
                        openAIWSIngressLeaseTTLSeconds leaseID) w of
        (Inl e, w) \<Rightarrow> (Err e, w)
      | (Inr res, w) \<Rightarrow> (Ok (res = 1), w))"

definition ReleaseOpenAIWSIngressLease ::
  "'r redis_ops \<Rightarrow> cache \<Rightarrow> int \<Rightarrow> string \<Rightarrow> 'r conn \<Rightarrow> (call_error, unit) result \<times> 'r conn" where
  "ReleaseOpenAIWSIngressLease R c apiKeyID leaseID w =
     (if \<not> has_rdb c \<or> apiKeyID \<le> 0 \<or> leaseID = [] then (Ok (), w)
      else case call (r_zrem R (openAIWSIngressLeaseKey apiKeyID) leaseID) w of
        (Inl e, w) \<Rightarrow> (Err e, w)
      | (Inr _, w) \<Rightarrow> (Ok (), w))"

text \<open>AcquireLiveLease returns the pair of its comparison and the error as they are.\<close>

definition AcquireLiveLease ::
  "'r redis_ops \<Rightarrow> cache \<Rightarrow> int \<Rightarrow> int \<Rightarrow> int \<Rightarrow> int \<Rightarrow> int \<Rightarrow> string \<Rightarrow> bool \<Rightarrow> 'r conn
   \<Rightarrow> (call_error, bool) result \<times> 'r conn" where
  "AcquireLiveLease R c providerID providerMax userID userMax apiKeyID leaseID replacingRegularSlots w =
     (if \<not> has_rdb c \<or> providerID \<le> 0 \<or> userID \<le> 0 \<or> apiKeyID \<le> 0 \<or> leaseID = [] then (Ok False, w)
      else case call (acquireLiveLeaseScript R (providerSlotKey providerID) (liveProviderSlotKey providerID)
                        (userSlotKey userID) (liveUserSlotKey userID) (liveAPIKeySlotKey apiKeyID)
                        providerMax userMax liveLeaseTTLSeconds leaseID
                        (if replacingRegularSlots then 1 else 0)) w of
        (Inl e, w) \<Rightarrow> (Err e, w)
      | (Inr res, w) \<Rightarrow> (Ok (res = 1), w))"

definition RefreshLiveLease ::
  "'r redis_ops \<Rightarrow> cache \<Rightarrow> int \<Rightarrow> int \<Rightarrow> int \<Rightarrow> string \<Rightarrow> 'r conn \<Rightarrow> (call_error, bool) result \<times> 'r conn" where
  "RefreshLiveLease R c providerID userID apiKeyID leaseID w =
     (if \<not> has_rdb c \<or> leaseID = [] then (Ok False, w)
      else case call (refreshLiveLeaseScript R
                        [liveProviderSlotKey providerID, liveUserSlotKey userID, liveAPIKeySlotKey apiKeyID]
                        liveLeaseTTLSeconds leaseID) w of
        (Inl e, w) \<Rightarrow> (Err e, w)
      | (Inr res, w) \<Rightarrow> (Ok (res = 1), w))"

text \<open>A transaction pipeline runs its commands as one.\<close>

definition ReleaseLiveLease ::
  "'r redis_ops \<Rightarrow> cache \<Rightarrow> int \<Rightarrow> int \<Rightarrow> int \<Rightarrow> string \<Rightarrow> 'r conn \<Rightarrow> (call_error, unit) result \<times> 'r conn" where
  "ReleaseLiveLease R c providerID userID apiKeyID leaseID w =
     (if \<not> has_rdb c \<or> leaseID = [] then (Ok (), w)
      else call (\<lambda>s. ((), snd (r_zrem R (liveAPIKeySlotKey apiKeyID) leaseID
                            (snd (r_zrem R (liveUserSlotKey userID) leaseID
                              (snd (r_zrem R (liveProviderSlotKey providerID) leaseID s))))))) w)"

end
