(* ===== verification/ConcurrencyLoad.thy ===== *)
theory ConcurrencyLoad
  imports Concurrency
begin

text \<open>
  The second half of internal/scheduler/rediscache/concurrency_cache.go: batched
  counts, wait counters, load snapshots, and the maintenance that prunes expired
  slots and rebuilds the discovery indexes.  A map built by the code is the map
  of its assignments, the last one for a key winning.
\<close>

section \<open>Batched counts\<close>

fun pairs :: "'a list \<Rightarrow> 'b list \<Rightarrow> nat \<Rightarrow> nat \<Rightarrow> ('a \<times> 'b list) list" where
  "pairs [] rs n k = []"
| "pairs (x # xs) rs n k = (x, take k (drop n rs)) # pairs xs rs (n + k) k"

definition val_or_zero :: "int option \<Rightarrow> int" where
  "val_or_zero v = (case v of None \<Rightarrow> 0 | Some n \<Rightarrow> n)"

text \<open>The pipeline appends the commands of one entity after another.\<close>

definition count_commands ::
  "'r redis_ops \<Rightarrow> cache \<Rightarrow> int \<Rightarrow> string \<Rightarrow> string \<Rightarrow> ('r \<Rightarrow> int option \<times> 'r) list" where
  "count_commands R c now slot live =
     [writes (r_zremrangebyscore R slot (now - slotTTLSeconds c)) None,
      writes (r_zremrangebyscore R live (now - liveLeaseTTLSeconds)) None,
      reads (\<lambda>s. Some (r_zcard R slot s)),
      reads (\<lambda>s. Some (r_zcard R live s))]"

definition getConcurrencyBatch ::
  "'r redis_ops \<Rightarrow> cache \<Rightarrow> int list \<Rightarrow> string \<Rightarrow> string \<Rightarrow> 'r conn
   \<Rightarrow> (call_error, int \<rightharpoonup> int) result \<times> 'r conn" where
  "getConcurrencyBatch R c ids slotKeyPrefix liveKeyPrefix w =
     (if length ids = 0 then (Ok Map.empty, w)
      else case call (reads (r_time R)) w of
        (Inl e, w) \<Rightarrow> (Err e, w)
      | (Inr now, w) \<Rightarrow>
          (case exec (concat (map (\<lambda>i. count_commands R c now (slotKeyPrefix @ dec i) (liveKeyPrefix @ dec i)) ids)) w of
             (Inl e, w) \<Rightarrow> (Err e, w)
           | (Inr rs, w) \<Rightarrow>
               (Ok (foldl (\<lambda>m (i, r). m(i \<mapsto> val_or_zero (r ! 2) + val_or_zero (r ! 3)))
                      Map.empty (pairs ids rs 0 4)), w)))"

definition GetProviderConcurrencyBatch ::
  "'r redis_ops \<Rightarrow> cache \<Rightarrow> int list \<Rightarrow> 'r conn \<Rightarrow> (call_error, int \<rightharpoonup> int) result \<times> 'r conn" where
  "GetProviderConcurrencyBatch R c ids =
     getConcurrencyBatch R c ids providerSlotKeyPrefix liveProviderSlotKeyPrefix"

definition GetAPIKeyConcurrencyBatch ::
  "'r redis_ops \<Rightarrow> cache \<Rightarrow> int list \<Rightarrow> 'r conn \<Rightarrow> (call_error, int \<rightharpoonup> int) result \<times> 'r conn" where
  "GetAPIKeyConcurrencyBatch R c ids =
     getConcurrencyBatch R c ids apiKeySlotKeyPrefix liveAPIKeySlotKeyPrefix"

section \<open>Wait counters\<close>

definition increment_wait ::
  "'r redis_ops \<Rightarrow> cache \<Rightarrow> string \<Rightarrow> string \<Rightarrow> int \<Rightarrow> int \<Rightarrow> 'r conn \<Rightarrow> (call_error, bool) result \<times> 'r conn" where
  "increment_wait R c index key i maxWait w =
     (case call (incrementWaitScript R key maxWait (waitQueueTTLSeconds c)) w of
        (Inl e, w) \<Rightarrow> (Err e, w)
      | (Inr (res, now), w) \<Rightarrow>
          (Ok (res = 1),
           if res = 1 then touchActiveIndexAt R c index i (now + waitQueueTTLSeconds c) w else w))"

definition IncrementWaitCount ::
  "'r redis_ops \<Rightarrow> cache \<Rightarrow> int \<Rightarrow> int \<Rightarrow> 'r conn \<Rightarrow> (call_error, bool) result \<times> 'r conn" where
  "IncrementWaitCount R c userID maxWait =
     increment_wait R c userActiveIndexKey (waitQueueKey userID) userID maxWait"

definition IncrementProviderWaitCount ::
  "'r redis_ops \<Rightarrow> cache \<Rightarrow> int \<Rightarrow> int \<Rightarrow> 'r conn \<Rightarrow> (call_error, bool) result \<times> 'r conn" where
  "IncrementProviderWaitCount R c providerID maxWait =
     increment_wait R c providerActiveIndexKey (providerWaitKey providerID) providerID maxWait"

definition DecrementWaitCount ::
  "'r redis_ops \<Rightarrow> cache \<Rightarrow> int \<Rightarrow> 'r conn \<Rightarrow> (call_error, unit) result \<times> 'r conn" where
  "DecrementWaitCount R c userID w =
     (case call (decrementWaitScript R (waitQueueKey userID)) w of
        (Inl e, w) \<Rightarrow> (Err e, w)
      | (Inr _, w) \<Rightarrow> (Ok (), refreshUserActiveIndex R c userID w))"

definition DecrementProviderWaitCount ::
  "'r redis_ops \<Rightarrow> cache \<Rightarrow> int \<Rightarrow> 'r conn \<Rightarrow> (call_error, unit) result \<times> 'r conn" where
  "DecrementProviderWaitCount R c providerID w =
     (case call (decrementWaitScript R (providerWaitKey providerID)) w of
        (Inl e, w) \<Rightarrow> (Err e, w)
      | (Inr _, w) \<Rightarrow> (Ok (), refreshProviderActiveIndex R c providerID w))"

definition GetProviderWaitingCount ::
  "'r redis_ops \<Rightarrow> int \<Rightarrow> 'r conn \<Rightarrow> (call_error, int) result \<times> 'r conn" where
  "GetProviderWaitingCount R providerID w =
     (case call (reads (r_get R (providerWaitKey providerID))) w of
        (Inl e, w) \<Rightarrow> (Err e, w)
      | (Inr None, w) \<Rightarrow> (Ok 0, w)
      | (Inr (Some v), w) \<Rightarrow> (Ok v, w))"

section \<open>Load snapshots\<close>

record LoadInfo =
  LoadID :: int
  CurrentConcurrency :: int
  WaitingCount :: int
  LoadRate :: int

text \<open>Providers and users are pairs of an identity and a maximum concurrency.\<close>

definition load_info :: "int \<times> int \<Rightarrow> int option list \<Rightarrow> LoadInfo" where
  "load_info p r =
     (let current = val_or_zero (r ! 2) + val_or_zero (r ! 3);
          waiting = val_or_zero (r ! 4)
      in \<lparr>LoadID = fst p, CurrentConcurrency = current, WaitingCount = waiting,
          LoadRate = (if 0 < snd p then go_div ((current + waiting) * 100) (snd p) else 0)\<rparr>)"

definition load_batch ::
  "'r redis_ops \<Rightarrow> cache \<Rightarrow> (int \<Rightarrow> string) \<Rightarrow> (int \<Rightarrow> string) \<Rightarrow> (int \<Rightarrow> string) \<Rightarrow> (int \<times> int) list \<Rightarrow> 'r conn
   \<Rightarrow> (call_error, int \<rightharpoonup> LoadInfo) result \<times> 'r conn" where
  "load_batch R c slot live wait entities w =
     (if length entities = 0 then (Ok Map.empty, w)
      else case call (reads (r_time R)) w of
        (Inl e, w) \<Rightarrow> (Err e, w)
      | (Inr now, w) \<Rightarrow>
          (case exec (concat (map (\<lambda>(i, _). count_commands R c now (slot i) (live i) @ [reads (r_get R (wait i))]) entities)) w of
             (Inl e, w) \<Rightarrow> (Err e, w)
           | (Inr rs, w) \<Rightarrow>
               (Ok (foldl (\<lambda>m (p, r). m(fst p \<mapsto> load_info p r)) Map.empty (pairs entities rs 0 5)), w)))"

definition GetProvidersLoadBatch ::
  "'r redis_ops \<Rightarrow> cache \<Rightarrow> (int \<times> int) list \<Rightarrow> 'r conn \<Rightarrow> (call_error, int \<rightharpoonup> LoadInfo) result \<times> 'r conn" where
  "GetProvidersLoadBatch R c = load_batch R c providerSlotKey liveProviderSlotKey providerWaitKey"

definition GetUsersLoadBatch ::
  "'r redis_ops \<Rightarrow> cache \<Rightarrow> (int \<times> int) list \<Rightarrow> 'r conn \<Rightarrow> (call_error, int \<rightharpoonup> LoadInfo) result \<times> 'r conn" where
  "GetUsersLoadBatch R c = load_batch R c userSlotKey liveUserSlotKey waitQueueKey"

section \<open>Maintenance\<close>

definition CleanupExpiredProviderSlots ::
  "'r redis_ops \<Rightarrow> cache \<Rightarrow> int \<Rightarrow> 'r conn \<Rightarrow> (call_error, unit) result \<times> 'r conn" where
  "CleanupExpiredProviderSlots R c providerID w =
     (case call (cleanupExpiredSlotsScript R (providerSlotKey providerID) (slotTTLSeconds c)) w of
        (Inl e, w) \<Rightarrow> (Err e, w)
      | (Inr _, w) \<Rightarrow> (Ok (), refreshProviderActiveIndex R c providerID w))"

text \<open>Stored members that are no positive identity are stale; the others are candidates.\<close>

fun split_members :: "string list \<Rightarrow> (int \<times> string) list \<times> string list" where
  "split_members [] = ([], [])"
| "split_members (m # ms) =
     (let (cands, stale) = split_members ms in
      case parse_int m of
        Some i \<Rightarrow> if i \<le> 0 then (cands, m # stale) else ((i, m) # cands, stale)
      | None \<Rightarrow> (cands, m # stale))"

function chunks :: "nat \<Rightarrow> 'a list \<Rightarrow> 'a list list" where
  "chunks n [] = []"
| "chunks n (x # xs) = take (Suc n) (x # xs) # chunks n (drop (Suc n) (x # xs))"
  by pat_completeness auto
termination by (relation "measure (\<lambda>(n, xs). length xs)") auto

fun read_chunks ::
  "'r redis_ops \<Rightarrow> cache \<Rightarrow> slotIndexSpec \<Rightarrow> int \<Rightarrow> (int \<times> string) list list \<Rightarrow> activeIndexLoad list \<Rightarrow> 'r conn
   \<Rightarrow> (call_error, activeIndexLoad list) result \<times> 'r conn" where
  "read_chunks R c spec now [] loads w = (Ok loads, w)"
| "read_chunks R c spec now (chunk # rest) loads w =
     (case exec (concat (map (\<lambda>(i, _). load_commands R (slotKey spec i) (waitKey spec i) (now - slotTTLSeconds c)) chunk)) w of
        (Inl e, w) \<Rightarrow> (Err e, w)
      | (Inr rs, w) \<Rightarrow>
          read_chunks R c spec now rest
            (loads @ map (\<lambda>((i, m), r). \<lparr>lid = i, lmember = m, slotCount = val_or_zero (r ! 1),
                            waitCount = positive_or_zero (r ! 2)\<rparr>) (pairs chunk rs 0 3)) w)"

definition readIndexLoads ::
  "'r redis_ops \<Rightarrow> cache \<Rightarrow> slotIndexSpec \<Rightarrow> string list \<Rightarrow> int \<Rightarrow> 'r conn
   \<Rightarrow> (call_error, activeIndexLoad list \<times> string list) result \<times> 'r conn" where
  "readIndexLoads R c spec members now w =
     (let (cands, stale) = split_members members in
      case read_chunks R c spec now (chunks (activeIndexPipelineChunkSize - 1) cands) [] w of
        (Inl e, w) \<Rightarrow> (Err e, w)
      | (Inr loads, w) \<Rightarrow> (Ok (loads, stale), w))"

definition removeActiveIndexMembers ::
  "'r redis_ops \<Rightarrow> string \<Rightarrow> string list \<Rightarrow> 'r conn \<Rightarrow> 'r conn" where
  "removeActiveIndexMembers R index members w =
     (if length members = 0 then w
      else snd (call (\<lambda>s. ((), fold (\<lambda>m s. snd (r_zrem R index m s)) members s)) w))"

definition add_scores :: "'r redis_ops \<Rightarrow> string \<Rightarrow> (int \<times> string) list \<Rightarrow> 'r conn \<Rightarrow> 'r conn" where
  "add_scores R index zs w =
     (if length zs = 0 then w
      else snd (call (\<lambda>s. ((), fold (\<lambda>(v, m). r_zadd R index v m) zs s)) w))"

definition load_empty :: "activeIndexLoad \<Rightarrow> bool" where
  "load_empty l = (slotCount l = 0 \<and> waitCount l \<le> 0)"

definition reconcileExpiredIndexCandidates ::
  "'r redis_ops \<Rightarrow> cache \<Rightarrow> slotIndexSpec \<Rightarrow> 'r conn \<Rightarrow> (call_error, unit) result \<times> 'r conn" where
  "reconcileExpiredIndexCandidates R c spec w =
     (case redisUnixSeconds R w of
        (Inl e, w) \<Rightarrow> (Err e, w)
      | (Inr now, w) \<Rightarrow>
          (case call (reads (r_zrangebyscore R (indexKey spec) now activeIndexCleanupBatchSize)) w of
             (Inl e, w) \<Rightarrow> (Err e, w)
           | (Inr members, w) \<Rightarrow>
               (case readIndexLoads R c spec members now w of
                  (Inl e, w) \<Rightarrow> (Err e, w)
                | (Inr (loads, stale), w) \<Rightarrow>
                    let stale = stale @ map lmember (filter load_empty loads);
                        refreshed = map (\<lambda>l. (now + activeIndexTTL c (slotCount l) (waitCount l), lmember l))
                                      (filter (\<lambda>l. \<not> load_empty l) loads)
                    in (Ok (), removeActiveIndexMembers R (indexKey spec) stale
                                 (add_scores R (indexKey spec) refreshed w)))))"

definition CleanupExpiredProviderSlotKeys ::
  "'r redis_ops \<Rightarrow> cache \<Rightarrow> 'r conn \<Rightarrow> (call_error, unit) result \<times> 'r conn" where
  "CleanupExpiredProviderSlotKeys R c w =
     (case reconcileExpiredIndexCandidates R c providerSlotIndex w of
        (Inl e, w) \<Rightarrow> (Err e, w)
      | (Inr _, w) \<Rightarrow> reconcileExpiredIndexCandidates R c userSlotIndex w)"

text \<open>
  One SCAN sweep deletes the returned keys and follows the cursor until it is 0
  again; Redis ends every sweep, which fuel stands for (None: not ended yet).
\<close>

fun sweep_pattern ::
  "nat \<Rightarrow> 'r redis_ops \<Rightarrow> string \<Rightarrow> nat \<Rightarrow> 'r conn \<Rightarrow> ((call_error, unit) result \<times> 'r conn) option" where
  "sweep_pattern 0 R prefix cursor w = None"
| "sweep_pattern (Suc n) R prefix cursor w =
     (case call (reads (r_scan R cursor prefix)) w of
        (Inl e, w) \<Rightarrow> Some (Err e, w)
      | (Inr (keys, next), w) \<Rightarrow>
          (case (if 0 < length keys then call (writes (fold (r_del R) keys) ()) w else (Ok (), w)) of
             (Inl e, w) \<Rightarrow> Some (Err e, w)
           | (Inr _, w) \<Rightarrow> if next = 0 then Some (Ok (), w) else sweep_pattern n R prefix next w))"

fun sweep_patterns ::
  "nat \<Rightarrow> 'r redis_ops \<Rightarrow> string list \<Rightarrow> 'r conn \<Rightarrow> ((call_error, unit) result \<times> 'r conn) option" where
  "sweep_patterns n R [] w = Some (Ok (), w)"
| "sweep_patterns n R (p # ps) w =
     (case sweep_pattern n R p 0 w of
        None \<Rightarrow> None
      | Some (Inl e, w) \<Rightarrow> Some (Err e, w)
      | Some (Inr _, w) \<Rightarrow> sweep_patterns n R ps w)"

definition sweepLegacyWaitKeysOnce ::
  "nat \<Rightarrow> 'r redis_ops \<Rightarrow> 'r conn \<Rightarrow> ((call_error, unit) result \<times> 'r conn) option" where
  "sweepLegacyWaitKeysOnce fuel R w =
     (case call (reads (r_exists R legacyWaitSweepMarkerKey)) w of
        (Inl e, w) \<Rightarrow> Some (Err e, w)
      | (Inr True, w) \<Rightarrow> Some (Ok (), w)
      | (Inr False, w) \<Rightarrow>
          (case sweep_patterns fuel R [providerWaitKeyPrefix, waitQueueKeyPrefix] w of
             None \<Rightarrow> None
           | Some (Inl e, w) \<Rightarrow> Some (Err e, w)
           | Some (Inr _, w) \<Rightarrow> Some (call (writes (r_set R legacyWaitSweepMarkerKey 1) ()) w)))"

definition allIndexMembers ::
  "'r redis_ops \<Rightarrow> string \<Rightarrow> 'r conn \<Rightarrow> (call_error, string list) result \<times> 'r conn" where
  "allIndexMembers R index = call (reads (r_zrange R index))"

text \<open>The loop over the members of an index: refreshed scores and stale members so far.\<close>

fun cleanup_members ::
  "'r redis_ops \<Rightarrow> cache \<Rightarrow> slotIndexSpec \<Rightarrow> string \<Rightarrow> int \<Rightarrow> string list
   \<Rightarrow> (int \<times> string) list \<times> string list \<Rightarrow> 'r conn
   \<Rightarrow> (call_error, (int \<times> string) list \<times> string list) result \<times> 'r conn" where
  "cleanup_members R c spec prefix now [] acc w = (Ok acc, w)"
| "cleanup_members R c spec prefix now (m # ms) (refreshed, stale) w =
     (case parse_int m of
        None \<Rightarrow> cleanup_members R c spec prefix now ms (refreshed, stale @ [m]) w
      | Some i \<Rightarrow>
          if i \<le> 0 then cleanup_members R c spec prefix now ms (refreshed, stale @ [m]) w
          else case call (startupCleanupSlotScript R (slotKey spec i) prefix (slotTTLSeconds c)) w of
            (Inl e, w) \<Rightarrow> (Err e, w)
          | (Inr (_, remaining), w) \<Rightarrow>
              (case call (writes (r_del R (waitKey spec i)) ()) w of
                 (Inl e, w) \<Rightarrow> (Err e, w)
               | (Inr _, w) \<Rightarrow>
                   if 0 < remaining
                   then cleanup_members R c spec prefix now ms (refreshed @ [(now + slotTTLSeconds c, m)], stale) w
                   else cleanup_members R c spec prefix now ms (refreshed, stale @ [m]) w))"

definition cleanupStaleProcessSlotsForIndex ::
  "'r redis_ops \<Rightarrow> cache \<Rightarrow> slotIndexSpec \<Rightarrow> string list \<Rightarrow> string \<Rightarrow> int \<Rightarrow> 'r conn
   \<Rightarrow> (call_error, unit) result \<times> 'r conn" where
  "cleanupStaleProcessSlotsForIndex R c spec members prefix now w =
     (case cleanup_members R c spec prefix now members ([], []) w of
        (Inl e, w) \<Rightarrow> (Err e, w)
      | (Inr (refreshed, stale), w) \<Rightarrow>
          (Ok (), removeActiveIndexMembers R (indexKey spec) stale (add_scores R (indexKey spec) refreshed w)))"

definition cleanup_index ::
  "'r redis_ops \<Rightarrow> cache \<Rightarrow> slotIndexSpec \<Rightarrow> string \<Rightarrow> int \<Rightarrow> 'r conn \<Rightarrow> (call_error, unit) result \<times> 'r conn" where
  "cleanup_index R c spec prefix now w =
     (case allIndexMembers R (indexKey spec) w of
        (Inl e, w) \<Rightarrow> (Err e, w)
      | (Inr members, w) \<Rightarrow> cleanupStaleProcessSlotsForIndex R c spec members prefix now w)"

definition CleanupStaleProcessSlots ::
  "nat \<Rightarrow> 'r redis_ops \<Rightarrow> cache \<Rightarrow> string \<Rightarrow> 'r conn \<Rightarrow> ((call_error, unit) result \<times> 'r conn) option" where
  "CleanupStaleProcessSlots fuel R c prefix w =
     (if prefix = [] then Some (Ok (), w)
      else case sweepLegacyWaitKeysOnce fuel R w of
        None \<Rightarrow> None
      | Some (Inl e, w) \<Rightarrow> Some (Err e, w)
      | Some (Inr _, w) \<Rightarrow>
          (case redisUnixSeconds R w of
             (Inl e, w) \<Rightarrow> Some (Err e, w)
           | (Inr now, w) \<Rightarrow>
               (case cleanup_index R c providerSlotIndex prefix now w of
                  (Inl e, w) \<Rightarrow> Some (Err e, w)
                | (Inr _, w) \<Rightarrow> Some (cleanup_index R c userSlotIndex prefix now w))))"

end
