(* ===== verification/Admission.thy ===== *)
theory Admission
  imports Concurrency
begin

text \<open>
  What the slot and lease scripts do, over the views of the server; that every
  interleaving of them keeps the configured maxima; and the methods built on
  them.  The key builders never give one key to two kinds or two identities,
  which the code relies on for the isolation of providers, users and keys.
\<close>

section \<open>Keys do not collide\<close>

lemma dec_head: "hd (dec i) = CHR ''-'' \<or> is_digit (hd (dec i))"
proof (cases "i < 0")
  case False
  have "list_all is_digit (dec_nat (nat i)) \<and> dec_nat (nat i) \<noteq> []" by (rule dec_nat_digits)
  then show ?thesis using False by (cases "dec_nat (nat i)") (auto simp: dec_def)
qed (simp add: dec_def)

lemma dec_not_active_index [simp]: "dec i \<noteq> ''active_index''"
  using dec_head [of i] by (auto simp: is_digit_def)

lemma key_eq [simp]:
  "providerSlotKey i = providerSlotKey j \<longleftrightarrow> i = j"
  "userSlotKey i = userSlotKey j \<longleftrightarrow> i = j"
  "apiKeySlotKey i = apiKeySlotKey j \<longleftrightarrow> i = j"
  "liveProviderSlotKey i = liveProviderSlotKey j \<longleftrightarrow> i = j"
  "liveUserSlotKey i = liveUserSlotKey j \<longleftrightarrow> i = j"
  "liveAPIKeySlotKey i = liveAPIKeySlotKey j \<longleftrightarrow> i = j"
  "openAIWSIngressLeaseKey i = openAIWSIngressLeaseKey j \<longleftrightarrow> i = j"
  "waitQueueKey i = waitQueueKey j \<longleftrightarrow> i = j"
  "providerWaitKey i = providerWaitKey j \<longleftrightarrow> i = j"
  by (simp_all add: key_builders dec_inj)

lemma key_neq [simp]:
  "providerSlotKey i \<noteq> userSlotKey j" "providerSlotKey i \<noteq> liveProviderSlotKey j"
  "providerSlotKey i \<noteq> liveUserSlotKey j" "providerSlotKey i \<noteq> liveAPIKeySlotKey j"
  "userSlotKey i \<noteq> providerSlotKey j" "userSlotKey i \<noteq> liveProviderSlotKey j"
  "userSlotKey i \<noteq> liveUserSlotKey j" "userSlotKey i \<noteq> liveAPIKeySlotKey j"
  "liveProviderSlotKey i \<noteq> providerSlotKey j" "liveProviderSlotKey i \<noteq> userSlotKey j"
  "liveProviderSlotKey i \<noteq> liveUserSlotKey j" "liveProviderSlotKey i \<noteq> liveAPIKeySlotKey j"
  "liveUserSlotKey i \<noteq> providerSlotKey j" "liveUserSlotKey i \<noteq> userSlotKey j"
  "liveUserSlotKey i \<noteq> liveProviderSlotKey j" "liveUserSlotKey i \<noteq> liveAPIKeySlotKey j"
  "liveAPIKeySlotKey i \<noteq> providerSlotKey j" "liveAPIKeySlotKey i \<noteq> userSlotKey j"
  "liveAPIKeySlotKey i \<noteq> liveProviderSlotKey j" "liveAPIKeySlotKey i \<noteq> liveUserSlotKey j"
  "apiKeySlotKey i \<noteq> liveAPIKeySlotKey j" "liveAPIKeySlotKey i \<noteq> apiKeySlotKey j"
  by (simp_all add: key_builders key_prefixes)

lemma index_keys_neq [simp]:
  "providerSlotKey i \<noteq> providerActiveIndexKey" "providerActiveIndexKey \<noteq> providerSlotKey i"
  "liveProviderSlotKey i \<noteq> providerActiveIndexKey" "providerActiveIndexKey \<noteq> liveProviderSlotKey i"
  "userSlotKey i \<noteq> userActiveIndexKey" "userActiveIndexKey \<noteq> userSlotKey i"
  "liveUserSlotKey i \<noteq> userActiveIndexKey" "userActiveIndexKey \<noteq> liveUserSlotKey i"
  using dec_not_active_index [of i]
  by (simp_all add: key_builders key_prefixes providerActiveIndexKey_def userActiveIndexKey_def del: dec_not_active_index)

text \<open>The key of a kind (the constructor's number in the code's order) and an identity.\<close>

definition key_kinds :: "(int \<Rightarrow> string) list" where
  "key_kinds = [providerSlotKey, userSlotKey, apiKeySlotKey, liveProviderSlotKey, liveUserSlotKey,
     liveAPIKeySlotKey, openAIWSIngressLeaseKey, waitQueueKey, providerWaitKey]"

text \<open>
  The keys of different kinds (slots of providers, users and API keys, the
  three live sets, ingress leases, the two wait counters) or of different
  identities are different strings, for every pair of int64 identities.
\<close>

theorem keys_never_collide:
  assumes "a < length key_kinds" "b < length key_kinds" "(key_kinds ! a) i = (key_kinds ! b) j"
  shows "a = b \<and> i = j"
proof -
  have "a \<in> set [0..<9]" "b \<in> set [0..<9]" using assms(1,2) by (auto simp: key_kinds_def)
  then have "a = b"
    using assms(3) unfolding key_kinds_def key_builders key_prefixes
    by (simp add: upt_rec) (elim disjE; simp)
  moreover from this have "i = j"
    using assms \<open>a \<in> _\<close> unfolding key_kinds_def by (simp add: upt_rec) (elim disjE; simp)
  ultimately show ?thesis by simp
qed

theorem keys_never_collide_witness:
  "(key_kinds ! 3) 12 = (key_kinds ! 3) (10 + 2) \<and> (3 :: nat) = 3 \<and> (12 :: int) = 10 + 2"
  using keys_never_collide [of 3 3 12 "10 + 2"] by (simp add: key_kinds_def)

section \<open>Admission over the views\<close>

text \<open>
  With the views of a server: the members a script counts at its TIME, and
  whether a set pair has room below a maximum.
\<close>

definition live_members :: "'r redis_ops \<Rightarrow> ('r \<Rightarrow> string \<Rightarrow> string \<rightharpoonup> int) \<Rightarrow> string \<Rightarrow> int \<Rightarrow> 'r \<Rightarrow> string set" where
  "live_members R zset key ttl s = dom (drop_upto (r_time R s - ttl) (zset s key))"

definition slot_load :: "('r \<Rightarrow> string \<Rightarrow> string \<rightharpoonup> int) \<Rightarrow> string \<Rightarrow> string \<Rightarrow> 'r \<Rightarrow> int" where
  "slot_load zset key live s = int (card (dom (zset s key))) + int (card (dom (zset s live)))"

definition slot_room ::
  "'r redis_ops \<Rightarrow> ('r \<Rightarrow> string \<Rightarrow> string \<rightharpoonup> int) \<Rightarrow> string \<Rightarrow> string \<Rightarrow> int \<Rightarrow> int \<Rightarrow> 'r \<Rightarrow> bool" where
  "slot_room R zset key live m ttl s =
     (int (card (live_members R zset key ttl s)) + int (card (live_members R zset live 60 s)) < m)"

definition admitted ::
  "'r redis_ops \<Rightarrow> ('r \<Rightarrow> string \<Rightarrow> string \<rightharpoonup> int) \<Rightarrow> string \<Rightarrow> string \<Rightarrow> int \<Rightarrow> int \<Rightarrow> string \<Rightarrow> 'r \<Rightarrow> bool" where
  "admitted R zset key live m ttl x s \<longleftrightarrow>
     x \<in> live_members R zset key ttl s \<or> slot_room R zset key live m ttl s"

lemmas admission = admitted_def slot_room_def live_members_def

context redis_laws begin

lemmas script_simps = zremrange zadd zrem expire zcard zscore get times

lemma acquireScript_views:
  assumes "key \<noteq> live" "cnt s key = None" "0 < ttl"
  shows "fst (acquireScript R key live m ttl x s) =
      (if admitted R zset key live m ttl x s then 1 else 0, r_time R s)"
    and "zset (snd (acquireScript R key live m ttl x s)) = (zset s)
      (key := if admitted R zset key live m ttl x s
         then (drop_upto (r_time R s - ttl) (zset s key))(x \<mapsto> r_time R s)
         else drop_upto (r_time R s - ttl) (zset s key),
       live := drop_upto (r_time R s - 60) (zset s live))"
    and "cnt (snd (acquireScript R key live m ttl x s)) = cnt s"
    and "r_time R (snd (acquireScript R key live m ttl x s)) = r_time R s"
  using assms
  by (auto simp: acquireScript_def Let_def script_simps domIff fun_upd_twist admission)

lemma getCountScript_views:
  assumes "key \<noteq> live"
  shows "fst (getCountScript R key live ttl s) =
      int (card (live_members R zset key ttl s)) + int (card (live_members R zset live 60 s))"
    and "zset (snd (getCountScript R key live ttl s)) = (zset s)
      (key := drop_upto (r_time R s - ttl) (zset s key), live := drop_upto (r_time R s - 60) (zset s live))"
    and "cnt (snd (getCountScript R key live ttl s)) = cnt s"
    and "r_time R (snd (getCountScript R key live ttl s)) = r_time R s"
  using assms by (auto simp: getCountScript_def Let_def script_simps admission)

lemma cleanupExpiredSlotsScript_views:
  assumes "0 < ttl" "cnt s key = None"
  shows "zset (snd (cleanupExpiredSlotsScript R key ttl s)) = (zset s)(key := drop_upto (r_time R s - ttl) (zset s key))"
    and "cnt (snd (cleanupExpiredSlotsScript R key ttl s)) = cnt s"
  using assms
  by (auto simp: cleanupExpiredSlotsScript_def Let_def script_simps del finite_zset drop_upto_finite fun_upd_idem)

lemma remove_foreign_views:
  assumes "distinct ms" "set ms \<subseteq> dom (zset s key)"
  shows "zset (snd (remove_foreign R key p ms (n, s))) = (zset s)
      (key := \<lambda>x. if x \<in> set ms \<and> \<not> has_prefix x p then None else zset s key x)"
    and "cnt (snd (remove_foreign R key p ms (n, s))) = cnt s"
    and "fst (remove_foreign R key p ms (n, s)) = n + int (length (filter (\<lambda>x. \<not> has_prefix x p) ms))"
    and "r_time R (snd (remove_foreign R key p ms (n, s))) = r_time R s"
proof -
  have "zset (snd (remove_foreign R key p ms (n, s))) = (zset s)
      (key := \<lambda>x. if x \<in> set ms \<and> \<not> has_prefix x p then None else zset s key x) \<and>
    cnt (snd (remove_foreign R key p ms (n, s))) = cnt s \<and>
    fst (remove_foreign R key p ms (n, s)) = n + int (length (filter (\<lambda>x. \<not> has_prefix x p) ms)) \<and>
    r_time R (snd (remove_foreign R key p ms (n, s))) = r_time R s"
    using assms
  proof (induction ms arbitrary: n s)
    case (Cons m ms)
    let ?s = "snd (r_zrem R key m s)"
    have m: "fst (r_zrem R key m s) = 1" using Cons.prems by (simp add: zrem)
    have "set ms \<subseteq> dom (zset ?s key)" using Cons.prems by (auto simp: zrem)
    then have IH: "zset (snd (remove_foreign R key p ms (n + 1, ?s))) = (zset ?s)
      (key := \<lambda>x. if x \<in> set ms \<and> \<not> has_prefix x p then None else zset ?s key x)"
      "cnt (snd (remove_foreign R key p ms (n + 1, ?s))) = cnt ?s"
      "fst (remove_foreign R key p ms (n + 1, ?s)) = n + 1 + int (length (filter (\<lambda>x. \<not> has_prefix x p) ms))"
      "r_time R (snd (remove_foreign R key p ms (n + 1, ?s))) = r_time R ?s"
      using Cons.IH [of ?s "n + 1"] Cons.prems(1) by auto
    show ?case
    proof (cases "has_prefix m p")
      case True
      then show ?thesis using Cons by (auto simp: fun_eq_iff)
    next
      case False
      have "remove_foreign R key p (m # ms) (n, s) = remove_foreign R key p ms (n + 1, ?s)"
        using False m by (simp add: case_prod_beta)
      then show ?thesis using IH False by (auto simp: script_simps fun_eq_iff)
    qed
  qed auto
  then show "zset (snd (remove_foreign R key p ms (n, s))) = (zset s)
      (key := \<lambda>x. if x \<in> set ms \<and> \<not> has_prefix x p then None else zset s key x)"
    "cnt (snd (remove_foreign R key p ms (n, s))) = cnt s"
    "fst (remove_foreign R key p ms (n, s)) = n + int (length (filter (\<lambda>x. \<not> has_prefix x p) ms))"
    "r_time R (snd (remove_foreign R key p ms (n, s))) = r_time R s" by auto
qed


lemma startupCleanupSlotScript_views:
  assumes "0 < ttl" "cnt s key = None"
    and kept: "kept = (\<lambda>x. if has_prefix x p then zset s key x else None)"
  shows "zset (snd (startupCleanupSlotScript R key p ttl s)) = (zset s)(key := kept)"
    and "cnt (snd (startupCleanupSlotScript R key p ttl s)) = cnt s"
    and "fst (startupCleanupSlotScript R key p ttl s) =
      (int (card {x \<in> dom (zset s key). \<not> has_prefix x p}), int (card (dom kept)))"
    and "r_time R (snd (startupCleanupSlotScript R key p ttl s)) = r_time R s"
proof -
  let ?r = "remove_foreign R key p (r_zrange R key s) (0, s)"
  have sub: "set (r_zrange R key s) \<subseteq> dom (zset s key)" by (simp add: zrange)
  note v = remove_foreign_views [OF zrange(2) sub, where n = 0 and p = p]
  have z: "zset (snd ?r) = (zset s)(key := kept)"
    unfolding v(1) kept by (auto simp: zrange fun_eq_iff)
  have rem: "fst ?r = int (card {x \<in> dom (zset s key). \<not> has_prefix x p})"
    unfolding v(3) by (simp add: distinct_length_filter zrange Int_def conj_commute)
  have card: "r_zcard R key (snd ?r) = int (card (dom kept))" by (simp add: zcard z)
  have fin: "finite (dom kept)" using finite_zset [of "snd ?r" key] by (simp add: z)
  have r: "?r = (fst ?r, snd ?r)" by simp
  have eq: "startupCleanupSlotScript R key p ttl s =
      (if card (dom kept) = 0 then ((fst ?r, 0), r_del R key (snd ?r))
       else ((fst ?r, int (card (dom kept))), r_expire R key ttl (snd ?r)))"
    unfolding startupCleanupSlotScript_def Let_def case_prod_beta card by simp
  have "kept = Map.empty" if "card (dom kept) = 0" using that fin by simp
  then show "zset (snd (startupCleanupSlotScript R key p ttl s)) = (zset s)(key := kept)"
    "cnt (snd (startupCleanupSlotScript R key p ttl s)) = cnt s"
    "fst (startupCleanupSlotScript R key p ttl s) =
      (int (card {x \<in> dom (zset s key). \<not> has_prefix x p}), int (card (dom kept)))"
    "r_time R (snd (startupCleanupSlotScript R key p ttl s)) = r_time R s"
    using assms(1,2) rem by (auto simp: eq del expire z v(2,4) times fun_upd_idem)
qed

lemma add_lease_views:
  assumes "0 < ttl" "\<forall>k \<in> set keys. cnt s k = None"
  shows "zset (add_lease R now ttl x keys s) =
      (\<lambda>k. if k \<in> set keys then (zset s k)(x \<mapsto> now) else zset s k)"
    and "cnt (add_lease R now ttl x keys s) = cnt s"
    and "r_time R (add_lease R now ttl x keys s) = r_time R s"
proof -
  have add: "zset (fold (\<lambda>k. r_zadd R k now x) ks s) = (\<lambda>k. if k \<in> set ks then (zset s k)(x \<mapsto> now) else zset s k)
      \<and> cnt (fold (\<lambda>k. r_zadd R k now x) ks s) = cnt s \<and> r_time R (fold (\<lambda>k. r_zadd R k now x) ks s) = r_time R s"
    if "\<forall>k \<in> set ks. cnt s k = None" for ks s
    using that by (induction ks arbitrary: s) (auto simp: zadd times fun_eq_iff)
  have ex: "zset (fold (\<lambda>k. r_expire R k ttl) ks s) = zset s \<and> cnt (fold (\<lambda>k. r_expire R k ttl) ks s) = cnt s
      \<and> r_time R (fold (\<lambda>k. r_expire R k ttl) ks s) = r_time R s" for ks s
    using assms(1) by (induction ks arbitrary: s) (simp_all add: expire times)
  show "zset (add_lease R now ttl x keys s) =
      (\<lambda>k. if k \<in> set keys then (zset s k)(x \<mapsto> now) else zset s k)"
    "cnt (add_lease R now ttl x keys s) = cnt s" "r_time R (add_lease R now ttl x keys s) = r_time R s"
    using add [OF assms(2)] ex by (simp_all add: add_lease_def)
qed


lemma acquireLiveLeaseScript_views:
  assumes "distinct [pr, pl, ur, ul, al]" "0 < ttl" "cnt s pl = None" "cnt s ul = None" "cnt s al = None"
    and P: "P = drop_upto (r_time R s - ttl) (zset s pl)"
    and U: "U = drop_upto (r_time R s - ttl) (zset s ul)"
    and A: "A = drop_upto (r_time R s - ttl) (zset s al)"
    and ok: "ok \<longleftrightarrow> \<not> (0 < pm \<and> pm + (if rp = 1 then 1 else 0) \<le> int (card (dom (zset s pr))) + int (card (dom P)))
      \<and> \<not> (0 < um \<and> um + (if rp = 1 then 1 else 0) \<le> int (card (dom (zset s ur))) + int (card (dom U)))"
  shows "fst (acquireLiveLeaseScript R pr pl ur ul al pm um ttl x rp s) = (if x \<in> dom P \<or> ok then 1 else 0)"
    and "zset (snd (acquireLiveLeaseScript R pr pl ur ul al pm um ttl x rp s)) =
      (if x \<notin> dom P \<and> ok
       then (zset s)(pl := P(x \<mapsto> r_time R s), ul := U(x \<mapsto> r_time R s), al := A(x \<mapsto> r_time R s))
       else (zset s)(pl := P, ul := U, al := A))"
    and "cnt (snd (acquireLiveLeaseScript R pr pl ur ul al pm um ttl x rp s)) = cnt s"
proof -
  let ?s = "r_zremrangebyscore R al (r_time R s - ttl) (r_zremrangebyscore R ul (r_time R s - ttl)
      (r_zremrangebyscore R pl (r_time R s - ttl) s))"
  have z: "zset ?s = (zset s)(pl := P, ul := U, al := A)" "cnt ?s = cnt s" "r_time R ?s = r_time R s"
    using assms(1) by (auto simp: script_simps P U A fun_eq_iff)
  have eq: "acquireLiveLeaseScript R pr pl ur ul al pm um ttl x rp s =
      (if x \<in> dom P then (1, ?s) else if ok then (1, add_lease R (r_time R s) ttl x [pl, ul, al] ?s) else (0, ?s))"
    unfolding acquireLiveLeaseScript_def Let_def zscore zcard z(1) using assms(1) ok by (auto simp: domIff)
  have cn: "\<forall>k \<in> set [pl, ul, al]. cnt ?s k = None" using assms(3-5) by (simp add: z)
  note add_lease_views [OF assms(2) cn, of "r_time R s" x]
  then show "fst (acquireLiveLeaseScript R pr pl ur ul al pm um ttl x rp s) = (if x \<in> dom P \<or> ok then 1 else 0)"
    "zset (snd (acquireLiveLeaseScript R pr pl ur ul al pm um ttl x rp s)) =
      (if x \<notin> dom P \<and> ok
       then (zset s)(pl := P(x \<mapsto> r_time R s), ul := U(x \<mapsto> r_time R s), al := A(x \<mapsto> r_time R s))
       else (zset s)(pl := P, ul := U, al := A))"
    "cnt (snd (acquireLiveLeaseScript R pr pl ur ul al pm um ttl x rp s)) = cnt s"
    using assms(1) z by (auto simp: eq fun_eq_iff)
qed

lemma check_leases_views:
  assumes "distinct ks"
  shows "fst (check_leases R m x ks s) \<longleftrightarrow> (\<forall>k \<in> set ks. x \<in> dom (drop_upto m (zset s k)))"
    and "fst (check_leases R m x ks s) \<Longrightarrow> k \<in> set ks \<longrightarrow>
      zset (snd (check_leases R m x ks s)) k = drop_upto m (zset s k)"
    and "k \<in> set ks \<longrightarrow> zset (snd (check_leases R m x ks s)) k \<in> {zset s k, drop_upto m (zset s k)}"
    and "k \<notin> set ks \<longrightarrow> zset (snd (check_leases R m x ks s)) k = zset s k"
    and "cnt (snd (check_leases R m x ks s)) = cnt s"
    and "r_time R (snd (check_leases R m x ks s)) = r_time R s"
proof -
  have "(fst (check_leases R m x ks s) \<longleftrightarrow> (\<forall>k \<in> set ks. x \<in> dom (drop_upto m (zset s k)))) \<and>
    (fst (check_leases R m x ks s) \<longrightarrow>
      (\<forall>k \<in> set ks. zset (snd (check_leases R m x ks s)) k = drop_upto m (zset s k))) \<and>
    (\<forall>k \<in> set ks. zset (snd (check_leases R m x ks s)) k \<in> {zset s k, drop_upto m (zset s k)}) \<and>
    (\<forall>k. k \<notin> set ks \<longrightarrow> zset (snd (check_leases R m x ks s)) k = zset s k) \<and>
    cnt (snd (check_leases R m x ks s)) = cnt s \<and> r_time R (snd (check_leases R m x ks s)) = r_time R s"
    using assms
  proof (induction ks arbitrary: s)
    case (Cons k ks)
    let ?s = "r_zremrangebyscore R k m s"
    have z: "zset ?s = (zset s)(k := drop_upto m (zset s k))" "cnt ?s = cnt s" "r_time R ?s = r_time R s"
      by (simp_all add: script_simps)
    have d: "distinct ks" "k \<notin> set ks" using Cons.prems by auto
    have ne: "j \<in> set ks \<Longrightarrow> zset ?s j = zset s j" for j using d(2) z(1) by auto
    show ?case
    proof (cases "x \<in> dom (drop_upto m (zset s k))")
      case False
      then have "check_leases R m x (k # ks) s = (False, ?s)"
        by (auto simp: Let_def zscore z(1))
      then show ?thesis using False z by auto
    next
      case True
      then have "check_leases R m x (k # ks) s = check_leases R m x ks ?s"
        by (auto simp add: Let_def zscore z(1))
      moreover have "zset ?s k = drop_upto m (zset s k)" "\<And>j. j \<noteq> k \<Longrightarrow> zset ?s j = zset s j"
        by (simp_all add: z(1))
      ultimately show ?thesis using Cons.IH [OF d(1), of ?s] True d(2) z(2,3)
        by (simp add: ne cong: ball_cong)
    qed
  qed auto
  then show "fst (check_leases R m x ks s) \<longleftrightarrow> (\<forall>k \<in> set ks. x \<in> dom (drop_upto m (zset s k)))"
    "fst (check_leases R m x ks s) \<Longrightarrow> k \<in> set ks \<longrightarrow>
      zset (snd (check_leases R m x ks s)) k = drop_upto m (zset s k)"
    "k \<in> set ks \<longrightarrow> zset (snd (check_leases R m x ks s)) k \<in> {zset s k, drop_upto m (zset s k)}"
    "k \<notin> set ks \<longrightarrow> zset (snd (check_leases R m x ks s)) k = zset s k"
    "cnt (snd (check_leases R m x ks s)) = cnt s" "r_time R (snd (check_leases R m x ks s)) = r_time R s"
    by blast+
qed

lemma refresh_leases_views:
  assumes "0 < ttl" "\<forall>k \<in> set ks. cnt s k = None"
  shows "zset (refresh_leases R now ttl x ks s) = (\<lambda>k. if k \<in> set ks then (zset s k)(x \<mapsto> now) else zset s k)"
    and "cnt (refresh_leases R now ttl x ks s) = cnt s"
  using assms by (induction ks arbitrary: s) (auto simp: script_simps fun_eq_iff)

lemma refreshLiveLeaseScript_views:
  assumes "distinct ks" "0 < ttl" "\<forall>k \<in> set ks. cnt s k = None"
    and ok: "ok \<longleftrightarrow> (\<forall>k \<in> set ks. x \<in> live_members R zset k ttl s)"
  shows "fst (refreshLiveLeaseScript R ks ttl x s) = (if ok then 1 else 0)"
    and "ok \<Longrightarrow> zset (snd (refreshLiveLeaseScript R ks ttl x s)) = (\<lambda>k. if k \<in> set ks
        then (drop_upto (r_time R s - ttl) (zset s k))(x \<mapsto> r_time R s) else zset s k)"
    and "\<not> ok \<Longrightarrow> zset (snd (refreshLiveLeaseScript R ks ttl x s)) k \<in>
        {zset s k, drop_upto (r_time R s - ttl) (zset s k)}"
    and "cnt (snd (refreshLiveLeaseScript R ks ttl x s)) = cnt s"
proof -
  let ?c = "check_leases R (r_time R s - ttl) x ks s"
  note v = check_leases_views [OF assms(1), where s = s and m = "r_time R s - ttl" and x = x]
  have okc: "fst ?c = ok" using v(1) ok by (simp add: live_members_def)
  have eq: "refreshLiveLeaseScript R ks ttl x s =
      (if ok then (1, refresh_leases R (r_time R s) ttl x ks (snd ?c)) else (0, snd ?c))"
    unfolding refreshLiveLeaseScript_def Let_def okc [symmetric] by (simp split: prod.split bool.split)
  show "fst (refreshLiveLeaseScript R ks ttl x s) = (if ok then 1 else 0)" by (simp add: eq)
  have "\<forall>k \<in> set ks. cnt (snd ?c) k = None" using assms(3) v(5) by simp
  note r = refresh_leases_views [OF assms(2) this]
  show "cnt (snd (refreshLiveLeaseScript R ks ttl x s)) = cnt s" using r(2) v(5) by (simp add: eq)
  show "zset (snd (refreshLiveLeaseScript R ks ttl x s)) = (\<lambda>k. if k \<in> set ks
        then (drop_upto (r_time R s - ttl) (zset s k))(x \<mapsto> r_time R s) else zset s k)" if "ok"
  proof (rule ext)
    fix k
    show "zset (snd (refreshLiveLeaseScript R ks ttl x s)) k = (if k \<in> set ks
        then (drop_upto (r_time R s - ttl) (zset s k))(x \<mapsto> r_time R s) else zset s k)"
      using that v(2,4) [of k] okc by (simp add: eq r(1))
  qed
  show "zset (snd (refreshLiveLeaseScript R ks ttl x s)) k \<in>
        {zset s k, drop_upto (r_time R s - ttl) (zset s k)}" if "\<not> ok"
    using that v(3,4) [of k] by (auto simp: eq)
qed

end

section \<open>Every interleaving keeps the maxima\<close>

text \<open>
  One atomic step of the shared server: a script of any process, for any
  provider, user and key, or the passing of time (\<open>env\<close>).  \<open>pm\<close> and \<open>um\<close> are the
  configured maxima; \<open>repl\<close> says whether live leases may replace regular slots.
\<close>

inductive slot_step ::
  "'r redis_ops \<Rightarrow> ('r \<Rightarrow> 'r \<Rightarrow> bool) \<Rightarrow> cache \<Rightarrow> (int \<Rightarrow> int) \<Rightarrow> (int \<Rightarrow> int) \<Rightarrow> bool \<Rightarrow> 'r \<Rightarrow> 'r \<Rightarrow> bool"
  for R env c pm um repl where
  st_provider: "slot_step R env c pm um repl s (snd (acquireScript R (providerSlotKey i)
      (liveProviderSlotKey i) (pm i) (slotTTLSeconds c) x s))"
| st_user: "slot_step R env c pm um repl s (snd (acquireScript R (userSlotKey u)
      (liveUserSlotKey u) (um u) (slotTTLSeconds c) x s))"
| st_provider_release: "slot_step R env c pm um repl s (snd (r_zrem R (providerSlotKey i) x s))"
| st_user_release: "slot_step R env c pm um repl s (snd (r_zrem R (userSlotKey u) x s))"
| st_live: "(rp = 1 \<longrightarrow> repl) \<Longrightarrow> slot_step R env c pm um repl s (snd (acquireLiveLeaseScript R
      (providerSlotKey i) (liveProviderSlotKey i) (userSlotKey u) (liveUserSlotKey u) (liveAPIKeySlotKey k)
      (pm i) (um u) liveLeaseTTLSeconds x rp s))"
| st_live_refresh: "slot_step R env c pm um repl s (snd (refreshLiveLeaseScript R
      [liveProviderSlotKey i, liveUserSlotKey u, liveAPIKeySlotKey k] liveLeaseTTLSeconds x s))"
| st_live_release: "slot_step R env c pm um repl s (snd (r_zrem R (liveAPIKeySlotKey k) x
      (snd (r_zrem R (liveUserSlotKey u) x (snd (r_zrem R (liveProviderSlotKey i) x s))))))"
| st_provider_count: "slot_step R env c pm um repl s (snd (getCountScript R (providerSlotKey i)
      (liveProviderSlotKey i) (slotTTLSeconds c) s))"
| st_provider_cleanup: "slot_step R env c pm um repl s (snd (cleanupExpiredSlotsScript R
      (providerSlotKey i) (slotTTLSeconds c) s))"
| st_provider_startup: "slot_step R env c pm um repl s (snd (startupCleanupSlotScript R
      (providerSlotKey i) prefix (slotTTLSeconds c) s))"
| st_user_startup: "slot_step R env c pm um repl s (snd (startupCleanupSlotScript R
      (userSlotKey u) prefix (slotTTLSeconds c) s))"
| st_env: "env s s' \<Longrightarrow> slot_step R env c pm um repl s s'"

definition slot_keys :: "string set" where
  "slot_keys = range providerSlotKey \<union> range userSlotKey \<union> range liveProviderSlotKey
     \<union> range liveUserSlotKey \<union> range liveAPIKeySlotKey"

lemma slot_keysI [simp]:
  "providerSlotKey i \<in> slot_keys" "userSlotKey i \<in> slot_keys" "liveProviderSlotKey i \<in> slot_keys"
  "liveUserSlotKey i \<in> slot_keys" "liveAPIKeySlotKey i \<in> slot_keys"
  by (auto simp: slot_keys_def)

definition slot_pairs :: "(int \<Rightarrow> int) \<Rightarrow> (int \<Rightarrow> int) \<Rightarrow> (string \<times> string \<times> int) set" where
  "slot_pairs pm um = {(providerSlotKey i, liveProviderSlotKey i, pm i) | i. True}
     \<union> {(userSlotKey u, liveUserSlotKey u, um u) | u. True}"

text \<open>No slot key holds a counter, and every pair of sets is within its maximum.\<close>

definition slots_within ::
  "('r \<Rightarrow> string \<Rightarrow> string \<rightharpoonup> int) \<Rightarrow> ('r \<Rightarrow> string \<Rightarrow> int option) \<Rightarrow> (int \<Rightarrow> int) \<Rightarrow> (int \<Rightarrow> int) \<Rightarrow> int \<Rightarrow> 'r \<Rightarrow> bool" where
  "slots_within zset cnt pm um e s \<longleftrightarrow> (\<forall>k \<in> slot_keys. cnt s k = None) \<and>
     (\<forall>(k, l, m) \<in> slot_pairs pm um. 0 < m \<longrightarrow> slot_load zset k l s \<le> m + e)"

lemma slots_withinD:
  "slots_within zset cnt pm um e s \<Longrightarrow> 0 < pm i \<Longrightarrow>
    slot_load zset (providerSlotKey i) (liveProviderSlotKey i) s \<le> pm i + e"
  "slots_within zset cnt pm um e s \<Longrightarrow> 0 < um u \<Longrightarrow>
    slot_load zset (userSlotKey u) (liveUserSlotKey u) s \<le> um u + e"
  unfolding slots_within_def slot_pairs_def by blast+

text \<open>Time passing only drops members and counters.\<close>

definition env_shrinks ::
  "('r \<Rightarrow> string \<Rightarrow> string \<rightharpoonup> int) \<Rightarrow> ('r \<Rightarrow> string \<Rightarrow> int option) \<Rightarrow> ('r \<Rightarrow> 'r \<Rightarrow> bool) \<Rightarrow> bool" where
  "env_shrinks zset cnt env \<longleftrightarrow> (\<forall>s s' k. env s s' \<longrightarrow>
     zset s' k \<subseteq>\<^sub>m zset s k \<and> (cnt s k = None \<longrightarrow> cnt s' k = None))"

context redis_laws begin

text \<open>A step may only drop members, or add one where the pair has room.\<close>

lemma slots_within_shrink:
  assumes "slots_within zset cnt pm um e s" "\<And>k. k \<in> slot_keys \<Longrightarrow> cnt s' k = None"
    and "\<And>k l m. (k, l, m) \<in> slot_pairs pm um \<Longrightarrow> 0 < m \<Longrightarrow>
      slot_load zset k l s' \<le> max (slot_load zset k l s) (m + e)"
  shows "slots_within zset cnt pm um e s'"
  using assms unfolding slots_within_def by fastforce

lemma card_prune: "card (dom (drop_upto m (zset s k))) \<le> card (dom (zset s k))"
  by (rule card_mono) (auto simp: finite_zset dom_drop_upto)

lemma card_release: "card (dom ((zset s k)(x := None))) \<le> card (dom (zset s k))"
  by (rule card_mono) (auto simp: finite_zset)

lemma card_add: "card (dom ((drop_upto m (zset s k))(x \<mapsto> v))) \<le>
    (if x \<in> dom (drop_upto m (zset s k)) then card (dom (zset s k)) else Suc (card (dom (drop_upto m (zset s k)))))"
proof -
  have "finite (dom (drop_upto m (zset s k)))" by (simp add: drop_upto_finite finite_zset)
  moreover have "insert x (dom (drop_upto m (zset s k))) = dom (drop_upto m (zset s k))"
    if "x \<in> dom (drop_upto m (zset s k))" using that by blast
  ultimately show ?thesis using card_prune [of m s k] by (auto simp: card_insert_if)
qed


lemma slots_within_cnt: "slots_within zset cnt pm um e s \<Longrightarrow> k \<in> slot_keys \<Longrightarrow> cnt s k = None"
  by (simp add: slots_within_def)

lemma slots_within_sub:
  assumes "slots_within zset cnt pm um e s" "cnt s' = cnt s"
    and "\<And>k. card (dom (zset s' k)) \<le> card (dom (zset s k))"
  shows "slots_within zset cnt pm um e s'"
  using assms(1) slots_within_cnt [OF assms(1)] assms(3)
  by (rule_tac slots_within_shrink)
    (auto simp: assms(2) slot_load_def intro!: max.coboundedI1 add_mono)

lemma admitted_load:
  assumes "0 \<le> e" "admitted R zset k l m ttl x s"
    and "zset s' k = (drop_upto (r_time R s - ttl) (zset s k))(x \<mapsto> v)"
    and "zset s' l = drop_upto (r_time R s - 60) (zset s l)"
  shows "slot_load zset k l s' \<le> max (slot_load zset k l s) (m + e)"
proof -
  note a = card_add [of "r_time R s - ttl" s k x v] card_prune [of "r_time R s - ttl" s k]
    card_prune [of "r_time R s - 60" s l]
  consider "x \<in> dom (drop_upto (r_time R s - ttl) (zset s k))"
    | "x \<notin> dom (drop_upto (r_time R s - ttl) (zset s k))"
      "int (card (dom (drop_upto (r_time R s - ttl) (zset s k)))) + int (card (dom (drop_upto (r_time R s - 60) (zset s l)))) < m"
    using assms(2) by (auto simp: admission)
  then show ?thesis
  proof cases
    case 1
    then have "card (dom (zset s' k)) \<le> card (dom (zset s k))" using a(1) by (simp only: assms(3) if_True)
    moreover have "card (dom (zset s' l)) \<le> card (dom (zset s l))" using a(3) by (simp only: assms(4))
    ultimately show ?thesis unfolding slot_load_def by linarith
  next
    case 2
    then have "card (dom (zset s' k)) \<le> Suc (card (dom (drop_upto (r_time R s - ttl) (zset s k))))"
      using a(1) by (simp only: assms(3) if_False)
    moreover have "card (dom (zset s' l)) = card (dom (drop_upto (r_time R s - 60) (zset s l)))"
      by (simp only: assms(4))
    ultimately show ?thesis using 2(2) assms(1) unfolding slot_load_def by linarith
  qed
qed

lemma step_acquire:
  assumes J: "slots_within zset cnt pm um e s" and e: "0 \<le> e" and ttl: "0 < ttl"
    and kl: "(k, l, m) \<in> slot_pairs pm um"
  shows "slots_within zset cnt pm um e (snd (acquireScript R k l m ttl x s))"
proof -
  let ?s = "snd (acquireScript R k l m ttl x s)"
  have kl': "k \<noteq> l" "k \<in> slot_keys" using kl by (auto simp: slot_pairs_def)
  have c: "cnt s k = None" using slots_within_cnt [OF J kl'(2)] .
  note v = acquireScript_views [OF kl'(1) c ttl, where m = m and x = x]
  have dis: "zset ?s k' = zset s k' \<and> zset ?s l' = zset s l'"
    if "(k', l', m') \<in> slot_pairs pm um" "(k', l') \<noteq> (k, l)" for k' l' m'
  proof -
    have "k' \<noteq> k" "k' \<noteq> l" "l' \<noteq> k" "l' \<noteq> l" using kl that by (auto simp: slot_pairs_def)
    then show ?thesis by (simp add: v(2))
  qed
  show ?thesis
  proof (rule slots_within_shrink [OF J])
    show "k' \<in> slot_keys \<Longrightarrow> cnt ?s k' = None" for k' using slots_within_cnt [OF J] by (simp add: v(3))
    fix k' l' m' assume p: "(k', l', m') \<in> slot_pairs pm um" "0 < m'"
    show "slot_load zset k' l' ?s \<le> max (slot_load zset k' l' s) (m' + e)"
    proof (cases "(k', l') = (k, l)")
      case False
      then show ?thesis using dis [OF p(1)] by (simp add: slot_load_def)
    next
      case True
      have mm: "m' = m" using True p(1) kl by (auto simp: slot_pairs_def)
      show ?thesis
      proof (cases "admitted R zset k l m ttl x s")
        case True
        then show ?thesis using \<open>(k', l') = (k, l)\<close> mm kl'(1)
          by (simp only: prod.inject) (rule admitted_load [OF e True], simp_all add: v(2))
      next
        case False
        then have "zset ?s k = drop_upto (r_time R s - ttl) (zset s k)"
          "zset ?s l = drop_upto (r_time R s - 60) (zset s l)" using kl'(1) by (simp_all add: v(2))
        then have "slot_load zset k l ?s \<le> slot_load zset k l s"
          using card_prune [of "r_time R s - ttl" s k] card_prune [of "r_time R s - 60" s l]
          by (simp add: slot_load_def)
        then show ?thesis using \<open>(k', l') = (k, l)\<close> by simp
      qed
    qed
  qed
qed


lemma step_live:
  assumes J: "slots_within zset cnt pm um e s" and e: "0 \<le> e" "rp = 1 \<longrightarrow> 1 \<le> e" and ttl: "0 < ttl"
  shows "slots_within zset cnt pm um e (snd (acquireLiveLeaseScript R (providerSlotKey i) (liveProviderSlotKey i)
      (userSlotKey u) (liveUserSlotKey u) (liveAPIKeySlotKey k) (pm i) (um u) ttl x rp s))"
    (is "slots_within zset cnt pm um e ?s")
proof -
  let ?al = "if rp = 1 then 1 else 0 :: int"
  define P where "P = drop_upto (r_time R s - ttl) (zset s (liveProviderSlotKey i))"
  define U where "U = drop_upto (r_time R s - ttl) (zset s (liveUserSlotKey u))"
  define A where "A = drop_upto (r_time R s - ttl) (zset s (liveAPIKeySlotKey k))"
  define ok where "ok \<longleftrightarrow> \<not> (0 < pm i \<and> pm i + ?al \<le> int (card (dom (zset s (providerSlotKey i)))) + int (card (dom P)))
      \<and> \<not> (0 < um u \<and> um u + ?al \<le> int (card (dom (zset s (userSlotKey u)))) + int (card (dom U)))"
  have d: "distinct [providerSlotKey i, liveProviderSlotKey i, userSlotKey u, liveUserSlotKey u, liveAPIKeySlotKey k]"
    by simp
  note c = slots_within_cnt [OF J, of "liveProviderSlotKey i"] slots_within_cnt [OF J, of "liveUserSlotKey u"]
    slots_within_cnt [OF J, of "liveAPIKeySlotKey k"]
  note v = acquireLiveLeaseScript_views [OF d ttl c [simplified] P_def U_def A_def ok_def, of x]
  have le: "card (dom P) \<le> card (dom (zset s (liveProviderSlotKey i)))"
    "card (dom U) \<le> card (dom (zset s (liveUserSlotKey u)))"
    by (auto simp: P_def U_def card_prune)
  have ins: "int (card (dom (Z(x \<mapsto> n)))) \<le> int (card (dom Z)) + 1" if "finite (dom Z)"
    for Z :: "string \<rightharpoonup> int" and n using that by (simp add: card_insert_if)
  have fin: "finite (dom P)" "finite (dom U)" by (auto simp: P_def U_def drop_upto_finite finite_zset)
  have pl: "zset ?s (liveProviderSlotKey i) = (if x \<notin> dom P \<and> ok then P(x \<mapsto> r_time R s) else P)"
    "zset ?s (liveUserSlotKey u) = (if x \<notin> dom P \<and> ok then U(x \<mapsto> r_time R s) else U)"
    "\<And>j. zset ?s (providerSlotKey j) = zset s (providerSlotKey j)" "\<And>j. zset ?s (userSlotKey j) = zset s (userSlotKey j)"
    "\<And>j. j \<noteq> i \<Longrightarrow> zset ?s (liveProviderSlotKey j) = zset s (liveProviderSlotKey j)"
    "\<And>j. j \<noteq> u \<Longrightarrow> zset ?s (liveUserSlotKey j) = zset s (liveUserSlotKey j)"
    by (simp_all add: v(2))
  have prov: "slot_load zset (providerSlotKey j) (liveProviderSlotKey j) ?s \<le>
      max (slot_load zset (providerSlotKey j) (liveProviderSlotKey j) s) (pm j + e)" if "0 < pm j" for j
  proof (cases "j = i \<and> x \<notin> dom P \<and> ok")
    case True
    then have "int (card (dom (zset s (providerSlotKey i)))) + int (card (dom P)) < pm i + ?al"
      using that by (auto simp: ok_def)
    moreover have "zset ?s (liveProviderSlotKey j) = P(x \<mapsto> r_time R s)" using True pl(1) by simp
    moreover have "?al \<le> e" using e by auto
    ultimately show ?thesis using True ins [OF fin(1), of "r_time R s"] pl(3)
      unfolding slot_load_def by (elim conjE) (simp del: dom_fun_upd)
  next
    case False
    then show ?thesis using pl(1) pl(3,5) [of j] le(1) by (cases "j = i") (auto simp: slot_load_def)
  qed
  have user: "slot_load zset (userSlotKey j) (liveUserSlotKey j) ?s \<le>
      max (slot_load zset (userSlotKey j) (liveUserSlotKey j) s) (um j + e)" if "0 < um j" for j
  proof (cases "j = u \<and> x \<notin> dom P \<and> ok")
    case True
    then have "int (card (dom (zset s (userSlotKey u)))) + int (card (dom U)) < um u + ?al"
      using that by (auto simp: ok_def)
    moreover have "zset ?s (liveUserSlotKey j) = U(x \<mapsto> r_time R s)" using True pl(2) by simp
    moreover have "?al \<le> e" using e by auto
    ultimately show ?thesis using True ins [OF fin(2), of "r_time R s"] pl(4)
      unfolding slot_load_def by (elim conjE) (simp del: dom_fun_upd)
  next
    case False
    then show ?thesis using pl(2) pl(4,6) [of j] le(2) by (cases "j = u") (auto simp: slot_load_def)
  qed
  show ?thesis
    by (rule slots_within_shrink [OF J]) (use prov user slots_within_cnt [OF J] v(3) in \<open>auto simp: slot_pairs_def\<close>)
qed

lemma refresh_card:
  assumes "distinct ks" "0 < ttl" "\<forall>k \<in> set ks. cnt s k = None"
  shows "card (dom (zset (snd (refreshLiveLeaseScript R ks ttl x s)) k)) \<le> card (dom (zset s k))"
proof -
  note v = refreshLiveLeaseScript_views [OF assms refl, of x]
  show ?thesis
  proof (cases "(\<forall>k \<in> set ks. x \<in> live_members R zset k ttl s) \<and> k \<in> set ks")
    case True
    then have "x \<in> dom (drop_upto (r_time R s - ttl) (zset s k))" by (auto simp: live_members_def)
    then show ?thesis using card_add [of "r_time R s - ttl" s k x "r_time R s"] True v(2) by auto
  next
    case False
    then show ?thesis using v(2) v(3) [of k] card_prune [of "r_time R s - ttl" s k]
      by (cases "\<forall>k \<in> set ks. x \<in> live_members R zset k ttl s") auto
  qed
qed

lemma step_within:
  assumes "slot_step R env c pm um repl s s'" and env: "env_shrinks zset cnt env" and c: "0 < slotTTLSeconds c"
    and e: "0 \<le> e" "repl \<longrightarrow> 1 \<le> e" and J: "slots_within zset cnt pm um e s"
  shows "slots_within zset cnt pm um e s'"
proof -
  note cn = slots_within_cnt [OF J]
  have pu: "(providerSlotKey i, liveProviderSlotKey i, pm i) \<in> slot_pairs pm um"
    "(userSlotKey i, liveUserSlotKey i, um i) \<in> slot_pairs pm um" for i by (auto simp: slot_pairs_def)
  have prefix: "card (dom (\<lambda>x. if has_prefix x p then zset s k x else None)) \<le> card (dom (zset s k))" for p k
    by (rule card_mono) (auto simp: finite_zset split: if_splits)
  have ttl: "0 < liveLeaseTTLSeconds" by (simp add: liveLeaseTTLSeconds_def)
  from assms(1) show ?thesis
  proof cases
    case (st_provider i x) then show ?thesis using step_acquire [OF J e(1) c pu(1)] by simp
  next
    case (st_user u x) then show ?thesis using step_acquire [OF J e(1) c pu(2)] by simp
  next
    case (st_provider_release i x)
    then show ?thesis using card_release by (auto simp: zrem fun_upd_def intro!: slots_within_sub [OF J])
  next
    case (st_user_release u x)
    then show ?thesis using card_release by (auto simp: zrem fun_upd_def intro!: slots_within_sub [OF J])
  next
    case (st_live rp i u k x)
    have "rp = 1 \<longrightarrow> 1 \<le> e" using st_live(2) e(2) by simp
    from step_live [OF J e(1) this ttl] show ?thesis unfolding st_live(1) .
  next
    case (st_live_refresh i u k x)
    show ?thesis unfolding st_live_refresh
      by (rule slots_within_sub [OF J])
        (use cn ttl in \<open>auto simp: refreshLiveLeaseScript_views intro!: refresh_card\<close>)
  next
    case (st_live_release k x u i)
    have r: "card (dom (zset (snd (r_zrem R k' x s)) k)) \<le> card (dom (zset s k))" for s k k'
      using card_release by (simp add: zrem)
    show ?thesis unfolding st_live_release
      by (rule slots_within_sub [OF J]) (simp add: zrem, meson r order_trans)
  next
    case (st_provider_count i)
    then show ?thesis by (auto simp: getCountScript_views card_prune intro!: slots_within_sub [OF J])
  next
    case (st_provider_cleanup i)
    then show ?thesis using c cn by (auto simp: cleanupExpiredSlotsScript_views card_prune intro!: slots_within_sub [OF J])
  next
    case (st_provider_startup i p)
    then show ?thesis using c cn prefix
      by (auto simp: startupCleanupSlotScript_views intro!: slots_within_sub [OF J])
  next
    case (st_user_startup u p)
    then show ?thesis using c cn prefix
      by (auto simp: startupCleanupSlotScript_views intro!: slots_within_sub [OF J])
  next
    case st_env
    then have sub: "zset s' k \<subseteq>\<^sub>m zset s k" "cnt s k = None \<Longrightarrow> cnt s' k = None" for k
      using env by (auto simp: env_shrinks_def)
    have le: "card (dom (zset s' k)) \<le> card (dom (zset s k))" for k
      using map_le_implies_dom_le [OF sub(1) [of k]] by (rule card_mono [OF finite_zset])
    show ?thesis
      by (rule slots_within_shrink [OF J]) (use sub(2) cn le in \<open>auto simp: slot_load_def intro!: max.coboundedI1 add_mono\<close>)
  qed
qed

end

text \<open>The states of a run: any number of steps, of any processes, in any order.\<close>

inductive slot_run ::
  "'r redis_ops \<Rightarrow> ('r \<Rightarrow> 'r \<Rightarrow> bool) \<Rightarrow> cache \<Rightarrow> (int \<Rightarrow> int) \<Rightarrow> (int \<Rightarrow> int) \<Rightarrow> bool \<Rightarrow> 'r \<Rightarrow> 'r \<Rightarrow> bool"
  for R env c pm um repl where
  run_start: "slot_run R env c pm um repl s s"
| run_step: "slot_run R env c pm um repl s s' \<Longrightarrow> slot_step R env c pm um repl s' s'' \<Longrightarrow>
    slot_run R env c pm um repl s s''"

context redis_laws begin

lemma run_within:
  assumes "slot_run R env c pm um repl s s'" "env_shrinks zset cnt env" "0 < slotTTLSeconds c"
    "0 \<le> e" "repl \<longrightarrow> 1 \<le> e" "slots_within zset cnt pm um e s"
  shows "slots_within zset cnt pm um e s'"
  using assms by (induction rule: slot_run.induct) (auto intro: step_within)

end

section \<open>Properties\<close>

text \<open>A free key and a clock past the epoch: what a granted slot is written to.\<close>

definition server_ok :: "'r redis_ops \<Rightarrow> ('r \<Rightarrow> string \<Rightarrow> int option) \<Rightarrow> 'r \<Rightarrow> bool" where
  "server_ok R cnt s \<longleftrightarrow> 0 < r_time R s \<and> (\<forall>k \<in> slot_keys. cnt s k = None) \<and>
     cnt s providerActiveIndexKey = None \<and> cnt s userActiveIndexKey = None"

context redis_laws begin

lemma acquire_slot_quiet:
  assumes "key \<noteq> live" "index \<noteq> key" "index \<noteq> live" "key \<in> slot_keys" "server_ok R cnt s"
    "cnt s index = None" "0 < slotTTLSeconds c" "has_rdb c" "0 < i"
    and ok: "ok = admitted R zset key live m (slotTTLSeconds c) x s"
  shows "\<exists>s'. acquire_slot R c index key live i m x (quiet_conn s) = (Ok ok, quiet_conn s') \<and>
    zset s' = (let z = (zset s)(key := drop_upto (r_time R s - slotTTLSeconds c) (zset s key),
                 live := drop_upto (r_time R s - 60) (zset s live)) in
      if ok then z(key := (z key)(x \<mapsto> r_time R s), index := (z index)(dec i \<mapsto> r_time R s + slotTTLSeconds c))
      else z) \<and> cnt s' = cnt s"
proof -
  have c: "cnt s key = None" using assms(4,5) by (simp add: server_ok_def)
  note v = acquireScript_views [OF assms(1) c assms(7), where m = m and x = x, folded ok]
  obtain r s1 where r: "acquireScript R key live m (slotTTLSeconds c) x s = (r, s1)" by (cases "acquireScript R key live m (slotTTLSeconds c) x s")
  have t: "0 < r_time R s + slotTTLSeconds c" using assms(5,7) by (simp add: server_ok_def)
  have q: "acquire_slot R c index key live i m x (quiet_conn s) =
      (Ok ok, quiet_conn (if ok then r_zadd R index (r_time R s + slotTTLSeconds c) (dec i) s1 else s1))"
    using v(1) r t assms(8,9)
    by (simp add: acquire_slot_def touchActiveIndexAt_def writes_def)
  have z: "zset s1 = (zset s)(key := if ok then (drop_upto (r_time R s - slotTTLSeconds c) (zset s key))(x \<mapsto> r_time R s)
         else drop_upto (r_time R s - slotTTLSeconds c) (zset s key), live := drop_upto (r_time R s - 60) (zset s live))"
    "cnt s1 = cnt s" using v(2,3) r by simp_all
  show ?thesis
    unfolding q by (rule exI [of _ "if ok then r_zadd R index (r_time R s + slotTTLSeconds c) (dec i) s1 else s1"])
      (use z assms(1-3,6) in \<open>auto simp: zadd Let_def fun_eq_iff\<close>)
qed

end

text \<open>
  Without other clients' interference, AcquireProviderSlot answers that the
  slot is granted exactly when the request already holds one or when the regular
  members younger than the slot lifetime and the live leases younger than a
  minute are together fewer than the maximum.  It prunes the two sets, a granted
  request's member and its provider's index entry get the server's time, and
  nothing else of the server changes.
\<close>

theorem AcquireProviderSlot_functional:
  assumes "redis_laws R zset cnt" "server_ok R cnt s" "0 < slotTTLSeconds c" "has_rdb c" "0 < i"
  shows "\<exists>s'. AcquireProviderSlot R c i m x (quiet_conn s) =
      (Ok (admitted R zset (providerSlotKey i) (liveProviderSlotKey i) m (slotTTLSeconds c) x s), quiet_conn s') \<and>
    zset s' =
      (let now = r_time R s; key = providerSlotKey i; live = liveProviderSlotKey i;
           z = (zset s)(key := drop_upto (now - slotTTLSeconds c) (zset s key), live := drop_upto (now - 60) (zset s live))
       in if admitted R zset key live m (slotTTLSeconds c) x s
          then z(key := (z key)(x \<mapsto> now),
                 providerActiveIndexKey := (z providerActiveIndexKey)(dec i \<mapsto> now + slotTTLSeconds c))
          else z) \<and> cnt s' = cnt s"
  using redis_laws.acquire_slot_quiet [OF assms(1) _ _ _ _ assms(2) _ assms(3-5) refl,
      of "providerSlotKey i" "liveProviderSlotKey i" providerActiveIndexKey m x] assms(2)
  by (simp add: AcquireProviderSlot_def Let_def server_ok_def)


text \<open>The witness server: one provider with two slots, one of them taken at second 10.\<close>

definition server0 :: mem where
  "server0 = \<lparr>mnow = 100, mdata = Map.empty(providerSlotKey 7 \<mapsto> (ZSet [(''a'', 90)], None))\<rparr>"

lemma server0_views [simp]:
  "mem_zset server0 k = (if k = providerSlotKey 7 then [''a'' \<mapsto> 90] else Map.empty)"
  "mem_cnt server0 k = None" "r_time mem_ops server0 = 100"
  by (auto simp: server0_def mem_zset_def mem_cnt_def mem_entries_def alive_def expired_def mem_ops_def)

lemma server0_ok: "server_ok mem_ops mem_cnt server0"
  by (simp add: server_ok_def)

definition cache0 :: cache where "cache0 = NewConcurrencyCache True 0 0"

lemma cache0_simps [simp]: "slotTTLSeconds cache0 = 900" "waitQueueTTLSeconds cache0 = 900" "has_rdb cache0"
  by (simp_all add: cache0_def NewConcurrencyCache_def defaultSlotTTLMinutes_def)

theorem AcquireProviderSlot_functional_witness:
  "\<exists>s'. AcquireProviderSlot mem_ops cache0 7 2 ''b'' (quiet_conn server0) = (Ok True, quiet_conn s') \<and>
    mem_zset s' (providerSlotKey 7) = [''a'' \<mapsto> 90, ''b'' \<mapsto> 100]"
proof -
  have d: "drop_upto (- 800) [''a'' \<mapsto> 90] = [''a'' \<mapsto> 90]" "drop_upto 40 (\<lambda>x. None) = Map.empty"
    by (auto simp: drop_upto_def)
  have "admitted mem_ops mem_zset (providerSlotKey 7) (liveProviderSlotKey 7) 2 900 ''b'' server0"
    by (simp add: admission d)
  then show ?thesis
    using AcquireProviderSlot_functional [OF mem.redis_laws_axioms server0_ok, of cache0 7 2 "''b''"]
    by (auto simp: Let_def d)
qed

text \<open>Time passes on the in-memory server.\<close>

definition mem_elapse :: "mem \<Rightarrow> mem \<Rightarrow> bool" where
  "mem_elapse s s' \<longleftrightarrow> mnow s \<le> mnow s' \<and> mdata s' = mdata s"

lemma mem_elapse_shrinks: "env_shrinks mem_zset mem_cnt mem_elapse"
proof -
  have a: "alive s' k = alive s k \<or> alive s' k = None" if "mem_elapse s s'" for s s' k
    using that by (auto simp: mem_elapse_def alive_def expired_def split: option.splits)
  show ?thesis
    unfolding env_shrinks_def
  proof (intro allI impI)
    fix s s' k assume "mem_elapse s s'"
    from a [OF this, of k] show "mem_zset s' k \<subseteq>\<^sub>m mem_zset s k \<and> (mem_cnt s k = None \<longrightarrow> mem_cnt s' k = None)"
      by (auto simp: mem_zset_def mem_entries_def mem_cnt_def)
  qed
qed

text \<open>
  C30: However the scripts of any number of processes interleave (acquisitions,
  refreshes, releases, live leases, counts, clean-ups, startup clean-ups, time),
  the sorted sets of every provider and of every user together never hold more
  members than the configured maximum, and at most one more when live leases may
  replace regular slots.
\<close>

theorem slots_never_exceed:
  assumes "redis_laws R zset cnt" "env_shrinks zset cnt env" "0 < slotTTLSeconds c"
    and "slots_within zset cnt pm um 0 s" "slot_run R env c pm um repl s s'"
  shows "(0 < pm i \<longrightarrow> slot_load zset (providerSlotKey i) (liveProviderSlotKey i) s' \<le> pm i + (if repl then 1 else 0)) \<and>
    (0 < um u \<longrightarrow> slot_load zset (userSlotKey u) (liveUserSlotKey u) s' \<le> um u + (if repl then 1 else 0))"
proof -
  let ?e = "if repl then 1 else 0 :: int"
  have "slots_within zset cnt pm um ?e s"
    using assms(4) by (auto simp: slots_within_def)
  then have "slots_within zset cnt pm um ?e s'"
    using redis_laws.run_within [OF assms(1,5,2,3), of ?e] by simp
  then show ?thesis by (blast dest: slots_withinD)
qed

theorem slots_never_exceed_witness:
  "\<exists>s'. slot_run mem_ops mem_elapse cache0 (\<lambda>_. 2) (\<lambda>_. 3) True server0 s' \<and>
    mem_zset s' (providerSlotKey 7) = [''a'' \<mapsto> 90, ''b'' \<mapsto> 100] \<and>
    slot_load mem_zset (providerSlotKey 7) (liveProviderSlotKey 7) s' \<le> 2 + 1"
proof -
  let ?s = "snd (acquireScript mem_ops (providerSlotKey 7) (liveProviderSlotKey 7) 2 900 ''b'' server0)"
  have run: "slot_run mem_ops mem_elapse cache0 (\<lambda>_. 2) (\<lambda>_. 3) True server0 ?s"
    using st_provider [of mem_ops mem_elapse cache0 "\<lambda>_. 2" "\<lambda>_. 3" True server0 7 "''b''"]
    by (auto intro: run_step [OF run_start])
  have w: "slots_within mem_zset mem_cnt (\<lambda>_. 2) (\<lambda>_. 3) 0 server0"
    by (auto simp: slots_within_def slot_pairs_def slot_load_def)
  have d: "drop_upto (- 800) [''a'' \<mapsto> 90] = [''a'' \<mapsto> 90]" "drop_upto 40 (\<lambda>x. None) = Map.empty"
    by (auto simp: drop_upto_def)
  have "mem_zset ?s (providerSlotKey 7) = [''a'' \<mapsto> 90, ''b'' \<mapsto> 100]"
    by (simp add: mem.acquireScript_views admission d)
  then show ?thesis
    using run slots_never_exceed [OF mem.redis_laws_axioms mem_elapse_shrinks _ w run, of 7 1]
    by (intro exI [of _ ?s]) simp
qed

text \<open>
  RefreshLiveLease answers True exactly when the lease is alive in all three
  of its sets, and then renews it in all three; otherwise it renews it in none
  (a set is left as it was or only loses expired members).
\<close>

theorem RefreshLiveLease_all_or_nothing:
  fixes p u k :: int
  defines "keys \<equiv> [liveProviderSlotKey p, liveUserSlotKey u, liveAPIKeySlotKey k]"
  assumes "redis_laws R zset cnt" "server_ok R cnt s" "has_rdb c" "x \<noteq> []"
  shows "\<exists>s'. RefreshLiveLease R c p u k x (quiet_conn s) =
      (Ok (\<forall>key \<in> set keys. x \<in> live_members R zset key 60 s), quiet_conn s') \<and>
    ((\<forall>key \<in> set keys. x \<in> live_members R zset key 60 s) \<longrightarrow>
       (\<forall>key \<in> set keys. zset s' key = (drop_upto (r_time R s - 60) (zset s key))(x \<mapsto> r_time R s))) \<and>
    (\<not> (\<forall>key \<in> set keys. x \<in> live_members R zset key 60 s) \<longrightarrow>
       (\<forall>key. zset s' key \<in> {zset s key, drop_upto (r_time R s - 60) (zset s key)}))"
proof -
  let ?f = "refreshLiveLeaseScript R keys liveLeaseTTLSeconds x"
  have d: "distinct keys" "\<forall>key \<in> set keys. cnt s key = None" "0 < liveLeaseTTLSeconds"
    using assms(3) by (simp_all add: keys_def server_ok_def liveLeaseTTLSeconds_def)
  note v = redis_laws.refreshLiveLeaseScript_views [OF assms(2) d(1,3,2) refl, of x]
  have "RefreshLiveLease R c p u k x (quiet_conn s) = (Ok (fst (?f s) = 1), quiet_conn (snd (?f s)))"
    using assms(4,5) by (simp add: RefreshLiveLease_def keys_def split: prod.split)
  then show ?thesis
    using v by (auto simp: liveLeaseTTLSeconds_def)
qed

text \<open>A lease that its provider, its user and its key hold.\<close>

definition server1 :: mem where
  "server1 = \<lparr>mnow = 100, mdata = Map.empty(liveProviderSlotKey 7 \<mapsto> (ZSet [(''l'', 90)], None),
     liveUserSlotKey 3 \<mapsto> (ZSet [(''l'', 90)], None), liveAPIKeySlotKey 5 \<mapsto> (ZSet [(''l'', 90)], None))\<rparr>"

lemma server1_views [simp]:
  "mem_zset server1 k = (if k \<in> {liveProviderSlotKey 7, liveUserSlotKey 3, liveAPIKeySlotKey 5} then [''l'' \<mapsto> 90] else Map.empty)"
  "mem_cnt server1 k = None" "r_time mem_ops server1 = 100"
  by (auto simp: server1_def mem_zset_def mem_cnt_def mem_entries_def alive_def expired_def mem_ops_def)

theorem RefreshLiveLease_all_or_nothing_witness:
  "\<exists>s'. RefreshLiveLease mem_ops cache0 7 3 5 ''l'' (quiet_conn server1) = (Ok True, quiet_conn s') \<and>
    mem_zset s' (liveUserSlotKey 3) = [''l'' \<mapsto> 100]"
proof -
  have ok: "server_ok mem_ops mem_cnt server1" by (simp add: server_ok_def)
  have d: "drop_upto 40 [''l'' \<mapsto> 90] = [''l'' \<mapsto> 90]" by (auto simp: drop_upto_def)
  show ?thesis
    using RefreshLiveLease_all_or_nothing [OF mem.redis_laws_axioms ok, of cache0 "''l''" 7 3 5]
    by (auto simp: live_members_def d)
qed

end
