(* ===== verification/AdmissionLoad.thy ===== *)
theory AdmissionLoad
  imports Admission ConcurrencyLoad
begin

text \<open>
  Wait counters, batched counts, load snapshots and the startup clean-up of the
  concurrency cache: their bounds, and what they answer.
\<close>

section \<open>Wait counters\<close>

text \<open>
  One atomic step on a wait counter: an increment or a decrement of any process,
  or the passing of time, which may only drop the counter.
\<close>

inductive wait_run ::
  "'r redis_ops \<Rightarrow> ('r \<Rightarrow> 'r \<Rightarrow> bool) \<Rightarrow> string \<Rightarrow> int \<Rightarrow> int \<Rightarrow> 'r \<Rightarrow> 'r \<Rightarrow> bool"
  for R env key maxWait ttl where
  wt_start: "wait_run R env key maxWait ttl s s"
| wt_incr: "wait_run R env key maxWait ttl s s' \<Longrightarrow>
    wait_run R env key maxWait ttl s (snd (incrementWaitScript R key maxWait ttl s'))"
| wt_decr: "wait_run R env key maxWait ttl s s' \<Longrightarrow>
    wait_run R env key maxWait ttl s (snd (decrementWaitScript R key s'))"
| wt_env: "wait_run R env key maxWait ttl s s' \<Longrightarrow> env s' s'' \<Longrightarrow> wait_run R env key maxWait ttl s s''"

text \<open>Time leaves a counter as it is or drops it.\<close>

definition env_drops ::
  "('r \<Rightarrow> string \<Rightarrow> string \<rightharpoonup> int) \<Rightarrow> ('r \<Rightarrow> string \<Rightarrow> int option) \<Rightarrow> ('r \<Rightarrow> 'r \<Rightarrow> bool) \<Rightarrow> bool" where
  "env_drops zset cnt env \<longleftrightarrow> (\<forall>s s' k. env s s' \<longrightarrow>
     zset s' k \<subseteq>\<^sub>m zset s k \<and> (cnt s' k = cnt s k \<or> cnt s' k = None))"

definition waiting :: "('r \<Rightarrow> string \<Rightarrow> int option) \<Rightarrow> string \<Rightarrow> 'r \<Rightarrow> int" where
  "waiting cnt key s = val_or_zero (cnt s key)"

context redis_laws begin

lemma incrementWaitScript_views:
  assumes "zset s key = Map.empty" "0 < ttl"
  shows "fst (incrementWaitScript R key m ttl s) = (if waiting cnt key s < m then 1 else 0, r_time R s)"
    and "cnt (snd (incrementWaitScript R key m ttl s)) =
      (if waiting cnt key s < m then (cnt s)(key \<mapsto> waiting cnt key s + 1) else cnt s)"
    and "zset (snd (incrementWaitScript R key m ttl s)) = zset s"
  using assms by (auto simp: incrementWaitScript_def Let_def get incr expire waiting_def val_or_zero_def)

lemma decrementWaitScript_views:
  assumes "zset s key = Map.empty"
  shows "cnt (snd (decrementWaitScript R key s)) =
      (if 0 < waiting cnt key s then (cnt s)(key \<mapsto> waiting cnt key s - 1) else cnt s)"
    and "zset (snd (decrementWaitScript R key s)) = zset s"
  using assms by (auto simp: decrementWaitScript_def get decr waiting_def val_or_zero_def split: option.splits)

lemma wait_run_bounds:
  assumes "wait_run R env key m ttl s s'" "env_drops zset cnt env" "0 < ttl"
    "zset s key = Map.empty" "0 \<le> waiting cnt key s" "waiting cnt key s \<le> max m 0"
  shows "zset s' key = Map.empty \<and> 0 \<le> waiting cnt key s' \<and> waiting cnt key s' \<le> max m 0"
  using assms
proof (induction rule: wait_run.induct)
  case (wt_incr s s')
  then have i: "zset s' key = Map.empty" "0 \<le> waiting cnt key s'" "waiting cnt key s' \<le> max m 0" by auto
  show ?case using incrementWaitScript_views [OF i(1) wt_incr.prems(2), of m] i
    by (auto simp: waiting_def val_or_zero_def)
next
  case (wt_decr s s')
  then have i: "zset s' key = Map.empty" "0 \<le> waiting cnt key s'" "waiting cnt key s' \<le> max m 0" by auto
  show ?case using decrementWaitScript_views [OF i(1)] i
    by (auto simp: waiting_def val_or_zero_def)
next
  case (wt_env s s' s'')
  then have i: "zset s' key = Map.empty" "0 \<le> waiting cnt key s'" "waiting cnt key s' \<le> max m 0" by auto
  have "zset s'' key \<subseteq>\<^sub>m zset s' key" "cnt s'' key = cnt s' key \<or> cnt s'' key = None"
    using wt_env.hyps(2) wt_env.prems(1) by (auto simp: env_drops_def)
  moreover from this(1) have "zset s'' key = Map.empty"
    using i(1) by (metis domIff empty_iff dom_empty map_le_def ext)
  ultimately show ?case using i by (auto simp: waiting_def val_or_zero_def)
qed auto

end

text \<open>
  A wait counter stays between zero and its maximum, however the increments
  and decrements of any number of processes and the loss of the key interleave:
  the queue never admits more than the maximum, and surplus decrements do not
  make it negative.
\<close>

theorem wait_counter_bounded:
  assumes "redis_laws R zset cnt" "env_drops zset cnt env" "0 < ttl" "zset s key = Map.empty"
    "cnt s key = None" "wait_run R env key maxWait ttl s s'"
  shows "0 \<le> waiting cnt key s' \<and> waiting cnt key s' \<le> max maxWait 0"
  using redis_laws.wait_run_bounds [OF assms(1,6,2,3,4)] assms(5)
  by (simp add: waiting_def val_or_zero_def)

lemma mem_elapse_drops: "env_drops mem_zset mem_cnt mem_elapse"
proof -
  have a: "alive s' k = alive s k \<or> alive s' k = None" if "mem_elapse s s'" for s s' k
    using that by (auto simp: mem_elapse_def alive_def expired_def split: option.splits)
  show ?thesis
    unfolding env_drops_def
  proof (intro allI impI)
    fix s s' k assume "mem_elapse s s'"
    from a [OF this, of k] show "mem_zset s' k \<subseteq>\<^sub>m mem_zset s k \<and> (mem_cnt s' k = mem_cnt s k \<or> mem_cnt s' k = None)"
      by (auto simp: mem_zset_def mem_entries_def mem_cnt_def)
  qed
qed

section \<open>Batches\<close>

fun run_seq :: "('r \<Rightarrow> 'a \<times> 'r) list \<Rightarrow> 'r \<Rightarrow> 'a list \<times> 'r" where
  "run_seq [] s = ([], s)"
| "run_seq (f # fs) s = (case f s of (a, s) \<Rightarrow> case run_seq fs s of (as, s) \<Rightarrow> (a # as, s))"

lemma run_commands_quiet: "run_commands fs (quiet_conn s) = (fst (run_seq fs s), quiet_conn (snd (run_seq fs s)))"
  by (induction fs arbitrary: s) (auto simp: quiet_conn_def split: prod.splits)

lemma exec_quiet: "exec fs (quiet_conn s) = (Ok (fst (run_seq fs s)), quiet_conn (snd (run_seq fs s)))"
  using run_commands_quiet [of fs s] by (simp add: exec_def quiet_conn_def split: prod.split)

lemma run_seq_append:
  "run_seq (fs @ gs) s = (fst (run_seq fs s) @ fst (run_seq gs (snd (run_seq fs s))), snd (run_seq gs (snd (run_seq fs s))))"
  by (induction fs arbitrary: s) (auto split: prod.splits)

lemma pairs_blocks:
  assumes "\<And>x. x \<in> set xs \<Longrightarrow> length (g x) = k"
  shows "pairs xs (pre @ concat (map g xs)) (length pre) k = map (\<lambda>x. (x, g x)) xs"
  using assms
proof (induction xs arbitrary: pre)
  case (Cons x xs)
  have "pairs xs ((pre @ g x) @ concat (map g xs)) (length (pre @ g x)) k = map (\<lambda>x. (x, g x)) xs"
    by (rule Cons.IH) (use Cons.prems in auto)
  then show ?case using Cons.prems by simp
qed simp

lemma foldl_updates:
  "foldl (\<lambda>m (i, r). m(f i \<mapsto> h i r)) m0 (map (\<lambda>i. (i, g i)) xs) =
     foldl (\<lambda>m i. m(f i \<mapsto> h i (g i))) m0 xs"
  by (induction xs arbitrary: m0) auto

lemma foldl_updates_same: "foldl (\<lambda>m i. m(i \<mapsto> h i)) m0 xs = (\<lambda>i. if i \<in> set xs then Some (h i) else m0 i)"
  by (induction xs arbitrary: m0) auto

lemma foldl_updates_distinct:
  "distinct (map f xs) \<Longrightarrow> x \<in> set xs \<Longrightarrow> foldl (\<lambda>m i. m(f i \<mapsto> h i)) m0 xs (f x) = Some (h x)"
proof -
  have out: "y \<notin> f ` set xs \<Longrightarrow> foldl (\<lambda>m i. m(f i \<mapsto> h i)) m0 xs y = m0 y" for y m0 xs
    by (induction xs arbitrary: m0) auto
  show "distinct (map f xs) \<Longrightarrow> x \<in> set xs \<Longrightarrow> ?thesis"
    by (induction xs arbitrary: m0) (auto simp: out)
qed

text \<open>The pipeline of a batch: the commands of each entity, and of its counters if any.\<close>

definition batch_commands ::
  "'r redis_ops \<Rightarrow> cache \<Rightarrow> int \<Rightarrow> ('a \<Rightarrow> string) \<Rightarrow> ('a \<Rightarrow> string) \<Rightarrow> ('a \<Rightarrow> string list) \<Rightarrow> 'a \<Rightarrow> ('r \<Rightarrow> int option \<times> 'r) list" where
  "batch_commands R c now slot live ws i =
     count_commands R c now (slot i) (live i) @ map (\<lambda>k. reads (r_get R k)) (ws i)"

definition batch_result ::
  "cache \<Rightarrow> ('r \<Rightarrow> string \<Rightarrow> string \<rightharpoonup> int) \<Rightarrow> ('r \<Rightarrow> string \<Rightarrow> int option) \<Rightarrow> int \<Rightarrow>
   ('a \<Rightarrow> string) \<Rightarrow> ('a \<Rightarrow> string) \<Rightarrow> ('a \<Rightarrow> string list) \<Rightarrow> 'r \<Rightarrow> 'a \<Rightarrow> int option list" where
  "batch_result c zset cnt now slot live ws s i =
     [None, None, Some (int (card (dom (drop_upto (now - slotTTLSeconds c) (zset s (slot i)))))),
      Some (int (card (dom (drop_upto (now - liveLeaseTTLSeconds) (zset s (live i))))))] @ map (cnt s) (ws i)"

lemma drop_upto_twice [simp]: "drop_upto m (drop_upto m z) = drop_upto m z"
  by (rule ext) (simp add: drop_upto_def split: option.split)

context redis_laws begin

lemma run_gets: "run_seq (map (\<lambda>k. reads (r_get R k)) ws) s = (map (cnt s) ws, s)"
  by (induction ws) (simp_all add: reads_def get)

lemma run_batch:
  fixes slot live :: "'a \<Rightarrow> string"
  assumes "\<And>i j. slot i \<noteq> live j"
    and "cnt s = cnt s0"
    and "\<And>i. drop_upto (now - slotTTLSeconds c) (zset s (slot i)) = drop_upto (now - slotTTLSeconds c) (zset s0 (slot i))"
    and "\<And>i. drop_upto (now - liveLeaseTTLSeconds) (zset s (live i)) = drop_upto (now - liveLeaseTTLSeconds) (zset s0 (live i))"
  shows "fst (run_seq (concat (map (batch_commands R c now slot live ws) xs)) s) =
    concat (map (batch_result c zset cnt now slot live ws s0) xs)"
  using assms(2-4)
proof (induction xs arbitrary: s)
  case (Cons x xs)
  let ?s = "r_zremrangebyscore R (live x) (now - liveLeaseTTLSeconds)
      (r_zremrangebyscore R (slot x) (now - slotTTLSeconds c) s)"
  have ne: "slot i \<noteq> live j" "live j \<noteq> slot i" for i j using assms(1) [of i j] by auto
  have z: "zset ?s = (zset s)(slot x := drop_upto (now - slotTTLSeconds c) (zset s (slot x)),
      live x := drop_upto (now - liveLeaseTTLSeconds) (zset s (live x)))" "cnt ?s = cnt s"
    using ne by (simp_all add: script_simps)
  have blk: "run_seq (batch_commands R c now slot live ws x) s =
      (batch_result c zset cnt now slot live ws s0 x, ?s)"
    using Cons.prems z ne
    by (simp add: batch_commands_def batch_result_def count_commands_def writes_def reads_def
        run_seq_append run_gets zcard)
  have IH: "fst (run_seq (concat (map (batch_commands R c now slot live ws) xs)) ?s) =
      concat (map (batch_result c zset cnt now slot live ws s0) xs)"
    by (rule Cons.IH) (use Cons.prems z ne in auto)
  show ?case using IH by (simp add: run_seq_append blk)
qed simp

lemma getCountScript_count:
  "key \<noteq> live \<Longrightarrow> fst (getCountScript R key live ttl s) =
     int (card (dom (drop_upto (r_time R s - ttl) (zset s key)))) +
     int (card (dom (drop_upto (r_time R s - liveLeaseTTLSeconds) (zset s live))))"
  by (simp add: getCountScript_views live_members_def liveLeaseTTLSeconds_def)

lemma getConcurrencyBatch_quiet:
  assumes "\<And>i j. p @ dec i \<noteq> q @ dec j"
  shows "\<exists>s'. getConcurrencyBatch R c ids p q (quiet_conn s) =
    (Ok (\<lambda>i. if i \<in> set ids then Some (fst (getCountScript R (p @ dec i) (q @ dec i) (slotTTLSeconds c) s)) else None),
     quiet_conn s')"
proof (cases "ids = []")
  case False
  let ?now = "r_time R s"
  let ?cs = "concat (map (batch_commands R c ?now (\<lambda>i. p @ dec i) (\<lambda>i. q @ dec i) (\<lambda>_. [])) ids)"
  have cmds: "concat (map (\<lambda>i. count_commands R c ?now (p @ dec i) (q @ dec i)) ids) = ?cs"
    by (simp add: batch_commands_def [abs_def])
  have res: "fst (run_seq ?cs s) = concat (map (batch_result c zset cnt ?now (\<lambda>i. p @ dec i) (\<lambda>i. q @ dec i) (\<lambda>_. []) s) ids)"
    by (rule run_batch) (use assms in simp_all)
  have prs: "pairs ids (fst (run_seq ?cs s)) 0 4 =
      map (\<lambda>i. (i, batch_result c zset cnt ?now (\<lambda>i. p @ dec i) (\<lambda>i. q @ dec i) (\<lambda>_. []) s i)) ids"
    unfolding res by (rule pairs_blocks [where pre = "[]", simplified]) (simp add: batch_result_def)
  have "getConcurrencyBatch R c ids p q (quiet_conn s) =
      (Ok (foldl (\<lambda>m (i, r). m(i \<mapsto> val_or_zero (r ! 2) + val_or_zero (r ! 3))) Map.empty
        (pairs ids (fst (run_seq ?cs s)) 0 4)), quiet_conn (snd (run_seq ?cs s)))"
    using False by (simp add: getConcurrencyBatch_def reads_def cmds exec_quiet)
  also have "foldl (\<lambda>m (i, r). m(i \<mapsto> val_or_zero (r ! 2) + val_or_zero (r ! 3))) Map.empty
        (pairs ids (fst (run_seq ?cs s)) 0 4) =
      (\<lambda>i. if i \<in> set ids then Some (fst (getCountScript R (p @ dec i) (q @ dec i) (slotTTLSeconds c) s)) else None)"
    using getCountScript_count [OF assms]
    by (simp add: prs foldl_updates [where f = "\<lambda>i. i"] foldl_updates_same batch_result_def val_or_zero_def fun_eq_iff)
  finally show ?thesis by blast
qed (auto simp: getConcurrencyBatch_def)

end

text \<open>
  A batched count answers, for every provider asked for (and only for
  those), what GetProviderConcurrency's script would have counted at that
  moment: the pipeline of four commands per provider and the atomic script
  agree, also when an identity is asked for twice.
\<close>

theorem GetProviderConcurrencyBatch_agrees:
  assumes "redis_laws R zset cnt"
  shows "\<exists>s'. GetProviderConcurrencyBatch R c ids (quiet_conn s) =
    (Ok (\<lambda>i. if i \<in> set ids
       then (case fst (GetProviderConcurrency R c i (quiet_conn s)) of Inr n \<Rightarrow> Some n | Inl _ \<Rightarrow> None)
       else None), quiet_conn s')"
  using redis_laws.getConcurrencyBatch_quiet [OF assms, of providerSlotKeyPrefix liveProviderSlotKeyPrefix c ids s]
  by (simp add: GetProviderConcurrencyBatch_def GetProviderConcurrency_def
      providerSlotKey_def [symmetric] liveProviderSlotKey_def [symmetric] case_prod_beta cong: if_cong)

theorem GetProviderConcurrencyBatch_agrees_witness:
  "\<exists>s'. GetProviderConcurrencyBatch mem_ops cache0 [7, 8, 7] (quiet_conn server0) =
    (Ok [7 \<mapsto> 1, 8 \<mapsto> 0], quiet_conn s')"
proof -
  have d: "drop_upto (- 800) [''a'' \<mapsto> 90] = [''a'' \<mapsto> 90]" "drop_upto n (\<lambda>x. None) = Map.empty" for n
    by (auto simp: drop_upto_def)
  have m: "(\<lambda>i. if i \<in> set [7, 8, 7 :: int] then (case fst (GetProviderConcurrency mem_ops cache0 i (quiet_conn server0)) of
      Inr n \<Rightarrow> Some n | Inl _ \<Rightarrow> None) else None) = [7 \<mapsto> 1, 8 \<mapsto> 0]"
    by (rule ext)
      (simp add: GetProviderConcurrency_def mem.getCountScript_views live_members_def d case_prod_beta)
  show ?thesis
    using GetProviderConcurrencyBatch_agrees [OF mem.redis_laws_axioms, of cache0 "[7, 8, 7]" server0]
    unfolding m .
qed

text \<open>
  A load snapshot answers for every provider asked for: its members (regular
  ones and live leases, counted as the admission script counts them), its wait
  counter, and the load rate ((members + waiting) * 100) / maximum, truncated, or
  zero for a maximum that is not positive.
\<close>

theorem GetProvidersLoadBatch_functional:
  assumes "redis_laws R zset cnt" "distinct (map fst ps)" "(i, m) \<in> set ps"
  shows "\<exists>loads s'. GetProvidersLoadBatch R c ps (quiet_conn s) = (Ok loads, quiet_conn s') \<and>
    (let n = int (card (live_members R zset (providerSlotKey i) (slotTTLSeconds c) s)) +
             int (card (live_members R zset (liveProviderSlotKey i) 60 s));
         q = waiting cnt (providerWaitKey i) s
     in loads i = Some \<lparr>LoadID = i, CurrentConcurrency = n, WaitingCount = q,
          LoadRate = (if 0 < m then go_div ((n + q) * 100) m else 0)\<rparr>)"
proof -
  let ?now = "r_time R s"
  let ?b = "batch_commands R c ?now (\<lambda>p. providerSlotKey (fst p)) (\<lambda>p. liveProviderSlotKey (fst p)) (\<lambda>p. [providerWaitKey (fst p)])"
  let ?r = "batch_result c zset cnt ?now (\<lambda>p. providerSlotKey (fst p)) (\<lambda>p. liveProviderSlotKey (fst p)) (\<lambda>p. [providerWaitKey (fst p)]) s"
  have cmds: "concat (map (\<lambda>(i, m). count_commands R c ?now (providerSlotKey i) (liveProviderSlotKey i) @
      [reads (r_get R (providerWaitKey i))]) ps) = concat (map ?b ps)"
    by (simp add: batch_commands_def [abs_def] case_prod_unfold)
  have res: "fst (run_seq (concat (map ?b ps)) s) = concat (map ?r ps)"
    by (rule redis_laws.run_batch [OF assms(1)]) simp_all
  have prs: "pairs ps (fst (run_seq (concat (map ?b ps)) s)) 0 5 = map (\<lambda>p. (p, ?r p)) ps"
    unfolding res by (rule pairs_blocks [where pre = "[]", simplified]) (simp add: batch_result_def)
  have q: "GetProvidersLoadBatch R c ps (quiet_conn s) =
      (Ok (foldl (\<lambda>m p. m(fst p \<mapsto> load_info p (?r p))) Map.empty ps), quiet_conn (snd (run_seq (concat (map ?b ps)) s)))"
    using assms(3)
    by (auto simp: GetProvidersLoadBatch_def load_batch_def reads_def [of "r_time R"] cmds exec_quiet prs foldl_updates)
  show ?thesis
    by (intro exI conjI, rule q)
      (use foldl_updates_distinct [OF assms(2,3), of "\<lambda>p. load_info p (?r p)" Map.empty] in \<open>simp add: load_info_def batch_result_def val_or_zero_def waiting_def live_members_def liveLeaseTTLSeconds_def Let_def\<close>)
qed


section \<open>Startup clean-up\<close>

text \<open>
  At startup a process removes from a slot set exactly the members that do
  not carry its own request prefix, reports how many it removed and how many
  remain, and leaves every other key and every counter alone; the kept members
  keep their scores.
\<close>

theorem startup_cleanup_exact:
  assumes "redis_laws R zset cnt" "server_ok R cnt s" "0 < ttl" "key \<in> slot_keys"
  shows "(let (res, s') = startupCleanupSlotScript R key prefix ttl s;
              kept = (\<lambda>x. if has_prefix x prefix then zset s key x else None)
     in fst res = int (card {x \<in> dom (zset s key). \<not> has_prefix x prefix}) \<and> snd res = int (card (dom kept)) \<and>
        zset s' = (zset s)(key := kept) \<and> cnt s' = cnt s)"
proof -
  have "cnt s key = None" using assms(2,4) by (simp add: server_ok_def)
  from redis_laws.startupCleanupSlotScript_views [OF assms(1,3) this refl, of prefix]
  show ?thesis by (simp add: Let_def case_prod_beta)
qed


end
