(* ===== verification/Wallet.thy ===== *)
theory Wallet
  imports Database
begin

text \<open>
  The wallet columns of the users table and the statements that change them:
  internal/billing/postgres/balance.go, available_balance.go and the wallet part
  of participants.go.  Balances are numeric(20,8) columns, so their values are
  exact rationals of eight decimals below 10^12; a float argument enters a
  statement as its decimal text.  Each operation is one statement (two where the
  code issues two), and the callers pass finite amounts.
\<close>

section \<open>The table\<close>

record user_row =
  userID :: int
  balance :: rat
  total_recharged :: rat
  frozen_balance :: rat
  deleted :: bool

type_synonym 'a wallet_op = "user_row list \<Rightarrow> (perror, 'a) result \<times> user_row list"

definition ErrUserNotFound :: perror where "ErrUserNotFound = App ''USER_NOT_FOUND'' ''user not found''"
definition ErrBalanceNegative :: perror where "ErrBalanceNegative = App ''BALANCE_NEGATIVE'' ''balance cannot be negative''"

abbreviation to_column :: "rat \<Rightarrow> rat option" where
  "to_column \<equiv> numeric 8"

definition live :: "int \<Rightarrow> user_row \<Rightarrow> bool" where
  "live i r \<longleftrightarrow> userID r = i \<and> \<not> deleted r"

section \<open>Operations\<close>

definition UpdateBalance :: "int \<Rightarrow> f64 \<Rightarrow> unit wallet_op" where
  "UpdateBalance i amount = amount_arg amount (\<lambda>a us.
     case sql_update (\<lambda>r. userID r = i)
       (\<lambda>r. case (to_column (balance r + a),
                  if flt f0 amount then to_column (total_recharged r + a) else Some (total_recharged r)) of
          (Some b, Some t) \<Rightarrow> Some (r\<lparr>balance := b, total_recharged := t\<rparr>) | _ \<Rightarrow> None) us of
       (Inl e, us) \<Rightarrow> (Err e, us)
     | (Inr ms, us) \<Rightarrow> (if ms = [] then Err ErrUserNotFound else Ok (), us))"

definition AddBalance :: "int \<Rightarrow> f64 \<Rightarrow> unit wallet_op" where
  "AddBalance i amount us =
     (if amount = f0 then (Ok (), us)
      else amount_arg amount (\<lambda>a us.
        case sql_update (\<lambda>r. userID r = i) (\<lambda>r. map_option (\<lambda>b. r\<lparr>balance := b\<rparr>) (to_column (balance r + a))) us of
          (Inl e, us) \<Rightarrow> (Err e, us)
        | (Inr ms, us) \<Rightarrow> (if ms = [] then Err ErrUserNotFound else Ok (), us)) us)"

definition ApplyRedeemBalanceAdjustment :: "int \<Rightarrow> f64 \<Rightarrow> unit wallet_op" where
  "ApplyRedeemBalanceAdjustment i delta = amount_arg delta (\<lambda>d us.
     case sql_update (live i) (\<lambda>r. map_option (\<lambda>b. r\<lparr>balance := b\<rparr>) (to_column (max (balance r + d) 0))) us of
       (Inl e, us) \<Rightarrow> (Err e, us)
     | (Inr ms, us) \<Rightarrow> (if ms = [] then Err ErrUserNotFound else Ok (), us))"

definition currentBalance :: "int \<Rightarrow> f64 wallet_op" where
  "currentBalance i us =
     (case filter (live i) us of [] \<Rightarrow> (Err ErrUserNotFound, us) | r # _ \<Rightarrow> (Ok (rnd (balance r)), us))"

text \<open>
  A result and an error at once: the change reported with ErrBalanceNegative is
  the observed balance and the rejected one.
\<close>

record BalanceChange =
  Old :: f64
  New :: f64

datatype change_error = Rejected BalanceChange | OtherError perror

definition AdjustBalance ::
  "int \<Rightarrow> f64 \<Rightarrow> user_row list \<Rightarrow> (change_error, BalanceChange) result \<times> user_row list" where
  "AdjustBalance i delta us =
     (case amount_arg delta (\<lambda>d us.
          case sql_update (\<lambda>r. live i r \<and> 0 \<le> balance r + d)
                 (\<lambda>r. map_option (\<lambda>b. r\<lparr>balance := b\<rparr>) (to_column (balance r + d))) us of
            (Inl e, us) \<Rightarrow> (Err e, us)
          | (Inr ms, us) \<Rightarrow> (Ok (map (\<lambda>m. \<lparr>Old = rnd (balance (snd m) - d), New = rnd (balance (snd m))\<rparr>) ms), us)) us of
        (Inl e, us) \<Rightarrow> (Err (OtherError e), us)
      | (Inr (c # _), us) \<Rightarrow> (Ok c, us)
      | (Inr [], us) \<Rightarrow>
          (case currentBalance i us of
             (Inl e, us) \<Rightarrow> (Err (OtherError e), us)
           | (Inr current, us) \<Rightarrow> (Err (Rejected \<lparr>Old = current, New = fadd current delta\<rparr>), us)))"

definition SetBalance ::
  "int \<Rightarrow> f64 \<Rightarrow> user_row list \<Rightarrow> (change_error, BalanceChange) result \<times> user_row list" where
  "SetBalance i val us =
     (if flt val f0 then
        (case currentBalance i us of
           (Inl e, us) \<Rightarrow> (Err (OtherError e), us)
         | (Inr current, us) \<Rightarrow> (Err (Rejected \<lparr>Old = current, New = val\<rparr>), us))
      else
        case amount_arg val (\<lambda>v. sql_update (live i) (\<lambda>r. map_option (\<lambda>b. r\<lparr>balance := b\<rparr>) (to_column v))) us of
          (Inl e, us) \<Rightarrow> (Err (OtherError e), us)
        | (Inr [], us) \<Rightarrow> (Err (OtherError ErrUserNotFound), us)
        | (Inr (m # _), us) \<Rightarrow> (Ok \<lparr>Old = rnd (balance (fst m)), New = rnd (balance (snd m))\<rparr>, us))"

text \<open>The statement locks the row, deducts what is there and returns the new balance and the deduction.\<close>

definition DeductAvailableBalance :: "int \<Rightarrow> f64 \<Rightarrow> (f64 \<times> f64) wallet_op" where
  "DeductAvailableBalance i amount = amount_arg amount (\<lambda>a us.
     case sql_update (live i) (\<lambda>r. map_option (\<lambda>b. r\<lparr>balance := b\<rparr>)
            (to_column (if balance r \<le> 0 then balance r else if balance r \<le> a then 0 else balance r - a))) us of
       (Inl e, us) \<Rightarrow> (Err e, us)
     | (Inr [], us) \<Rightarrow> (Err ErrUserNotFound, us)
     | (Inr (m # _), us) \<Rightarrow>
         (Ok (rnd (balance (snd m)),
              rnd (if balance (fst m) \<le> 0 then 0 else if balance (fst m) \<le> a then balance (fst m) else a)), us))"

definition DeductRefundBalance :: "int \<Rightarrow> f64 \<Rightarrow> f64 wallet_op" where
  "DeductRefundBalance i amount us =
     (case DeductAvailableBalance i amount us of
        (Inl e, us) \<Rightarrow> (Err e, us) | (Inr (_, deducted), us) \<Rightarrow> (Ok deducted, us))"

definition CompensateRefundBalance :: "int \<Rightarrow> f64 \<Rightarrow> unit wallet_op" where
  "CompensateRefundBalance i amount = UpdateBalance i amount"

definition CreditAffiliateTransfer :: "int \<Rightarrow> f64 \<Rightarrow> unit wallet_op" where
  "CreditAffiliateTransfer i amount = UpdateBalance i amount"

definition CreditRegistrationPromo :: "int \<Rightarrow> f64 \<Rightarrow> unit wallet_op" where
  "CreditRegistrationPromo i amount = UpdateBalance i amount"

section \<open>Lemmas: one row\<close>

abbreviation wallet :: "int \<Rightarrow> user_row list \<Rightarrow> user_row option" where
  "wallet \<equiv> row_at userID"

abbreviation put :: "int \<Rightarrow> user_row \<Rightarrow> user_row list \<Rightarrow> user_row list" where
  "put \<equiv> put_row userID"

lemmas wallet_def = row_at_def [where key = userID]
lemmas put_def = put_row_def [where key = userID]
lemmas wallet_SomeD = row_at_SomeD [where key = userID]
lemmas put_same = put_row_same [where key = userID]
lemmas to_column_scaled = numeric_scaled [where k = 8, simplified]

lemma sql_update_live:
  "distinct (map userID us) \<Longrightarrow> wallet i us = Some r \<Longrightarrow> \<not> deleted r \<Longrightarrow>
    sql_update (live i) f us = (case f r of None \<Rightarrow> (Err (Plain ''numeric field overflow''), us)
      | Some r' \<Rightarrow> (Ok [(r, r')], put i r' us))"
  using wallet_SomeD by (intro sql_update_one) (auto simp: live_def)

lemma sql_update_id:
  "distinct (map userID us) \<Longrightarrow> wallet i us = Some r \<Longrightarrow>
    sql_update (\<lambda>r. userID r = i) f us = (case f r of None \<Rightarrow> (Err (Plain ''numeric field overflow''), us)
      | Some r' \<Rightarrow> (Ok [(r, r')], put i r' us))"
  using wallet_SomeD by (intro sql_update_one) auto

lemma rnd_pos:
  assumes "precise m j a" "0 < a"
  shows "flt f0 (rnd a)"
proof -
  have "a \<noteq> 0" "scaled m 0" "\<bar>a\<bar> \<le> 2 ^ j" "scaled m a" "(4 :: nat) * 10 ^ m * 2 ^ j \<le> 2 ^ 53"
    using assms by (auto simp: precise_def scaled_def)
  then have "rnd a \<noteq> rnd 0" using rnd_precise_inj [of m j a 0] by fastforce
  moreover have "fle f0 (rnd a)" using assms(2) by (simp add: rnd_nonneg)
  ultimately show ?thesis by (cases "rnd a") auto
qed

lemma precise_small: "precise m j a \<Longrightarrow> j \<le> 30 \<Longrightarrow> scaled m a \<and> \<bar>a\<bar> < 10 ^ 12"
proof -
  assume a: "precise m j a" "j \<le> 30"
  then have "(2 :: rat) ^ j \<le> 2 ^ 30" by (intro power_increasing) simp_all
  then show ?thesis using a(1) by (simp add: precise_def)
qed

lemma refund_roundtrip:
  assumes "distinct (map userID us)" "wallet i us = Some r" "\<not> deleted r"
    "precise 8 24 (balance r)" "precise 8 24 a" "0 < a"
    "scaled 8 (total_recharged r)" "\<bar>total_recharged r\<bar> + a < 10 ^ 12"
  shows "\<exists>d us'. d = max 0 (min a (balance r)) \<and> DeductRefundBalance i (rnd a) us = (Ok (rnd d), us') \<and>
    us' = put i (r\<lparr>balance := balance r - d\<rparr>) us \<and>
    CompensateRefundBalance i (rnd d) us' = (Ok (), put i (r\<lparr>total_recharged := total_recharged r + d\<rparr>) us)"
proof -
  define d where "d = max 0 (min a (balance r))"
  have r: "userID r = i" using wallet_SomeD [OF assms(2)] by simp
  have pd: "precise 8 24 d" using assms(4,5) by (auto simp: d_def max_def min_def precise_def)
  have b: "to_column (balance r) = Some (balance r)" "to_column (balance r - d) = Some (balance r - d)"
    using precise_small [OF assms(4)] precise_small [OF pd] assms(6)
    by (auto simp: d_def intro!: to_column_scaled scaled_diff split: split_max split_min)
  have t: "to_column (total_recharged r + d) = Some (total_recharged r + d)"
    using assms(7,8) precise_small [OF pd] assms(6) by (intro to_column_scaled scaled_add) (auto simp: d_def)
  have cut: "(if balance r \<le> 0 then balance r else if balance r \<le> a then 0 else balance r - a) = balance r - d"
    "(if balance r \<le> 0 then 0 else if balance r \<le> a then balance r else a) = d"
    using assms(6) by (auto simp: d_def)
  have d: "balance r \<le> 0 \<Longrightarrow> d = 0" "\<not> balance r \<le> 0 \<Longrightarrow> balance r \<le> a \<Longrightarrow> d = balance r"
    "\<not> balance r \<le> a \<Longrightarrow> \<not> balance r \<le> 0 \<Longrightarrow> d = a" using assms(6) by (auto simp: d_def)
  let ?us = "put i (r\<lparr>balance := balance r - d\<rparr>) us"
  have "DeductRefundBalance i (rnd a) us = (Ok (rnd d), ?us)"
    using assms(1-3) r b(2) cut d
    by (simp add: DeductRefundBalance_def DeductAvailableBalance_def amount_arg_precise [OF assms(5)]
      sql_update_live)
  moreover have "CompensateRefundBalance i (rnd d) ?us = (Ok (), put i (r\<lparr>total_recharged := total_recharged r + d\<rparr>) us)"
  proof -
    have "distinct (map userID ?us)" "wallet i ?us = Some (r\<lparr>balance := balance r - d\<rparr>)" using assms(1,2) r by simp_all
    moreover have "flt f0 (rnd d) \<longleftrightarrow> d \<noteq> 0"
      using rnd_pos [OF pd] by (cases "d = 0") (auto simp: d_def)
    ultimately show ?thesis using r b(1) t
      by (auto simp: CompensateRefundBalance_def UpdateBalance_def amount_arg_precise [OF pd]
        sql_update_id split: option.splits)
  qed
  ultimately show ?thesis using d_def by blast
qed

text \<open>
  C11: Taking a refund amount out of a wallet removes as much of it as the wallet
  holds, and giving the reported amount back restores the balance to the last
  digit, although the amount travels as a float; the total recharged amount grows
  by what was given back.  Balance and amount are decimals of eight places below
  2^24 - 2 (about 16.7 million), where floats keep them apart.
\<close>

theorem refund_deduction_roundtrip:
  assumes "distinct (map userID us)" "wallet i us = Some r" "\<not> deleted r"
    "precise 8 24 (balance r)" "precise 8 24 a" "0 < a"
    "scaled 8 (total_recharged r)" "\<bar>total_recharged r\<bar> + a < 10 ^ 12"
  shows "\<exists>d us'. d = max 0 (min a (balance r)) \<and> DeductRefundBalance i (rnd a) us = (Ok (rnd d), us') \<and>
    us' = put i (r\<lparr>balance := balance r - d\<rparr>) us \<and>
    CompensateRefundBalance i (rnd d) us' = (Ok (), put i (r\<lparr>total_recharged := total_recharged r + d\<rparr>) us)"
  by (rule refund_roundtrip [OF assms])

definition account0 :: user_row where
  "account0 = \<lparr>userID = 1, balance = 25 / 2, total_recharged = 20, frozen_balance = 0, deleted = False\<rparr>"

theorem refund_deduction_roundtrip_witness:
  "\<exists>d us'. d = max 0 (min 10 (25 / 2 :: rat)) \<and> DeductRefundBalance 1 (rnd 10) [account0] = (Ok (rnd d), us') \<and>
    us' = put 1 (account0\<lparr>balance := 25 / 2 - d\<rparr>) [account0] \<and>
    CompensateRefundBalance 1 (rnd d) us' = (Ok (), put 1 (account0\<lparr>total_recharged := 20 + d\<rparr>) [account0])"
  using refund_deduction_roundtrip [of "[account0]" 1 account0 10]
  by (simp add: account0_def wallet_def precise_def scaled_def)

section \<open>Any sequence of wallet statements\<close>

datatype wallet_command =
    Credit int f64
  | CreditOnly int f64
  | RedeemAdjustment int f64
  | Adjust int f64
  | SetTo int f64
  | Deduct int f64

fun wallet_step :: "wallet_command \<Rightarrow> user_row list \<Rightarrow> user_row list" where
  "wallet_step (Credit i a) us = snd (UpdateBalance i a us)"
| "wallet_step (CreditOnly i a) us = snd (AddBalance i a us)"
| "wallet_step (RedeemAdjustment i a) us = snd (ApplyRedeemBalanceAdjustment i a us)"
| "wallet_step (Adjust i a) us = snd (AdjustBalance i a us)"
| "wallet_step (SetTo i a) us = snd (SetBalance i a us)"
| "wallet_step (Deduct i a) us = snd (DeductAvailableBalance i a us)"

text \<open>The credits are the only statements without a floor; theirs come from their callers.\<close>

fun credits :: "wallet_command \<Rightarrow> bool" where
  "credits (Credit i a) = fle f0 a"
| "credits (CreditOnly i a) = fle f0 a"
| "credits _ = True"

definition row_ok :: "user_row \<Rightarrow> bool" where
  "row_ok r \<longleftrightarrow> scaled 8 (balance r) \<and> 0 \<le> balance r \<and> balance r < 10 ^ 12 \<and>
     scaled 8 (total_recharged r) \<and> \<bar>total_recharged r\<bar> < 10 ^ 12"

lemma to_column_ok: "to_column x = Some c \<Longrightarrow> 0 \<le> x \<Longrightarrow> scaled 8 c \<and> 0 \<le> c \<and> c < 10 ^ 12"
  using numeric_nonneg [of 8 x c] numeric_bound [of 8 x c] by auto

definition table_ok :: "user_row list \<Rightarrow> bool" where
  "table_ok us \<longleftrightarrow> distinct (map userID us) \<and> (\<forall>r \<in> set us. row_ok r)"

lemma rewrite_ids:
  "rewrite g f us = Some us' \<Longrightarrow> (\<And>r r'. f r = Some r' \<Longrightarrow> userID r' = userID r) \<Longrightarrow>
    map userID us' = map userID us"
  by (induction us arbitrary: us') (auto split: if_splits option.splits)

lemma sql_update_ok:
  assumes "table_ok us" "\<And>r r'. row_ok r \<Longrightarrow> f r = Some r' \<Longrightarrow> g r \<Longrightarrow> row_ok r'"
    "\<And>r r'. f r = Some r' \<Longrightarrow> userID r' = userID r"
  shows "table_ok (snd (sql_update g f us))"
proof (cases "rewrite g f us")
  case (Some us')
  have "map userID us' = map userID us" by (rule rewrite_ids [OF Some]) (rule assms(3))
  moreover have "\<forall>r \<in> set us'. row_ok r"
    by (rule rewrite_all [OF Some]) (use assms(1,2) in \<open>auto simp: table_ok_def\<close>)
  ultimately show ?thesis using assms(1) Some by (simp add: sql_update_def table_ok_def)
qed (use assms(1) in \<open>simp add: sql_update_def\<close>)

lemma currentBalance_snd [simp]: "snd (currentBalance i us) = us"
  by (simp add: currentBalance_def split: list.split)

lemma amount_arg_ok:
  "table_ok us \<Longrightarrow> (\<And>x. v = Fin x \<Longrightarrow> table_ok (snd (k (decimal_text x) us))) \<Longrightarrow> table_ok (snd (amount_arg v k us))"
  by (cases v) (simp_all add: amount_arg_def)

lemma decimal_from_nonneg: "0 \<le> x \<Longrightarrow> 0 \<le> decimal_from n k x"
proof (induction n arbitrary: k)
  case (Suc n)
  have "0 \<le> \<lfloor>x * 10 ^ k\<rfloor>" using Suc.prems by simp
  then have "0 \<le> of_int \<lfloor>x * 10 ^ k\<rfloor> / (10 :: rat) ^ k" "0 \<le> of_int (\<lfloor>x * 10 ^ k\<rfloor> + 1) / (10 :: rat) ^ k"
    by (intro divide_nonneg_nonneg; simp)+
  then show ?case using Suc by (simp add: Let_def del: of_int_add)
qed simp

lemma decimal_text_nonneg: "0 \<le> x \<Longrightarrow> 0 \<le> decimal_text x"
  by (simp add: decimal_text_def decimal_from_nonneg)

lemma row_ok_put:
  "row_ok r \<Longrightarrow> map_option (\<lambda>b. r\<lparr>balance := b\<rparr>) (to_column x) = Some r' \<Longrightarrow> 0 \<le> x \<Longrightarrow> row_ok r'"
  using to_column_ok by (fastforce simp: row_ok_def)

lemma fle_amount: "fle f0 (Fin x) \<Longrightarrow> 0 \<le> decimal_text x"
  by (simp add: decimal_text_nonneg)

lemma snd_rejected [simp]:
  "snd (case m of (Inl e, us) \<Rightarrow> (Err (f e), us) | (Inr v, us) \<Rightarrow> (h v us, us)) = snd m"
  by (auto split: prod.split sum.split)

lemma snd_case_list [simp]:
  "snd (case m of (Inl e, us) \<Rightarrow> (Err (f e), us) | (Inr [], us) \<Rightarrow> (h us, us) | (Inr (v # vs), us) \<Rightarrow> (k v us, us)) = snd m"
  by (auto split: prod.split sum.split list.split)

definition keeps_table :: "'a wallet_op \<Rightarrow> bool" where
  "keeps_table opn \<longleftrightarrow> (\<forall>us. table_ok us \<longrightarrow> table_ok (snd (opn us)))"

lemma keeps_amount_arg: "(\<And>x. v = Fin x \<Longrightarrow> keeps_table (k (decimal_text x))) \<Longrightarrow> keeps_table (amount_arg v k)"
  by (cases v) (simp_all add: amount_arg_def keeps_table_def)

lemma keeps_sql_update:
  "(\<And>r r'. row_ok r \<Longrightarrow> f r = Some r' \<Longrightarrow> g r \<Longrightarrow> row_ok r') \<Longrightarrow>
    (\<And>r r'. f r = Some r' \<Longrightarrow> userID r' = userID r) \<Longrightarrow> keeps_table (sql_update g f)"
  by (simp add: keeps_table_def sql_update_ok)

lemma keeps_set_balance:
  "(\<And>r. row_ok r \<Longrightarrow> g r \<Longrightarrow> 0 \<le> v r) \<Longrightarrow> keeps_table (sql_update g (\<lambda>r. map_option (\<lambda>b. r\<lparr>balance := b\<rparr>) (to_column (v r))))"
  by (rule keeps_sql_update) (auto intro: row_ok_put)

lemma keeps_snd: "keeps_table m \<Longrightarrow> (\<And>us. snd (n us) = snd (m us)) \<Longrightarrow> keeps_table n"
  by (simp add: keeps_table_def)

lemma keeps_UpdateBalance: "fle f0 a \<Longrightarrow> keeps_table (UpdateBalance i a)"
  unfolding UpdateBalance_def
proof (rule keeps_amount_arg, rule keeps_snd)
  fix x assume "fle f0 a" "a = Fin x"
  then have "0 \<le> decimal_text x" by (simp add: fle_amount)
  then show "keeps_table (sql_update (\<lambda>r. userID r = i)
       (\<lambda>r. case (to_column (balance r + decimal_text x),
                  if flt f0 a then to_column (total_recharged r + decimal_text x) else Some (total_recharged r)) of
          (Some b, Some t) \<Rightarrow> Some (r\<lparr>balance := b, total_recharged := t\<rparr>) | _ \<Rightarrow> None))"
    by (intro keeps_sql_update) (auto simp: row_ok_def dest: to_column_ok numeric_bound split: option.splits if_splits)
qed simp

lemma keeps_AddBalance:
  assumes "fle f0 a" shows "keeps_table (AddBalance i a)"
proof -
  have "keeps_table (amount_arg a (\<lambda>a us.
        case sql_update (\<lambda>r. userID r = i) (\<lambda>r. map_option (\<lambda>b. r\<lparr>balance := b\<rparr>) (to_column (balance r + a))) us of
          (Inl e, us) \<Rightarrow> (Err e, us)
        | (Inr ms, us) \<Rightarrow> (if ms = [] then Err ErrUserNotFound else Ok (), us)))"
    using assms by (intro keeps_amount_arg keeps_snd [OF keeps_set_balance]) (auto simp: row_ok_def fle_amount)
  then show ?thesis by (simp add: keeps_table_def AddBalance_def)
qed

lemma keeps_ApplyRedeem: "keeps_table (ApplyRedeemBalanceAdjustment i a)"
  unfolding ApplyRedeemBalanceAdjustment_def
  by (intro keeps_amount_arg keeps_snd [OF keeps_set_balance]) auto

lemma keeps_Deduct: "keeps_table (DeductAvailableBalance i a)"
  unfolding DeductAvailableBalance_def
  by (intro keeps_amount_arg keeps_snd [OF keeps_set_balance]) (auto simp: row_ok_def)

lemma snd_current [simp]:
  "snd (case currentBalance i us of (Inl e, us) \<Rightarrow> (Err (f e), us) | (Inr v, us) \<Rightarrow> (h v, us)) = us"
  using currentBalance_snd [of i us] by (auto split: prod.split sum.split)

lemma keeps_AdjustBalance: "table_ok us \<Longrightarrow> table_ok (snd (AdjustBalance i a us))"
proof -
  assume ok: "table_ok us"
  let ?m = "amount_arg a (\<lambda>d us.
          case sql_update (\<lambda>r. live i r \<and> 0 \<le> balance r + d)
                 (\<lambda>r. map_option (\<lambda>b. r\<lparr>balance := b\<rparr>) (to_column (balance r + d))) us of
            (Inl e, us) \<Rightarrow> (Err e, us)
          | (Inr ms, us) \<Rightarrow> (Ok (map (\<lambda>m. \<lparr>Old = rnd (balance (snd m) - d), New = rnd (balance (snd m))\<rparr>) ms), us))"
  have "keeps_table ?m"
    by (intro keeps_amount_arg keeps_snd [OF keeps_set_balance]) auto
  moreover have "snd (AdjustBalance i a us) = snd (?m us)"
    unfolding AdjustBalance_def using currentBalance_snd
    by (auto split: prod.split sum.split list.split dest: arg_cong [where f = snd])
  ultimately show ?thesis using ok by (simp add: keeps_table_def)
qed

lemma keeps_SetBalance: "table_ok us \<Longrightarrow> table_ok (snd (SetBalance i a us))"
proof (cases "flt a f0")
  case False
  assume ok: "table_ok us"
  have "keeps_table (amount_arg a (\<lambda>v. sql_update (live i) (\<lambda>r. map_option (\<lambda>b. r\<lparr>balance := b\<rparr>) (to_column v))))"
    using False by (intro keeps_amount_arg keeps_set_balance) (auto intro: decimal_text_nonneg)
  then show ?thesis using ok False by (simp add: SetBalance_def keeps_table_def)
qed (simp add: SetBalance_def)

text \<open>
  C12: Starting from a table whose balances are non-negative and fit their columns,
  every wallet statement, whatever its amount and whether or not it succeeds,
  leaves such a table; only a credit must be called with a non-negative amount.
\<close>

theorem wallet_statements_keep_columns:
  assumes "table_ok us" "credits c"
  shows "table_ok (wallet_step c us)"
  using assms keeps_UpdateBalance keeps_AddBalance keeps_ApplyRedeem keeps_AdjustBalance keeps_SetBalance keeps_Deduct
  by (cases c) (simp_all add: keeps_table_def)

theorem wallet_statements_keep_columns_witness:
  "table_ok (wallet_step (Credit 1 (Fin 3)) [account0])"
  by (rule wallet_statements_keep_columns) (simp_all add: table_ok_def row_ok_def account0_def scaled_def)

end
