(* ===== verification/Amounts.thy ===== *)
theory Amounts
  imports OrderSafety Wallet
begin

text \<open>
  Amounts: recharge credits, fees, gateway refunds and integer API units, of
  internal/payment/amount_rules.go, fee.go, the rest of currency.go, the amount
  helpers of checkout.go and PaymentOrderAmountCurrency of order_snapshot.go.
  The decimal library (shopspring/decimal) is a parameter: a record of the
  functions the code calls, and \<open>decimal_laws\<close>, what its documentation promises of
  the values they return.
\<close>

section \<open>Decimal texts\<close>

text \<open>The text of n / 10^k with k fraction digits, and the reading of such texts (strconv.ParseFloat, without exponents).\<close>

fun pad_digits :: "nat \<Rightarrow> nat \<Rightarrow> string" where
  "pad_digits 0 n = []"
| "pad_digits (Suc k) n = pad_digits k (n div 10) @ [digit (n mod 10)]"

definition fixed :: "nat \<Rightarrow> int \<Rightarrow> string" where
  "fixed k n =
     (let m = nat \<bar>n\<bar>; body = dec_nat (m div 10 ^ k) @ (if k = 0 then [] else CHR ''.'' # pad_digits k (m mod 10 ^ k))
      in if n < 0 then CHR ''-'' # body else body)"

definition parse_decimal :: "string \<Rightarrow> rat option" where
  "parse_decimal s =
     (let neg = has_prefix s ''-'';
          body = (if neg \<or> has_prefix s ''+'' then tl s else s);
          whole = takeWhile (\<lambda>c. c \<noteq> CHR ''.'') body;
          frac = drop (Suc (length whole)) body;
          v = of_nat (digits_value (whole @ frac)) / 10 ^ length frac
      in if whole @ frac = [] \<or> \<not> list_all is_digit (whole @ frac) then None
         else Some (if neg then - v else v))"

definition ParseFloat :: "string \<Rightarrow> f64 option" where
  "ParseFloat s = (case parse_decimal s of None \<Rightarrow> None
     | Some v \<Rightarrow> (case rnd v of Fin x \<Rightarrow> Some (Fin x) | _ \<Rightarrow> None))"

text \<open>strconv.FormatFloat in format 'f' with precision -1.\<close>

fun frac_digits :: "nat \<Rightarrow> nat \<Rightarrow> rat \<Rightarrow> nat" where
  "frac_digits 0 k c = k"
| "frac_digits (Suc n) k c = (if of_int \<lfloor>c * 10 ^ k\<rfloor> = c * 10 ^ k then k else frac_digits n (Suc k) c)"

definition FormatFloat :: "f64 \<Rightarrow> string" where
  "FormatFloat v = (case v of
      NaN \<Rightarrow> ''NaN'' | PInf \<Rightarrow> ''+Inf'' | NInf \<Rightarrow> ''-Inf''
    | Fin x \<Rightarrow> let c = decimal_text x; k = frac_digits 400 0 c in fixed k \<lfloor>c * 10 ^ k\<rfloor>)"

section \<open>The decimal library\<close>

record 'd decimal =
  NewFromFloat :: "f64 \<Rightarrow> 'd"
  NewFromInt :: "int \<Rightarrow> 'd"
  NewFromString :: "string \<Rightarrow> 'd option"
  PowerOfTen :: "nat \<Rightarrow> 'd" \<comment> \<open>decimal.New(1, n)\<close>
  dAdd :: "'d \<Rightarrow> 'd \<Rightarrow> 'd"
  dMul :: "'d \<Rightarrow> 'd \<Rightarrow> 'd"
  dDiv :: "'d \<Rightarrow> 'd \<Rightarrow> 'd"
  dRound :: "nat \<Rightarrow> 'd \<Rightarrow> 'd"
  dRoundUp :: "nat \<Rightarrow> 'd \<Rightarrow> 'd"
  dEqual :: "'d \<Rightarrow> 'd \<Rightarrow> bool"
  dTruncate :: "nat \<Rightarrow> 'd \<Rightarrow> 'd"
  IntPart :: "'d \<Rightarrow> int"
  InexactFloat64 :: "'d \<Rightarrow> f64"
  StringFixed :: "nat \<Rightarrow> 'd \<Rightarrow> string"

definition dZero :: "'d decimal \<Rightarrow> 'd" where "dZero D = NewFromInt D 0"

section \<open>Amount rules\<close>

definition DefaultBalanceRechargeMultiplier :: f64 where "DefaultBalanceRechargeMultiplier = Fin 1"
definition ProviderAmountTolerance :: f64 where "ProviderAmountTolerance = rnd (1 / 100)"
definition BalanceCreditCeiling :: f64 where "BalanceCreditCeiling = Fin (10 ^ 12)"

record BalanceRechargeRates =
  Default :: f64
  Effective :: f64
  User :: "f64 option"

definition IsValidCreditedBalance :: "f64 \<Rightarrow> bool" where
  "IsValidCreditedBalance amount \<longleftrightarrow>
     flt f0 amount \<and> flt amount BalanceCreditCeiling \<and> amount \<noteq> NaN \<and> \<not> is_inf amount"

definition NormalizeBalanceRechargeMultiplier :: "f64 \<Rightarrow> f64" where
  "NormalizeBalanceRechargeMultiplier multiplier =
     (if multiplier = NaN \<or> is_inf multiplier \<or> fle multiplier f0 then DefaultBalanceRechargeMultiplier else multiplier)"

definition ResolveBalanceRechargeRates :: "f64 \<Rightarrow> f64 option \<Rightarrow> (perror, BalanceRechargeRates) result" where
  "ResolveBalanceRechargeRates global override =
     (let default = NormalizeBalanceRechargeMultiplier global in
      case override of
        None \<Rightarrow> Ok \<lparr>Default = default, Effective = default, User = None\<rparr>
      | Some val \<Rightarrow>
          if val = NaN \<or> is_inf val \<or> fle val f0
          then Err (App ''INVALID_BALANCE_RECHARGE_MULTIPLIER'' ''balance recharge multiplier must be a finite number greater than 0'')
          else Ok \<lparr>Default = default, Effective = val, User = Some val\<rparr>)"

definition NormalizeSubscriptionUSDToCNYRate :: "f64 \<Rightarrow> f64" where
  "NormalizeSubscriptionUSDToCNYRate rate = (if rate = NaN \<or> is_inf rate \<or> flt rate f0 then f0 else rate)"

definition CalculateCreditedBalance :: "'d decimal \<Rightarrow> f64 \<Rightarrow> f64 \<Rightarrow> f64" where
  "CalculateCreditedBalance D paymentAmount multiplier =
     InexactFloat64 D (dRound D 2 (dMul D (NewFromFloat D paymentAmount)
       (NewFromFloat D (NormalizeBalanceRechargeMultiplier multiplier))))"

definition CalculateGatewayRefundAmount :: "'d decimal \<Rightarrow> f64 \<Rightarrow> f64 \<Rightarrow> f64 \<Rightarrow> string \<Rightarrow> f64" where
  "CalculateGatewayRefundAmount D orderAmount payAmount refundAmount currency =
     (if fle orderAmount f0 \<or> fle payAmount f0 \<or> fle refundAmount f0 then f0
      else
        let fractionDigits = CurrencyMaxFractionDigits currency in
        if fle (fabs (fsub refundAmount orderAmount)) (PaymentAmountToleranceForCurrency currency)
        then InexactFloat64 D (dRound D fractionDigits (NewFromFloat D payAmount))
        else InexactFloat64 D (dRound D fractionDigits
          (dDiv D (dMul D (NewFromFloat D payAmount) (NewFromFloat D refundAmount)) (NewFromFloat D orderAmount))))"

section \<open>Fees\<close>

record FeeConfig =
  cfgFixedFee :: f64
  cfgFeeRate :: f64

record FeeBreakdown =
  BaseAmount :: f64
  FixedFee :: f64
  FeeRate :: f64
  FeeRateAmount :: f64
  FeeAmount :: f64
  fbPayAmount :: f64

definition CalculatePayAmountWithFeeForCurrency :: "'d decimal \<Rightarrow> f64 \<Rightarrow> FeeConfig \<Rightarrow> string \<Rightarrow> FeeBreakdown" where
  "CalculatePayAmountWithFeeForCurrency D baseAmount cfg currency =
     (let fractionDigits = CurrencyMaxFractionDigits currency;
          amount = dRound D fractionDigits (NewFromFloat D baseAmount);
          fixedFee = (if flt f0 (cfgFixedFee cfg) then dRound D fractionDigits (NewFromFloat D (cfgFixedFee cfg)) else dZero D);
          rateAmount = (if flt f0 (cfgFeeRate cfg)
            then dRoundUp D fractionDigits (dDiv D (dMul D amount (NewFromFloat D (cfgFeeRate cfg))) (NewFromInt D 100))
            else dZero D);
          feeAmount = dRound D fractionDigits (dAdd D fixedFee rateAmount);
          payAmount = dRound D fractionDigits (dAdd D amount feeAmount)
      in \<lparr>BaseAmount = InexactFloat64 D amount, FixedFee = InexactFloat64 D fixedFee, FeeRate = cfgFeeRate cfg,
          FeeRateAmount = InexactFloat64 D rateAmount, FeeAmount = InexactFloat64 D feeAmount,
          fbPayAmount = InexactFloat64 D payAmount\<rparr>)"

definition FormatAmountForCurrency :: "'d decimal \<Rightarrow> f64 \<Rightarrow> string \<Rightarrow> string" where
  "FormatAmountForCurrency D amount currency = StringFixed D (CurrencyMaxFractionDigits currency) (NewFromFloat D amount)"

definition PayAmountStringForCurrency :: "'d decimal \<Rightarrow> FeeBreakdown \<Rightarrow> string \<Rightarrow> string" where
  "PayAmountStringForCurrency D b currency =
     StringFixed D (CurrencyMaxFractionDigits currency) (NewFromFloat D (fbPayAmount b))"

definition CalculatePayAmountForCurrency :: "'d decimal \<Rightarrow> f64 \<Rightarrow> f64 \<Rightarrow> string \<Rightarrow> string" where
  "CalculatePayAmountForCurrency D rechargeAmount feeRate currency =
     PayAmountStringForCurrency D
       (CalculatePayAmountWithFeeForCurrency D rechargeAmount \<lparr>cfgFixedFee = f0, cfgFeeRate = feeRate\<rparr> currency) currency"

section \<open>Integer API units\<close>

definition AmountToMinorUnit :: "'d decimal \<Rightarrow> string \<Rightarrow> string \<Rightarrow> (perror, int) result" where
  "AmountToMinorUnit D amountStr currency =
     (case NewFromString D (trim_space amountStr) of
        None \<Rightarrow> Err (Plain ''invalid amount'')
      | Some d \<Rightarrow>
          (case NormalizePaymentCurrency currency of
             Inl e \<Rightarrow> Err e
           | Inr normalizedCurrency \<Rightarrow>
               let (apiMinorUnit, maxFractionDigits) = paymentCurrencyAmountUnitFor normalizedCurrency;
                   scaledForPrecision = dMul D d (PowerOfTen D maxFractionDigits)
               in if \<not> dEqual D scaledForPrecision (dTruncate D 0 scaledForPrecision) then
                    Err (Plain (if maxFractionDigits = 0 then ''payment amount must be a whole number''
                                else ''payment amount has too many decimal places''))
                  else Ok (IntPart D (dMul D d (PowerOfTen D apiMinorUnit)))))"

definition MinorUnitToAmount :: "'d decimal \<Rightarrow> int \<Rightarrow> string \<Rightarrow> f64" where
  "MinorUnitToAmount D val currency =
     InexactFloat64 D (dDiv D (NewFromInt D val) (PowerOfTen D (CurrencyMinorUnit currency)))"

definition YuanToFen :: "'d decimal \<Rightarrow> string \<Rightarrow> (perror, int) result" where
  "YuanToFen D yuanStr = AmountToMinorUnit D yuanStr DefaultPaymentCurrency"

definition FenToYuan :: "'d decimal \<Rightarrow> int \<Rightarrow> f64" where
  "FenToYuan D fen = MinorUnitToAmount D fen DefaultPaymentCurrency"

definition ProviderConfigCurrency :: "string \<Rightarrow> metadata \<Rightarrow> string" where
  "ProviderConfigCurrency providerKey cfg =
     (if trim_space providerKey = TypeStripe \<or> trim_space providerKey = TypeAirwallex then
        (case NormalizePaymentCurrency (md cfg ''currency'') of
           Inr currency \<Rightarrow> currency | Inl e \<Rightarrow> DefaultPaymentCurrency)
      else DefaultPaymentCurrency)"

definition PaymentOrderAmountCurrency :: "Order option \<Rightarrow> string" where
  "PaymentOrderAmountCurrency order =
     (case order of
        None \<Rightarrow> []
      | Some ord \<Rightarrow>
          if OrderType ord \<noteq> OrderTypeSubscription then []
          else let raw = trim_space (PlanCurrency (PlanSnapshot ord)) in
            if raw \<noteq> [] then
              (case NormalizePaymentCurrency raw of Inr currency \<Rightarrow> currency | Inl e \<Rightarrow> PaymentOrderCurrency ord)
            else PaymentOrderCurrency ord)"

section \<open>The charge of a new order\<close>

text \<open>The invalid amount error carries the inner error's text and the currency as metadata.\<close>

fun error_message :: "perror \<Rightarrow> string" where
  "error_message (App r m) = m"
| "error_message (Plain m) = m"
| "error_message (Wrap m e) = m @ '': '' @ error_message e"
| "error_message _ = []"

definition invalid_amount :: "perror \<Rightarrow> perror" where
  "invalid_amount e = App ''INVALID_AMOUNT'' (error_message e)"

definition ValidateCreateOrderAmountCurrency :: "'d decimal \<Rightarrow> f64 \<Rightarrow> string \<Rightarrow> (perror, unit) result" where
  "ValidateCreateOrderAmountCurrency D amount currency =
     (case AmountToMinorUnit D (FormatFloat amount) currency of
        Inl e \<Rightarrow> Err (invalid_amount e) | Inr _ \<Rightarrow> Ok ())"

definition CalculateCreateOrderPayAmount ::
  "'d decimal \<Rightarrow> f64 \<Rightarrow> FeeConfig \<Rightarrow> string \<Rightarrow> (perror, FeeBreakdown \<times> string \<times> f64) result" where
  "CalculateCreateOrderPayAmount D limitAmount methodFee currency =
     (case ValidateCreateOrderAmountCurrency D limitAmount currency of
        Inl e \<Rightarrow> Err e
      | Inr _ \<Rightarrow>
          let feeBreakdown = CalculatePayAmountWithFeeForCurrency D limitAmount methodFee currency;
              payAmountStr = PayAmountStringForCurrency D feeBreakdown currency
          in case AmountToMinorUnit D payAmountStr currency of
               Inl e \<Rightarrow> Err (invalid_amount e)
             | Inr _ \<Rightarrow>
                 (case ParseFloat payAmountStr of
                    None \<Rightarrow> Err (App ''INVALID_AMOUNT'' ''invalid payment amount'')
                  | Some payAmount \<Rightarrow> Ok (feeBreakdown, payAmountStr, payAmount)))"

definition CalculateSubscriptionGatewayBaseAmount :: "'d decimal \<Rightarrow> f64 \<Rightarrow> f64 \<Rightarrow> string \<Rightarrow> f64" where
  "CalculateSubscriptionGatewayBaseAmount D amount usdToCnyRate currency =
     (let rate = NormalizeSubscriptionUSDToCNYRate usdToCnyRate in
      if fle rate f0 \<or> currency \<noteq> DefaultPaymentCurrency then amount
      else InexactFloat64 D (dRound D (CurrencyMaxFractionDigits currency)
             (dMul D (NewFromFloat D amount) (NewFromFloat D rate))))"

definition CalculateCreateOrderPayAmountForOrderType ::
  "'d decimal \<Rightarrow> f64 \<Rightarrow> FeeConfig \<Rightarrow> string \<Rightarrow> string \<Rightarrow> f64 \<Rightarrow> (perror, FeeBreakdown \<times> string \<times> f64) result" where
  "CalculateCreateOrderPayAmountForOrderType D limitAmount methodFee currency orderType usdToCnyRate =
     (let paymentAmount = (if orderType = OrderTypeSubscription
            then CalculateSubscriptionGatewayBaseAmount D limitAmount usdToCnyRate currency else limitAmount)
      in CalculateCreateOrderPayAmount D paymentAmount methodFee currency)"

text \<open>A selected instance: its provider key and configuration.\<close>

definition ValidateSelectedCreateOrderAmountCurrency ::
  "'d decimal \<Rightarrow> string \<Rightarrow> (string \<times> metadata) option \<Rightarrow> (perror, unit) result" where
  "ValidateSelectedCreateOrderAmountCurrency D payAmount sel =
     (case sel of
        None \<Rightarrow> Ok ()
      | Some (providerKey, config) \<Rightarrow>
          (case AmountToMinorUnit D payAmount (ProviderConfigCurrency providerKey config) of
             Inl e \<Rightarrow> Err (invalid_amount e) | Inr _ \<Rightarrow> Ok ()))"

section \<open>What the library promises\<close>

definition round_at :: "nat \<Rightarrow> rat \<Rightarrow> rat" where
  "round_at k x = of_int (half_away (x * 10 ^ k)) / 10 ^ k"

definition up_at :: "nat \<Rightarrow> rat \<Rightarrow> rat" where
  "up_at k x = (if 0 \<le> x then of_int \<lceil>x * 10 ^ k\<rceil> else of_int \<lfloor>x * 10 ^ k\<rfloor>) / 10 ^ k"

definition trunc_at :: "nat \<Rightarrow> rat \<Rightarrow> rat" where
  "trunc_at k x = (if 0 \<le> x then of_int \<lfloor>x * 10 ^ k\<rfloor> else of_int \<lceil>x * 10 ^ k\<rceil>) / 10 ^ k"

text \<open>
  The value of a decimal under \<open>val\<close>: exact sums and products, quotients rounded at
  the sixteenth digit, the three roundings, the nearest float, the shortest decimal
  of a float, and texts that read back as the value they print.
\<close>

definition decimal_laws :: "'d decimal \<Rightarrow> ('d \<Rightarrow> rat) \<Rightarrow> bool" where
  "decimal_laws D val \<longleftrightarrow>
     (\<forall>x. is_f64 (Fin x) \<longrightarrow> val (NewFromFloat D (Fin x)) = decimal_text x) \<and>
     (\<forall>i. val (NewFromInt D i) = of_int i) \<and>
     (\<forall>s v. parse_decimal s = Some v \<longrightarrow> (\<exists>d. NewFromString D s = Some d \<and> val d = v)) \<and>
     (\<forall>n. val (PowerOfTen D n) = 10 ^ n) \<and>
     (\<forall>a b. val (dAdd D a b) = val a + val b) \<and>
     (\<forall>a b. val (dMul D a b) = val a * val b) \<and>
     (\<forall>a b. val b \<noteq> 0 \<longrightarrow> val (dDiv D a b) = round_at 16 (val a / val b)) \<and>
     (\<forall>k a. val (dRound D k a) = round_at k (val a)) \<and>
     (\<forall>k a. val (dRoundUp D k a) = up_at k (val a)) \<and>
     (\<forall>a b. dEqual D a b \<longleftrightarrow> val a = val b) \<and>
     (\<forall>k a. val (dTruncate D k a) = trunc_at k (val a)) \<and>
     (\<forall>a i. trunc_at 0 (val a) = of_int i \<and> - (2 ^ 63) \<le> i \<and> i < 2 ^ 63 \<longrightarrow> IntPart D a = i) \<and>
     (\<forall>a. InexactFloat64 D a = rnd (val a)) \<and>
     (\<forall>k a. parse_decimal (StringFixed D k a) = Some (round_at k (val a)))"

lemma decimal_law:
  assumes "decimal_laws D val"
  shows "is_f64 (Fin x) \<Longrightarrow> val (NewFromFloat D (Fin x)) = decimal_text x" "val (NewFromInt D i) = of_int i"
    "parse_decimal s = Some v \<Longrightarrow> \<exists>d. NewFromString D s = Some d \<and> val d = v" "val (PowerOfTen D m) = 10 ^ m"
    "val (dMul D a b) = val a * val b" "val b \<noteq> 0 \<Longrightarrow> val (dDiv D a b) = round_at 16 (val a / val b)"
    "dEqual D a b \<longleftrightarrow> val a = val b" "val (dTruncate D k a) = trunc_at k (val a)"
    "InexactFloat64 D a = rnd (val a)" "parse_decimal (StringFixed D k a) = Some (round_at k (val a))"
    "val (dRound D k a) = round_at k (val a)" "val (dRoundUp D k a) = up_at k (val a)" "val (dAdd D a b) = val a + val b"
  using assms by (simp_all add: decimal_laws_def)

lemma decimal_IntPart:
  "decimal_laws D val \<Longrightarrow> trunc_at 0 (val a) = of_int i \<Longrightarrow> - (2 ^ 63) \<le> i \<Longrightarrow> i < 2 ^ 63 \<Longrightarrow> IntPart D a = i"
  unfolding decimal_laws_def by blast

text \<open>Exact rationals under the same roundings obey them.\<close>

definition rat_decimal :: "rat decimal" where
  "rat_decimal = \<lparr>NewFromFloat = \<lambda>v. case v of Fin x \<Rightarrow> decimal_text x | _ \<Rightarrow> 0, NewFromInt = of_int,
     NewFromString = parse_decimal, PowerOfTen = \<lambda>n. 10 ^ n, dAdd = (+), dMul = (*),
     dDiv = \<lambda>a b. round_at 16 (a / b), dRound = round_at, dRoundUp = up_at, dEqual = (=), dTruncate = trunc_at,
     IntPart = \<lambda>a. \<lfloor>trunc_at 0 a\<rfloor>, InexactFloat64 = rnd, StringFixed = \<lambda>k a. fixed k (half_away (a * 10 ^ k))\<rparr>"

section \<open>Lemmas: texts\<close>

lemma length_pad_digits [simp]: "length (pad_digits k n) = k"
  by (induction k arbitrary: n) auto

lemma digit_mod: "is_digit (digit (n mod 10))" "digits_value [digit (n mod 10)] = n mod 10"
proof -
  have "n mod 10 < 10" by simp
  note v = of_char_digit [OF this]
  show "is_digit (digit (n mod 10))" unfolding is_digit_def v using \<open>n mod 10 < 10\<close> by linarith
  show "digits_value [digit (n mod 10)] = n mod 10" unfolding digits_value_def foldl.simps v by simp
qed

lemma pad_digits_digits: "list_all is_digit (pad_digits k n)"
  by (induction k arbitrary: n) (simp_all add: digit_mod)

lemma digits_value_append: "digits_value (a @ b) = digits_value a * 10 ^ length b + digits_value b"
proof -
  have "foldl (\<lambda>v c. 10 * v + (of_char c - 48)) x b = x * 10 ^ length b + digits_value b" for x
  proof (induction b rule: rev_induct)
    case (snoc c b)
    then show ?case by (simp add: digits_value_def algebra_simps)
  qed (simp add: digits_value_def)
  then show ?thesis unfolding digits_value_def foldl_append .
qed

lemma digits_value_pad: "n < 10 ^ k \<Longrightarrow> digits_value (pad_digits k n) = n"
proof (induction k arbitrary: n)
  case (Suc k)
  have "n div 10 < 10 ^ k" using Suc.prems by auto
  then show ?case using Suc.IH [of "n div 10"] by (simp add: digits_value_append digit_mod)
qed (simp add: digits_value_def)

lemma digit_no_point: "is_digit c \<Longrightarrow> c \<noteq> CHR ''.''"
  by (auto simp: is_digit_def)

lemma digits_no_point: "list_all is_digit s \<Longrightarrow> takeWhile (\<lambda>c. c \<noteq> CHR ''.'') s = s"
  unfolding takeWhile_eq_all_conv list_all_iff using digit_no_point by blast

lemma digits_point: "list_all is_digit s \<Longrightarrow> takeWhile (\<lambda>c. c \<noteq> CHR ''.'') (s @ CHR ''.'' # t) = s"
  by (induction s) (auto simp: is_digit_def)

lemma parse_fixed_body:
  fixes m k :: nat
  defines "body \<equiv> dec_nat (m div 10 ^ k) @ (if k = 0 then [] else CHR ''.'' # pad_digits k (m mod 10 ^ k))"
  shows "takeWhile (\<lambda>c. c \<noteq> CHR ''.'') body = dec_nat (m div 10 ^ k)"
    "drop (Suc (length (dec_nat (m div 10 ^ k)))) body = pad_digits k (m mod 10 ^ k)"
    "digits_value (dec_nat (m div 10 ^ k) @ pad_digits k (m mod 10 ^ k)) = m"
    "\<not> has_prefix body ''-''" "\<not> has_prefix body ''+''"
proof -
  note d = dec_nat_digits [of "m div 10 ^ k"]
  show "takeWhile (\<lambda>c. c \<noteq> CHR ''.'') body = dec_nat (m div 10 ^ k)"
    using d digits_no_point [of "dec_nat (m div 10 ^ k)"] by (cases "k = 0") (simp_all add: body_def digits_point)
  show "drop (Suc (length (dec_nat (m div 10 ^ k)))) body = pad_digits k (m mod 10 ^ k)"
    by (cases "k = 0") (auto simp: body_def)
  show "digits_value (dec_nat (m div 10 ^ k) @ pad_digits k (m mod 10 ^ k)) = m"
    by (simp only: digits_value_append digits_value_dec_nat digits_value_pad length_pad_digits pos_mod_bound
      mod_less_divisor zero_less_power zero_less_numeral div_mult_mod_eq)
  have "has_prefix body p \<longleftrightarrow> has_prefix (dec_nat (m div 10 ^ k)) p" if "length p = 1" for p
    using d that by (cases p; cases "dec_nat (m div 10 ^ k)") (auto simp: body_def has_prefix_def)
  then show "\<not> has_prefix body ''-''" "\<not> has_prefix body ''+''"
    using digit_not_sign [of "dec_nat (m div 10 ^ k)"] d by simp_all
qed

lemma parse_fixed: "parse_decimal (fixed k n) = Some (of_int n / 10 ^ k)"
proof -
  let ?m = "nat \<bar>n\<bar>"
  let ?body = "dec_nat (?m div 10 ^ k) @ (if k = 0 then [] else CHR ''.'' # pad_digits k (?m mod 10 ^ k))"
  note b = parse_fixed_body [of ?m k]
  have digits: "list_all is_digit (dec_nat (?m div 10 ^ k) @ pad_digits k (?m mod 10 ^ k))"
    "dec_nat (?m div 10 ^ k) \<noteq> []" using dec_nat_digits [of "?m div 10 ^ k"] pad_digits_digits by simp_all
  show ?thesis
  proof (cases "n < 0")
    case True
    then have f: "fixed k n = CHR ''-'' # ?body" by (simp add: fixed_def Let_def)
    have "has_prefix (CHR ''-'' # ?body) ''-''" by (simp add: has_prefix_def)
    then show ?thesis using True b digits unfolding f parse_decimal_def Let_def by (simp only:) simp
  next
    case False
    then have f: "fixed k n = ?body" by (simp add: fixed_def Let_def)
    then show ?thesis using False b digits unfolding f parse_decimal_def Let_def by (simp only:) simp
  qed
qed

lemma decimal_laws_rat: "decimal_laws rat_decimal (\<lambda>x. x)"
  by (auto simp: decimal_laws_def rat_decimal_def parse_fixed round_at_def)

section \<open>Lemmas: roundings\<close>

lemma decimal_from_exact: "rnd x = Fin x \<Longrightarrow> rnd (decimal_from n k x) = Fin x"
  by (induction n arbitrary: k) (simp_all add: Let_def)

lemma decimal_text_exact: "is_f64 (Fin x) \<Longrightarrow> rnd (decimal_text x) = Fin x"
  by (simp add: is_f64_def decimal_text_def decimal_from_exact)

lemma decimal_text_mono: "is_f64 (Fin x) \<Longrightarrow> is_f64 (Fin y) \<Longrightarrow> x \<le> y \<Longrightarrow> decimal_text x \<le> decimal_text y"
proof (rule ccontr)
  assume a: "is_f64 (Fin x)" "is_f64 (Fin y)" "x \<le> y" "\<not> decimal_text x \<le> decimal_text y"
  then have "fle (rnd (decimal_text y)) (rnd (decimal_text x))" by (intro rnd_mono) simp
  then have "y \<le> x" using a(1,2) by (simp add: decimal_text_exact)
  then show False using a(3,4) by auto
qed

lemma decimal_text_pos: "is_f64 (Fin x) \<Longrightarrow> 0 < x \<Longrightarrow> 0 < decimal_text x"
  using decimal_text_nonneg [of x] decimal_text_exact [of x] by (cases "decimal_text x = 0") auto

lemma round_at_mono: "x \<le> y \<Longrightarrow> round_at k x \<le> round_at k y"
  unfolding round_at_def by (intro divide_right_mono) (simp_all add: half_away_mono mult_right_mono)

lemma round_at_scaled [simp]: "scaled k (round_at k x)" "scaled k (up_at k x)"
  by (auto simp: round_at_def up_at_def scaled_frac)

lemma round_at_id: "scaled k x \<Longrightarrow> k \<le> m \<Longrightarrow> round_at m x = x"
  unfolding round_at_def by (rule rnd_half_away) (rule scaled_mono)

lemma round_at_error: "\<bar>round_at k x - x\<bar> \<le> 1 / 2 / 10 ^ k"
proof -
  have "round_at k x - x = (of_int (half_away (x * 10 ^ k)) - x * 10 ^ k) / 10 ^ k"
    by (simp add: round_at_def field_simps)
  then show ?thesis using half_away_error [of "x * 10 ^ k"] by (simp add: abs_divide divide_le_eq)
qed

lemma round_at_nonneg: "0 \<le> x \<Longrightarrow> 0 \<le> round_at k x"
  by (simp add: round_at_def half_away_nonneg)

lemma up_at_bounds: "0 \<le> x \<Longrightarrow> x \<le> up_at k x \<and> up_at k x < x + 1 / 10 ^ k"
proof -
  assume "0 \<le> x"
  moreover have "x * 10 ^ k \<le> of_int \<lceil>x * 10 ^ k\<rceil>" "of_int \<lceil>x * 10 ^ k\<rceil> < x * 10 ^ k + 1" by linarith+
  ultimately show ?thesis by (simp add: up_at_def field_simps)
qed

lemma currency_unit_bounds:
  "CurrencyMaxFractionDigits c \<le> 3" "snd (paymentCurrencyAmountUnitFor c) \<le> fst (paymentCurrencyAmountUnitFor c)"
  "fst (paymentCurrencyAmountUnitFor c) \<le> 3"
proof -
  have "u = (0, 0) \<or> u = (2, 0) \<or> u = (3, 3)" if "map_of paymentCurrencyAmountUnits n = Some u" for n u
    using map_of_SomeD [OF that] by (auto simp: paymentCurrencyAmountUnits_def)
  then have "\<exists>u. paymentCurrencyAmountUnitFor c = u \<and> u \<in> {(0, 0), (2, 0), (2, 2), (3, 3)}"
    by (auto simp: paymentCurrencyAmountUnitFor_def split: sum.split option.split)
  then show "CurrencyMaxFractionDigits c \<le> 3" "snd (paymentCurrencyAmountUnitFor c) \<le> fst (paymentCurrencyAmountUnitFor c)"
    "fst (paymentCurrencyAmountUnitFor c) \<le> 3"
    by (auto simp: CurrencyMaxFractionDigits_def)
qed

section \<open>Properties\<close>

text \<open>
  C25: A refund of part of an order asks the gateway for at most the charge: within
  the tolerance of the whole order exactly the charge, and otherwise its share
  of the charge, off by at most half a unit of the currency.
\<close>

theorem gateway_refund_bounded:
  fixes D :: "'d decimal"
  assumes laws: "decimal_laws D val" and "is_f64 (Fin orderA)" "is_f64 (Fin pay)" "is_f64 (Fin refund)"
    "0 < orderA" "0 < pay" "0 < refund"
    "scaled (CurrencyMaxFractionDigits cur) (decimal_text pay)"
    "refund \<le> orderA \<or> fle (fabs (fsub (Fin refund) (Fin orderA))) (PaymentAmountToleranceForCurrency cur)"
  shows "let g = CalculateGatewayRefundAmount D (Fin orderA) (Fin pay) (Fin refund) cur in
    fle f0 g \<and> fle g (Fin pay) \<and>
    (if fle (fabs (fsub (Fin refund) (Fin orderA))) (PaymentAmountToleranceForCurrency cur) then g = Fin pay
     else \<exists>q. g = rnd q \<and> scaled (CurrencyMaxFractionDigits cur) q \<and>
       \<bar>q - decimal_text pay * decimal_text refund / decimal_text orderA\<bar>
         \<le> 1 / 2 / 10 ^ CurrencyMaxFractionDigits cur + 1 / 2 / 10 ^ 16)"
proof -
  let ?k = "CurrencyMaxFractionDigits cur"
  let ?g = "CalculateGatewayRefundAmount D (Fin orderA) (Fin pay) (Fin refund) cur"
  have k: "?k \<le> 16" using currency_unit_bounds(1) [of cur] by linarith
  note pos = decimal_text_pos [OF assms(2,5)] decimal_text_pos [OF assms(3,6)] decimal_text_pos [OF assms(4,7)]
  show ?thesis
  proof (cases "fle (fabs (fsub (Fin refund) (Fin orderA))) (PaymentAmountToleranceForCurrency cur)")
    case True
    then have "?g = rnd (round_at ?k (decimal_text pay))"
      using assms by (simp add: CalculateGatewayRefundAmount_def decimal_laws_def)
    then have "?g = Fin pay" using round_at_id [OF assms(8) order_refl] assms(3) by (simp add: decimal_text_exact)
    then show ?thesis using True assms(6) by simp
  next
    case False
    then have le: "refund \<le> orderA" using assms(9) by blast
    let ?q = "decimal_text pay * decimal_text refund / decimal_text orderA"
    let ?r = "round_at ?k (round_at 16 ?q)"
    have g: "?g = rnd ?r" using False assms pos by (simp add: CalculateGatewayRefundAmount_def decimal_laws_def)
    have "?q \<le> decimal_text pay"
      using decimal_text_mono [OF assms(4,2) le] pos by (simp add: divide_le_eq mult_left_mono)
    then have "?r \<le> round_at ?k (round_at 16 (decimal_text pay))" by (intro round_at_mono)
    also have "\<dots> = decimal_text pay" using round_at_id [OF assms(8)] k by simp
    finally have "fle (rnd ?r) (rnd (decimal_text pay))" by (rule rnd_mono)
    then have upper: "fle ?g (Fin pay)" using assms(3) g by (simp add: decimal_text_exact)
    have "0 \<le> ?q" using pos by simp
    then have lower: "fle f0 ?g" unfolding g by (intro rnd_nonneg round_at_nonneg)
    have "\<bar>?r - ?q\<bar> \<le> 1 / 2 / 10 ^ ?k + 1 / 2 / 10 ^ 16"
      using round_at_error [of ?k "round_at 16 ?q"] round_at_error [of 16 ?q] unfolding abs_le_iff by linarith
    then show ?thesis using False upper lower g round_at_scaled(1) unfolding Let_def by auto
  qed
qed

text \<open>
  The charge is exactly the rounded base plus the two fees, the percentage fee
  is rounded up on the rounded base (never less than the exact fee, up to the
  sixteenth digit of the division, and less than one unit more), and the
  breakdown shows the floats nearest to these amounts.
\<close>

theorem fee_breakdown_adds_up:
  fixes D :: "'d decimal"
  assumes laws: "decimal_laws D val" and "is_f64 (Fin x)" "0 \<le> x" "is_f64 (Fin f)" "is_f64 (Fin q)"
  shows "let k = CurrencyMaxFractionDigits cur; b = round_at k (decimal_text x);
      ff = (if 0 < f then round_at k (decimal_text f) else 0); exact = b * decimal_text q / 100 in
    \<exists>r. CalculatePayAmountWithFeeForCurrency D (Fin x) \<lparr>cfgFixedFee = Fin f, cfgFeeRate = Fin q\<rparr> cur =
        \<lparr>BaseAmount = rnd b, FixedFee = rnd ff, FeeRate = Fin q, FeeRateAmount = rnd r,
         FeeAmount = rnd (ff + r), fbPayAmount = rnd (b + ff + r)\<rparr> \<and>
      (if 0 < q then exact - 1 / 2 / 10 ^ 16 \<le> r \<and> r < exact + 1 / 10 ^ k + 1 / 2 / 10 ^ 16 else r = 0)"
proof -
  let ?k = "CurrencyMaxFractionDigits cur"
  let ?b = "round_at ?k (decimal_text x)"
  let ?f = "if 0 < f then round_at ?k (decimal_text f) else 0"
  let ?e = "?b * decimal_text q / 100"
  let ?r = "if 0 < q then up_at ?k (round_at 16 ?e) else 0"
  have fs: "scaled ?k ?f" and rs: "scaled ?k ?r" by simp_all
  have "round_at ?k (?f + ?r) = ?f + ?r" "round_at ?k (?b + (?f + ?r)) = ?b + (?f + ?r)"
    by (rule round_at_id [OF scaled_add [OF fs rs] order_refl],
        rule round_at_id [OF scaled_add [OF round_at_scaled(1) scaled_add [OF fs rs]] order_refl])
  then have sums: "round_at ?k (?f + ?r) = ?f + ?r" "round_at ?k (?b + (?f + ?r)) = ?b + ?f + ?r"
    by (simp_all only: add.assoc)
  have "CalculatePayAmountWithFeeForCurrency D (Fin x) \<lparr>cfgFixedFee = Fin f, cfgFeeRate = Fin q\<rparr> cur =
        \<lparr>BaseAmount = rnd ?b, FixedFee = rnd ?f, FeeRate = Fin q, FeeRateAmount = rnd ?r,
         FeeAmount = rnd (?f + ?r), fbPayAmount = rnd (?b + ?f + ?r)\<rparr>"
    using assms sums by (auto simp: CalculatePayAmountWithFeeForCurrency_def decimal_laws_def dZero_def Let_def)
  moreover have "if 0 < q then ?e - 1 / 2 / 10 ^ 16 \<le> ?r \<and> ?r < ?e + 1 / 10 ^ ?k + 1 / 2 / 10 ^ 16 else ?r = 0"
  proof (cases "0 < q")
    case True
    have "0 \<le> ?e" using decimal_text_pos [OF assms(5) True] round_at_nonneg [OF decimal_text_nonneg [OF assms(3)], of ?k] by simp
    then have "0 \<le> round_at 16 ?e" by (rule round_at_nonneg)
    from up_at_bounds [OF this, of ?k] show ?thesis
      using round_at_error [of 16 ?e] by (simp only: True if_True abs_le_iff) linarith
  qed simp
  ultimately show ?thesis unfolding Let_def by blast
qed

lemma trunc_at_id: "scaled k x \<Longrightarrow> trunc_at k x = x"
proof -
  assume "scaled k x"
  then have i: "of_int \<lfloor>x * 10 ^ k\<rfloor> = x * 10 ^ k" unfolding scaled_def .
  then have "\<lceil>x * 10 ^ k\<rceil> = \<lfloor>x * 10 ^ k\<rfloor>" by (metis ceiling_of_int)
  then show ?thesis unfolding trunc_at_def by (simp only: i if_cancel) simp
qed

lemma trunc_at_scaled: "scaled k (trunc_at k x)"
  by (simp add: trunc_at_def scaled_frac)

lemma scaled_shift: "scaled 0 (x * 10 ^ k) \<longleftrightarrow> scaled k x"
  by (simp add: scaled_def)

text \<open>
  C26: An amount text is accepted exactly if it fits the currency's fraction digits,
  and then it is encoded exactly in API units, and decoding those units gives the
  amount back.
\<close>

theorem minor_units_roundtrip:
  fixes D :: "'d decimal"
  assumes laws: "decimal_laws D val" and "parse_decimal (trim_space s) = Some v"
    "NormalizePaymentCurrency c = Ok n" "paymentCurrencyAmountUnitFor n = (api, digits)" "\<bar>v\<bar> * 10 ^ api < 2 ^ 63"
  shows "if scaled digits v
    then \<exists>i. AmountToMinorUnit D s c = Ok i \<and> of_int i = v * 10 ^ api \<and> MinorUnitToAmount D i n = rnd v
    else \<exists>e. AmountToMinorUnit D s c = Err e"
proof -
  obtain d where d: "NewFromString D (trim_space s) = Some d" "val d = v"
    using decimal_law(3) [OF laws assms(2)] by blast
  have eq: "dEqual D (dMul D d (PowerOfTen D digits)) (dTruncate D 0 (dMul D d (PowerOfTen D digits))) \<longleftrightarrow>
      v * 10 ^ digits = trunc_at 0 (v * 10 ^ digits)"
    using d(2) by (simp add: decimal_law [OF laws])
  have fits: "v * 10 ^ digits = trunc_at 0 (v * 10 ^ digits) \<longleftrightarrow> scaled digits v"
    using trunc_at_id [of 0 "v * 10 ^ digits"] trunc_at_scaled [of 0 "v * 10 ^ digits"] scaled_shift by metis
  show ?thesis
  proof (cases "scaled digits v")
    case True
    have api: "digits \<le> api" "api \<le> 16" using currency_unit_bounds(2,3) [of n] assms(4) by simp_all
    let ?i = "\<lfloor>v * 10 ^ api\<rfloor>"
    have i: "of_int ?i = v * 10 ^ api" using scaled_mono [OF True api(1)] unfolding scaled_def .
    have "trunc_at 0 (v * 10 ^ api) = of_int ?i"
      unfolding i by (rule trunc_at_id) (simp only: scaled_shift scaled_mono [OF True api(1)])
    moreover have "- (2 ^ 63) \<le> ?i \<and> ?i < 2 ^ 63"
    proof -
      have "\<bar>v * 10 ^ api\<bar> < 2 ^ 63" using assms(5) by (simp add: abs_mult)
      then have "\<bar>of_int ?i :: rat\<bar> < of_int (2 ^ 63)" unfolding i by simp
      then have "\<bar>?i\<bar> < 2 ^ 63" by (simp only: of_int_less_iff flip: of_int_abs)
      then show ?thesis by linarith
    qed
    ultimately have "IntPart D (dMul D d (PowerOfTen D api)) = ?i"
      using d(2) by (intro decimal_IntPart [OF laws]) (simp_all add: decimal_law [OF laws])
    then have ok: "AmountToMinorUnit D s c = Ok ?i"
      using d(1) assms(3,4) eq fits True by (simp add: AmountToMinorUnit_def)
    have "val (NewFromInt D ?i) / val (PowerOfTen D api) = v"
      by (simp only: decimal_law [OF laws] i) simp
    moreover have "val (PowerOfTen D api) \<noteq> 0" by (simp add: decimal_law [OF laws])
    ultimately have "val (dDiv D (NewFromInt D ?i) (PowerOfTen D api)) = round_at 16 v"
      using decimal_law(6) [OF laws, of "PowerOfTen D api" "NewFromInt D ?i"] by metis
    also have "\<dots> = v" using api by (intro round_at_id [OF True]) simp
    finally have "MinorUnitToAmount D ?i n = rnd v"
      using assms(4) by (simp add: MinorUnitToAmount_def CurrencyMinorUnit_def decimal_law(9) [OF laws])
    then show ?thesis unfolding if_P [OF True] using ok i by blast
  next
    case False
    then show ?thesis using d(1) assms(3,4) eq fits by (simp add: AmountToMinorUnit_def)
  qed
qed

section \<open>A third decimal\<close>

lemma tolerance_three_decimals:
  assumes "CurrencyMinorUnit cur = 3"
  shows "fle (PaymentAmountToleranceForCurrency cur) (Fin (3 / 4096))"
proof -
  have "rnd (1 / 1000) = Fin (round53 (1 / 1000))" by (rule rnd_small) simp
  moreover have "\<bar>round53 (1 / 1000) - 1 / 1000\<bar> \<le> p2 (int 0 - 53)" by (rule round53_error) simp
  then have "\<bar>round53 (1 / 1000) - 1 / 1000\<bar> \<le> 1 / 2 ^ 20" by (simp add: power_int_def power_divide)
  then have "round53 (1 / 1000) / 2 \<le> 3 / 4096" unfolding abs_le_iff by simp
  moreover have "rnd (3 / 4096) = Fin (3 / 4096)"
    by (rule rnd_exact) (unfold representable_def, intro exI [of _ 3] exI [of _ "- 12"], simp add: power_int_def power_divide, rule small_abs, simp)
  moreover have "rnd (2 :: rat) = Fin 2" by (rule rnd_numeral) simp
  ultimately show ?thesis
    using assms rnd_le_exact by (simp add: PaymentAmountToleranceForCurrency_def fdiv_def)
qed

lemma round53_abs: "round53 \<bar>y\<bar> = \<bar>round53 y\<bar>"
  by (simp add: round53_def)

text \<open>
  In a currency of three decimals the order row keeps only two of the charge.
  A provider reporting the exact charge is refused as an amount mismatch whenever
  the third decimal is not zero, so such an order is paid and never delivered.
\<close>

theorem third_decimal_never_confirmed:
  assumes "CurrencyMinorUnit (PaymentOrderCurrency ord) = 3"
    "PayAmount ord = db_numeric 2 (rnd c)" "scaled 3 c" "\<not> scaled 2 c" "0 < c" "c \<le> 2 ^ 29"
  shows "fst (ConfirmPayment sv ord tradeNo (rnd c) pk m w) = Err (Plain ''amount mismatch'')"
proof -
  have pc: "precise 3 30 c" using assms(3,5,6) by (simp add: precise_def)
  note c = precise_Fin [OF pc]
  let ?e = "round_at 2 c"
  have printed: "decimal_text (round53 c) = c" by (rule decimal_text_precise [OF pc _ c]) simp
  have stored: "PayAmount ord = rnd ?e" using assms(2) by (simp add: c db_numeric_def printed round_at_def)
  have err: "\<bar>?e - c\<bar> \<le> 1 / 200" using round_at_error [of 2 c] by simp
  have e: "\<bar>?e\<bar> \<le> 2 ^ 30" "\<bar>c\<bar> \<le> 2 ^ 30" using err assms(5,6) unfolding abs_le_iff by simp_all
  have e': "rnd ?e = Fin (round53 ?e)" using e by (intro rnd_small) simp
  have apart: "1 / 1000 \<le> \<bar>c - ?e\<bar>"
  proof (rule ccontr)
    assume small: "\<not> 1 / 1000 \<le> \<bar>c - ?e\<bar>"
    have s: "scaled 3 (c - ?e)" by (intro scaled_diff assms(3) scaled_mono [OF round_at_scaled(1)]) simp
    then have i: "of_int \<lfloor>(c - ?e) * 10 ^ 3\<rfloor> = (c - ?e) * 10 ^ 3" unfolding scaled_def .
    have "\<bar>(c - ?e) * 10 ^ 3\<bar> < 1" using small by (simp add: abs_mult del: left_diff_distrib_numeral)
    then have "\<bar>of_int \<lfloor>(c - ?e) * 10 ^ 3\<rfloor> :: rat\<bar> < 1" by (simp only: i)
    then have "\<lfloor>(c - ?e) * 10 ^ 3\<rfloor> = 0" by linarith
    then have "c = ?e" using i by simp
    then show False using assms(4) round_at_scaled(1) by metis
  qed
  have "\<bar>round53 c - c\<bar> \<le> p2 (int 30 - 53)" "\<bar>round53 ?e - ?e\<bar> \<le> p2 (int 30 - 53)"
    by (rule round53_error; rule e)+
  then have near: "\<bar>round53 c - c\<bar> \<le> 1 / 2 ^ 23" "\<bar>round53 ?e - ?e\<bar> \<le> 1 / 2 ^ 23"
    by (simp_all add: power_int_def power_divide)
  have gap: "1 / 1024 \<le> \<bar>round53 c - round53 ?e\<bar>"
    using apart near by (simp add: abs_le_iff abs_if split: if_splits)
  have exact: "rnd (1 / 1024) = Fin (1 / 1024)"
    by (rule rnd_exact) (unfold representable_def, intro exI [of _ 1] exI [of _ "- 10"], simp add: power_int_def power_divide, rule small_abs, simp)
  have "\<bar>round53 c - round53 ?e\<bar> \<le> 2 ^ 52"
    using near e unfolding abs_le_iff by simp
  then have sym: "fabs (rnd (round53 c - round53 ?e)) = rnd \<bar>round53 c - round53 ?e\<bar>"
    by (simp add: rnd_small round53_abs)
  have "fle (Fin (1 / 1024)) (rnd \<bar>round53 c - round53 ?e\<bar>)"
    using rnd_mono [OF gap] by (simp only: exact)
  then have big: "fle (Fin (1 / 1024)) (fabs (fsub (rnd c) (PayAmount ord)))"
    by (simp only: stored c e' fsub_Fin sym)
  have "flt (PaymentAmountToleranceForCurrency (PaymentOrderCurrency ord)) (Fin (1 / 1024))"
    by (rule fle_flt_trans [OF tolerance_three_decimals [OF assms(1)]]) simp
  then have "flt (PaymentAmountToleranceForCurrency (PaymentOrderCurrency ord)) (fabs (fsub (rnd c) (PayAmount ord)))"
    using big by (rule flt_fle_trans)
  moreover have "IsValidProviderAmount (rnd c)"
    using rnd_pos [OF pc assms(5)] by (simp add: IsValidProviderAmount_def c is_inf_def)
  ultimately show ?thesis by (simp add: ConfirmPayment_def)
qed

section \<open>Witnesses\<close>

lemma f64_nat: "(numeral k :: int) \<le> 2 ^ 53 \<Longrightarrow> is_f64 (Fin (numeral k))"
  by (simp add: is_f64_def rnd_numeral)

lemma text_nat: "(numeral k :: int) \<le> 2 ^ 29 \<Longrightarrow> decimal_text (numeral k) = numeral k"
proof -
  assume k: "(numeral k :: int) \<le> 2 ^ 29"
  have "of_int (numeral k) \<le> (of_int (2 ^ 29) :: rat)" using k by (simp only: of_int_le_iff)
  then have r: "(numeral k :: rat) \<le> 2 ^ 29" by (simp only: of_int_numeral of_int_power)
  have "\<bar>numeral k :: rat\<bar> + 2 \<le> 2 ^ 30" by (rule order_trans [OF add_right_mono, of _ "2 ^ 29"]) (simp only: abs_numeral r, simp)
  moreover have "scaled 0 (numeral k)" by (simp add: scaled_def)
  moreover have "(4 :: nat) * 10 ^ 0 * 2 ^ 30 \<le> 2 ^ 53" by simp
  ultimately have "precise 0 30 (numeral k)" unfolding precise_def by blast
  moreover have "rnd (numeral k) = Fin (numeral k)" by (rule rnd_numeral, rule order_trans [OF k]) simp
  ultimately show ?thesis by (rule decimal_text_precise [OF _ zero_less_numeral])
qed

theorem gateway_refund_bounded_witness:
  "let g = CalculateGatewayRefundAmount rat_decimal (Fin 100) (Fin 104) (Fin 50) ''CNY'' in
    fle f0 g \<and> fle g (Fin 104) \<and>
    (if fle (fabs (fsub (Fin 50) (Fin 100))) (PaymentAmountToleranceForCurrency ''CNY'') then g = Fin 104
     else \<exists>q. g = rnd q \<and> scaled (CurrencyMaxFractionDigits ''CNY'') q \<and>
       \<bar>q - decimal_text 104 * decimal_text 50 / decimal_text 100\<bar>
         \<le> 1 / 2 / 10 ^ CurrencyMaxFractionDigits ''CNY'' + 1 / 2 / 10 ^ 16)"
  by (rule gateway_refund_bounded [OF decimal_laws_rat f64_nat f64_nat f64_nat])
    (simp_all add: text_nat scaled_def)

theorem fee_breakdown_adds_up_witness:
  "let k = CurrencyMaxFractionDigits ''CNY''; b = round_at k (decimal_text 100);
      ff = (if 0 < (2 :: rat) then round_at k (decimal_text 2) else 0); exact = b * decimal_text 3 / 100 in
    \<exists>r. CalculatePayAmountWithFeeForCurrency rat_decimal (Fin 100) \<lparr>cfgFixedFee = Fin 2, cfgFeeRate = Fin 3\<rparr> ''CNY'' =
        \<lparr>BaseAmount = rnd b, FixedFee = rnd ff, FeeRate = Fin 3, FeeRateAmount = rnd r,
         FeeAmount = rnd (ff + r), fbPayAmount = rnd (b + ff + r)\<rparr> \<and>
      (if 0 < (3 :: rat) then exact - 1 / 2 / 10 ^ 16 \<le> r \<and> r < exact + 1 / 10 ^ k + 1 / 2 / 10 ^ 16 else r = 0)"
  by (rule fee_breakdown_adds_up [OF decimal_laws_rat f64_nat _ f64_nat f64_nat]) simp_all

lemma cny: "NormalizePaymentCurrency ''CNY'' = Ok ''CNY''" "paymentCurrencyAmountUnitFor ''CNY'' = (2, 2)"
  "NormalizePaymentCurrency ''KWD'' = Ok ''KWD''" "paymentCurrencyAmountUnitFor ''KWD'' = (3, 3)"
  "parse_decimal (trim_space ''12.5'') = Some (25 / 2)"
  by code_simp+

theorem minor_units_roundtrip_witness:
  "if scaled 2 (25 / 2)
    then \<exists>i. AmountToMinorUnit rat_decimal ''12.5'' ''CNY'' = Ok i \<and> of_int i = (25 / 2 :: rat) * 10 ^ 2 \<and>
      MinorUnitToAmount rat_decimal i ''CNY'' = rnd (25 / 2)
    else \<exists>e. AmountToMinorUnit rat_decimal ''12.5'' ''CNY'' = Err e"
  by (rule minor_units_roundtrip [OF decimal_laws_rat cny(5,1,2)]) simp

definition kwd_order :: Order where
  "kwd_order = (order0 OrderStatusPending)\<lparr>ProviderSnapshot := [(''currency'', JString ''KWD'')],
     PayAmount := db_numeric 2 (rnd (12345 / 1000))\<rparr>"

lemma kwd_currency: "PaymentOrderCurrency kwd_order = ''KWD''" "CurrencyMinorUnit ''KWD'' = 3"
proof -
  have "trim_space ''KWD'' = ''KWD''" by code_simp
  then show "PaymentOrderCurrency kwd_order = ''KWD''"
    by (simp add: PaymentOrderCurrency_def kwd_order_def PsOrderProviderSnapshot_def PsSnapshotStringValue_def
      PsSnapshotIntValue_def cny)
  show "CurrencyMinorUnit ''KWD'' = 3" by (simp add: CurrencyMinorUnit_def cny)
qed

theorem third_decimal_never_confirmed_witness:
  "fst (ConfirmPayment services0 kwd_order ''t'' (rnd (12345 / 1000)) ''stripe'' [] (quiet_conn (world0 OrderStatusPending)))
    = Err (Plain ''amount mismatch'')"
proof (rule third_decimal_never_confirmed)
  show "CurrencyMinorUnit (PaymentOrderCurrency kwd_order) = 3" by (simp add: kwd_currency)
  show "\<not> scaled 2 (12345 / 1000)" "scaled 3 (12345 / 1000)"
  proof -
    have "\<lfloor>12345 / 1000 * 10 ^ 2 :: rat\<rfloor> = 1234" by (simp add: floor_eq_iff)
    then show "\<not> scaled 2 (12345 / 1000)" unfolding scaled_def by (simp only:) simp
    have "(12345 / 1000 * 10 ^ 3 :: rat) = of_int 12345" by simp
    then show "scaled 3 (12345 / 1000)" unfolding scaled_def by (simp only: floor_of_int)
  qed
qed (simp_all add: kwd_order_def)

end
