(* ===== verification/RefundStore.thy ===== *)
theory RefundStore
  imports Amounts OrderLifecycle
begin

text \<open>
  The refund records and transactions: internal/payment/refund_contract.go and
  internal/payment/postgres/refund.go.  A transaction is one call to the database
  server: it commits its whole effect or none.  The entitlement changes bound to
  it (\<open>rights\<close>) act on the rest of the world and are undone with it.  Audit details
  are decoded JSON objects.  The operation identity drawn at random is an
  argument, and log output is left out.
\<close>

section \<open>The contract\<close>

definition DeductionTypeBalance :: string where "DeductionTypeBalance = ''balance''"
definition DeductionTypeSubscription :: string where "DeductionTypeSubscription = ''subscription''"
definition DeductionTypeNone :: string where "DeductionTypeNone = ''none''"

lemmas deduction_types = DeductionTypeBalance_def DeductionTypeSubscription_def DeductionTypeNone_def

definition ErrRefundOutcomeUnknown :: perror where "ErrRefundOutcomeUnknown = Plain ''refund outcome is unknown''"

record RefundPlan =
  OrderID :: int
  rpOrder :: Order
  rpRefundAmount :: f64
  GatewayAmount :: f64
  Reason :: string
  Force :: bool
  rpDeductBalance :: bool
  rpDeductionType :: string
  BalanceToDeduct :: f64
  SubDaysToDeduct :: int
  rpSubscriptionID :: int
  rpOperationID :: string
  ChannelRefundID :: string

record RefundResult =
  Success :: bool
  Warning :: string
  RequireForce :: bool
  resBalanceDeducted :: f64
  resSubDaysDeducted :: int

definition refund_result :: RefundResult where
  "refund_result = \<lparr>Success = False, Warning = [], RequireForce = False, resBalanceDeducted = f0, resSubDaysDeducted = 0\<rparr>"

record RefundPendingDetail =
  RefundID :: string
  dDeductBalance :: bool
  dDeductionType :: string
  BalanceDeducted :: f64
  SubDaysDeducted :: int
  dSubscriptionID :: int
  DeductionRollbackOK :: bool
  dOperationID :: string

record RefundReceipt =
  rVersion :: int
  rOperationID :: string
  rOrderID :: int
  OperationVersion :: instant
  PreviousStatus :: string
  rRefundAmount :: f64
  rGatewayAmount :: f64
  rReason :: string
  rForce :: bool
  detail :: RefundPendingDetail

text \<open>The entitlement operations bound to the transaction.\<close>

record 'g rights =
  DeductBalance :: "int \<Rightarrow> f64 \<Rightarrow> 'g \<Rightarrow> (perror, f64) result \<times> 'g"
  CompensateBalance :: "int \<Rightarrow> f64 \<Rightarrow> 'g \<Rightarrow> (perror, unit) result \<times> 'g"
  AdjustSubscription :: "int \<Rightarrow> int \<Rightarrow> 'g \<Rightarrow> (perror, unit) result \<times> 'g"
  RevokeSubscription :: "int \<Rightarrow> 'g \<Rightarrow> (perror, unit) result \<times> 'g"

text \<open>A callback of the store: it returns the plan with the quantities it changed.\<close>

type_synonym 'g mutation = "'g rights \<Rightarrow> RefundPlan \<Rightarrow> 'g \<Rightarrow> (perror, RefundPlan) result \<times> 'g"

definition RefundRecoveryRequired :: "string \<Rightarrow> perror" where
  "RefundRecoveryRequired reason =
     App ''REFUND_RECOVERY_REQUIRED'' ''refund recovery requires manual verification''"

definition refundConflict :: perror where
  "refundConflict = App ''CONFLICT'' ''order status changed''"

section \<open>Transactions\<close>

type_synonym ('g, 'a) tx = "('g sys, 'a) trans"

definition transaction :: "('g, 'a) tx \<Rightarrow> ('g, 'a) op" where
  "transaction m w = (case db_call (atomically m) w of (Inl e, w) \<Rightarrow> (Err e, w) | (Inr r, w) \<Rightarrow> (r, w))"

definition entitlement :: "('g \<Rightarrow> (perror, 'a) result \<times> 'g) \<Rightarrow> ('g, 'a) tx" where
  "entitlement f s = (case f (rest s) of (r, g) \<Rightarrow> (r, s\<lparr>rest := g\<rparr>))"

definition order_row :: "int \<Rightarrow> ('g, Order) tx" where
  "order_row i s = (only_row (filter (\<lambda>ord. ID ord = i) (rows s)), s)"

text \<open>UpdateOneID: no matching row is an error.\<close>

definition update_order :: "int \<Rightarrow> (instant \<Rightarrow> Order \<Rightarrow> Order) \<Rightarrow> ('g, unit) tx" where
  "update_order i f s =
     (case update_rows (\<lambda>ord. ID ord = i) (\<lambda>now ord. (f now ord)\<lparr>UpdatedAt := now\<rparr>) s of
        (n, s') \<Rightarrow> if n = 0 then (Err RowNotFound, s) else (Ok (), s'))"

section \<open>JSON\<close>

text \<open>Encoding fails for a number that is not finite.\<close>

definition jfloat :: "f64 \<Rightarrow> jvalue option" where
  "jfloat v = (case v of Fin x \<Rightarrow> Some (JFloat x) | _ \<Rightarrow> None)"

type_synonym jfields = "(string \<times> jvalue) list"

definition marshal_receipt :: "RefundReceipt \<Rightarrow> jfields option" where
  "marshal_receipt r =
     (case (jfloat (rRefundAmount r), jfloat (rGatewayAmount r), jfloat (BalanceDeducted (detail r))) of
        (Some ra, Some ga, Some bd) \<Rightarrow> Some
          [(''version'', JInt (rVersion r)), (''operationID'', JString (rOperationID r)), (''orderID'', JInt (rOrderID r)),
           (''operationVersion'', JTime (OperationVersion r)), (''previousStatus'', JString (PreviousStatus r)),
           (''refundAmount'', ra), (''gatewayAmount'', ga), (''reason'', JString (rReason r)), (''force'', JBool (rForce r)),
           (''refundID'', JString (RefundID (detail r))), (''deductBalance'', JBool (dDeductBalance (detail r))),
           (''deductionType'', JString (dDeductionType (detail r))), (''balanceDeducted'', bd),
           (''subDaysDeducted'', JInt (SubDaysDeducted (detail r))), (''subscriptionID'', JInt (dSubscriptionID (detail r))),
           (''deductionRollbackOK'', JBool (DeductionRollbackOK (detail r)))]
      | _ \<Rightarrow> None)"

text \<open>
  Decoding a field: absent and null keep the default, a value of another type is
  an error.
\<close>

definition jfield :: "jfields \<Rightarrow> string \<Rightarrow> 'a \<Rightarrow> (jvalue \<Rightarrow> 'a option) \<Rightarrow> 'a option" where
  "jfield fs k d f = (case map_of fs k of None \<Rightarrow> Some d | Some JNull \<Rightarrow> Some d | Some v \<Rightarrow> f v)"

fun as_string :: "jvalue \<Rightarrow> string option" where
  "as_string (JString s) = Some s"
| "as_string _ = None"

fun as_int :: "jvalue \<Rightarrow> int option" where
  "as_int (JInt n) = Some n"
| "as_int _ = None"

fun as_float :: "jvalue \<Rightarrow> f64 option" where
  "as_float (JInt n) = Some (rnd (of_int n))"
| "as_float (JFloat x) = Some (Fin x)"
| "as_float _ = None"

fun as_bool :: "jvalue \<Rightarrow> bool option" where
  "as_bool (JBool b) = Some b"
| "as_bool _ = None"

fun as_time :: "jvalue \<Rightarrow> instant option" where
  "as_time (JTime t) = Some t"
| "as_time _ = None"

fun as_array :: "jvalue \<Rightarrow> jvalue list option" where
  "as_array (JArray vs) = Some vs"
| "as_array _ = None"

text \<open>The detail into a value whose rollback flag starts as given.\<close>

definition unmarshal_detail :: "bool \<Rightarrow> jfields \<Rightarrow> RefundPendingDetail option" where
  "unmarshal_detail rollbackOK fs =
     (case (jfield fs ''refundID'' [] as_string, jfield fs ''deductBalance'' False as_bool,
            jfield fs ''deductionType'' [] as_string, jfield fs ''balanceDeducted'' f0 as_float) of
        (Some ri, Some db, Some dt, Some bd) \<Rightarrow>
          (case (jfield fs ''subDaysDeducted'' 0 as_int, jfield fs ''subscriptionID'' 0 as_int,
                 jfield fs ''deductionRollbackOK'' rollbackOK as_bool, jfield fs ''operationID'' [] as_string) of
             (Some sd, Some si, Some rb, Some opid) \<Rightarrow>
               Some \<lparr>RefundID = ri, dDeductBalance = db, dDeductionType = dt, BalanceDeducted = bd, SubDaysDeducted = sd,
                 dSubscriptionID = si, DeductionRollbackOK = rb, dOperationID = opid\<rparr>
           | _ \<Rightarrow> None)
      | _ \<Rightarrow> None)"

text \<open>The embedded detail's own operationID is shadowed by the receipt's.\<close>

definition unmarshal_receipt :: "jfields \<Rightarrow> RefundReceipt option" where
  "unmarshal_receipt fs =
     (case (jfield fs ''version'' 0 as_int, jfield fs ''operationID'' [] as_string, jfield fs ''orderID'' 0 as_int,
            jfield fs ''operationVersion'' zero_time as_time, jfield fs ''previousStatus'' [] as_string) of
        (Some v, Some opid, Some oid, Some ov, Some ps) \<Rightarrow>
          (case (jfield fs ''refundAmount'' f0 as_float, jfield fs ''gatewayAmount'' f0 as_float,
                 jfield fs ''reason'' [] as_string, jfield fs ''force'' False as_bool, unmarshal_detail False fs) of
             (Some ra, Some ga, Some re, Some fo, Some d) \<Rightarrow>
               Some \<lparr>rVersion = v, rOperationID = opid, rOrderID = oid, OperationVersion = ov, PreviousStatus = ps,
                 rRefundAmount = ra, rGatewayAmount = ga, rReason = re, rForce = fo, detail = d\<lparr>dOperationID := []\<rparr>\<rparr>
           | _ \<Rightarrow> None)
      | _ \<Rightarrow> None)"

section \<open>Audit documents\<close>

definition audit_detail :: "int \<Rightarrow> string \<Rightarrow> 'g sys \<Rightarrow> jvalue option" where
  "audit_detail i action s =
     map_option (\<lambda>a. snd (snd (snd a))) (find (\<lambda>a. fst a = i \<and> fst (snd a) = action) (audits s))"

definition put_audit :: "int \<Rightarrow> string \<Rightarrow> jvalue \<Rightarrow> 'g sys \<Rightarrow> 'g sys" where
  "put_audit i action d s =
     (if has_audit i action s
      then s\<lparr>audits := map (\<lambda>a. if fst a = i \<and> fst (snd a) = action then (i, action, ''admin'', d) else a) (audits s)\<rparr>
      else add_audit i action ''admin'' d s)"

definition add_missing :: "string \<Rightarrow> jvalue \<Rightarrow> jfields \<Rightarrow> jfields" where
  "add_missing k v fs = (if map_of fs k = None then fs @ [(k, v)] else fs)"

text \<open>The documents a previous record brings along: its own history and itself without it.\<close>

definition audit_history :: "jvalue \<Rightarrow> (perror, jvalue list) result" where
  "audit_history previous =
     (case previous of
        JObject pf \<Rightarrow>
          (case jfield pf ''history'' [] as_array of
             None \<Rightarrow> Err (RefundRecoveryRequired ''previous audit history malformed'')
           | Some history \<Rightarrow>
               Ok (history @ [JObject (add_missing ''recordedAt'' JOther (filter (\<lambda>p. fst p \<noteq> ''history'') pf))]))
      | _ \<Rightarrow> Err (RefundRecoveryRequired ''previous audit record malformed''))"

definition refundAudit :: "int \<Rightarrow> string \<Rightarrow> jfields option \<Rightarrow> ('g, unit) tx" where
  "refundAudit i action doc s =
     (case doc of
        None \<Rightarrow> (Err (Plain ''marshal refund audit''), s)
      | Some fs \<Rightarrow>
          let current = add_missing ''version'' (JInt 1) (filter (\<lambda>p. fst p \<noteq> ''recordedAt'') fs @ [(''recordedAt'', JTime (wall s))])
          in case audit_detail i action s of
               None \<Rightarrow> (Ok (), put_audit i action (JObject current) s)
             | Some previous \<Rightarrow>
                 (case audit_history previous of
                    Inl e \<Rightarrow> (Err e, s)
                  | Inr history \<Rightarrow> (Ok (), put_audit i action
                      (JObject (filter (\<lambda>p. fst p \<noteq> ''history'') current @ [(''history'', JArray history)])) s)))"

section \<open>Reading the documents back\<close>

definition validRefundAmount :: "f64 \<Rightarrow> bool" where
  "validRefundAmount v \<longleftrightarrow> fle f0 v \<and> v \<noteq> NaN \<and> \<not> is_inf v"

definition validRefundDeduction :: "RefundPendingDetail \<Rightarrow> bool \<Rightarrow> bool" where
  "validRefundDeduction d legacy =
     (if dSubscriptionID d < 0 \<or> \<not> validRefundAmount (BalanceDeducted d) \<or> SubDaysDeducted d < 0 then False
      else if \<not> legacy \<and> \<not> dDeductBalance d \<and> (BalanceDeducted d \<noteq> f0 \<or> SubDaysDeducted d \<noteq> 0) then False
      else if dDeductionType d = DeductionTypeNone then
        BalanceDeducted d = f0 \<and> SubDaysDeducted d = 0 \<and> dSubscriptionID d = 0
      else if dDeductionType d = DeductionTypeBalance then SubDaysDeducted d = 0 \<and> dSubscriptionID d = 0
      else if dDeductionType d = DeductionTypeSubscription then BalanceDeducted d = f0
      else if dDeductionType d = [] then legacy
      else False)"

definition receipt_fields :: "string list" where
  "receipt_fields = [''version'', ''operationID'', ''orderID'', ''operationVersion'', ''previousStatus'', ''refundAmount'',
     ''gatewayAmount'', ''reason'', ''force'', ''deductBalance'', ''deductionType'', ''balanceDeducted'',
     ''subDaysDeducted'', ''subscriptionID'']"

definition present :: "jfields \<Rightarrow> string \<Rightarrow> bool" where
  "present fs k \<longleftrightarrow> map_of fs k \<noteq> None \<and> map_of fs k \<noteq> Some JNull"

definition readRefundReceipt :: "int \<Rightarrow> ('g, RefundReceipt) tx" where
  "readRefundReceipt i s =
     (case audit_detail i ''REFUND_PREPARED'' s of
        None \<Rightarrow> (Err (RefundRecoveryRequired ''preparation record unavailable''), s)
      | Some (JObject fs) \<Rightarrow>
          if \<not> list_all (present fs) receipt_fields
          then (Err (RefundRecoveryRequired ''preparation record incomplete''), s)
          else (case unmarshal_receipt fs of
             None \<Rightarrow> (Err (RefundRecoveryRequired ''preparation record malformed''), s)
           | Some r \<Rightarrow>
               if rVersion r \<noteq> 1 \<or> rOperationID r = [] \<or> rOrderID r \<noteq> i \<or> is_zero (OperationVersion r) \<or>
                  \<not> validRefundAmount (rRefundAmount r) \<or> \<not> validRefundAmount (rGatewayAmount r) \<or>
                  \<not> validRefundAmount (BalanceDeducted (detail r)) \<or> SubDaysDeducted (detail r) < 0 \<or>
                  \<not> validRefundDeduction (detail r) False
               then (Err (RefundRecoveryRequired ''preparation record invalid''), s)
               else (Ok r, s))
      | Some _ \<Rightarrow> (Err (RefundRecoveryRequired ''preparation record malformed''), s))"

definition RefundRecovery_tx :: "Order \<Rightarrow> ('g, RefundReceipt) tx" where
  "RefundRecovery_tx ord =
     tx_then (readRefundReceipt (ID ord)) (\<lambda>r.
       tx_return (if Status ord \<noteq> OrderStatusRefunding \<or> UpdatedAt ord \<noteq> OperationVersion r \<or>
            RefundAmount ord \<noteq> rRefundAmount r \<or> ForceRefund ord \<noteq> rForce r \<or> RefundReason ord \<noteq> Some (rReason r)
          then Err (RefundRecoveryRequired ''preparation record contradicts order'') else Ok r))"

text \<open>The identity check of a pending refund's latest record; an unset detail decodes with a false rollback flag.\<close>

definition matchPendingRefundIdentity :: "int \<Rightarrow> string \<Rightarrow> string \<Rightarrow> ('g, unit) tx" where
  "matchPendingRefundIdentity i operationID refundID s =
     (case audit_detail i ''REFUND_PENDING'' s of
        None \<Rightarrow> (Err (RefundRecoveryRequired ''pending identity unavailable''), s)
      | Some d \<Rightarrow>
          (case (case d of JObject fs \<Rightarrow> unmarshal_detail False fs | JNull \<Rightarrow> unmarshal_detail False [] | _ \<Rightarrow> None) of
             None \<Rightarrow> (Err (RefundRecoveryRequired ''pending identity malformed''), s)
           | Some actual \<Rightarrow>
               (if dOperationID actual \<noteq> operationID \<or> RefundID actual \<noteq> refundID then Err refundConflict else Ok (), s)))"

definition same_deduction :: "RefundPendingDetail \<Rightarrow> RefundPendingDetail \<Rightarrow> bool" where
  "same_deduction a b \<longleftrightarrow> dDeductBalance a = dDeductBalance b \<and> dDeductionType a = dDeductionType b \<and>
     BalanceDeducted a = BalanceDeducted b \<and> SubDaysDeducted a = SubDaysDeducted b \<and> dSubscriptionID a = dSubscriptionID b"

text \<open>The pending detail of a refund; a recorded operation must agree with the preparation record.\<close>

definition decode_pending :: "jvalue option \<Rightarrow> (perror, RefundPendingDetail) result" where
  "decode_pending doc =
     (case doc of
        None \<Rightarrow> Err (RefundRecoveryRequired ''pending record unavailable'')
      | Some (JObject fs) \<Rightarrow>
          if \<not> present fs ''deductBalance'' then Err (RefundRecoveryRequired ''pending record malformed or incomplete'')
          else (case unmarshal_detail True fs of
             None \<Rightarrow> Err (RefundRecoveryRequired ''pending deduction invalid'')
           | Some d \<Rightarrow>
               if \<not> validRefundAmount (BalanceDeducted d) \<or> SubDaysDeducted d < 0 \<or> \<not> validRefundDeduction d True
               then Err (RefundRecoveryRequired ''pending deduction invalid'')
               else if dDeductBalance d \<and> map_of fs ''balanceDeducted'' = None \<and> map_of fs ''subDaysDeducted'' = None
               then Err (RefundRecoveryRequired ''pending deduction missing'')
               else if map_of fs ''version'' \<noteq> None \<and>
                  (jfield fs ''version'' 0 as_int \<noteq> Some 1 \<or> dOperationID d = [] \<or> \<not> validRefundDeduction d False)
               then Err (RefundRecoveryRequired ''pending record version or deduction invalid'')
               else Ok d)
      | Some _ \<Rightarrow> Err (RefundRecoveryRequired ''pending record malformed or incomplete''))"

definition PendingDetail :: "int \<Rightarrow> ('g, RefundPendingDetail) op" where
  "PendingDetail i w =
     (case db_call (reads (audit_detail i ''REFUND_PENDING'')) w of
        (Inl e, w) \<Rightarrow> (Err (RefundRecoveryRequired ''pending record unavailable''), w)
      | (Inr doc, w) \<Rightarrow>
          (case decode_pending doc of
             Inl e \<Rightarrow> (Err e, w)
           | Inr d \<Rightarrow>
               if dOperationID d = [] then (Ok d, w)
               else (case transaction (readRefundReceipt i) w of
                  (Inl e, w) \<Rightarrow> (Err (RefundRecoveryRequired ''pending preparation mismatch''), w)
                | (Inr r, w) \<Rightarrow>
                    (if rOperationID r \<noteq> dOperationID d \<or> \<not> same_deduction (detail r) d
                     then Err (RefundRecoveryRequired ''pending preparation mismatch'') else Ok d, w))))"

section \<open>The store\<close>

definition claimRefund :: "int \<Rightarrow> string \<Rightarrow> instant \<Rightarrow> string \<Rightarrow> ('g, unit) tx" where
  "claimRefund i expectedStatus expectedVersion status =
     tx_then (order_row i) (\<lambda>current.
       if Status current \<noteq> expectedStatus \<or> UpdatedAt current \<noteq> expectedVersion then tx_return (Err refundConflict)
       else update_order i (\<lambda>now ord. ord\<lparr>Status := status\<rparr>))"

definition refund_receipt :: "string \<Rightarrow> RefundPlan \<Rightarrow> RefundPlan \<Rightarrow> Order \<Rightarrow> RefundReceipt" where
  "refund_receipt operationID p local ord =
     \<lparr>rVersion = 1, rOperationID = operationID, rOrderID = OrderID p, OperationVersion = UpdatedAt ord,
      PreviousStatus = Status (rpOrder p), rRefundAmount = rpRefundAmount p, rGatewayAmount = GatewayAmount p,
      rReason = Reason p, rForce = Force p,
      detail = \<lparr>RefundID = [], dDeductBalance = rpDeductBalance p, dDeductionType = rpDeductionType p,
        BalanceDeducted = BalanceToDeduct local, SubDaysDeducted = SubDaysToDeduct local,
        dSubscriptionID = rpSubscriptionID p, DeductionRollbackOK = False, dOperationID = []\<rparr>\<rparr>"

definition record_preparation :: "string \<Rightarrow> RefundPlan \<Rightarrow> RefundPlan \<Rightarrow> ('g, RefundReceipt \<times> RefundPlan) tx" where
  "record_preparation operationID p local =
     tx_then (update_order (OrderID p) (\<lambda>now ord. ord\<lparr>RefundAmount := db_numeric 2 (rpRefundAmount p),
         RefundReason := Some (Reason p), ForceRefund := Force p\<rparr>)) (\<lambda>_.
     tx_then (order_row (OrderID p)) (\<lambda>ord.
       let receipt = refund_receipt operationID p local ord
       in if \<not> validRefundDeduction (detail receipt) False
          then tx_return (Err (RefundRecoveryRequired ''preparation deduction is contradictory''))
          else tx_then (refundAudit (OrderID p) ''REFUND_PREPARED'' (marshal_receipt receipt)) (\<lambda>_.
            tx_return (Ok (receipt, local\<lparr>rpOperationID := operationID\<rparr>)))))"

definition PrepareRefund_tx :: "'g rights \<Rightarrow> string \<Rightarrow> RefundPlan \<Rightarrow> 'g mutation \<Rightarrow> ('g, RefundReceipt \<times> RefundPlan) tx" where
  "PrepareRefund_tx R operationID p apply_rights =
     tx_then (claimRefund (ID (rpOrder p)) (Status (rpOrder p)) (UpdatedAt (rpOrder p)) OrderStatusRefunding) (\<lambda>_.
     tx_then (\<lambda>s. tx_check (\<not> has_audit (OrderID p) ''REFUND_ROLLBACK_FAILED'' s)
       (RefundRecoveryRequired ''legacy deduction rollback failure'') s) (\<lambda>_.
     tx_then (entitlement (apply_rights R p)) (record_preparation operationID p)))"

definition PrepareRefund_store ::
  "'g rights \<Rightarrow> string \<Rightarrow> RefundPlan \<Rightarrow> 'g mutation \<Rightarrow> ('g, RefundReceipt \<times> RefundPlan) op" where
  "PrepareRefund_store R operationID p apply_rights w =
     (if Status (rpOrder p) \<notin> {OrderStatusCompleted, OrderStatusRefundRequested, OrderStatusRefundPending, OrderStatusRefundFailed}
      then (Err refundConflict, w)
      else transaction (PrepareRefund_tx R operationID p apply_rights) w)"

definition expected_claim :: "RefundPlan \<Rightarrow> RefundReceipt option \<Rightarrow> ('g, unit) tx" where
  "expected_claim p r =
     (case r of
        Some r \<Rightarrow>
          tx_then (readRefundReceipt (OrderID p)) (\<lambda>current.
            if rOperationID current \<noteq> rOperationID r \<or> OperationVersion current \<noteq> OperationVersion r
            then tx_return (Err refundConflict)
            else claimRefund (ID (rpOrder p)) OrderStatusRefunding (OperationVersion r) OrderStatusRefunding)
      | None \<Rightarrow>
          if Status (rpOrder p) \<noteq> OrderStatusRefundPending then tx_return (Err refundConflict)
          else tx_then (matchPendingRefundIdentity (OrderID p) (rpOperationID p) (ChannelRefundID p)) (\<lambda>_.
            claimRefund (ID (rpOrder p)) (Status (rpOrder p)) (UpdatedAt (rpOrder p)) OrderStatusRefunding))"

definition jnumber :: "f64 \<Rightarrow> string \<Rightarrow> jfields option \<Rightarrow> jfields option" where
  "jnumber v k doc = (case (jfloat v, doc) of (Some x, Some fs) \<Rightarrow> Some ((k, x) # fs) | _ \<Rightarrow> None)"

definition CompleteRefund_tx ::
  "'g rights \<Rightarrow> RefundPlan \<Rightarrow> RefundReceipt option \<Rightarrow> 'g mutation option \<Rightarrow> ('g, RefundResult) tx" where
  "CompleteRefund_tx R p r apply_rights =
     tx_then (expected_claim p r) (\<lambda>_.
     tx_then (case apply_rights of None \<Rightarrow> tx_return (Ok p) | Some f \<Rightarrow> entitlement (f R p)) (\<lambda>local.
       let status = (if flt (rpRefundAmount local) (Amount (rpOrder local)) then OrderStatusPartiallyRefunded else OrderStatusRefunded)
       in tx_then (update_order (OrderID p) (\<lambda>now ord. ord\<lparr>Status := status,
            RefundAmount := db_numeric 2 (rpRefundAmount local), RefundReason := Some (Reason local),
            RefundAt := Some now, ForceRefund := Force local\<rparr>)) (\<lambda>_.
          tx_then (refundAudit (OrderID p) ''REFUND_SUCCESS''
            (jnumber (rpRefundAmount local) ''refundAmount'' (jnumber (BalanceToDeduct local) ''balanceDeducted''
              (Some [(''reason'', JString (Reason local)), (''subDaysDeducted'', JInt (SubDaysToDeduct local)),
                (''force'', JBool (Force local)), (''operationID'', JString (rpOperationID local))])))) (\<lambda>_.
          tx_return (Ok (refund_result\<lparr>Success := True, resBalanceDeducted := BalanceToDeduct local,
            resSubDaysDeducted := SubDaysToDeduct local\<rparr>))))))"

definition CompleteRefund ::
  "'g rights \<Rightarrow> RefundPlan \<Rightarrow> RefundReceipt option \<Rightarrow> 'g mutation option \<Rightarrow> ('g, RefundResult) op" where
  "CompleteRefund R p r apply_rights = transaction (CompleteRefund_tx R p r apply_rights)"

text \<open>A nonempty failure restores the order's former status; otherwise the refund is pending.\<close>

definition CompensateRefund_tx ::
  "'g rights \<Rightarrow> RefundPlan \<Rightarrow> RefundReceipt \<Rightarrow> string \<Rightarrow> string \<Rightarrow> 'g mutation \<Rightarrow> ('g, unit) tx" where
  "CompensateRefund_tx R p r refundID failure apply_rights =
     tx_then (expected_claim p (Some r)) (\<lambda>_.
     tx_then (\<lambda>s. case entitlement (apply_rights R p) s of
         (Inl e, s) \<Rightarrow> (Err (Wrap ''refund compensation failed'' e), s) | (Inr l, s) \<Rightarrow> (Ok l, s)) (\<lambda>local.
     if failure \<noteq> [] then
       let status = (if PreviousStatus r = OrderStatusRefundRequested then OrderStatusRefundRequested else OrderStatusCompleted)
       in tx_then (update_order (OrderID p) (\<lambda>now ord. ord\<lparr>Status := status\<rparr>)) (\<lambda>_.
          refundAudit (OrderID p) ''REFUND_GATEWAY_FAILED'' (Some [(''detail'', JString failure),
            (''operationID'', JString (rOperationID r)), (''deductionRollbackOK'', JBool True)]))
     else
       tx_then (update_order (OrderID p) (\<lambda>now ord. ord\<lparr>Status := OrderStatusRefundPending,
           RefundAmount := db_numeric 2 (rpRefundAmount p), RefundReason := Some (Reason p), RefundAt := None,
           ForceRefund := Force p, FailedAt := None, FailedReason := None\<rparr>)) (\<lambda>_.
         refundAudit (OrderID p) ''REFUND_PENDING''
           (jnumber (rpRefundAmount p) ''refundAmount'' (jnumber (BalanceToDeduct p) ''balanceDeducted''
             (jnumber (BalanceToDeduct p) ''balanceRolledBack''
               (Some [(''refundID'', JString refundID), (''reason'', JString (Reason p)), (''force'', JBool (Force p)),
                 (''deductBalance'', JBool (rpDeductBalance p)), (''deductionType'', JString (rpDeductionType p)),
                 (''subDaysDeducted'', JInt (SubDaysToDeduct p)), (''subscriptionID'', JInt (rpSubscriptionID p)),
                 (''subDaysRolledBack'', JInt (SubDaysToDeduct p)), (''deductionRollbackOK'', JBool True),
                 (''operationID'', JString (rOperationID r)), (''version'', JInt 1)])))))))"

definition CompensateRefund ::
  "'g rights \<Rightarrow> RefundPlan \<Rightarrow> RefundReceipt \<Rightarrow> string \<Rightarrow> string \<Rightarrow> 'g mutation \<Rightarrow> ('g, unit) op" where
  "CompensateRefund R p r refundID failure apply_rights =
     transaction (CompensateRefund_tx R p r refundID failure apply_rights)"

definition FailPendingRefund_tx :: "Order \<Rightarrow> RefundPendingDetail \<Rightarrow> string \<Rightarrow> ('g, Order) tx" where
  "FailPendingRefund_tx ord claim failure =
     tx_then (tx_check (Status ord = OrderStatusRefundPending) refundConflict) (\<lambda>_.
     tx_then (order_row (ID ord)) (\<lambda>current.
       if Status current = Status ord \<and> UpdatedAt current = UpdatedAt ord then
         tx_then (matchPendingRefundIdentity (ID ord) (dOperationID claim) (RefundID claim)) (\<lambda>_.
         tx_then (update_order (ID ord) (\<lambda>now ord. ord\<lparr>Status := OrderStatusRefundFailed, FailedAt := Some now,
             FailedReason := Some failure\<rparr>)) (\<lambda>_.
         tx_then (order_row (ID ord)) (\<lambda>current.
         tx_then (refundAudit (ID ord) ''REFUND_FAILED'' (Some [(''detail'', JString failure)])) (\<lambda>_.
         tx_return (Ok current)))))
       else tx_return (Ok current)))"

definition FailPendingRefund :: "Order \<Rightarrow> RefundPendingDetail \<Rightarrow> string \<Rightarrow> ('g, Order) op" where
  "FailPendingRefund ord claim failure = transaction (FailPendingRefund_tx ord claim failure)"

definition RefundRecovery :: "Order \<Rightarrow> ('g, RefundReceipt) op" where
  "RefundRecovery ord = transaction (RefundRecovery_tx ord)"

definition RequestRefund_store :: "int \<Rightarrow> int \<Rightarrow> f64 \<Rightarrow> string \<Rightarrow> instant \<Rightarrow> string \<Rightarrow> ('g, int) op" where
  "RequestRefund_store i user amount reason now requestedBy =
     db_call (update_rows (\<lambda>ord. ID ord = i \<and> UserID ord = user \<and> Status ord = OrderStatusCompleted \<and> OrderType ord = OrderTypeBalance)
       (\<lambda>t ord. ord\<lparr>Status := OrderStatusRefundRequested, RefundRequestedAt := Some (db_us now),
          RefundRequestReason := Some reason, RefundRequestedBy := Some requestedBy,
          RefundAmount := db_numeric 2 amount, UpdatedAt := t\<rparr>))"

end
