(* ===== verification/RefundWorkflow.thy ===== *)
theory RefundWorkflow
  imports SubscriptionStatus RefundStore
begin

text \<open>
  The refund workflow: internal/payment/refund_workflow.go, refund_prepare.go and
  refund_helpers.go.  The injected runtime and the payment provider are
  parameters.  Their answers to the channel calls may come with an error, an
  answer or both, and other processes may act before each call.  Log output and
  the timing observer are left out.
\<close>

section \<open>Collaborators\<close>

record RefundResponse =
  rsStatus :: string
  rsRefundID :: string

record RefundRequest =
  rqTradeNo :: string
  rqOrderID :: string
  rqAmount :: string
  rqReason :: string

record RefundQueryRequest =
  rqqTradeNo :: string
  rqqOrderID :: string
  rqqRefundID :: string
  rqqAmount :: string

record 'g refund_provider =
  rvKey :: string
  rvMetadata :: metadata
  Refund :: "RefundRequest \<Rightarrow> 'g \<Rightarrow> (RefundResponse option \<times> perror option) \<times> 'g"
  QueryRefund :: "(RefundQueryRequest \<Rightarrow> 'g \<Rightarrow> (RefundResponse option \<times> perror option) \<times> 'g) option"

record RefundInstance =
  RefundEnabled :: bool
  AllowUserRefund :: bool

record RefundSubscription =
  rsubID :: int
  rsubStatus :: string

text \<open>A user is its observed balance; \<open>rtErrorText\<close> prints an error with its values.\<close>

record 'g refund_runtime =
  rtUser :: "int \<Rightarrow> 'g \<Rightarrow> (perror, f64) result \<times> 'g"
  rtSubscriptions :: "int \<Rightarrow> 'g \<Rightarrow> (perror, RefundSubscription list) result \<times> 'g"
  rtInstance :: "Order \<Rightarrow> 'g \<Rightarrow> (perror, RefundInstance option) result \<times> 'g"
  rtProvider :: "Order \<Rightarrow> 'g \<Rightarrow> (perror, 'g refund_provider) result \<times> 'g"
  rtErrorText :: "perror \<Rightarrow> string"

text \<open>A call of the payment channel: no database call, so the database's faults do not touch it.\<close>

definition channel :: "('g \<Rightarrow> 'a \<times> 'g) \<Rightarrow> 'g sys conn \<Rightarrow> 'a \<times> 'g sys conn" where
  "channel f w =
     (let w = next_change w in
      case f (rest (server w)) of (a, g) \<Rightarrow> (a, w\<lparr>server := (server w)\<lparr>rest := g\<rparr>\<rparr>))"

definition ProviderStatusRefunded :: string where "ProviderStatusRefunded = ''refunded''"

definition ErrAdjustWouldExpire :: perror where
  "ErrAdjustWouldExpire = App ''ADJUST_WOULD_EXPIRE'' ''adjustment would result in invalid subscription window''"

section \<open>Entitlement changes\<close>

definition ApplyRefundDeduction :: "'g mutation" where
  "ApplyRefundDeduction R p g =
     (let (r, g) = (if rpDeductionType p = DeductionTypeBalance \<and> flt f0 (BalanceToDeduct p) then
            (case DeductBalance R (UserID (rpOrder p)) (BalanceToDeduct p) g of
               (Inl e, g) \<Rightarrow> (Err (Wrap ''deduction'' e), g)
             | (Inr actual, g) \<Rightarrow> (Ok (p\<lparr>BalanceToDeduct := actual\<rparr>), g))
          else (Ok p, g))
      in case r of
           Inl e \<Rightarrow> (Err e, g)
         | Inr p \<Rightarrow>
             if rpDeductionType p = DeductionTypeSubscription \<and> 0 < SubDaysToDeduct p \<and> 0 < rpSubscriptionID p then
               (case AdjustSubscription R (rpSubscriptionID p) (- SubDaysToDeduct p) g of
                  (Inr _, g) \<Rightarrow> (Ok p, g)
                | (Inl e, g) \<Rightarrow>
                    if unwraps_to e ErrAdjustWouldExpire then
                      (case RevokeSubscription R (rpSubscriptionID p) g of
                         (Inl e, g) \<Rightarrow> (Err (Wrap ''revoke subscription'' e), g)
                       | (Inr _, g) \<Rightarrow> (Ok p, g))
                    else (Err (Wrap ''deduct subscription days'' e), g))
             else (Ok p, g))"

definition CompensateRefundDeduction :: "'g mutation" where
  "CompensateRefundDeduction R p g =
     (let (r, g) = (if rpDeductionType p = DeductionTypeBalance \<and> flt f0 (BalanceToDeduct p)
          then CompensateBalance R (UserID (rpOrder p)) (BalanceToDeduct p) g else (Ok (), g))
      in case r of
           Inl e \<Rightarrow> (Err e, g)
         | Inr _ \<Rightarrow>
             if rpDeductionType p = DeductionTypeSubscription \<and> 0 < SubDaysToDeduct p \<and> 0 < rpSubscriptionID p then
               (case AdjustSubscription R (rpSubscriptionID p) (SubDaysToDeduct p) g of
                  (Inl e, g) \<Rightarrow> (Err e, g) | (Inr _, g) \<Rightarrow> (Ok p, g))
             else (Ok p, g))"

definition receipt_plan :: "RefundReceipt \<Rightarrow> Order \<Rightarrow> RefundPlan" where
  "receipt_plan r ord = \<lparr>OrderID = rOrderID r, rpOrder = ord, rpRefundAmount = rRefundAmount r, GatewayAmount = rGatewayAmount r,
     Reason = rReason r, Force = rForce r, rpDeductBalance = dDeductBalance (detail r), rpDeductionType = dDeductionType (detail r),
     BalanceToDeduct = BalanceDeducted (detail r), SubDaysToDeduct = SubDaysDeducted (detail r),
     rpSubscriptionID = dSubscriptionID (detail r), rpOperationID = rOperationID r, ChannelRefundID = []\<rparr>"

section \<open>Helpers\<close>

definition PaymentOrderSubscriptionValidityDays :: "Order option \<Rightarrow> int" where
  "PaymentOrderSubscriptionValidityDays order =
     (case order of None \<Rightarrow> 0
      | Some ord \<Rightarrow> if 0 < ValidityDays (PlanSnapshot ord) then ValidityDays (PlanSnapshot ord) else 0)"

definition FormatGatewayRefundAmount :: "'d decimal \<Rightarrow> f64 \<Rightarrow> Order \<Rightarrow> string" where
  "FormatGatewayRefundAmount D amount ord = FormatAmountForCurrency D amount (PaymentOrderCurrency ord)"

definition ValidateRefundProviderResponse :: "RefundResponse option \<Rightarrow> (perror, unit) result" where
  "ValidateRefundProviderResponse resp =
     (case resp of
        None \<Rightarrow> Err (Plain ''payment refund response missing'')
      | Some r \<Rightarrow>
          let status = trim_space (rsStatus r) in
          if status = ProviderStatusSuccess \<or> status = ProviderStatusRefunded \<or> status = ProviderStatusPending then Ok ()
          else if status = ProviderStatusFailed then Err (Plain ''payment refund failed'')
          else Err (Plain ''payment refund returned unknown status''))"

definition RefundResponseID :: "RefundResponse option \<Rightarrow> string" where
  "RefundResponseID resp = (case resp of None \<Rightarrow> [] | Some r \<Rightarrow> trim_space (rsRefundID r))"

definition refundStringValue :: "string option \<Rightarrow> string" where
  "refundStringValue v = (case v of None \<Rightarrow> [] | Some s \<Rightarrow> s)"

definition RefundFinalizePlan :: "'d decimal \<Rightarrow> Order \<Rightarrow> RefundPendingDetail \<Rightarrow> RefundPlan" where
  "RefundFinalizePlan D ord d =
     (let reason = trim_space (refundStringValue (RefundReason ord));
          p = \<lparr>OrderID = ID ord, rpOrder = ord, rpRefundAmount = RefundAmount ord,
            GatewayAmount = CalculateGatewayRefundAmount D (Amount ord) (PayAmount ord) (RefundAmount ord) (PaymentOrderCurrency ord),
            Reason = (if reason = [] then ''refund order:'' @ dec (ID ord) else reason), Force = ForceRefund ord,
            rpDeductBalance = dDeductBalance d, rpDeductionType = DeductionTypeNone, BalanceToDeduct = f0,
            SubDaysToDeduct = 0, rpSubscriptionID = 0, rpOperationID = dOperationID d, ChannelRefundID = RefundID d\<rparr>
      in if DeductionRollbackOK d \<and> dDeductBalance d then
           (if OrderType ord = OrderTypeBalance
            then p\<lparr>rpDeductionType := DeductionTypeBalance, BalanceToDeduct := BalanceDeducted d\<rparr>
            else if OrderType ord = OrderTypeSubscription
            then p\<lparr>rpDeductionType := DeductionTypeSubscription, SubDaysToDeduct := SubDaysDeducted d,
                   rpSubscriptionID := dSubscriptionID d\<rparr>
            else p)
         else p)"

definition GwRefund ::
  "'d decimal \<Rightarrow> 'g refund_runtime \<Rightarrow> RefundPlan \<Rightarrow> ('g, RefundResponse) op" where
  "GwRefund D rt p w =
     (if PaymentTradeNo (rpOrder p) = [] then
        (Ok \<lparr>rsStatus = ProviderStatusSuccess, rsRefundID = []\<rparr>, Audit (ID (rpOrder p)) ''REFUND_NO_TRADE_NO'' ''admin'' w)
      else case service (rtProvider rt (rpOrder p)) w of
        (Inl e, w) \<Rightarrow> (Err (Wrap ''get refund provider'' e), w)
      | (Inr prov, w) \<Rightarrow>
          (case ValidateProviderSnapshotMetadata (rpOrder p) (rvKey prov) (rvMetadata prov) of
             Inl e \<Rightarrow> (Err e, Audit (ID (rpOrder p)) ''REFUND_PROVIDER_METADATA_MISMATCH'' ''admin'' w)
           | Inr _ \<Rightarrow>
               (case channel (Refund prov \<lparr>rqTradeNo = PaymentTradeNo (rpOrder p), rqOrderID = OutTradeNo (rpOrder p),
                      rqAmount = FormatGatewayRefundAmount D (GatewayAmount p) (rpOrder p), rqReason = Reason p\<rparr>) w of
                  ((resp, Some e), w) \<Rightarrow>
                    (case resp of
                       Some r \<Rightarrow> if trim_space (rsStatus r) = ProviderStatusPending then (Ok r, w) else (Err e, w)
                     | None \<Rightarrow> (Err e, w))
                | ((resp, None), w) \<Rightarrow>
                    (case ValidateRefundProviderResponse resp of
                       Inl e \<Rightarrow> (Err e, w) | Inr _ \<Rightarrow> (Ok (the resp), w)))))"

section \<open>Executing\<close>

definition compensateFailure ::
  "'g refund_runtime \<Rightarrow> 'g rights \<Rightarrow> RefundPlan \<Rightarrow> RefundReceipt \<Rightarrow> perror \<Rightarrow> ('g, RefundResult) op" where
  "compensateFailure rt R p r cause w =
     (case CompensateRefund R p r [] (rtErrorText rt cause) CompensateRefundDeduction w of
        (Inl e, w) \<Rightarrow> (Err (Wrap ''gateway refund failed; local recovery remains pending'' e), w)
      | (Inr _, w) \<Rightarrow>
          (Ok (refund_result\<lparr>Warning := ''gateway failed: '' @ rtErrorText rt cause @ '', rolled back''\<rparr>), w))"

definition FinishRefund ::
  "'g refund_runtime \<Rightarrow> 'g rights \<Rightarrow> RefundPlan \<Rightarrow> RefundReceipt \<Rightarrow> RefundResponse option \<Rightarrow> ('g, RefundResult) op" where
  "FinishRefund rt R p r resp w =
     (case ValidateRefundProviderResponse resp of
        Inl e \<Rightarrow> compensateFailure rt R p r e w
      | Inr _ \<Rightarrow>
          if trim_space (rsStatus (the resp)) = ProviderStatusPending then
            (case CompensateRefund R p r (RefundResponseID resp) [] CompensateRefundDeduction w of
               (Inl e, w) \<Rightarrow> (Err e, w)
             | (Inr _, w) \<Rightarrow> (Ok (refund_result\<lparr>Warning := ''gateway refund is pending confirmation''\<rparr>), w))
          else CompleteRefund R p (Some r) None w)"

definition ExecuteRefund ::
  "'d decimal \<Rightarrow> 'g refund_runtime \<Rightarrow> 'g rights \<Rightarrow> string \<Rightarrow> RefundPlan \<Rightarrow> ('g, RefundResult) op" where
  "ExecuteRefund D rt R operationID p w =
     (case PrepareRefund_store R operationID p ApplyRefundDeduction w of
        (Inl e, w) \<Rightarrow> (Err e, w)
      | (Inr (receipt, p), w) \<Rightarrow>
          (case GwRefund D rt p w of
             (Inl e, w) \<Rightarrow>
               if unwraps_to e ErrRefundOutcomeUnknown then (Err (RefundRecoveryRequired (rtErrorText rt e)), w)
               else compensateFailure rt R p receipt e w
           | (Inr resp, w) \<Rightarrow> FinishRefund rt R p receipt (Some resp) w))"

definition FinalizePendingRefundSuccess :: "'g rights \<Rightarrow> RefundPlan \<Rightarrow> ('g, RefundResult) op" where
  "FinalizePendingRefundSuccess R p = CompleteRefund R p None (Some ApplyRefundDeduction)"

text \<open>The receipt of a recoverable refund, or the detail of a pending one.\<close>

definition recovery_evidence ::
  "Order \<Rightarrow> 'g sys conn \<Rightarrow> (perror, RefundReceipt option \<times> RefundPendingDetail) result \<times> 'g sys conn" where
  "recovery_evidence ord w =
     (if Status ord = OrderStatusRefunding then
        (case RefundRecovery ord w of (Inl e, w) \<Rightarrow> (Err e, w) | (Inr r, w) \<Rightarrow> (Ok (Some r, detail r), w))
      else (case PendingDetail (ID ord) w of (Inl e, w) \<Rightarrow> (Err e, w) | (Inr d, w) \<Rightarrow> (Ok (None, d), w)))"

definition settle_query ::
  "'d decimal \<Rightarrow> 'g refund_runtime \<Rightarrow> 'g rights \<Rightarrow> Order \<Rightarrow> RefundReceipt option \<Rightarrow> RefundPendingDetail
   \<Rightarrow> RefundResponse option \<Rightarrow> ('g, RefundResult) op" where
  "settle_query D rt R ord receipt d resp w =
     (case ValidateRefundProviderResponse resp of
        Inl e \<Rightarrow>
          if resp = None \<or> trim_space (rsStatus (the resp)) \<noteq> ProviderStatusFailed
          then (Err (RefundRecoveryRequired (rtErrorText rt e)), w)
          else (case receipt of
             Some r \<Rightarrow> compensateFailure rt R (receipt_plan r ord) r e w
           | None \<Rightarrow>
               (case FailPendingRefund ord d (rtErrorText rt e) w of
                  (Inl e, w) \<Rightarrow> (Err e, w)
                | (Inr current, w) \<Rightarrow>
                    if Status current = OrderStatusRefunded \<or> Status current = OrderStatusPartiallyRefunded
                    then (Ok (refund_result\<lparr>Success := True\<rparr>), w)
                    else if Status current \<noteq> OrderStatusRefundFailed then (Err refundConflict, w)
                    else (Ok (refund_result\<lparr>Warning := ''gateway refund failed: '' @ rtErrorText rt e\<rparr>), w)))
      | Inr _ \<Rightarrow>
          (case receipt of
             Some r \<Rightarrow> FinishRefund rt R (receipt_plan r ord) r resp w
           | None \<Rightarrow>
               if trim_space (rsStatus (the resp)) = ProviderStatusPending then
                 (Ok (refund_result\<lparr>Warning := ''gateway refund is still pending confirmation''\<rparr>),
                  Audit (ID ord) ''REFUND_QUERY_PENDING'' ''admin'' w)
               else FinalizePendingRefundSuccess R (RefundFinalizePlan D ord d) w))"

definition QueryAndFinalizeRefund ::
  "'d decimal \<Rightarrow> 'g refund_runtime \<Rightarrow> 'g rights \<Rightarrow> int \<Rightarrow> ('g, RefundResult) op" where
  "QueryAndFinalizeRefund D rt R i w =
     (case store_Order i w of
        (Inl e, w) \<Rightarrow> (Err (App ''NOT_FOUND'' ''order not found''), w)
      | (Inr ord, w) \<Rightarrow>
          if Status ord \<noteq> OrderStatusRefundPending \<and> Status ord \<noteq> OrderStatusRefunding
          then (Err (App ''INVALID_STATUS'' ''only refund pending or recoverable refunding orders can be finalized''), w)
          else (case recovery_evidence ord w of
             (Inl e, w) \<Rightarrow> (Err e, w)
           | (Inr (receipt, d), w) \<Rightarrow>
               (case service (rtProvider rt ord) w of
                  (Inl e, w) \<Rightarrow> (Err (Wrap ''get refund provider'' e), w)
                | (Inr prov, w) \<Rightarrow>
                    (case QueryRefund prov of
                       None \<Rightarrow> (Err (App ''REFUND_QUERY_UNSUPPORTED''
                         ''this payment provider does not support refund status query; please verify manually''), w)
                     | Some query \<Rightarrow>
                         (case channel (query \<lparr>rqqTradeNo = PaymentTradeNo ord, rqqOrderID = OutTradeNo ord,
                                rqqRefundID = RefundID d, rqqAmount = FormatGatewayRefundAmount D (RefundAmount ord) ord\<rparr>) w of
                            ((resp, Some e), w) \<Rightarrow> (Err (Wrap ''query refund'' e), w)
                          | ((resp, None), w) \<Rightarrow> settle_query D rt R ord receipt d resp w)))))"

section \<open>Requesting and planning\<close>

definition ValidateRefundRequest :: "'g refund_runtime \<Rightarrow> int \<Rightarrow> int \<Rightarrow> ('g, Order) op" where
  "ValidateRefundRequest rt oid uid w =
     (case store_Order oid w of
        (Inl e, w) \<Rightarrow> (Err (App ''NOT_FOUND'' ''order not found''), w)
      | (Inr ord, w) \<Rightarrow>
          if UserID ord \<noteq> uid then (Err (App ''FORBIDDEN'' ''no permission''), w)
          else if OrderType ord \<noteq> OrderTypeBalance
          then (Err (App ''INVALID_ORDER_TYPE'' ''only balance orders can request refund''), w)
          else if Status ord \<noteq> OrderStatusCompleted
          then (Err (App ''INVALID_STATUS'' ''only completed orders can request refund''), w)
          else (case service (rtInstance rt ord) w of
             (Inr (Some inst), w) \<Rightarrow>
               if \<not> AllowUserRefund inst
               then (Err (App ''USER_REFUND_DISABLED'' ''user refund is not enabled for this provider''), w)
               else (Ok ord, w)
           | (_, w) \<Rightarrow> (Err (App ''USER_REFUND_DISABLED'' ''refund is not available for this order''), w)))"

definition RequestRefund :: "'g refund_runtime \<Rightarrow> int \<Rightarrow> int \<Rightarrow> string \<Rightarrow> ('g, unit) op" where
  "RequestRefund rt oid uid reason w =
     (case ValidateRefundRequest rt oid uid w of
        (Inl e, w) \<Rightarrow> (Err e, w)
      | (Inr ord, w) \<Rightarrow>
          (case service (rtUser rt (UserID ord)) w of
             (Inl e, w) \<Rightarrow> (Err (Wrap ''get user'' e), w)
           | (Inr held, w) \<Rightarrow>
               if flt held (Amount ord) then (Err (App ''BALANCE_NOT_ENOUGH'' ''refund amount exceeds balance''), w)
               else (case RequestRefund_store oid uid (Amount ord) (trim_space reason) (Now w) (dec uid) w of
                  (Inl e, w) \<Rightarrow> (Err (Wrap ''update'' e), w)
                | (Inr c, w) \<Rightarrow>
                    if c = 0 then (Err (App ''CONFLICT'' ''order status changed''), w)
                    else (Ok (), Audit oid ''REFUND_REQUESTED'' (''user:'' @ dec uid) w))))"

text \<open>A refusal that force can override, or the plan with its deduction.\<close>

definition require_force :: "string \<Rightarrow> RefundResult" where
  "require_force m = refund_result\<lparr>Warning := m, RequireForce := True\<rparr>"

definition PrepDeduct ::
  "'g refund_runtime \<Rightarrow> Order \<Rightarrow> RefundPlan \<Rightarrow> bool \<Rightarrow> 'g sys conn \<Rightarrow> (RefundResult + RefundPlan) \<times> 'g sys conn" where
  "PrepDeduct rt ord p force w =
     (if OrderType ord = OrderTypeSubscription then
        (case service (rtSubscriptions rt (ID ord)) w of
           (subs, w) \<Rightarrow>
             let sid = (case subs of Inl e \<Rightarrow> 0
                   | Inr subs \<Rightarrow> (case find (\<lambda>s. rsubStatus s = SubscriptionStatusActive \<or> rsubStatus s = SubscriptionStatusPending) subs of
                       None \<Rightarrow> 0 | Some s \<Rightarrow> rsubID s));
                 p = p\<lparr>rpDeductionType := DeductionTypeSubscription,
                   SubDaysToDeduct := PaymentOrderSubscriptionValidityDays (Some ord), rpSubscriptionID := sid\<rparr>
             in if sid = 0 \<and> \<not> force then (Inl (require_force ''cannot find active subscription for deduction, use force''), w)
                else (Inr p, w))
      else (case service (rtUser rt (UserID ord)) w of
           (Inl e, w) \<Rightarrow>
             if \<not> force then (Inl (require_force ''cannot fetch user balance, use force''), w) else (Inr p, w)
         | (Inr held, w) \<Rightarrow>
             if flt held (rpRefundAmount p) \<and> \<not> force
             then (Inl (require_force ''user balance is insufficient for deduction, use force''), w)
             else (Inr (p\<lparr>rpDeductionType := DeductionTypeBalance,
                     BalanceToDeduct := fmax f0 (fmin (rpRefundAmount p) held)\<rparr>), w)))"

definition PrepareRefund ::
  "'d decimal \<Rightarrow> 'g refund_runtime \<Rightarrow> int \<Rightarrow> f64 \<Rightarrow> string \<Rightarrow> bool \<Rightarrow> bool \<Rightarrow> ('g, RefundResult + RefundPlan) op" where
  "PrepareRefund D rt oid amt reason force deduct w =
     (case store_Order oid w of
        (Inl e, w) \<Rightarrow> (Err (App ''NOT_FOUND'' ''order not found''), w)
      | (Inr ord, w) \<Rightarrow>
          if Status ord \<notin> {OrderStatusCompleted, OrderStatusRefundRequested, OrderStatusRefundPending, OrderStatusRefundFailed}
          then (Err (App ''INVALID_STATUS'' ''order status does not allow refund''), w)
          else (case service (rtInstance rt ord) w of
             (Inl e, w) \<Rightarrow> (Err (App ''PROVIDER_LOOKUP_FAILED'' ''failed to look up payment provider for this order''), w)
           | (Inr None, w) \<Rightarrow> (Err (App ''REFUND_DISABLED'' ''refund is not available for this order''), w)
           | (Inr (Some inst), w) \<Rightarrow>
               if \<not> RefundEnabled inst then (Err (App ''REFUND_DISABLED'' ''refund is not enabled for this provider''), w)
               else if amt = NaN \<or> is_inf amt then (Err (App ''INVALID_AMOUNT'' ''invalid refund amount''), w)
               else
                 let amt = (if fle amt f0 then Amount ord else amt);
                     orderCurrency = PaymentOrderCurrency ord
                 in if flt (PaymentAmountToleranceForCurrency orderCurrency) (fsub amt (Amount ord))
                    then (Err (App ''REFUND_AMOUNT_EXCEEDED'' ''refund amount exceeds recharge''), w)
                    else
                      let ga = CalculateGatewayRefundAmount D (Amount ord) (PayAmount ord) amt orderCurrency;
                          rr = trim_space reason;
                          rr = (if rr = [] then refundStringValue (RefundRequestReason ord) else rr);
                          rr = (if rr = [] then ''refund order:'' @ dec (ID ord) else rr);
                          p = \<lparr>OrderID = oid, rpOrder = ord, rpRefundAmount = amt, GatewayAmount = ga, Reason = rr,
                            Force = force, rpDeductBalance = deduct, rpDeductionType = DeductionTypeNone,
                            BalanceToDeduct = f0, SubDaysToDeduct = 0, rpSubscriptionID = 0, rpOperationID = [], ChannelRefundID = []\<rparr>
                      in if deduct then (case PrepDeduct rt ord p force w of (r, w) \<Rightarrow> (Ok r, w))
                         else (Ok (Inr p), w)))"

end
