(* ===== verification/Refunds.thy ===== *)
theory Refunds
  imports Delivery RefundWorkflow
begin

text \<open>
  What the refund transactions promise: a receipt reads back as it was written, one
  receipt settles a refund at most once, and on a quiet connection an executed
  refund ends in one of four ways, each with the wallet it should have.
\<close>

section \<open>Rows and documents\<close>

definition upd_order :: "int \<Rightarrow> (instant \<Rightarrow> Order \<Rightarrow> Order) \<Rightarrow> 'g sys \<Rightarrow> 'g sys" where
  "upd_order i f s = snd (update_rows (\<lambda>ord. ID ord = i) (\<lambda>now ord. (f now ord)\<lparr>UpdatedAt := now\<rparr>) s)"

lemma order_row_row [simp]: "row i s r \<Longrightarrow> order_row i s = (Ok r, s)"
  by (simp add: order_row_def)

lemma update_order_row [simp]:
  assumes "row i s r" "\<And>t x. ID (f t x) = ID x"
  shows "update_order i f s = (Ok (), upd_order i f s)"
    and "row i (upd_order i f s) ((f (db_us (wall s)) r)\<lparr>UpdatedAt := db_us (wall s)\<rparr>)"
proof -
  note u = row_update [of i s r "\<lambda>ord. ID ord = i" "\<lambda>now ord. (f now ord)\<lparr>UpdatedAt := now\<rparr>", OF assms(1)]
  show "update_order i f s = (Ok (), upd_order i f s)"
    using u(1) assms row_ID [OF assms(1)] by (simp add: update_order_def upd_order_def split: prod.split) (metis One_nat_def fst_conv zero_neq_one)
  show "row i (upd_order i f s) ((f (db_us (wall s)) r)\<lparr>UpdatedAt := db_us (wall s)\<rparr>)"
    using u(2) assms(2) row_ID [OF assms(1)] by (simp add: upd_order_def)
qed

lemma upd_order_frame [simp]:
  "audits (upd_order i f s) = audits s" "rest (upd_order i f s) = rest s" "wall (upd_order i f s) = wall s"
  "audit_detail k a (upd_order i f s) = audit_detail k a s" "has_audit k a (upd_order i f s) = has_audit k a s"
  by (simp_all add: upd_order_def update_rows_def audit_detail_def has_audit_def)

lemma rest_frame [simp]:
  "rows (s\<lparr>rest := g\<rparr>) = rows s" "wall (s\<lparr>rest := g\<rparr>) = wall s"
  "audit_detail k a (s\<lparr>rest := g\<rparr>) = audit_detail k a s" "has_audit k a (s\<lparr>rest := g\<rparr>) = has_audit k a s"
  by (simp_all add: audit_detail_def has_audit_def)

lemma upd_order_rest: "upd_order i f (s\<lparr>rest := g\<rparr>) = (upd_order i f s)\<lparr>rest := g\<rparr>"
  by (simp add: upd_order_def update_rows_def)

lemma put_audit_frame [simp]:
  "rows (put_audit i a d s) = rows s" "rest (put_audit i a d s) = rest s" "wall (put_audit i a d s) = wall s"
  "row k (put_audit i a d s) r = row k s r"
  by (simp_all add: put_audit_def row_def)

lemma has_audit_detail: "has_audit i a s \<longleftrightarrow> audit_detail i a s \<noteq> None"
  by (simp only: has_audit_def audit_detail_def option.map_disc_iff find_None_iff) blast

lemma find_map_same:
  "(\<And>x. P (h x) = P x) \<Longrightarrow> find P (map h xs) = map_option h (find P xs)"
  by (induction xs) auto

lemma find_append: "find P (xs @ ys) = (case find P xs of None \<Rightarrow> find P ys | Some x \<Rightarrow> Some x)"
  by (induction xs) auto

lemma audit_detail_put:
  "audit_detail k b (put_audit i a d s) = (if k = i \<and> b = a then Some d else audit_detail k b s)"
proof (cases "has_audit i a s")
  case True
  let ?h = "\<lambda>x :: audit. if fst x = i \<and> fst (snd x) = a then (i, a, ''admin'', d) else x"
  let ?Q = "\<lambda>x :: audit. fst x = k \<and> fst (snd x) = b"
  have upd: "audit_detail k b (put_audit i a d s) = map_option (\<lambda>x. snd (snd (snd (?h x)))) (find ?Q (audits s))"
    using True by (simp add: put_audit_def audit_detail_def find_map_same [of ?Q ?h] option.map_comp comp_def)
  show ?thesis
  proof (cases "find ?Q (audits s)")
    case None
    then have "\<not> (k = i \<and> b = a)" using True by (auto simp: has_audit_detail audit_detail_def)
    moreover have "audit_detail k b s = None" by (simp add: audit_detail_def None)
    ultimately show ?thesis unfolding upd None by simp
  next
    case (Some x)
    then have x: "fst x = k" "fst (snd x) = b" by (auto simp: find_Some_iff)
    have "audit_detail k b s = Some (snd (snd (snd x)))" by (simp add: audit_detail_def Some)
    then show ?thesis unfolding upd Some option.map x by simp
  qed
next
  case False
  then have "find (\<lambda>x. fst x = i \<and> fst (snd x) = a) (audits s) = None"
    by (simp only: has_audit_detail audit_detail_def option.map_disc_iff not_not)
  then show ?thesis using False
    by (auto simp: put_audit_def audit_detail_def add_audit_def find_append split: option.split)
qed

text \<open>A record that can be kept in the history of the next one.\<close>

definition appendable :: "int \<Rightarrow> string \<Rightarrow> 'g sys \<Rightarrow> bool" where
  "appendable i a s = (case audit_detail i a s of None \<Rightarrow> True | Some d \<Rightarrow> (\<exists>h. audit_history d = Ok h))"

text \<open>The document written for the given fields: theirs, a time, a version, perhaps a history.\<close>

definition documents :: "jfields \<Rightarrow> jfields \<Rightarrow> bool" where
  "documents fs doc \<longleftrightarrow> (\<forall>k v. map_of fs k = Some v \<and> k \<noteq> ''recordedAt'' \<and> k \<noteq> ''history'' \<longrightarrow> map_of doc k = Some v) \<and>
     (\<forall>k. map_of fs k = None \<and> k \<noteq> ''recordedAt'' \<and> k \<noteq> ''history'' \<and> k \<noteq> ''version'' \<longrightarrow> map_of doc k = None)"

lemma map_of_filter: "map_of (filter (\<lambda>p. P (fst p)) fs) k = (if P k then map_of fs k else None)"
  by (induction fs) auto

lemma map_of_add_missing: "map_of (add_missing k v fs) m = (if map_of fs k = None \<and> m = k then Some v else map_of fs m)"
  by (auto simp: add_missing_def map_add_def split: option.split)

lemma refundAudit_writes:
  assumes "appendable i a s"
  obtains doc where "refundAudit i a (Some fs) s = (Ok (), put_audit i a (JObject doc) s)" "documents fs doc"
proof -
  let ?cur = "add_missing ''version'' (JInt 1) (filter (\<lambda>p. fst p \<noteq> ''recordedAt'') fs @ [(''recordedAt'', JTime (wall s))])"
  have cur: "documents fs ?cur"
    by (auto simp: documents_def map_of_add_missing map_add_def map_of_filter [where P = "\<lambda>k. k \<noteq> ''recordedAt''"] split: option.splits)
  show thesis
  proof (cases "audit_detail i a s")
    case None
    then show thesis using that [OF _ cur] by (simp add: refundAudit_def Let_def)
  next
    case (Some d)
    then obtain h where h: "audit_history d = Ok h" using assms by (auto simp: appendable_def)
    let ?doc = "filter (\<lambda>p. fst p \<noteq> ''history'') ?cur @ [(''history'', JArray h)]"
    have "documents fs ?doc" using cur
      by (auto simp: documents_def map_add_def map_of_filter [where P = "\<lambda>k. k \<noteq> ''history''"])
    then show thesis using that [of ?doc] Some h by (simp add: refundAudit_def Let_def)
  qed
qed

section \<open>A receipt reads back\<close>

definition receipt_ok :: "int \<Rightarrow> RefundReceipt \<Rightarrow> bool" where
  "receipt_ok i r \<longleftrightarrow> rVersion r = 1 \<and> rOperationID r \<noteq> [] \<and> rOrderID r = i \<and> \<not> is_zero (OperationVersion r) \<and>
     validRefundAmount (rRefundAmount r) \<and> validRefundAmount (rGatewayAmount r) \<and>
     validRefundAmount (BalanceDeducted (detail r)) \<and> 0 \<le> SubDaysDeducted (detail r) \<and>
     validRefundDeduction (detail r) False \<and> dOperationID (detail r) = []"

lemma valid_amount_Fin: "validRefundAmount v \<Longrightarrow> \<exists>x. v = Fin x"
  by (cases v) (auto simp: validRefundAmount_def is_inf_def)

lemma marshal_receipt_Some:
  assumes "receipt_ok i r"
  obtains fs where "marshal_receipt r = Some fs"
  using assms valid_amount_Fin [of "rRefundAmount r"] valid_amount_Fin [of "rGatewayAmount r"]
    valid_amount_Fin [of "BalanceDeducted (detail r)"]
  by (auto simp: receipt_ok_def marshal_receipt_def jfloat_def)

lemma unmarshal_marshal:
  assumes "marshal_receipt r = Some fs" "documents fs doc" "dOperationID (detail r) = []"
  shows "unmarshal_receipt doc = Some r" "list_all (present doc) receipt_fields"
proof -
  obtain a b c where v: "rRefundAmount r = Fin a" "rGatewayAmount r = Fin b" "BalanceDeducted (detail r) = Fin c"
    using assms(1) by (auto simp: marshal_receipt_def jfloat_def split: f64.splits option.splits)
  have fs: "fs = [(''version'', JInt (rVersion r)), (''operationID'', JString (rOperationID r)), (''orderID'', JInt (rOrderID r)),
           (''operationVersion'', JTime (OperationVersion r)), (''previousStatus'', JString (PreviousStatus r)),
           (''refundAmount'', JFloat a), (''gatewayAmount'', JFloat b), (''reason'', JString (rReason r)), (''force'', JBool (rForce r)),
           (''refundID'', JString (RefundID (detail r))), (''deductBalance'', JBool (dDeductBalance (detail r))),
           (''deductionType'', JString (dDeductionType (detail r))), (''balanceDeducted'', JFloat c),
           (''subDaysDeducted'', JInt (SubDaysDeducted (detail r))), (''subscriptionID'', JInt (dSubscriptionID (detail r))),
           (''deductionRollbackOK'', JBool (DeductionRollbackOK (detail r)))]"
    using assms(1) v by (simp add: marshal_receipt_def jfloat_def)
  have get: "map_of doc k = Some x" if "map_of fs k = Some x" "k \<noteq> ''recordedAt''" "k \<noteq> ''history''" for k x
    using assms(2) that by (simp add: documents_def)
  have doc: "map_of doc ''version'' = Some (JInt (rVersion r))" "map_of doc ''operationID'' = Some (JString (rOperationID r))"
    "map_of doc ''orderID'' = Some (JInt (rOrderID r))" "map_of doc ''operationVersion'' = Some (JTime (OperationVersion r))"
    "map_of doc ''previousStatus'' = Some (JString (PreviousStatus r))" "map_of doc ''refundAmount'' = Some (JFloat a)"
    "map_of doc ''gatewayAmount'' = Some (JFloat b)" "map_of doc ''reason'' = Some (JString (rReason r))"
    "map_of doc ''force'' = Some (JBool (rForce r))" "map_of doc ''refundID'' = Some (JString (RefundID (detail r)))"
    "map_of doc ''deductBalance'' = Some (JBool (dDeductBalance (detail r)))"
    "map_of doc ''deductionType'' = Some (JString (dDeductionType (detail r)))"
    "map_of doc ''balanceDeducted'' = Some (JFloat c)" "map_of doc ''subDaysDeducted'' = Some (JInt (SubDaysDeducted (detail r)))"
    "map_of doc ''subscriptionID'' = Some (JInt (dSubscriptionID (detail r)))"
    "map_of doc ''deductionRollbackOK'' = Some (JBool (DeductionRollbackOK (detail r)))"
    by (rule get; simp add: fs)+
  have opid: "jfield doc ''operationID'' [] as_string = Some (rOperationID r)" by (simp add: jfield_def doc)
  have "unmarshal_detail False doc = Some ((detail r)\<lparr>dOperationID := rOperationID r\<rparr>)"
    by (simp add: unmarshal_detail_def jfield_def doc v(3))
  then show "unmarshal_receipt doc = Some r"
    using assms(3) v(1,2) by (simp add: unmarshal_receipt_def jfield_def doc)
  show "list_all (present doc) receipt_fields"
    by (simp add: receipt_fields_def present_def doc)
qed

text \<open>
  C9: The preparation record of a refund is written with the order's earlier records
  kept in its history, and reads back as the same receipt.
\<close>

theorem receipt_roundtrip:
  assumes "receipt_ok i r" "appendable i ''REFUND_PREPARED'' s"
  shows "\<exists>s'. refundAudit i ''REFUND_PREPARED'' (marshal_receipt r) s = (Ok (), s') \<and>
    readRefundReceipt i s' = (Ok r, s') \<and> rows s' = rows s \<and> rest s' = rest s"
proof -
  obtain fs where fs: "marshal_receipt r = Some fs" by (rule marshal_receipt_Some [OF assms(1)])
  obtain doc where doc: "refundAudit i ''REFUND_PREPARED'' (Some fs) s = (Ok (), put_audit i ''REFUND_PREPARED'' (JObject doc) s)"
    "documents fs doc" by (rule refundAudit_writes [OF assms(2)])
  have d: "dOperationID (detail r) = []" using assms(1) by (simp add: receipt_ok_def)
  note reads_back = unmarshal_marshal [OF fs doc(2) d]
  have "readRefundReceipt i (put_audit i ''REFUND_PREPARED'' (JObject doc) s) = (Ok r, put_audit i ''REFUND_PREPARED'' (JObject doc) s)"
    using assms(1) reads_back by (simp add: readRefundReceipt_def audit_detail_put receipt_ok_def)
  then show ?thesis using doc(1) fs by auto
qed

definition receipt0 :: RefundReceipt where
  "receipt0 = \<lparr>rVersion = 1, rOperationID = ''op'', rOrderID = 7, OperationVersion = 5, PreviousStatus = OrderStatusCompleted,
     rRefundAmount = Fin 10, rGatewayAmount = Fin 10, rReason = ''asked'', rForce = False,
     detail = \<lparr>RefundID = [], dDeductBalance = True, dDeductionType = DeductionTypeBalance, BalanceDeducted = Fin 4,
       SubDaysDeducted = 0, dSubscriptionID = 0, DeductionRollbackOK = False, dOperationID = []\<rparr>\<rparr>"

theorem receipt_roundtrip_witness:
  "\<exists>s'. refundAudit 7 ''REFUND_PREPARED'' (marshal_receipt receipt0) (world0 OrderStatusRefunding) = (Ok (), s') \<and>
    readRefundReceipt 7 s' = (Ok receipt0, s')"
proof -
  have "receipt_ok 7 receipt0"
    by (simp add: receipt_ok_def receipt0_def validRefundAmount_def validRefundDeduction_def is_inf_def deduction_types
      is_zero_def zero_time_def)
  moreover have "appendable 7 ''REFUND_PREPARED'' (world0 OrderStatusRefunding)"
    by (simp add: appendable_def audit_detail_def world0_def)
  ultimately show ?thesis using receipt_roundtrip [of 7 receipt0 "world0 OrderStatusRefunding"] by blast
qed
section \<open>One settlement\<close>

lemma only_row_Ok: "only_row xs = Ok r \<longleftrightarrow> xs = [r]"
  by (auto simp: only_row_def split: list.splits)

lemma order_row_Ok: "order_row i s = (Ok r, s') \<longleftrightarrow> row i s r \<and> s' = s"
  by (auto simp: order_row_def row_def only_row_Ok)

lemma update_order_rows:
  "update_order i f s = (Ok (), s') \<Longrightarrow> rows s' = map (\<lambda>x. if ID x = i then (f (db_us (wall s)) x)\<lparr>UpdatedAt := db_us (wall s)\<rparr> else x) (rows s)"
  by (auto simp: update_order_def update_rows_def split: if_splits)

lemma upd_order_IDs [simp]: "(\<And>t x. ID (f t x) = ID x) \<Longrightarrow> map ID (rows (upd_order i f s)) = map ID (rows s)"
  by (simp add: upd_order_def update_rows_def)

lemma refundAudit_rows: "refundAudit i a fs s = (r, s') \<Longrightarrow> rows s' = rows s"
  by (auto simp: refundAudit_def Let_def split: option.splits sum.splits)

lemma entitlement_rows: "entitlement f s = (r, s') \<Longrightarrow> rows s' = rows s"
  by (auto simp: entitlement_def split: prod.splits)

lemma readRefundReceipt_state: "readRefundReceipt i s = (r, s') \<Longrightarrow> s' = s"
  by (auto simp: readRefundReceipt_def split: option.splits jvalue.splits if_splits)

lemma claimRefund_Ok:
  assumes "claimRefund i st v st' s = (Ok (), s')"
  shows "\<exists>r. row i s r \<and> Status r = st \<and> UpdatedAt r = v"
  using assms by (auto simp: claimRefund_def tx_then_Ok order_row_Ok split: if_splits)

lemma claimRefund_refused:
  "(\<And>r. row i s r \<Longrightarrow> Status r \<noteq> st \<or> UpdatedAt r \<noteq> v) \<Longrightarrow> \<exists>e t. claimRefund i st v st' s = (Err e, t)"
proof (cases "only_row (filter (\<lambda>ord. ID ord = i) (rows s))")
  case (Inr r)
  then have "row i s r" by (simp add: row_def only_row_Ok)
  moreover assume "\<And>r. row i s r \<Longrightarrow> Status r \<noteq> st \<or> UpdatedAt r \<noteq> v"
  ultimately show ?thesis using Inr by (auto simp: claimRefund_def tx_then_def order_row_def)
qed (simp add: claimRefund_def tx_then_def order_row_def)

lemma claimRefund_rows:
  "claimRefund i st v st' s = (Ok (), s') \<Longrightarrow> map ID (rows s') = map ID (rows s)"
  by (auto simp: claimRefund_def tx_then_Ok order_row_Ok split: if_splits dest!: update_order_rows)

lemma expected_claim_Ok:
  assumes "expected_claim p (Some r) s = (Ok (), s')"
  shows "\<exists>x. row (ID (rpOrder p)) s x \<and> Status x = OrderStatusRefunding \<and> UpdatedAt x = OperationVersion r"
    "map ID (rows s') = map ID (rows s)"
  using assms by (auto simp: expected_claim_def tx_then_Ok split: if_splits
    dest!: readRefundReceipt_state dest: claimRefund_Ok claimRefund_rows)

lemma expected_claim_refused:
  assumes "\<And>x. row (ID (rpOrder p)) s x \<Longrightarrow> Status x \<noteq> OrderStatusRefunding"
  shows "\<exists>e t. expected_claim p (Some r) s = (Err e, t)"
proof (cases "readRefundReceipt (OrderID p) s")
  case (Pair res t)
  then have "t = s" by (rule readRefundReceipt_state)
  then show ?thesis using Pair claimRefund_refused [of "ID (rpOrder p)" s OrderStatusRefunding "OperationVersion r" OrderStatusRefunding] assms
    by (cases res) (auto simp: expected_claim_def tx_then_def)
qed

text \<open>The two ways the workflow settles a receipt.\<close>

datatype settlement = Completed | Compensated string string

fun settle :: "'g rights \<Rightarrow> RefundPlan \<Rightarrow> RefundReceipt \<Rightarrow> settlement \<Rightarrow> ('g, unit) tx" where
  "settle R p r Completed = tx_then (CompleteRefund_tx R p (Some r) None) (\<lambda>_. tx_return (Ok ()))"
| "settle R p r (Compensated refundID failure) = CompensateRefund_tx R p r refundID failure CompensateRefundDeduction"

definition settled :: "int \<Rightarrow> 'g sys \<Rightarrow> bool" where
  "settled i s \<longleftrightarrow> (\<forall>x \<in> set (rows s). ID x = i \<longrightarrow> Status x \<noteq> OrderStatusRefunding)"

lemma settled_row: "settled i s \<Longrightarrow> row i s x \<Longrightarrow> Status x \<noteq> OrderStatusRefunding"
proof -
  assume "settled i s" "row i s x"
  moreover have "set (filter (\<lambda>y. ID y = i) (rows s)) = {x}" using calculation(2) by (simp add: row_def)
  then have "x \<in> set (rows s)" "ID x = i" by auto
  ultimately show ?thesis by (simp add: settled_def)
qed

lemma update_settles:
  "update_order i f s = (Ok (), s1) \<Longrightarrow> rows s' = rows s1 \<Longrightarrow> (\<And>t x. Status (f t x) \<noteq> OrderStatusRefunding) \<Longrightarrow> settled i s'"
  by (auto simp: settled_def dest!: update_order_rows)

lemma settle_settles:
  assumes "settle R p r a s = (Ok (), s')"
  shows "settled (OrderID p) s'"
  using assms
  by (cases a) (auto simp: CompleteRefund_tx_def CompensateRefund_tx_def tx_then_Ok Let_def split: if_splits
    dest!: refundAudit_rows elim!: update_settles simp: statuses)

lemma settle_claims:
  assumes "settle R p r a s = (Ok (), s')"
  shows "\<exists>s1. expected_claim p (Some r) s = (Ok (), s1)"
  using assms by (cases a) (auto simp: CompleteRefund_tx_def CompensateRefund_tx_def tx_then_Ok)

lemma settle_refused:
  "expected_claim p (Some r) s = (Err e, t) \<Longrightarrow> settle R p r a s = (Err e, t)"
  by (cases a) (simp_all add: CompleteRefund_tx_def CompensateRefund_tx_def tx_then_def)

section \<open>One preparation\<close>

definition refundable :: "Order \<Rightarrow> bool" where
  "refundable ord \<longleftrightarrow> Status ord \<in> {OrderStatusCompleted, OrderStatusRefundRequested, OrderStatusRefundPending, OrderStatusRefundFailed}"

definition refunding :: "int \<Rightarrow> 'g sys \<Rightarrow> bool" where
  "refunding i s \<longleftrightarrow> (\<forall>x \<in> set (rows s). ID x = i \<longrightarrow> Status x = OrderStatusRefunding)"

lemma refunding_row: "refunding i s \<Longrightarrow> row i s x \<Longrightarrow> Status x = OrderStatusRefunding"
proof -
  assume "refunding i s" "row i s x"
  moreover have "set (filter (\<lambda>y. ID y = i) (rows s)) = {x}" using calculation(2) by (simp add: row_def)
  then have "x \<in> set (rows s)" "ID x = i" by auto
  ultimately show ?thesis by (simp add: refunding_def)
qed

lemma update_refunding:
  assumes "update_order i f s = (Ok (), s1)" "refunding i s" "\<And>t x. ID (f t x) = ID x \<and> Status (f t x) = Status x"
  shows "refunding i s1"
  unfolding refunding_def update_order_rows [OF assms(1)] set_map
proof (intro ballI impI)
  fix x assume "x \<in> (\<lambda>x. if ID x = i then (f (db_us (wall s)) x)\<lparr>UpdatedAt := db_us (wall s)\<rparr> else x) ` set (rows s)" "ID x = i"
  then obtain y where "y \<in> set (rows s)" "x = (if ID y = i then (f (db_us (wall s)) y)\<lparr>UpdatedAt := db_us (wall s)\<rparr> else y)" by blast
  then show "Status x = OrderStatusRefunding" using assms(2,3) \<open>ID x = i\<close> unfolding refunding_def by (cases "ID y = i") simp_all
qed

lemma rows_refunding: "rows s1 = rows s \<Longrightarrow> refunding i s \<Longrightarrow> refunding i s1"
  by (simp add: refunding_def)

lemma claim_refunding:
  assumes "claimRefund i st v OrderStatusRefunding s = (Ok (), s1)"
  shows "refunding i s1"
proof -
  have u: "update_order i (\<lambda>now ord. ord\<lparr>Status := OrderStatusRefunding\<rparr>) s = (Ok (), s1)"
    using assms by (auto simp: claimRefund_def tx_then_Ok order_row_Ok split: if_splits)
  show ?thesis unfolding refunding_def update_order_rows [OF u] set_map
  proof (intro ballI impI)
    fix x assume "x \<in> (\<lambda>x. if ID x = i then x\<lparr>Status := OrderStatusRefunding, UpdatedAt := db_us (wall s)\<rparr> else x) ` set (rows s)" "ID x = i"
    then obtain y where "x = (if ID y = i then y\<lparr>Status := OrderStatusRefunding, UpdatedAt := db_us (wall s)\<rparr> else y)" by blast
    then show "Status x = OrderStatusRefunding" using \<open>ID x = i\<close> by (cases "ID y = i") simp_all
  qed
qed

section \<open>Alone on the connection\<close>

lemma transaction_quiet [simp]:
  "transaction m (quiet_conn s) = (fst (atomically m s), quiet_conn (snd (atomically m s)))"
  by (simp add: transaction_def)

lemma refund_claim_quiet:
  assumes "row i s x" "Status x = st" "UpdatedAt x = v"
  shows "claimRefund i st v st' s = (Ok (), upd_order i (\<lambda>now ord. ord\<lparr>Status := st'\<rparr>) s)"
  using assms by (simp add: claimRefund_def tx_then_def)

definition other_audits :: "int \<Rightarrow> string set \<Rightarrow> 'g sys \<Rightarrow> 'g sys \<Rightarrow> bool" where
  "other_audits i A s s' \<longleftrightarrow> (\<forall>k b. \<not> (k = i \<and> b \<in> A) \<longrightarrow> audit_detail k b s' = audit_detail k b s)"

lemma other_audits_read:
  "other_audits i A s s' \<Longrightarrow> ''REFUND_PREPARED'' \<notin> A \<Longrightarrow> readRefundReceipt i s = (Ok r, s) \<Longrightarrow> readRefundReceipt i s' = (Ok r, s')"
  by (auto simp: readRefundReceipt_def other_audits_def split: option.splits jvalue.splits if_splits)

lemma other_audits_appendable: "other_audits i A s s' \<Longrightarrow> a \<notin> A \<Longrightarrow> appendable i a s \<Longrightarrow> appendable i a s'"
  by (auto simp: other_audits_def appendable_def)

end
