(* ===== verification/RefundOutcome.thy ===== *)
theory RefundOutcome
  imports Refunds Wallet
begin

text \<open>
  Executing a refund alone on the connection: how the order ends and where the
  deducted funds are.  The entitlements behind a refund are an interface
  (\<open>refund_rights\<close>), provided by the wallet statements of theory Wallet.
\<close>

section \<open>Audit rows\<close>

lemma audit_detail_add:
  "audit_detail k b (add_audit i a operator d s) =
    (if k = i \<and> b = a \<and> audit_detail i a s = None then Some d else audit_detail k b s)"
  by (auto simp: audit_detail_def add_audit_def has_audit_detail find_append split: option.splits)

lemma add_audit_frame2 [simp]:
  "rows (add_audit i a operator d s) = rows s" "rest (add_audit i a operator d s) = rest s"
  "wall (add_audit i a operator d s) = wall s" "row k (add_audit i a operator d s) r = row k s r"
  by (simp_all add: add_audit_def row_def)

lemma row_rest [simp]: "row i (s\<lparr>rest := g\<rparr>) x = row i s x"
  by (simp add: row_def)

text \<open>Two states with the same orders and clock and the same refund records.\<close>

definition agree :: "int \<Rightarrow> 'g sys \<Rightarrow> 'g sys \<Rightarrow> bool" where
  "agree i s s' \<longleftrightarrow> rows s' = rows s \<and> wall s' = wall s \<and>
     (\<forall>b \<in> {''REFUND_PREPARED'', ''REFUND_SUCCESS'', ''REFUND_PENDING'', ''REFUND_GATEWAY_FAILED''}.
        audit_detail i b s' = audit_detail i b s)"

lemma agree_refl [simp]: "agree i s s"
  by (simp add: agree_def)

lemma agree_trans: "agree i s s1 \<Longrightarrow> agree i s1 s2 \<Longrightarrow> agree i s s2"
  by (simp add: agree_def)

lemma agree_rest [simp]: "agree i s (s\<lparr>rest := g\<rparr>)"
  by (simp add: agree_def)

lemma agree_add_audit:
  "a \<notin> {''REFUND_PREPARED'', ''REFUND_SUCCESS'', ''REFUND_PENDING'', ''REFUND_GATEWAY_FAILED''} \<Longrightarrow>
    agree i s (add_audit k a operator d s)"
  by (auto simp: agree_def audit_detail_add)

lemma agree_receipt: "agree i s s' \<Longrightarrow> readRefundReceipt i s = (Ok r, s) \<Longrightarrow> readRefundReceipt i s' = (Ok r, s')"
  by (auto simp: readRefundReceipt_def agree_def split: option.splits jvalue.splits if_splits)

section \<open>Collaborators alone on the connection\<close>

lemma service_quiet: "service f (quiet_conn s) = (case f (rest s) of (r, g) \<Rightarrow> (r, quiet_conn (s\<lparr>rest := g\<rparr>)))"
  by (simp add: service_def db_call_def split: prod.split)

lemma channel_quiet: "channel f (quiet_conn s) = (case f (rest s) of (a, g) \<Rightarrow> (a, quiet_conn (s\<lparr>rest := g\<rparr>)))"
proof -
  have "next_change (quiet_conn s) = quiet_conn s" by (simp add: quiet_conn_def)
  then show ?thesis by (simp only: channel_def Let_def quiet_eq split: prod.split) (simp add: quiet_conn_def)
qed

text \<open>Looking up the provider and calling its channel do not touch the wallet.\<close>

definition channel_only :: "('g \<Rightarrow> 'w) \<Rightarrow> 'g refund_runtime \<Rightarrow> Order \<Rightarrow> bool" where
  "channel_only wal rt ord \<longleftrightarrow>
     (\<forall>g. wal (snd (rtProvider rt ord g)) = wal g \<and>
        (\<forall>prov q h. fst (rtProvider rt ord g) = Ok prov \<longrightarrow> wal (snd (Refund prov q h)) = wal h))"

lemma channel_onlyD:
  assumes "channel_only wal rt ord" "rtProvider rt ord g = (r, g')"
  shows "wal g' = wal g" "r = Ok prov \<Longrightarrow> wal (snd (Refund prov q h)) = wal h"
proof -
  have *: "wal (snd (rtProvider rt ord g)) = wal g \<and>
        (\<forall>prov q h. fst (rtProvider rt ord g) = Ok prov \<longrightarrow> wal (snd (Refund prov q h)) = wal h)"
    using assms(1) unfolding channel_only_def by blast
  show "wal g' = wal g" using * assms(2) by simp
  show "r = Ok prov \<Longrightarrow> wal (snd (Refund prov q h)) = wal h" using * assms(2) by simp
qed

lemma gateway_quiet:
  assumes "channel_only wal rt (rpOrder p)"
  shows "\<exists>a s'. GwRefund D rt p (quiet_conn s) = (a, quiet_conn s') \<and> agree i s s' \<and> wal (rest s') = wal (rest s)"
proof (cases "PaymentTradeNo (rpOrder p) = []")
  case True
  then show ?thesis by (simp add: GwRefund_def agree_add_audit)
next
  case trade: False
  obtain r g where look: "rtProvider rt (rpOrder p) (rest s) = (r, g)" by fastforce
  have g: "wal g = wal (rest s)" by (rule channel_onlyD(1) [OF assms look])
  show ?thesis
  proof (cases r)
    case (Inl e)
    then show ?thesis using trade look g by (auto simp: GwRefund_def service_quiet)
  next
    case (Inr prov)
    have keep: "wal (snd (Refund prov q h)) = wal h" for q h
      by (rule channel_onlyD(2) [OF assms look Inr])
    let ?q = "\<lparr>rqTradeNo = PaymentTradeNo (rpOrder p), rqOrderID = OutTradeNo (rpOrder p),
                      rqAmount = FormatGatewayRefundAmount D (GatewayAmount p) (rpOrder p), rqReason = Reason p\<rparr>"
    obtain resp e g' where call: "Refund prov ?q g = ((resp, e), g')" by (metis prod.exhaust)
    have g': "wal g' = wal (rest s)" using keep [of ?q g] call g by simp
    show ?thesis
    proof (cases "ValidateProviderSnapshotMetadata (rpOrder p) (rvKey prov) (rvMetadata prov)")
      case (Inl e)
      have "agree i s (add_audit (ID (rpOrder p)) ''REFUND_PROVIDER_METADATA_MISMATCH'' ''admin'' JOther (s\<lparr>rest := g\<rparr>))"
        by (rule agree_trans [OF agree_rest agree_add_audit]) simp
      then show ?thesis using Inl Inr trade look g by (auto simp: GwRefund_def service_quiet)
    next
      case ok: (Inr u)
      show ?thesis using ok Inr trade look call g'
        by (auto simp: GwRefund_def service_quiet channel_quiet split: option.split sum.split)
    qed
  qed
qed

section \<open>Preparing\<close>

text \<open>The order is being refunded under this receipt.\<close>

definition holding :: "int \<Rightarrow> RefundReceipt \<Rightarrow> 'g sys \<Rightarrow> bool" where
  "holding i r s \<longleftrightarrow> (\<exists>x. row i s x \<and> Status x = OrderStatusRefunding \<and> UpdatedAt x = OperationVersion r) \<and>
     readRefundReceipt i s = (Ok r, s)"

lemma agree_row: "agree i s s' \<Longrightarrow> row k s' x = row k s x"
  by (simp add: agree_def row_def)

lemma agree_holding: "agree i s s' \<Longrightarrow> holding i r s \<Longrightarrow> holding i r s'"
  unfolding holding_def by (simp add: agree_row agree_receipt)

text \<open>A refundable order as the plan saw it, with records a refund can add to.\<close>

definition ready :: "int \<Rightarrow> Order \<Rightarrow> 'g sys \<Rightarrow> bool" where
  "ready i ord s \<longleftrightarrow> row i s ord \<and> refundable ord \<and> \<not> is_zero (db_us (wall s)) \<and> \<not> has_audit i ''REFUND_ROLLBACK_FAILED'' s \<and>
     (\<forall>a \<in> {''REFUND_PREPARED'', ''REFUND_SUCCESS'', ''REFUND_PENDING'', ''REFUND_GATEWAY_FAILED''}. appendable i a s)"

definition plan_for :: "int \<Rightarrow> Order \<Rightarrow> RefundPlan \<Rightarrow> bool" where
  "plan_for i ord p \<longleftrightarrow> OrderID p = i \<and> rpOrder p = ord \<and> ID ord = i \<and> validRefundAmount (rpRefundAmount p) \<and> validRefundAmount (GatewayAmount p)"

text \<open>What the deduction leaves in the plan makes a receipt that the store accepts.\<close>

definition recordable :: "RefundPlan \<Rightarrow> RefundPlan \<Rightarrow> bool" where
  "recordable p l \<longleftrightarrow> (\<forall>opid ord. validRefundDeduction (detail (refund_receipt opid p l ord)) False) \<and>
     OrderID l = OrderID p \<and> rpOrder l = rpOrder p \<and> rpRefundAmount l = rpRefundAmount p"

lemma valid_deduction_amounts:
  assumes "validRefundDeduction d legacy"
  shows "validRefundAmount (BalanceDeducted d)" "0 \<le> SubDaysDeducted d"
proof -
  have "\<not> (dSubscriptionID d < 0 \<or> \<not> validRefundAmount (BalanceDeducted d) \<or> SubDaysDeducted d < 0)"
  proof
    assume "dSubscriptionID d < 0 \<or> \<not> validRefundAmount (BalanceDeducted d) \<or> SubDaysDeducted d < 0"
    then show False using assms by (simp only: validRefundDeduction_def if_True)
  qed
  then show "validRefundAmount (BalanceDeducted d)" "0 \<le> SubDaysDeducted d" by auto
qed

lemma receipt_ok_prepared:
  assumes "recordable p l" "plan_for i ord p" "opid \<noteq> []" "\<not> is_zero (UpdatedAt x)"
  shows "receipt_ok i (refund_receipt opid p l x)"
proof -
  have v: "validRefundDeduction (detail (refund_receipt opid p l x)) False" using assms(1) by (simp add: recordable_def)
  then have "validRefundAmount (BalanceDeducted (detail (refund_receipt opid p l x)))"
    "0 \<le> SubDaysDeducted (detail (refund_receipt opid p l x))"
    using valid_deduction_amounts [OF v] by simp_all
  then show ?thesis using v assms(2-4) by (simp add: receipt_ok_def plan_for_def refund_receipt_def)
qed

lemma prepare_quiet:
  assumes s: "ready i ord s" and p: "plan_for i ord p" and opid: "opid \<noteq> []"
    and l: "ApplyRefundDeduction R p (rest s) = (Ok l, g)" "recordable p l"
  shows "\<exists>r s1. PrepareRefund_store R opid p ApplyRefundDeduction (quiet_conn s) = (Ok (r, l\<lparr>rpOperationID := opid\<rparr>), quiet_conn s1) \<and>
    holding i r s1 \<and> rest s1 = g \<and> (\<forall>a \<in> {''REFUND_SUCCESS'', ''REFUND_PENDING'', ''REFUND_GATEWAY_FAILED''}. appendable i a s1) \<and>
    PreviousStatus r = Status ord \<and> rRefundAmount r = rpRefundAmount p \<and> (\<exists>x. row i s1 x \<and> Status x = OrderStatusRefunding \<and> UpdatedAt x = OperationVersion r \<and>
      RefundAmount x = db_numeric 2 (rRefundAmount r) \<and> RefundReason x = Some (rReason r) \<and> ForceRefund x = rForce r)"
proof -
  have p': "OrderID p = i" "rpOrder p = ord" "ID ord = i" using p by (simp_all add: plan_for_def)
  let ?claim = "\<lambda>now :: instant. \<lambda>ord. ord\<lparr>Status := OrderStatusRefunding\<rparr>"
  let ?mark = "\<lambda>now :: instant. \<lambda>ord. ord\<lparr>RefundAmount := db_numeric 2 (rpRefundAmount p), RefundReason := Some (Reason p), ForceRefund := Force p\<rparr>"
  define sb where "sb = (upd_order i ?claim s)\<lparr>rest := g\<rparr>"
  define sc where "sc = upd_order i ?mark sb"
  have r0: "row i s ord" using s by (simp add: ready_def)
  have claim: "claimRefund i (Status ord) (UpdatedAt ord) OrderStatusRefunding s = (Ok (), upd_order i ?claim s)"
    by (rule refund_claim_quiet [OF r0]) simp_all
  obtain xb where xb: "row i sb xb" "Status xb = OrderStatusRefunding" "wall sb = wall s" "rest sb = g"
    "\<And>a. audit_detail i a sb = audit_detail i a s"
    using update_order_row(2) [of i s ord ?claim, OF r0] by (simp add: sb_def)
  have rec: "update_order i ?mark sb = (Ok (), sc)"
    using update_order_row(1) [of i sb xb ?mark, OF xb(1)] by (simp add: sc_def)
  obtain xc where xc: "row i sc xc" "Status xc = OrderStatusRefunding" "UpdatedAt xc = db_us (wall s)"
    "RefundAmount xc = db_numeric 2 (rpRefundAmount p)" "RefundReason xc = Some (Reason p)" "ForceRefund xc = Force p"
    using update_order_row(2) [of i sb xb ?mark, OF xb(1)] xb(2,3) by (simp add: sc_def)
  define r where "r = refund_receipt opid p l xc"
  have ok: "receipt_ok i r" unfolding r_def
    by (rule receipt_ok_prepared [OF l(2) p opid]) (use s xc(3) in \<open>simp add: ready_def\<close>)
  have rd: "validRefundDeduction (detail r) False" using ok by (simp add: receipt_ok_def)
  have app: "appendable i a sc \<longleftrightarrow> appendable i a s" for a by (simp add: appendable_def sc_def xb(5))
  then have "appendable i ''REFUND_PREPARED'' sc" using s by (simp add: ready_def)
  moreover obtain fs where fs: "marshal_receipt r = Some fs" by (rule marshal_receipt_Some [OF ok])
  ultimately obtain doc where doc: "refundAudit i ''REFUND_PREPARED'' (Some fs) sc = (Ok (), put_audit i ''REFUND_PREPARED'' (JObject doc) sc)"
    "documents fs doc" by (metis refundAudit_writes)
  define s1 where "s1 = put_audit i ''REFUND_PREPARED'' (JObject doc) sc"
  have d: "dOperationID (detail r) = []" using ok by (simp add: receipt_ok_def)
  have reads_back: "readRefundReceipt i s1 = (Ok r, s1)"
    using ok unmarshal_marshal [OF fs doc(2) d] by (simp add: readRefundReceipt_def audit_detail_put receipt_ok_def s1_def)
  have "record_preparation opid p l sb = (Ok (r, l\<lparr>rpOperationID := opid\<rparr>), s1)"
    using rec xc(1) rd fs doc(1) p'(1) by (simp add: record_preparation_def tx_then_def Let_def r_def s1_def)
  moreover have "\<not> has_audit i ''REFUND_ROLLBACK_FAILED'' (upd_order i ?claim s)" using s by (simp add: ready_def)
  ultimately have "PrepareRefund_tx R opid p ApplyRefundDeduction s = (Ok (r, l\<lparr>rpOperationID := opid\<rparr>), s1)"
    using claim l(1) p' by (simp add: PrepareRefund_tx_def tx_then_def tx_check_def entitlement_def sb_def)
  then have "PrepareRefund_store R opid p ApplyRefundDeduction (quiet_conn s) = (Ok (r, l\<lparr>rpOperationID := opid\<rparr>), quiet_conn s1)"
    using s p'(2) by (simp add: PrepareRefund_store_def atomically_def ready_def refundable_def)
  moreover have "holding i r s1" using xc reads_back by (auto simp: holding_def s1_def r_def refund_receipt_def)
  moreover have "appendable i a s1" if "a \<in> {''REFUND_SUCCESS'', ''REFUND_PENDING'', ''REFUND_GATEWAY_FAILED''}" for a
    using that s app [of a] by (auto simp: appendable_def audit_detail_put s1_def ready_def)
  moreover have "rest s1 = g" "PreviousStatus r = Status ord" "rRefundAmount r = rpRefundAmount p" using xb(4) p'(2) by (simp_all add: s1_def sc_def r_def refund_receipt_def)
  moreover have "row i s1 xc \<and> Status xc = OrderStatusRefunding \<and> UpdatedAt xc = OperationVersion r \<and>
      RefundAmount xc = db_numeric 2 (rRefundAmount r) \<and> RefundReason xc = Some (rReason r) \<and> ForceRefund xc = rForce r"
    using xc by (simp add: s1_def r_def refund_receipt_def)
  ultimately show ?thesis by blast
qed

section \<open>Settling\<close>

lemma expected_claim_quiet:
  assumes "holding i r s" "OrderID p = i" "ID (rpOrder p) = i"
  obtains s1 x where "expected_claim p (Some r) s = (Ok (), s1)" "row i s1 x" "rest s1 = rest s"
    "\<forall>a. audit_detail i a s1 = audit_detail i a s"
proof -
  let ?claim = "\<lambda>now :: instant. \<lambda>ord. ord\<lparr>Status := OrderStatusRefunding\<rparr>"
  obtain x where x: "row i s x" "Status x = OrderStatusRefunding" "UpdatedAt x = OperationVersion r"
    "readRefundReceipt i s = (Ok r, s)" using assms(1) by (auto simp: holding_def)
  have "claimRefund i OrderStatusRefunding (OperationVersion r) OrderStatusRefunding s = (Ok (), upd_order i ?claim s)"
    by (rule refund_claim_quiet [OF x(1-3)])
  then have "expected_claim p (Some r) s = (Ok (), upd_order i ?claim s)"
    using x(4) assms(2,3) by (simp add: expected_claim_def tx_then_def)
  moreover obtain y where "row i (upd_order i ?claim s) y" using update_order_row(2) [of i s x ?claim, OF x(1)] by simp
  ultimately show thesis using that by simp
qed

lemma appendable_writes:
  assumes "appendable i a s" "audit_detail i a s1 = audit_detail i a s"
  obtains doc where "refundAudit i a (Some fs) s1 = (Ok (), put_audit i a (JObject doc) s1)"
  using refundAudit_writes [of i a s1 fs thesis] assms by (simp add: appendable_def)

text \<open>What an update of the claimed order and a record of it leave.\<close>

lemma update_and_record:
  assumes "row i s x" "appendable i a s" "\<And>t y. ID (f t y) = ID y"
  obtains s' where "update_order i f s = (Ok (), upd_order i f s)" "refundAudit i a (Some fs) (upd_order i f s) = (Ok (), s')"
    "row i s' ((f (db_us (wall s)) x)\<lparr>UpdatedAt := db_us (wall s)\<rparr>)" "rest s' = rest s"
proof -
  obtain doc where "refundAudit i a (Some fs) (upd_order i f s) = (Ok (), put_audit i a (JObject doc) (upd_order i f s))"
    by (rule appendable_writes [OF assms(2), of "upd_order i f s" fs]) simp_all
  then show thesis using that update_order_row [of i s x f, OF assms(1,3)] by simp
qed

lemma complete_quiet:
  assumes "holding i r s" "OrderID p = i" "ID (rpOrder p) = i" "appendable i ''REFUND_SUCCESS'' s"
    "validRefundAmount (rpRefundAmount p)" "validRefundAmount (BalanceToDeduct p)"
  obtains res s' x where "CompleteRefund R p (Some r) None (quiet_conn s) = (Ok res, quiet_conn s')"
    "Success res" "resBalanceDeducted res = BalanceToDeduct p" "row i s' x" "rest s' = rest s"
    "Status x = (if flt (rpRefundAmount p) (Amount (rpOrder p)) then OrderStatusPartiallyRefunded else OrderStatusRefunded)"
proof -
  obtain s1 y where s1: "expected_claim p (Some r) s = (Ok (), s1)" "row i s1 y" "rest s1 = rest s"
    "\<forall>a. audit_detail i a s1 = audit_detail i a s" by (rule expected_claim_quiet [OF assms(1-3)])
  obtain a b where "rpRefundAmount p = Fin a" "BalanceToDeduct p = Fin b" using valid_amount_Fin assms(5,6) by metis
  then obtain fs where fs: "jnumber (rpRefundAmount p) ''refundAmount'' (jnumber (BalanceToDeduct p) ''balanceDeducted''
              (Some [(''reason'', JString (Reason p)), (''subDaysDeducted'', JInt (SubDaysToDeduct p)),
                (''force'', JBool (Force p)), (''operationID'', JString (rpOperationID p))])) = Some fs"
    by (simp add: jnumber_def jfloat_def)
  let ?st = "if flt (rpRefundAmount p) (Amount (rpOrder p)) then OrderStatusPartiallyRefunded else OrderStatusRefunded"
  let ?f = "\<lambda>now :: instant. \<lambda>ord. ord\<lparr>Status := ?st, RefundAmount := db_numeric 2 (rpRefundAmount p), RefundReason := Some (Reason p),
            RefundAt := Some now, ForceRefund := Force p\<rparr>"
  have "appendable i ''REFUND_SUCCESS'' s1" using assms(4) s1(4) by (simp add: appendable_def)
  then obtain s' where s': "update_order i ?f s1 = (Ok (), upd_order i ?f s1)"
    "refundAudit i ''REFUND_SUCCESS'' (Some fs) (upd_order i ?f s1) = (Ok (), s')"
    "row i s' ((?f (db_us (wall s1)) y)\<lparr>UpdatedAt := db_us (wall s1)\<rparr>)" "rest s' = rest s1"
    using update_and_record [of i s1 y "''REFUND_SUCCESS''" ?f fs thesis, OF s1(2)] by simp
  have "CompleteRefund_tx R p (Some r) None s = (Ok (refund_result\<lparr>Success := True, resBalanceDeducted := BalanceToDeduct p,
            resSubDaysDeducted := SubDaysToDeduct p\<rparr>), s')"
    using s1(1) s'(1,2) fs assms(2) by (simp add: CompleteRefund_tx_def tx_then_def Let_def)
  then show thesis using that [OF _ _ _ s'(3)] s'(4) s1(3) by (simp add: CompleteRefund_def atomically_def)
qed

lemma compensate_quiet:
  assumes "holding i r s" "OrderID p = i" "ID (rpOrder p) = i"
    "appendable i ''REFUND_PENDING'' s" "appendable i ''REFUND_GATEWAY_FAILED'' s"
    "validRefundAmount (rpRefundAmount p)" "validRefundAmount (BalanceToDeduct p)" "f R p (rest s) = (Ok l, g)"
  obtains s' x where "CompensateRefund R p r refundID failure f (quiet_conn s) = (Ok (), quiet_conn s')" "row i s' x" "rest s' = g"
    "Status x = (if failure = [] then OrderStatusRefundPending
       else if PreviousStatus r = OrderStatusRefundRequested then OrderStatusRefundRequested else OrderStatusCompleted)"
proof -
  obtain s0 y where s0: "expected_claim p (Some r) s = (Ok (), s0)" "row i s0 y" "rest s0 = rest s"
    "\<forall>a. audit_detail i a s0 = audit_detail i a s" by (rule expected_claim_quiet [OF assms(1-3)])
  define s1 where "s1 = s0\<lparr>rest := g\<rparr>"
  have s1: "row i s1 y" "appendable i ''REFUND_PENDING'' s1" "appendable i ''REFUND_GATEWAY_FAILED'' s1" "rest s1 = g"
    using s0 assms(4,5) by (simp_all add: s1_def appendable_def)
  have ent: "entitlement (f R p) s0 = (Ok l, s1)" using assms(8) s0(3) by (simp add: entitlement_def s1_def)
  show thesis
  proof (cases "failure = []")
    case True
    obtain a b where "rpRefundAmount p = Fin a" "BalanceToDeduct p = Fin b" using valid_amount_Fin assms(6,7) by metis
    then obtain fs where fs: "jnumber (rpRefundAmount p) ''refundAmount'' (jnumber (BalanceToDeduct p) ''balanceDeducted''
             (jnumber (BalanceToDeduct p) ''balanceRolledBack''
               (Some [(''refundID'', JString refundID), (''reason'', JString (Reason p)), (''force'', JBool (Force p)),
                 (''deductBalance'', JBool (rpDeductBalance p)), (''deductionType'', JString (rpDeductionType p)),
                 (''subDaysDeducted'', JInt (SubDaysToDeduct p)), (''subscriptionID'', JInt (rpSubscriptionID p)),
                 (''subDaysRolledBack'', JInt (SubDaysToDeduct p)), (''deductionRollbackOK'', JBool True),
                 (''operationID'', JString (rOperationID r)), (''version'', JInt 1)]))) = Some fs"
      by (simp add: jnumber_def jfloat_def)
    let ?f = "\<lambda>now :: instant. \<lambda>ord. ord\<lparr>Status := OrderStatusRefundPending,
           RefundAmount := db_numeric 2 (rpRefundAmount p), RefundReason := Some (Reason p), RefundAt := None,
           ForceRefund := Force p, FailedAt := None, FailedReason := None\<rparr>"
    obtain s' where s': "update_order i ?f s1 = (Ok (), upd_order i ?f s1)"
      "refundAudit i ''REFUND_PENDING'' (Some fs) (upd_order i ?f s1) = (Ok (), s')"
      "row i s' ((?f (db_us (wall s1)) y)\<lparr>UpdatedAt := db_us (wall s1)\<rparr>)" "rest s' = rest s1"
      using update_and_record [of i s1 y "''REFUND_PENDING''" ?f fs thesis, OF s1(1,2)] by simp
    have "CompensateRefund_tx R p r refundID failure f s = (Ok (), s')"
      using s0(1) ent s'(1,2) fs assms(2) True by (simp add: CompensateRefund_tx_def tx_then_def)
    then show thesis using that [OF _ s'(3)] s'(4) s1(4) True by (simp add: CompensateRefund_def atomically_def)
  next
    case False
    let ?st = "if PreviousStatus r = OrderStatusRefundRequested then OrderStatusRefundRequested else OrderStatusCompleted"
    let ?f = "\<lambda>now :: instant. \<lambda>ord. ord\<lparr>Status := ?st\<rparr>"
    let ?fs = "[(''detail'', JString failure), (''operationID'', JString (rOperationID r)), (''deductionRollbackOK'', JBool True)]"
    obtain s' where s': "update_order i ?f s1 = (Ok (), upd_order i ?f s1)"
      "refundAudit i ''REFUND_GATEWAY_FAILED'' (Some ?fs) (upd_order i ?f s1) = (Ok (), s')"
      "row i s' ((?f (db_us (wall s1)) y)\<lparr>UpdatedAt := db_us (wall s1)\<rparr>)" "rest s' = rest s1"
      using update_and_record [of i s1 y "''REFUND_GATEWAY_FAILED''" ?f ?fs thesis, OF s1(1,3)] by simp
    have "CompensateRefund_tx R p r refundID failure f s = (Ok (), s')"
      using s0(1) ent s'(1,2) assms(2) False by (simp add: CompensateRefund_tx_def tx_then_def Let_def)
    then show thesis using that [OF _ s'(3)] s'(4) s1(4) False by (simp add: CompensateRefund_def atomically_def)
  qed
qed

section \<open>The entitlements behind a refund\<close>

text \<open>
  How an executed refund may end: refunded with the deduction taken; not refunded
  with it given back; or undecided, with the deduction taken and the receipt kept
  for the recovery.
\<close>

definition refund_outcome ::
  "int \<Rightarrow> 'w \<Rightarrow> 'w \<Rightarrow> ('g \<Rightarrow> 'w) \<Rightarrow> (perror, RefundResult) result \<times> 'g sys \<Rightarrow> bool" where
  "refund_outcome i charged restored wal out = (case out of (res, s) \<Rightarrow> \<exists>x. row i s x \<and>
     (case res of
        Inr r \<Rightarrow> if Success r then Status x \<in> {OrderStatusRefunded, OrderStatusPartiallyRefunded} \<and> wal (rest s) = charged
                 else Status x \<in> {OrderStatusRefundPending, OrderStatusCompleted, OrderStatusRefundRequested} \<and> wal (rest s) = restored
      | Inl e \<Rightarrow> Status x = OrderStatusRefunding \<and> wal (rest s) = charged \<and> (\<exists>r. readRefundReceipt i s = (Ok r, s))))"

locale refund_rights =
  fixes R :: "'g rights" and fair :: "RefundPlan \<Rightarrow> 'g \<Rightarrow> bool" and wal :: "'g \<Rightarrow> 'w"
    and charged restored :: "RefundPlan \<Rightarrow> 'w \<Rightarrow> 'w"
  assumes deducts: "fair p g \<Longrightarrow> \<exists>l g1. ApplyRefundDeduction R p g = (Ok l, g1) \<and> recordable p l \<and>
      validRefundAmount (BalanceToDeduct l) \<and> wal g1 = charged p (wal g)"
    and compensates: "fair p g \<Longrightarrow> ApplyRefundDeduction R p g = (Ok l, g1) \<Longrightarrow> wal g2 = wal g1 \<Longrightarrow>
      \<exists>l' g3. CompensateRefundDeduction R (l\<lparr>rpOperationID := opid\<rparr>) g2 = (Ok l', g3) \<and> wal g3 = restored p (wal g)"
begin

lemma executes:
  assumes s: "ready i ord s" and p: "plan_for i ord p" and opid: "opid \<noteq> []"
    and g: "fair p (rest s)" and rt: "channel_only wal rt ord"
  shows "\<exists>res s'. ExecuteRefund D rt R opid p (quiet_conn s) = (res, quiet_conn s') \<and>
    refund_outcome i (charged p (wal (rest s))) (restored p (wal (rest s))) wal (res, s')"
proof -
  have p': "OrderID p = i" "rpOrder p = ord" "ID ord = i" "validRefundAmount (rpRefundAmount p)" using p by (simp_all add: plan_for_def)
  obtain l0 g1 where l0: "ApplyRefundDeduction R p (rest s) = (Ok l0, g1)" "recordable p l0"
    "validRefundAmount (BalanceToDeduct l0)" "wal g1 = charged p (wal (rest s))" using deducts [OF g] by blast
  define l where "l = l0\<lparr>rpOperationID := opid\<rparr>"
  have l: "OrderID l = i" "rpOrder l = ord" "ID (rpOrder l) = i" "validRefundAmount (rpRefundAmount l)" "validRefundAmount (BalanceToDeduct l)"
    using l0(2,3) p' by (simp_all add: l_def recordable_def)
  obtain r s1 where s1: "PrepareRefund_store R opid p ApplyRefundDeduction (quiet_conn s) = (Ok (r, l), quiet_conn s1)"
    "holding i r s1" "rest s1 = g1" "\<forall>a \<in> {''REFUND_SUCCESS'', ''REFUND_PENDING'', ''REFUND_GATEWAY_FAILED''}. appendable i a s1"
    using prepare_quiet [OF s p opid l0(1,2)] by (auto simp: l_def)
  have "channel_only wal rt (rpOrder l)" using rt l(2) by simp
  then obtain a s2 where s2: "GwRefund D rt l (quiet_conn s1) = (a, quiet_conn s2)" "agree i s1 s2" "wal (rest s2) = wal (rest s1)"
    using gateway_quiet by blast
  have hold: "holding i r s2" by (rule agree_holding [OF s2(2) s1(2)])
  have app: "appendable i ''REFUND_SUCCESS'' s2" "appendable i ''REFUND_PENDING'' s2" "appendable i ''REFUND_GATEWAY_FAILED'' s2"
    using s1(4) s2(2) by (simp_all add: appendable_def agree_def)
  have wal2: "wal (rest s2) = charged p (wal (rest s))" using s2(3) s1(3) l0(4) by simp
  obtain l' g3 where g3: "CompensateRefundDeduction R l (rest s2) = (Ok l', g3)" "wal g3 = restored p (wal (rest s))"
    using compensates [OF g l0(1), of "rest s2" opid] s2(3) s1(3) by (auto simp: l_def)
  let ?goal = "\<lambda>m. \<exists>res s'. m = (res, quiet_conn s') \<and>
    refund_outcome i (charged p (wal (rest s))) (restored p (wal (rest s))) wal (res, s')"
  have failure: "?goal (compensateFailure rt R l r e (quiet_conn s2))" for e
  proof -
    obtain s' x where c: "CompensateRefund R l r [] (rtErrorText rt e) CompensateRefundDeduction (quiet_conn s2) = (Ok (), quiet_conn s')"
      "row i s' x" "rest s' = g3" "Status x = (if rtErrorText rt e = [] then OrderStatusRefundPending
       else if PreviousStatus r = OrderStatusRefundRequested then OrderStatusRefundRequested else OrderStatusCompleted)"
      by (rule compensate_quiet [where f = CompensateRefundDeduction, OF hold l(1,3) app(2,3) l(4,5) g3(1)])
    have st: "Status x = OrderStatusRefundPending \<or> Status x = OrderStatusCompleted \<or> Status x = OrderStatusRefundRequested"
      unfolding c(4) by (simp split: if_splits)
    show ?thesis using c(1-3) st g3(2) by (auto simp: compensateFailure_def refund_outcome_def refund_result_def)
  qed
  have pending: "?goal (case CompensateRefund R l r refundID [] CompensateRefundDeduction (quiet_conn s2) of
      (Inl e, w) \<Rightarrow> (Err e, w)
    | (Inr _, w) \<Rightarrow> (Ok (refund_result\<lparr>Warning := ''gateway refund is pending confirmation''\<rparr>), w))" for refundID
  proof -
    obtain s' x where c: "CompensateRefund R l r refundID [] CompensateRefundDeduction (quiet_conn s2) = (Ok (), quiet_conn s')"
      "row i s' x" "rest s' = g3" "Status x = (if ([] :: string) = [] then OrderStatusRefundPending
       else if PreviousStatus r = OrderStatusRefundRequested then OrderStatusRefundRequested else OrderStatusCompleted)"
      by (rule compensate_quiet [where f = CompensateRefundDeduction, OF hold l(1,3) app(2,3) l(4,5) g3(1)])
    have st: "Status x = OrderStatusRefundPending \<or> Status x = OrderStatusCompleted \<or> Status x = OrderStatusRefundRequested"
      unfolding c(4) by (simp split: if_splits)
    show ?thesis using c(1-3) st g3(2) by (auto simp: refund_outcome_def refund_result_def)
  qed
  have completes: "?goal (CompleteRefund R l (Some r) None (quiet_conn s2))"
  proof -
    obtain res s' x where "CompleteRefund R l (Some r) None (quiet_conn s2) = (Ok res, quiet_conn s')"
      "Success res" "resBalanceDeducted res = BalanceToDeduct l" "row i s' x" "rest s' = rest s2"
      "Status x = (if flt (rpRefundAmount l) (Amount (rpOrder l)) then OrderStatusPartiallyRefunded else OrderStatusRefunded)"
      by (rule complete_quiet [OF hold l(1,3) app(1) l(4,5)])
    moreover have "Status x = OrderStatusPartiallyRefunded \<or> Status x = OrderStatusRefunded"
      unfolding calculation(6) by simp
    ultimately show ?thesis using wal2 by (auto simp: refund_outcome_def)
  qed
  have unknown: "?goal (Err e, quiet_conn s2)" for e
    using hold wal2 by (auto simp: refund_outcome_def holding_def)
  show ?thesis
  proof (cases a)
    case (Inl e)
    then show ?thesis using s1(1) s2(1) failure [of e] unknown [of "RefundRecoveryRequired (rtErrorText rt e)"]
      by (simp add: ExecuteRefund_def)
  next
    case (Inr resp)
    then show ?thesis using s1(1) s2(1) failure pending completes
      by (simp add: ExecuteRefund_def FinishRefund_def split: sum.split)
  qed
qed

end

section \<open>The wallet behind a refund\<close>

text \<open>The rights bound by the application: the wallet statements, and two subscription operations.\<close>

definition payment_rights ::
  "(int \<Rightarrow> int \<Rightarrow> 'h \<Rightarrow> (perror, unit) result \<times> 'h) \<Rightarrow> (int \<Rightarrow> 'h \<Rightarrow> (perror, unit) result \<times> 'h)
   \<Rightarrow> (user_row list \<times> 'h) rights" where
  "payment_rights adjust revoke =
     \<lparr>DeductBalance = \<lambda>i a g. (case DeductRefundBalance i a (fst g) of (r, us) \<Rightarrow> (r, (us, snd g))),
      CompensateBalance = \<lambda>i a g. (case CompensateRefundBalance i a (fst g) of (r, us) \<Rightarrow> (r, (us, snd g))),
      AdjustSubscription = \<lambda>i d g. (case adjust i d (snd g) of (r, h) \<Rightarrow> (r, (fst g, h))),
      RevokeSubscription = \<lambda>i g. (case revoke i (snd g) of (r, h) \<Rightarrow> (r, (fst g, h)))\<rparr>"

text \<open>A plan that takes back part of a balance, for a user whose wallet holds amounts of up to about 16 million.\<close>

definition refund_amount :: "RefundPlan \<Rightarrow> rat" where
  "refund_amount p = (case BalanceToDeduct p of Fin x \<Rightarrow> decimal_text x | _ \<Rightarrow> 0)"

definition from_wallet :: "RefundPlan \<Rightarrow> user_row list \<times> 'h \<Rightarrow> bool" where
  "from_wallet p g \<longleftrightarrow> rpDeductBalance p \<and> rpDeductionType p = DeductionTypeBalance \<and> SubDaysToDeduct p = 0 \<and> rpSubscriptionID p = 0 \<and>
     BalanceToDeduct p = rnd (refund_amount p) \<and> precise 8 24 (refund_amount p) \<and> 0 < refund_amount p \<and>
     distinct (map userID (fst g)) \<and>
     (\<exists>r. wallet (UserID (rpOrder p)) (fst g) = Some r \<and> \<not> deleted r \<and> precise 8 24 (balance r) \<and>
        scaled 8 (total_recharged r) \<and> \<bar>total_recharged r\<bar> + refund_amount p < 10 ^ 12)"

definition taken :: "RefundPlan \<Rightarrow> user_row \<Rightarrow> rat" where
  "taken p r = max 0 (min (refund_amount p) (balance r))"

definition wallet_charged :: "RefundPlan \<Rightarrow> user_row list \<Rightarrow> user_row list" where
  "wallet_charged p us = (case wallet (UserID (rpOrder p)) us of None \<Rightarrow> us
     | Some r \<Rightarrow> put (UserID (rpOrder p)) (r\<lparr>balance := balance r - taken p r\<rparr>) us)"

definition wallet_restored :: "RefundPlan \<Rightarrow> user_row list \<Rightarrow> user_row list" where
  "wallet_restored p us = (case wallet (UserID (rpOrder p)) us of None \<Rightarrow> us
     | Some r \<Rightarrow> put (UserID (rpOrder p)) (r\<lparr>total_recharged := total_recharged r + taken p r\<rparr>) us)"

lemma from_wallet_apply:
  assumes "from_wallet p g"
  obtains r where "wallet (UserID (rpOrder p)) (fst g) = Some r" "distinct (map userID (fst g))"
    "precise 8 24 (taken p r)" "0 \<le> taken p r"
    "ApplyRefundDeduction (payment_rights adj revoke) p g = (Ok (p\<lparr>BalanceToDeduct := rnd (taken p r)\<rparr>), (wallet_charged p (fst g), snd g))"
    "CompensateRefundBalance (UserID (rpOrder p)) (rnd (taken p r)) (wallet_charged p (fst g)) = (Ok (), wallet_restored p (fst g))"
proof -
  obtain r where r: "wallet (UserID (rpOrder p)) (fst g) = Some r" "\<not> deleted r" "precise 8 24 (balance r)"
      "scaled 8 (total_recharged r)" "\<bar>total_recharged r\<bar> + refund_amount p < 10 ^ 12"
    and p: "rpDeductionType p = DeductionTypeBalance" "SubDaysToDeduct p = 0" "BalanceToDeduct p = rnd (refund_amount p)"
      "precise 8 24 (refund_amount p)" "0 < refund_amount p" "distinct (map userID (fst g))"
    using assms by (auto simp: from_wallet_def)
  obtain d us' where d: "d = max 0 (min (refund_amount p) (balance r))"
    "DeductRefundBalance (UserID (rpOrder p)) (rnd (refund_amount p)) (fst g) = (Ok (rnd d), us')"
    "us' = put (UserID (rpOrder p)) (r\<lparr>balance := balance r - d\<rparr>) (fst g)"
    "CompensateRefundBalance (UserID (rpOrder p)) (rnd d) us' = (Ok (), put (UserID (rpOrder p)) (r\<lparr>total_recharged := total_recharged r + d\<rparr>) (fst g))"
    using refund_roundtrip [OF p(6) r(1,2,3) p(4,5) r(4,5)] by blast
  have dt: "d = taken p r" by (simp add: taken_def d(1))
  have ch: "us' = wallet_charged p (fst g)" "put (UserID (rpOrder p)) (r\<lparr>total_recharged := total_recharged r + d\<rparr>) (fst g) = wallet_restored p (fst g)"
    using r(1) by (simp_all add: wallet_charged_def wallet_restored_def d(3) dt)
  have pos: "flt f0 (BalanceToDeduct p)" unfolding p(3) by (rule rnd_pos [OF p(4,5)])
  have "ApplyRefundDeduction (payment_rights adj revoke) p g = (Ok (p\<lparr>BalanceToDeduct := rnd (taken p r)\<rparr>), (wallet_charged p (fst g), snd g))"
    using pos p(1,2) d(2) p(3) ch(1) dt by (simp add: ApplyRefundDeduction_def payment_rights_def)
  moreover have "precise 8 24 (taken p r)" using p(4) r(3) by (auto simp: taken_def max_def min_def precise_def)
  moreover have "0 \<le> taken p r" by (simp add: taken_def)
  ultimately show thesis using that r(1) p(6) d(4) ch dt by simp
qed

interpretation wallet_refunds: refund_rights "payment_rights adj revoke" from_wallet fst wallet_charged wallet_restored for adj revoke
proof
  fix p :: RefundPlan and g :: "user_row list \<times> 'a"
  assume fair: "from_wallet p g"
  obtain r where r: "precise 8 24 (taken p r)" "0 \<le> taken p r"
    "ApplyRefundDeduction (payment_rights adj revoke) p g = (Ok (p\<lparr>BalanceToDeduct := rnd (taken p r)\<rparr>), (wallet_charged p (fst g), snd g))"
    by (rule from_wallet_apply [OF fair])
  have v: "validRefundAmount (rnd (taken p r))"
    using precise_Fin [OF r(1)] rnd_nonneg [of "taken p r"] r(2) by (auto simp: validRefundAmount_def is_inf_def)
  have "recordable p (p\<lparr>BalanceToDeduct := rnd (taken p r)\<rparr>)"
    using v fair by (simp add: recordable_def validRefundDeduction_def refund_receipt_def from_wallet_def deduction_types)
  then show "\<exists>l g1. ApplyRefundDeduction (payment_rights adj revoke) p g = (Ok l, g1) \<and> recordable p l \<and>
      validRefundAmount (BalanceToDeduct l) \<and> fst g1 = wallet_charged p (fst g)" using r(3) v by auto
next
  fix p :: RefundPlan and g g1 g2 :: "user_row list \<times> 'a" and l opid
  assume fair: "from_wallet p g" and l: "ApplyRefundDeduction (payment_rights adj revoke) p g = (Ok l, g1)" and same: "fst g2 = fst g1"
  obtain r where r: "wallet (UserID (rpOrder p)) (fst g) = Some r" "distinct (map userID (fst g))" "precise 8 24 (taken p r)" "0 \<le> taken p r"
    "ApplyRefundDeduction (payment_rights adj revoke) p g = (Ok (p\<lparr>BalanceToDeduct := rnd (taken p r)\<rparr>), (wallet_charged p (fst g), snd g))"
    "CompensateRefundBalance (UserID (rpOrder p)) (rnd (taken p r)) (wallet_charged p (fst g)) = (Ok (), wallet_restored p (fst g))"
    by (rule from_wallet_apply [OF fair])
  have g2: "fst g2 = wallet_charged p (fst g)" using same l r(5) by (metis Inr_inject fst_conv snd_conv)
  have kind: "rpDeductionType p = DeductionTypeBalance" "SubDaysToDeduct p = 0" using fair by (simp_all add: from_wallet_def)
  have "CompensateRefundDeduction (payment_rights adj revoke) (p\<lparr>BalanceToDeduct := rnd (taken p r), rpOperationID := opid\<rparr>) g2
      = (Ok (p\<lparr>BalanceToDeduct := rnd (taken p r), rpOperationID := opid\<rparr>), (wallet_restored p (fst g), snd g2))"
  proof (cases "taken p r = 0")
    case True
    then have "wallet_charged p (fst g) = wallet_restored p (fst g)"
      using r(1,2) by (simp add: wallet_charged_def wallet_restored_def put_same)
    moreover have "(wallet_charged p (fst g), snd g2) = g2" using g2 by (simp add: prod_eq_iff)
    ultimately show ?thesis using True kind by (simp add: CompensateRefundDeduction_def deduction_types)
  next
    case False
    then have "flt f0 (rnd (taken p r))" using rnd_pos [OF r(3)] r(4) by simp
    then show ?thesis using r(6) g2 kind by (simp add: CompensateRefundDeduction_def payment_rights_def deduction_types)
  qed
  then show "\<exists>l' g3. CompensateRefundDeduction (payment_rights adj revoke) (l\<lparr>rpOperationID := opid\<rparr>) g2 = (Ok l', g3) \<and>
      fst g3 = wallet_restored p (fst g)" using l r(5) by auto
qed

text \<open>
  C6: Executing a balance refund alone on the connection ends in one of three
  ways, whatever the payment channel answers: the order is refunded and the wallet
  has lost the deduction; the order is pending, completed or requested again and
  the wallet's balance is as before; or the outcome is reported as unknown, the
  order stays refunding with the deduction taken, and the receipt the recovery
  needs reads back.
\<close>

theorem refund_outcome_matches_wallet:
  assumes "ready i ord s" "plan_for i ord p" "opid \<noteq> []" "from_wallet p (rest s)" "channel_only fst rt ord"
  shows "\<exists>res s'. ExecuteRefund D rt (payment_rights adj revoke) opid p (quiet_conn s) = (res, quiet_conn s') \<and>
    refund_outcome i (wallet_charged p (fst (rest s))) (wallet_restored p (fst (rest s))) fst (res, s')"
  by (rule wallet_refunds.executes [OF assms])

section \<open>A refund on concrete data\<close>

definition adjusts :: "int \<Rightarrow> int \<Rightarrow> unit \<Rightarrow> (perror, unit) result \<times> unit" where
  "adjusts i d h = (Ok (), h)"

definition revokes :: "int \<Rightarrow> unit \<Rightarrow> (perror, unit) result \<times> unit" where
  "revokes i h = (Ok (), h)"

definition paid0 :: Order where "paid0 = order0 OrderStatusCompleted"

definition shop0 :: "(user_row list \<times> unit) sys" where
  "shop0 = \<lparr>rows = [paid0], audits = [], wall = 0, rest = ([account0], ())\<rparr>"

definition plan0 :: "f64 \<Rightarrow> RefundPlan" where
  "plan0 a = \<lparr>OrderID = 7, rpOrder = paid0, rpRefundAmount = a, GatewayAmount = Fin 10, Reason = ''asked'', Force = False,
     rpDeductBalance = True, rpDeductionType = DeductionTypeBalance, BalanceToDeduct = Fin 10, SubDaysToDeduct = 0,
     rpSubscriptionID = 0, rpOperationID = [], ChannelRefundID = []\<rparr>"

definition gateway0 :: "(user_row list \<times> unit) refund_runtime" where
  "gateway0 = \<lparr>rtUser = \<lambda>i g. (Ok (Fin 12), g), rtSubscriptions = \<lambda>i g. (Ok [], g), rtInstance = \<lambda>ord g. (Ok None, g),
     rtProvider = \<lambda>ord g. (Err RowNotFound, g), rtErrorText = \<lambda>e. ''down''\<rparr>"

lemma precise10: "precise 8 24 (10 :: rat)" "rnd 10 = Fin 10" "decimal_text 10 = 10"
proof -
  show p: "precise 8 24 (10 :: rat)" by (simp add: precise_def scaled_def)
  show r: "rnd 10 = Fin 10" by (simp add: rnd_numeral)
  show "decimal_text 10 = 10" using decimal_text_precise [of 8 24 10 10] p r by simp
qed

lemma concrete:
  "ready 7 paid0 shop0" "validRefundAmount a \<Longrightarrow> plan_for 7 paid0 (plan0 a)" "from_wallet (plan0 a) ([account0], ())"
  "channel_only fst gateway0 ord"
proof -
  show "ready 7 paid0 shop0"
    by (simp add: ready_def row_def shop0_def paid0_def order0_def refundable_def has_audit_def appendable_def audit_detail_def
      is_zero_def zero_time_def db_us_def)
  show "validRefundAmount a \<Longrightarrow> plan_for 7 paid0 (plan0 a)"
    by (simp add: plan_for_def plan0_def paid0_def order0_def validRefundAmount_def is_inf_def)
  have "refund_amount (plan0 a) = 10" by (simp add: refund_amount_def plan0_def precise10)
  then show "from_wallet (plan0 a) ([account0], ())"
    using precise10 by (simp add: from_wallet_def plan0_def paid0_def order0_def account0_def wallet_def precise_def scaled_def)
  show "channel_only fst gateway0 ord" by (simp add: channel_only_def gateway0_def)
qed

theorem refund_outcome_matches_wallet_witness:
  "\<exists>res s'. ExecuteRefund rat_decimal gateway0 (payment_rights adjusts revokes) ''op'' (plan0 (Fin 10)) (quiet_conn shop0) = (res, quiet_conn s') \<and>
    refund_outcome 7 (wallet_charged (plan0 (Fin 10)) [account0]) (wallet_restored (plan0 (Fin 10)) [account0]) fst (res, s')"
proof -
  have "validRefundAmount (Fin 10)" by (simp add: validRefundAmount_def is_inf_def)
  then show ?thesis
    using refund_outcome_matches_wallet [of 7 paid0 shop0 "plan0 (Fin 10)" "''op''" gateway0 rat_decimal adjusts revokes]
      concrete(1,3,4) concrete(2) [of "Fin 10"] by (simp add: shop0_def)
qed

text \<open>
  C7: A prepared refund is settled at most once: a settlement that commits found the
  order refunding at the receipt's version, and after it every settlement of that
  order with any receipt is refused and changes nothing, until a new refund is
  prepared.
\<close>

theorem refund_settles_once:
  assumes "atomically (settle R p r a) s = (Ok (), s')" "ID (rpOrder p) = OrderID p"
  shows "(\<exists>x. row (OrderID p) s x \<and> Status x = OrderStatusRefunding \<and> UpdatedAt x = OperationVersion r) \<and>
    settled (OrderID p) s' \<and>
    (\<forall>R' p' r' a'. ID (rpOrder p') = OrderID p \<longrightarrow> (\<exists>e. atomically (settle R' p' r' a') s' = (Err e, s')))"
proof (intro conjI allI impI)
  have ok: "settle R p r a s = (Ok (), s')" using assms(1) by (simp add: atomically_Ok)
  show "\<exists>x. row (OrderID p) s x \<and> Status x = OrderStatusRefunding \<and> UpdatedAt x = OperationVersion r"
    using settle_claims [OF ok] expected_claim_Ok(1) assms(2) by metis
  show closed: "settled (OrderID p) s'" by (rule settle_settles [OF ok])
  fix R' :: "'a rights" and p' :: RefundPlan and r' a' assume "ID (rpOrder p') = OrderID p"
  then obtain e t where "expected_claim p' (Some r') s' = (Err e, t)"
    using expected_claim_refused [of p' s' r'] settled_row [OF \<open>settled (OrderID p) s'\<close>] by metis
  then show "\<exists>e. atomically (settle R' p' r' a') s' = (Err e, s')"
    using settle_refused by (fastforce simp: atomically_Err)
qed

text \<open>
  C8: A refund is prepared at most once: a preparation that commits found the order
  as the plan saw it, and after it the order is refunding, where no plan made
  from an earlier state of the order can deduct anything again.
\<close>

theorem refund_prepared_once:
  assumes "atomically (PrepareRefund_tx R opid p f) s = (Ok x, s')" "ID (rpOrder p) = OrderID p"
  shows "(\<exists>ord. row (OrderID p) s ord \<and> Status ord = Status (rpOrder p) \<and> UpdatedAt ord = UpdatedAt (rpOrder p)) \<and>
    refunding (OrderID p) s' \<and>
    (\<forall>R' opid' p' f'. ID (rpOrder p') = OrderID p \<and> refundable (rpOrder p') \<longrightarrow>
      (\<exists>e. atomically (PrepareRefund_tx R' opid' p' f') s' = (Err e, s')))"
proof (intro conjI allI impI)
  have ok: "PrepareRefund_tx R opid p f s = (Ok x, s')" using assms(1) by (simp add: atomically_Ok)
  obtain s1 where s1: "claimRefund (OrderID p) (Status (rpOrder p)) (UpdatedAt (rpOrder p)) OrderStatusRefunding s = (Ok (), s1)"
    using ok assms(2) by (auto simp: PrepareRefund_tx_def tx_then_Ok)
  show "\<exists>ord. row (OrderID p) s ord \<and> Status ord = Status (rpOrder p) \<and> UpdatedAt ord = UpdatedAt (rpOrder p)"
    by (rule claimRefund_Ok [OF s1])
  obtain l s2 where steps: "entitlement (f R p) s1 = (Ok l, s2)" "record_preparation opid p l s2 = (Ok x, s')"
    using ok s1 assms(2) by (auto simp: PrepareRefund_tx_def tx_then_Ok tx_check_def split: if_splits)
  obtain s3 where s3: "update_order (OrderID p) (\<lambda>now ord. ord\<lparr>RefundAmount := db_numeric 2 (rpRefundAmount p),
       RefundReason := Some (Reason p), ForceRefund := Force p\<rparr>) s2 = (Ok (), s3)" "rows s' = rows s3"
    using steps(2) unfolding record_preparation_def tx_then_Ok
    by (auto simp: tx_then_Ok order_row_Ok Let_def split: if_splits dest!: refundAudit_rows)
  have "refunding (OrderID p) s2" using claim_refunding [OF s1] rows_refunding [OF entitlement_rows [OF steps(1)]] by blast
  then have "refunding (OrderID p) s3" by (rule update_refunding [OF s3(1)]) simp
  then show closed: "refunding (OrderID p) s'" by (rule rows_refunding [OF s3(2)])
  fix R' :: "'a rights" and opid' and p' :: RefundPlan and f' :: "'a mutation"
  assume p': "ID (rpOrder p') = OrderID p \<and> refundable (rpOrder p')"
  have "Status y \<noteq> Status (rpOrder p')" if "row (OrderID p) s' y" for y
    using refunding_row [OF \<open>refunding (OrderID p) s'\<close> that] p' by (auto simp: refundable_def statuses)
  then obtain e t where "claimRefund (ID (rpOrder p')) (Status (rpOrder p')) (UpdatedAt (rpOrder p')) OrderStatusRefunding s' = (Err e, t)"
    using claimRefund_refused p' by metis
  then show "\<exists>e. atomically (PrepareRefund_tx R' opid' p' f') s' = (Err e, s')"
    unfolding atomically_Err PrepareRefund_tx_def tx_then_Err by blast
qed

text \<open>
  C10: A preparation interrupted before the channel answered can be recovered
  exactly when the refund amount has whole cents: for any other amount the order's
  stored amount, rounded to two decimals, contradicts the receipt and every
  recovery is refused.
\<close>

theorem recovery_needs_whole_cents:
  assumes "ready i ord s" "plan_for i ord p" "opid \<noteq> []" "ApplyRefundDeduction R p (rest s) = (Ok l, g)" "recordable p l"
  shows "\<exists>r l' s1 x. PrepareRefund_store R opid p ApplyRefundDeduction (quiet_conn s) = (Ok (r, l'), quiet_conn s1) \<and>
    row i s1 x \<and> RefundRecovery x (quiet_conn s1) =
      (if db_numeric 2 (rpRefundAmount p) = rpRefundAmount p then Ok r
       else Err (RefundRecoveryRequired ''preparation record contradicts order''), quiet_conn s1)"
proof -
  obtain r s1 x where p: "PrepareRefund_store R opid p ApplyRefundDeduction (quiet_conn s) = (Ok (r, l\<lparr>rpOperationID := opid\<rparr>), quiet_conn s1)"
    "holding i r s1" "rRefundAmount r = rpRefundAmount p" and x: "row i s1 x" "Status x = OrderStatusRefunding" "UpdatedAt x = OperationVersion r"
      "RefundAmount x = db_numeric 2 (rRefundAmount r)" "RefundReason x = Some (rReason r)" "ForceRefund x = rForce r"
    using prepare_quiet [OF assms] by blast
  have "RefundRecovery x (quiet_conn s1) =
      (if db_numeric 2 (rpRefundAmount p) = rpRefundAmount p then Ok r
       else Err (RefundRecoveryRequired ''preparation record contradicts order''), quiet_conn s1)"
    using p(2,3) x row_ID [OF x(1)] by (simp add: RefundRecovery_def RefundRecovery_tx_def tx_then_def atomically_def holding_def)
  then show ?thesis using p(1) x(1) by blast
qed

lemma concrete_deduction:
  obtains l g where "ApplyRefundDeduction (payment_rights adjusts revokes) (plan0 a) (rest shop0) = (Ok l, g)" "recordable (plan0 a) l"
    "validRefundAmount (BalanceToDeduct l)"
proof -
  have "from_wallet (plan0 a) (rest shop0)" using concrete(3) by (simp add: shop0_def)
  then show thesis using wallet_refunds.deducts [of "plan0 a" "rest shop0" adjusts revokes] that by blast
qed

lemma concrete_preparation:
  assumes "validRefundAmount a"
  obtains r l s1 where "atomically (PrepareRefund_tx (payment_rights adjusts revokes) ''op'' (plan0 a) ApplyRefundDeduction) shop0 = (Ok (r, l), s1)"
    "holding 7 r s1" "appendable 7 ''REFUND_SUCCESS'' s1" "OrderID l = 7" "ID (rpOrder l) = 7"
    "validRefundAmount (rpRefundAmount l)" "validRefundAmount (BalanceToDeduct l)"
proof -
  obtain l g where l: "ApplyRefundDeduction (payment_rights adjusts revokes) (plan0 a) (rest shop0) = (Ok l, g)" "recordable (plan0 a) l"
    "validRefundAmount (BalanceToDeduct l)" by (rule concrete_deduction)
  obtain r s1 where p: "PrepareRefund_store (payment_rights adjusts revokes) ''op'' (plan0 a) ApplyRefundDeduction (quiet_conn shop0)
      = (Ok (r, l\<lparr>rpOperationID := ''op''\<rparr>), quiet_conn s1)" "holding 7 r s1" "appendable 7 ''REFUND_SUCCESS'' s1"
    using prepare_quiet [OF concrete(1) concrete(2) [OF assms] _ l(1,2), of "''op''"] by auto
  have "Status (rpOrder (plan0 a)) = OrderStatusCompleted" by (simp add: plan0_def paid0_def order0_def)
  then have "atomically (PrepareRefund_tx (payment_rights adjusts revokes) ''op'' (plan0 a) ApplyRefundDeduction) shop0
      = (Ok (r, l\<lparr>rpOperationID := ''op''\<rparr>), s1)"
    using p(1) by (simp add: PrepareRefund_store_def prod_eq_iff)
  then show thesis using that p(2,3) l(2,3) assms by (simp add: recordable_def plan0_def paid0_def order0_def)
qed

lemma valid10: "validRefundAmount (Fin 10)"
  by (simp add: validRefundAmount_def is_inf_def)

theorem refund_settles_once_witness:
  "\<exists>r l s s'. atomically (settle (payment_rights adjusts revokes) l r Completed) s = (Ok (), s') \<and> settled 7 s' \<and>
    (\<exists>e. atomically (settle (payment_rights adjusts revokes) l r (Compensated [] ''late'')) s' = (Err e, s'))"
proof -
  obtain r l s1 where "atomically (PrepareRefund_tx (payment_rights adjusts revokes) ''op'' (plan0 (Fin 10)) ApplyRefundDeduction) shop0 = (Ok (r, l), s1)"
    and s1: "holding 7 r s1" "appendable 7 ''REFUND_SUCCESS'' s1" "OrderID l = 7" "ID (rpOrder l) = 7"
    "validRefundAmount (rpRefundAmount l)" "validRefundAmount (BalanceToDeduct l)"
    by (rule concrete_preparation [OF valid10])
  obtain res s' where "CompleteRefund (payment_rights adjusts revokes) l (Some r) None (quiet_conn s1) = (Ok res, quiet_conn s')"
    by (rule complete_quiet [OF s1(1,3,4,2,5,6)])
  then have "CompleteRefund_tx (payment_rights adjusts revokes) l (Some r) None s1 = (Ok res, s')"
    by (simp add: CompleteRefund_def prod_eq_iff atomically_Ok [unfolded prod_eq_iff, simplified])
  then have ok: "atomically (settle (payment_rights adjusts revokes) l r Completed) s1 = (Ok (), s')"
    by (simp add: atomically_def tx_then_def)
  have l: "ID (rpOrder l) = OrderID l" using s1(3,4) by simp
  note once = refund_settles_once [OF ok l]
  have "\<exists>e. atomically (settle (payment_rights adjusts revokes) l r (Compensated [] ''late'')) s' = (Err e, s')"
    using once l by blast
  moreover have "settled 7 s'" using once s1(3) by simp
  ultimately show ?thesis using ok by blast
qed

theorem refund_prepared_once_witness:
  "\<exists>x s'. atomically (PrepareRefund_tx (payment_rights adjusts revokes) ''op'' (plan0 (Fin 10)) ApplyRefundDeduction) shop0 = (Ok x, s') \<and>
    refunding 7 s' \<and>
    (\<exists>e. atomically (PrepareRefund_tx (payment_rights adjusts revokes) ''again'' (plan0 (Fin 10)) ApplyRefundDeduction) s' = (Err e, s'))"
proof -
  have "validRefundAmount (Fin 10)" by (simp add: validRefundAmount_def is_inf_def)
  then obtain r l s1 where ok: "atomically (PrepareRefund_tx (payment_rights adjusts revokes) ''op'' (plan0 (Fin 10)) ApplyRefundDeduction) shop0
      = (Ok (r, l), s1)" by (rule concrete_preparation)
  have i: "ID (rpOrder (plan0 (Fin 10))) = OrderID (plan0 (Fin 10))" "OrderID (plan0 (Fin 10)) = 7" "refundable (rpOrder (plan0 (Fin 10)))"
    by (simp_all add: plan0_def paid0_def order0_def refundable_def)
  note once = refund_prepared_once [OF ok i(1)]
  have "\<exists>e. atomically (PrepareRefund_tx (payment_rights adjusts revokes) ''again'' (plan0 (Fin 10)) ApplyRefundDeduction) s1 = (Err e, s1)"
    using once i by blast
  then show ?thesis using ok once i(2) by auto
qed

lemma cents: "db_numeric 2 (rnd 10) = rnd 10" "db_numeric 2 (rnd (1 / 128)) \<noteq> rnd (1 / 128)"
proof -
  show "db_numeric 2 (rnd 10) = rnd 10" using db_numeric_precise [of 2 4 10] by (simp add: precise_def scaled_def)
  have p: "precise 7 2 (1 / 128 :: rat)" by (simp add: precise_def scaled_def)
  note e = precise_Fin [OF p]
  have t: "decimal_text (round53 (1 / 128)) = 1 / 128" by (rule decimal_text_precise [OF p _ e]) simp
  have "\<lfloor>41 / 32 :: rat\<rfloor> = 1" by (simp add: floor_eq_iff)
  then have "half_away (1 / 128 * 10 ^ 2) = 1" by (simp add: half_away_def)
  then have "db_numeric 2 (rnd (1 / 128)) = rnd (1 / 100)" by (simp add: db_numeric_def e t del: rnd_0)
  moreover have "rnd (1 / 100) \<noteq> rnd (1 / 128)"
  proof
    assume "rnd (1 / 100) = rnd (1 / 128)"
    then have "(1 / 100 :: rat) = 1 / 128" using rnd_precise_inj [of 7 0 "1 / 100" "1 / 128"] by (simp add: scaled_def)
    then show False by simp
  qed
  ultimately show "db_numeric 2 (rnd (1 / 128)) \<noteq> rnd (1 / 128)" by simp
qed

theorem recovery_needs_whole_cents_witness:
  "\<exists>r l s1 x. PrepareRefund_store (payment_rights adjusts revokes) ''op'' (plan0 (rnd (1 / 128))) ApplyRefundDeduction (quiet_conn shop0)
      = (Ok (r, l), quiet_conn s1) \<and> row 7 s1 x \<and>
    RefundRecovery x (quiet_conn s1) = (Err (RefundRecoveryRequired ''preparation record contradicts order''), quiet_conn s1)"
proof -
  have "precise 7 2 (1 / 128 :: rat)" by (simp add: precise_def scaled_def)
  then have v: "validRefundAmount (rnd (1 / 128))"
    using rnd_nonneg [of "1 / 128"] precise_Fin [of 7 2 "1 / 128"] by (simp add: validRefundAmount_def is_inf_def)
  obtain l g where l: "ApplyRefundDeduction (payment_rights adjusts revokes) (plan0 (rnd (1 / 128))) (rest shop0) = (Ok l, g)"
    "recordable (plan0 (rnd (1 / 128))) l" by (rule concrete_deduction)
  have "rpRefundAmount (plan0 (rnd (1 / 128))) = rnd (1 / 128)" by (simp add: plan0_def)
  then show ?thesis using recovery_needs_whole_cents [OF concrete(1) concrete(2) [OF v] _ l, of "''op''"] cents(2) by force
qed

end
