(* ===== verification/Ledger.thy ===== *)
theory Ledger
  imports Wallet TaskFunds
begin

text \<open>
  The transactional settlement of request usage: the Apply half of
  internal/billing/postgres/settlement.go, with the key-usage and provider-quota
  statements it shares (key_usage.go, provider_quota_expressions.go) and the
  archiving of claims (usage_dedup_retention.go).  The ledger holds the rows of
  the tables the transaction touches and the transaction's clock.  Amounts are the
  exact values of numeric columns; a value read back is the nearest float.
  PostgreSQL's calendar arithmetic in the session's time zone, the decimal
  package's rounding, the reset schedule of fixed provider periods and the
  scheduler outbox are arguments.  A deadlocked attempt is rolled back before it
  is retried, so it has no effect and is left out.
\<close>

section \<open>Tables\<close>

text \<open>A spending window: its limit (0 for none), its usage and its start.\<close>

record spending =
  uwLimit :: rat
  uwUsage :: rat
  uwStart :: "instant option"

record key_row =
  kID :: int
  kDeleted :: bool
  kStatus :: string
  kOwnerDisabled :: bool
  kQuota :: rat
  kQuotaUsed :: rat
  k5h :: spending
  k1d :: spending
  k7d :: spending

record member_row =
  mID :: int
  mTeam :: int
  mUser :: int
  mRole :: string
  mJoined :: instant
  mLeft :: "instant option"
  mDaily :: spending
  mWeekly :: spending
  mMonthly :: spending

record quota_window =
  qLimit :: "rat option"
  qUsage :: rat
  qStart :: "instant option"

record sub_row =
  sID :: int
  sUser :: int
  sDeleted :: bool
  sStatus :: string
  sPlan :: int
  sStarts :: instant
  sExpires :: instant
  sDaily :: quota_window
  sWeekly :: quota_window
  sMonthly :: quota_window

text \<open>A row of subscription_plan_groups: plan, group and rate override.\<close>

type_synonym plan_group = "int \<times> int \<times> rat option"

record claim_row =
  cRequest :: string
  cKey :: int
  cFingerprint :: string
  cCreated :: instant

text \<open>Provider usage inside the provider's JSON column.\<close>

record quota_period =
  qpLimit :: rat
  qpUsed :: rat
  qpStart :: "instant option"
  qpReset :: "instant option"
  qpFixed :: bool

record provider_row =
  prID :: int
  prDeleted :: bool
  prLimit :: rat
  prUsed :: rat
  prDaily :: quota_period
  prWeekly :: quota_period
  prMonthly :: quota_period

record 'x ledger =
  lUsers :: "user_row list"
  lKeys :: "key_row list"
  lMembers :: "member_row list"
  lSubs :: "sub_row list"
  lPlans :: "int list"
  lPlanGroups :: "plan_group list"
  lProviders :: "provider_row list"
  lClaims :: "claim_row list"
  lArchive :: "claim_row list"
  lNow :: instant
  lWorld :: 'x

type_synonym ('x, 'a) ltx = "('x ledger, 'a) trans"

text \<open>A statement on one table.\<close>

definition on_users :: "(user_row list, 'a) trans \<Rightarrow> ('x, 'a) ltx" where
  "on_users f s = (case f (lUsers s) of (r, t) \<Rightarrow> (r, s\<lparr>lUsers := t\<rparr>))"
definition on_keys :: "(key_row list, 'a) trans \<Rightarrow> ('x, 'a) ltx" where
  "on_keys f s = (case f (lKeys s) of (r, t) \<Rightarrow> (r, s\<lparr>lKeys := t\<rparr>))"
definition on_members :: "(member_row list, 'a) trans \<Rightarrow> ('x, 'a) ltx" where
  "on_members f s = (case f (lMembers s) of (r, t) \<Rightarrow> (r, s\<lparr>lMembers := t\<rparr>))"
definition on_subs :: "(sub_row list, 'a) trans \<Rightarrow> ('x, 'a) ltx" where
  "on_subs f s = (case f (lSubs s) of (r, t) \<Rightarrow> (r, s\<lparr>lSubs := t\<rparr>))"
definition on_providers :: "(provider_row list, 'a) trans \<Rightarrow> ('x, 'a) ltx" where
  "on_providers f s = (case f (lProviders s) of (r, t) \<Rightarrow> (r, s\<lparr>lProviders := t\<rparr>))"
definition on_world :: "('x, 'a) trans \<Rightarrow> ('x, 'a) ltx" where
  "on_world f s = (case f (lWorld s) of (r, t) \<Rightarrow> (r, s\<lparr>lWorld := t\<rparr>))"

lemmas on_tables = on_users_def on_keys_def on_members_def on_subs_def on_providers_def on_world_def

section \<open>The store\<close>

text \<open>Timestamps moved by days or months, and cut to midnight, in the session's time zone.\<close>

record session_zone =
  midnight :: "instant \<Rightarrow> instant"
  plus_days :: "int \<Rightarrow> instant \<Rightarrow> instant"
  plus_month :: "instant \<Rightarrow> instant"

datatype period = Daily_period | Weekly_period | Monthly_period

record 'x projection =
  SaveReservation :: "f64 \<Rightarrow> BillingAllocation list \<Rightarrow> f64 \<Rightarrow> f64 \<Rightarrow> ('x, unit) trans"
  SetAllowanceReserved :: "bool \<Rightarrow> ('x, unit) trans"

record 'x SettlementStore =
  calendar :: Calendar
  providerOutbox :: "(int \<Rightarrow> ('x, unit) trans) option"
  taskProjections :: "string \<Rightarrow> (TaskReference \<Rightarrow> 'x projection option) option"
  stLocal :: location
  stZone :: session_zone
  stRound :: "f64 \<Rightarrow> f64"
  stNextReset :: "period \<Rightarrow> provider_row \<Rightarrow> instant \<Rightarrow> instant option"

record UsageApplyCommand = UsageBillingCommand +
  APIKeyID :: int
  ubUserID :: int
  ActorUserID :: int
  TeamID :: "int option"
  ProviderID :: int
  ProviderType :: string

record ProviderQuotaState =
  TotalUsed :: f64
  TotalLimit :: f64
  DailyUsed :: f64
  DailyLimit :: f64
  WeeklyUsed :: f64
  WeeklyLimit :: f64
  MonthlyUsed :: f64
  MonthlyLimit :: f64

record UsageBillingApplyResult =
  Applied :: bool
  APIKeyQuotaExhausted :: bool
  NewBalance :: "f64 option"
  QuotaState :: "ProviderQuotaState option"
  arSubscriptionAmountUSD :: f64
  arBalanceAmountUSD :: f64
  arBillingAllocations :: "BillingAllocation list"
  EffectiveRateMultiplier :: "f64 option"

definition no_apply :: UsageBillingApplyResult where
  "no_apply = \<lparr>Applied = False, APIKeyQuotaExhausted = False, NewBalance = None, QuotaState = None,
     arSubscriptionAmountUSD = f0, arBalanceAmountUSD = f0, arBillingAllocations = [], EffectiveRateMultiplier = None\<rparr>"

section \<open>Errors\<close>

definition ErrUsageBillingRequestIDRequired :: perror where
  "ErrUsageBillingRequestIDRequired = Plain ''usage billing request_id is required''"
definition ErrUsageBillingRequestConflict :: perror where
  "ErrUsageBillingRequestConflict = Plain ''usage billing request fingerprint conflict''"
definition ErrTaskInsufficientBalance :: perror where
  "ErrTaskInsufficientBalance = App ''BATCH_IMAGE_INSUFFICIENT_BALANCE'' ''insufficient balance for batch image hold''"
definition ErrSubscriptionNotFound :: perror where
  "ErrSubscriptionNotFound = App ''SUBSCRIPTION_NOT_FOUND'' ''subscription not found''"
definition ErrAPIKeyNotFound :: perror where
  "ErrAPIKeyNotFound = App ''API_KEY_NOT_FOUND'' ''api key not found''"
definition ErrAPIKeyQuotaExhausted :: perror where
  "ErrAPIKeyQuotaExhausted = App ''API_KEY_QUOTA_EXHAUSTED'' ''api key quota exhausted''"
definition ErrAPIKeyRateLimit5hExceeded :: perror where
  "ErrAPIKeyRateLimit5hExceeded = App ''API_KEY_RATE_5H_EXCEEDED'' ''The API key five-hour limit has been reached''"
definition ErrAPIKeyRateLimit1dExceeded :: perror where
  "ErrAPIKeyRateLimit1dExceeded = App ''API_KEY_RATE_1D_EXCEEDED'' ''The API key daily limit has been reached''"
definition ErrAPIKeyRateLimit7dExceeded :: perror where
  "ErrAPIKeyRateLimit7dExceeded = App ''API_KEY_RATE_7D_EXCEEDED'' ''The API key seven-day limit has been reached''"
definition ErrProviderNotFound :: perror where
  "ErrProviderNotFound = App ''PROVIDER_NOT_FOUND'' ''provider not found''"
definition ErrTeamMemberDailyExceeded :: perror where
  "ErrTeamMemberDailyExceeded = App ''TEAM_MEMBER_DAILY_LIMIT_EXCEEDED'' ''The team member daily limit has been reached''"
definition ErrTeamMemberMonthlyExceeded :: perror where
  "ErrTeamMemberMonthlyExceeded = App ''TEAM_MEMBER_MONTHLY_LIMIT_EXCEEDED'' ''The team member monthly limit has been reached''"
definition ErrTeamMemberWeeklyExceeded :: perror where
  "ErrTeamMemberWeeklyExceeded = App ''TEAM_MEMBER_WEEKLY_LIMIT_EXCEEDED'' ''The team member weekly limit has been reached''"
definition ErrTeamMembershipRequired :: perror where
  "ErrTeamMembershipRequired = App ''TEAM_MEMBERSHIP_REQUIRED'' ''Team membership is required''"

fun allocation_perror :: "allocation_error \<Rightarrow> perror" where
  "allocation_perror ErrPreferredSubscriptionInvalid = App ''PREFERRED_SUBSCRIPTION_INVALID'' ''preferred subscription is unavailable''"
| "allocation_perror ErrPreferredSubscriptionInsufficient =
     App ''PREFERRED_SUBSCRIPTION_EXHAUSTED'' ''preferred subscription has insufficient remaining quota''"

section \<open>Claims\<close>

definition find_claim :: "string \<Rightarrow> int \<Rightarrow> claim_row list \<Rightarrow> claim_row option" where
  "find_claim rid k cs = find (\<lambda>c. cRequest c = rid \<and> cKey c = k) cs"

definition same_fingerprint :: "claim_row \<Rightarrow> string \<Rightarrow> (perror, bool) result" where
  "same_fingerprint c fp = (if trim_space (cFingerprint c) \<noteq> trim_space fp then Err ErrUsageBillingRequestConflict else Ok False)"

definition claimUsageBillingRequest :: "string \<Rightarrow> int \<Rightarrow> string \<Rightarrow> ('x, bool) ltx" where
  "claimUsageBillingRequest rid k fp s =
     (case find_claim rid k (lClaims s) of
        Some c \<Rightarrow> (same_fingerprint c fp, s)
      | None \<Rightarrow>
          let s' = s\<lparr>lClaims := lClaims s @ [\<lparr>cRequest = rid, cKey = k, cFingerprint = fp, cCreated = lNow s\<rparr>]\<rparr> in
          (case find_claim rid k (lArchive s') of
             Some c \<Rightarrow> (same_fingerprint c fp, s')
           | None \<Rightarrow> (Ok True, s')))"

text \<open>
  The owned transaction: a claim that was taken before ends it without a commit,
  otherwise the body's success commits it.
\<close>

definition with_claim :: "string \<Rightarrow> int \<Rightarrow> string \<Rightarrow> 'a \<Rightarrow> ('x, 'a) ltx \<Rightarrow> ('x, 'a) ltx" where
  "with_claim rid k fp replay body s =
     (case claimUsageBillingRequest rid k fp s of
        (Inl e, _) \<Rightarrow> (Err e, s)
      | (Inr False, _) \<Rightarrow> (Ok replay, s)
      | (Inr True, s') \<Rightarrow> (case body s' of (Inl e, _) \<Rightarrow> (Err e, s) | (Inr r, s'') \<Rightarrow> (Ok r, s'')))"

definition lockUsageBillingUser :: "int \<Rightarrow> ('x, unit) ltx" where
  "lockUsageBillingUser i s =
     (if i \<le> 0 then (Ok (), s)
      else (if filter (live i) (lUsers s) = [] then Err ErrUserNotFound else Ok (), s))"

text \<open>One batch of the archive: at most n claims older than the cutoff, in any order the database picks.\<close>

definition archive_batch :: "(claim_row \<Rightarrow> bool) \<Rightarrow> instant \<Rightarrow> 'x ledger \<Rightarrow> 'x ledger" where
  "archive_batch pick cutoff s =
     (let old = (\<lambda>c. cCreated c < cutoff \<and> pick c);
          victims = filter old (lClaims s)
      in s\<lparr>lArchive := lArchive s @ filter (\<lambda>c. find_claim (cRequest c) (cKey c) (lArchive s) = None) victims,
           lClaims := filter (\<lambda>c. \<not> old c) (lClaims s)\<rparr>)"

section \<open>Subscription rows\<close>

definition at_time :: "location \<Rightarrow> instant \<Rightarrow> gtime" where
  "at_time l t = \<lparr>ns = t, loc = l\<rparr>"

definition plan_rates :: "plan_group list \<Rightarrow> int \<Rightarrow> int \<rightharpoonup> f64" where
  "plan_rates pgs plan g =
     (if g \<le> 0 then None
      else map_option rnd (Option.bind (map_of (map (\<lambda>(p, g, m). ((p, g), m)) pgs) (plan, g)) id))"

definition settlementSubscriptionSnapshot :: "location \<Rightarrow> plan_group list \<Rightarrow> sub_row \<Rightarrow> SettlementSubscription" where
  "settlementSubscriptionSnapshot l pgs r =
     \<lparr>SsID = sID r, SsPlanID = sPlan r, SsStartsAt = at_time l (sStarts r), SsExpiresAt = at_time l (sExpires r),
      SsDailyWindowStart = map_option (at_time l) (qStart (sDaily r)),
      SsWeeklyWindowStart = map_option (at_time l) (qStart (sWeekly r)),
      SsMonthlyWindowStart = map_option (at_time l) (qStart (sMonthly r)),
      SsDailyLimitUSD = map_option rnd (qLimit (sDaily r)), SsWeeklyLimitUSD = map_option rnd (qLimit (sWeekly r)),
      SsMonthlyLimitUSD = map_option rnd (qLimit (sMonthly r)),
      SsDailyUsageUSD = rnd (qUsage (sDaily r)), SsWeeklyUsageUSD = rnd (qUsage (sWeekly r)),
      SsMonthlyUsageUSD = rnd (qUsage (sMonthly r)),
      PlanGroupRateMultipliers = plan_rates pgs (sPlan r)\<rparr>"

text \<open>Soonest expiry first, then the earlier start, then the lower identity.\<close>

definition before_row :: "sub_row \<Rightarrow> sub_row \<Rightarrow> bool" where
  "before_row a b \<longleftrightarrow> sExpires a < sExpires b \<or>
     (sExpires a = sExpires b \<and> (sStarts a < sStarts b \<or> (sStarts a = sStarts b \<and> sID a < sID b)))"

definition covers_group :: "plan_group list \<Rightarrow> int \<Rightarrow> int \<Rightarrow> bool" where
  "covers_group pgs plan g \<longleftrightarrow> (\<forall>r \<in> set pgs. fst r \<noteq> plan) \<or> (\<exists>r \<in> set pgs. fst r = plan \<and> fst (snd r) = g)"

definition in_force :: "int \<Rightarrow> instant \<Rightarrow> int option \<Rightarrow> sub_row \<Rightarrow> bool" where
  "in_force user t preferred r \<longleftrightarrow> sUser r = user \<and> \<not> sDeleted r \<and> sStarts r \<le> t \<and> t < sExpires r \<and>
     sStatus r \<in> {SubscriptionStatusActive, SubscriptionStatusPending} \<and>
     (case preferred of None \<Rightarrow> True | Some i \<Rightarrow> sID r = i)"

definition eligible :: "UsageApplyCommand \<Rightarrow> 'x ledger \<Rightarrow> sub_row \<Rightarrow> bool" where
  "eligible cmd s r \<longleftrightarrow> in_force (ubUserID cmd) (lNow s) (PreferredSubscriptionID cmd) r \<and>
     (case GroupID cmd of
        Some g \<Rightarrow>
          if 0 < g then sPlan r \<in> set (lPlans s) \<and> covers_group (lPlanGroups s) (sPlan r) g
          else APIKeyBillingMode cmd \<noteq> APIKeyBillingModeSubscription \<or> (\<forall>p \<in> set (lPlanGroups s). fst p \<noteq> sPlan r)
      | None \<Rightarrow> APIKeyBillingMode cmd \<noteq> APIKeyBillingModeSubscription \<or> (\<forall>p \<in> set (lPlanGroups s). fst p \<noteq> sPlan r))"

definition db_time :: "gtime option \<Rightarrow> instant option" where
  "db_time t = map_option (\<lambda>t. db_us (ns t)) t"

definition updateUsageBillingSubscription :: "SettlementSubscription \<Rightarrow> ('x, unit) ltx" where
  "updateUsageBillingSubscription u =
     amount_arg (SsDailyUsageUSD u) (\<lambda>d. amount_arg (SsWeeklyUsageUSD u) (\<lambda>w. amount_arg (SsMonthlyUsageUSD u) (\<lambda>m.
       tx_then (on_subs (sql_update (\<lambda>r. sID r = SsID u \<and> \<not> sDeleted r)
         (\<lambda>r. case (numeric 10 d, numeric 10 w, numeric 10 m) of
            (Some d, Some w, Some m) \<Rightarrow> Some (r\<lparr>
              sDaily := (sDaily r)\<lparr>qStart := db_time (SsDailyWindowStart u), qUsage := d\<rparr>,
              sWeekly := (sWeekly r)\<lparr>qStart := db_time (SsWeeklyWindowStart u), qUsage := w\<rparr>,
              sMonthly := (sMonthly r)\<lparr>qStart := db_time (SsMonthlyWindowStart u), qUsage := m\<rparr>\<rparr>)
          | _ \<Rightarrow> None)))
       (\<lambda>ms. tx_check (ms \<noteq> []) ErrSubscriptionNotFound))))"

fun update_subscriptions :: "SettlementSubscription list \<Rightarrow> ('x, unit) ltx" where
  "update_subscriptions [] = tx_return (Ok ())"
| "update_subscriptions (u # us) = tx_then (updateUsageBillingSubscription u) (\<lambda>_. update_subscriptions us)"

definition allocateUsageBillingSubscriptions ::
  "'x SettlementStore \<Rightarrow> UsageApplyCommand \<Rightarrow> ('x, f64 \<times> f64 \<times> BillingAllocation list) ltx" where
  "allocateUsageBillingSubscriptions st cmd s =
     (case SubscriptionAllocationRequest (Some cmd) of
        Inl e \<Rightarrow> (Err (allocation_perror e), s)
      | Inr (amountUSD, False) \<Rightarrow> (Ok (amountUSD, f0, []), s)
      | Inr (amountUSD, True) \<Rightarrow>
          let subs = map (settlementSubscriptionSnapshot (stLocal st) (lPlanGroups s))
                (sort_by before_row (filter (eligible cmd s) (lSubs s)))
          in (case AllocateSubscriptions (Some cmd) subs (at_time (stLocal st) (lNow s)) of
                Inl e \<Rightarrow> (Err (allocation_perror e), s)
              | Inr plan \<Rightarrow> tx_then (update_subscriptions (Updates plan))
                  (\<lambda>_. tx_return (Ok (Remaining plan, SubscriptionAmount plan, Allocations plan))) s))"

text \<open>The first usable grant of a user for a group, with its current windows.\<close>

definition usable_row :: "'x ledger \<Rightarrow> int \<Rightarrow> int \<Rightarrow> int option \<Rightarrow> sub_row \<Rightarrow> bool" where
  "usable_row s user g preferred r \<longleftrightarrow> in_force user (lNow s) preferred r \<and> sPlan r \<in> set (lPlans s) \<and>
     covers_group (lPlanGroups s) (sPlan r) g"

definition windows_available :: "SettlementSubscription \<Rightarrow> bool" where
  "windows_available r \<longleftrightarrow> flt f0 (SubscriptionAvailableAmount (Fin 1)
     [RemainingWindowAmount (SsDailyLimitUSD r) (SsDailyUsageUSD r),
      RemainingWindowAmount (SsWeeklyLimitUSD r) (SsWeeklyUsageUSD r),
      RemainingWindowAmount (SsMonthlyLimitUSD r) (SsMonthlyUsageUSD r)])"

definition usageBillingSubscriptionRowToService ::
  "int \<Rightarrow> plan_group list \<Rightarrow> SettlementSubscription \<Rightarrow> UserSubscription" where
  "usageBillingSubscriptionRowToService user pgs r =
     \<lparr>ID = SsID r, UserID = user, PlanID = SsPlanID r, StartsAt = SsStartsAt r, ExpiresAt = SsExpiresAt r,
      Status = SubscriptionStatusActive, DailyWindowStart = SsDailyWindowStart r, WeeklyWindowStart = SsWeeklyWindowStart r,
      MonthlyWindowStart = SsMonthlyWindowStart r, DailyLimitUSD = SsDailyLimitUSD r, WeeklyLimitUSD = SsWeeklyLimitUSD r,
      MonthlyLimitUSD = SsMonthlyLimitUSD r, DailyUsageUSD = SsDailyUsageUSD r, WeeklyUsageUSD = SsWeeklyUsageUSD r,
      MonthlyUsageUSD = SsMonthlyUsageUSD r, SourceOrderID = None, DeletedAt = None,
      PlanGroupIDs = Some (sort (map (\<lambda>p. fst (snd p)) (filter (\<lambda>p. fst p = SsPlanID r) pgs)))\<rparr>"

definition resolveUsableSubscriptionForGroup ::
  "'x SettlementStore \<Rightarrow> int \<Rightarrow> int \<Rightarrow> int option \<Rightarrow> ('x, UserSubscription) ltx" where
  "resolveUsableSubscriptionForGroup st user g preferred s =
     (if user \<le> 0 \<or> g \<le> 0 then (Err ErrSubscriptionNotFound, s)
      else
        let rs = map (\<lambda>r. NormalizeSettlementSubscription (settlementSubscriptionSnapshot (stLocal st) (lPlanGroups s) r)
                   (at_time (stLocal st) (lNow s)))
               (sort_by before_row (filter (usable_row s user g preferred) (lSubs s)))
        in (case find windows_available rs of
              None \<Rightarrow> (Err ErrSubscriptionNotFound, s)
            | Some r \<Rightarrow> (Ok (usageBillingSubscriptionRowToService user (lPlanGroups s) r), s)))"

definition ResolveUsableSubscriptionForGroup ::
  "'x SettlementStore \<Rightarrow> int \<Rightarrow> int \<Rightarrow> ('x, UserSubscription) ltx" where
  "ResolveUsableSubscriptionForGroup st user g = resolveUsableSubscriptionForGroup st user g None"

definition ResolvePreferredSubscriptionForGroup ::
  "'x SettlementStore \<Rightarrow> int \<Rightarrow> int \<Rightarrow> int \<Rightarrow> ('x, UserSubscription) ltx" where
  "ResolvePreferredSubscriptionForGroup st user sub g s =
     (if sub \<le> 0 then (Err ErrSubscriptionNotFound, s) else resolveUsableSubscriptionForGroup st user g (Some sub) s)"

section \<open>Effects\<close>

text \<open>The balance may fall below zero here: usage is charged after it happened.\<close>

definition deductUsageBillingBalance :: "'x SettlementStore \<Rightarrow> int \<Rightarrow> f64 \<Rightarrow> ('x, f64 \<times> f64) ltx" where
  "deductUsageBillingBalance st i amount = amount_arg (QuantizeUsageBillingAmount (stRound st) amount) (\<lambda>a.
     tx_then (on_users (sql_update (live i) (\<lambda>r. map_option (\<lambda>b. r\<lparr>balance := b\<rparr>) (to_column (balance r - a)))))
       (\<lambda>ms. tx_return (case ms of [] \<Rightarrow> Err ErrUserNotFound | m # _ \<Rightarrow> Ok (rnd (balance (snd m)), rnd a))))"

text \<open>A calendar window older than the current period is charged afresh.\<close>

definition stale :: "instant \<Rightarrow> spending \<Rightarrow> bool" where
  "stale start w \<longleftrightarrow> (case uwStart w of None \<Rightarrow> True | Some s \<Rightarrow> s < start)"

definition charge_calendar :: "instant \<Rightarrow> rat \<Rightarrow> spending \<Rightarrow> spending option" where
  "charge_calendar start a w =
     map_option (\<lambda>u. w\<lparr>uwUsage := u, uwStart := (if stale start w then Some start else uwStart w)\<rparr>)
       (numeric 10 (if stale start w then a else uwUsage w + a))"

definition charge_member :: "instant \<Rightarrow> instant \<Rightarrow> instant \<Rightarrow> rat \<Rightarrow> member_row \<Rightarrow> member_row option" where
  "charge_member day week month a m =
     (case (charge_calendar day a (mDaily m), charge_calendar week a (mWeekly m), charge_calendar month a (mMonthly m)) of
        (Some d, Some w, Some n) \<Rightarrow> Some (m\<lparr>mDaily := d, mWeekly := w, mMonthly := n\<rparr>)
      | _ \<Rightarrow> None)"

text \<open>The starts of the current day, week and month in the member calendar.\<close>

definition calendar_starts :: "'x SettlementStore \<Rightarrow> instant \<Rightarrow> instant \<times> instant \<times> instant" where
  "calendar_starts st t =
     (let now = at_time (stLocal st) t in
      (ns (StartOfDay (stLocal st) (calendar st) now), ns (StartOfWeek (stLocal st) (calendar st) now),
       ns (StartOfMonth (stLocal st) (calendar st) now)))"

definition incrementUsageBillingTeamMember :: "'x SettlementStore \<Rightarrow> int \<Rightarrow> int \<Rightarrow> f64 \<Rightarrow> ('x, unit) ltx" where
  "incrementUsageBillingTeamMember st team actor amount s =
     (if fle amount f0 then (Ok (), s)
      else case calendar_starts st (lNow s) of (day, week, month) \<Rightarrow>
        amount_arg amount (\<lambda>a.
          tx_then (on_members (sql_update (\<lambda>m. mTeam m = team \<and> mUser m = actor \<and> mLeft m = None \<and> mRole m = ''member'')
            (charge_member day week month a))) (\<lambda>_. tx_return (Ok ()))) s)"

definition with_quota :: "rat \<Rightarrow> string \<Rightarrow> key_row \<Rightarrow> key_row option" where
  "with_quota used status k = map_option (\<lambda>u. k\<lparr>kQuotaUsed := u, kStatus := status\<rparr>) (numeric 8 used)"

definition incrementUsageBillingAPIKeyQuota :: "'x SettlementStore \<Rightarrow> int \<Rightarrow> f64 \<Rightarrow> ('x, bool) ltx" where
  "incrementUsageBillingAPIKeyQuota st i amount = amount_arg (QuantizeUsageBillingAmount (stRound st) amount) (\<lambda>a.
     tx_then (on_keys (sql_update (\<lambda>k. kID k = i)
       (\<lambda>k. with_quota (kQuotaUsed k + a)
          (if \<not> kDeleted k \<and> 0 < kQuota k \<and> kStatus k = ''active'' \<and> kQuotaUsed k < kQuota k \<and> kQuota k \<le> kQuotaUsed k + a
           then ''quota_exhausted'' else kStatus k) k)))
       (\<lambda>ms. tx_return (case ms of
          [] \<Rightarrow> Err ErrAPIKeyNotFound
        | m # _ \<Rightarrow> Ok (0 < kQuota (snd m) \<and> kQuota (snd m) \<le> kQuotaUsed (snd m) \<and> kQuotaUsed (snd m) - a < kQuota (snd m)))))"

text \<open>A rolling window at time t: over once its span has passed.\<close>

definition elapsed :: "(instant \<Rightarrow> instant) \<Rightarrow> instant \<Rightarrow> spending \<Rightarrow> bool" where
  "elapsed lapse t w \<longleftrightarrow> (case uwStart w of None \<Rightarrow> False | Some s \<Rightarrow> lapse s \<le> t)"

definition span_5h :: "instant \<Rightarrow> instant" where "span_5h s = s + 5 * hour"
definition span_1d :: "instant \<Rightarrow> instant" where "span_1d s = s + 24 * hour"
definition span_7d :: "session_zone \<Rightarrow> instant \<Rightarrow> instant" where "span_7d z s = plus_days z 7 s"

text \<open>apiKeyRateLimitUsageSetSQL: a missing start keeps the usage.\<close>

definition charge_rolling :: "(instant \<Rightarrow> instant) \<Rightarrow> instant \<Rightarrow> instant \<Rightarrow> rat \<Rightarrow> spending \<Rightarrow> spending option" where
  "charge_rolling lapse t fresh a w =
     map_option (\<lambda>u. w\<lparr>uwUsage := u, uwStart := (if uwStart w = None \<or> elapsed lapse t w then Some fresh else uwStart w)\<rparr>)
       (numeric 8 (if elapsed lapse t w then a else uwUsage w + a))"

definition charge_key_windows :: "session_zone \<Rightarrow> instant \<Rightarrow> rat \<Rightarrow> key_row \<Rightarrow> key_row option" where
  "charge_key_windows z t a k =
     (case (charge_rolling span_5h t t a (k5h k), charge_rolling span_1d t (midnight z t) a (k1d k),
            charge_rolling (span_7d z) t (midnight z t) a (k7d k)) of
        (Some x, Some y, Some w) \<Rightarrow> Some (k\<lparr>k5h := x, k1d := y, k7d := w\<rparr>)
      | _ \<Rightarrow> None)"

definition incrementUsageBillingAPIKeyRateLimit :: "'x SettlementStore \<Rightarrow> int \<Rightarrow> f64 \<Rightarrow> ('x, unit) ltx" where
  "incrementUsageBillingAPIKeyRateLimit st i cost s = amount_arg (QuantizeUsageBillingAmount (stRound st) cost) (\<lambda>a.
     tx_then (on_keys (sql_update (\<lambda>k. kID k = i) (charge_key_windows (stZone st) (lNow s) a)))
       (\<lambda>ms. tx_check (ms \<noteq> []) ErrAPIKeyNotFound)) s"

text \<open>The provider's JSON counters are not bounded columns; absent times count as the epoch.\<close>

definition period_expired :: "(instant \<Rightarrow> instant) \<Rightarrow> instant \<Rightarrow> quota_period \<Rightarrow> bool" where
  "period_expired lapse t q \<longleftrightarrow>
     (if qpFixed q then (case qpReset q of None \<Rightarrow> 0 | Some r \<Rightarrow> r) \<le> t
      else lapse (case qpStart q of None \<Rightarrow> 0 | Some s \<Rightarrow> s) \<le> t)"

definition charge_period :: "(instant \<Rightarrow> instant) \<Rightarrow> instant \<Rightarrow> instant option \<Rightarrow> rat \<Rightarrow> quota_period \<Rightarrow> quota_period" where
  "charge_period lapse t next_reset a q =
     (if 0 < qpLimit q then
        q\<lparr>qpUsed := (if period_expired lapse t q then a else qpUsed q + a),
          qpStart := (if period_expired lapse t q then Some t else (case qpStart q of None \<Rightarrow> Some t | Some s \<Rightarrow> Some s)),
          qpReset := (if period_expired lapse t q \<and> next_reset \<noteq> None then next_reset else qpReset q)\<rparr>
      else q)"

definition hours_after :: "int \<Rightarrow> instant \<Rightarrow> instant" where
  "hours_after n s = s + n * hour"

definition charge_provider :: "'x SettlementStore \<Rightarrow> instant \<Rightarrow> rat \<Rightarrow> provider_row \<Rightarrow> provider_row" where
  "charge_provider st t a r =
     r\<lparr>prUsed := prUsed r + a,
       prDaily := charge_period (hours_after 24) t (stNextReset st Daily_period r t) a (prDaily r),
       prWeekly := charge_period (hours_after 168) t (stNextReset st Weekly_period r t) a (prWeekly r),
       prMonthly := charge_period (hours_after 720) t (stNextReset st Monthly_period r t) a (prMonthly r)\<rparr>"

definition quota_state :: "provider_row \<Rightarrow> ProviderQuotaState" where
  "quota_state r = \<lparr>TotalUsed = rnd (prUsed r), TotalLimit = rnd (prLimit r),
     DailyUsed = rnd (qpUsed (prDaily r)), DailyLimit = rnd (qpLimit (prDaily r)),
     WeeklyUsed = rnd (qpUsed (prWeekly r)), WeeklyLimit = rnd (qpLimit (prWeekly r)),
     MonthlyUsed = rnd (qpUsed (prMonthly r)), MonthlyLimit = rnd (qpLimit (prMonthly r))\<rparr>"

definition crossed :: "f64 \<Rightarrow> f64 \<Rightarrow> f64 \<Rightarrow> bool" where
  "crossed amount used limit \<longleftrightarrow> flt f0 limit \<and> fle limit used \<and> flt (fsub used amount) limit"

definition incrementUsageBillingProviderQuota :: "'x SettlementStore \<Rightarrow> int \<Rightarrow> f64 \<Rightarrow> ('x, ProviderQuotaState) ltx" where
  "incrementUsageBillingProviderQuota st i amount s = amount_arg amount (\<lambda>a.
     tx_then (on_providers (sql_update (\<lambda>r. prID r = i \<and> \<not> prDeleted r) (\<lambda>r. Some (charge_provider st (lNow s) a r))))
       (\<lambda>ms. case ms of
          [] \<Rightarrow> tx_return (Err ErrProviderNotFound)
        | m # _ \<Rightarrow>
            let q = quota_state (snd m) in
            if crossed amount (TotalUsed q) (TotalLimit q) \<or> crossed amount (DailyUsed q) (DailyLimit q) \<or>
               crossed amount (WeeklyUsed q) (WeeklyLimit q) \<or> crossed amount (MonthlyUsed q) (MonthlyLimit q)
            then (case providerOutbox st of
               None \<Rightarrow> tx_return (Err (Plain ''provider quota outbox is not configured''))
             | Some outbox \<Rightarrow> tx_then (on_world (outbox i)) (\<lambda>_. tx_return (Ok q)))
            else tx_return (Ok q))) s"

text \<open>The actor's usage is counted against a team only for a member other than the payer.\<close>

definition team_actor :: "int option \<Rightarrow> int \<Rightarrow> int \<Rightarrow> int option" where
  "team_actor team actor payer = (if 0 < actor \<and> actor \<noteq> payer then team else None)"

definition balance_effect ::
  "'x SettlementStore \<Rightarrow> UsageApplyCommand \<Rightarrow> f64 \<Rightarrow> UsageBillingApplyResult \<Rightarrow> ('x, UsageBillingApplyResult) ltx" where
  "balance_effect st cmd balanceAmount res =
     (if flt f0 balanceAmount then
        tx_then (deductUsageBillingBalance st (ubUserID cmd) balanceAmount) (\<lambda>(newBalance, deducted).
          tx_return (Ok (let res = res\<lparr>arBalanceAmountUSD := deducted\<rparr> in
            if flt f0 deducted
            then res\<lparr>NewBalance := Some newBalance, arBillingAllocations := arBillingAllocations res @
              [\<lparr>AllocType = BillingAllocationTypeBalance, AmountUSD = deducted, AllocBaseAmountUSD = f0, RateMultiplier = f0,
                SubscriptionID = None, AllocPlanID = None\<rparr>]\<rparr>
            else res)))
      else tx_return (Ok res))"

definition quota_effects ::
  "'x SettlementStore \<Rightarrow> UsageApplyCommand \<Rightarrow> f64 \<Rightarrow> UsageBillingApplyResult \<Rightarrow> ('x, UsageBillingApplyResult) ltx" where
  "quota_effects st cmd billable res =
     tx_then (if flt f0 (APIKeyQuotaCost cmd)
         then incrementUsageBillingAPIKeyQuota st (APIKeyID cmd) (if UsesBaseAmount (Some cmd) then billable else APIKeyQuotaCost cmd)
         else tx_return (Ok False)) (\<lambda>exhausted.
     tx_then (if flt f0 (APIKeyRateLimitCost cmd)
         then incrementUsageBillingAPIKeyRateLimit st (APIKeyID cmd) (if UsesBaseAmount (Some cmd) then billable else APIKeyRateLimitCost cmd)
         else tx_return (Ok ())) (\<lambda>_.
     tx_then (if flt f0 (ProviderQuotaCost cmd) \<and> (equal_fold (ProviderType cmd) ''apikey'' \<or> equal_fold (ProviderType cmd) ''bedrock'')
         then tx_then (incrementUsageBillingProviderQuota st (ProviderID cmd) (ProviderQuotaCost cmd)) (\<lambda>q. tx_return (Ok (Some q)))
         else tx_return (Ok None)) (\<lambda>q.
     tx_return (Ok (res\<lparr>APIKeyQuotaExhausted := exhausted, QuotaState := q\<rparr>)))))"

definition applyUsageBillingEffects ::
  "'x SettlementStore \<Rightarrow> UsageApplyCommand \<Rightarrow> UsageBillingApplyResult \<Rightarrow> ('x, UsageBillingApplyResult) ltx" where
  "applyUsageBillingEffects st cmd res =
     tx_then (allocateUsageBillingSubscriptions st cmd) (\<lambda>(remainingAmount, subscriptionAmount, allocations).
     let res = res\<lparr>arBillingAllocations := allocations, arSubscriptionAmountUSD := subscriptionAmount\<rparr>;
         balanceAmount = (if UsesBaseAmount (Some cmd) then fmul remainingAmount (NonNegativeRate (BalanceRateMultiplier cmd))
                          else remainingAmount)
     in tx_then (balance_effect st cmd balanceAmount res) (\<lambda>res.
     let billable = fadd (arSubscriptionAmountUSD res) (arBalanceAmountUSD res) in
     tx_then (case team_actor (TeamID cmd) (ActorUserID cmd) (ubUserID cmd) of
         None \<Rightarrow> tx_return (Ok ())
       | Some team \<Rightarrow> incrementUsageBillingTeamMember st team (ActorUserID cmd) billable) (\<lambda>_.
     quota_effects st cmd billable
       (if UsesBaseAmount (Some cmd) \<and> flt f0 (BaseAmountUSD cmd)
        then res\<lparr>EffectiveRateMultiplier := Some (fdiv billable (BaseAmountUSD cmd))\<rparr> else res))))"

definition applyOnce :: "'x SettlementStore \<Rightarrow> UsageApplyCommand \<Rightarrow> ('x, UsageBillingApplyResult) ltx" where
  "applyOnce st cmd = with_claim (RequestID cmd) (APIKeyID cmd) (RequestFingerprint cmd) no_apply
     (tx_then (lockUsageBillingUser (ubUserID cmd)) (\<lambda>_. applyUsageBillingEffects st cmd (no_apply\<lparr>Applied := True\<rparr>)))"

text \<open>The command's digest is an argument, as in NormalizeCommand.\<close>

definition Apply :: "(UsageApplyCommand \<Rightarrow> string) \<Rightarrow> 'x SettlementStore \<Rightarrow> UsageApplyCommand option \<Rightarrow> ('x, UsageBillingApplyResult) ltx" where
  "Apply fingerprint st cmd s =
     (case cmd of
        None \<Rightarrow> (Ok no_apply, s)
      | Some cmd \<Rightarrow>
          let cmd = NormalizeCommand fingerprint (stRound st) cmd in
          if RequestID cmd = [] then (Err ErrUsageBillingRequestIDRequired, s) else applyOnce st cmd s)"

end
