(* ===== verification/TaskLedger.thy ===== *)
theory TaskLedger
  imports Ledger
begin

text \<open>
  Task funding on the ledger: Reserve, Capture and Release of
  internal/billing/postgres/settlement.go.  A reservation takes subscription
  quota first, freezes the uncovered wallet money and counts the hold against the
  key and the member; a capture keeps the actual charge and returns the rest; a
  release returns everything.  The caller's command comes back with the computed
  hold and charge.  Both the database's clock and the program's are the ledger's.
\<close>

section \<open>Data\<close>

record task_command = TaskFundsCommand +
  tAPIKeyID :: int
  tUserID :: int
  tActorUserID :: int
  tTeamID :: "int option"
  tGroupID :: "int option"
  tSubscriptionRateMultiplier :: f64
  tSubscriptionRateMultiplierScale :: f64
  tDisablePlanGroupRateMultiplier :: bool
  AllowanceReserved :: bool
  ReservedAt :: instant

record TaskFundsResult =
  trApplied :: bool
  trNewBalance :: "f64 option"
  FrozenBalance :: "f64 option"
  HoldAmountUSD :: f64
  EstimatedAmountUSD :: f64
  trActualAmountUSD :: f64
  trSubscriptionAmountUSD :: f64
  trBalanceAmountUSD :: f64
  trBillingAllocations :: "BillingAllocation list"

definition no_funds :: TaskFundsResult where
  "no_funds = \<lparr>trApplied = False, trNewBalance = None, FrozenBalance = None, HoldAmountUSD = f0, EstimatedAmountUSD = f0,
     trActualAmountUSD = f0, trSubscriptionAmountUSD = f0, trBalanceAmountUSD = f0, trBillingAllocations = []\<rparr>"

datatype taskAllowanceOperation = taskAllowanceReserve | taskAllowanceCapture | taskAllowanceRelease

fun task_perror :: "task_error \<Rightarrow> perror" where
  "task_perror ErrTaskSettlementCostExceedsHold =
     App ''BATCH_IMAGE_SETTLEMENT_COST_EXCEEDS_HOLD'' ''batch image settlement cost exceeds held balance''"
| "task_perror (ErrTaskReferenceIncomplete scope) = Plain ''billing task reference is incomplete''"

section \<open>Frozen money\<close>

text \<open>Rounding to eight decimals by binary scaling.\<close>

definition round_f64 :: "f64 \<Rightarrow> f64" where
  "round_f64 v = (case v of Fin x \<Rightarrow> rnd (of_int (half_away x)) | _ \<Rightarrow> v)"

definition normalizeTaskBalanceAmount :: "f64 \<Rightarrow> f64" where
  "normalizeTaskBalanceAmount amount = fdiv (round_f64 (fmul amount (Fin 100000000))) (Fin 100000000)"

definition userExistsForBilling :: "int \<Rightarrow> 'x ledger \<Rightarrow> bool" where
  "userExistsForBilling i s \<longleftrightarrow> filter (live i) (lUsers s) \<noteq> []"

text \<open>
  A guarded transfer between the available and the frozen balance; without a row
  the payer is looked up to tell a missing user from missing money.
\<close>

definition move_funds :: "int \<Rightarrow> (user_row \<Rightarrow> bool) \<Rightarrow> rat \<Rightarrow> rat \<Rightarrow> perror \<Rightarrow> ('x, TaskFundsResult) ltx" where
  "move_funds i guard available frozen short =
     tx_then (on_users (sql_update (\<lambda>r. live i r \<and> guard r)
       (\<lambda>r. case (to_column (balance r + available), to_column (frozen_balance r + frozen)) of
          (Some b, Some f) \<Rightarrow> Some (r\<lparr>balance := b, frozen_balance := f\<rparr>) | _ \<Rightarrow> None)))
     (\<lambda>ms s. (case ms of
        m # _ \<Rightarrow> Ok (no_funds\<lparr>trNewBalance := Some (rnd (balance (snd m))), FrozenBalance := Some (rnd (frozen_balance (snd m)))\<rparr>)
      | [] \<Rightarrow> if userExistsForBilling i s then Err short else Err ErrUserNotFound, s))"

definition reserveUsageBillingTaskBalance :: "int \<Rightarrow> f64 \<Rightarrow> ('x, TaskFundsResult) ltx" where
  "reserveUsageBillingTaskBalance i hold =
     (if fle hold f0 then tx_return (Ok no_funds)
      else amount_arg hold (\<lambda>h. move_funds i (\<lambda>r. h \<le> balance r) (- h) h ErrTaskInsufficientBalance))"

definition ErrFrozenInsufficient :: perror where
  "ErrFrozenInsufficient = Plain ''batch image frozen balance is insufficient''"

definition captureUsageBillingTaskBalance :: "int \<Rightarrow> f64 \<Rightarrow> f64 \<Rightarrow> ('x, TaskFundsResult) ltx" where
  "captureUsageBillingTaskBalance i hold actual =
     (let holdAmount = normalizeTaskBalanceAmount hold; actualAmount = normalizeTaskBalanceAmount actual in
      if fle holdAmount f0 \<and> fle actualAmount f0 then tx_return (Ok no_funds)
      else if flt taskCostEpsilon (fsub actualAmount holdAmount)
      then tx_return (Err (task_perror ErrTaskSettlementCostExceedsHold))
      else amount_arg holdAmount (\<lambda>h. amount_arg actualAmount (\<lambda>a.
        move_funds i (\<lambda>r. h \<le> frozen_balance r) ((if a < h then h - a else 0) - (if h < a then a - h else 0)) (- h)
          ErrFrozenInsufficient)))"

definition releaseUsageBillingTaskFrozenBalance :: "int \<Rightarrow> f64 \<Rightarrow> ('x, TaskFundsResult) ltx" where
  "releaseUsageBillingTaskFrozenBalance i amount =
     (let amount = normalizeTaskBalanceAmount amount in
      if fle amount f0 then tx_return (Ok no_funds)
      else amount_arg amount (\<lambda>a. move_funds i (\<lambda>r. a \<le> frozen_balance r) a (- a) ErrFrozenInsufficient))"

section \<open>Subscription holds\<close>

definition taskHoldClaimExists :: "string \<Rightarrow> int \<Rightarrow> 'x ledger \<Rightarrow> bool" where
  "taskHoldClaimExists rid k s \<longleftrightarrow> find_claim rid k (lClaims s) \<noteq> None \<or> find_claim rid k (lArchive s) \<noteq> None"

text \<open>A refund counts against a window only while the window still contains the reservation.\<close>

definition contains :: "(instant \<Rightarrow> instant) \<Rightarrow> instant option \<Rightarrow> instant \<Rightarrow> bool" where
  "contains lapse start t \<longleftrightarrow> (case start of None \<Rightarrow> False | Some s \<Rightarrow> s \<le> t \<and> t < lapse s)"

definition refund_quota :: "(instant \<Rightarrow> instant) \<Rightarrow> instant \<Rightarrow> rat \<Rightarrow> quota_window \<Rightarrow> quota_window option" where
  "refund_quota lapse t a w =
     (if (case qLimit w of None \<Rightarrow> False | Some l \<Rightarrow> 0 < l) \<and> contains lapse (qStart w) t
      then map_option (\<lambda>u. w\<lparr>qUsage := u\<rparr>) (numeric 10 (max 0 (qUsage w - a))) else Some w)"

definition refund_subscription :: "session_zone \<Rightarrow> instant \<Rightarrow> rat \<Rightarrow> sub_row \<Rightarrow> sub_row option" where
  "refund_subscription z t a r =
     (case (refund_quota (\<lambda>s. s + 24 * hour) t a (sDaily r), refund_quota (plus_days z 7) t a (sWeekly r),
            refund_quota (plus_days z 30) t a (sMonthly r)) of
        (Some d, Some w, Some m) \<Rightarrow> Some (r\<lparr>sDaily := d, sWeekly := w, sMonthly := m\<rparr>)
      | _ \<Rightarrow> None)"

fun releaseTaskSubscriptionAllocations ::
  "'x SettlementStore \<Rightarrow> task_command \<Rightarrow> BillingAllocation list \<Rightarrow> ('x, unit) ltx" where
  "releaseTaskSubscriptionAllocations st cmd [] = tx_return (Ok ())"
| "releaseTaskSubscriptionAllocations st cmd (al # als) =
     (if \<not> held al then releaseTaskSubscriptionAllocations st cmd als
      else amount_arg (AmountUSD al) (\<lambda>a.
        tx_then (on_subs (sql_update (\<lambda>r. Some (sID r) = SubscriptionID al \<and> sUser r = tUserID cmd)
            (refund_subscription (stZone st) (db_us (ReservedAt cmd)) a)))
          (\<lambda>ms. tx_then (tx_check (ms \<noteq> []) ErrSubscriptionNotFound)
            (\<lambda>_. releaseTaskSubscriptionAllocations st cmd als))))"

section \<open>Funding\<close>

type_synonym 'x task_body = "task_command \<Rightarrow> 'x projection \<Rightarrow> ('x, TaskFundsResult \<times> task_command) ltx"

definition no_basis :: "task_command \<Rightarrow> bool" where
  "no_basis cmd \<longleftrightarrow> fle (HoldAmount cmd) f0 \<and> fle (TfBaseAmountUSD cmd) f0"

definition versioned :: "task_command \<Rightarrow> bool" where
  "versioned cmd \<longleftrightarrow> 2 \<le> PricingSnapshotVersion cmd \<and> flt f0 (TfBaseAmountUSD cmd)"

definition allocation_command :: "task_command \<Rightarrow> UsageApplyCommand" where
  "allocation_command cmd = \<lparr>RequestID = [], RequestFingerprint = [], APIKeyBillingMode = TfAPIKeyBillingMode cmd,
     PreferredSubscriptionID = TfPreferredSubscriptionID cmd, GroupID = tGroupID cmd, BillableAmountUSD = HoldAmount cmd,
     BaseAmountUSD = TfBaseAmountUSD cmd, SubscriptionRateMultiplier = tSubscriptionRateMultiplier cmd,
     SubscriptionRateMultiplierScale = tSubscriptionRateMultiplierScale cmd,
     BalanceRateMultiplier = TfBalanceRateMultiplier cmd,
     DisablePlanGroupRateMultiplier = tDisablePlanGroupRateMultiplier cmd,
     IncludeAllocationPricing = 2 \<le> PricingSnapshotVersion cmd, APIKeyQuotaCost = f0, APIKeyRateLimitCost = f0,
     ProviderQuotaCost = f0, APIKeyID = 0, ubUserID = tUserID cmd, ActorUserID = 0, TeamID = None, ProviderID = 0,
     ProviderType = []\<rparr>"

text \<open>The estimate of a versioned reservation is the capture of its own base amount.\<close>

definition estimate :: "task_command \<Rightarrow> f64 \<Rightarrow> (perror, f64) result" where
  "estimate cmd hold =
     (if versioned cmd then (case PlanTaskCapture (Some (cmd\<lparr>ActualBaseAmountUSD := TfBaseAmountUSD cmd\<rparr>)) of
          Inl e \<Rightarrow> Err (task_perror e) | Inr plan \<Rightarrow> Ok (ActualAmountUSD plan))
      else Ok hold)"

definition reservation_result ::
  "task_command \<Rightarrow> TaskFundsResult \<Rightarrow> f64 \<Rightarrow> f64 \<Rightarrow> f64 \<Rightarrow> BillingAllocation list \<Rightarrow> f64 \<Rightarrow> TaskFundsResult" where
  "reservation_result cmd b subscriptionAmount balanceAmount remainingBase allocations estimated =
     b\<lparr>trSubscriptionAmountUSD := subscriptionAmount, trBalanceAmountUSD := balanceAmount,
       trBillingAllocations := allocations @ (if flt f0 balanceAmount
         then [balance_allocation balanceAmount remainingBase (NonNegativeRate (TfBalanceRateMultiplier cmd))] else []),
       HoldAmountUSD := fadd subscriptionAmount balanceAmount, EstimatedAmountUSD := estimated\<rparr>"

definition reserveUsageBillingTaskBilling ::
  "(UsageApplyCommand \<Rightarrow> string) \<Rightarrow> 'x SettlementStore \<Rightarrow> 'x task_body" where
  "reserveUsageBillingTaskBilling fingerprint st cmd projection =
     (if no_basis cmd then tx_return (Ok (no_funds, cmd))
      else
        let ac = NormalizeCommand fingerprint (stRound st) (allocation_command cmd) in
        tx_then (allocateUsageBillingSubscriptions st ac) (\<lambda>(remainingBase, subscriptionAmount, allocations).
        tx_then (tx_check (\<not> (APIKeyBillingMode ac = APIKeyBillingModeSubscription \<and> flt (rnd (1 / 10 ^ 10)) remainingBase))
          (allocation_perror ErrPreferredSubscriptionInsufficient)) (\<lambda>_.
        let balanceAmount = normalizeTaskBalanceAmount (if UsesBaseAmount (Some ac)
              then fmul remainingBase (NonNegativeRate (TfBalanceRateMultiplier cmd)) else remainingBase) in
        tx_then (reserveUsageBillingTaskBalance (tUserID cmd) balanceAmount) (\<lambda>b.
        let hold = fadd subscriptionAmount balanceAmount in
        tx_then (tx_return (estimate (cmd\<lparr>BalanceHoldAmount := balanceAmount, SubscriptionHoldAllocations := allocations\<rparr>) hold)) (\<lambda>estimated.
        tx_then (on_world (SaveReservation projection balanceAmount allocations hold estimated)) (\<lambda>_.
        tx_return (Ok (reservation_result cmd b subscriptionAmount balanceAmount remainingBase allocations estimated,
          cmd\<lparr>HoldAmount := hold\<rparr>))))))))"

definition capture_result :: "task_command \<Rightarrow> TaskFundsResult \<Rightarrow> TaskCapturePlan \<Rightarrow> TaskFundsResult" where
  "capture_result cmd b plan = b\<lparr>trSubscriptionAmountUSD := SubscriptionAmountUSD plan, trBalanceAmountUSD := BalanceAmountUSD plan,
     HoldAmountUSD := TotalTaskHoldAmount (Some cmd), EstimatedAmountUSD := ActualAmountUSD plan,
     trActualAmountUSD := ActualAmountUSD plan, trBillingAllocations := BillingAllocations plan\<rparr>"

definition claim_needed :: "task_command \<Rightarrow> bool" where
  "claim_needed cmd \<longleftrightarrow> flt f0 (HoldAmount cmd) \<and>
     (AllowanceReserved cmd \<or> flt f0 (BalanceHoldAmount cmd) \<or> 0 < length (SubscriptionHoldAllocations cmd))"

definition captureUsageBillingTaskBilling :: "'x SettlementStore \<Rightarrow> 'x task_body" where
  "captureUsageBillingTaskBilling st cmd projection s =
     (if claim_needed cmd \<and> \<not> taskHoldClaimExists (ReserveRequestID (Task cmd)) (tAPIKeyID cmd) s
      then (Err (Plain ''batch image billing hold is missing''), s)
      else case PlanTaskCapture (Some cmd) of
        Inl e \<Rightarrow> (Err (task_perror e), s)
      | Inr plan \<Rightarrow>
          let cmd = cmd\<lparr>ActualAmount := ActualAmountUSD plan\<rparr> in
          tx_then (releaseTaskSubscriptionAllocations st cmd (SubscriptionReleases plan)) (\<lambda>_.
          tx_then (captureUsageBillingTaskBalance (tUserID cmd) (TpBalanceHoldAmount plan) (BalanceAmountUSD plan)) (\<lambda>b.
          tx_return (Ok (capture_result cmd b plan, cmd)))) s)"

definition releaseUsageBillingTaskBilling :: "'x SettlementStore \<Rightarrow> 'x task_body" where
  "releaseUsageBillingTaskBilling st cmd projection s =
     (if \<not> taskHoldClaimExists (ReserveRequestID (Task cmd)) (tAPIKeyID cmd) s then (Ok (no_funds, cmd), s)
      else
        tx_then (releaseTaskSubscriptionAllocations st cmd (SubscriptionHoldAllocations cmd)) (\<lambda>_.
        tx_then (releaseUsageBillingTaskFrozenBalance (tUserID cmd) (EffectiveTaskBalanceHoldAmount (Some cmd))) (\<lambda>b.
        tx_return (Ok (b, cmd)))) s)"

section \<open>Allowances\<close>

text \<open>Here a window without a start is over too.\<close>

definition over :: "(instant \<Rightarrow> instant) \<Rightarrow> instant \<Rightarrow> spending \<Rightarrow> bool" where
  "over lapse t w \<longleftrightarrow> uwStart w = None \<or> elapsed lapse t w"

definition charge_fresh :: "(instant \<Rightarrow> instant) \<Rightarrow> instant \<Rightarrow> instant \<Rightarrow> rat \<Rightarrow> spending \<Rightarrow> spending option" where
  "charge_fresh lapse t fresh a w =
     map_option (\<lambda>u. w\<lparr>uwUsage := u, uwStart := (if over lapse t w then Some fresh else uwStart w)\<rparr>)
       (numeric 8 (if over lapse t w then a else uwUsage w + a))"

definition fits :: "bool \<Rightarrow> rat \<Rightarrow> spending \<Rightarrow> bool" where
  "fits fresh a w \<longleftrightarrow> uwLimit w \<le> 0 \<or> (if fresh then 0 else uwUsage w) + a \<le> uwLimit w"

definition charge_fresh_windows :: "session_zone \<Rightarrow> instant \<Rightarrow> rat \<Rightarrow> string \<Rightarrow> key_row \<Rightarrow> key_row option" where
  "charge_fresh_windows z t a status k =
     (case (numeric 8 (kQuotaUsed k + a), charge_fresh span_5h t t a (k5h k), charge_fresh span_1d t (midnight z t) a (k1d k),
            charge_fresh (span_7d z) t (midnight z t) a (k7d k)) of
        (Some q, Some x, Some y, Some w) \<Rightarrow> Some (k\<lparr>kQuotaUsed := q, k5h := x, k1d := y, k7d := w, kStatus := status\<rparr>)
      | _ \<Rightarrow> None)"

definition key_admits :: "session_zone \<Rightarrow> instant \<Rightarrow> rat \<Rightarrow> key_row \<Rightarrow> bool" where
  "key_admits z t a k \<longleftrightarrow> \<not> kDeleted k \<and> kStatus k = ''active'' \<and> \<not> kOwnerDisabled k \<and>
     (kQuota k \<le> 0 \<or> kQuotaUsed k + a \<le> kQuota k) \<and> fits (over span_5h t (k5h k)) a (k5h k) \<and>
     fits (over span_1d t (k1d k)) a (k1d k) \<and> fits (over (span_7d z) t (k7d k)) a (k7d k)"

text \<open>The reason is found again in floats, with fixed durations.\<close>

definition effectiveSQLWindowUsage :: "spending \<Rightarrow> duration \<Rightarrow> instant \<Rightarrow> f64" where
  "effectiveSQLWindowUsage w d now =
     (case uwStart w of None \<Rightarrow> f0 | Some s \<Rightarrow> if \<not> now < s + d then f0 else rnd (uwUsage w))"

definition exceeded :: "spending \<Rightarrow> f64 \<Rightarrow> f64 \<Rightarrow> bool" where
  "exceeded w used amount \<longleftrightarrow> flt f0 (rnd (uwLimit w)) \<and> flt (rnd (uwLimit w)) (fadd used amount)"

definition taskAPIKeyAllowanceError :: "int \<Rightarrow> f64 \<Rightarrow> 'x ledger \<Rightarrow> perror" where
  "taskAPIKeyAllowanceError i amount s =
     (case filter (\<lambda>k. kID k = i \<and> \<not> kDeleted k) (lKeys s) of
        [] \<Rightarrow> ErrAPIKeyNotFound
      | k # _ \<Rightarrow>
          if kOwnerDisabled k \<or> kStatus k \<noteq> ''active''
          then (if kStatus k = ''quota_exhausted'' then ErrAPIKeyQuotaExhausted else ErrAPIKeyNotFound)
          else if flt f0 (rnd (kQuota k)) \<and> flt (rnd (kQuota k)) (fadd (rnd (kQuotaUsed k)) amount) then ErrAPIKeyQuotaExhausted
          else if exceeded (k5h k) (effectiveSQLWindowUsage (k5h k) (5 * hour) (lNow s)) amount then ErrAPIKeyRateLimit5hExceeded
          else if exceeded (k1d k) (effectiveSQLWindowUsage (k1d k) (24 * hour) (lNow s)) amount then ErrAPIKeyRateLimit1dExceeded
          else if exceeded (k7d k) (effectiveSQLWindowUsage (k7d k) (7 * 24 * hour) (lNow s)) amount then ErrAPIKeyRateLimit7dExceeded
          else ErrAPIKeyNotFound)"

definition reserveTaskAPIKeyAllowance :: "'x SettlementStore \<Rightarrow> int \<Rightarrow> f64 \<Rightarrow> instant \<Rightarrow> ('x, unit) ltx" where
  "reserveTaskAPIKeyAllowance st i amount reservedAt =
     (let z = stZone st; t = db_us reservedAt in
      tx_then (amount_arg amount (\<lambda>a. on_keys (sql_update (\<lambda>k. kID k = i \<and> key_admits z t a k)
        (\<lambda>k. charge_fresh_windows z t a
           (if 0 < kQuota k \<and> kQuota k \<le> kQuotaUsed k + a then ''quota_exhausted'' else kStatus k) k))))
      (\<lambda>ms s. (if ms \<noteq> [] then Ok () else Err (taskAPIKeyAllowanceError i amount s), s)))"

text \<open>Usage counted against the team member: a team, and an actor other than the payer.\<close>

definition task_actor :: "task_command \<Rightarrow> int option" where
  "task_actor cmd = team_actor (tTeamID cmd) (tActorUserID cmd) (tUserID cmd)"

definition effectiveNaturalWindowUsage :: "spending \<Rightarrow> instant \<Rightarrow> f64" where
  "effectiveNaturalWindowUsage w expectedStart =
     (case uwStart w of None \<Rightarrow> f0 | Some s \<Rightarrow> if s < expectedStart then f0 else rnd (uwUsage w))"

definition taskMemberAllowanceError ::
  "int \<Rightarrow> int \<Rightarrow> f64 \<Rightarrow> instant \<times> instant \<times> instant \<Rightarrow> 'x ledger \<Rightarrow> (perror, unit) result" where
  "taskMemberAllowanceError team user amount starts s =
     (case starts of (day, week, month) \<Rightarrow>
      (case filter (\<lambda>m. mTeam m = team \<and> mUser m = user \<and> mLeft m = None) (lMembers s) of
        [] \<Rightarrow> Err ErrTeamMembershipRequired
      | m # _ \<Rightarrow>
          if mRole m = ''owner'' then Ok ()
          else if exceeded (mDaily m) (effectiveNaturalWindowUsage (mDaily m) day) amount then Err ErrTeamMemberDailyExceeded
          else if exceeded (mWeekly m) (effectiveNaturalWindowUsage (mWeekly m) week) amount then Err ErrTeamMemberWeeklyExceeded
          else if exceeded (mMonthly m) (effectiveNaturalWindowUsage (mMonthly m) month) amount then Err ErrTeamMemberMonthlyExceeded
          else Err ErrTeamMembershipRequired))"

definition member_admits :: "instant \<times> instant \<times> instant \<Rightarrow> rat \<Rightarrow> member_row \<Rightarrow> bool" where
  "member_admits starts a m \<longleftrightarrow> mLeft m = None \<and> mRole m = ''member'' \<and>
     (case starts of (day, week, month) \<Rightarrow>
        fits (stale day (mDaily m)) a (mDaily m) \<and> fits (stale week (mWeekly m)) a (mWeekly m) \<and>
        fits (stale month (mMonthly m)) a (mMonthly m))"

definition reserveTaskMemberAllowance :: "'x SettlementStore \<Rightarrow> task_command \<Rightarrow> f64 \<Rightarrow> ('x, unit) ltx" where
  "reserveTaskMemberAllowance st cmd amount s =
     (case task_actor cmd of
        None \<Rightarrow> (Ok (), s)
      | Some team \<Rightarrow>
          let starts = calendar_starts st (lNow s) in
          tx_then (amount_arg amount (\<lambda>a. on_members (sql_update
              (\<lambda>m. mTeam m = team \<and> mUser m = tActorUserID cmd \<and> member_admits starts a m)
              (case starts of (day, week, month) \<Rightarrow> charge_member day week month a))))
            (\<lambda>ms s. (if ms \<noteq> [] then Ok ()
               else taskMemberAllowanceError team (tActorUserID cmd) amount starts s, s)) s)"

definition refund_spending :: "nat \<Rightarrow> (instant \<Rightarrow> instant) \<Rightarrow> instant \<Rightarrow> rat \<Rightarrow> spending \<Rightarrow> spending option" where
  "refund_spending d lapse t a w =
     (if contains lapse (uwStart w) t then map_option (\<lambda>u. w\<lparr>uwUsage := u\<rparr>) (numeric d (max 0 (uwUsage w - a))) else Some w)"

definition refund_key :: "session_zone \<Rightarrow> instant \<Rightarrow> rat \<Rightarrow> key_row \<Rightarrow> key_row option" where
  "refund_key z t a k =
     (case (numeric 8 (max 0 (kQuotaUsed k - a)), refund_spending 8 span_5h t a (k5h k),
            refund_spending 8 span_1d t a (k1d k), refund_spending 8 (span_7d z) t a (k7d k)) of
        (Some q, Some x, Some y, Some w) \<Rightarrow> Some (k\<lparr>kQuotaUsed := q, k5h := x, k1d := y, k7d := w,
          kStatus := (if kStatus k = ''quota_exhausted'' \<and> \<not> kOwnerDisabled k \<and>
            (kQuota k \<le> 0 \<or> max 0 (kQuotaUsed k - a) < kQuota k) then ''active'' else kStatus k)\<rparr>)
      | _ \<Rightarrow> None)"

definition releaseTaskAPIKeyAllowance :: "'x SettlementStore \<Rightarrow> int \<Rightarrow> f64 \<Rightarrow> instant \<Rightarrow> ('x, unit) ltx" where
  "releaseTaskAPIKeyAllowance st i amount reservedAt = amount_arg amount (\<lambda>a.
     tx_then (on_keys (sql_update (\<lambda>k. kID k = i) (refund_key (stZone st) (db_us reservedAt) a))) (\<lambda>_. tx_return (Ok ())))"

definition refund_member :: "session_zone \<Rightarrow> instant \<Rightarrow> rat \<Rightarrow> member_row \<Rightarrow> member_row option" where
  "refund_member z t a m =
     (case (refund_spending 10 (plus_days z 1) t a (mDaily m), refund_spending 10 (plus_days z 7) t a (mWeekly m),
            refund_spending 10 (plus_month z) t a (mMonthly m)) of
        (Some d, Some w, Some n) \<Rightarrow> Some (m\<lparr>mDaily := d, mWeekly := w, mMonthly := n\<rparr>)
      | _ \<Rightarrow> None)"

definition releaseTaskMemberAllowance :: "'x SettlementStore \<Rightarrow> task_command \<Rightarrow> f64 \<Rightarrow> ('x, unit) ltx" where
  "releaseTaskMemberAllowance st cmd amount =
     (case task_actor cmd of
        None \<Rightarrow> tx_return (Ok ())
      | Some team \<Rightarrow>
          let t = db_us (ReservedAt cmd) in
          amount_arg amount (\<lambda>a. tx_then (on_members (sql_update
              (\<lambda>m. mTeam m = team \<and> mUser m = tActorUserID cmd \<and> mJoined m \<le> t \<and>
                (case mLeft m of None \<Rightarrow> True | Some l \<Rightarrow> t < l))
              (refund_member (stZone st) t a))) (\<lambda>_. tx_return (Ok ()))))"

definition chargeLegacyTaskAPIKey :: "'x SettlementStore \<Rightarrow> int \<Rightarrow> f64 \<Rightarrow> ('x, unit) ltx" where
  "chargeLegacyTaskAPIKey st i amount s = amount_arg amount (\<lambda>a.
     tx_then (on_keys (sql_update (\<lambda>k. kID k = i)
       (\<lambda>k. charge_fresh_windows (stZone st) (lNow s) a
          (if 0 < kQuota k \<and> kQuota k \<le> kQuotaUsed k + a \<and> \<not> kOwnerDisabled k then ''quota_exhausted'' else kStatus k) k)))
       (\<lambda>_. tx_return (Ok ()))) s"

text \<open>The savepoint: a failed refund is undone and forgotten.\<close>

definition rollbackTaskAllowanceBestEffort :: "('x, unit) ltx \<Rightarrow> ('x, unit) ltx" where
  "rollbackTaskAllowanceBestEffort rollback s =
     (case rollback s of (Inl e, _) \<Rightarrow> (Ok (), s) | (Inr _, s') \<Rightarrow> (Ok (), s'))"

definition refund_allowance :: "'x SettlementStore \<Rightarrow> task_command \<Rightarrow> f64 \<Rightarrow> ('x, unit) ltx" where
  "refund_allowance st cmd amount = rollbackTaskAllowanceBestEffort
     (tx_then (releaseTaskAPIKeyAllowance st (tAPIKeyID cmd) amount (ReservedAt cmd))
       (\<lambda>_. releaseTaskMemberAllowance st cmd amount))"

definition legacy_charge :: "'x SettlementStore \<Rightarrow> task_command \<Rightarrow> ('x, unit) ltx" where
  "legacy_charge st cmd =
     tx_then (chargeLegacyTaskAPIKey st (tAPIKeyID cmd) (ActualAmount cmd)) (\<lambda>_.
       case task_actor cmd of
         None \<Rightarrow> tx_return (Ok ())
       | Some team \<Rightarrow> incrementUsageBillingTeamMember st team (tActorUserID cmd) (ActualAmount cmd))"

definition set_allowance :: "'x projection \<Rightarrow> bool \<Rightarrow> ('x, unit) ltx" where
  "set_allowance projection b = on_world (SetAllowanceReserved projection b)"

fun allowance_effect :: "'x SettlementStore \<Rightarrow> task_command \<Rightarrow> taskAllowanceOperation \<Rightarrow> ('x, unit) ltx" where
  "allowance_effect st cmd taskAllowanceReserve = (\<lambda>s.
     tx_then (reserveTaskAPIKeyAllowance st (tAPIKeyID cmd) (HoldAmount cmd)
         (if is_zero (ReservedAt cmd) then lNow s else ReservedAt cmd))
       (\<lambda>_. reserveTaskMemberAllowance st cmd (HoldAmount cmd)) s)"
| "allowance_effect st cmd taskAllowanceCapture =
     (if AllowanceReserved cmd then
        let adjustment = fsub (HoldAmount cmd) (ActualAmount cmd) in
        if flt f0 adjustment then refund_allowance st cmd adjustment else tx_return (Ok ())
      else if flt f0 (ActualAmount cmd) then legacy_charge st cmd else tx_return (Ok ()))"
| "allowance_effect st cmd taskAllowanceRelease =
     (if AllowanceReserved cmd then refund_allowance st cmd (HoldAmount cmd) else tx_return (Ok ()))"

definition applyTaskAllowance ::
  "'x SettlementStore \<Rightarrow> task_command \<Rightarrow> taskAllowanceOperation \<Rightarrow> 'x projection \<Rightarrow> ('x, unit) ltx" where
  "applyTaskAllowance st cmd operation projection =
     (if no_basis cmd then tx_return (Ok ())
      else tx_then (allowance_effect st cmd operation)
        (\<lambda>_. set_allowance projection (operation = taskAllowanceReserve)))"

section \<open>The store's operations\<close>

definition reserve_replay :: "task_command \<Rightarrow> TaskFundsResult" where
  "reserve_replay cmd =
     (let als = filter (\<lambda>a. AllocType a = BillingAllocationTypeSubscription \<and> flt f0 (AmountUSD a)) (SubscriptionHoldAllocations cmd);
          subscription = hold_sum (SubscriptionHoldAllocations cmd) f0;
          b = EffectiveTaskBalanceHoldAmount (Some cmd);
          hold = fadd subscription b
      in no_funds\<lparr>trSubscriptionAmountUSD := subscription, trBalanceAmountUSD := b,
           trBillingAllocations := als @ (if flt f0 b then [balance_allocation b f0 f0] else []),
           HoldAmountUSD := hold,
           EstimatedAmountUSD := (case estimate cmd hold of Inl _ \<Rightarrow> hold | Inr v \<Rightarrow> v)\<rparr>)"

fun taskBillingResultForCommand :: "task_command \<Rightarrow> taskAllowanceOperation \<Rightarrow> TaskFundsResult" where
  "taskBillingResultForCommand cmd taskAllowanceCapture =
     (case PlanTaskCapture (Some cmd) of Inl _ \<Rightarrow> no_funds | Inr plan \<Rightarrow> capture_result cmd no_funds plan)"
| "taskBillingResultForCommand cmd taskAllowanceReserve = reserve_replay cmd"
| "taskBillingResultForCommand cmd taskAllowanceRelease = no_funds"

text \<open>The transaction after a first claim.\<close>

definition apply_claimed ::
  "'x SettlementStore \<Rightarrow> taskAllowanceOperation \<Rightarrow> 'x task_body \<Rightarrow> task_command \<Rightarrow> ('x, TaskFundsResult \<times> task_command) ltx" where
  "apply_claimed st operation body cmd =
     tx_then (lockUsageBillingUser (tUserID cmd)) (\<lambda>_.
       case taskProjections st (Scope (Task cmd)) of
         None \<Rightarrow> tx_return (Err (Plain ''unsupported billing task scope''))
       | Some factory \<Rightarrow> (case factory (Task cmd) of
           None \<Rightarrow> tx_return (Err (Plain ''billing task projection is nil''))
         | Some projection \<Rightarrow>
             tx_then (body cmd projection) (\<lambda>(res, cmd).
             tx_then (applyTaskAllowance st cmd operation projection) (\<lambda>_.
             tx_return (Ok (res\<lparr>trApplied := True\<rparr>, cmd))))))"

definition applyTaskBalanceHoldOnce ::
  "'x SettlementStore \<Rightarrow> taskAllowanceOperation \<Rightarrow> 'x task_body \<Rightarrow> task_command \<Rightarrow> ('x, TaskFundsResult \<times> task_command) ltx" where
  "applyTaskBalanceHoldOnce st operation body cmd =
     with_claim (TfRequestID cmd) (tAPIKeyID cmd) (TfRequestFingerprint cmd)
       (taskBillingResultForCommand cmd operation, cmd) (apply_claimed st operation body cmd)"

definition applyTaskBalanceHold ::
  "(task_command \<Rightarrow> string) \<Rightarrow> 'x SettlementStore \<Rightarrow> taskAllowanceOperation \<Rightarrow> 'x task_body \<Rightarrow> task_command option
   \<Rightarrow> ('x, TaskFundsResult \<times> task_command option) ltx" where
  "applyTaskBalanceHold fingerprint st operation body cmd s =
     (case cmd of
        None \<Rightarrow> (Ok (no_funds, None), s)
      | Some cmd \<Rightarrow>
          if taskProjections st (Scope (Task cmd)) = None then (Err (Plain ''unsupported billing task scope''), s)
          else
            let cmd = NormalizeTaskCommand fingerprint cmd in
            if TfRequestID cmd = [] then (Err ErrUsageBillingRequestIDRequired, s)
            else tx_then (applyTaskBalanceHoldOnce st operation body cmd)
              (\<lambda>(res, cmd). tx_return (Ok (res, Some cmd))) s)"

definition Reserve ::
  "(UsageApplyCommand \<Rightarrow> string) \<Rightarrow> (task_command \<Rightarrow> string) \<Rightarrow> 'x SettlementStore \<Rightarrow> task_command option
   \<Rightarrow> ('x, TaskFundsResult \<times> task_command option) ltx" where
  "Reserve uf tf st = applyTaskBalanceHold tf st taskAllowanceReserve (reserveUsageBillingTaskBilling uf st)"

definition Capture ::
  "(task_command \<Rightarrow> string) \<Rightarrow> 'x SettlementStore \<Rightarrow> task_command option \<Rightarrow> ('x, TaskFundsResult \<times> task_command option) ltx" where
  "Capture tf st = applyTaskBalanceHold tf st taskAllowanceCapture (captureUsageBillingTaskBilling st)"

definition Release ::
  "(task_command \<Rightarrow> string) \<Rightarrow> 'x SettlementStore \<Rightarrow> task_command option \<Rightarrow> ('x, TaskFundsResult \<times> task_command option) ltx" where
  "Release tf st = applyTaskBalanceHold tf st taskAllowanceRelease (releaseUsageBillingTaskBilling st)"

end
