(* ===== verification/LedgerFrames.thy ===== *)
theory LedgerFrames
  imports TaskLedger
begin

text \<open>
  What the statements of a settlement leave alone: the claims, the clock and the
  plans, and, away from the wallet statements, the user rows.
\<close>

text \<open>The parts of the ledger a settlement never touches.\<close>

definition outside :: "'x ledger \<Rightarrow> claim_row list \<times> claim_row list \<times> instant \<times> int list \<times> plan_group list" where
  "outside s = (lClaims s, lArchive s, lNow s, lPlans s, lPlanGroups s)"

abbreviation framed :: "('x, 'a) ltx \<Rightarrow> bool" where
  "framed m \<equiv> \<forall>c. keeps (\<lambda>s. outside s = c) m"

lemma keeps_on [keep_intros]:
  "(\<And>s t. P s \<Longrightarrow> P (s\<lparr>lUsers := t\<rparr>)) \<Longrightarrow> keeps P (on_users f)"
  "(\<And>s t. P s \<Longrightarrow> P (s\<lparr>lKeys := t\<rparr>)) \<Longrightarrow> keeps P (on_keys g)"
  "(\<And>s t. P s \<Longrightarrow> P (s\<lparr>lMembers := t\<rparr>)) \<Longrightarrow> keeps P (on_members h)"
  "(\<And>s t. P s \<Longrightarrow> P (s\<lparr>lSubs := t\<rparr>)) \<Longrightarrow> keeps P (on_subs k)"
  "(\<And>s t. P s \<Longrightarrow> P (s\<lparr>lProviders := t\<rparr>)) \<Longrightarrow> keeps P (on_providers p)"
  "(\<And>s t. P s \<Longrightarrow> P (s\<lparr>lWorld := t\<rparr>)) \<Longrightarrow> keeps P (on_world w)"
  by (auto simp: keeps_def on_tables split: prod.split)

lemma keeps_lock [keep_intros]: "keeps P (lockUsageBillingUser i)"
  by (simp add: keeps_def lockUsageBillingUser_def)

lemma keeps_subs [keep_intros]:
  assumes "\<And>s t. P s \<Longrightarrow> P (s\<lparr>lSubs := t\<rparr>)"
  shows "keeps P (updateUsageBillingSubscription u)" "keeps P (update_subscriptions us)"
    "keeps P (releaseTaskSubscriptionAllocations st cmd als)"
proof -
  show u: "keeps P (updateUsageBillingSubscription u)" for u
    unfolding updateUsageBillingSubscription_def by (intro keep_intros assms)
  show "keeps P (update_subscriptions us)"
    by (induction us) (simp_all only: update_subscriptions.simps, (intro keep_intros u | assumption)+)
  show "keeps P (releaseTaskSubscriptionAllocations st cmd als)"
    by (induction als) (simp_all only: releaseTaskSubscriptionAllocations.simps, (intro keep_intros assms | assumption)+)
qed

lemma keeps_at: "(\<And>t. keeps P (f t)) \<Longrightarrow> keeps P (\<lambda>s. f (h s) s)"
  by (auto simp: keeps_def)

lemma keeps_allocate [keep_intros]:
  assumes "\<And>s t. P s \<Longrightarrow> P (s\<lparr>lSubs := t\<rparr>)"
  shows "keeps P (allocateUsageBillingSubscriptions st cmd)"
proof (rule keepsI)
  fix s assume s: "P s"
  have u: "keeps P (tx_then (update_subscriptions us) (\<lambda>_. tx_return r))" for us r
    by (intro keep_intros assms)
  show "P (snd (allocateUsageBillingSubscriptions st cmd s))"
    using s u by (auto simp: allocateUsageBillingSubscriptions_def Let_def keeps_def split: sum.split prod.split bool.split)
qed

lemma keeps_users [keep_intros]:
  assumes "\<And>s t. P s \<Longrightarrow> P (s\<lparr>lUsers := t\<rparr>)"
  shows "keeps P (deductUsageBillingBalance st i a)" "keeps P (move_funds i g x y e)"
    "keeps P (reserveUsageBillingTaskBalance i h)" "keeps P (captureUsageBillingTaskBalance i h a)"
    "keeps P (releaseUsageBillingTaskFrozenBalance i h)"
proof -
  show m: "keeps P (move_funds i g x y e)" for g x y e
  proof -
    have "keeps P (\<lambda>s. (r s, s))" for r :: "'a ledger \<Rightarrow> (perror, TaskFundsResult) result" by (simp add: keeps_def)
    then show ?thesis unfolding move_funds_def by (intro keep_intros assms)
  qed
  show "keeps P (deductUsageBillingBalance st i a)"
    unfolding deductUsageBillingBalance_def by (intro keep_intros assms)
  show "keeps P (reserveUsageBillingTaskBalance i h)" "keeps P (captureUsageBillingTaskBalance i h a)"
    "keeps P (releaseUsageBillingTaskFrozenBalance i h)"
    unfolding reserveUsageBillingTaskBalance_def captureUsageBillingTaskBalance_def
      releaseUsageBillingTaskFrozenBalance_def Let_def by (intro keep_intros m)+
qed


text \<open>Stable: independent of every table but the users.\<close>

definition stable :: "('x ledger \<Rightarrow> bool) \<Rightarrow> bool" where
  "stable P \<longleftrightarrow> (\<forall>s. P s \<longrightarrow> (\<forall>t. P (s\<lparr>lKeys := t\<rparr>)) \<and> (\<forall>t. P (s\<lparr>lMembers := t\<rparr>)) \<and> (\<forall>t. P (s\<lparr>lSubs := t\<rparr>)) \<and>
     (\<forall>t. P (s\<lparr>lProviders := t\<rparr>)) \<and> (\<forall>t. P (s\<lparr>lWorld := t\<rparr>)))"

lemma stableD:
  assumes "stable P" "P s"
  shows "P (s\<lparr>lKeys := k\<rparr>)" "P (s\<lparr>lMembers := m\<rparr>)" "P (s\<lparr>lSubs := b\<rparr>)" "P (s\<lparr>lProviders := p\<rparr>)" "P (s\<lparr>lWorld := w\<rparr>)"
  using assms by (simp_all add: stable_def)

lemma stable_users [simp]: "stable (\<lambda>s. Q (lUsers s) (outside s))"
  by (simp add: stable_def outside_def)

lemma keeps_quota:
  assumes "stable P"
  shows "keeps P (incrementUsageBillingTeamMember st team actor a)" "keeps P (incrementUsageBillingAPIKeyQuota st i a)"
    "keeps P (incrementUsageBillingAPIKeyRateLimit st i a)" "keeps P (incrementUsageBillingProviderQuota st i a)"
proof -
  note sd = stableD [OF assms]
  show "keeps P (incrementUsageBillingAPIKeyQuota st i a)"
    unfolding incrementUsageBillingAPIKeyQuota_def by (intro keep_intros sd)
  have "keeps P (\<lambda>s. amount_arg (QuantizeUsageBillingAmount (stRound st) a) (\<lambda>a.
     tx_then (on_keys (sql_update (\<lambda>k. kID k = i) (charge_key_windows (stZone st) t a)))
       (\<lambda>ms. tx_check (ms \<noteq> []) ErrAPIKeyNotFound)) s)" for t
    by (intro keep_intros sd)
  then show "keeps P (incrementUsageBillingAPIKeyRateLimit st i a)"
    by (auto simp: incrementUsageBillingAPIKeyRateLimit_def keeps_def)
  have "keeps P (amount_arg a (\<lambda>a. tx_then (on_members (sql_update g (h a))) (\<lambda>_. tx_return (Ok ()))))" for g h
    by (intro keep_intros sd)
  then show "keeps P (incrementUsageBillingTeamMember st team actor a)"
    by (simp add: incrementUsageBillingTeamMember_def keeps_def split: prod.split)
  show "keeps P (incrementUsageBillingProviderQuota st i a)"
  proof (rule keepsI)
    fix s assume s: "P s"
    have p: "P (snd (amount_arg a (\<lambda>a. tx_then (on_providers (sql_update g (h a))) k) s))"
      if "\<And>ms. keeps P (k ms)" for g h k
      by (rule keepsD' [where P = P, OF _ s]) (intro keep_intros sd that)
    show "P (snd (incrementUsageBillingProviderQuota st i a s))"
      unfolding incrementUsageBillingProviderQuota_def Let_def by (rule p) (intro keep_intros sd)
  qed
qed

lemma keeps_reserve_key:
  "(\<And>s t. P s \<Longrightarrow> P (s\<lparr>lKeys := t\<rparr>)) \<Longrightarrow> keeps P (reserveTaskAPIKeyAllowance st i a t)"
  unfolding reserveTaskAPIKeyAllowance_def Let_def by (intro keep_intros keeps_answer)

lemma keeps_reserve_member:
  assumes "\<And>s t. P s \<Longrightarrow> P (s\<lparr>lMembers := t\<rparr>)"
  shows "keeps P (reserveTaskMemberAllowance st cmd a)"
proof -
  have "keeps P (tx_then (amount_arg a (\<lambda>a. on_members (sql_update (g a) (h a)))) (\<lambda>ms s. (q ms s, s)))"
    for a g h and q :: "_ \<Rightarrow> 'a ledger \<Rightarrow> (perror, unit) result"
    by (intro keep_intros keeps_answer assms)
  then show ?thesis
    by (simp add: reserveTaskMemberAllowance_def keeps_def Let_def split: option.split)
qed

lemma keeps_allowance:
  assumes "stable P"
  shows "keeps P (applyTaskAllowance st cmd operation projection)"
proof -
  note sd = stableD [OF assms]
  have f: "keeps P (refund_allowance st cmd a)" for a
  proof -
    have b: "keeps P (rollbackTaskAllowanceBestEffort b)" if "keeps P b" for b
      using that by (auto simp: keeps_def rollbackTaskAllowanceBestEffort_def split: prod.split sum.split)
    have "keeps P (releaseTaskMemberAllowance st cmd a)"
      unfolding releaseTaskMemberAllowance_def Let_def by (intro keep_intros sd)
    moreover have "keeps P (releaseTaskAPIKeyAllowance st i a t)" for i t
      unfolding releaseTaskAPIKeyAllowance_def by (intro keep_intros sd)
    ultimately show ?thesis unfolding refund_allowance_def by (intro b keep_intros)
  qed
  have "keeps P (chargeLegacyTaskAPIKey st i a)" for i a
  proof -
    have "keeps P (amount_arg a (\<lambda>a. tx_then (on_keys (sql_update (\<lambda>k. kID k = i) (h a))) (\<lambda>_. tx_return (Ok ()))))" for h
      by (intro keep_intros sd)
    then show ?thesis by (simp add: chargeLegacyTaskAPIKey_def keeps_def)
  qed
  then have l: "keeps P (legacy_charge st cmd)"
    unfolding legacy_charge_def by (intro keep_intros keeps_quota assms)
  have "keeps P (allowance_effect st cmd operation)"
  proof (cases operation)
    case taskAllowanceReserve
    have "keeps P (tx_then (reserveTaskAPIKeyAllowance st (tAPIKeyID cmd) (HoldAmount cmd) t)
       (\<lambda>_. reserveTaskMemberAllowance st cmd (HoldAmount cmd)))" for t by (intro keep_intros keeps_reserve_key keeps_reserve_member sd)
    then show ?thesis using taskAllowanceReserve by (auto simp: keeps_def)
  next
    case taskAllowanceCapture
    have "keeps P (allowance_effect st cmd taskAllowanceCapture)"
      unfolding allowance_effect.simps Let_def by (intro keep_intros f l)
    then show ?thesis using taskAllowanceCapture by simp
  next
    case taskAllowanceRelease
    have "keeps P (allowance_effect st cmd taskAllowanceRelease)"
      unfolding allowance_effect.simps by (intro keep_intros f)
    then show ?thesis using taskAllowanceRelease by simp
  qed
  then show ?thesis unfolding applyTaskAllowance_def set_allowance_def by (intro keep_intros sd)
qed


lemma keeps_bodies:
  assumes "stable P" "\<And>s t. P s \<Longrightarrow> P (s\<lparr>lUsers := t\<rparr>)"
  shows "keeps P (applyUsageBillingEffects st cmd res)" "keeps P (reserveUsageBillingTaskBilling uf st tc projection)"
    "keeps P (captureUsageBillingTaskBilling st tc projection)" "keeps P (releaseUsageBillingTaskBilling st tc projection)"
proof -
  note sd = stableD [OF assms(1)] keeps_quota [OF assms(1)] assms(2)
  have "keeps P (balance_effect st cmd x res)" for x res
    unfolding balance_effect_def by (intro keep_intros sd)
  moreover have "keeps P (quota_effects st cmd x res)" for x res
    unfolding quota_effects_def Let_def by (intro keep_intros sd)
  ultimately show "keeps P (applyUsageBillingEffects st cmd res)"
    unfolding applyUsageBillingEffects_def Let_def by (intro keep_intros sd)
  show "keeps P (reserveUsageBillingTaskBilling uf st tc projection)"
    unfolding reserveUsageBillingTaskBilling_def Let_def by (intro keep_intros sd)
  have "keeps P (tx_then (releaseTaskSubscriptionAllocations st c als) (\<lambda>_.
      tx_then (captureUsageBillingTaskBalance i h a) (\<lambda>b. tx_return (r b))))" for c als i h a and r :: "_ \<Rightarrow> (perror, TaskFundsResult \<times> task_command) result"
    by (intro keep_intros sd)
  then show "keeps P (captureUsageBillingTaskBilling st tc projection)"
    by (auto simp: captureUsageBillingTaskBilling_def Let_def keeps_def split: sum.split)
  have "keeps P (tx_then (releaseTaskSubscriptionAllocations st c als) (\<lambda>_.
      tx_then (releaseUsageBillingTaskFrozenBalance i h) (\<lambda>b. tx_return (r b))))" for c als i h and r :: "_ \<Rightarrow> (perror, TaskFundsResult \<times> task_command) result"
    by (intro keep_intros sd)
  then show "keeps P (releaseUsageBillingTaskBilling st tc projection)"
    by (simp add: releaseUsageBillingTaskBilling_def keeps_def)
qed

lemma keeps_claimed:
  assumes "stable P" "\<And>s t. P s \<Longrightarrow> P (s\<lparr>lUsers := t\<rparr>)" "\<And>cmd projection. keeps P (body cmd projection)"
  shows "keeps P (apply_claimed st operation body cmd)"
  unfolding apply_claimed_def by (intro keep_intros keeps_allowance assms)



end
