(* ===== verification/LedgerClaims.thy ===== *)
theory LedgerClaims
  imports LedgerFrames

begin

text \<open>
  The claim protocol: a financial action is a transaction under its claim, whose
  identity stays recorded when the retention job archives it.
\<close>

section \<open>Claims\<close>

text \<open>What the two claim tables record for a request of a key: the trimmed fingerprint.\<close>

definition identity :: "'x ledger \<Rightarrow> string \<times> int \<Rightarrow> string option" where
  "identity s = (\<lambda>(rid, k). map_option (\<lambda>c. trim_space (cFingerprint c)) (find_claim rid k (lClaims s @ lArchive s)))"

definition claim_id :: "claim_row \<Rightarrow> string \<times> int" where
  "claim_id c = (cRequest c, cKey c)"

definition claims_ok :: "'x ledger \<Rightarrow> bool" where
  "claims_ok s \<longleftrightarrow> distinct (map claim_id (lClaims s @ lArchive s))"

lemma find_claim_row_at: "find_claim rid k = row_at claim_id (rid, k)"
  by (auto simp: find_claim_def row_at_def claim_id_def fun_eq_iff)

lemma identity_outside: "outside s = outside s' \<Longrightarrow> identity s = identity s' \<and> claims_ok s = claims_ok s'"
  by (simp add: outside_def identity_def claims_ok_def)

lemma archive_identity: "claims_ok s \<Longrightarrow> identity (archive_batch pick cutoff s) = identity s \<and> claims_ok (archive_batch pick cutoff s)"
proof -
  assume ok: "claims_ok s"
  let ?old = "\<lambda>c. cCreated c < cutoff \<and> pick c" and ?s = "archive_batch pick cutoff s"
  have "find_claim (cRequest c) (cKey c) (lArchive s) = None" if "c \<in> set (lClaims s)" for c
    using ok that unfolding find_claim_row_at row_at_None claims_ok_def by (auto simp: claim_id_def)
  then have "lClaims ?s @ lArchive ?s = filter (\<lambda>c. \<not> ?old c) (lClaims s) @ lArchive s @ filter ?old (lClaims s)"
    by (auto simp: archive_batch_def Let_def intro!: filter_cong)
  moreover have "mset \<dots> = mset (lClaims s @ lArchive s)" by (simp add: add_ac)
  ultimately have m: "mset (lClaims s @ lArchive s) = mset (lClaims ?s @ lArchive ?s)" by simp
  have "row_at claim_id i (lClaims ?s @ lArchive ?s) = row_at claim_id i (lClaims s @ lArchive s)" for i
    using row_at_perm [OF ok [unfolded claims_ok_def] m] by simp
  moreover have "claims_ok ?s" using ok m unfolding claims_ok_def by (metis mset_map mset_eq_imp_distinct_iff)
  ultimately show ?thesis by (simp add: identity_def find_claim_row_at)
qed

text \<open>The transaction against the claim map: replay, conflict, or the body with the claim recorded.\<close>

lemma with_claim_taken:
  "identity s (rid, k) = Some f \<Longrightarrow> with_claim rid k fp replay body s =
     (if trim_space fp = f then Ok replay else Err ErrUsageBillingRequestConflict, s)"
  by (auto simp: identity_def with_claim_def claimUsageBillingRequest_def same_fingerprint_def find_claim_row_at
    row_at_append Let_def split: option.splits)

lemma with_claim_free:
  assumes "identity s (rid, k) = None"
  shows "with_claim rid k fp replay body s =
     (case body (s\<lparr>lClaims := lClaims s @ [\<lparr>cRequest = rid, cKey = k, cFingerprint = fp, cCreated = lNow s\<rparr>]\<rparr>) of
        (Inl e, _) \<Rightarrow> (Err e, s) | (Inr r, s') \<Rightarrow> (Ok r, s'))"
  using assms by (auto simp: identity_def with_claim_def claimUsageBillingRequest_def find_claim_row_at
    row_at_append Let_def split: option.splits)

lemma with_claim_records:
  assumes "with_claim rid k fp replay body s = (Ok r, s')" "\<And>c. keeps (\<lambda>s. outside s = c) body" "claims_ok s"
  shows "identity s' = (identity s)((rid, k) := Some (trim_space fp)) \<and> claims_ok s'"
proof (cases "identity s (rid, k)")
  case (Some f)
  then show ?thesis using assms(1,3) by (auto simp: with_claim_taken fun_eq_iff split: if_splits)
next
  case None
  let ?s = "s\<lparr>lClaims := lClaims s @ [\<lparr>cRequest = rid, cKey = k, cFingerprint = fp, cCreated = lNow s\<rparr>]\<rparr>"
  from None assms(1) have "body ?s = (Ok r, s')" by (auto simp: with_claim_free split: prod.splits sum.splits)
  then have o: "outside s' = outside ?s" using keepsD [OF assms(2) [of "outside ?s"]] by blast
  have n: "row_at claim_id (rid, k) (lClaims s) = None" "row_at claim_id (rid, k) (lArchive s) = None"
    using None by (auto simp: identity_def find_claim_row_at row_at_append split: option.splits)
  have "identity ?s = (identity s)((rid, k) := Some (trim_space fp))"
    using n by (auto simp: identity_def find_claim_row_at row_at_append row_at_Cons claim_id_def fun_eq_iff split: option.splits)
  moreover have "claims_ok ?s" using n assms(3) by (auto simp: claims_ok_def row_at_None claim_id_def)
  ultimately show ?thesis using identity_outside [OF o] by simp
qed

lemma with_claim_Err: "with_claim rid k fp replay body s = (Err e, s') \<Longrightarrow> s' = s"
  by (auto simp: with_claim_def split: prod.splits sum.splits bool.splits)
section \<open>Financial actions\<close>

datatype ledger_action = Settle UsageApplyCommand | Hold taskAllowanceOperation task_command

datatype outcome = Settled UsageBillingApplyResult | Funded TaskFundsResult

fun applied :: "outcome \<Rightarrow> bool" where
  "applied (Settled r) = Applied r"
| "applied (Funded r) = trApplied r"

fun task_body_of :: "(UsageApplyCommand \<Rightarrow> string) \<Rightarrow> 'x SettlementStore \<Rightarrow> taskAllowanceOperation \<Rightarrow> 'x task_body" where
  "task_body_of uf st taskAllowanceReserve = reserveUsageBillingTaskBilling uf st"
| "task_body_of uf st taskAllowanceCapture = captureUsageBillingTaskBilling st"
| "task_body_of uf st taskAllowanceRelease = releaseUsageBillingTaskBilling st"

fun task_call :: "(UsageApplyCommand \<Rightarrow> string) \<Rightarrow> (task_command \<Rightarrow> string) \<Rightarrow> 'x SettlementStore \<Rightarrow> taskAllowanceOperation
    \<Rightarrow> task_command option \<Rightarrow> ('x, TaskFundsResult \<times> task_command option) ltx" where
  "task_call uf tf st taskAllowanceReserve = Reserve uf tf st"
| "task_call uf tf st taskAllowanceCapture = Capture tf st"
| "task_call uf tf st taskAllowanceRelease = Release tf st"

fun perform :: "(UsageApplyCommand \<Rightarrow> string) \<Rightarrow> (task_command \<Rightarrow> string) \<Rightarrow> 'x SettlementStore \<Rightarrow> ledger_action
    \<Rightarrow> ('x, outcome) ltx" where
  "perform uf tf st (Settle cmd) = tx_then (Apply uf st (Some cmd)) (\<lambda>r. tx_return (Ok (Settled r)))"
| "perform uf tf st (Hold h cmd) = tx_then (task_call uf tf st h (Some cmd)) (\<lambda>r. tx_return (Ok (Funded (fst r))))"

text \<open>The identity an action claims, and its fingerprint; none when it is refused before.\<close>

fun action_id :: "(UsageApplyCommand \<Rightarrow> string) \<Rightarrow> (task_command \<Rightarrow> string) \<Rightarrow> 'x SettlementStore \<Rightarrow> ledger_action
    \<Rightarrow> ((string \<times> int) \<times> string) option" where
  "action_id uf tf st (Settle cmd) =
     (let c = NormalizeCommand uf (stRound st) cmd in
      if RequestID c = [] then None else Some ((RequestID c, APIKeyID c), trim_space (RequestFingerprint c)))"
| "action_id uf tf st (Hold h cmd) =
     (let c = NormalizeTaskCommand tf cmd in
      if taskProjections st (Scope (Task cmd)) = None \<or> TfRequestID c = [] then None
      else Some ((TfRequestID c, tAPIKeyID c), trim_space (TfRequestFingerprint c)))"

lemma task_call_eq: "task_call uf tf st h = applyTaskBalanceHold tf st h (task_body_of uf st h)"
  by (cases h) (simp_all add: Reserve_def Capture_def Release_def)

lemma keeps_outside:
  "keeps (\<lambda>s. outside s = c) (tx_then (lockUsageBillingUser i) (\<lambda>_. applyUsageBillingEffects st cmd res))"
  "keeps (\<lambda>s. outside s = c) (apply_claimed st h (task_body_of uf st h) tc)"
proof -
  have o: "stable (\<lambda>s. outside s = c)" "\<And>s t. outside s = c \<Longrightarrow> outside (s\<lparr>lUsers := t\<rparr>) = c"
    by (simp_all add: stable_def outside_def)
  note b = keeps_bodies [where P = "\<lambda>s. outside s = c", OF o]
  show "keeps (\<lambda>s. outside s = c) (tx_then (lockUsageBillingUser i) (\<lambda>_. applyUsageBillingEffects st cmd res))"
    by (intro keep_intros b)
  show "keeps (\<lambda>s. outside s = c) (apply_claimed st h (task_body_of uf st h) tc)"
    by (rule keeps_claimed [OF o]; (cases h; simp add: b)?)
qed

text \<open>Every action is refused, or a transaction under its claim.\<close>

definition claimed_action :: "(UsageApplyCommand \<Rightarrow> string) \<Rightarrow> (task_command \<Rightarrow> string) \<Rightarrow> 'x SettlementStore \<Rightarrow> ledger_action
    \<Rightarrow> string \<times> int \<Rightarrow> string \<Rightarrow> bool" where
  "claimed_action uf tf st x i f \<longleftrightarrow> (\<exists>fp replay body. trim_space fp = f \<and> \<not> applied replay \<and>
     (\<forall>c. keeps (\<lambda>s. outside s = c) body) \<and> (\<forall>s r t. body s = (Ok r, t) \<longrightarrow> applied r) \<and>
     perform uf tf st x = with_claim (fst i) (snd i) fp replay body)"

lemma with_claim_map:
  "tx_then (with_claim rid k fp replay body) (\<lambda>r. tx_return (Ok (g r))) =
     with_claim rid k fp (g replay) (tx_then body (\<lambda>r. tx_return (Ok (g r))))"
  by (auto simp: tx_then_def with_claim_def fun_eq_iff split: prod.split sum.split bool.split)

lemma tx_then_funded:
  "tx_then (tx_then m (\<lambda>(res, cmd). tx_return (Ok (res, Some cmd)))) (\<lambda>r. tx_return (Ok (Funded (fst r)))) =
    tx_then m (\<lambda>r. tx_return (Ok (Funded (fst r))))"
  by (auto simp: tx_then_def fun_eq_iff split: prod.split sum.split)

lemma replay_not_applied [simp]: "trApplied (taskBillingResultForCommand cmd h) = False"
  by (cases h) (auto simp: reserve_replay_def capture_result_def no_funds_def Let_def split: sum.split)

lemma balance_effect_applied: "balance_effect st cmd x res s = (Ok r, s') \<Longrightarrow> Applied r = Applied res"
  by (auto simp: balance_effect_def tx_then_Ok Let_def split: prod.splits if_splits)

lemma quota_effects_applied: "quota_effects st cmd x res s = (Ok r, s') \<Longrightarrow> Applied r = Applied res"
  unfolding quota_effects_def by (auto simp: tx_then_Ok)

lemma effects_applied:
  "applyUsageBillingEffects st cmd res s = (Ok r, s') \<Longrightarrow> Applied res \<Longrightarrow> Applied r"
  unfolding applyUsageBillingEffects_def Let_def tx_then_Ok
  by (auto dest!: balance_effect_applied quota_effects_applied simp: tx_then_Ok split: if_splits)

lemma apply_claimed_applied: "apply_claimed st h body cmd s = (Ok (r, c), s') \<Longrightarrow> trApplied r"
  by (auto simp: apply_claimed_def tx_then_Ok split: option.splits prod.splits)

lemma action_claimed: "action_id uf tf st x = Some (i, f) \<Longrightarrow> claimed_action uf tf st x i f"
proof (cases x)
  case (Settle cmd)
  assume a: "action_id uf tf st x = Some (i, f)"
  let ?c = "NormalizeCommand uf (stRound st) cmd"
  let ?body = "tx_then (lockUsageBillingUser (ubUserID ?c)) (\<lambda>_. applyUsageBillingEffects st ?c (no_apply\<lparr>Applied := True\<rparr>))"
  from a Settle have id: "i = (RequestID ?c, APIKeyID ?c)" "f = trim_space (RequestFingerprint ?c)" "RequestID ?c \<noteq> []"
    by (auto simp: Let_def split: if_splits)
  have "perform uf tf st x = with_claim (fst i) (snd i) (RequestFingerprint ?c) (Settled no_apply)
      (tx_then ?body (\<lambda>r. tx_return (Ok (Settled r))))"
  proof -
    have "Apply uf st (Some cmd) = with_claim (fst i) (snd i) (RequestFingerprint ?c) no_apply ?body"
      using id by (simp add: Apply_def applyOnce_def Let_def fun_eq_iff)
    then show ?thesis using Settle by (simp add: with_claim_map)
  qed
  moreover have "keeps (\<lambda>s. outside s = c) (tx_then ?body (\<lambda>r. tx_return (Ok (Settled r))))" for c
    by (intro keeps_then keeps_return keeps_outside)
  moreover have "applied r" if "tx_then ?body (\<lambda>r. tx_return (Ok (Settled r))) s = (Ok r, t)" for s r t
    using that effects_applied by (fastforce simp: tx_then_Ok)
  ultimately show ?thesis using id(2) unfolding claimed_action_def
    by (intro exI [of _ "RequestFingerprint ?c"] exI [of _ "Settled no_apply"] exI conjI) (simp_all add: no_apply_def)
next
  case (Hold h cmd)
  assume a: "action_id uf tf st x = Some (i, f)"
  let ?c = "NormalizeTaskCommand tf cmd"
  let ?body = "apply_claimed st h (task_body_of uf st h) ?c" and ?out = "\<lambda>r. tx_return (Ok (Funded (fst r)))"
  from a Hold have id: "i = (TfRequestID ?c, tAPIKeyID ?c)" "f = trim_space (TfRequestFingerprint ?c)" "TfRequestID ?c \<noteq> []"
    "taskProjections st (Scope (Task cmd)) \<noteq> None" by (auto simp: Let_def split: if_splits)
  have "perform uf tf st x = with_claim (fst i) (snd i) (TfRequestFingerprint ?c)
      (Funded (taskBillingResultForCommand ?c h)) (tx_then ?body (\<lambda>r. tx_return (Ok (Funded (fst r)))))"
  proof -
    have "applyTaskBalanceHold tf st h (task_body_of uf st h) (Some cmd) =
        tx_then (applyTaskBalanceHoldOnce st h (task_body_of uf st h) ?c) (\<lambda>(res, cmd). tx_return (Ok (res, Some cmd)))"
      using id by (auto simp: applyTaskBalanceHold_def Let_def fun_eq_iff)
    then show ?thesis using Hold id(1) unfolding applyTaskBalanceHoldOnce_def
      by (simp only: perform.simps task_call_eq tx_then_funded with_claim_map fst_conv snd_conv)
  qed
  moreover have "keeps (\<lambda>s. outside s = c) (tx_then ?body (\<lambda>r. tx_return (Ok (Funded (fst r)))))" for c
    by (intro keeps_then keeps_return keeps_outside)
  moreover have "applied r" if "tx_then ?body (\<lambda>r. tx_return (Ok (Funded (fst r)))) s = (Ok r, t)" for s r t
    using that apply_claimed_applied by (fastforce simp: tx_then_Ok)
  ultimately show ?thesis using id(2) unfolding claimed_action_def
    by (intro exI [of _ "TfRequestFingerprint ?c"] exI [of _ "Funded (taskBillingResultForCommand ?c h)"] exI conjI) simp_all
qed

lemma action_refused: "action_id uf tf st x = None \<Longrightarrow> \<exists>e. perform uf tf st x s = (Err e, s)"
  by (cases x) (auto simp: Let_def Apply_def task_call_eq applyTaskBalanceHold_def tx_then_def split: if_splits)

section \<open>Charging once\<close>

text \<open>
  Other code may change anything but the claims, and the retention job moves
  claims to the archive; no code deletes an archived claim.
\<close>

inductive ledger_step :: "(UsageApplyCommand \<Rightarrow> string) \<Rightarrow> (task_command \<Rightarrow> string) \<Rightarrow> 'x SettlementStore
    \<Rightarrow> 'x ledger \<Rightarrow> 'x ledger \<Rightarrow> bool" for uf tf st where
  act: "perform uf tf st x s = (r, s') \<Longrightarrow> ledger_step uf tf st s s'"
| archive: "ledger_step uf tf st s (archive_batch pick cutoff s)"
| elsewhere: "lClaims s' = lClaims s \<Longrightarrow> lArchive s' = lArchive s \<Longrightarrow> ledger_step uf tf st s s'"

lemma perform_claims:
  assumes "perform uf tf st x s = (r, s')" "claims_ok s"
  shows "claims_ok s' \<and> (\<forall>k f. identity s k = Some f \<longrightarrow> identity s' k = Some f) \<and>
    (\<forall>v i f. r = Ok v \<longrightarrow> action_id uf tf st x = Some (i, f) \<longrightarrow> identity s' i = Some f)"
proof (cases "action_id uf tf st x")
  case None
  then show ?thesis using assms action_refused [OF None, of s] by auto
next
  case (Some p)
  obtain i f where p: "p = (i, f)" by fastforce
  obtain fp replay body where c: "trim_space fp = f" "\<And>c. keeps (\<lambda>s. outside s = c) body"
      "perform uf tf st x = with_claim (fst i) (snd i) fp replay body"
    using action_claimed [OF Some [unfolded p]] unfolding claimed_action_def by blast
  show ?thesis
  proof (cases r)
    case (Inl e)
    then show ?thesis using assms c(3) with_claim_Err by fastforce
  next
    case (Inr v)
    have w: "with_claim (fst i) (snd i) fp replay body s = (Ok v, s')" using assms(1) c(3) Inr by simp
    have e: "identity s' = (identity s)(i := Some f)" "claims_ok s'"
      using with_claim_records [OF w c(2) assms(2)] c(1) by simp_all
    have "identity s i = Some g \<Longrightarrow> g = f" for g
      using w with_claim_taken [of s "fst i" "snd i" g fp replay body] c(1) by (auto split: if_splits)
    then show ?thesis using e Some p by auto
  qed
qed

lemma ledger_step_claims:
  "ledger_step uf tf st s s' \<Longrightarrow> claims_ok s \<Longrightarrow> claims_ok s' \<and> (\<forall>k f. identity s k = Some f \<longrightarrow> identity s' k = Some f)"
proof (induction rule: ledger_step.induct)
  case (act x s r s')
  then show ?case using perform_claims by blast
next
  case (archive s pick cutoff)
  then show ?case using archive_identity by fastforce
next
  case (elsewhere s' s)
  then show ?case by (simp add: claims_ok_def identity_def)
qed

lemma ledger_steps_claims:
  "(ledger_step uf tf st)\<^sup>*\<^sup>* s s' \<Longrightarrow> claims_ok s \<Longrightarrow> claims_ok s' \<and> (\<forall>k f. identity s k = Some f \<longrightarrow> identity s' k = Some f)"
proof (induction rule: rtranclp_induct)
  case (step s' s'')
  then show ?case using ledger_step_claims [of uf tf st s' s''] by blast
qed simp


lemma claim_users:
  assumes "with_claim rid k fp replay body s = (Ok r, s')"
  shows "r = replay \<and> s' = s \<or> (\<exists>cs. body (s\<lparr>lClaims := lClaims s @ cs\<rparr>) = (Ok r, s'))"
proof (cases "identity s (rid, k)")
  case (Some f)
  then show ?thesis using assms by (auto simp: with_claim_taken split: if_splits)
next
  case None
  then show ?thesis using assms by (auto simp: with_claim_free split: prod.splits sum.splits)
qed

lemma lock_users: "lockUsageBillingUser i s = (r, s') \<Longrightarrow> s' = s"
  by (auto simp: lockUsageBillingUser_def split: if_splits)

end
