(* ===== verification/LedgerAccounts.thy ===== *)
theory LedgerAccounts
  imports LedgerClaims
begin

text \<open>
  The contract of the settlement store: users have available and frozen money,
  and every financial action moves it by one transfer, which its answer reports.
  Amounts are the exact decimals of the columns.
\<close>

section \<open>Amounts of eight decimals\<close>

lemma normalized_scaled: "normalizeTaskBalanceAmount v = Fin x \<Longrightarrow> scaled 8 (decimal_text x)"
proof -
  assume n: "normalizeTaskBalanceAmount v = Fin x"
  show ?thesis
  proof (cases "fmul v (Fin 100000000)")
    case (Fin y)
    then have "rnd (of_int (half_away y)) = Fin (of_int (half_away y))" using half_away_f64 is_f64_fmul by metis
    then have "rnd (of_int (half_away y) / 10 ^ 8) = Fin x"
      using n Fin by (simp add: normalizeTaskBalanceAmount_def round_f64_def fdiv_def)
    then show ?thesis by (intro decimal_text_scaled [OF scaled_frac]) simp_all
  qed (use n in \<open>simp_all add: normalizeTaskBalanceAmount_def round_f64_def fdiv_def inf_sign_def\<close>)
qed
section \<open>Accounts\<close>

text \<open>The contract: every user has available and frozen money, moved by four transfers.\<close>

type_synonym accounts = "int \<rightharpoonup> rat \<times> rat"

datatype transfer = Nothing | Charge int rat | Freeze int rat | Spend int rat rat | Return int rat

text \<open>A transfer is possible when the money it takes is there; a charge may overdraw.\<close>

fun possible :: "transfer \<Rightarrow> accounts \<Rightarrow> bool" where
  "possible Nothing m = True"
| "possible (Charge i a) m = (m i \<noteq> None)"
| "possible (Freeze i h) m = (0 \<le> h \<and> (\<exists>b f. m i = Some (b, f) \<and> h \<le> b))"
| "possible (Spend i h a) m = (a \<le> h \<and> (\<exists>b f. m i = Some (b, f) \<and> h \<le> f))"
| "possible (Return i h) m = (0 \<le> h \<and> (\<exists>b f. m i = Some (b, f) \<and> h \<le> f))"

fun shift :: "int \<Rightarrow> rat \<Rightarrow> rat \<Rightarrow> accounts \<Rightarrow> accounts" where
  "shift i x y m = (case m i of None \<Rightarrow> m | Some (b, f) \<Rightarrow> m(i \<mapsto> (b + x, f + y)))"

fun transferred :: "transfer \<Rightarrow> accounts \<Rightarrow> accounts" where
  "transferred Nothing m = m"
| "transferred (Charge i a) m = shift i (- a) 0 m"
| "transferred (Freeze i h) m = shift i (- h) h m"
| "transferred (Spend i h a) m = shift i (h - a) (- h) m"
| "transferred (Return i h) m = shift i h (- h) m"

definition accounts :: "user_row list \<Rightarrow> accounts" where
  "accounts us i = map_option (\<lambda>r. (balance r, frozen_balance r)) (wallet i us)"

definition funds_ok :: "user_row list \<Rightarrow> bool" where
  "funds_ok us \<longleftrightarrow> distinct (map userID us) \<and> (\<forall>r \<in> set us. to_column (balance r) = Some (balance r) \<and>
     to_column (frozen_balance r) = Some (frozen_balance r))"

lemma accounts_put:
  "wallet i us = Some r \<Longrightarrow> userID r' = i \<Longrightarrow>
    accounts (put i r' us) = (accounts us)(i \<mapsto> (balance r', frozen_balance r'))"
  by (auto simp: accounts_def fun_eq_iff)

lemma guarded_update:
  assumes "sql_update (\<lambda>r. live i r \<and> g r) f us = (Ok ms, us')" "distinct (map userID us)"
  shows "ms = [] \<and> us' = us \<or> (\<exists>r r'. ms = [(r, r')] \<and> wallet i us = Some r \<and> live i r \<and> g r \<and> f r = Some r' \<and> us' = put i r' us)"
proof (cases "\<exists>x \<in> set us. live i x \<and> g x")
  case False
  then show ?thesis using sql_update_none [of us "\<lambda>r. live i r \<and> g r" f] assms(1) by auto
next
  case True
  then obtain r where r: "r \<in> set us" "live i r" "g r" by blast
  then have w: "wallet i us = Some r" using row_at_unique [OF assms(2)] by (simp add: live_def)
  have "sql_update (\<lambda>r. live i r \<and> g r) f us = (case f r of None \<Rightarrow> (Err (Plain ''numeric field overflow''), us)
      | Some r' \<Rightarrow> (Ok [(r, r')], put i r' us))"
    using r w by (intro sql_update_one [OF assms(2)]) (auto simp: live_def)
  then show ?thesis using assms(1) r w by (auto split: option.splits)
qed

lemma moved_row:
  assumes "funds_ok us" "wallet i us = Some r" "scaled 8 x" "scaled 8 y"
    "to_column (balance r + x) = Some b" "to_column (frozen_balance r + y) = Some f"
  defines "us' \<equiv> put i (r\<lparr>balance := b, frozen_balance := f\<rparr>) us"
  shows "accounts us' = shift i x y (accounts us)" "funds_ok us'"
    "b = balance r + x" "f = frozen_balance r + y"
proof -
  have r: "r \<in> set us" "userID r = i" using wallet_SomeD [OF assms(2)] by simp_all
  then have s: "scaled 8 (balance r)" "scaled 8 (frozen_balance r)"
    using assms(1) numeric_bound [of 8] by (auto simp: funds_ok_def)
  then show b: "b = balance r + x" "f = frozen_balance r + y"
    using numeric_exact [OF scaled_add] assms(3-6) by blast+
  show "accounts us' = shift i x y (accounts us)"
    using assms(2) r(2) by (auto simp: us'_def accounts_put b) (simp add: accounts_def)
  show "funds_ok us'"
  proof -
    have "to_column b = Some b" "to_column f = Some f" using assms(5,6) numeric_again by blast+
    then show ?thesis using assms(1) r(2) by (auto simp: us'_def funds_ok_def dest!: put_row_set)
  qed
qed

lemma move_funds_Ok:
  assumes "move_funds i g x y e s = (Ok res, s')" "funds_ok (lUsers s)" "scaled 8 x" "scaled 8 y"
  shows "accounts (lUsers s') = shift i x y (accounts (lUsers s)) \<and> funds_ok (lUsers s') \<and>
    (\<exists>r. wallet i (lUsers s) = Some r \<and> g r)"
proof -
  from assms(1) obtain ms s1 where u: "on_users (sql_update (\<lambda>r. live i r \<and> g r)
       (\<lambda>r. case (to_column (balance r + x), to_column (frozen_balance r + y)) of
          (Some b, Some f) \<Rightarrow> Some (r\<lparr>balance := b, frozen_balance := f\<rparr>) | _ \<Rightarrow> None)) s = (Ok ms, s1)"
    and ms: "ms \<noteq> []" "s' = s1"
    unfolding move_funds_def tx_then_Ok by (fastforce split: list.splits if_splits)
  let ?f = "\<lambda>r. case (to_column (balance r + x), to_column (frozen_balance r + y)) of
          (Some b, Some f) \<Rightarrow> Some (r\<lparr>balance := b, frozen_balance := f\<rparr>) | _ \<Rightarrow> None"
  from u have q: "sql_update (\<lambda>r. live i r \<and> g r) ?f (lUsers s) = (Ok ms, lUsers s1)"
    by (auto simp: on_users_def split: prod.splits)
  have d: "distinct (map userID (lUsers s))" using assms(2) by (simp add: funds_ok_def)
  from guarded_update [OF q d] ms(1) obtain r r' where r: "wallet i (lUsers s) = Some r" "g r" "?f r = Some r'"
      "lUsers s1 = put i r' (lUsers s)" by blast
  from r(3) obtain b f where bf: "to_column (balance r + x) = Some b" "to_column (frozen_balance r + y) = Some f"
      "r' = r\<lparr>balance := b, frozen_balance := f\<rparr>" by (auto split: option.splits)
  from moved_row(1,2) [OF assms(2) r(1) assms(3,4) bf(1,2)] r bf(3) ms(2) show ?thesis by auto
qed

text \<open>What one action may do to the accounts, and what its answer says of it.\<close>

definition refines :: "user_row list \<Rightarrow> transfer \<Rightarrow> user_row list \<Rightarrow> bool" where
  "refines us t us' \<longleftrightarrow> possible t (accounts us) \<and> accounts us' = transferred t (accounts us) \<and> funds_ok us'"

lemma refines_Nothing: "funds_ok us \<Longrightarrow> refines us Nothing us"
  by (simp add: refines_def)

lemma normalize_mono: "fle a b \<Longrightarrow> fle (normalizeTaskBalanceAmount a) (normalizeTaskBalanceAmount b)"
proof -
  have m: "fle (fmul a (Fin 100000000)) (fmul b (Fin 100000000))" if "fle a b"
    using that by (cases a; cases b) (auto simp: fmul_def inf_sign_def intro!: rnd_mono)
  have r: "fle (round_f64 a) (round_f64 b)" if "fle a b" for a b
    using that by (cases a; cases b) (auto simp: round_f64_def intro!: rnd_mono half_away_mono)
  have d: "fle (fdiv a (Fin 100000000)) (fdiv b (Fin 100000000))" if "fle a b" for a b
    using that by (cases a; cases b) (auto simp: fdiv_def inf_sign_def intro!: rnd_mono divide_right_mono)
  show "fle a b \<Longrightarrow> fle (normalizeTaskBalanceAmount a) (normalizeTaskBalanceAmount b)"
    using m r d unfolding normalizeTaskBalanceAmount_def by blast
qed

lemma normalize_NaN [simp]: "normalizeTaskBalanceAmount NaN = NaN"
  by (simp add: normalizeTaskBalanceAmount_def round_f64_def fmul_def fdiv_def)

lemma normalize_0 [simp]: "normalizeTaskBalanceAmount f0 = f0"
  by (simp add: normalizeTaskBalanceAmount_def round_f64_def fmul_def fdiv_def half_away_int [of 0, simplified])

lemma normalize_f64 [simp]: "is_f64 (normalizeTaskBalanceAmount v)"
  by (simp add: normalizeTaskBalanceAmount_def)

lemma normalized_text: "normalizeTaskBalanceAmount v = Fin x \<Longrightarrow> normalizeTaskBalanceAmount v = rnd (decimal_text x)"
  using normalize_f64 [of v] rnd_text by (simp add: is_f64_def)

lemma freeze_refines:
  assumes "reserveUsageBillingTaskBalance i (normalizeTaskBalanceAmount v) s = (Ok res, s')" "funds_ok (lUsers s)"
  shows "(fle (normalizeTaskBalanceAmount v) f0 \<and> s' = s) \<or>
    (\<exists>a. normalizeTaskBalanceAmount v = rnd a \<and> refines (lUsers s) (Freeze i a) (lUsers s'))"
proof (cases "fle (normalizeTaskBalanceAmount v) f0")
  case True
  then show ?thesis using assms(1) by (simp add: reserveUsageBillingTaskBalance_def)
next
  case False
  then obtain x where x: "normalizeTaskBalanceAmount v = Fin x"
    "move_funds i (\<lambda>r. decimal_text x \<le> balance r) (- decimal_text x) (decimal_text x) ErrTaskInsufficientBalance s = (Ok res, s')"
    using assms(1) by (auto simp: reserveUsageBillingTaskBalance_def dest!: amount_arg_Ok)
  have sc: "scaled 8 (decimal_text x)" by (rule normalized_scaled [OF x(1)])
  have "0 \<le> x" using False x(1) by simp
  then have "0 \<le> decimal_text x" by (rule decimal_text_nonneg)
  then have "refines (lUsers s) (Freeze i (decimal_text x)) (lUsers s')"
    using move_funds_Ok [OF x(2) assms(2) scaled_uminus [OF sc] sc] by (auto simp: refines_def accounts_def)
  then show ?thesis using normalized_text [OF x(1)] by blast
qed

lemma return_refines:
  assumes "releaseUsageBillingTaskFrozenBalance i v s = (Ok res, s')" "funds_ok (lUsers s)"
  shows "(fle (normalizeTaskBalanceAmount v) f0 \<and> s' = s) \<or>
    (\<exists>a. normalizeTaskBalanceAmount v = rnd a \<and> refines (lUsers s) (Return i a) (lUsers s'))"
proof (cases "fle (normalizeTaskBalanceAmount v) f0")
  case True
  then show ?thesis using assms(1) by (simp add: releaseUsageBillingTaskFrozenBalance_def Let_def)
next
  case False
  then obtain x where x: "normalizeTaskBalanceAmount v = Fin x"
    "move_funds i (\<lambda>r. decimal_text x \<le> frozen_balance r) (decimal_text x) (- decimal_text x) ErrFrozenInsufficient s = (Ok res, s')"
    using assms(1) by (auto simp: releaseUsageBillingTaskFrozenBalance_def Let_def dest!: amount_arg_Ok)
  have sc: "scaled 8 (decimal_text x)" by (rule normalized_scaled [OF x(1)])
  have "0 \<le> x" using False x(1) by simp
  then have "0 \<le> decimal_text x" by (rule decimal_text_nonneg)
  then have "refines (lUsers s) (Return i (decimal_text x)) (lUsers s')"
    using move_funds_Ok [OF x(2) assms(2) sc scaled_uminus [OF sc]] by (auto simp: refines_def accounts_def)
  then show ?thesis using normalized_text [OF x(1)] by blast
qed

lemma spend_refines:
  assumes "captureUsageBillingTaskBalance i h a s = (Ok res, s')" "funds_ok (lUsers s)" "a = NaN \<or> h = NaN \<or> fle a h"
  shows "(fle (normalizeTaskBalanceAmount h) f0 \<and> fle (normalizeTaskBalanceAmount a) f0 \<and> s' = s) \<or>
    (\<exists>x y. normalizeTaskBalanceAmount h = rnd x \<and> normalizeTaskBalanceAmount a = rnd y \<and>
       refines (lUsers s) (Spend i x y) (lUsers s'))"
proof -
  let ?h = "normalizeTaskBalanceAmount h" and ?a = "normalizeTaskBalanceAmount a"
  show ?thesis
  proof (cases "fle ?h f0 \<and> fle ?a f0")
    case True
    then show ?thesis using assms(1) by (simp add: captureUsageBillingTaskBalance_def)
  next
    case False
    then obtain x y where x: "?h = Fin x" "?a = Fin y" and
      m: "move_funds i (\<lambda>r. decimal_text x \<le> frozen_balance r)
        ((if decimal_text y < decimal_text x then decimal_text x - decimal_text y else 0) -
         (if decimal_text x < decimal_text y then decimal_text y - decimal_text x else 0)) (- decimal_text x)
        ErrFrozenInsufficient s = (Ok res, s')"
      using assms(1) by (auto simp: captureUsageBillingTaskBalance_def Let_def split: if_splits dest!: amount_arg_Ok)
    have sc: "scaled 8 (decimal_text x)" "scaled 8 (decimal_text y)"
      using x normalized_scaled by blast+
    have "a \<noteq> NaN" "h \<noteq> NaN" using x by auto
    then have o: "fle ?a ?h" using normalize_mono assms(3) by blast
    have "rnd x = Fin x" "rnd y = Fin y" using normalize_f64 [of h] normalize_f64 [of a] x by (simp_all add: is_f64_def)
    then have le: "decimal_text y \<le> decimal_text x" using o x decimal_text_le [of y x] by simp
    then have d: "(if decimal_text y < decimal_text x then decimal_text x - decimal_text y else 0) -
         (if decimal_text x < decimal_text y then decimal_text y - decimal_text x else 0) = decimal_text x - decimal_text y"
      by auto
    have "refines (lUsers s) (Spend i (decimal_text x) (decimal_text y)) (lUsers s')"
      using move_funds_Ok [OF m [unfolded d] assms(2) scaled_diff [OF sc] scaled_uminus [OF sc(1)]] le
      by (auto simp: refines_def accounts_def)
    then show ?thesis using normalized_text [OF x(1)] normalized_text [OF x(2)] by blast
  qed
qed

text \<open>The decimal package rounds to eight places: its result is the nearest float of such a decimal.\<close>

definition eight_places :: "(f64 \<Rightarrow> f64) \<Rightarrow> bool" where
  "eight_places q \<longleftrightarrow> (\<forall>v x. q v = Fin x \<longrightarrow> (\<exists>c. scaled 8 c \<and> rnd c = Fin x))"

lemma quantized_scaled: "eight_places q \<Longrightarrow> QuantizeUsageBillingAmount q v = Fin x \<Longrightarrow> scaled 8 (decimal_text x)"
proof -
  assume q: "eight_places q" "QuantizeUsageBillingAmount q v = Fin x"
  then have "\<exists>c. scaled 8 c \<and> rnd c = Fin x"
  proof (cases "v = f0")
    case True
    then show ?thesis using q(2) by (intro exI [of _ 0]) (simp add: QuantizeUsageBillingAmount_def)
  qed (auto simp: QuantizeUsageBillingAmount_def eight_places_def is_inf_def split: if_splits)
  then show ?thesis using decimal_text_scaled [of 8] by auto
qed

lemma charge_refines:
  assumes "deductUsageBillingBalance st i amount s = (Ok (b, d), s')" "funds_ok (lUsers s)" "eight_places (stRound st)"
  shows "\<exists>a. d = rnd a \<and> refines (lUsers s) (Charge i a) (lUsers s')"
proof -
  from assms(1) obtain x where x: "QuantizeUsageBillingAmount (stRound st) amount = Fin x" and
    t: "tx_then (on_users (sql_update (live i) (\<lambda>r. map_option (\<lambda>b. r\<lparr>balance := b\<rparr>) (to_column (balance r - decimal_text x)))))
       (\<lambda>ms. tx_return (case ms of [] \<Rightarrow> Err ErrUserNotFound | m # _ \<Rightarrow> Ok (rnd (balance (snd m)), rnd (decimal_text x)))) s = (Ok (b, d), s')"
    unfolding deductUsageBillingBalance_def by (blast dest: amount_arg_Ok)
  let ?a = "decimal_text x"
  let ?f = "\<lambda>r. map_option (\<lambda>b. r\<lparr>balance := b\<rparr>) (to_column (balance r - ?a))"
  from t obtain ms where ms: "on_users (sql_update (live i) ?f) s = (Ok ms, s')" "ms \<noteq> []" "d = rnd ?a"
  proof -
    obtain ms s1 where "on_users (sql_update (live i) ?f) s = (Ok ms, s1)"
      "(case ms of [] \<Rightarrow> Err ErrUserNotFound | m # _ \<Rightarrow> Ok (rnd (balance (snd m)), rnd ?a)) = Ok (b, d)" "s1 = s'"
      using t unfolding tx_then_Ok by auto
    then show thesis using that [of ms] by (cases ms) auto
  qed
  then have q: "sql_update (\<lambda>r. live i r \<and> True) ?f (lUsers s) = (Ok ms, lUsers s')"
    by (auto simp: on_users_def split: prod.splits)
  have "distinct (map userID (lUsers s))" using assms(2) by (simp add: funds_ok_def)
  from guarded_update [OF q this] ms(2) obtain r c where r: "wallet i (lUsers s) = Some r" "to_column (balance r - ?a) = Some c"
      "lUsers s' = put i (r\<lparr>balance := c\<rparr>) (lUsers s)" by auto
  have "to_column (frozen_balance r + 0) = Some (frozen_balance r)"
    using assms(2) wallet_SomeD [OF r(1)] by (simp add: funds_ok_def)
  moreover have "scaled 8 (- ?a)" by (intro scaled_uminus quantized_scaled [OF assms(3) x])
  ultimately show ?thesis using moved_row [OF assms(2) r(1), of "- ?a" 0 c "frozen_balance r"] r ms(3)
    by (auto simp: refines_def accounts_def intro!: exI [of _ ?a])
qed
lemma keeps_same_users: "stable (\<lambda>s. lUsers s = us)"
  by (simp add: stable_def)

lemmas same_users = keeps_part [where h = lUsers]

lemma balance_effect_refines:
  assumes "balance_effect st cmd x res s = (Ok r, s')" "arBalanceAmountUSD res = f0" "funds_ok (lUsers s)" "eight_places (stRound st)"
  shows "\<exists>t. refines (lUsers s) t (lUsers s') \<and> (t = Nothing \<and> arBalanceAmountUSD r = f0 \<or>
    (\<exists>a. t = Charge (ubUserID cmd) a \<and> arBalanceAmountUSD r = rnd a))"
proof (cases "flt f0 x")
  case True
  then obtain b d where d: "deductUsageBillingBalance st (ubUserID cmd) x s = (Ok (b, d), s')" "arBalanceAmountUSD r = d"
    using assms(1) by (auto simp: balance_effect_def tx_then_Ok Let_def split: if_splits)
  then show ?thesis using charge_refines [OF d(1) assms(3,4)] by auto
next
  case False
  then show ?thesis using assms refines_Nothing by (auto simp: balance_effect_def)
qed

lemma quota_effects_balance: "quota_effects st cmd x res s = (Ok r, s') \<Longrightarrow> arBalanceAmountUSD r = arBalanceAmountUSD res"
  unfolding quota_effects_def by (auto simp: tx_then_Ok)

lemma effects_refine:
  assumes "applyUsageBillingEffects st cmd res s = (Ok r, s')" "arBalanceAmountUSD res = f0" "funds_ok (lUsers s)"
    "eight_places (stRound st)"
  shows "\<exists>t. refines (lUsers s) t (lUsers s') \<and> (t = Nothing \<and> arBalanceAmountUSD r = f0 \<or>
    (\<exists>a. t = Charge (ubUserID cmd) a \<and> arBalanceAmountUSD r = rnd a))"
proof -
  note su = keeps_same_users stableD [OF keeps_same_users] keeps_quota [OF keeps_same_users]
  from assms(1) obtain rem sub als s1 x res1 s2 res2 s3 where
    a: "allocateUsageBillingSubscriptions st cmd s = (Ok (rem, sub, als), s1)" and
    b: "balance_effect st cmd x (res\<lparr>arBillingAllocations := als, arSubscriptionAmountUSD := sub\<rparr>) s1 = (Ok res1, s2)" and
    m: "(case team_actor (TeamID cmd) (ActorUserID cmd) (ubUserID cmd) of
         None \<Rightarrow> tx_return (Ok ())
       | Some team \<Rightarrow> incrementUsageBillingTeamMember st team (ActorUserID cmd)
           (fadd (arSubscriptionAmountUSD res1) (arBalanceAmountUSD res1))) s2 = (Ok (), s3)" and
    q: "quota_effects st cmd (fadd (arSubscriptionAmountUSD res1) (arBalanceAmountUSD res1)) res2 s3 = (Ok r, s')"
      "arBalanceAmountUSD res2 = arBalanceAmountUSD res1"
    unfolding applyUsageBillingEffects_def Let_def tx_then_Ok by (auto simp: tx_then_Ok split: if_splits)
  have "lUsers s1 = lUsers s" using a by (rule same_users [rotated]) (intro keep_intros su)
  moreover have "lUsers s3 = lUsers s2" using m by (rule same_users [rotated]) (intro keep_intros su)
  moreover have "keeps (\<lambda>s. lUsers s = us) (quota_effects st cmd y res2)" for us y
    unfolding quota_effects_def Let_def by (intro keep_intros su)
  then have "lUsers s' = lUsers s3" using q(1) by (rule same_users)
  moreover have "arBalanceAmountUSD r = arBalanceAmountUSD res1" using quota_effects_balance [OF q(1)] q(2) by simp
  moreover have "arBalanceAmountUSD (res\<lparr>arBillingAllocations := als, arSubscriptionAmountUSD := sub\<rparr>) = f0"
    using assms(2) by simp
  ultimately show ?thesis using balance_effect_refines [OF b] assms(3,4) by simp
qed

lemma plan_within_hold:
  "PlanTaskCapture (Some c) = Ok plan \<Longrightarrow> BalanceAmountUSD plan = NaN \<or> TpBalanceHoldAmount plan = NaN \<or> fle (BalanceAmountUSD plan) (TpBalanceHoldAmount plan)"
proof -
  assume p: "PlanTaskCapture (Some c) = Ok plan"
  have m: "fmin a b = NaN \<or> b = NaN \<or> fle (fmin a b) b" for a b
    using fmin_le [of a b] by (cases "a = NaN") (auto simp: fmin_def)
  have "\<exists>a. BalanceAmountUSD plan = fmin a (TpBalanceHoldAmount plan)"
    using p by (auto simp: PlanTaskCapture_def planTaskBaseAmountCapture_def Let_def split: if_splits prod.splits)
  then show ?thesis using m by metis
qed

lemma plan_hold: "PlanTaskCapture (Some c) = Ok plan \<Longrightarrow> TpBalanceHoldAmount plan = EffectiveTaskBalanceHoldAmount (Some c)"
  by (auto simp: PlanTaskCapture_def planTaskBaseAmountCapture_def Let_def split: if_splits prod.splits
      dest!: base_capture_loop_captured)

text \<open>
  The answer of an action names the amount its transfer moved; a capture also ends
  the whole hold of the command, and a release gives it back.
\<close>

fun reports :: "ledger_action \<Rightarrow> (perror, outcome) result \<Rightarrow> transfer \<Rightarrow> bool" where
  "reports (Settle c) (Inr (Settled r)) (Charge i a) = (Applied r \<and> i = ubUserID c \<and> arBalanceAmountUSD r = rnd a)"
| "reports (Settle c) (Inr (Settled r)) Nothing = (arBalanceAmountUSD r = f0)"
| "reports (Hold taskAllowanceReserve c) (Inr (Funded r)) (Freeze i h) =
     (trApplied r \<and> i = tUserID c \<and> trBalanceAmountUSD r = rnd h)"
| "reports (Hold taskAllowanceCapture c) (Inr (Funded r)) (Spend i h a) =
     (trApplied r \<and> i = tUserID c \<and> normalizeTaskBalanceAmount (trBalanceAmountUSD r) = rnd a \<and>
      normalizeTaskBalanceAmount (EffectiveTaskBalanceHoldAmount (Some c)) = rnd h)"
| "reports (Hold taskAllowanceCapture c) (Inr (Funded r)) Nothing =
     (trApplied r \<longrightarrow> fle (normalizeTaskBalanceAmount (trBalanceAmountUSD r)) f0 \<and>
      fle (normalizeTaskBalanceAmount (EffectiveTaskBalanceHoldAmount (Some c))) f0)"
| "reports (Hold taskAllowanceRelease c) (Inr (Funded r)) (Return i h) =
     (trApplied r \<and> i = tUserID c \<and> normalizeTaskBalanceAmount (EffectiveTaskBalanceHoldAmount (Some c)) = rnd h)"
| "reports (Hold taskAllowanceRelease c) (Inr (Funded r)) Nothing = True"
| "reports (Hold k c) (Inr (Funded r)) Nothing = (trApplied r \<longrightarrow> fle (normalizeTaskBalanceAmount (trBalanceAmountUSD r)) f0)"
| "reports x (Inl e) t = (t = Nothing)"
| "reports x r t = False"

text \<open>A release that finds its reservation's claim has the hold to give back.\<close>

fun release_due :: "ledger_action \<Rightarrow> 'x ledger \<Rightarrow> bool" where
  "release_due (Hold taskAllowanceRelease c) s =
     (taskHoldClaimExists (ReserveRequestID (Task c)) (tAPIKeyID c) s \<and>
      \<not> fle (normalizeTaskBalanceAmount (EffectiveTaskBalanceHoldAmount (Some c))) f0)"
| "release_due x s = False"

lemma normalized_command [simp]: "ubUserID (NormalizeCommand uf q c) = ubUserID c"
  by (simp add: NormalizeCommand_def Let_def split: prod.split)

lemma normalized_task [simp]:
  "tUserID (NormalizeTaskCommand tf c) = tUserID c"
  "EffectiveTaskBalanceHoldAmount (Some (NormalizeTaskCommand tf c)) = EffectiveTaskBalanceHoldAmount (Some c)"
  "tAPIKeyID (NormalizeTaskCommand tf c) = tAPIKeyID c"
  "ReserveRequestID (Task (NormalizeTaskCommand tf c)) = ReserveRequestID (Task c)"
  by (simp_all add: NormalizeTaskCommand_def EffectiveTaskBalanceHoldAmount_def Let_def split: prod.split)

lemma settle_refines:
  assumes "Apply uf st (Some c) s = (Ok r, s')" "funds_ok (lUsers s)" "eight_places (stRound st)"
  shows "\<exists>t. refines (lUsers s) t (lUsers s') \<and> reports (Settle c) (Ok (Settled r)) t"
proof -
  let ?c = "NormalizeCommand uf (stRound st) c"
  from assms(1) have a: "applyOnce st ?c s = (Ok r, s')" by (auto simp: Apply_def Let_def split: if_splits)
  from claim_users [OF a [unfolded applyOnce_def]] show ?thesis
  proof (elim disjE exE conjE)
    assume "r = no_apply" "s' = s"
    then show ?thesis using refines_Nothing [OF assms(2)] by (auto intro!: exI [of _ Nothing] simp: no_apply_def)
  next
    fix cs
    let ?s = "s\<lparr>lClaims := lClaims s @ cs\<rparr>"
    assume b: "tx_then (lockUsageBillingUser (ubUserID ?c))
      (\<lambda>_. applyUsageBillingEffects st ?c (no_apply\<lparr>Applied := True\<rparr>)) ?s = (Ok r, s')"
    then have e: "applyUsageBillingEffects st ?c (no_apply\<lparr>Applied := True\<rparr>) ?s = (Ok r, s')"
      by (auto simp: tx_then_Ok dest: lock_users)
    have "arBalanceAmountUSD (no_apply\<lparr>Applied := True\<rparr>) = f0" by (simp add: no_apply_def)
    from effects_refine [OF e this _ assms(3)] assms(2) effects_applied [OF e] show ?thesis by auto
  qed
qed
lemma reserve_body_refines:
  assumes "reserveUsageBillingTaskBilling uf st c projection s = (Ok (r, c'), s')" "funds_ok (lUsers s)"
  shows "\<exists>t. refines (lUsers s) t (lUsers s') \<and> reports (Hold taskAllowanceReserve c) (Ok (Funded (r\<lparr>trApplied := True\<rparr>))) t"
proof (cases "no_basis c")
  case True
  then have "r = no_funds" "s' = s" using assms(1) by (simp_all add: reserveUsageBillingTaskBilling_def)
  then show ?thesis using refines_Nothing [OF assms(2)] by (auto intro!: exI [of _ Nothing] simp: no_funds_def)
next
  case False
  note su = keeps_same_users stableD [OF keeps_same_users]
  from False assms(1) obtain ac rem sub als s1 v b s2 e where
    a: "allocateUsageBillingSubscriptions st ac s = (Ok (rem, sub, als), s1)" and
    b: "reserveUsageBillingTaskBalance (tUserID c) (normalizeTaskBalanceAmount v) s1 = (Ok b, s2)" and
    w: "on_world (SaveReservation projection (normalizeTaskBalanceAmount v) als (fadd sub (normalizeTaskBalanceAmount v)) e) s2 = (Ok (), s')" and
    r: "r = reservation_result c b sub (normalizeTaskBalanceAmount v) rem als e"
    unfolding reserveUsageBillingTaskBilling_def Let_def
    by (auto simp: tx_then_Ok tx_check_def split: if_splits)
  have "lUsers s1 = lUsers s" using a by (rule same_users [rotated]) (intro keep_intros su)
  moreover have "lUsers s' = lUsers s2" using w by (rule same_users [rotated]) (intro keep_intros su)
  ultimately have "fle (normalizeTaskBalanceAmount v) f0 \<and> lUsers s' = lUsers s \<or>
      (\<exists>a. normalizeTaskBalanceAmount v = rnd a \<and> refines (lUsers s) (Freeze (tUserID c) a) (lUsers s'))"
    using freeze_refines [OF b] assms(2) by auto
  then show ?thesis
  proof (elim disjE exE conjE)
    assume "fle (normalizeTaskBalanceAmount v) f0" "lUsers s' = lUsers s"
    then show ?thesis using refines_Nothing [OF assms(2)] r normalize_mono [of "normalizeTaskBalanceAmount v" f0]
      by (intro exI [of _ Nothing]) (simp add: reservation_result_def)
  next
    fix a assume "normalizeTaskBalanceAmount v = rnd a" "refines (lUsers s) (Freeze (tUserID c) a) (lUsers s')"
    then show ?thesis using r by (intro exI [of _ "Freeze (tUserID c) a"]) (simp add: reservation_result_def)
  qed
qed

lemma capture_body_refines:
  assumes "captureUsageBillingTaskBilling st c projection s = (Ok (r, c'), s')" "funds_ok (lUsers s)"
  shows "\<exists>t. refines (lUsers s) t (lUsers s') \<and> reports (Hold taskAllowanceCapture c) (Ok (Funded (r\<lparr>trApplied := True\<rparr>))) t"
proof -
  let ?h = "EffectiveTaskBalanceHoldAmount (Some c)"
  note su = keeps_same_users stableD [OF keeps_same_users]
  from assms(1) obtain plan s1 b where p: "PlanTaskCapture (Some c) = Ok plan" and
    a: "releaseTaskSubscriptionAllocations st (c\<lparr>ActualAmount := ActualAmountUSD plan\<rparr>) (SubscriptionReleases plan) s = (Ok (), s1)" and
    b: "captureUsageBillingTaskBalance (tUserID c) (TpBalanceHoldAmount plan) (BalanceAmountUSD plan) s1 = (Ok b, s')" and
    r: "r = capture_result (c\<lparr>ActualAmount := ActualAmountUSD plan\<rparr>) b plan"
    unfolding captureUsageBillingTaskBilling_def Let_def by (auto simp: tx_then_Ok split: if_splits sum.splits)
  have "lUsers s1 = lUsers s" using a by (rule same_users [rotated]) (intro keep_intros su)
  then have "fle (normalizeTaskBalanceAmount ?h) f0 \<and> fle (normalizeTaskBalanceAmount (BalanceAmountUSD plan)) f0 \<and> lUsers s' = lUsers s \<or>
      (\<exists>x y. normalizeTaskBalanceAmount ?h = rnd x \<and> normalizeTaskBalanceAmount (BalanceAmountUSD plan) = rnd y \<and>
        refines (lUsers s) (Spend (tUserID c) x y) (lUsers s'))"
    using spend_refines [OF b _ plan_within_hold [OF p]] assms(2) plan_hold [OF p] by auto
  then show ?thesis
  proof (elim disjE exE conjE)
    assume "fle (normalizeTaskBalanceAmount ?h) f0" "fle (normalizeTaskBalanceAmount (BalanceAmountUSD plan)) f0" "lUsers s' = lUsers s"
    then show ?thesis using refines_Nothing [OF assms(2)] r by (intro exI [of _ Nothing]) (simp add: capture_result_def)
  next
    fix x y assume "normalizeTaskBalanceAmount ?h = rnd x" "normalizeTaskBalanceAmount (BalanceAmountUSD plan) = rnd y"
      "refines (lUsers s) (Spend (tUserID c) x y) (lUsers s')"
    then show ?thesis using r by (intro exI [of _ "Spend (tUserID c) x y"]) (simp add: capture_result_def)
  qed
qed

lemma release_body_refines:
  assumes "releaseUsageBillingTaskBilling st c projection s = (Ok (r, c'), s')" "funds_ok (lUsers s)"
  shows "\<exists>t. refines (lUsers s) t (lUsers s') \<and> reports (Hold taskAllowanceRelease c) (Ok (Funded (r\<lparr>trApplied := True\<rparr>))) t \<and>
    (release_due (Hold taskAllowanceRelease c) s \<longrightarrow> t \<noteq> Nothing)"
proof (cases "taskHoldClaimExists (ReserveRequestID (Task c)) (tAPIKeyID c) s")
  case False
  then show ?thesis using assms refines_Nothing by (auto simp: releaseUsageBillingTaskBilling_def intro!: exI [of _ Nothing])
next
  case True
  note su = keeps_same_users stableD [OF keeps_same_users]
  let ?h = "normalizeTaskBalanceAmount (EffectiveTaskBalanceHoldAmount (Some c))"
  from True assms(1) obtain s1 where
    a: "releaseTaskSubscriptionAllocations st c (SubscriptionHoldAllocations c) s = (Ok (), s1)" and
    b: "releaseUsageBillingTaskFrozenBalance (tUserID c) (EffectiveTaskBalanceHoldAmount (Some c)) s1 = (Ok r, s')"
    unfolding releaseUsageBillingTaskBilling_def by (auto simp: tx_then_Ok split: if_splits)
  have "lUsers s1 = lUsers s" using a by (rule same_users [rotated]) (intro keep_intros su)
  then have "fle ?h f0 \<and> lUsers s' = lUsers s \<or> (\<exists>a. ?h = rnd a \<and> refines (lUsers s) (Return (tUserID c) a) (lUsers s'))"
    using return_refines [OF b] assms(2) by auto
  then show ?thesis
  proof (elim disjE exE conjE)
    assume "fle ?h f0" "lUsers s' = lUsers s"
    then show ?thesis using refines_Nothing [OF assms(2)] by (intro exI [of _ Nothing]) simp
  next
    fix a assume "?h = rnd a" "refines (lUsers s) (Return (tUserID c) a) (lUsers s')"
    then show ?thesis by (intro exI [of _ "Return (tUserID c) a"]) simp
  qed
qed

lemma body_refines:
  assumes "task_body_of uf st h c projection s = (Ok (r, c'), s')" "funds_ok (lUsers s)"
  shows "\<exists>t. refines (lUsers s) t (lUsers s') \<and> reports (Hold h c) (Ok (Funded (r\<lparr>trApplied := True\<rparr>))) t \<and>
    (release_due (Hold h c) s \<longrightarrow> t \<noteq> Nothing)"
  using assms reserve_body_refines capture_body_refines release_body_refines by (cases h) fastforce+

lemma due_normalized: "release_due (Hold h (NormalizeTaskCommand tf c)) s = release_due (Hold h c) s"
  by (cases h) simp_all

lemma due_claimed:
  "release_due (Hold h c) s \<Longrightarrow> release_due (Hold h c) (s\<lparr>lClaims := lClaims s @ cs\<rparr>)"
  by (cases h) (auto simp: taskHoldClaimExists_def find_claim_def find_None_iff)

lemma reports_normalized: "reports (Hold h (NormalizeTaskCommand tf c)) v t = reports (Hold h c) v t"
  by (cases h; cases v; cases "projr v"; cases t) simp_all

lemma hold_refines:
  assumes "task_call uf tf st h (Some c) s = (Ok (r, c'), s')" "funds_ok (lUsers s)"
  shows "\<exists>t. refines (lUsers s) t (lUsers s') \<and> reports (Hold h c) (Ok (Funded r)) t \<and>
    (release_due (Hold h c) s \<and> trApplied r \<longrightarrow> t \<noteq> Nothing)"
proof -
  let ?c = "NormalizeTaskCommand tf c"
  from assms(1) obtain c1 where a: "applyTaskBalanceHoldOnce st h (task_body_of uf st h) ?c s = (Ok (r, c1), s')"
    by (auto simp: task_call_eq applyTaskBalanceHold_def Let_def tx_then_Ok split: if_splits)
  from claim_users [OF a [unfolded applyTaskBalanceHoldOnce_def]] show ?thesis
  proof (elim disjE exE conjE)
    assume "(r, c1) = (taskBillingResultForCommand ?c h, ?c)" "s' = s"
    then have "\<not> trApplied r" "s' = s" by auto
    then show ?thesis using refines_Nothing [OF assms(2)] by (intro exI [of _ Nothing]) (cases h; simp)
  next
    fix cs
    let ?s = "s\<lparr>lClaims := lClaims s @ cs\<rparr>"
    assume b: "apply_claimed st h (task_body_of uf st h) ?c ?s = (Ok (r, c1), s')"
    from b obtain projection r0 c0 s1 where p: "task_body_of uf st h ?c projection ?s = (Ok (r0, c0), s1)"
        "applyTaskAllowance st c0 h projection s1 = (Ok (), s')" "r = r0\<lparr>trApplied := True\<rparr>"
      by (auto simp: apply_claimed_def tx_then_Ok split: option.splits dest: lock_users)
    have "lUsers s' = lUsers s1" using p(2) by (rule same_users [rotated]) (rule keeps_allowance [OF keeps_same_users])
    then show ?thesis using body_refines [OF p(1)] assms(2) p(3) due_claimed [of h c s cs]
      by (auto simp: reports_normalized due_normalized)
  qed
qed

lemma perform_refines:
  assumes "perform uf tf st x s = (v, s')" "funds_ok (lUsers s)" "eight_places (stRound st)"
  shows "\<exists>t. refines (lUsers s) t (lUsers s') \<and> reports x v t \<and>
    (release_due x s \<and> (\<exists>r. v = Ok (Funded r) \<and> trApplied r) \<longrightarrow> t \<noteq> Nothing)"
proof (cases v)
    case (Inl e)
    then have "s' = s"
    proof (cases "action_id uf tf st x")
      case None
      then show ?thesis using assms(1) action_refused by (metis prod.inject)
    next
      case (Some p)
      then obtain fp replay body where "perform uf tf st x = with_claim (fst (fst p)) (snd (fst p)) fp replay body"
        using action_claimed [of uf tf st x "fst p" "snd p"] unfolding claimed_action_def by auto
      then show ?thesis using assms(1) Inl with_claim_Err by metis
    qed
    then show ?thesis using Inl refines_Nothing [OF assms(2)] by (intro exI [of _ Nothing]) (cases x; simp)
  next
    case (Inr out)
    show ?thesis
    proof (cases x)
      case (Settle c)
      then show ?thesis using Inr assms(1) settle_refines [OF _ assms(2,3)] by (fastforce simp: tx_then_Ok)
    next
      case (Hold h c)
      then show ?thesis using Inr assms(1) hold_refines [OF _ assms(2)] by (fastforce simp: tx_then_Ok)
    qed
qed
section \<open>Runs\<close>

inductive runs :: "('op \<Rightarrow> 's \<Rightarrow> 'o \<Rightarrow> 's \<Rightarrow> bool) \<Rightarrow> 's \<Rightarrow> ('op \<times> 'o) list \<Rightarrow> 's \<Rightarrow> bool" for step where
  runs_none: "runs step s [] s"
| runs_next: "step x s v s' \<Longrightarrow> runs step s' xs s'' \<Longrightarrow> runs step s ((x, v) # xs) s''"

text \<open>What a transfer makes a user pay for good.\<close>

fun paid :: "int \<Rightarrow> transfer \<Rightarrow> rat" where
  "paid i (Charge j a) = (if i = j then a else 0)"
| "paid i (Spend j h a) = (if i = j then a else 0)"
| "paid i t = 0"

text \<open>A store whose actions are transfers, as its answers report them.\<close>

locale account_store =
  fixes ok :: "'s \<Rightarrow> bool" and money :: "'s \<Rightarrow> accounts" and step :: "'op \<Rightarrow> 's \<Rightarrow> 'o \<Rightarrow> 's \<Rightarrow> bool"
    and report :: "'op \<Rightarrow> 'o \<Rightarrow> transfer \<Rightarrow> bool"
  assumes transfers: "step x s v s' \<Longrightarrow> ok s \<Longrightarrow>
    \<exists>t. possible t (money s) \<and> money s' = transferred t (money s) \<and> ok s' \<and> report x v t"
begin

lemma transfer_balance:
  "possible t m \<Longrightarrow> m i = Some (b, f) \<Longrightarrow> 0 \<le> f \<Longrightarrow>
    \<exists>b' f'. transferred t m i = Some (b', f') \<and> 0 \<le> f' \<and> b' + f' = b + f - paid i t"
  by (cases t) auto

lemma runs_conserve:
  assumes "runs step s tr s'" "ok s" "money s i = Some (b, f)" "0 \<le> f"
  shows "\<exists>ts b' f'. list_all2 (\<lambda>(x, v) t. report x v t) tr ts \<and> money s' i = Some (b', f') \<and> 0 \<le> f' \<and>
    b' + f' = b + f - sum_list (map (paid i) ts)"
  using assms
proof (induction arbitrary: b f rule: runs.induct)
  case (runs_none s)
  then show ?case by (intro exI [of _ "[]"]) simp
next
  case (runs_next x s v s' xs s'')
  from transfers [OF runs_next.hyps(1) runs_next.prems(1)] obtain t where
    t: "possible t (money s)" "money s' = transferred t (money s)" "ok s'" "report x v t" by blast
  from transfer_balance [OF t(1) runs_next.prems(2,3)] obtain b1 f1 where
    m: "money s' i = Some (b1, f1)" "0 \<le> f1" "b1 + f1 = b + f - paid i t" using t(2) by auto
  from runs_next.IH [OF t(3) m(1,2)] obtain ts b' f' where
    "list_all2 (\<lambda>(x, v) t. report x v t) xs ts" "money s'' i = Some (b', f')" "0 \<le> f'"
    "b' + f' = b1 + f1 - sum_list (map (paid i) ts)" by blast
  then show ?case using t(4) m(3) by (intro exI [of _ "t # ts"] exI [of _ b'] exI [of _ f']) simp
qed

end

definition financial_step :: "(UsageApplyCommand \<Rightarrow> string) \<Rightarrow> (task_command \<Rightarrow> string) \<Rightarrow> 'x SettlementStore
    \<Rightarrow> ledger_action \<Rightarrow> 'x ledger \<Rightarrow> (perror, outcome) result \<Rightarrow> 'x ledger \<Rightarrow> bool" where
  "financial_step uf tf st x s v s' \<longleftrightarrow> eight_places (stRound st) \<and> perform uf tf st x s = (v, s')"

interpretation fin: account_store "\<lambda>s. funds_ok (lUsers s)" "\<lambda>s. accounts (lUsers s)" "financial_step uf tf st" reports
  for uf tf st
proof
  fix x v and s s' :: "'a ledger"
  assume "financial_step uf tf st x s v s'" and ok: "funds_ok (lUsers s)"
  then have p: "perform uf tf st x s = (v, s')" "eight_places (stRound st)" by (simp_all add: financial_step_def)
  show "\<exists>t. possible t (accounts (lUsers s)) \<and> accounts (lUsers s') = transferred t (accounts (lUsers s)) \<and>
      funds_ok (lUsers s') \<and> reports x v t"
    using perform_refines [OF p(1) ok p(2)] unfolding refines_def by blast
qed


end
