(* ===== verification/LedgerLimits.thy ===== *)
theory LedgerLimits
  imports LedgerClaims
begin

text \<open>
  A reservation against the limits of its key and its team member.
\<close>

section \<open>Within the limits\<close>

definition window_within :: "spending \<Rightarrow> bool" where
  "window_within w \<longleftrightarrow> (0 < uwLimit w \<longrightarrow> uwUsage w \<le> uwLimit w)"

definition key_within :: "key_row \<Rightarrow> bool" where
  "key_within k \<longleftrightarrow> (0 < kQuota k \<longrightarrow> kQuotaUsed k \<le> kQuota k) \<and> window_within (k5h k) \<and> window_within (k1d k) \<and> window_within (k7d k)"

definition member_within :: "member_row \<Rightarrow> bool" where
  "member_within m \<longleftrightarrow> window_within (mDaily m) \<and> window_within (mWeekly m) \<and> window_within (mMonthly m)"

text \<open>Limits are column values: eight decimals in the key table, ten in the member table.\<close>

definition key_columns :: "key_row \<Rightarrow> bool" where
  "key_columns k \<longleftrightarrow> scaled 8 (kQuota k) \<and> scaled 8 (uwLimit (k5h k)) \<and> scaled 8 (uwLimit (k1d k)) \<and> scaled 8 (uwLimit (k7d k))"

definition member_columns :: "member_row \<Rightarrow> bool" where
  "member_columns m \<longleftrightarrow> scaled 10 (uwLimit (mDaily m)) \<and> scaled 10 (uwLimit (mWeekly m)) \<and> scaled 10 (uwLimit (mMonthly m))"

lemma charge_within:
  "numeric d (if b then a else uwUsage w + a) = Some u \<Longrightarrow> fits b a w \<Longrightarrow> scaled d (uwLimit w) \<Longrightarrow> 0 < uwLimit w \<Longrightarrow> u \<le> uwLimit w"
  by (rule numeric_le) (auto simp: fits_def split: if_splits)

lemma charge_fresh_within:
  "charge_fresh lapse t f a w = Some w' \<Longrightarrow> fits (over lapse t w) a w \<Longrightarrow> scaled 8 (uwLimit w) \<Longrightarrow> window_within w'"
  by (auto simp: charge_fresh_def window_within_def intro: charge_within)

lemma charge_calendar_within:
  "charge_calendar start a w = Some w' \<Longrightarrow> fits (stale start w) a w \<Longrightarrow> scaled 10 (uwLimit w) \<Longrightarrow> window_within w'"
  by (auto simp: charge_calendar_def window_within_def intro: charge_within)

lemma charge_key_within:
  assumes "charge_fresh_windows z t a status k = Some k'" "key_admits z t a k" "key_columns k"
  shows "key_within k'"
proof -
  from assms(1) obtain q x y w where c: "numeric 8 (kQuotaUsed k + a) = Some q" "charge_fresh span_5h t t a (k5h k) = Some x"
    "charge_fresh span_1d t (midnight z t) a (k1d k) = Some y" "charge_fresh (span_7d z) t (midnight z t) a (k7d k) = Some w"
    "k' = k\<lparr>kQuotaUsed := q, k5h := x, k1d := y, k7d := w, kStatus := status\<rparr>"
    by (auto simp: charge_fresh_windows_def split: option.splits)
  have "window_within x" "window_within y" "window_within w"
    using c(2-4) assms(2,3) charge_fresh_within unfolding key_admits_def key_columns_def by blast+
  moreover have "0 < kQuota k \<Longrightarrow> q \<le> kQuota k"
    using assms(2,3) by (intro numeric_le [OF c(1)]) (auto simp: key_admits_def key_columns_def)
  ultimately show ?thesis by (simp add: key_within_def c(5))
qed

lemma charge_member_within:
  "charge_member day week month a m = Some m' \<Longrightarrow> member_admits (day, week, month) a m \<Longrightarrow> member_columns m \<Longrightarrow> member_within m'"
  unfolding charge_member_def member_admits_def member_within_def member_columns_def
  by (auto split: option.splits intro: charge_calendar_within)

lemma reserved_key:
  assumes "reserveTaskAPIKeyAllowance st i amount t s = (Ok (), s')" "\<forall>k \<in> set (lKeys s). key_columns k"
  shows "\<exists>k \<in> set (lKeys s'). kID k = i \<and> key_within k"
proof -
  from assms(1) obtain ms a where "on_keys (sql_update (\<lambda>k. kID k = i \<and> key_admits (stZone st) (db_us t) a k)
        (\<lambda>k. charge_fresh_windows (stZone st) (db_us t) a
           (if 0 < kQuota k \<and> kQuota k \<le> kQuotaUsed k + a then ''quota_exhausted'' else kStatus k) k)) s = (Ok ms, s')" "ms \<noteq> []"
    unfolding reserveTaskAPIKeyAllowance_def Let_def by (auto simp: tx_then_Ok split: if_splits dest!: amount_arg_Ok)
  then have "sql_update (\<lambda>k. kID k = i \<and> key_admits (stZone st) (db_us t) a k)
        (\<lambda>k. charge_fresh_windows (stZone st) (db_us t) a
           (if 0 < kQuota k \<and> kQuota k \<le> kQuotaUsed k + a then ''quota_exhausted'' else kStatus k) k) (lKeys s) = (Ok ms, lKeys s')"
    by (auto simp: on_keys_def split: prod.splits)
  from updated_row [OF this \<open>ms \<noteq> []\<close>] obtain k k' where k: "k \<in> set (lKeys s)" "kID k = i" "key_admits (stZone st) (db_us t) a k"
    "charge_fresh_windows (stZone st) (db_us t) a
       (if 0 < kQuota k \<and> kQuota k \<le> kQuotaUsed k + a then ''quota_exhausted'' else kStatus k) k = Some k'" "k' \<in> set (lKeys s')"
    by blast
  then have "kID k' = kID k" by (auto simp: charge_fresh_windows_def split: option.splits)
  then show ?thesis using k charge_key_within [OF k(4,3)] assms(2) by blast
qed

lemma reserved_member:
  assumes "reserveTaskMemberAllowance st c amount s = (Ok (), s')" "task_actor c = Some team"
    "\<forall>m \<in> set (lMembers s). member_columns m"
  shows "\<exists>m \<in> set (lMembers s'). mTeam m = team \<and> mUser m = tActorUserID c \<and> mLeft m = None \<and>
    (mRole m = ''owner'' \<or> member_within m)"
proof -
  obtain day week month where d: "calendar_starts st (lNow s) = (day, week, month)" by (metis prod_cases3)
  let ?g = "\<lambda>a m. mTeam m = team \<and> mUser m = tActorUserID c \<and> member_admits (day, week, month) a m"
  from assms(1,2) d obtain ms s1 a where u: "on_members (sql_update (?g a) (charge_member day week month a)) s = (Ok ms, s1)" and
    r: "(if ms \<noteq> [] then Ok () else taskMemberAllowanceError team (tActorUserID c) amount (day, week, month) s1) = Ok ()" "s' = s1"
    unfolding reserveTaskMemberAllowance_def Let_def by (auto simp: tx_then_Ok split: if_splits dest!: amount_arg_Ok)
  from u have q: "sql_update (?g a) (charge_member day week month a) (lMembers s) = (Ok ms, lMembers s')"
    using r(2) by (auto simp: on_members_def split: prod.splits)
  show ?thesis
  proof (cases "ms = []")
    case False
    from updated_row [OF q this] obtain m m' where m: "m \<in> set (lMembers s)" "?g a m" "charge_member day week month a m = Some m'"
      "m' \<in> set (lMembers s')" by blast
    then have "mTeam m' = mTeam m" "mUser m' = mUser m" "mLeft m' = mLeft m" by (auto simp: charge_member_def split: option.splits)
    then show ?thesis using m charge_member_within [OF m(3)] assms(3) by (auto simp: member_admits_def)
  next
    case True
    then have "taskMemberAllowanceError team (tActorUserID c) amount (day, week, month) s' = Ok ()" using r by simp
    let ?rows = "filter (\<lambda>m. mTeam m = team \<and> mUser m = tActorUserID c \<and> mLeft m = None) (lMembers s')"
    from \<open>taskMemberAllowanceError _ _ _ _ _ = _\<close> obtain m ms' where m: "?rows = m # ms'" "mRole m = ''owner''"
      unfolding taskMemberAllowanceError_def by (cases ?rows) (simp_all split: if_splits)
    then have "m \<in> set ?rows" by simp
    then have "m \<in> set (lMembers s') \<and> mTeam m = team \<and> mUser m = tActorUserID c \<and> mLeft m = None" by simp
    then show ?thesis using m(2) by blast
  qed
qed


lemma Reserve_steps:
  assumes "Reserve uf tf st (Some c) s = (Ok (r, c'), s')" "trApplied r"
  shows "\<exists>projection r0 c0 s0 s1. lKeys s0 = lKeys s \<and> lMembers s0 = lMembers s \<and>
    reserveUsageBillingTaskBilling uf st (NormalizeTaskCommand tf c) projection s0 = (Ok (r0, c0), s1) \<and>
    applyTaskAllowance st c0 taskAllowanceReserve projection s1 = (Ok (), s') \<and> r = r0\<lparr>trApplied := True\<rparr>"
proof -
  let ?c = "NormalizeTaskCommand tf c"
  from assms(1) obtain c1 where a: "applyTaskBalanceHoldOnce st taskAllowanceReserve (reserveUsageBillingTaskBilling uf st) ?c s = (Ok (r, c1), s')"
    by (auto simp: Reserve_def applyTaskBalanceHold_def Let_def tx_then_Ok split: if_splits)
  have "\<exists>s0. lKeys s0 = lKeys s \<and> lMembers s0 = lMembers s \<and>
      apply_claimed st taskAllowanceReserve (reserveUsageBillingTaskBilling uf st) ?c s0 = (Ok (r, c1), s')"
    using claim_users [OF a [unfolded applyTaskBalanceHoldOnce_def]]
  proof (elim disjE exE conjE)
    assume "(r, c1) = (taskBillingResultForCommand ?c taskAllowanceReserve, ?c)"
    then show ?thesis using assms(2) replay_not_applied [of ?c taskAllowanceReserve] by simp
  next
    fix cs assume "apply_claimed st taskAllowanceReserve (reserveUsageBillingTaskBilling uf st) ?c (s\<lparr>lClaims := lClaims s @ cs\<rparr>) = (Ok (r, c1), s')"
    then show ?thesis by (intro exI [of _ "s\<lparr>lClaims := lClaims s @ cs\<rparr>"]) simp
  qed
  then obtain s0 where z: "lKeys s0 = lKeys s" "lMembers s0 = lMembers s"
    and e: "apply_claimed st taskAllowanceReserve (reserveUsageBillingTaskBilling uf st) ?c s0 = (Ok (r, c1), s')" by blast
  from e obtain projection r0 c0 s1 where "reserveUsageBillingTaskBilling uf st ?c projection s0 = (Ok (r0, c0), s1)"
      "applyTaskAllowance st c0 taskAllowanceReserve projection s1 = (Ok (), s')" "r = r0\<lparr>trApplied := True\<rparr>"
    by (auto simp: apply_claimed_def tx_then_Ok split: option.splits dest: lock_users)
  then show ?thesis using z by blast
qed

lemma reserve_keeps_quota:
  assumes "reserveUsageBillingTaskBilling uf st c projection s = (Ok (r, c'), s')"
  shows "lKeys s' = lKeys s" "lMembers s' = lMembers s" "HoldAmount c' = HoldAmountUSD r \<or> r = no_funds"
    "tAPIKeyID c' = tAPIKeyID c" "task_actor c' = task_actor c" "tActorUserID c' = tActorUserID c"
    "TfBaseAmountUSD c' = TfBaseAmountUSD c"
proof -
  have k: "keeps (\<lambda>s. (lKeys s, lMembers s) = km) (reserveUsageBillingTaskBilling uf st c projection)" for km
    unfolding reserveUsageBillingTaskBilling_def Let_def by (intro keep_intros) simp_all
  have "(lKeys s', lMembers s') = (lKeys s, lMembers s)" by (rule keepsD [OF k _ assms]) simp
  then show "lKeys s' = lKeys s" "lMembers s' = lMembers s" by simp_all
  have "c' = c \<and> r = no_funds \<or> (\<exists>h. c' = c\<lparr>HoldAmount := h\<rparr> \<and> HoldAmountUSD r = h)"
    using assms unfolding reserveUsageBillingTaskBilling_def Let_def
    by (auto simp: tx_then_Ok reservation_result_def split: if_splits)
  then show "HoldAmount c' = HoldAmountUSD r \<or> r = no_funds" "tAPIKeyID c' = tAPIKeyID c" "task_actor c' = task_actor c"
    "tActorUserID c' = tActorUserID c" "TfBaseAmountUSD c' = TfBaseAmountUSD c" by (auto simp: task_actor_def)
qed

lemma normalized_task_ids [simp]:
  "tAPIKeyID (NormalizeTaskCommand tf c) = tAPIKeyID c" "task_actor (NormalizeTaskCommand tf c) = task_actor c"
  "tActorUserID (NormalizeTaskCommand tf c) = tActorUserID c"
  by (simp_all add: NormalizeTaskCommand_def task_actor_def Let_def split: prod.split)


end
