(* ===== verification/LedgerSafety.thy ===== *)
theory LedgerSafety
  imports LedgerAccounts LedgerLimits
begin

text \<open>
  What the settlement ledger guarantees: an action is charged once, money moves by
  the contract, none is lost or made, and reservations stay within the limits.
\<close>

section \<open>A sample ledger\<close>

definition zone0 :: session_zone where
  "zone0 = \<lparr>midnight = \<lambda>t. t - t mod (24 * hour), plus_days = \<lambda>n t. t + n * (24 * hour), plus_month = \<lambda>t. t + 30 * (24 * hour)\<rparr>"

definition store0 :: "unit SettlementStore" where
  "store0 = \<lparr>calendar = \<lparr>location = None\<rparr>, providerOutbox = None,
     taskProjections = (\<lambda>_. Some (\<lambda>_. Some \<lparr>SaveReservation = \<lambda>_ _ _ _ s. (Ok (), s), SetAllowanceReserved = \<lambda>_ s. (Ok (), s)\<rparr>)),
     stLocal = utc, stZone = zone0, stRound = (\<lambda>v. case v of Fin x \<Rightarrow> rnd (of_int \<lfloor>x\<rfloor>) | _ \<Rightarrow> v), stNextReset = (\<lambda>_ _ _. None)\<rparr>"

definition key0 :: key_row where
  "key0 = \<lparr>kID = 7, kDeleted = False, kStatus = ''active'', kOwnerDisabled = False, kQuota = 10, kQuotaUsed = 2,
     k5h = \<lparr>uwLimit = 9, uwUsage = 4, uwStart = None\<rparr>, k1d = \<lparr>uwLimit = 0, uwUsage = 0, uwStart = None\<rparr>,
     k7d = \<lparr>uwLimit = 0, uwUsage = 0, uwStart = None\<rparr>\<rparr>"

definition ledger0 :: "unit ledger" where
  "ledger0 = \<lparr>lUsers = [account0], lKeys = [key0], lMembers = [], lSubs = [], lPlans = [], lPlanGroups = [], lProviders = [],
     lClaims = [], lArchive = [], lNow = 0, lWorld = ()\<rparr>"

definition usage0 :: UsageApplyCommand where
  "usage0 = \<lparr>RequestID = ''r'', RequestFingerprint = ''f'', APIKeyBillingMode = ''balance'', PreferredSubscriptionID = None,
     GroupID = None, BillableAmountUSD = Fin 3, BaseAmountUSD = f0, SubscriptionRateMultiplier = f0,
     SubscriptionRateMultiplierScale = f0, BalanceRateMultiplier = f0, DisablePlanGroupRateMultiplier = False,
     IncludeAllocationPricing = False, APIKeyQuotaCost = f0, APIKeyRateLimitCost = f0, ProviderQuotaCost = f0, APIKeyID = 7,
     ubUserID = 1, ActorUserID = 1, TeamID = None, ProviderID = 0, ProviderType = []\<rparr>"

definition hold0 :: task_command where
  "hold0 = \<lparr>TfRequestID = ''h'', TfRequestFingerprint = ''g'', TfAPIKeyBillingMode = ''balance'', TfPreferredSubscriptionID = None,
     Task = \<lparr>Scope = ''batch_image'', TaskID = ''t'', ReserveRequestID = ''h''\<rparr>, HoldAmount = Fin 5, ActualAmount = f0,
     PricingSnapshotVersion = 1, TfBaseAmountUSD = f0, ActualBaseAmountUSD = f0, TfBalanceRateMultiplier = f0,
     SettlementRateScale = f0, BalanceHoldAmount = f0, SubscriptionHoldAllocations = [], tAPIKeyID = 7, tUserID = 1,
     tActorUserID = 1, tTeamID = None, tGroupID = None, tSubscriptionRateMultiplier = f0, tSubscriptionRateMultiplierScale = f0,
     tDisablePlanGroupRateMultiplier = False, AllowanceReserved = False, ReservedAt = 0\<rparr>"
lemma plain_texts: "trim_space ''r'' = ''r''" "trim_space ''f'' = ''f''" "trim_space ''h'' = ''h''" "trim_space ''g'' = ''g''"
  "trim_space ''t'' = ''t''" "trim_space ''balance'' = ''balance''" "NormalizeAPIKeyBillingMode ''balance'' = (''balance'', True)"
  by code_simp+

lemma usage0_normal: "NormalizeCommand uf (stRound store0) usage0 = usage0"
  by (simp add: NormalizeCommand_def usage0_def plain_texts mode_consts QuantizeUsageBillingAmount_def)

definition ledger1 :: "unit ledger" where
  "ledger1 = ledger0\<lparr>lUsers := [account0\<lparr>balance := 19 / 2\<rparr>],
     lClaims := [\<lparr>cRequest = ''r'', cKey = 7, cFingerprint = ''f'', cCreated = 0\<rparr>]\<rparr>"

definition settled0 :: UsageBillingApplyResult where
  "settled0 = no_apply\<lparr>Applied := True, NewBalance := Some (rnd (19 / 2)), arBalanceAmountUSD := Fin 3,
     arBillingAllocations := [balance_allocation (Fin 3) f0 f0]\<rparr>"

lemma text_int: "decimal_text (numeral k) = numeral k" if "(numeral k :: rat) + 2 \<le> 2 ^ 24" "rnd (numeral k) = Fin (numeral k)"
  by (rule decimal_text_precise [of 8 24]) (use that in \<open>simp_all add: precise_def scaled_def\<close>)

lemma settle0: "Apply uf store0 (Some usage0) ledger0 = (Ok settled0, ledger1)"
proof -
  have t: "decimal_text 3 = 3" by (rule text_int) (simp_all add: rnd_numeral)
  have b: "to_column (25 / 2 - 3) = Some (19 / 2)" using to_column_scaled [of "19/2"] by (simp add: scaled_def)
  have q: "QuantizeUsageBillingAmount (stRound store0) (Fin 3) = Fin 3"
    by (simp add: QuantizeUsageBillingAmount_def is_inf_def store0_def rnd_numeral)
  have a: "allocateUsageBillingSubscriptions store0 usage0 s = (Ok (Fin 3, f0, []), s)" for s
    by (simp add: allocateUsageBillingSubscriptions_def SubscriptionAllocationRequest_def UsesBaseAmount_def usage0_def mode_consts)
  have d: "deductUsageBillingBalance store0 1 (Fin 3) (ledger1\<lparr>lUsers := [account0]\<rparr>) =
      (Ok (rnd (19 / 2), Fin 3), ledger1)"
    using b by (simp add: deductUsageBillingBalance_def q amount_arg_def t tx_then_def on_users_def sql_update_def live_def
      account0_def ledger1_def ledger0_def rnd_numeral)
  have e: "applyUsageBillingEffects store0 usage0 (no_apply\<lparr>Applied := True\<rparr>) (ledger1\<lparr>lUsers := [account0]\<rparr>) = (Ok settled0, ledger1)"
    using a d by (simp add: applyUsageBillingEffects_def tx_then_def balance_effect_def quota_effects_def team_actor_def
      usage0_def UsesBaseAmount_def settled0_def no_apply_def balance_allocation_def)
  have l: "lockUsageBillingUser 1 (ledger1\<lparr>lUsers := [account0]\<rparr>) = (Ok (), ledger1\<lparr>lUsers := [account0]\<rparr>)"
    by (simp add: lockUsageBillingUser_def live_def account0_def)
  have "identity ledger0 (''r'', 7) = None" by (simp add: identity_def ledger0_def find_claim_def)
  moreover have "ledger0\<lparr>lClaims := lClaims ledger0 @ [\<lparr>cRequest = ''r'', cKey = 7, cFingerprint = ''f'', cCreated = lNow ledger0\<rparr>]\<rparr> =
      ledger1\<lparr>lUsers := [account0]\<rparr>" by (simp add: ledger0_def ledger1_def)
  moreover have "RequestID usage0 = ''r''" "APIKeyID usage0 = 7" "RequestFingerprint usage0 = ''f''" "ubUserID usage0 = 1"
    by (simp_all add: usage0_def)
  ultimately show ?thesis using e l
    by (simp add: Apply_def usage0_normal applyOnce_def with_claim_free tx_then_def)
qed
lemma hold0_normal: "NormalizeTaskCommand tf hold0 = hold0"
  by (simp add: NormalizeTaskCommand_def hold0_def plain_texts mode_consts)

definition key1 :: key_row where
  "key1 = key0\<lparr>kQuotaUsed := 7, k5h := \<lparr>uwLimit = 9, uwUsage = 5, uwStart = Some 0\<rparr>,
     k1d := \<lparr>uwLimit = 0, uwUsage = 5, uwStart = Some 0\<rparr>, k7d := \<lparr>uwLimit = 0, uwUsage = 5, uwStart = Some 0\<rparr>\<rparr>"

definition ledger2 :: "unit ledger" where
  "ledger2 = ledger1\<lparr>lUsers := [account0\<lparr>balance := 9 / 2, frozen_balance := 5\<rparr>], lKeys := [key1],
     lClaims := lClaims ledger1 @ [\<lparr>cRequest = ''h'', cKey = 7, cFingerprint = ''g'', cCreated = 0\<rparr>]\<rparr>"

definition reserved0 :: TaskFundsResult where
  "reserved0 = no_funds\<lparr>trApplied := True, trNewBalance := Some (rnd (9 / 2)), FrozenBalance := Some (Fin 5),
     HoldAmountUSD := Fin 5, EstimatedAmountUSD := Fin 5, trBalanceAmountUSD := Fin 5,
     trBillingAllocations := [balance_allocation (Fin 5) (Fin 5) f0]\<rparr>"

abbreviation start1 :: "unit ledger" where
  "start1 \<equiv> ledger1\<lparr>lClaims := lClaims ledger1 @ [\<lparr>cRequest = ''h'', cKey = 7, cFingerprint = ''g'', cCreated = 0\<rparr>]\<rparr>"

lemma text5: "decimal_text 5 = 5"
  by (rule text_int) (simp_all add: rnd_numeral)

lemma normalize5: "normalizeTaskBalanceAmount (Fin 5) = Fin 5"
  by (simp add: normalizeTaskBalanceAmount_def fmul_def fdiv_def round_f64_def rnd_numeral half_away_int [of "500000000", simplified])

lemma freeze0: "reserveUsageBillingTaskBalance 1 (Fin 5) start1 =
  (Ok (no_funds\<lparr>trNewBalance := Some (rnd (9 / 2)), FrozenBalance := Some (Fin 5)\<rparr>), ledger2\<lparr>lKeys := [key0]\<rparr>)"
proof -
  have "to_column (19 / 2 - 5) = Some (9 / 2)" "to_column 5 = Some 5"
    using to_column_scaled [of "9/2"] to_column_scaled [of 5] by (simp_all add: scaled_def)
  then show ?thesis
    by (simp add: reserveUsageBillingTaskBalance_def amount_arg_def text5 move_funds_def tx_then_def on_users_def
      sql_update_def live_def account0_def ledger1_def ledger0_def ledger2_def rnd_numeral no_funds_def)
qed

lemma hold0_fields: "tUserID hold0 = 1" "tAPIKeyID hold0 = 7" "TfRequestID hold0 = ''h''" "TfRequestFingerprint hold0 = ''g''"
  "Scope (Task hold0) = ''batch_image''" "task_actor hold0 = None" "TfBalanceRateMultiplier hold0 = f0" "TfBaseAmountUSD hold0 = f0"
  "HoldAmount hold0 = Fin 5" "ReservedAt hold0 = 0" "PricingSnapshotVersion hold0 = 1"
  by (simp_all add: hold0_def task_actor_def team_actor_def)

lemma allocate_none: "allocateUsageBillingSubscriptions store0 (NormalizeCommand uf (stRound store0) (allocation_command hold0)) s =
    (Ok (Fin 5, f0, []), s)"
  "APIKeyBillingMode (NormalizeCommand uf (stRound store0) (allocation_command hold0)) = ''balance''"
  "UsesBaseAmount (Some (NormalizeCommand uf (stRound store0) (allocation_command hold0))) = False"
  by (simp_all add: allocateUsageBillingSubscriptions_def SubscriptionAllocationRequest_def UsesBaseAmount_def NormalizeCommand_def
    allocation_command_def hold0_def plain_texts mode_consts Let_def)

definition projection0 :: "unit projection" where
  "projection0 = \<lparr>SaveReservation = \<lambda>_ _ _ _ s. (Ok (), s), SetAllowanceReserved = \<lambda>_ s. (Ok (), s)\<rparr>"

lemma hold0_same: "hold0\<lparr>HoldAmount := Fin 5\<rparr> = hold0"
  by (simp add: hold0_def)

lemma body0: "reserveUsageBillingTaskBilling uf store0 hold0 projection0 start1 =
  (Ok (reserved0\<lparr>trApplied := False\<rparr>, hold0), ledger2\<lparr>lKeys := [key0]\<rparr>)"
  using freeze0 by (simp add: reserveUsageBillingTaskBilling_def no_basis_def hold0_fields allocate_none tx_then_def
    tx_check_def Let_def normalize5 mode_consts estimate_def versioned_def on_world_def projection0_def reservation_result_def
    reserved0_def no_funds_def NonNegativeRate_def rnd_numeral hold0_same)

lemma charged0: "charge_fresh_windows zone0 0 5 ''active'' key0 = Some key1"
proof -
  have "numeric 8 7 = Some 7" "numeric 8 5 = Some 5"
    using to_column_scaled [of 7] to_column_scaled [of 5] by (simp_all add: scaled_def)
  then show ?thesis
    by (simp add: charge_fresh_windows_def charge_fresh_def over_def key0_def key1_def zone0_def)
qed

lemma allowance0: "applyTaskAllowance store0 hold0 taskAllowanceReserve projection0 (ledger2\<lparr>lKeys := [key0]\<rparr>) = (Ok (), ledger2)"
proof -
  have z: "stZone store0 = zone0" by (simp add: store0_def)
  have "key_admits zone0 0 5 key0" by (simp add: key_admits_def key0_def fits_def over_def)
  moreover have "kID key0 = 7" "kQuota key0 = 10" "kQuotaUsed key0 = 2" "kStatus key0 = ''active''" by (simp_all add: key0_def)
  moreover have "db_us 0 = 0" by (simp add: db_us_def)
  ultimately have "reserveTaskAPIKeyAllowance store0 7 (Fin 5) 0 (ledger2\<lparr>lKeys := [key0]\<rparr>) = (Ok (), ledger2)"
    using charged0 by (simp add: reserveTaskAPIKeyAllowance_def z amount_arg_def text5 tx_then_def on_keys_def sql_update_def
      ledger2_def Let_def)
  then show ?thesis
    by (simp add: applyTaskAllowance_def no_basis_def hold0_fields tx_then_def reserveTaskMemberAllowance_def is_zero_def
      zero_time_def set_allowance_def on_world_def projection0_def)
qed

lemma reserve0: "Reserve uf tf store0 (Some hold0) ledger1 = (Ok (reserved0, Some hold0), ledger2)"
proof -
  have p: "taskProjections store0 sc = Some (\<lambda>_. Some projection0)" for sc by (simp add: store0_def projection0_def)
  have l: "lockUsageBillingUser 1 start1 = (Ok (), start1)"
    by (simp add: lockUsageBillingUser_def live_def account0_def ledger1_def)
  have "apply_claimed store0 taskAllowanceReserve (reserveUsageBillingTaskBilling uf store0) hold0 start1 = (Ok (reserved0, hold0), ledger2)"
    using body0 allowance0 by (simp add: apply_claimed_def tx_then_def hold0_fields l p reserved0_def)
  moreover have "identity ledger1 (''h'', 7) = None" "lNow ledger1 = 0"
    by (simp_all add: identity_def ledger1_def ledger0_def find_claim_def)
  ultimately show ?thesis
    by (simp add: Reserve_def applyTaskBalanceHold_def applyTaskBalanceHoldOnce_def hold0_normal hold0_fields p
      with_claim_free tx_then_def)
qed
section \<open>Properties\<close>

text \<open>
  C18: A request of a key is charged once: whatever the ledger goes through after an
  action was answered, the claim's move to the archive included, an action with
  the same request and key changes nothing; it is answered as a replay when its
  fingerprint is the first one's, and refused as a conflict otherwise.
\<close>

theorem ledger_charges_once:
  assumes "claims_ok s" "perform uf tf st x s = (Ok v, s1)" "(ledger_step uf tf st)\<^sup>*\<^sup>* s1 s2"
    "action_id uf tf st x = Some (i, f)" "action_id uf tf st y = Some (i, g)"
  shows "snd (perform uf tf st y s2) = s2 \<and>
    (if g = f then \<exists>w. fst (perform uf tf st y s2) = Ok w \<and> \<not> applied w
     else fst (perform uf tf st y s2) = Err ErrUsageBillingRequestConflict)"
proof -
  have "identity s1 i = Some f" "claims_ok s1" using perform_claims [OF assms(2,1)] assms(4) by blast+
  then have "identity s2 i = Some f" using ledger_steps_claims [OF assms(3)] by blast
  moreover obtain fp replay body where "trim_space fp = g" "\<not> applied replay"
      "perform uf tf st y = with_claim (fst i) (snd i) fp replay body"
    using action_claimed [OF assms(5)] unfolding claimed_action_def by blast
  ultimately show ?thesis using with_claim_taken [of s2 "fst i" "snd i" f fp replay body] by auto
qed

definition no_print :: "'c \<Rightarrow> string" where
  "no_print c = []"

lemma settled_step: "perform no_print no_print store0 (Settle usage0) ledger0 = (Ok (Settled settled0), ledger1)"
  by (simp add: settle0 tx_then_def)

lemma sample_ok: "claims_ok ledger0" "funds_ok (lUsers ledger0)" "accounts (lUsers ledger0) 1 = Some (25 / 2, 0)"
    "eight_places (stRound store0)"
proof -
  show "claims_ok ledger0" by (simp add: claims_ok_def ledger0_def)
  show "accounts (lUsers ledger0) 1 = Some (25 / 2, 0)" by (simp add: accounts_def ledger0_def account0_def row_at_def)
  show "funds_ok (lUsers ledger0)"
    using to_column_scaled [of "25/2"] to_column_scaled [of 0] by (simp add: funds_ok_def ledger0_def account0_def scaled_def)
  have "scaled 8 (of_int n)" for n :: int using scaled_frac [of 0 n] scaled_mono [of 0 _ 8] by simp
  then show "eight_places (stRound store0)" by (auto simp: eight_places_def store0_def split: f64.splits)
qed

lemma usage0_id: "action_id uf tf store0 (Settle usage0) = Some ((''r'', 7), ''f'')"
proof -
  have "RequestID usage0 = ''r''" "APIKeyID usage0 = 7" "RequestFingerprint usage0 = ''f''" by (simp_all add: usage0_def)
  then show ?thesis by (simp add: usage0_normal plain_texts)
qed

theorem ledger_charges_once_witness:
  "\<exists>w. perform no_print no_print store0 (Settle usage0) (archive_batch (\<lambda>c. True) 1 ledger1) =
    (Ok w, archive_batch (\<lambda>c. True) 1 ledger1) \<and> \<not> applied w"
proof -
  have "(ledger_step no_print no_print store0)\<^sup>*\<^sup>* ledger1 (archive_batch (\<lambda>c. True) 1 ledger1)"
    by (intro r_into_rtranclp ledger_step.archive)
  from ledger_charges_once [OF sample_ok(1) settled_step this usage0_id usage0_id] show ?thesis
    by (auto simp: prod_eq_iff simp del: perform.simps)
qed

text \<open>
  C19: Every settlement, reservation, capture and release moves money by one possible
  transfer of the account contract, and its answer names the amount moved: a charge
  takes the reported amount; a reservation freezes it; a capture unfreezes the command's
  whole hold and keeps the reported amount, at most the hold; an applied release whose
  reservation's claim exists gives back the whole hold, when that is positive; and a
  refused or repeated action moves nothing.
\<close>

theorem ledger_refines_accounts:
  assumes "perform uf tf st x s = (v, s')" "funds_ok (lUsers s)" "eight_places (stRound st)"
  shows "\<exists>t. possible t (accounts (lUsers s)) \<and> accounts (lUsers s') = transferred t (accounts (lUsers s)) \<and>
    funds_ok (lUsers s') \<and> reports x v t \<and>
    (release_due x s \<and> (\<exists>r. v = Ok (Funded r) \<and> trApplied r) \<longrightarrow> t \<noteq> Nothing)"
  using perform_refines [OF assms] unfolding refines_def by blast

theorem ledger_refines_accounts_witness:
  "\<exists>t. accounts (lUsers ledger1) = transferred t (accounts (lUsers ledger0)) \<and>
    reports (Settle usage0) (Ok (Settled settled0)) t"
  using ledger_refines_accounts [OF settled_step sample_ok(2,4)] by blast

text \<open>
  C20: Over any sequence of financial actions no money is lost or made: a user's
  available and frozen money shrink together by exactly the amounts charged and
  captured, as the answers report them, and the frozen money never falls below zero.
\<close>

theorem money_conserved:
  assumes "runs (financial_step uf tf st) s tr s'" "funds_ok (lUsers s)"
    "accounts (lUsers s) i = Some (b, f)" "0 \<le> f"
  shows "\<exists>ts b' f'. list_all2 (\<lambda>(x, v) t. reports x v t) tr ts \<and> accounts (lUsers s') i = Some (b', f') \<and> 0 \<le> f' \<and>
    b' + f' = b + f - sum_list (map (paid i) ts)"
  by (rule fin.runs_conserve [OF assms])


lemma reserved_step: "perform no_print no_print store0 (Hold taskAllowanceReserve hold0) ledger1 = (Ok (Funded reserved0), ledger2)"
  by (simp add: reserve0 tx_then_def)

theorem money_conserved_witness:
  "\<exists>ts b f. length ts = 2 \<and> accounts (lUsers ledger2) 1 = Some (b, f) \<and> b + f = 25 / 2 - sum_list (map (paid 1) ts)"
proof -
  have "runs (financial_step no_print no_print store0) ledger0
      [(Settle usage0, Ok (Settled settled0)), (Hold taskAllowanceReserve hold0, Ok (Funded reserved0))] ledger2"
    using settled_step reserved_step sample_ok(4) by (auto simp: financial_step_def intro!: runs.intros simp del: perform.simps)
  from money_conserved [OF this sample_ok(2,3) order_refl] obtain ts b f where
    "list_all2 (\<lambda>(x, v) t. reports x v t) [(Settle usage0, Ok (Settled settled0)),
       (Hold taskAllowanceReserve hold0, Ok (Funded reserved0))] ts"
    "accounts (lUsers ledger2) 1 = Some (b, f)" "b + f = 25 / 2 + 0 - sum_list (map (paid 1) ts)" by blast
  then show ?thesis using list_all2_lengthD [of _ _ ts] by (intro exI [of _ ts] exI [of _ b] exI [of _ f]) force
qed

text \<open>
  C21: A reservation that holds money is counted against its key and its member before
  it is committed: the key's total and rolling usage stay within every limit that is
  set, and so does the usage of the acting team member unless the member owns the team.
\<close>

theorem reservation_within_limits:
  assumes "Reserve uf tf st (Some c) s = (Ok (r, c'), s')" "trApplied r" "flt f0 (HoldAmountUSD r)"
    "\<forall>k \<in> set (lKeys s). key_columns k" "\<forall>m \<in> set (lMembers s). member_columns m"
  shows "(\<exists>k \<in> set (lKeys s'). kID k = tAPIKeyID c \<and> key_within k) \<and>
    (\<forall>team. task_actor c = Some team \<longrightarrow> (\<exists>m \<in> set (lMembers s'). mTeam m = team \<and> mUser m = tActorUserID c \<and>
      mLeft m = None \<and> (mRole m = ''owner'' \<or> member_within m)))"
proof -
  from Reserve_steps [OF assms(1,2)] obtain projection r0 c0 s0 s1 where z: "lKeys s0 = lKeys s" "lMembers s0 = lMembers s"
    and b: "reserveUsageBillingTaskBilling uf st (NormalizeTaskCommand tf c) projection s0 = (Ok (r0, c0), s1)"
    and a: "applyTaskAllowance st c0 taskAllowanceReserve projection s1 = (Ok (), s')" and r: "r = r0\<lparr>trApplied := True\<rparr>" by blast
  note q = reserve_keeps_quota [OF b]
  have "HoldAmount c0 = HoldAmountUSD r0" using q(3) r assms(3) by (auto simp: no_funds_def)
  then have "\<not> no_basis c0" using assms(3) r by (cases "HoldAmountUSD r0") (auto simp: no_basis_def)
  then obtain t s2 s3 where k: "reserveTaskAPIKeyAllowance st (tAPIKeyID c0) (HoldAmount c0) t s1 = (Ok (), s2)" and
    m: "reserveTaskMemberAllowance st c0 (HoldAmount c0) s2 = (Ok (), s3)" and w: "set_allowance projection True s3 = (Ok (), s')"
    using a by (auto simp: applyTaskAllowance_def tx_then_Ok)
  have "lMembers s2 = lMembers s1"
    using k by (rule keeps_part [where h = lMembers, rotated]) (intro keeps_reserve_key, simp)
  moreover have "lKeys s3 = lKeys s2"
    using m by (rule keeps_part [where h = lKeys, rotated]) (intro keeps_reserve_member, simp)
  moreover have "lKeys s' = lKeys s3 \<and> lMembers s' = lMembers s3"
    using w by (auto simp: set_allowance_def on_world_def split: prod.splits)
  ultimately show ?thesis
    using reserved_key [OF k] reserved_member [OF m] assms(4,5) q z by auto
qed


theorem reservation_within_limits_witness: "\<exists>k \<in> set (lKeys ledger2). kID k = 7 \<and> key_within k"
proof -
  have h: "trApplied reserved0" "flt f0 (HoldAmountUSD reserved0)" by (simp_all add: reserved0_def)
  have "lKeys ledger1 = [key0]" "lMembers ledger1 = []" by (simp_all add: ledger1_def ledger0_def)
  moreover have "key_columns key0" by (simp add: key_columns_def key0_def scaled_def)
  ultimately have c: "\<forall>k \<in> set (lKeys ledger1). key_columns k" "\<forall>m \<in> set (lMembers ledger1). member_columns m" by simp_all
  show ?thesis using reservation_within_limits [OF reserve0 [of no_print no_print] h c] by (simp add: hold0_fields)
qed

end
