(* ===== verification/PriceCards.thy ===== *)
theory PriceCards
  imports Database Calendar
begin

text \<open>
  Configured price cards: internal/billing/pricing/card.go with the daily
  schedules of time.go and the video labels of video_billing_resolution.go.
  Amounts are binary64 values, an optional amount is an option, and counts are
  integers whose sums the source requires to fit.  The pointer clones of the
  source copy values, so a clone is the value itself here.  Row timestamps are
  left out; video labels are compared after ASCII lower-casing, exact on labels
  without letters beyond ASCII.
\<close>

named_theorems price_simps "unfoldings of the price card operations"

section \<open>Cards\<close>

type_synonym BillingMode = string

definition BillingModeToken :: BillingMode where "BillingModeToken = ''token''"
definition BillingModePerRequest :: BillingMode where "BillingModePerRequest = ''per_request''"
definition BillingModeImage :: BillingMode where "BillingModeImage = ''image''"
definition BillingModeVideo :: BillingMode where "BillingModeVideo = ''video''"

lemmas billing_modes = BillingModeToken_def BillingModePerRequest_def BillingModeImage_def BillingModeVideo_def

record TimePricingPeriod =
  ppStartTime :: string
  ppEndTime :: string
  ppMultiplier :: f64

record TimePricingConfig =
  tpTimezone :: string
  tpWeekdaysOnly :: bool
  tpPeriods :: "TimePricingPeriod list"

record PricingInterval =
  ivID :: int
  ivPricingID :: int
  ivMinTokens :: int
  ivMaxTokens :: "int option"
  ivTierLabel :: string
  ivInputPrice :: "f64 option"
  ivOutputPrice :: "f64 option"
  ivCacheWritePrice :: "f64 option"
  ivCacheWrite1hPrice :: "f64 option"
  ivCacheReadPrice :: "f64 option"
  ivInputMultiplier :: "f64 option"
  ivOutputMultiplier :: "f64 option"
  ivCacheWriteMultiplier :: "f64 option"
  ivCacheReadMultiplier :: "f64 option"
  ivPerRequestPrice :: "f64 option"
  ivSortOrder :: int

record ModelPricingEntry =
  ceReferenceModel :: string
  ceID :: int
  cePricingConfigID :: int
  ceModels :: "string list"
  ceBillingMode :: BillingMode
  cePriceMultiplier :: "f64 option"
  ceFastModeMultiplier :: "f64 option"
  ceFastMultiplier :: "f64 option"
  ceFlexMultiplier :: "f64 option"
  ceMaxReasoningEffortMultiplier :: "f64 option"
  ceInputPrice :: "f64 option"
  ceOutputPrice :: "f64 option"
  ceCacheWritePrice :: "f64 option"
  ceCacheWrite1hPrice :: "f64 option"
  ceCacheReadPrice :: "f64 option"
  ceImageInputPrice :: "f64 option"
  ceImageOutputPrice :: "f64 option"
  cePerRequestPrice :: "f64 option"
  ceIntervals :: "PricingInterval list"
  ceTimePricing :: "TimePricingConfig option"

definition BillingMode_IsValid :: "BillingMode \<Rightarrow> bool" where
  "BillingMode_IsValid m = (m \<in> {BillingModeToken, BillingModePerRequest, BillingModeImage, BillingModeVideo, []})"

definition IsValidUsageFilter :: "BillingMode \<Rightarrow> bool" where
  "IsValidUsageFilter m = (m \<in> {BillingModeToken, BillingModePerRequest, BillingModeImage, BillingModeVideo, []})"

text \<open>The modes that charge per request or media unit.\<close>

definition unit_mode :: "BillingMode \<Rightarrow> bool" where
  "unit_mode m = (m = BillingModePerRequest \<or> m = BillingModeImage \<or> m = BillingModeVideo)"

section \<open>Context intervals\<close>

text \<open>An interval covers the counts above its minimum, up to and including its maximum.\<close>

definition covers :: "int \<Rightarrow> int option \<Rightarrow> int \<Rightarrow> bool" where
  "covers lo hi n = (n > lo \<and> (case hi of None \<Rightarrow> True | Some m \<Rightarrow> n \<le> m))"

fun FindMatchingInterval :: "PricingInterval list \<Rightarrow> int \<Rightarrow> PricingInterval option" where
  "FindMatchingInterval [] totalTokens = None"
| "FindMatchingInterval (iv # ivs) totalTokens =
     (if totalTokens > ivMinTokens iv \<and> (case ivMaxTokens iv of None \<Rightarrow> True | Some m \<Rightarrow> totalTokens \<le> m)
      then Some iv else FindMatchingInterval ivs totalTokens)"

definition GetTierByLabel :: "ModelPricingEntry \<Rightarrow> string \<Rightarrow> PricingInterval option" where
  "GetTierByLabel p label =
     (let labelLower = to_lower label in List.find (\<lambda>iv. equal_fold (ivTierLabel iv) labelLower) (ceIntervals p))"

definition entry_mode :: "ModelPricingEntry \<Rightarrow> BillingMode" where
  "entry_mode p = (if ceBillingMode p = [] then BillingModeToken else ceBillingMode p)"

definition HasEffectivePricing :: "ModelPricingEntry option \<Rightarrow> bool" where
  "HasEffectivePricing pp =
     (case pp of None \<Rightarrow> False
      | Some p \<Rightarrow>
          if unit_mode (entry_mode p) then
            cePerRequestPrice p \<noteq> None \<or> list_ex (\<lambda>iv. ivPerRequestPrice iv \<noteq> None) (ceIntervals p)
          else
            ceInputPrice p \<noteq> None \<or> ceOutputPrice p \<noteq> None \<or> ceCacheWritePrice p \<noteq> None \<or>
            ceCacheWrite1hPrice p \<noteq> None \<or> ceCacheReadPrice p \<noteq> None \<or> ceImageInputPrice p \<noteq> None \<or>
            ceImageOutputPrice p \<noteq> None \<or> ceFastMultiplier p \<noteq> None \<or> ceFlexMultiplier p \<noteq> None \<or>
            ceMaxReasoningEffortMultiplier p \<noteq> None \<or>
            (case ceTimePricing p of None \<Rightarrow> False | Some t \<Rightarrow> tpPeriods t \<noteq> []) \<or>
            list_ex (\<lambda>iv. ivInputPrice iv \<noteq> None \<or> ivOutputPrice iv \<noteq> None \<or> ivCacheWritePrice iv \<noteq> None \<or>
              ivCacheWrite1hPrice iv \<noteq> None \<or> ivCacheReadPrice iv \<noteq> None \<or> ivInputMultiplier iv \<noteq> None \<or>
              ivOutputMultiplier iv \<noteq> None \<or> ivCacheWriteMultiplier iv \<noteq> None \<or> ivCacheReadMultiplier iv \<noteq> None)
              (ceIntervals p))"

section \<open>Validation\<close>

text \<open>The first optional value that fails a test, named in the error.\<close>

fun first_bad :: "(f64 \<Rightarrow> bool) \<Rightarrow> string \<Rightarrow> (string \<times> f64 option) list \<Rightarrow> (perror, unit) result" where
  "first_bad bad suffix [] = Ok ()"
| "first_bad bad suffix ((name, v) # vs) =
     (if (case v of None \<Rightarrow> False | Some x \<Rightarrow> bad x) then Err (Plain (name @ suffix)) else first_bad bad suffix vs)"

definition ValidateIntervalPrices :: "PricingInterval \<Rightarrow> (perror, unit) result" where
  "ValidateIntervalPrices iv =
     (case first_bad (\<lambda>x. x = NaN \<or> is_inf x \<or> flt x f0) '' must be >= 0''
             [(''input_price'', ivInputPrice iv), (''output_price'', ivOutputPrice iv),
              (''cache_write_price'', ivCacheWritePrice iv), (''cache_write_1h_price'', ivCacheWrite1hPrice iv),
              (''cache_read_price'', ivCacheReadPrice iv), (''per_request_price'', ivPerRequestPrice iv)] of
        Inl e \<Rightarrow> Err e
      | Inr _ \<Rightarrow>
          first_bad (\<lambda>x. x = NaN \<or> is_inf x \<or> fle x f0) '' must be > 0''
             [(''input_multiplier'', ivInputMultiplier iv), (''output_multiplier'', ivOutputMultiplier iv),
              (''cache_write_multiplier'', ivCacheWriteMultiplier iv), (''cache_read_multiplier'', ivCacheReadMultiplier iv)])"

definition ValidateSingleInterval :: "PricingInterval \<Rightarrow> (perror, unit) result" where
  "ValidateSingleInterval iv =
     (if ivMinTokens iv < 0 then Err (Plain ''min_tokens must be >= 0'')
      else case ivMaxTokens iv of
        None \<Rightarrow> ValidateIntervalPrices iv
      | Some m \<Rightarrow>
          if m \<le> 0 then Err (Plain ''max_tokens must be > 0'')
          else if m \<le> ivMinTokens iv then Err (Plain ''max_tokens must be > min_tokens'')
          else ValidateIntervalPrices iv)"

text \<open>The loop of ValidateIntervalOverlap, with the previous interval (None at the first).\<close>

fun overlap_from :: "PricingInterval option \<Rightarrow> PricingInterval list \<Rightarrow> (perror, unit) result" where
  "overlap_from prev [] = Ok ()"
| "overlap_from prev (iv # ivs) =
     (if ivMaxTokens iv = None \<and> ivs \<noteq> [] then Err (Plain ''unbounded interval (max_tokens=null) must be the last one'')
      else case prev of
        None \<Rightarrow> overlap_from (Some iv) ivs
      | Some p \<Rightarrow>
          (case ivMaxTokens p of
             None \<Rightarrow> Err (Plain ''intervals overlap'')
           | Some m \<Rightarrow> if m > ivMinTokens iv then Err (Plain ''intervals overlap'') else overlap_from (Some iv) ivs))"

definition ValidateIntervalOverlap :: "PricingInterval list \<Rightarrow> (perror, unit) result" where
  "ValidateIntervalOverlap ivs = overlap_from None ivs"

definition VideoBillingResolution480P :: string where "VideoBillingResolution480P = ''480p''"
definition VideoBillingResolution720P :: string where "VideoBillingResolution720P = ''720p''"
definition VideoBillingResolution1080P :: string where "VideoBillingResolution1080P = ''1080p''"
definition VideoBillingDefaultDurationSeconds :: int where "VideoBillingDefaultDurationSeconds = 8"
definition VideoBillingResolutionMaxLength :: nat where "VideoBillingResolutionMaxLength = 50"

definition is_control :: "char \<Rightarrow> bool" where
  "is_control c = ((of_char c :: nat) < 32 \<or> (of_char c :: nat) = 127)"

definition LookupVideoBillingResolution :: "string \<Rightarrow> string option" where
  "LookupVideoBillingResolution resolution =
     (let label = to_lower (trim_space resolution);
          label = (if label \<in> {''480'', ''480p'', ''sd''} then VideoBillingResolution480P
                   else if label \<in> {''720'', ''720p'', ''hd''} then VideoBillingResolution720P
                   else if label \<in> {''1080'', ''1080p'', ''full_hd'', ''full-hd'', ''fhd''} then VideoBillingResolution1080P
                   else label)
      in if label = [] \<or> VideoBillingResolutionMaxLength < length label \<or> list_ex is_control label
         then None else Some label)"

definition NormalizeVideoBillingResolutionOrDefault :: "string \<Rightarrow> string" where
  "NormalizeVideoBillingResolutionOrDefault resolution =
     (case LookupVideoBillingResolution resolution of
        Some normalized \<Rightarrow> normalized
      | None \<Rightarrow>
          let label = to_lower (trim_space resolution) in if label = [] then VideoBillingResolution480P else label)"

definition NormalizeVideoBillingDurationSecondsOrDefault :: "int \<Rightarrow> int" where
  "NormalizeVideoBillingDurationSecondsOrDefault durationSeconds =
     (if durationSeconds \<le> 0 then VideoBillingDefaultDurationSeconds else durationSeconds)"

definition ValidateVideoBillingResolution :: "string \<Rightarrow> (perror, unit) result" where
  "ValidateVideoBillingResolution resolution =
     (case LookupVideoBillingResolution (NormalizeVideoBillingResolutionOrDefault resolution) of
        None \<Rightarrow> Err (Plain ''video resolution must contain at most 50 characters and no control characters'')
      | Some _ \<Rightarrow> Ok ())"

text \<open>The loop of ValidateIntervals over the sorted copy, with the video labels seen so far.\<close>

fun validate_each :: "BillingMode \<Rightarrow> string list \<Rightarrow> PricingInterval list \<Rightarrow> (perror, unit) result" where
  "validate_each mode videoLabels [] = Ok ()"
| "validate_each mode videoLabels (iv # ivs) =
     (if mode = BillingModeVideo \<and> trim_space (ivTierLabel iv) \<noteq> [] then
        (case LookupVideoBillingResolution (ivTierLabel iv) of
           None \<Rightarrow> Err (Plain ''invalid video resolution'')
         | Some label \<Rightarrow>
             if label \<in> set videoLabels then Err (Plain ''duplicate video resolution'')
             else (case ValidateSingleInterval iv of
                     Inl e \<Rightarrow> Err e | Inr _ \<Rightarrow> validate_each mode (label # videoLabels) ivs))
      else (case ValidateSingleInterval iv of
              Inl e \<Rightarrow> Err e | Inr _ \<Rightarrow> validate_each mode videoLabels ivs))"

definition by_min :: "PricingInterval \<Rightarrow> PricingInterval \<Rightarrow> bool" where
  "by_min a b = (ivMinTokens a < ivMinTokens b)"

definition ValidateIntervals :: "PricingInterval list \<Rightarrow> BillingMode \<Rightarrow> (perror, unit) result" where
  "ValidateIntervals intervals mode =
     (if intervals = [] then Ok ()
      else
        let ordered = sort_by by_min intervals
        in case validate_each mode [] ordered of
             Inl e \<Rightarrow> Err e
           | Inr _ \<Rightarrow> if unit_mode mode then Ok () else ValidateIntervalOverlap ordered)"

section \<open>Matching a card\<close>

definition NormalizePriceModelName :: "string \<Rightarrow> string" where
  "NormalizePriceModelName model = to_lower (trim_space model)"

definition wildcard_match :: "string \<Rightarrow> string \<Rightarrow> bool" where
  "wildcard_match normalized candidate =
     (has_suffix normalized ''*'' \<and> has_prefix candidate (take (length normalized - 1) normalized))"

text \<open>
  The inner loop of MatchPriceCard: an exact pattern returns at once; otherwise the
  first wildcard match of all cards is remembered.
\<close>

fun match_patterns :: "string \<Rightarrow> ModelPricingEntry \<Rightarrow> string list \<Rightarrow> ModelPricingEntry option
    \<Rightarrow> ModelPricingEntry + ModelPricingEntry option" where
  "match_patterns candidate entry [] wildcard = Inr wildcard"
| "match_patterns candidate entry (pattern # ps) wildcard =
     (let normalized = NormalizePriceModelName pattern in
      if normalized = candidate then Inl entry
      else if wildcard_match normalized candidate \<and> wildcard = None
      then match_patterns candidate entry ps (Some entry)
      else match_patterns candidate entry ps wildcard)"

fun match_cards :: "string \<Rightarrow> ModelPricingEntry list \<Rightarrow> ModelPricingEntry option \<Rightarrow> ModelPricingEntry option" where
  "match_cards candidate [] wildcard = wildcard"
| "match_cards candidate (entry # es) wildcard =
     (if \<not> HasEffectivePricing (Some entry) then match_cards candidate es wildcard
      else case match_patterns candidate entry (ceModels entry) wildcard of
        Inl found \<Rightarrow> Some found
      | Inr wildcard \<Rightarrow> match_cards candidate es wildcard)"

definition MatchPriceCard :: "ModelPricingEntry list \<Rightarrow> string \<Rightarrow> ModelPricingEntry option" where
  "MatchPriceCard cards candidate = match_cards (NormalizePriceModelName candidate) cards None"

section \<open>Lemmas: validated intervals\<close>

abbreviation matches :: "int \<Rightarrow> PricingInterval \<Rightarrow> bool" where
  "matches n iv \<equiv> covers (ivMinTokens iv) (ivMaxTokens iv) n"

abbreviation before :: "PricingInterval \<Rightarrow> PricingInterval \<Rightarrow> bool" where
  "before a b \<equiv> (\<exists>m. ivMaxTokens a = Some m \<and> m \<le> ivMinTokens b)"

definition proper :: "PricingInterval \<Rightarrow> bool" where
  "proper iv = (0 \<le> ivMinTokens iv \<and> (case ivMaxTokens iv of None \<Rightarrow> True | Some m \<Rightarrow> ivMinTokens iv < m))"

text \<open>Intervals that each are proper and that follow one another when sorted.\<close>

definition disjoint_intervals :: "PricingInterval list \<Rightarrow> bool" where
  "disjoint_intervals ivs = (list_all proper ivs \<and> sorted_wrt before (sort_by by_min ivs))"

lemma FindMatchingInterval_find: "FindMatchingInterval ivs n = List.find (matches n) ivs"
  by (induction ivs) (simp_all add: covers_def)

lemma FindMatchingInterval_Some:
  "FindMatchingInterval ivs n = Some iv \<Longrightarrow> iv \<in> set ivs \<and> matches n iv"
  by (auto simp: FindMatchingInterval_find find_Some_iff in_set_conv_nth)

lemma FindMatchingInterval_None: "FindMatchingInterval ivs n = None \<longleftrightarrow> (\<forall>iv \<in> set ivs. \<not> matches n iv)"
  by (auto simp: FindMatchingInterval_find find_None_iff)

lemma validate_each_proper:
  "validate_each mode ls ivs = Ok () \<Longrightarrow> list_all (\<lambda>iv. ValidateSingleInterval iv = Ok ()) ivs"
  by (induction mode ls ivs rule: validate_each.induct) (auto split: if_splits option.splits sum.splits)

lemma ValidateSingleInterval_proper: "ValidateSingleInterval iv = Ok () \<Longrightarrow> proper iv"
  by (auto simp: ValidateSingleInterval_def proper_def split: if_splits option.splits)

lemma overlap_from_sorted:
  "overlap_from prev ivs = Ok () \<Longrightarrow> list_all proper ivs \<Longrightarrow>
     sorted_wrt before ivs \<and> (\<forall>p. prev = Some p \<longrightarrow> list_all (before p) ivs)"
proof (induction prev ivs rule: overlap_from.induct)
  case (2 prev iv ivs)
  have rest: "overlap_from (Some iv) ivs = Ok ()"
    using 2(3) by (auto split: if_splits option.splits)
  have "sorted_wrt before ivs \<and> list_all (before iv) ivs"
    using 2(3,4) 2(1,2) rest by (auto split: if_splits option.splits)
  moreover have "before p iv" if "prev = Some p" for p
    using 2(3) that by (auto split: if_splits option.splits)
  ultimately show ?case
    using 2(4) by (auto simp: list_all_iff proper_def) fastforce+
qed simp

lemma ValidateIntervals_disjoint:
  assumes "ValidateIntervals ivs mode = Ok ()" "\<not> unit_mode mode"
  shows "disjoint_intervals ivs"
proof (cases "ivs = []")
  case False
  let ?s = "sort_by by_min ivs"
  have each: "validate_each mode [] ?s = Ok ()" and over: "overlap_from None ?s = Ok ()"
    using assms False by (auto simp: ValidateIntervals_def ValidateIntervalOverlap_def Let_def split: sum.splits)
  have "list_all proper ?s"
    using validate_each_proper [OF each] ValidateSingleInterval_proper by (auto simp: list_all_iff)
  then show ?thesis
    using overlap_from_sorted [OF over] by (simp add: disjoint_intervals_def list_all_iff)
qed (simp add: disjoint_intervals_def)

lemma sorted_before_unique:
  "sorted_wrt before ivs \<Longrightarrow> a \<in> set ivs \<Longrightarrow> b \<in> set ivs \<Longrightarrow> matches n a \<Longrightarrow> matches n b \<Longrightarrow> a = b"
  by (induction ivs) (auto simp: covers_def)

lemma disjoint_intervals_unique:
  assumes "disjoint_intervals ivs" "a \<in> set ivs" "b \<in> set ivs" "matches n a" "matches n b"
  shows "a = b"
  using assms sorted_before_unique [of "sort_by by_min ivs" a b n] by (simp add: disjoint_intervals_def)

lemma disjoint_FindMatchingInterval:
  assumes "disjoint_intervals ivs" "iv \<in> set ivs" "matches n iv"
  shows "FindMatchingInterval ivs n = Some iv"
proof (cases "FindMatchingInterval ivs n")
  case None
  then show ?thesis using assms FindMatchingInterval_None by blast
next
  case (Some a)
  then show ?thesis using assms FindMatchingInterval_Some disjoint_intervals_unique by metis
qed

lemma disjoint_FindMatchingInterval_perm:
  assumes "disjoint_intervals ivs" "set ys = set ivs"
  shows "FindMatchingInterval ys n = FindMatchingInterval ivs n"
proof (cases "FindMatchingInterval ys n")
  case None
  then show ?thesis using FindMatchingInterval_None [of ys n] FindMatchingInterval_None [of ivs n] assms(2) by auto
next
  case (Some iv)
  then have "iv \<in> set ivs" "matches n iv" using FindMatchingInterval_Some assms(2) by blast+
  then show ?thesis using Some disjoint_FindMatchingInterval [OF assms(1)] by simp
qed

section \<open>Lemmas: matching a card\<close>

definition exact_card :: "string \<Rightarrow> ModelPricingEntry \<Rightarrow> bool" where
  "exact_card candidate e =
     (HasEffectivePricing (Some e) \<and> (\<exists>p \<in> set (ceModels e). NormalizePriceModelName p = candidate))"

definition wildcard_card :: "string \<Rightarrow> ModelPricingEntry \<Rightarrow> bool" where
  "wildcard_card candidate e =
     (HasEffectivePricing (Some e) \<and> (\<exists>p \<in> set (ceModels e). wildcard_match (NormalizePriceModelName p) candidate))"

lemma match_patterns_spec:
  "match_patterns c e ps w =
     (if \<exists>p \<in> set ps. NormalizePriceModelName p = c then Inl e
      else Inr (if w = None \<and> (\<exists>p \<in> set ps. wildcard_match (NormalizePriceModelName p) c) then Some e else w))"
  by (induction ps arbitrary: w) (auto simp: Let_def)

lemma match_cards_spec:
  "match_cards c es w =
     (case List.find (exact_card c) es of Some e \<Rightarrow> Some e
      | None \<Rightarrow> (case w of Some e \<Rightarrow> Some e | None \<Rightarrow> List.find (wildcard_card c) es))"
proof (induction es arbitrary: w)
  case (Cons e es)
  show ?case
    by (cases "HasEffectivePricing (Some e)"; cases w)
      (auto simp: Cons match_patterns_spec exact_card_def [of c e] wildcard_card_def [of c e] split: option.split)
qed (auto split: option.split)

end
