(* ===== verification/PriceTimes.thy ===== *)
theory PriceTimes
  imports PriceCards
begin

text \<open>
  Daily price schedules: internal/billing/pricing/time.go.  A schedule is parsed
  into periods of seconds since midnight, sorted and checked for overlap, and
  MultiplierAt reads the local clock of the instant.  The lemmas show that an
  accepted schedule has at most one period per second, so the charge factor does
  not depend on the order of the periods, and that it is never below 0.01.
\<close>

section \<open>Parsing\<close>

record ParsedPricingTimePeriod =
  ptStart :: int
  ptEnd :: int
  ptMultiplier :: f64

definition two_digits :: "char \<Rightarrow> char \<Rightarrow> int option" where
  "two_digits a b =
     (if is_digit a \<and> is_digit b then Some (10 * (of_char a - 48) + (of_char b - 48)) else None)"

definition in_clock :: "int \<Rightarrow> int \<Rightarrow> int \<Rightarrow> int option" where
  "in_clock h m s = (if h < 24 \<and> m < 60 \<and> s < 60 then Some (h * 60 * 60 + m * 60 + s) else None)"

text \<open>
  time.Parse with layout 15:04 (for five bytes) or 15:04:05, followed by the check
  that Format gives the text back: two digits per field, within the clock.
\<close>

fun parse_clock :: "string \<Rightarrow> int option" where
  "parse_clock [a, b, c, d, e] =
     (case (two_digits a b, two_digits d e) of
        (Some h, Some m) \<Rightarrow> if c = CHR '':'' then in_clock h m 0 else None
      | _ \<Rightarrow> None)"
| "parse_clock [a, b, c, d, e, f, g, h] =
     (case (two_digits a b, two_digits d e, two_digits g h) of
        (Some hh, Some mm, Some ss) \<Rightarrow> if c = CHR '':'' \<and> f = CHR '':'' then in_clock hh mm ss else None
      | _ \<Rightarrow> None)"
| "parse_clock _ = None"

definition ParsePricingTime :: "string \<Rightarrow> bool \<Rightarrow> (perror, int) result" where
  "ParsePricingTime value ending =
     (if ending \<and> (value = ''00:00'' \<or> value = ''00:00:00'') then Ok (24 * 60 * 60)
      else case parse_clock value of
        None \<Rightarrow> Err (Plain ''time must use HH:mm or HH:mm:ss format'')
      | Some s \<Rightarrow> Ok s)"

text \<open>math.Round: half away from zero.\<close>

fun fround :: "f64 \<Rightarrow> f64" where
  "fround (Fin x) = rnd (of_int (half_away x))"
| "fround a = a"

definition parse_period :: "TimePricingPeriod \<Rightarrow> (perror, ParsedPricingTimePeriod) result" where
  "parse_period p =
     (if ppMultiplier p = NaN \<or> is_inf (ppMultiplier p) \<or> fle (ppMultiplier p) f0 then
        Err (Plain ''multiplier must be finite and greater than 0'')
      else if flt (ppMultiplier p) (rnd (1 / 100)) then Err (Plain ''multiplier must be at least 0.01'')
      else
        let scaled = fmul (ppMultiplier p) (Fin 100) in
        if scaled = NaN \<or> is_inf scaled then Err (Plain ''multiplier must remain finite when scaled'')
        else if flt (rnd (1 / 10 ^ 9)) (fabs (fsub scaled (fround scaled))) then
          Err (Plain ''multiplier must have at most two decimal places'')
        else case ParsePricingTime (ppStartTime p) False of
          Inl e \<Rightarrow> Err e
        | Inr start \<Rightarrow>
            (case ParsePricingTime (ppEndTime p) True of
               Inl e \<Rightarrow> Err e
             | Inr finish \<Rightarrow>
                 if ppStartTime p = ppEndTime p \<or> start \<ge> finish then Err (Plain ''start time must be before end time'')
                 else Ok \<lparr>ptStart = start, ptEnd = finish, ptMultiplier = ppMultiplier p\<rparr>))"

fun parse_periods :: "TimePricingPeriod list \<Rightarrow> (perror, ParsedPricingTimePeriod list) result" where
  "parse_periods [] = Ok []"
| "parse_periods (p # ps) =
     (case parse_period p of Inl e \<Rightarrow> Err e
      | Inr q \<Rightarrow> (case parse_periods ps of Inl e \<Rightarrow> Err e | Inr qs \<Rightarrow> Ok (q # qs)))"

fun periods_overlap :: "ParsedPricingTimePeriod list \<Rightarrow> bool" where
  "periods_overlap (a # b # ps) = (ptStart b < ptEnd a \<or> periods_overlap (b # ps))"
| "periods_overlap _ = False"

definition by_start :: "ParsedPricingTimePeriod \<Rightarrow> ParsedPricingTimePeriod \<Rightarrow> bool" where
  "by_start a b = (ptStart a < ptStart b)"

definition ParsePricingTimePeriods :: "TimePricingPeriod list \<Rightarrow> (perror, ParsedPricingTimePeriod list) result" where
  "ParsePricingTimePeriods periods =
     (case parse_periods periods of
        Inl e \<Rightarrow> Err e
      | Inr parsed \<Rightarrow>
          let ordered = sort_by by_start parsed in
          if periods_overlap ordered then Err (Plain ''time pricing periods overlap'') else Ok ordered)"

definition ValidateTimePricingConfig :: "TimePricingConfig option \<Rightarrow> (perror, unit) result" where
  "ValidateTimePricingConfig config =
     (case config of
        None \<Rightarrow> Ok ()
      | Some c \<Rightarrow>
          if tpPeriods c = [] then Ok ()
          else case ParsePricingTimePeriods (tpPeriods c) of Inl e \<Rightarrow> Err e | Inr _ \<Rightarrow> Ok ())"

definition ValidateTimezoneName :: "string \<Rightarrow> (perror, unit) result" where
  "ValidateTimezoneName name =
     (if trim_space name = [] then Err (Plain ''timezone is required'')
      else if name = ''Local'' then Err (Plain ''local is not a supported timezone'')
      else Ok ())"

section \<open>The factor at an instant\<close>

fun period_multiplier :: "int \<Rightarrow> ParsedPricingTimePeriod list \<Rightarrow> f64" where
  "period_multiplier sec [] = Fin 1"
| "period_multiplier sec (p # ps) =
     (if sec \<ge> ptStart p \<and> sec < ptEnd p then ptMultiplier p else period_multiplier sec ps)"

definition MultiplierAt :: "TimePricingConfig option \<Rightarrow> gtime \<Rightarrow> location option \<Rightarrow> f64" where
  "MultiplierAt config inst place =
     (case config of
        None \<Rightarrow> Fin 1
      | Some c \<Rightarrow>
          if tpPeriods c = [] \<or> IsZero inst then Fin 1
          else case ValidateTimePricingConfig config of
            Inl e \<Rightarrow> Fin 1
          | Inr _ \<Rightarrow>
              (case place of
                 None \<Rightarrow> Fin 1
               | Some l \<Rightarrow>
                   (case ParsePricingTimePeriods (tpPeriods c) of
                      Inl e \<Rightarrow> Fin 1
                    | Inr periods \<Rightarrow>
                        let here = In inst l in
                        if tpWeekdaysOnly c \<and> (Weekday here = 6 \<or> Weekday here = 0) then Fin 1
                        else period_multiplier (local_sec here mod day_secs) periods)))"

section \<open>Lemmas\<close>

abbreviation in_period :: "int \<Rightarrow> ParsedPricingTimePeriod \<Rightarrow> bool" where
  "in_period sec p \<equiv> ptStart p \<le> sec \<and> sec < ptEnd p"

definition well_period :: "ParsedPricingTimePeriod \<Rightarrow> bool" where
  "well_period p =
     (ptStart p < ptEnd p \<and> fle (rnd (1 / 100)) (ptMultiplier p) \<and> \<not> is_inf (ptMultiplier p))"

lemma parse_period_well: "parse_period p = Ok q \<Longrightarrow> well_period q \<and> ptMultiplier q = ppMultiplier p"
  by (auto simp: parse_period_def well_period_def Let_def not_flt_iff split: if_splits sum.splits)

lemma parse_periods_well: "parse_periods ps = Ok qs \<Longrightarrow> list_all well_period qs"
  by (induction ps arbitrary: qs) (auto split: sum.splits dest: parse_period_well)

lemma parse_periods_mset:
  "parse_periods ps = Ok qs \<Longrightarrow> mset ps' = mset ps \<Longrightarrow> \<exists>qs'. parse_periods ps' = Ok qs' \<and> mset qs' = mset qs"
proof -
  assume ok: "parse_periods ps = Ok qs" and eq: "mset ps' = mset ps"
  have map: "parse_periods xs = Ok (map (\<lambda>p. projr (parse_period p)) xs)"
    if "\<forall>p \<in> set xs. \<not> isl (parse_period p)" for xs
    using that by (induction xs) (auto simp: sum.case_eq_if)
  have all: "(\<forall>p \<in> set ps. \<not> isl (parse_period p)) \<and> qs = map (\<lambda>p. projr (parse_period p)) ps"
    using ok by (induction ps arbitrary: qs) (auto split: sum.splits)
  then have "\<forall>p \<in> set ps'. \<not> isl (parse_period p)" using eq by (metis set_mset_mset)
  then show ?thesis using map [of ps'] all eq by (metis mset_map)
qed

lemma periods_overlap_sorted:
  "\<not> periods_overlap ps \<Longrightarrow> list_all well_period ps \<Longrightarrow> sorted_wrt (\<lambda>a b. ptEnd a \<le> ptStart b) ps"
proof (induction ps rule: periods_overlap.induct)
  case (1 a b ps)
  then have "sorted_wrt (\<lambda>a b. ptEnd a \<le> ptStart b) (b # ps)" "ptEnd a \<le> ptStart b" "well_period b" by auto
  then show ?case by (auto simp: well_period_def)
qed simp_all

lemma period_multiplier_unique:
  "sorted_wrt (\<lambda>a b. ptEnd a \<le> ptStart b) ps \<Longrightarrow> p \<in> set ps \<Longrightarrow> in_period sec p
     \<Longrightarrow> period_multiplier sec ps = ptMultiplier p"
  by (induction ps) auto

lemma period_multiplier_cases:
  "period_multiplier sec ps = Fin 1 \<or> (\<exists>p \<in> set ps. in_period sec p \<and> period_multiplier sec ps = ptMultiplier p)"
  by (induction ps) auto

lemma ParsePricingTimePeriods_Ok:
  assumes "ParsePricingTimePeriods ps = Ok qs"
  shows "list_all well_period qs" "sorted_wrt (\<lambda>a b. ptEnd a \<le> ptStart b) qs"
proof -
  obtain rs where rs: "parse_periods ps = Ok rs" "qs = sort_by by_start rs" "\<not> periods_overlap qs"
    using assms by (auto simp: ParsePricingTimePeriods_def Let_def split: sum.splits if_splits)
  then show "list_all well_period qs" using parse_periods_well by (auto simp: list_all_iff)
  then show "sorted_wrt (\<lambda>a b. ptEnd a \<le> ptStart b) qs" using rs(3) by (rule periods_overlap_sorted [rotated])
qed

lemma sorted_wrt_total: "sorted_wrt lt xs \<Longrightarrow> x \<in> set xs \<Longrightarrow> y \<in> set xs \<Longrightarrow> x \<noteq> y \<Longrightarrow> lt x y \<or> lt y x"
  by (induction xs) auto

lemma by_start_strict:
  assumes "list_all well_period xs" "sorted_wrt (\<lambda>a b. ptEnd a \<le> ptStart b) (sort_by by_start xs)"
  shows "strict_order_on (set xs) by_start"
proof -
  have "by_start x y \<or> by_start y x" if "x \<in> set xs" "y \<in> set xs" "x \<noteq> y" for x y
    using sorted_wrt_total [OF assms(2), of x y] that assms(1)
    by (fastforce simp: by_start_def well_period_def list_all_iff)
  then show ?thesis by (auto simp: strict_order_on_def by_start_def)
qed

text \<open>The order of the periods does not matter, also not to the unstable sort.\<close>

lemma ParsePricingTimePeriods_perm:
  assumes ok: "ParsePricingTimePeriods ps = Ok qs" and eq: "mset ps' = mset ps"
  shows "ParsePricingTimePeriods ps' = Ok qs"
proof -
  obtain rs where rs: "parse_periods ps = Ok rs" "qs = sort_by by_start rs" "\<not> periods_overlap qs"
    using ok by (auto simp: ParsePricingTimePeriods_def Let_def split: sum.splits if_splits)
  obtain rs' where rs': "parse_periods ps' = Ok rs'" "mset rs' = mset rs"
    using parse_periods_mset [OF rs(1) eq] by blast
  have "strict_order_on (set rs) by_start"
    using by_start_strict [OF parse_periods_well [OF rs(1)]] ParsePricingTimePeriods_Ok(2) [OF ok] rs(2) by simp
  then have "sort_by by_start rs' = qs" using sort_by_perm rs'(2) rs(2) by blast
  then show ?thesis using rs' rs(3) by (simp add: ParsePricingTimePeriods_def)
qed

lemma ParsePricingTimePeriods_perm_iff:
  "mset ps' = mset ps \<Longrightarrow> ParsePricingTimePeriods ps' = Ok qs \<longleftrightarrow> ParsePricingTimePeriods ps = Ok qs"
  using ParsePricingTimePeriods_perm by metis

lemma MultiplierAt_cases:
  "MultiplierAt config t l = Fin 1 \<or>
     (\<exists>c qs sec. config = Some c \<and> ParsePricingTimePeriods (tpPeriods c) = Ok qs
        \<and> MultiplierAt config t l = period_multiplier sec qs)"
  by (auto simp: MultiplierAt_def Let_def split: option.split sum.split)

theorem multiplier_at_bounds:
  "fle (rnd (1 / 100)) (MultiplierAt config t l) \<and> \<not> is_inf (MultiplierAt config t l)"
proof -
  have one: "fle (rnd (1 / 100)) (Fin 1) \<and> \<not> is_inf (Fin 1)"
    using rnd_mono [of "1 / 100" 1] by (simp add: is_inf_def)
  have "fle (rnd (1 / 100)) (period_multiplier sec qs) \<and> \<not> is_inf (period_multiplier sec qs)"
    if "ParsePricingTimePeriods ps = Ok qs" for ps qs sec
    using period_multiplier_cases [of sec qs] ParsePricingTimePeriods_Ok(1) [OF that] one
    by (auto simp: well_period_def list_all_iff)
  then show ?thesis using MultiplierAt_cases [of config t l] one by metis
qed

lemma MultiplierAt_Some:
  "MultiplierAt (Some c) t place =
     (if tpPeriods c = [] \<or> IsZero t then Fin 1
      else case (ParsePricingTimePeriods (tpPeriods c), place) of
        (Inr qs, Some l) \<Rightarrow>
          if tpWeekdaysOnly c \<and> (Weekday (In t l) = 6 \<or> Weekday (In t l) = 0) then Fin 1
          else period_multiplier (local_sec (In t l) mod day_secs) qs
      | _ \<Rightarrow> Fin 1)"
  by (cases "ParsePricingTimePeriods (tpPeriods c)"; cases place)
    (simp_all add: MultiplierAt_def ValidateTimePricingConfig_def Let_def)

text \<open>
  C17: The factor of a daily schedule at any instant does not depend on the order in which its
  periods are stored, although the source sorts them with an unstable sort: valid periods
  never share a start, so every order yields the same parsed schedule, and a schedule that is
  invalid in one order is invalid in every order and has no effect.
\<close>

theorem multiplier_order_independent:
  assumes "mset ps = mset (tpPeriods c)"
  shows "MultiplierAt (Some (c\<lparr>tpPeriods := ps\<rparr>)) t l = MultiplierAt (Some c) t l"
proof -
  have nil: "ps = [] \<longleftrightarrow> tpPeriods c = []" using assms by auto
  show ?thesis
  proof (cases "ParsePricingTimePeriods (tpPeriods c)")
    case (Inr qs)
    then have "ParsePricingTimePeriods ps = Ok qs" by (rule ParsePricingTimePeriods_perm [OF _ assms])
    then show ?thesis using Inr nil by (simp add: MultiplierAt_Some split: option.split)
  next
    case (Inl e)
    then have "ParsePricingTimePeriods ps \<noteq> Ok qs" for qs
      using ParsePricingTimePeriods_perm [OF _ assms [symmetric], of qs] by auto
    then obtain e' where "ParsePricingTimePeriods ps = Err e'" by (cases "ParsePricingTimePeriods ps") auto
    then show ?thesis using Inl nil by (simp add: MultiplierAt_Some)
  qed
qed

definition sample_schedule :: TimePricingConfig where
  "sample_schedule = \<lparr>tpTimezone = ''UTC'', tpWeekdaysOnly = False,
     tpPeriods = [\<lparr>ppStartTime = ''08:00'', ppEndTime = ''12:00'', ppMultiplier = Fin 2\<rparr>,
       \<lparr>ppStartTime = ''00:00'', ppEndTime = ''06:30'', ppMultiplier = Fin (1 / 2)\<rparr>]\<rparr>"

theorem multiplier_order_independent_witness:
  "MultiplierAt (Some (sample_schedule\<lparr>tpPeriods := rev (tpPeriods sample_schedule)\<rparr>))
       \<lparr>ns = 36000000000000, loc = utc\<rparr> (Some utc) =
     MultiplierAt (Some sample_schedule) \<lparr>ns = 36000000000000, loc = utc\<rparr> (Some utc)"
  by (rule multiplier_order_independent) simp

end
