(* ===== verification/TokenPrices.thy ===== *)
theory TokenPrices
  imports PriceTimes
begin

text \<open>
  Token prices and the cost of one usage: the ModelPricing, UsageTokens and
  CostBreakdown records of internal/billing/pricing/types.go and the calculator
  of calculate.go.  Float expressions are written in the order the source
  evaluates them, each operation rounded on its own; counts are integers whose
  sums the source requires to fit.  A negative user rate is clamped to zero, a
  positive aggregate of cache writes caps its details, and a configured Fast
  factor takes the place of priority amounts.
\<close>

section \<open>Records\<close>

text \<open>The scalar fields of ModelPricing; its context tiers make the type recursive.\<close>

record PriceAmounts =
  mpTimePricing :: "TimePricingConfig option"
  mpCatalogSource :: string
  mpPriorityInputPresent :: bool
  mpPriorityOutputPresent :: bool
  mpPriorityCacheReadPresent :: bool
  mpPriorityCacheWritePresent :: bool
  mpInputPrice :: f64
  mpInputPricePriority :: f64
  mpImageInputPrice :: f64
  mpOutputPrice :: f64
  mpOutputPricePriority :: f64
  mpCacheCreationPrice :: f64
  mpCacheCreationPricePriority :: f64
  mpCacheCreationPriceExplicit :: bool
  mpCacheReadPrice :: f64
  mpCacheReadPricePriority :: f64
  mpCacheCreation5mPrice :: f64
  mpCacheCreation1hPrice :: f64
  mpSupportsCacheBreakdown :: bool
  mpSupportsServiceTier :: bool
  mpFastModeMultiplier :: "f64 option"
  mpFastMultiplier :: "f64 option"
  mpFlexMultiplier :: "f64 option"
  mpMaxReasoningEffortMultiplier :: "f64 option"
  mpLongContextInputThreshold :: int
  mpLongContextThresholdInclusive :: bool
  mpLongContextInputMultiplier :: f64
  mpLongContextOutputMultiplier :: f64
  mpImageOutputPrice :: f64
  mpImageOutputPriceExplicit :: bool

datatype ModelPricing = ModelPricing (amounts: PriceAmounts) (ContextPrices: "ContextModelPrice list")
  and ContextModelPrice = ContextModelPrice (Threshold: int) (tierPricing: ModelPricing)

record UsageTokens =
  utInputTokens :: int
  utImageInputTokens :: int
  utOutputTokens :: int
  utCacheCreationTokens :: int
  utCacheReadTokens :: int
  utCacheCreation5mTokens :: int
  utCacheCreation1hTokens :: int
  utImageOutputTokens :: int

record CostBreakdown =
  cbInputCost :: f64
  cbImageInputCost :: f64
  cbOutputCost :: f64
  cbImageOutputCost :: f64
  cbCacheCreationCost :: f64
  cbCacheReadCost :: f64
  cbTotalCost :: f64
  cbActualCost :: f64
  cbBillingMode :: string
  cbLongContextBillingApplied :: bool

definition zero_cost :: CostBreakdown where
  "zero_cost = \<lparr>cbInputCost = f0, cbImageInputCost = f0, cbOutputCost = f0, cbImageOutputCost = f0,
     cbCacheCreationCost = f0, cbCacheReadCost = f0, cbTotalCost = f0, cbActualCost = f0,
     cbBillingMode = [], cbLongContextBillingApplied = False\<rparr>"

text \<open>float64(n).\<close>

definition float_of_int :: "int \<Rightarrow> f64" where
  "float_of_int n = rnd (of_int n)"

definition context_tokens :: "UsageTokens \<Rightarrow> int" where
  "context_tokens t = utInputTokens t + utCacheCreationTokens t + utCacheReadTokens t"

definition ErrModelPricingUnavailable :: perror where
  "ErrModelPricingUnavailable = Plain ''pricing not found''"

section \<open>Service tiers\<close>

definition NormalizeBillingServiceTier :: "string \<Rightarrow> string" where
  "NormalizeBillingServiceTier serviceTier = to_lower (trim_space serviceTier)"

definition fast_tier :: "string \<Rightarrow> bool" where
  "fast_tier serviceTier = (NormalizeBillingServiceTier serviceTier \<in> {''priority'', ''fast''})"

definition UsePriorityServiceTierPricing :: "string \<Rightarrow> PriceAmounts \<Rightarrow> bool" where
  "UsePriorityServiceTierPricing serviceTier p =
     (if \<not> fast_tier serviceTier then False
      else if mpFastModeMultiplier p \<noteq> None \<or> mpFastMultiplier p \<noteq> None then False
      else mpPriorityInputPresent p \<or> mpPriorityOutputPresent p \<or> mpPriorityCacheReadPresent p \<or>
        mpPriorityCacheWritePresent p \<or> flt f0 (mpInputPricePriority p) \<or> flt f0 (mpOutputPricePriority p) \<or>
        flt f0 (mpCacheCreationPricePriority p) \<or> flt f0 (mpCacheReadPricePriority p))"

text \<open>The Fast factor, None when none is configured (the source returns 1 and false).\<close>

definition NormalizedFastModeMultiplier :: "PriceAmounts \<Rightarrow> f64 option" where
  "NormalizedFastModeMultiplier p =
     (case (case mpFastModeMultiplier p of None \<Rightarrow> mpFastMultiplier p | Some m \<Rightarrow> Some m) of
        None \<Rightarrow> None
      | Some m \<Rightarrow> Some (if flt m f0 then f0 else m))"

definition ConfiguredServiceTierMultiplier :: "string \<Rightarrow> PriceAmounts \<Rightarrow> f64" where
  "ConfiguredServiceTierMultiplier serviceTier p =
     (if fast_tier serviceTier then
        (case NormalizedFastModeMultiplier p of Some m \<Rightarrow> m | None \<Rightarrow> Fin 1)
      else if NormalizeBillingServiceTier serviceTier = ''flex'' then
        (case mpFlexMultiplier p of Some m \<Rightarrow> m | None \<Rightarrow> Fin 1)
      else Fin 1)"

definition clamp_negative :: "f64 \<Rightarrow> f64" where
  "clamp_negative m = (if flt m f0 then f0 else m)"

definition ApplyConfigFastModeMultiplier :: "PriceAmounts \<Rightarrow> ModelPricingEntry \<Rightarrow> PriceAmounts" where
  "ApplyConfigFastModeMultiplier p c =
     (case (case ceFastMultiplier c of None \<Rightarrow> ceFastModeMultiplier c | Some m \<Rightarrow> Some m) of
        None \<Rightarrow> p
      | Some m \<Rightarrow>
          let multiplier = clamp_negative m in
          p\<lparr>mpFastModeMultiplier := Some multiplier, mpFastMultiplier := Some multiplier\<rparr>)"

definition ApplyConfigFlexMultiplier :: "PriceAmounts \<Rightarrow> ModelPricingEntry \<Rightarrow> PriceAmounts" where
  "ApplyConfigFlexMultiplier p c =
     (case ceFlexMultiplier c of None \<Rightarrow> p | Some m \<Rightarrow> p\<lparr>mpFlexMultiplier := Some (clamp_negative m)\<rparr>)"

text \<open>protocol.NormalizeClaudeOutputEffort.\<close>

definition NormalizeClaudeOutputEffort :: "string \<Rightarrow> string option" where
  "NormalizeClaudeOutputEffort raw =
     (let value = to_lower (trim_space raw) in
      if value \<in> {''low'', ''medium'', ''high'', ''xhigh'', ''max''} then Some value else None)"

definition MaxReasoningEffortBillingMultiplier :: "string \<Rightarrow> PriceAmounts \<Rightarrow> f64" where
  "MaxReasoningEffortBillingMultiplier effort p =
     (if NormalizeClaudeOutputEffort effort = None \<or> \<not> equal_fold (trim_space effort) ''max'' then Fin 1
      else case mpMaxReasoningEffortMultiplier p of
        Some m \<Rightarrow> if flt f0 m then m else Fin 1
      | None \<Rightarrow> Fin 1)"

definition ApplyCostBreakdownMultiplier :: "CostBreakdown \<Rightarrow> f64 \<Rightarrow> CostBreakdown" where
  "ApplyCostBreakdownMultiplier cost m =
     (if m = Fin 1 then cost
      else cost\<lparr>cbInputCost := fmul (cbInputCost cost) m, cbImageInputCost := fmul (cbImageInputCost cost) m,
        cbOutputCost := fmul (cbOutputCost cost) m, cbImageOutputCost := fmul (cbImageOutputCost cost) m,
        cbCacheCreationCost := fmul (cbCacheCreationCost cost) m, cbCacheReadCost := fmul (cbCacheReadCost cost) m,
        cbTotalCost := fmul (cbTotalCost cost) m, cbActualCost := fmul (cbActualCost cost) m\<rparr>)"

section \<open>Card amounts over catalog amounts\<close>

definition ConfigTierOverridePrice :: "f64 \<Rightarrow> f64 \<Rightarrow> f64 \<Rightarrow> f64" where
  "ConfigTierOverridePrice baseStandard baseTier configStandard =
     (if flt f0 baseStandard \<and> flt f0 baseTier then fmul configStandard (fdiv baseTier baseStandard) else f0)"

definition applyConfigImagePriceOverrides :: "ModelPricingEntry \<Rightarrow> PriceAmounts \<Rightarrow> PriceAmounts" where
  "applyConfigImagePriceOverrides c p =
     p\<lparr>mpImageOutputPrice := (case ceImageOutputPrice c of Some x \<Rightarrow> x | None \<Rightarrow> f0),
       mpImageOutputPriceExplicit := True,
       mpImageInputPrice := (case ceImageInputPrice c of Some x \<Rightarrow> x | None \<Rightarrow> f0)\<rparr>"

text \<open>One replaced bucket: the priority amount follows the standard amount by the old ratio.\<close>

definition set_input :: "f64 \<Rightarrow> PriceAmounts \<Rightarrow> PriceAmounts" where
  "set_input x p =
     p\<lparr>mpInputPrice := x, mpInputPricePriority := ConfigTierOverridePrice (mpInputPrice p) (mpInputPricePriority p) x\<rparr>"

definition set_output :: "f64 \<Rightarrow> PriceAmounts \<Rightarrow> PriceAmounts" where
  "set_output x p =
     p\<lparr>mpOutputPrice := x, mpOutputPricePriority := ConfigTierOverridePrice (mpOutputPrice p) (mpOutputPricePriority p) x\<rparr>"

definition set_cache_write :: "bool \<Rightarrow> f64 \<Rightarrow> PriceAmounts \<Rightarrow> PriceAmounts" where
  "set_cache_write hourly_absent x p =
     (let p = p\<lparr>mpCacheCreationPrice := x,
            mpCacheCreationPricePriority := ConfigTierOverridePrice (mpCacheCreationPrice p) (mpCacheCreationPricePriority p) x,
            mpCacheCreationPriceExplicit := True, mpCacheCreation5mPrice := x\<rparr>
      in if hourly_absent then p\<lparr>mpCacheCreation1hPrice := x\<rparr> else p)"

definition set_cache_write_1h :: "f64 \<Rightarrow> PriceAmounts \<Rightarrow> PriceAmounts" where
  "set_cache_write_1h x p = p\<lparr>mpCacheCreation1hPrice := x, mpSupportsCacheBreakdown := True\<rparr>"

definition set_cache_read :: "f64 \<Rightarrow> PriceAmounts \<Rightarrow> PriceAmounts" where
  "set_cache_read x p =
     p\<lparr>mpCacheReadPrice := x,
       mpCacheReadPricePriority := ConfigTierOverridePrice (mpCacheReadPrice p) (mpCacheReadPricePriority p) x\<rparr>"

definition on_some :: "('a \<Rightarrow> 'b \<Rightarrow> 'b) \<Rightarrow> 'a option \<Rightarrow> 'b \<Rightarrow> 'b" where
  "on_some f x b = (case x of None \<Rightarrow> b | Some a \<Rightarrow> f a b)"

definition override_amounts :: "ModelPricingEntry \<Rightarrow> PriceAmounts \<Rightarrow> PriceAmounts" where
  "override_amounts c p =
     (let p = on_some set_input (ceInputPrice c) p;
          p = on_some set_output (ceOutputPrice c) p;
          p = on_some (set_cache_write (ceCacheWrite1hPrice c = None)) (ceCacheWritePrice c) p;
          p = on_some set_cache_write_1h (ceCacheWrite1hPrice c) p;
          p = on_some set_cache_read (ceCacheReadPrice c) p
      in applyConfigImagePriceOverrides c p)"

primrec ApplyConfigTokenPriceOverrides :: "ModelPricingEntry \<Rightarrow> ModelPricing \<Rightarrow> ModelPricing"
  and override_tier :: "ModelPricingEntry \<Rightarrow> ContextModelPrice \<Rightarrow> ContextModelPrice" where
  "ApplyConfigTokenPriceOverrides c (ModelPricing a tiers) = ModelPricing (override_amounts c a) (map (override_tier c) tiers)"
| "override_tier c (ContextModelPrice t p) = ContextModelPrice t (ApplyConfigTokenPriceOverrides c p)"

section \<open>Cache creation\<close>

text \<open>int(f) for a float in range.\<close>

definition int_of_float :: "f64 \<Rightarrow> int" where
  "int_of_float a = (case a of Fin x \<Rightarrow> (if x < 0 then - \<lfloor>- x\<rfloor> else \<lfloor>x\<rfloor>) | _ \<Rightarrow> 0)"

definition NormalizeCacheCreationBreakdown :: "UsageTokens \<Rightarrow> int \<times> int" where
  "NormalizeCacheCreationBreakdown t =
     (let c5m = (if utCacheCreation5mTokens t < 0 then 0 else utCacheCreation5mTokens t);
          c1h = (if utCacheCreation1hTokens t < 0 then 0 else utCacheCreation1hTokens t);
          aggregate = utCacheCreationTokens t
      in if aggregate \<le> 0 \<or> (c5m \<le> aggregate \<and> c1h \<le> aggregate - c5m) then (c5m, c1h)
         else
           let detailTotal = fadd (float_of_int c5m) (float_of_int c1h);
               normalized5m = fround (fdiv (fmul (float_of_int aggregate) (float_of_int c5m)) detailTotal);
               c5m = (if fle (float_of_int aggregate) normalized5m then aggregate else int_of_float normalized5m)
           in (c5m, aggregate - c5m))"

definition ComputeCacheCreationCost :: "PriceAmounts \<Rightarrow> UsageTokens \<Rightarrow> f64 \<Rightarrow> f64 \<Rightarrow> f64" where
  "ComputeCacheCreationCost p t price multiplier =
     (if mpSupportsCacheBreakdown p \<and> (flt f0 (mpCacheCreation5mPrice p) \<or> flt f0 (mpCacheCreation1hPrice p)) then
        (case NormalizeCacheCreationBreakdown t of (c5m, c1h) \<Rightarrow>
           if c5m = 0 \<and> c1h = 0 \<and> utCacheCreationTokens t > 0 then
             fmul (fmul (float_of_int (utCacheCreationTokens t)) (mpCacheCreation5mPrice p)) multiplier
           else
             fadd (fmul (fmul (float_of_int c5m) (mpCacheCreation5mPrice p)) multiplier)
                  (fmul (fmul (float_of_int c1h) (mpCacheCreation1hPrice p)) multiplier))
      else fmul (fmul (float_of_int (utCacheCreationTokens t)) price) multiplier)"

section \<open>Long context\<close>

definition LongContextMultiplierOrOne :: "f64 \<Rightarrow> f64" where
  "LongContextMultiplierOrOne m = (if fle m f0 then Fin 1 else m)"

definition ShouldApplySessionLongContextPricing :: "UsageTokens \<Rightarrow> PriceAmounts \<Rightarrow> bool" where
  "ShouldApplySessionLongContextPricing t p =
     (if mpLongContextInputThreshold p \<le> 0 then False
      else if fle (mpLongContextInputMultiplier p) (Fin 1) \<and> fle (mpLongContextOutputMultiplier p) (Fin 1) then False
      else if mpLongContextThresholdInclusive p then context_tokens t \<ge> mpLongContextInputThreshold p
      else context_tokens t > mpLongContextInputThreshold p)"

section \<open>The breakdown of a usage\<close>

record SelectedPrices =
  spInput :: f64
  spOutput :: f64
  spCacheRead :: f64
  spCacheCreation :: f64
  spTierMultiplier :: f64

definition select_prices :: "PriceAmounts \<Rightarrow> string \<Rightarrow> SelectedPrices" where
  "select_prices p serviceTier =
     (let base = \<lparr>spInput = mpInputPrice p, spOutput = mpOutputPrice p, spCacheRead = mpCacheReadPrice p,
            spCacheCreation = mpCacheCreationPrice p, spTierMultiplier = Fin 1\<rparr>
      in if fast_tier serviceTier then
           (case NormalizedFastModeMultiplier p of
              Some fastMultiplier \<Rightarrow> base\<lparr>spTierMultiplier := fastMultiplier\<rparr>
            | None \<Rightarrow>
                if UsePriorityServiceTierPricing serviceTier p then
                  \<lparr>spInput = (if flt f0 (mpInputPricePriority p) \<or> mpPriorityInputPresent p
                     then mpInputPricePriority p else mpInputPrice p),
                   spOutput = (if flt f0 (mpOutputPricePriority p) \<or> mpPriorityOutputPresent p
                     then mpOutputPricePriority p else mpOutputPrice p),
                   spCacheRead = (if flt f0 (mpCacheReadPricePriority p) \<or> mpPriorityCacheReadPresent p
                     then mpCacheReadPricePriority p else mpCacheReadPrice p),
                   spCacheCreation = (if flt f0 (mpCacheCreationPricePriority p) \<or> mpPriorityCacheWritePresent p
                     then mpCacheCreationPricePriority p else mpCacheCreationPrice p),
                   spTierMultiplier = Fin 1\<rparr>
                else base\<lparr>spTierMultiplier := ConfiguredServiceTierMultiplier serviceTier p\<rparr>)
         else base\<lparr>spTierMultiplier := ConfiguredServiceTierMultiplier serviceTier p\<rparr>)"

text \<open>Image input is a part of the input, capped there; the rest is text.\<close>

definition split_input :: "UsageTokens \<Rightarrow> int \<times> int" where
  "split_input t =
     (if utInputTokens t - utImageInputTokens t < 0 then (0, utInputTokens t)
      else (utInputTokens t - utImageInputTokens t, utImageInputTokens t))"

definition scale_components :: "f64 \<Rightarrow> CostBreakdown \<Rightarrow> CostBreakdown" where
  "scale_components m bd =
     (if m = Fin 1 then bd
      else bd\<lparr>cbInputCost := fmul (cbInputCost bd) m, cbImageInputCost := fmul (cbImageInputCost bd) m,
        cbOutputCost := fmul (cbOutputCost bd) m, cbImageOutputCost := fmul (cbImageOutputCost bd) m,
        cbCacheCreationCost := fmul (cbCacheCreationCost bd) m, cbCacheReadCost := fmul (cbCacheReadCost bd) m\<rparr>)"

definition component_sum :: "CostBreakdown \<Rightarrow> f64" where
  "component_sum bd =
     fadd (fadd (fadd (fadd (fadd (cbInputCost bd) (cbImageInputCost bd)) (cbOutputCost bd)) (cbImageOutputCost bd))
       (cbCacheCreationCost bd)) (cbCacheReadCost bd)"

text \<open>The part of ComputeTokenBreakdown after the prices and factors are known, before the tier factor.\<close>

definition unscaled_components ::
  "PriceAmounts \<Rightarrow> UsageTokens \<Rightarrow> string \<Rightarrow> SelectedPrices \<Rightarrow> f64 \<Rightarrow> CostBreakdown" where
  "unscaled_components p t serviceTier sp cacheCreationMultiplier =
     (let bd = (if utImageInputTokens t > 0 then
                  (case split_input t of (textTokens, imageTokens) \<Rightarrow>
                     zero_cost\<lparr>cbInputCost := fmul (float_of_int textTokens) (spInput sp),
                       cbImageInputCost := fmul (float_of_int imageTokens)
                         (if mpImageInputPrice p = f0 then spInput sp else mpImageInputPrice p)\<rparr>)
                else zero_cost\<lparr>cbInputCost := fmul (float_of_int (utInputTokens t)) (spInput sp)\<rparr>);
          textOutputTokens = max (utOutputTokens t - utImageOutputTokens t) 0;
          bd = bd\<lparr>cbOutputCost := fmul (float_of_int textOutputTokens) (spOutput sp)\<rparr>;
          bd = (if utImageOutputTokens t > 0 then
                  bd\<lparr>cbImageOutputCost := fmul (float_of_int (utImageOutputTokens t))
                       (if mpImageOutputPrice p = f0 \<and> \<not> mpImageOutputPriceExplicit p then spOutput sp
                        else mpImageOutputPrice p)\<rparr>
                else bd);
          cacheCreationMultiplier =
            (if UsePriorityServiceTierPricing serviceTier p \<and> mpSupportsCacheBreakdown p \<and>
                flt f0 (mpCacheCreationPrice p) \<and> mpPriorityCacheWritePresent p
             then fmul cacheCreationMultiplier (fdiv (spCacheCreation sp) (mpCacheCreationPrice p))
             else cacheCreationMultiplier)
      in bd\<lparr>cbCacheCreationCost := ComputeCacheCreationCost p t (spCacheCreation sp) cacheCreationMultiplier,
            cbCacheReadCost := fmul (float_of_int (utCacheReadTokens t)) (spCacheRead sp)\<rparr>)"

definition priced_components ::
  "PriceAmounts \<Rightarrow> UsageTokens \<Rightarrow> string \<Rightarrow> SelectedPrices \<Rightarrow> f64 \<Rightarrow> CostBreakdown" where
  "priced_components p t serviceTier sp cacheCreationMultiplier =
     scale_components (spTierMultiplier sp) (unscaled_components p t serviceTier sp cacheCreationMultiplier)"

definition with_totals :: "f64 \<Rightarrow> CostBreakdown \<Rightarrow> CostBreakdown" where
  "with_totals rate bd =
     bd\<lparr>cbTotalCost := component_sum bd, cbActualCost := fmul (component_sum bd) rate\<rparr>"

text \<open>The prices of the long-context branch.\<close>

definition long_context_prices :: "PriceAmounts \<Rightarrow> SelectedPrices \<Rightarrow> SelectedPrices" where
  "long_context_prices p sp =
     (let m = LongContextMultiplierOrOne (mpLongContextInputMultiplier p) in
      sp\<lparr>spInput := fmul (spInput sp) m,
         spOutput := fmul (spOutput sp) (LongContextMultiplierOrOne (mpLongContextOutputMultiplier p)),
         spCacheRead := fmul (spCacheRead sp) m\<rparr>)"

definition exceeded_tier :: "int \<Rightarrow> ContextModelPrice list \<Rightarrow> ModelPricing option" where
  "exceeded_tier input tiers =
     foldl (\<lambda>selected tier. if input > Threshold tier then Some (tierPricing tier) else selected) None tiers"

text \<open>A selected tier inherits the service-tier factors of the base record.\<close>

definition inherit_modifiers :: "PriceAmounts \<Rightarrow> ModelPricing \<Rightarrow> ModelPricing" where
  "inherit_modifiers base tier =
     ModelPricing
       ((amounts tier)\<lparr>mpFastModeMultiplier := mpFastModeMultiplier base, mpFastMultiplier := mpFastMultiplier base,
          mpFlexMultiplier := mpFlexMultiplier base,
          mpMaxReasoningEffortMultiplier := mpMaxReasoningEffortMultiplier base\<rparr>)
       (ContextPrices tier)"

function ComputeTokenBreakdown :: "ModelPricing \<Rightarrow> UsageTokens \<Rightarrow> f64 \<Rightarrow> string \<Rightarrow> bool \<Rightarrow> CostBreakdown" where
  "ComputeTokenBreakdown pricing t rate serviceTier applyLongCtx =
     (case (if applyLongCtx then exceeded_tier (context_tokens t) (ContextPrices pricing) else None) of
        Some selected \<Rightarrow>
          let cost = ComputeTokenBreakdown (inherit_modifiers (amounts pricing) selected) t rate serviceTier False
          in cost\<lparr>cbLongContextBillingApplied :=
               flt (cbActualCost (ComputeTokenBreakdown pricing t rate serviceTier False)) (cbActualCost cost)\<rparr>
      | None \<Rightarrow>
          let p = amounts pricing;
              rate = clamp_negative rate;
              sp = select_prices p serviceTier
          in if applyLongCtx \<and> ShouldApplySessionLongContextPricing t p then
               let baseline = ComputeTokenBreakdown pricing t rate serviceTier False;
                   bd = with_totals rate (priced_components p t serviceTier (long_context_prices p sp)
                          (LongContextMultiplierOrOne (mpLongContextInputMultiplier p)))
               in bd\<lparr>cbLongContextBillingApplied := flt (cbActualCost baseline) (cbActualCost bd)\<rparr>
             else with_totals rate (priced_components p t serviceTier sp (Fin 1)))"
  by pat_completeness auto
termination
  by (relation "measure (\<lambda>(_, _, _, _, applyLongCtx). if applyLongCtx then 1 else 0)") (auto split: if_splits)

declare ComputeTokenBreakdown.simps [simp del]

end
