(* ===== verification/TokenCosts.thy ===== *)
theory TokenCosts
  imports TokenPrices
begin

text \<open>
  What a token cost can be: bounds of float expressions by powers of two, the
  split of cache writes into their details, the split of the input, and the
  soundness of ComputeTokenBreakdown: with amounts of a wide range and counts that
  fit an int, every component and both totals are finite and never negative.
\<close>

named_theorems below2_intros "bounds of float expressions by powers of two"

section \<open>Floats between zero and a power of two\<close>

definition below2 :: "nat \<Rightarrow> f64 \<Rightarrow> bool" where
  "below2 k a = (case a of Fin x \<Rightarrow> 0 \<le> x \<and> x \<le> 2 ^ k | _ \<Rightarrow> False)"

lemma below2_Fin [simp]: "below2 k (Fin x) \<longleftrightarrow> 0 \<le> x \<and> x \<le> 2 ^ k"
  by (simp add: below2_def)

lemma below2E:
  assumes "below2 k a"
  obtains x where "a = Fin x" "0 \<le> x" "x \<le> 2 ^ k"
  using assms by (cases a) (auto simp: below2_def)

lemma below2_nonneg: "below2 k a \<Longrightarrow> fle f0 a \<and> a \<noteq> PInf"
  by (auto elim: below2E)

lemma below2_mono: "below2 j a \<Longrightarrow> j \<le> k \<Longrightarrow> below2 k a"
  using order_trans [OF _ power_increasing [of j k "2 :: rat"]] by (fastforce elim!: below2E)

lemma rnd_power2: "k \<le> 1023 \<Longrightarrow> rnd (2 ^ k) = Fin (2 ^ k)"
proof (rule rnd_exact)
  show "representable (2 ^ k)"
    unfolding representable_def by (intro exI [of _ 1] exI [of _ "int k"]) (simp add: power_int_def)
  assume "k \<le> 1023"
  then have "(2 :: rat) ^ k \<le> 2 ^ 1023" by (intro power_increasing) simp_all
  then show "\<bar>2 ^ k :: rat\<bar> < 2 ^ 1024" by (simp add: power_abs)
qed

lemma below2_rnd: "0 \<le> x \<Longrightarrow> x \<le> 2 ^ k \<Longrightarrow> k \<le> 1023 \<Longrightarrow> below2 k (rnd x)"
  using rnd_mono [of 0 x] rnd_mono [of x "2 ^ k"] rnd_power2 [of k]
  by (cases "rnd x") (auto simp: below2_def)

lemma below2_fmul: "below2 j a \<Longrightarrow> below2 k b \<Longrightarrow> j + k \<le> n \<Longrightarrow> n \<le> 1023 \<Longrightarrow> below2 n (fmul a b)"
proof -
  assume a: "below2 j a" and b: "below2 k b" and n: "j + k \<le> n" "n \<le> 1023"
  obtain x y where xy: "a = Fin x" "b = Fin y" "0 \<le> x" "0 \<le> y" "x \<le> 2 ^ j" "y \<le> 2 ^ k"
    using a b by (auto elim!: below2E)
  have "x * y \<le> 2 ^ j * 2 ^ k" using xy by (intro mult_mono) auto
  also have "\<dots> \<le> 2 ^ n" using n power_increasing [of "j + k" n "2 :: rat"] by (simp add: power_add)
  finally show ?thesis using xy n by (auto simp: fmul_def intro: below2_rnd)
qed

lemma below2_fadd: "below2 j a \<Longrightarrow> below2 j b \<Longrightarrow> j < n \<Longrightarrow> n \<le> 1023 \<Longrightarrow> below2 n (fadd a b)"
proof -
  assume a: "below2 j a" and b: "below2 j b" and n: "j < n" "n \<le> 1023"
  obtain x y where xy: "a = Fin x" "b = Fin y" "0 \<le> x" "0 \<le> y" "x \<le> 2 ^ j" "y \<le> 2 ^ j"
    using a b by (auto elim!: below2E)
  have "(2 :: rat) ^ Suc j \<le> 2 ^ n" using n by (intro power_increasing) auto
  then show ?thesis using xy n by (auto intro: below2_rnd)
qed

lemma below2_float_of_int: "0 \<le> n \<Longrightarrow> n < 2 ^ 63 \<Longrightarrow> below2 63 (float_of_int n)"
proof -
  assume n: "0 \<le> n" "n < 2 ^ 63"
  then have "(of_int n :: rat) \<le> of_int (2 ^ 63)" by (simp only: of_int_le_iff)
  then show ?thesis using n(1) unfolding float_of_int_def by (intro below2_rnd) simp_all
qed

lemma below2_clamp: "below2 k m \<Longrightarrow> below2 k (clamp_negative m)"
  by (auto simp: clamp_negative_def)

lemma clamp_negative_nonneg: "m \<noteq> NaN \<Longrightarrow> fle f0 (clamp_negative m)"
  by (cases m) (auto simp: clamp_negative_def)

section \<open>The details of cache writes\<close>

lemma float_of_int_pos: "0 < n \<Longrightarrow> n < 2 ^ 63 \<Longrightarrow> \<exists>x. float_of_int n = Fin x \<and> 1 \<le> x"
proof -
  assume n: "0 < n" "n < 2 ^ 63"
  have "1 \<le> (of_int n :: rat)" using n by simp
  then have "fle (Fin 1) (float_of_int n)" using rnd_mono [of 1 "of_int n"] by (simp add: float_of_int_def)
  moreover obtain x where "float_of_int n = Fin x"
    using below2_float_of_int [of n] n by (auto elim: below2E)
  ultimately show ?thesis by auto
qed

lemma detail_total_pos:
  assumes "0 \<le> a" "0 \<le> b" "0 < a \<or> 0 < b" "a < 2 ^ 63" "b < 2 ^ 63"
  shows "\<exists>d. fadd (float_of_int a) (float_of_int b) = Fin d \<and> 0 < d"
proof -
  obtain x y where xy: "float_of_int a = Fin x" "float_of_int b = Fin y" "0 \<le> x" "0 \<le> y"
    using below2_float_of_int [of a] below2_float_of_int [of b] assms by (auto elim!: below2E)
  have "1 \<le> x \<or> 1 \<le> y" using float_of_int_pos [of a] float_of_int_pos [of b] assms xy by auto
  then have "1 \<le> x + y" using xy by auto
  then have "fle (Fin 1) (rnd (x + y))" using rnd_mono [of 1 "x + y"] by simp
  moreover have "below2 64 (fadd (float_of_int a) (float_of_int b))"
    using assms by (intro below2_fadd [OF below2_float_of_int below2_float_of_int]) auto
  ultimately show ?thesis using xy by (auto elim!: below2E)
qed

text \<open>A rounded share below the float of the aggregate is at most the aggregate.\<close>

lemma share_bounds:
  assumes "fle f0 v" "\<not> fle (float_of_int n) (fround v)" "0 \<le> n"
  shows "0 \<le> int_of_float (fround v) \<and> int_of_float (fround v) \<le> n"
proof (cases v)
  case (Fin x)
  let ?h = "rat_of_int (half_away x)"
  have x: "0 \<le> x" using assms(1) Fin by simp
  have "0 \<le> half_away x" using x by (simp add: half_away_def)
  then have pos: "fle f0 (rnd ?h)" by (intro rnd_nonneg) simp
  have lt: "flt (rnd ?h) (float_of_int n)"
    using assms(2) Fin by (simp add: not_fle_iff float_of_int_def)
  then obtain y where y: "rnd ?h = Fin y" "0 \<le> y" using pos
    by (cases "rnd ?h"; cases "float_of_int n") auto
  have "y \<le> of_int n"
  proof (rule ccontr)
    assume "\<not> y \<le> of_int n"
    then have "fle (float_of_int n) (rnd y)" unfolding float_of_int_def by (intro rnd_mono) simp
    moreover have "rnd y = Fin y" using rnd_is_f64 [of ?h] y by (simp add: is_f64_def)
    ultimately show False using lt y fle_flt_trans [of "float_of_int n" "Fin y" "float_of_int n"] by simp
  qed
  then have "\<lfloor>y\<rfloor> \<le> n" by linarith
  then show ?thesis using Fin y by (simp add: int_of_float_def)
qed (use assms in \<open>auto simp: float_of_int_def fle_refl\<close>)

definition valid_counts :: "UsageTokens \<Rightarrow> bool" where
  "valid_counts t =
     (\<forall>n \<in> {utInputTokens t, utImageInputTokens t, utOutputTokens t, utCacheCreationTokens t, utCacheReadTokens t,
        utCacheCreation5mTokens t, utCacheCreation1hTokens t, utImageOutputTokens t}. n < 2 ^ 63)"


lemma cache_details:
  assumes "valid_counts t" "0 < utCacheCreationTokens t" "NormalizeCacheCreationBreakdown t = (c5m, c1h)"
  shows "0 \<le> c5m \<and> 0 \<le> c1h \<and> c5m + c1h \<le> utCacheCreationTokens t \<and>
    (if max 0 (utCacheCreation5mTokens t) + max 0 (utCacheCreation1hTokens t) \<le> utCacheCreationTokens t
     then c5m = max 0 (utCacheCreation5mTokens t) \<and> c1h = max 0 (utCacheCreation1hTokens t)
     else c5m + c1h = utCacheCreationTokens t)"
proof -
  define a where "a = max 0 (utCacheCreation5mTokens t)"
  define b where "b = max 0 (utCacheCreation1hTokens t)"
  let ?n = "utCacheCreationTokens t"
  have ab: "0 \<le> a" "0 \<le> b" "a < 2 ^ 63" "b < 2 ^ 63" "?n < 2 ^ 63"
    using assms(1) by (auto simp: a_def b_def valid_counts_def)
  have clamp: "(if utCacheCreation5mTokens t < 0 then 0 else utCacheCreation5mTokens t) = a"
    "(if utCacheCreation1hTokens t < 0 then 0 else utCacheCreation1hTokens t) = b"
    by (auto simp: a_def b_def)
  show ?thesis
  proof (cases "a + b \<le> ?n")
    case True
    then have "(c5m, c1h) = (a, b)"
      using assms(2) ab assms(3) [symmetric] by (simp add: NormalizeCacheCreationBreakdown_def Let_def clamp)
    then show ?thesis using True ab by (simp flip: a_def b_def)
  next
    case False
    let ?v = "fdiv (fmul (float_of_int ?n) (float_of_int a)) (fadd (float_of_int a) (float_of_int b))"
    have res: "c5m = (if fle (float_of_int ?n) (fround ?v) then ?n else int_of_float (fround ?v))" "c1h = ?n - c5m"
      using assms(2) False assms(3) [symmetric] by (auto simp: NormalizeCacheCreationBreakdown_def Let_def clamp)
    obtain d where d: "fadd (float_of_int a) (float_of_int b) = Fin d" "0 < d"
    proof -
      have "0 < a \<or> 0 < b" using assms(2) False by linarith
      from detail_total_pos [OF ab(1,2) this ab(3,4)] show thesis using that by blast
    qed
    obtain x where "fmul (float_of_int ?n) (float_of_int a) = Fin x" "0 \<le> x"
      using below2_fmul [OF below2_float_of_int [of ?n] below2_float_of_int [of a], of 126] ab assms(2) by (auto elim!: below2E)
    then have "fle f0 ?v" using d by (auto simp: fdiv_def intro: rnd_nonneg)
    then have "0 \<le> c5m \<and> c5m \<le> ?n" using res(1) share_bounds [of ?v ?n] assms(2) by auto
    then show ?thesis using res(2) False by (simp flip: a_def b_def)
  qed
qed

text \<open>
  A positive aggregate of cache writes caps its details: NormalizeCacheCreationBreakdown
  never returns a negative count nor details beyond the aggregate, and over-reported details
  are redistributed to exactly the aggregate, for all counts that fit an int, float rounding
  included; details within the aggregate are kept.
\<close>

theorem cache_details_capped:
  assumes "valid_counts t" "0 < utCacheCreationTokens t" "NormalizeCacheCreationBreakdown t = (c5m, c1h)"
  shows "0 \<le> c5m \<and> 0 \<le> c1h \<and> c5m + c1h \<le> utCacheCreationTokens t \<and>
    (if max 0 (utCacheCreation5mTokens t) + max 0 (utCacheCreation1hTokens t) \<le> utCacheCreationTokens t
     then c5m = max 0 (utCacheCreation5mTokens t) \<and> c1h = max 0 (utCacheCreation1hTokens t)
     else c5m + c1h = utCacheCreationTokens t)"
  by (rule cache_details [OF assms])

definition sample_tokens :: UsageTokens where
  "sample_tokens = \<lparr>utInputTokens = 1000, utImageInputTokens = 0, utOutputTokens = 200, utCacheCreationTokens = 10,
     utCacheReadTokens = 300, utCacheCreation5mTokens = 7, utCacheCreation1hTokens = 8, utImageOutputTokens = 0\<rparr>"

theorem cache_details_capped_witness:
  "\<exists>c5m c1h. NormalizeCacheCreationBreakdown sample_tokens = (c5m, c1h) \<and> 0 \<le> c5m \<and> 0 \<le> c1h \<and> c5m + c1h = 10"
proof -
  obtain a b where ab: "NormalizeCacheCreationBreakdown sample_tokens = (a, b)" by fastforce
  have "valid_counts sample_tokens" "0 < utCacheCreationTokens sample_tokens"
    by (simp_all add: valid_counts_def sample_tokens_def)
  from cache_details_capped [OF this ab] show ?thesis
    using ab by (simp add: sample_tokens_def)
qed

section \<open>Sound amounts give sound costs\<close>

text \<open>An amount is free or between 2^-100 and 2^40 dollars; a factor is at most 2^40.\<close>

definition money :: "f64 \<Rightarrow> bool" where
  "money x = (case x of Fin r \<Rightarrow> r = 0 \<or> (1 / 2 ^ 100 \<le> r \<and> r \<le> 2 ^ 40) | _ \<Rightarrow> False)"

definition context_factor :: "f64 \<Rightarrow> bool" where
  "context_factor m = (case m of Fin r \<Rightarrow> r \<le> 2 ^ 40 | _ \<Rightarrow> False)"

definition sound_amounts :: "PriceAmounts \<Rightarrow> bool" where
  "sound_amounts p =
     (list_all money [mpInputPrice p, mpInputPricePriority p, mpImageInputPrice p, mpOutputPrice p, mpOutputPricePriority p,
        mpCacheCreationPrice p, mpCacheCreationPricePriority p, mpCacheReadPrice p, mpCacheReadPricePriority p,
        mpCacheCreation5mPrice p, mpCacheCreation1hPrice p, mpImageOutputPrice p] \<and>
      (\<forall>m \<in> set_option (mpFastModeMultiplier p) \<union> set_option (mpFastMultiplier p) \<union> set_option (mpFlexMultiplier p).
         below2 40 m) \<and>
      context_factor (mpLongContextInputMultiplier p) \<and> context_factor (mpLongContextOutputMultiplier p))"

definition sound_pricing :: "ModelPricing \<Rightarrow> bool" where
  "sound_pricing p =
     (sound_amounts (amounts p) \<and> list_all (\<lambda>tier. sound_amounts (amounts (tierPricing tier))) (ContextPrices p))"

definition counts :: "UsageTokens \<Rightarrow> bool" where
  "counts t =
     (valid_counts t \<and> 0 \<le> utInputTokens t \<and> 0 \<le> utOutputTokens t \<and> 0 \<le> utCacheCreationTokens t \<and>
      0 \<le> utCacheReadTokens t \<and> 0 \<le> utImageInputTokens t \<and> 0 \<le> utImageOutputTokens t)"

definition sound_cost :: "CostBreakdown \<Rightarrow> bool" where
  "sound_cost c =
     list_all (below2 500) [cbInputCost c, cbImageInputCost c, cbOutputCost c, cbImageOutputCost c, cbCacheCreationCost c,
       cbCacheReadCost c, cbTotalCost c, cbActualCost c]"

lemma money_below2: "money x \<Longrightarrow> below2 40 x"
  by (cases x) (auto simp: money_def intro: order_trans [of 0 "1 / 2 ^ 100"])

lemma below2_1: "below2 k (Fin 1)"
  by simp

lemma money_ratio: "money a \<Longrightarrow> money b \<Longrightarrow> flt f0 b \<Longrightarrow> below2 140 (fdiv a b)"
proof -
  assume m: "money a" "money b" "flt f0 b"
  obtain x y where xy: "a = Fin x" "b = Fin y" "0 \<le> x" "x \<le> 2 ^ 40" "1 / 2 ^ 100 \<le> y"
    using m money_below2 [OF m(1)] by (cases a; cases b) (auto simp: money_def)
  have "0 < (1 :: rat) / 2 ^ 100" by simp
  then have y: "0 < y" using xy(5) by linarith
  have "x / y \<le> 2 ^ 40 / (1 / 2 ^ 100)" using xy by (intro frac_le) auto
  also have "\<dots> = 2 ^ 140" by simp
  finally show ?thesis using xy y by (auto simp: fdiv_def intro: below2_rnd)
qed

lemma below2_context_factor: "context_factor m \<Longrightarrow> below2 40 (LongContextMultiplierOrOne m)"
  by (cases m) (auto simp: context_factor_def LongContextMultiplierOrOne_def)

lemma token_charge: "0 \<le> n \<Longrightarrow> n < 2 ^ 63 \<Longrightarrow> below2 80 x \<Longrightarrow> below2 143 (fmul (float_of_int n) x)"
  by (rule below2_fmul [OF below2_float_of_int]) auto

lemma cache_charge: "0 \<le> n \<Longrightarrow> n < 2 ^ 63 \<Longrightarrow> money x \<Longrightarrow> below2 190 m \<Longrightarrow> below2 350 (fmul (fmul (float_of_int n) x) m)"
  by (rule below2_fmul [OF token_charge]) (auto intro: below2_mono [OF money_below2])

lemma ComputeCacheCreationCost_below2:
  assumes "counts t" "money (mpCacheCreation5mPrice p)" "money (mpCacheCreation1hPrice p)" "money price" "below2 190 m"
  shows "below2 351 (ComputeCacheCreationCost p t price m)"
proof -
  obtain a b where ab: "NormalizeCacheCreationBreakdown t = (a, b)" by fastforce
  have "0 \<le> a \<and> 0 \<le> b \<and> a < 2 ^ 63 \<and> b < 2 ^ 63"
  proof (cases "0 < utCacheCreationTokens t")
    case True
    then show ?thesis using cache_details [OF _ True ab] assms(1) by (auto simp: counts_def valid_counts_def)
  next
    case False
    then show ?thesis using ab assms(1)
      by (auto simp: NormalizeCacheCreationBreakdown_def Let_def counts_def valid_counts_def split: if_splits)
  qed
  moreover have "0 \<le> utCacheCreationTokens t" "utCacheCreationTokens t < 2 ^ 63"
    using assms(1) by (auto simp: counts_def valid_counts_def)
  ultimately have single: "below2 351 (fmul (fmul (float_of_int (utCacheCreationTokens t)) x) m)"
    and pair: "below2 351 (fadd (fmul (fmul (float_of_int a) x) m) (fmul (fmul (float_of_int b) y) m))"
    if "money x" "money y" for x y
    using that assms(5) by (auto intro!: below2_fadd [of 350] intro: below2_mono [OF cache_charge])
  show ?thesis
    unfolding ComputeCacheCreationCost_def ab using assms(2-4) single pair by simp
qed

definition components :: "CostBreakdown \<Rightarrow> f64 list" where
  "components c = [cbInputCost c, cbImageInputCost c, cbOutputCost c, cbImageOutputCost c, cbCacheCreationCost c, cbCacheReadCost c]"

lemma scale_components_below2:
  "list_all (below2 360) (components bd) \<Longrightarrow> below2 40 m \<Longrightarrow> list_all (below2 400) (components (scale_components m bd))"
  by (auto simp: components_def scale_components_def intro: below2_mono intro!: below2_fmul [of 360 _ 40])

lemma split_input_counts:
  "counts t \<Longrightarrow> split_input t = (a, b) \<Longrightarrow> 0 \<le> a \<and> a < 2 ^ 63 \<and> 0 \<le> b \<and> b < 2 ^ 63 \<and> a + b = utInputTokens t"
  by (auto simp: split_input_def counts_def valid_counts_def split: if_splits)

lemma priced_components_below2:
  assumes t: "counts t" and p: "sound_amounts p"
    and sp: "below2 80 (spInput sp)" "below2 80 (spOutput sp)" "below2 80 (spCacheRead sp)" "money (spCacheCreation sp)"
      "below2 40 (spTierMultiplier sp)"
    and m: "below2 40 m"
  shows "list_all (below2 400) (components (priced_components p t tier sp m))"
proof -
  have c: "below2 360 (fmul (float_of_int n) x)" if "0 \<le> n" "n < 2 ^ 63" "below2 80 x" for n x
    using token_charge [OF that] by (rule below2_mono) simp
  have mp: "money (mpImageInputPrice p)" "money (mpImageOutputPrice p)" "money (mpCacheCreationPrice p)"
    "money (mpCacheCreation5mPrice p)" "money (mpCacheCreation1hPrice p)" using p by (simp_all add: sound_amounts_def)
  have img: "below2 80 (mpImageInputPrice p)" "below2 80 (mpImageOutputPrice p)"
    using mp(1,2) by (auto intro: below2_mono [OF money_below2])
  have n: "0 \<le> utInputTokens t" "utInputTokens t < 2 ^ 63" "0 \<le> utCacheReadTokens t" "utCacheReadTokens t < 2 ^ 63"
    "0 \<le> max (utOutputTokens t - utImageOutputTokens t) 0" "max (utOutputTokens t - utImageOutputTokens t) 0 < 2 ^ 63"
    "0 \<le> utImageOutputTokens t" "utImageOutputTokens t < 2 ^ 63"
    using t by (auto simp: counts_def valid_counts_def)
  obtain a b where ab: "split_input t = (a, b)" by fastforce
  note s = split_input_counts [OF t ab]
  let ?r = "fdiv (spCacheCreation sp) (mpCacheCreationPrice p)"
  have ratio: "below2 180 (fmul m ?r)" if "flt f0 (mpCacheCreationPrice p)"
    using below2_fmul [OF m money_ratio [OF sp(4) mp(3) that], of 180] by simp
  have cache: "below2 360 (ComputeCacheCreationCost p t (spCacheCreation sp) k)" if "below2 190 k" for k
    using ComputeCacheCreationCost_below2 [OF t mp(4,5) sp(4) that] by (rule below2_mono) simp
  have k: "below2 190 m" "flt f0 (mpCacheCreationPrice p) \<Longrightarrow> below2 190 (fmul m ?r)"
    using below2_mono [OF m] below2_mono [OF ratio] by auto
  let ?u = "unscaled_components p t tier sp m"
  have "cbInputCost ?u = fmul (float_of_int (if utImageInputTokens t > 0 then a else utInputTokens t)) (spInput sp)"
    "cbImageInputCost ?u = (if utImageInputTokens t > 0 then fmul (float_of_int b)
       (if mpImageInputPrice p = f0 then spInput sp else mpImageInputPrice p) else f0)"
    "cbOutputCost ?u = fmul (float_of_int (max (utOutputTokens t - utImageOutputTokens t) 0)) (spOutput sp)"
    "cbImageOutputCost ?u = (if utImageOutputTokens t > 0 then fmul (float_of_int (utImageOutputTokens t))
       (if mpImageOutputPrice p = f0 \<and> \<not> mpImageOutputPriceExplicit p then spOutput sp else mpImageOutputPrice p) else f0)"
    "cbCacheReadCost ?u = fmul (float_of_int (utCacheReadTokens t)) (spCacheRead sp)"
    "cbCacheCreationCost ?u = ComputeCacheCreationCost p t (spCacheCreation sp)
       (if UsePriorityServiceTierPricing tier p \<and> mpSupportsCacheBreakdown p \<and> flt f0 (mpCacheCreationPrice p)
          \<and> mpPriorityCacheWritePresent p then fmul m ?r else m)"
    by (simp_all add: unscaled_components_def ab Let_def zero_cost_def)
  then have "list_all (below2 360) (components ?u)"
    using s n sp(1-3) img k c cache by (simp add: components_def)
  then show ?thesis
    unfolding priced_components_def by (rule scale_components_below2 [OF _ sp(5)])
qed

lemma component_sum_below2: "list_all (below2 400) (components bd) \<Longrightarrow> below2 405 (component_sum bd)"
  unfolding component_sum_def components_def
  by (rule below2_fadd [of 404] below2_fadd [of 403] below2_fadd [of 402] below2_fadd [of 401] below2_fadd [of 400] | simp
    | (rule below2_mono [of 400], simp))+

definition balanced_cost :: "f64 \<Rightarrow> CostBreakdown \<Rightarrow> bool" where
  "balanced_cost rate c =
     (sound_cost c \<and> cbTotalCost c = component_sum c \<and> cbActualCost c = fmul (cbTotalCost c) (clamp_negative rate))"

lemma with_totals_balanced:
  "list_all (below2 400) (components bd) \<Longrightarrow> below2 40 (clamp_negative rate) \<Longrightarrow>
     balanced_cost rate (with_totals (clamp_negative rate) bd)"
proof -
  assume c: "list_all (below2 400) (components bd)" and r: "below2 40 (clamp_negative rate)"
  note total = component_sum_below2 [OF c]
  have "below2 445 (fmul (component_sum bd) (clamp_negative rate))" by (rule below2_fmul [OF total r]) simp_all
  then show ?thesis
    using c total by (auto simp: balanced_cost_def sound_cost_def with_totals_def components_def component_sum_def
        intro: below2_mono)
qed

lemma balanced_flag: "balanced_cost rate c \<Longrightarrow> balanced_cost rate (c\<lparr>cbLongContextBillingApplied := b\<rparr>)"
  by (auto simp: balanced_cost_def sound_cost_def component_sum_def)

lemma clamp_idem [simp]: "clamp_negative (clamp_negative m) = clamp_negative m"
  by (simp add: clamp_negative_def)

lemma below2_clamp_factor: "context_factor m \<Longrightarrow> below2 40 (clamp_negative m)"
  by (cases m) (auto simp: context_factor_def clamp_negative_def)

lemma select_prices_sound:
  assumes "sound_amounts p"
  shows "money (spInput (select_prices p tier)) \<and> money (spOutput (select_prices p tier)) \<and>
    money (spCacheRead (select_prices p tier)) \<and> money (spCacheCreation (select_prices p tier)) \<and>
    below2 40 (spTierMultiplier (select_prices p tier))"
proof -
  have "below2 40 m" if "NormalizedFastModeMultiplier p = Some m" for m
    using that assms below2_clamp by (fastforce simp: NormalizedFastModeMultiplier_def sound_amounts_def clamp_negative_def
        split: option.splits)
  moreover have "below2 40 (ConfiguredServiceTierMultiplier tier p)"
    using calculation assms by (auto simp: ConfiguredServiceTierMultiplier_def sound_amounts_def split: option.split)
  ultimately show ?thesis
    using assms by (simp add: select_prices_def sound_amounts_def Let_def split: option.split)
qed

lemma ComputeTokenBreakdown_base:
  "ComputeTokenBreakdown pricing t rate tier False =
     with_totals (clamp_negative rate) (priced_components (amounts pricing) t tier (select_prices (amounts pricing) tier) (Fin 1))"
  by (simp add: ComputeTokenBreakdown.simps [of pricing t rate tier False] Let_def)

lemma base_balanced:
  assumes "counts t" "sound_amounts (amounts pricing)" "context_factor rate"
  shows "balanced_cost rate (ComputeTokenBreakdown pricing t rate tier False)"
proof -
  note sp = select_prices_sound [OF assms(2), of tier]
  have m: "below2 80 x" if "money x" for x using money_below2 [OF that] by (rule below2_mono) simp
  show ?thesis
    unfolding ComputeTokenBreakdown_base
    by (rule with_totals_balanced [OF priced_components_below2 [OF assms(1,2)] below2_clamp_factor [OF assms(3)]])
      (use sp m in auto)
qed

lemma long_context_balanced:
  assumes "counts t" "sound_amounts p" "context_factor rate"
  shows "balanced_cost rate (with_totals (clamp_negative rate) (priced_components p t tier
           (long_context_prices p (select_prices p tier)) (LongContextMultiplierOrOne (mpLongContextInputMultiplier p))))"
proof -
  note sp = select_prices_sound [OF assms(2), of tier]
  have f: "below2 40 (LongContextMultiplierOrOne (mpLongContextInputMultiplier p))"
    "below2 40 (LongContextMultiplierOrOne (mpLongContextOutputMultiplier p))"
    using assms(2) by (auto simp: sound_amounts_def intro: below2_context_factor)
  have m: "below2 80 (fmul x k)" if "money x" "below2 40 k" for x k
    using that by (intro below2_fmul [OF money_below2]) auto
  show ?thesis
    by (rule with_totals_balanced [OF priced_components_below2 [OF assms(1,2)] below2_clamp_factor [OF assms(3)]])
      (use sp m f in \<open>auto simp: long_context_prices_def Let_def\<close>)
qed

lemma exceeded_tier_in: "exceeded_tier n tiers = Some q \<Longrightarrow> \<exists>tier \<in> set tiers. q = tierPricing tier \<and> Threshold tier < n"
proof -
  have "foldl (\<lambda>sel tier. if n > Threshold tier then Some (tierPricing tier) else sel) s tiers = Some q \<Longrightarrow>
    s = Some q \<or> (\<exists>tier \<in> set tiers. q = tierPricing tier \<and> Threshold tier < n)" for s
    by (induction tiers arbitrary: s) (auto split: if_splits)
  then show "exceeded_tier n tiers = Some q \<Longrightarrow> \<exists>tier \<in> set tiers. q = tierPricing tier \<and> Threshold tier < n"
    by (fastforce simp: exceeded_tier_def)
qed

lemma inherit_modifiers_sound:
  "sound_amounts base \<Longrightarrow> sound_amounts (amounts q) \<Longrightarrow> sound_amounts (amounts (inherit_modifiers base q))"
  by (simp add: sound_amounts_def inherit_modifiers_def)

lemma breakdown_balanced:
  assumes "counts t" "sound_pricing pricing" "context_factor rate"
  shows "balanced_cost rate (ComputeTokenBreakdown pricing t rate tier applyLongCtx)"
proof (cases "if applyLongCtx then exceeded_tier (context_tokens t) (ContextPrices pricing) else None")
  case (Some q)
  then have "sound_amounts (amounts q)"
    using assms(2) by (auto simp: sound_pricing_def list_all_iff split: if_splits dest!: exceeded_tier_in)
  then have "balanced_cost rate (ComputeTokenBreakdown (inherit_modifiers (amounts pricing) q) t rate tier False)"
    using assms inherit_modifiers_sound by (intro base_balanced) (auto simp: sound_pricing_def)
  then show ?thesis
    using Some by (simp add: ComputeTokenBreakdown.simps [of pricing t rate tier applyLongCtx] Let_def balanced_flag)
next
  case None
  have p: "sound_amounts (amounts pricing)" using assms(2) by (simp add: sound_pricing_def)
  show ?thesis
    using None base_balanced [OF assms(1) p assms(3), of tier] long_context_balanced [OF assms(1) p assms(3), of tier]
    by (simp add: ComputeTokenBreakdown.simps [of pricing t rate tier applyLongCtx] Let_def balanced_flag
        flip: ComputeTokenBreakdown_base)
qed

text \<open>
  C13: ComputeTokenBreakdown charges soundly: for counts that fit an int and amounts that are
  free or between 2^-100 and 2^40 dollars, each with factors up to 2^40, every component and
  both totals are finite and never negative, in every service tier, with and without context
  tiers; the total is the sum of the six components and the charge is the total at the user
  rate, a negative rate counting as zero.
\<close>

theorem token_costs_sound:
  assumes "counts t" "sound_pricing pricing" "context_factor rate"
  shows "(\<forall>x \<in> set (components (ComputeTokenBreakdown pricing t rate tier applyLongCtx)). fle f0 x \<and> x \<noteq> PInf) \<and>
    fle f0 (cbTotalCost (ComputeTokenBreakdown pricing t rate tier applyLongCtx)) \<and>
    cbTotalCost (ComputeTokenBreakdown pricing t rate tier applyLongCtx) =
      component_sum (ComputeTokenBreakdown pricing t rate tier applyLongCtx) \<and>
    cbActualCost (ComputeTokenBreakdown pricing t rate tier applyLongCtx) =
      fmul (cbTotalCost (ComputeTokenBreakdown pricing t rate tier applyLongCtx)) (clamp_negative rate) \<and>
    fle f0 (cbActualCost (ComputeTokenBreakdown pricing t rate tier applyLongCtx)) \<and>
    cbActualCost (ComputeTokenBreakdown pricing t rate tier applyLongCtx) \<noteq> PInf"
  using breakdown_balanced [OF assms, of tier applyLongCtx]
  by (auto simp: balanced_cost_def sound_cost_def components_def dest: below2_nonneg)

definition sample_amounts :: "f64 \<Rightarrow> f64 \<Rightarrow> PriceAmounts" where
  "sample_amounts input out = \<lparr>mpTimePricing = None, mpCatalogSource = ''catalog'', mpPriorityInputPresent = False,
     mpPriorityOutputPresent = False, mpPriorityCacheReadPresent = False, mpPriorityCacheWritePresent = False,
     mpInputPrice = input, mpInputPricePriority = f0, mpImageInputPrice = f0, mpOutputPrice = out,
     mpOutputPricePriority = f0, mpCacheCreationPrice = input, mpCacheCreationPricePriority = f0,
     mpCacheCreationPriceExplicit = False, mpCacheReadPrice = input, mpCacheReadPricePriority = f0,
     mpCacheCreation5mPrice = input, mpCacheCreation1hPrice = out, mpSupportsCacheBreakdown = True,
     mpSupportsServiceTier = False, mpFastModeMultiplier = None, mpFastMultiplier = Some (Fin 2),
     mpFlexMultiplier = None, mpMaxReasoningEffortMultiplier = None, mpLongContextInputThreshold = 0,
     mpLongContextThresholdInclusive = False, mpLongContextInputMultiplier = f0,
     mpLongContextOutputMultiplier = f0, mpImageOutputPrice = f0, mpImageOutputPriceExplicit = False\<rparr>"

definition sample_pricing :: ModelPricing where
  "sample_pricing = ModelPricing (sample_amounts (Fin (1 / 2 ^ 20)) (Fin (1 / 2 ^ 18)))
     [ContextModelPrice 1000 (ModelPricing (sample_amounts (Fin (1 / 2 ^ 19)) (Fin (1 / 2 ^ 17))) [])]"

lemma sample_sound: "sound_pricing sample_pricing" "counts sample_tokens" "context_factor (Fin (3 / 2))"
  by (simp_all add: sound_pricing_def sample_pricing_def sound_amounts_def sample_amounts_def money_def context_factor_def
      counts_def valid_counts_def sample_tokens_def)

theorem token_costs_sound_witness:
  "cbTotalCost (ComputeTokenBreakdown sample_pricing sample_tokens (Fin (3 / 2)) ''fast'' True) =
     component_sum (ComputeTokenBreakdown sample_pricing sample_tokens (Fin (3 / 2)) ''fast'' True) \<and>
   fle f0 (cbActualCost (ComputeTokenBreakdown sample_pricing sample_tokens (Fin (3 / 2)) ''fast'' True)) \<and>
   cbActualCost (ComputeTokenBreakdown sample_pricing sample_tokens (Fin (3 / 2)) ''fast'' True) \<noteq> PInf"
  using token_costs_sound [OF sample_sound(2,1,3), of "''fast''" True] by blast

end
