(* ===== verification/PriceResolution.thy ===== *)
theory PriceResolution
  imports TokenCosts
begin

text \<open>
  Resolving a card against catalog prices and charging a usage: resolve.go,
  card_resolution.go, the cost entry points of calculate.go and the media costs of
  media.go, image_unit_price.go.  A resolution owns its records, so the pointer
  copies of the source are record updates here.
\<close>

section \<open>Resolved prices\<close>

definition PricingSourceConfig :: string where "PricingSourceConfig = ''pricing_config''"
definition PricingSourceCatalog :: string where "PricingSourceCatalog = ''catalog''"
definition PricingSourceUnpriced :: string where "PricingSourceUnpriced = ''unpriced''"

lemmas pricing_sources = PricingSourceConfig_def PricingSourceCatalog_def PricingSourceUnpriced_def

record ResolvedPricing =
  rpMode :: BillingMode
  rpBasePricing :: "ModelPricing option"
  rpIntervals :: "PricingInterval list"
  rpRequestTiers :: "PricingInterval list"
  rpDefaultPerRequestPrice :: f64
  rpDefaultPerRequestPricePresent :: bool
  rpSource :: string
  rpSupportsCacheBreakdown :: bool
  rpSupportsServiceTier :: bool
  rpConfigPricing :: "ModelPricingEntry option"
  rpLongContextPricingEnabled :: bool
  rpBasePricingUnavailable :: bool

record CostInput =
  ciModelPricingAt :: gtime
  ciModelTimeLocation :: "location option"
  ciModel :: string
  ciTokens :: UsageTokens
  ciRequestCount :: int
  ciUsageUnits :: f64
  ciSizeTier :: string
  ciRateMultiplier :: f64
  ciPricingAt :: gtime
  ciServiceTier :: string
  ciReasoningEffort :: string
  ciTimePricingLocation :: "location option"

definition map_amounts :: "(PriceAmounts \<Rightarrow> PriceAmounts) \<Rightarrow> ModelPricing \<Rightarrow> ModelPricing" where
  "map_amounts f p = ModelPricing (f (amounts p)) (ContextPrices p)"

definition PricingIntervalHasEffectiveTokenPricing :: "PricingInterval \<Rightarrow> bool" where
  "PricingIntervalHasEffectiveTokenPricing iv =
     (ivInputPrice iv \<noteq> None \<or> ivOutputPrice iv \<noteq> None \<or> ivCacheWritePrice iv \<noteq> None \<or>
      ivCacheWrite1hPrice iv \<noteq> None \<or> ivCacheReadPrice iv \<noteq> None)"

definition hasBaseTokenPricing :: "ResolvedPricing \<Rightarrow> bool" where
  "hasBaseTokenPricing r = (rpBasePricing r \<noteq> None \<and> \<not> rpBasePricingUnavailable r)"

definition IsUnpriced :: "ResolvedPricing option \<Rightarrow> bool" where
  "IsUnpriced rr =
     (case rr of None \<Rightarrow> False
      | Some r \<Rightarrow>
          if rpSource r = PricingSourceUnpriced then True
          else if rpMode r \<noteq> BillingModeToken \<or> rpConfigPricing r = None \<or> hasBaseTokenPricing r then False
          else \<not> list_ex PricingIntervalHasEffectiveTokenPricing (rpIntervals r))"

definition Resolved_HasEffectivePricing :: "ResolvedPricing option \<Rightarrow> bool" where
  "Resolved_HasEffectivePricing rr =
     (case rr of None \<Rightarrow> False
      | Some r \<Rightarrow> \<not> IsUnpriced rr \<and> rpSource r = PricingSourceConfig \<and> rpConfigPricing r \<noteq> None
          \<and> HasEffectivePricing (rpConfigPricing r))"

definition HasConfiguredPricing :: "ResolvedPricing option \<Rightarrow> bool" where
  "HasConfiguredPricing rr = (case rr of None \<Rightarrow> False | Some r \<Rightarrow> rpConfigPricing r \<noteq> None)"

definition HasEffectiveOverridePricing :: "ResolvedPricing option \<Rightarrow> bool" where
  "HasEffectiveOverridePricing rr =
     (case rr of None \<Rightarrow> False
      | Some r \<Rightarrow> \<not> IsUnpriced rr \<and> rpSource r = PricingSourceConfig \<and> rpConfigPricing r \<noteq> None
          \<and> HasEffectivePricing (rpConfigPricing r))"

section \<open>The price of an interval\<close>

definition empty_amounts :: PriceAmounts where
  "empty_amounts = \<lparr>mpTimePricing = None, mpCatalogSource = [], mpPriorityInputPresent = False,
     mpPriorityOutputPresent = False, mpPriorityCacheReadPresent = False, mpPriorityCacheWritePresent = False,
     mpInputPrice = f0, mpInputPricePriority = f0, mpImageInputPrice = f0, mpOutputPrice = f0,
     mpOutputPricePriority = f0, mpCacheCreationPrice = f0, mpCacheCreationPricePriority = f0,
     mpCacheCreationPriceExplicit = False, mpCacheReadPrice = f0, mpCacheReadPricePriority = f0,
     mpCacheCreation5mPrice = f0, mpCacheCreation1hPrice = f0, mpSupportsCacheBreakdown = False,
     mpSupportsServiceTier = False, mpFastModeMultiplier = None, mpFastMultiplier = None,
     mpFlexMultiplier = None, mpMaxReasoningEffortMultiplier = None, mpLongContextInputThreshold = 0,
     mpLongContextThresholdInclusive = False, mpLongContextInputMultiplier = f0,
     mpLongContextOutputMultiplier = f0, mpImageOutputPrice = f0, mpImageOutputPriceExplicit = False\<rparr>"

definition empty_pricing :: ModelPricing where
  "empty_pricing = ModelPricing empty_amounts []"

definition scale_input :: "f64 \<Rightarrow> PriceAmounts \<Rightarrow> PriceAmounts" where
  "scale_input m p = p\<lparr>mpInputPrice := fmul (mpInputPrice p) m, mpInputPricePriority := fmul (mpInputPricePriority p) m\<rparr>"

definition scale_output :: "f64 \<Rightarrow> PriceAmounts \<Rightarrow> PriceAmounts" where
  "scale_output m p = p\<lparr>mpOutputPrice := fmul (mpOutputPrice p) m, mpOutputPricePriority := fmul (mpOutputPricePriority p) m\<rparr>"

definition scale_cache_write :: "f64 \<Rightarrow> PriceAmounts \<Rightarrow> PriceAmounts" where
  "scale_cache_write m p =
     p\<lparr>mpCacheCreationPrice := fmul (mpCacheCreationPrice p) m,
       mpCacheCreationPricePriority := fmul (mpCacheCreationPricePriority p) m,
       mpCacheCreation5mPrice := fmul (mpCacheCreation5mPrice p) m,
       mpCacheCreation1hPrice := fmul (mpCacheCreation1hPrice p) m\<rparr>"

definition scale_cache_read :: "f64 \<Rightarrow> PriceAmounts \<Rightarrow> PriceAmounts" where
  "scale_cache_read m p =
     p\<lparr>mpCacheReadPrice := fmul (mpCacheReadPrice p) m, mpCacheReadPricePriority := fmul (mpCacheReadPricePriority p) m\<rparr>"

text \<open>An interval amount replaces the bucket, otherwise its factor scales it.\<close>

definition price_or_factor ::
  "(f64 \<Rightarrow> PriceAmounts \<Rightarrow> PriceAmounts) \<Rightarrow> f64 option \<Rightarrow> (f64 \<Rightarrow> PriceAmounts \<Rightarrow> PriceAmounts) \<Rightarrow> f64 option
     \<Rightarrow> PriceAmounts \<Rightarrow> PriceAmounts" where
  "price_or_factor set_price price scale factor p =
     (case price of Some x \<Rightarrow> set_price x p
      | None \<Rightarrow> (case factor of Some m \<Rightarrow> scale m p | None \<Rightarrow> p))"

definition interval_amounts :: "PricingInterval \<Rightarrow> PriceAmounts \<Rightarrow> PriceAmounts" where
  "interval_amounts iv p =
     (let p = price_or_factor set_input (ivInputPrice iv) scale_input (ivInputMultiplier iv) p;
          p = price_or_factor set_output (ivOutputPrice iv) scale_output (ivOutputMultiplier iv) p;
          p = price_or_factor (set_cache_write (ivCacheWrite1hPrice iv = None)) (ivCacheWritePrice iv)
                scale_cache_write (ivCacheWriteMultiplier iv) p;
          p = on_some set_cache_write_1h (ivCacheWrite1hPrice iv) p
      in price_or_factor set_cache_read (ivCacheReadPrice iv) scale_cache_read (ivCacheReadMultiplier iv) p)"

definition IntervalToModelPricingWithBase ::
  "PricingInterval \<Rightarrow> bool \<Rightarrow> ModelPricingEntry option \<Rightarrow> ModelPricing option \<Rightarrow> ModelPricing" where
  "IntervalToModelPricingWithBase iv supportsCacheBreakdown cfg base =
     (let pricing =
            (case base of
               None \<Rightarrow> map_amounts (\<lambda>p. p\<lparr>mpSupportsCacheBreakdown := supportsCacheBreakdown\<rparr>) empty_pricing
             | Some b \<Rightarrow> map_amounts (\<lambda>p. p\<lparr>mpSupportsCacheBreakdown := supportsCacheBreakdown,
                 mpLongContextInputThreshold := 0, mpLongContextInputMultiplier := f0,
                 mpLongContextOutputMultiplier := f0\<rparr>) b);
          pricing = map_amounts (interval_amounts iv) pricing
      in case cfg of
           None \<Rightarrow> pricing
         | Some c \<Rightarrow> map_amounts (\<lambda>p. ApplyConfigFlexMultiplier
             (ApplyConfigFastModeMultiplier (applyConfigImagePriceOverrides c p) c) c) pricing)"

definition tokenPricingForInterval :: "ResolvedPricing \<Rightarrow> PricingInterval option \<Rightarrow> ModelPricing option" where
  "tokenPricingForInterval r interval =
     (case interval of
        None \<Rightarrow> if hasBaseTokenPricing r then rpBasePricing r else None
      | Some iv \<Rightarrow>
          if \<not> hasBaseTokenPricing r \<and> \<not> PricingIntervalHasEffectiveTokenPricing iv then None
          else Some (map_amounts (\<lambda>p. p\<lparr>mpSupportsServiceTier := rpSupportsServiceTier r\<rparr>)
            (IntervalToModelPricingWithBase iv (rpSupportsCacheBreakdown r) (rpConfigPricing r) (rpBasePricing r))))"

definition GetIntervalPricing :: "ResolvedPricing \<Rightarrow> int \<Rightarrow> ModelPricing option" where
  "GetIntervalPricing r totalContextTokens =
     tokenPricingForInterval r (FindMatchingInterval (rpIntervals r) totalContextTokens)"

section \<open>Applying a card\<close>

definition has_token_terms :: "PricingInterval \<Rightarrow> bool" where
  "has_token_terms iv =
     (ivInputPrice iv \<noteq> None \<or> ivOutputPrice iv \<noteq> None \<or> ivCacheWritePrice iv \<noteq> None \<or>
      ivCacheWrite1hPrice iv \<noteq> None \<or> ivCacheReadPrice iv \<noteq> None \<or> ivInputMultiplier iv \<noteq> None \<or>
      ivOutputMultiplier iv \<noteq> None \<or> ivCacheWriteMultiplier iv \<noteq> None \<or> ivCacheReadMultiplier iv \<noteq> None)"

definition FilterValidTokenIntervals :: "PricingInterval list \<Rightarrow> PricingInterval list" where
  "FilterValidTokenIntervals ivs = filter has_token_terms ivs"

definition FilterValidRequestIntervals :: "PricingInterval list \<Rightarrow> PricingInterval list" where
  "FilterValidRequestIntervals ivs = filter (\<lambda>iv. ivPerRequestPrice iv \<noteq> None) ivs"

definition HasExplicitPricingPrice :: "ModelPricingEntry \<Rightarrow> bool" where
  "HasExplicitPricingPrice p =
     (if unit_mode (entry_mode p) then
        cePerRequestPrice p \<noteq> None \<or> list_ex (\<lambda>iv. ivPerRequestPrice iv \<noteq> None) (ceIntervals p)
      else
        ceInputPrice p \<noteq> None \<or> ceOutputPrice p \<noteq> None \<or> ceCacheWritePrice p \<noteq> None \<or>
        ceCacheWrite1hPrice p \<noteq> None \<or> ceCacheReadPrice p \<noteq> None \<or> ceImageInputPrice p \<noteq> None \<or>
        ceImageOutputPrice p \<noteq> None \<or> list_ex PricingIntervalHasEffectiveTokenPricing (ceIntervals p))"

definition ApplyTokenOverrides :: "ModelPricingEntry \<Rightarrow> ResolvedPricing \<Rightarrow> ResolvedPricing" where
  "ApplyTokenOverrides cfg r =
     (let validIntervals = FilterValidTokenIntervals (ceIntervals cfg);
          breakdown = (rpSupportsCacheBreakdown r \<or> ceCacheWrite1hPrice cfg \<noteq> None
            \<or> list_ex (\<lambda>iv. ivCacheWrite1hPrice iv \<noteq> None) validIntervals);
          unavailable = (\<not> hasBaseTokenPricing r \<and> \<not> HasExplicitPricingPrice (cfg\<lparr>ceIntervals := []\<rparr>));
          base = (case rpBasePricing r of None \<Rightarrow> empty_pricing | Some b \<Rightarrow> b);
          base = ApplyConfigTokenPriceOverrides cfg base;
          base = map_amounts (\<lambda>p. if breakdown then p\<lparr>mpSupportsCacheBreakdown := True\<rparr> else p) base;
          base = map_amounts (\<lambda>p. if ceMaxReasoningEffortMultiplier cfg \<noteq> None
                   then p\<lparr>mpMaxReasoningEffortMultiplier := ceMaxReasoningEffortMultiplier cfg\<rparr> else p) base
      in r\<lparr>rpSupportsCacheBreakdown := breakdown, rpBasePricingUnavailable := unavailable,
           rpIntervals := validIntervals, rpBasePricing := Some base\<rparr>)"

definition ApplyRequestTierOverrides :: "ModelPricingEntry \<Rightarrow> ResolvedPricing \<Rightarrow> ResolvedPricing" where
  "ApplyRequestTierOverrides cfg r =
     (let r = r\<lparr>rpRequestTiers := FilterValidRequestIntervals (ceIntervals cfg)\<rparr> in
      case cePerRequestPrice cfg of
        None \<Rightarrow> r
      | Some x \<Rightarrow> r\<lparr>rpDefaultPerRequestPrice := x, rpDefaultPerRequestPricePresent := True\<rparr>)"

definition NormalizedPriceMultiplier :: "ModelPricingEntry \<Rightarrow> f64 option" where
  "NormalizedPriceMultiplier p = map_option clamp_negative (cePriceMultiplier p)"

definition scale_amounts :: "f64 \<Rightarrow> PriceAmounts \<Rightarrow> PriceAmounts" where
  "scale_amounts m p =
     p\<lparr>mpInputPrice := fmul (mpInputPrice p) m, mpInputPricePriority := fmul (mpInputPricePriority p) m,
       mpImageInputPrice := fmul (mpImageInputPrice p) m,
       mpOutputPrice := fmul (mpOutputPrice p) m, mpOutputPricePriority := fmul (mpOutputPricePriority p) m,
       mpCacheCreationPrice := fmul (mpCacheCreationPrice p) m,
       mpCacheCreationPricePriority := fmul (mpCacheCreationPricePriority p) m,
       mpCacheReadPrice := fmul (mpCacheReadPrice p) m, mpCacheReadPricePriority := fmul (mpCacheReadPricePriority p) m,
       mpCacheCreation5mPrice := fmul (mpCacheCreation5mPrice p) m,
       mpCacheCreation1hPrice := fmul (mpCacheCreation1hPrice p) m,
       mpImageOutputPrice := fmul (mpImageOutputPrice p) m\<rparr>"

primrec MultiplyModelPricing :: "f64 \<Rightarrow> ModelPricing \<Rightarrow> ModelPricing"
  and multiply_tier :: "f64 \<Rightarrow> ContextModelPrice \<Rightarrow> ContextModelPrice" where
  "MultiplyModelPricing m (ModelPricing a tiers) = ModelPricing (scale_amounts m a) (map (multiply_tier m) tiers)"
| "multiply_tier m (ContextModelPrice t p) = ContextModelPrice t (MultiplyModelPricing m p)"

definition MultiplyPricePointer :: "f64 \<Rightarrow> f64 option \<Rightarrow> f64 option" where
  "MultiplyPricePointer m price = map_option (\<lambda>x. fmul x m) price"

definition MultiplyPricingIntervals :: "f64 \<Rightarrow> PricingInterval list \<Rightarrow> PricingInterval list" where
  "MultiplyPricingIntervals m ivs =
     map (\<lambda>iv. iv\<lparr>ivInputPrice := MultiplyPricePointer m (ivInputPrice iv),
       ivOutputPrice := MultiplyPricePointer m (ivOutputPrice iv),
       ivCacheWritePrice := MultiplyPricePointer m (ivCacheWritePrice iv),
       ivCacheWrite1hPrice := MultiplyPricePointer m (ivCacheWrite1hPrice iv),
       ivCacheReadPrice := MultiplyPricePointer m (ivCacheReadPrice iv),
       ivPerRequestPrice := MultiplyPricePointer m (ivPerRequestPrice iv)\<rparr>) ivs"

definition MultiplyPricingFields :: "f64 \<Rightarrow> ModelPricingEntry \<Rightarrow> ModelPricingEntry" where
  "MultiplyPricingFields m p =
     p\<lparr>ceInputPrice := MultiplyPricePointer m (ceInputPrice p), ceOutputPrice := MultiplyPricePointer m (ceOutputPrice p),
       ceCacheWritePrice := MultiplyPricePointer m (ceCacheWritePrice p),
       ceCacheWrite1hPrice := MultiplyPricePointer m (ceCacheWrite1hPrice p),
       ceCacheReadPrice := MultiplyPricePointer m (ceCacheReadPrice p),
       ceImageInputPrice := MultiplyPricePointer m (ceImageInputPrice p),
       ceImageOutputPrice := MultiplyPricePointer m (ceImageOutputPrice p),
       cePerRequestPrice := MultiplyPricePointer m (cePerRequestPrice p),
       ceIntervals := MultiplyPricingIntervals m (ceIntervals p)\<rparr>"

definition ApplyResolvedPriceMultiplier :: "ModelPricingEntry \<Rightarrow> ResolvedPricing \<Rightarrow> ResolvedPricing" where
  "ApplyResolvedPriceMultiplier cfg r =
     (case NormalizedPriceMultiplier cfg of
        None \<Rightarrow> r
      | Some m \<Rightarrow>
          r\<lparr>rpBasePricing := map_option (MultiplyModelPricing m) (rpBasePricing r),
            rpIntervals := MultiplyPricingIntervals m (rpIntervals r),
            rpRequestTiers := MultiplyPricingIntervals m (rpRequestTiers r),
            rpDefaultPerRequestPrice := fmul (rpDefaultPerRequestPrice r) m,
            rpConfigPricing := Some (MultiplyPricingFields m (cfg\<lparr>cePriceMultiplier := None\<rparr>))\<rparr>)"

definition ApplyResolvedFastModeMultiplier :: "ModelPricingEntry \<Rightarrow> ResolvedPricing \<Rightarrow> ResolvedPricing" where
  "ApplyResolvedFastModeMultiplier cfg r =
     (if rpMode r \<noteq> BillingModeToken then r
      else r\<lparr>rpBasePricing := map_option (map_amounts (\<lambda>p. ApplyConfigFlexMultiplier
        (ApplyConfigFastModeMultiplier p cfg) cfg)) (rpBasePricing r)\<rparr>)"

definition ApplyConfigPrice :: "ModelPricing \<Rightarrow> ModelPricingEntry option \<Rightarrow> ModelPricing" where
  "ApplyConfigPrice pricing cfg =
     (case cfg of
        None \<Rightarrow> pricing
      | Some c \<Rightarrow>
          let pricing = ApplyConfigTokenPriceOverrides c pricing;
              pricing = (case NormalizedPriceMultiplier c of None \<Rightarrow> pricing | Some m \<Rightarrow> MultiplyModelPricing m pricing)
          in map_amounts (\<lambda>p.
               let p = ApplyConfigFlexMultiplier (ApplyConfigFastModeMultiplier p c) c in
               if ceMaxReasoningEffortMultiplier c \<noteq> None
               then p\<lparr>mpMaxReasoningEffortMultiplier := ceMaxReasoningEffortMultiplier c\<rparr> else p) pricing)"

definition empty_card :: ModelPricingEntry where
  "empty_card = \<lparr>ceReferenceModel = [], ceID = 0, cePricingConfigID = 0, ceModels = [], ceBillingMode = [],
     cePriceMultiplier = None, ceFastModeMultiplier = None, ceFastMultiplier = None, ceFlexMultiplier = None,
     ceMaxReasoningEffortMultiplier = None, ceInputPrice = None, ceOutputPrice = None, ceCacheWritePrice = None,
     ceCacheWrite1hPrice = None, ceCacheReadPrice = None, ceImageInputPrice = None, ceImageOutputPrice = None,
     cePerRequestPrice = None, ceIntervals = [], ceTimePricing = None\<rparr>"

text \<open>A card without amounts still contributes its factors and its schedule.\<close>

definition ApplyPricingModifiers :: "ModelPricingEntry option \<Rightarrow> ResolvedPricing \<Rightarrow> ResolvedPricing" where
  "ApplyPricingModifiers cfg r =
     (case (cfg, rpBasePricing r) of
        (Some c, Some pricing) \<Rightarrow>
          if rpMode r \<noteq> BillingModeToken then r
          else if ceFastMultiplier c = None \<and> ceFastModeMultiplier c = None \<and> ceFlexMultiplier c = None \<and>
             ceMaxReasoningEffortMultiplier c = None \<and> ceTimePricing c = None then r
          else
            let merged = (case rpConfigPricing r of None \<Rightarrow> empty_card\<lparr>ceBillingMode := BillingModeToken\<rparr> | Some m \<Rightarrow> m);
                merged = (if ceFastMultiplier c \<noteq> None \<or> ceFastModeMultiplier c \<noteq> None
                          then merged\<lparr>ceFastMultiplier := ceFastMultiplier c, ceFastModeMultiplier := ceFastModeMultiplier c\<rparr>
                          else merged);
                merged = (if ceFlexMultiplier c \<noteq> None then merged\<lparr>ceFlexMultiplier := ceFlexMultiplier c\<rparr> else merged);
                merged = (if ceMaxReasoningEffortMultiplier c \<noteq> None
                          then merged\<lparr>ceMaxReasoningEffortMultiplier := ceMaxReasoningEffortMultiplier c\<rparr> else merged);
                pricing = (if ceMaxReasoningEffortMultiplier c \<noteq> None
                           then map_amounts (\<lambda>p. p\<lparr>mpMaxReasoningEffortMultiplier := ceMaxReasoningEffortMultiplier c\<rparr>) pricing
                           else pricing);
                merged = (if (case ceTimePricing c of None \<Rightarrow> False | Some t \<Rightarrow> tpPeriods t \<noteq> [])
                          then merged\<lparr>ceTimePricing := ceTimePricing c\<rparr> else merged)
            in ApplyResolvedFastModeMultiplier merged (r\<lparr>rpBasePricing := Some pricing, rpConfigPricing := Some merged\<rparr>)
      | _ \<Rightarrow> r)"

section \<open>Resolving a card\<close>

definition empty_resolved :: ResolvedPricing where
  "empty_resolved = \<lparr>rpMode = [], rpBasePricing = None, rpIntervals = [], rpRequestTiers = [],
     rpDefaultPerRequestPrice = f0, rpDefaultPerRequestPricePresent = False, rpSource = [],
     rpSupportsCacheBreakdown = False, rpSupportsServiceTier = False, rpConfigPricing = None,
     rpLongContextPricingEnabled = False, rpBasePricingUnavailable = False\<rparr>"

definition supports :: "(PriceAmounts \<Rightarrow> bool) \<Rightarrow> ModelPricing option \<Rightarrow> bool" where
  "supports f base = (case base of None \<Rightarrow> False | Some b \<Rightarrow> f (amounts b))"

definition ResolveConfiguredPricing :: "ModelPricingEntry \<Rightarrow> ModelPricing option \<Rightarrow> string \<Rightarrow> ResolvedPricing" where
  "ResolveConfiguredPricing cfg base source =
     (let mode = entry_mode cfg;
          r = empty_resolved\<lparr>rpMode := mode, rpSource := source, rpConfigPricing := Some cfg\<rparr>
      in if unit_mode mode then ApplyResolvedPriceMultiplier cfg (ApplyRequestTierOverrides cfg r)
         else
           let r = r\<lparr>rpBasePricing := base, rpSupportsCacheBreakdown := supports mpSupportsCacheBreakdown base,
                     rpSupportsServiceTier := supports mpSupportsServiceTier base\<rparr>
           in ApplyResolvedFastModeMultiplier cfg (ApplyResolvedPriceMultiplier cfg (ApplyTokenOverrides cfg r)))"

definition PriceCardOverrides :: "ModelPricingEntry option \<Rightarrow> bool" where
  "PriceCardOverrides cfg =
     (case cfg of None \<Rightarrow> False
      | Some c \<Rightarrow> HasExplicitPricingPrice c \<or> FilterValidTokenIntervals (ceIntervals c) \<noteq> [])"

definition PriceCardNeedsBase :: "ModelPricingEntry option \<Rightarrow> bool" where
  "PriceCardNeedsBase cfg = (case cfg of None \<Rightarrow> True | Some c \<Rightarrow> \<not> unit_mode (ceBillingMode c))"

definition ResolvePriceCards :: "ModelPricingEntry option \<Rightarrow> ModelPricing option \<Rightarrow> string \<Rightarrow> bool \<Rightarrow> ResolvedPricing" where
  "ResolvePriceCards cfg base baseSource longContextEnabled =
     (let r = (case cfg of
                 Some c \<Rightarrow>
                   if PriceCardOverrides cfg then ResolveConfiguredPricing c base PricingSourceConfig
                   else ApplyPricingModifiers cfg
                     (empty_resolved\<lparr>rpMode := BillingModeToken, rpBasePricing := base, rpSource := baseSource,
                        rpSupportsCacheBreakdown := supports mpSupportsCacheBreakdown base,
                        rpSupportsServiceTier := supports mpSupportsServiceTier base\<rparr>)
               | None \<Rightarrow>
                   empty_resolved\<lparr>rpMode := BillingModeToken, rpBasePricing := base, rpSource := baseSource,
                     rpSupportsCacheBreakdown := supports mpSupportsCacheBreakdown base,
                     rpSupportsServiceTier := supports mpSupportsServiceTier base\<rparr>)
      in r\<lparr>rpLongContextPricingEnabled := longContextEnabled\<rparr>)"

section \<open>Request and media units\<close>

text \<open>The loop of GetRequestTierPriceValue; in video mode both labels are normalised.\<close>

fun tier_price :: "BillingMode \<Rightarrow> string \<Rightarrow> PricingInterval list \<Rightarrow> f64 option" where
  "tier_price mode tierLabel [] = None"
| "tier_price mode tierLabel (tier # tiers) =
     (let label = trim_space (ivTierLabel tier);
          video = (mode = BillingModeVideo);
          label = (if video then NormalizeVideoBillingResolutionOrDefault label else label);
          tierLabel = (if video then NormalizeVideoBillingResolutionOrDefault tierLabel else tierLabel)
      in if trim_space (ivTierLabel tier) \<noteq> [] \<and> equal_fold label tierLabel \<and> ivPerRequestPrice tier \<noteq> None
         then ivPerRequestPrice tier else tier_price mode tierLabel tiers)"

definition GetRequestTierPriceValue :: "ResolvedPricing option \<Rightarrow> string \<Rightarrow> f64 option" where
  "GetRequestTierPriceValue rr tierLabel =
     (case rr of None \<Rightarrow> None
      | Some r \<Rightarrow>
          if trim_space tierLabel = [] then None
          else tier_price (rpMode r) (trim_space tierLabel) (rpRequestTiers r))"

definition GetRequestTierPrice :: "ResolvedPricing option \<Rightarrow> string \<Rightarrow> f64" where
  "GetRequestTierPrice rr tierLabel = (case GetRequestTierPriceValue rr tierLabel of None \<Rightarrow> f0 | Some x \<Rightarrow> x)"

fun context_price :: "int \<Rightarrow> PricingInterval list \<Rightarrow> f64 option" where
  "context_price n [] = None"
| "context_price n (iv # ivs) =
     (if trim_space (ivTierLabel iv) \<noteq> [] then context_price n ivs
      else if n > ivMinTokens iv \<and> (case ivMaxTokens iv of None \<Rightarrow> True | Some m \<Rightarrow> n \<le> m) \<and> ivPerRequestPrice iv \<noteq> None
      then ivPerRequestPrice iv else context_price n ivs)"

definition GetRequestTierPriceByContextValue :: "ResolvedPricing option \<Rightarrow> int \<Rightarrow> f64 option" where
  "GetRequestTierPriceByContextValue rr n = (case rr of None \<Rightarrow> None | Some r \<Rightarrow> context_price n (rpRequestTiers r))"

definition GetRequestTierPriceByContext :: "ResolvedPricing option \<Rightarrow> int \<Rightarrow> f64" where
  "GetRequestTierPriceByContext rr n = (case GetRequestTierPriceByContextValue rr n of None \<Rightarrow> f0 | Some x \<Rightarrow> x)"

text \<open>Comparing a context amount with the default: equal floats, NaN never.\<close>

definition float_eq :: "f64 \<Rightarrow> f64 \<Rightarrow> bool" where
  "float_eq a b = (a = b \<and> a \<noteq> NaN)"

definition ResolveRequestUnitPrice :: "ResolvedPricing option \<Rightarrow> string \<Rightarrow> int option \<Rightarrow> f64 option" where
  "ResolveRequestUnitPrice rr label totalContext =
     (case rr of None \<Rightarrow> None
      | Some r \<Rightarrow>
          (case GetRequestTierPriceValue rr label of
             Some x \<Rightarrow> Some x
           | None \<Rightarrow>
               let hasDefault = (rpDefaultPerRequestPricePresent r \<or> flt f0 (rpDefaultPerRequestPrice r) \<or>
                     (case rpConfigPricing r of None \<Rightarrow> False | Some c \<Rightarrow> cePerRequestPrice c \<noteq> None));
                   fallback = (if hasDefault then Some (rpDefaultPerRequestPrice r) else None)
               in case totalContext of
                    Some n \<Rightarrow> (case GetRequestTierPriceByContextValue rr n of Some x \<Rightarrow> Some x | None \<Rightarrow> fallback)
                  | None \<Rightarrow>
                      if rpMode r = BillingModePerRequest \<and>
                         list_ex (\<lambda>iv. trim_space (ivTierLabel iv) = [] \<and>
                           (case ivPerRequestPrice iv of None \<Rightarrow> False
                            | Some x \<Rightarrow> \<not> hasDefault \<or> \<not> float_eq x (rpDefaultPerRequestPrice r))) (rpRequestTiers r)
                      then None else fallback))"

section \<open>Costs\<close>

definition unavailable :: "string \<Rightarrow> perror" where
  "unavailable what = Wrap what ErrModelPricingUnavailable"

definition CalculatePerRequestCost :: "ResolvedPricing \<Rightarrow> CostInput \<Rightarrow> (perror, CostBreakdown) result" where
  "CalculatePerRequestCost r input =
     (let units = (if fle (ciUsageUnits input) f0
                   then float_of_int (if ciRequestCount input \<le> 0 then 1 else ciRequestCount input)
                   else ciUsageUnits input)
      in case ResolveRequestUnitPrice (Some r) (ciSizeTier input) (Some (context_tokens (ciTokens input))) of
           None \<Rightarrow> Err (unavailable ''for request price'')
         | Some unitPrice \<Rightarrow>
             let totalCost = fmul unitPrice units in
             Ok (zero_cost\<lparr>cbTotalCost := totalCost, cbActualCost := fmul totalCost (ciRateMultiplier input)\<rparr>))"

definition ResolvedTimeMultiplier :: "ResolvedPricing \<Rightarrow> gtime \<Rightarrow> location option \<Rightarrow> f64" where
  "ResolvedTimeMultiplier r inst place =
     (if rpMode r \<noteq> BillingModeToken then Fin 1
      else case rpConfigPricing r of None \<Rightarrow> Fin 1 | Some c \<Rightarrow> MultiplierAt (ceTimePricing c) inst place)"

definition CalculateTokenCost :: "ResolvedPricing \<Rightarrow> CostInput \<Rightarrow> (perror, CostBreakdown) result" where
  "CalculateTokenCost r input =
     (case GetIntervalPricing r (context_tokens (ciTokens input)) of
        None \<Rightarrow> Err (unavailable ''no pricing available for model'')
      | Some pricing \<Rightarrow>
          let applyLongCtx = (rpIntervals r = [] \<and> rpLongContextPricingEnabled r);
              bd = ComputeTokenBreakdown pricing (ciTokens input) (ciRateMultiplier input) (ciServiceTier input) applyLongCtx;
              bd = (if rpSource r = PricingSourceCatalog \<and> mpTimePricing (amounts pricing) \<noteq> None
                    then ApplyCostBreakdownMultiplier bd
                      (MultiplierAt (mpTimePricing (amounts pricing)) (ciModelPricingAt input) (ciModelTimeLocation input))
                    else bd);
              bd = ApplyCostBreakdownMultiplier bd (ResolvedTimeMultiplier r (ciPricingAt input) (ciTimePricingLocation input))
          in Ok (ApplyCostBreakdownMultiplier bd (MaxReasoningEffortBillingMultiplier (ciReasoningEffort input) (amounts pricing))))"

definition CalculateCost :: "ResolvedPricing \<Rightarrow> CostInput \<Rightarrow> (perror, CostBreakdown) result" where
  "CalculateCost r input =
     (let input = input\<lparr>ciRateMultiplier := clamp_negative (ciRateMultiplier input)\<rparr> in
      case (if unit_mode (rpMode r) then CalculatePerRequestCost r input else CalculateTokenCost r input) of
        Inl e \<Rightarrow> Err e
      | Inr bd \<Rightarrow> Ok (bd\<lparr>cbBillingMode := (if rpMode r = [] then BillingModeToken else rpMode r)\<rparr>))"

section \<open>Lemmas: unavailable prices\<close>

lemma resolved_source [simp]:
  "rpSource (ApplyTokenOverrides c r) = rpSource r"
  "rpSource (ApplyRequestTierOverrides c r) = rpSource r"
  "rpSource (ApplyResolvedPriceMultiplier c r) = rpSource r"
  "rpSource (ApplyResolvedFastModeMultiplier c r) = rpSource r"
  "rpSource (ApplyPricingModifiers cc r) = rpSource r"
  by (simp_all add: ApplyTokenOverrides_def ApplyRequestTierOverrides_def ApplyResolvedPriceMultiplier_def
      ApplyResolvedFastModeMultiplier_def ApplyPricingModifiers_def Let_def split: option.split)

lemma resolved_mode [simp]:
  "rpMode (ApplyTokenOverrides c r) = rpMode r"
  "rpMode (ApplyRequestTierOverrides c r) = rpMode r"
  "rpMode (ApplyResolvedPriceMultiplier c r) = rpMode r"
  "rpMode (ApplyResolvedFastModeMultiplier c r) = rpMode r"
  "rpMode (ApplyPricingModifiers cc r) = rpMode r"
  by (simp_all add: ApplyTokenOverrides_def ApplyRequestTierOverrides_def ApplyResolvedPriceMultiplier_def
      ApplyResolvedFastModeMultiplier_def ApplyPricingModifiers_def Let_def split: option.split)

lemma modifiers_intervals [simp]: "rpIntervals (ApplyPricingModifiers cc r) = rpIntervals r"
  by (simp add: ApplyPricingModifiers_def ApplyResolvedFastModeMultiplier_def Let_def split: option.split)

lemma modifiers_base [simp]: "(rpBasePricing (ApplyPricingModifiers cc r) = None) = (rpBasePricing r = None)"
  by (auto simp: ApplyPricingModifiers_def ApplyResolvedFastModeMultiplier_def Let_def split: option.split)

lemma modifiers_base_ex [simp]: "(\<exists>p. rpBasePricing (ApplyPricingModifiers cc r) = Some p) = (\<exists>p. rpBasePricing r = Some p)"
  using modifiers_base [of cc r] by (simp only: not_None_eq [symmetric])

lemma modifiers_available [simp]: "rpBasePricingUnavailable (ApplyPricingModifiers cc r) = rpBasePricingUnavailable r"
  by (simp add: ApplyPricingModifiers_def ApplyResolvedFastModeMultiplier_def Let_def split: option.split)

lemma configured_source: "rpSource (ResolveConfiguredPricing c base source) = source"
  by (simp add: ResolveConfiguredPricing_def Let_def empty_resolved_def)

lemma unit_mode_token [simp]: "\<not> unit_mode BillingModeToken"
  by (simp add: unit_mode_def billing_modes)

lemma CalculateCost_token:
  "\<not> unit_mode (rpMode r) \<Longrightarrow> (\<exists>bd. CalculateCost r input = Ok bd) \<longleftrightarrow> GetIntervalPricing r (context_tokens (ciTokens input)) \<noteq> None"
  by (auto simp: CalculateCost_def CalculateTokenCost_def Let_def split: option.splits)

lemma CalculateCost_error: "CalculateCost r input = Err e \<Longrightarrow> unwraps_to e ErrModelPricingUnavailable"
  by (auto simp: CalculateCost_def CalculateTokenCost_def CalculatePerRequestCost_def unavailable_def Let_def
      ErrModelPricingUnavailable_def split: option.splits if_splits)

lemma tokenPricing_None:
  assumes "\<not> hasBaseTokenPricing r" "\<not> list_ex PricingIntervalHasEffectiveTokenPricing (rpIntervals r)"
  shows "GetIntervalPricing r n = None"
  using assms FindMatchingInterval_Some [of "rpIntervals r" n]
  by (auto simp: GetIntervalPricing_def tokenPricingForInterval_def list_ex_iff split: option.split)

lemma tokenPricing_base: "hasBaseTokenPricing r \<Longrightarrow> GetIntervalPricing r n \<noteq> None"
  by (auto simp: GetIntervalPricing_def tokenPricingForInterval_def hasBaseTokenPricing_def split: option.split)

lemma Err_cases: "(\<exists>bd. x = Ok bd) \<or> (\<exists>e. x = Err e)"
  by (cases x) auto

lemma configured_card: "rpConfigPricing (ResolveConfiguredPricing c base source) \<noteq> None"
  by (auto simp: ResolveConfiguredPricing_def ApplyRequestTierOverrides_def ApplyTokenOverrides_def
      ApplyResolvedPriceMultiplier_def ApplyResolvedFastModeMultiplier_def Let_def empty_resolved_def split: option.split)

text \<open>The two kinds of resolution: by a card with amounts, or from the base alone.\<close>

lemma resolved_by_card:
  assumes "r = ResolvePriceCards cfg base baseSource lc" "PriceCardOverrides cfg"
  shows "rpSource r = PricingSourceConfig" "rpConfigPricing r \<noteq> None"
  using assms configured_card by (auto simp: ResolvePriceCards_def PriceCardOverrides_def configured_source split: option.splits)

lemma resolved_by_base:
  assumes "r = ResolvePriceCards cfg base baseSource lc" "\<not> PriceCardOverrides cfg"
  shows "rpSource r = baseSource" "rpMode r = BillingModeToken" "rpIntervals r = []"
    "hasBaseTokenPricing r \<longleftrightarrow> base \<noteq> None"
  using assms by (cases cfg; simp add: ResolvePriceCards_def empty_resolved_def hasBaseTokenPricing_def)+

lemma unpriced_no_price:
  assumes "r = ResolvePriceCards cfg base baseSource lc" "base = None \<longleftrightarrow> baseSource = PricingSourceUnpriced"
    "IsUnpriced (Some r)"
  shows "\<not> unit_mode (rpMode r) \<and> GetIntervalPricing r n = None"
proof (cases "PriceCardOverrides cfg")
  case True
  then show ?thesis
    using resolved_by_card [OF assms(1)] assms(3)
    by (auto simp: IsUnpriced_def pricing_sources intro: tokenPricing_None split: if_splits)
next
  case False
  note r = resolved_by_base [OF assms(1) False]
  then have "\<not> hasBaseTokenPricing r" using assms(2,3) by (auto simp: IsUnpriced_def split: if_splits)
  then show ?thesis using r tokenPricing_None by simp
qed

text \<open>
  C14: A model without a price is never billed as free: when a resolution is unpriced, the
  charge of every usage is refused with ErrModelPricingUnavailable; every refusal of
  CalculateCost is that error; and a priced token resolution without context intervals
  charges every usage.
\<close>

theorem unpriced_usage_refused:
  assumes "r = ResolvePriceCards cfg base baseSource lc" "base = None \<longleftrightarrow> baseSource = PricingSourceUnpriced"
  shows "(IsUnpriced (Some r) \<longrightarrow> (\<exists>e. CalculateCost r input = Err e \<and> unwraps_to e ErrModelPricingUnavailable)) \<and>
    (CalculateCost r input = Err e \<longrightarrow> unwraps_to e ErrModelPricingUnavailable) \<and>
    (\<not> IsUnpriced (Some r) \<and> rpMode r = BillingModeToken \<and> rpIntervals r = [] \<longrightarrow> (\<exists>bd. CalculateCost r input = Ok bd))"
proof -
  let ?n = "context_tokens (ciTokens input)"
  have "\<exists>e. CalculateCost r input = Err e" if "IsUnpriced (Some r)"
    using unpriced_no_price [OF assms that, of ?n] CalculateCost_token [of r input] Err_cases by blast
  moreover have "hasBaseTokenPricing r" if "\<not> IsUnpriced (Some r)" "rpMode r = BillingModeToken" "rpIntervals r = []"
    using that assms(2) resolved_by_card(2) [OF assms(1)] resolved_by_base [OF assms(1)]
    by (cases "PriceCardOverrides cfg") (auto simp: IsUnpriced_def split: if_splits)
  ultimately show ?thesis
    using CalculateCost_error CalculateCost_token [of r input] tokenPricing_base [of r ?n] unit_mode_token
    by metis
qed

definition sample_input :: CostInput where
  "sample_input = \<lparr>ciModelPricingAt = \<lparr>ns = 0, loc = utc\<rparr>, ciModelTimeLocation = None, ciModel = ''m'', ciTokens = sample_tokens,
     ciRequestCount = 1, ciUsageUnits = f0, ciSizeTier = [], ciRateMultiplier = Fin 1, ciPricingAt = \<lparr>ns = 0, loc = utc\<rparr>,
     ciServiceTier = [], ciReasoningEffort = [], ciTimePricingLocation = None\<rparr>"

theorem unpriced_usage_refused_witness:
  "\<exists>e. CalculateCost (ResolvePriceCards None None PricingSourceUnpriced True) sample_input = Err e \<and>
     unwraps_to e ErrModelPricingUnavailable"
proof -
  have "IsUnpriced (Some (ResolvePriceCards None None PricingSourceUnpriced True))" by code_simp
  then show ?thesis
    using unpriced_usage_refused [OF refl, of None PricingSourceUnpriced None True sample_input] by simp
qed

end
