(* ===== verification/PriceCatalog.thy ===== *)
theory PriceCatalog
  imports PriceResolution
begin

text \<open>
  Catalog prices and media units: catalog_types.go, the rules and derived cache
  prices of catalog_extensions.go, model_price.go, media.go, image_unit_price.go
  and image_billing_size.go of internal/billing/pricing.  A Go map is the list of
  its entries with distinct keys, in the order a range loop visits them.  Source
  labels and links of a catalog entry are left out, as is its JSON form.
\<close>

section \<open>Catalog entries\<close>

type_synonym MediaPrices = "(string \<times> f64) list"

record CatalogRules =
  crImagePrices :: MediaPrices
  crVideoPrices :: MediaPrices
  crFastMultiplier :: "f64 option"
  crFlexMultiplier :: "f64 option"
  crMaxReasoningEffortMultiplier :: "f64 option"
  crCacheWriteMultiplier :: "f64 option"
  crCacheWrite1hMultiplier :: "f64 option"
  crTimePricing :: "TimePricingConfig option"

record CatalogAmounts =
  caRules :: CatalogRules
  caInputPricePresent :: bool
  caCacheCreation1hPricePresent :: bool
  caPriorityInputPresent :: bool
  caPriorityOutputPresent :: bool
  caPriorityCacheReadPresent :: bool
  caPriorityCacheWritePresent :: bool
  caSource :: string
  caCacheCreationPricePresent :: bool
  caCacheReadPricePresent :: bool
  caImagePricePresent :: bool
  caImageInputPricePresent :: bool
  caImageOutputPricePresent :: bool
  caInputCost :: f64
  caInputCostPriority :: f64
  caOutputCost :: f64
  caOutputCostPriority :: f64
  caCacheCreationCost :: f64
  caCacheCreationCostPriority :: f64
  caCacheCreationCostAbove1hr :: f64
  caCacheReadCost :: f64
  caCacheReadCostPriority :: f64
  caLongContextInputTokenThreshold :: int
  caLongContextInputCostMultiplier :: f64
  caLongContextOutputCostMultiplier :: f64
  caSupportsServiceTier :: bool
  caProvider :: string
  caMode :: string
  caOutputCostPerImage :: f64
  caOutputCostPerImageToken :: f64
  caInputCostPerImageToken :: f64
  caSupportsVision :: bool
  caTokenPricingAbsent :: bool

text \<open>A catalog entry with its context tiers; a tier may lack its price record.\<close>

datatype CatalogModelPricing =
  CatalogModelPricing (catalogAmounts: CatalogAmounts) (catalogTiers: "CatalogContextPrice list")
  and CatalogContextPrice = CatalogContextPrice (catalogThreshold: int) (catalogPricing: "CatalogModelPricing option")

definition validAmount :: "f64 \<Rightarrow> bool" where
  "validAmount x = (fle f0 x \<and> x \<noteq> NaN \<and> \<not> is_inf x)"

text \<open>The loop of NormalizeVideoPrices, with the labels taken so far.\<close>

fun normalize_video :: "MediaPrices \<Rightarrow> MediaPrices \<Rightarrow> (perror, MediaPrices) result" where
  "normalize_video acc [] = Ok acc"
| "normalize_video acc ((key, price) # ps) =
     (case LookupVideoBillingResolution key of
        None \<Rightarrow> Err (Plain ''invalid video_prices'')
      | Some label \<Rightarrow>
          if \<not> validAmount price then Err (Plain ''invalid video_prices'')
          else if label \<in> set (map fst acc) then Err (Plain ''duplicate video resolution'')
          else normalize_video (acc @ [(label, price)]) ps)"

definition NormalizeVideoPrices :: "MediaPrices \<Rightarrow> (perror, MediaPrices) result" where
  "NormalizeVideoPrices prices = normalize_video [] prices"

text \<open>
  CatalogRules.Validate; loading the named zone is the parameter (the time package's
  database), and of several invalid multipliers the loop reports one.
\<close>

definition CatalogRules_Validate :: "(string \<Rightarrow> location option) \<Rightarrow> CatalogRules \<Rightarrow> (perror, unit) result" where
  "CatalogRules_Validate LoadLocation r =
     (case NormalizeVideoPrices (crVideoPrices r) of
        Inl e \<Rightarrow> Err e
      | Inr _ \<Rightarrow>
          if list_ex (\<lambda>(key, price). key \<notin> {''1K'', ''2K'', ''4K''} \<or> \<not> validAmount price) (crImagePrices r)
          then Err (Plain ''invalid image_prices'')
          else if list_ex (\<lambda>value. case value of None \<Rightarrow> False | Some x \<Rightarrow> \<not> validAmount x \<or> x = f0)
               [crFastMultiplier r, crFlexMultiplier r, crMaxReasoningEffortMultiplier r,
                crCacheWriteMultiplier r, crCacheWrite1hMultiplier r]
          then Err (Plain ''invalid multiplier'')
          else case crTimePricing r of
            None \<Rightarrow> Ok ()
          | Some t \<Rightarrow>
              (case ValidateTimezoneName (tpTimezone t) of
                 Inl e \<Rightarrow> Err e
               | Inr _ \<Rightarrow>
                   if LoadLocation (tpTimezone t) = None then Err (Plain ''invalid time_pricing.timezone'')
                   else ValidateTimePricingConfig (Some t)))"

section \<open>Derived cache prices\<close>

text \<open>
  derive: an absent cache amount is the present input amount times the cache
  factor.  The result is the new amount with its presence, or an error.
\<close>

definition derive_price :: "f64 \<Rightarrow> bool \<Rightarrow> f64 option \<Rightarrow> f64 \<times> bool \<Rightarrow> (perror, f64 \<times> bool) result" where
  "derive_price base basePresent multiplier target =
     (case multiplier of
        None \<Rightarrow> Ok target
      | Some m \<Rightarrow>
          if \<not> basePresent \<or> snd target then Ok target
          else if \<not> validAmount (fmul base m) then Err (Plain ''invalid derived price'')
          else Ok (fmul base m, True))"

definition derive_amounts :: "CatalogAmounts \<Rightarrow> (perror, CatalogAmounts) result" where
  "derive_amounts p =
     (case derive_price (caInputCost p) (caInputPricePresent p) (crCacheWriteMultiplier (caRules p))
             (caCacheCreationCost p, caCacheCreationPricePresent p) of
        Inl e \<Rightarrow> Err e
      | Inr (w, wp) \<Rightarrow>
          (case derive_price (caInputCostPriority p) (caPriorityInputPresent p \<or> flt f0 (caInputCostPriority p))
                  (crCacheWriteMultiplier (caRules p)) (caCacheCreationCostPriority p, caPriorityCacheWritePresent p) of
             Inl e \<Rightarrow> Err e
           | Inr (pw, pwp) \<Rightarrow>
               (case derive_price (caInputCost p) (caInputPricePresent p) (crCacheWrite1hMultiplier (caRules p))
                       (caCacheCreationCostAbove1hr p, caCacheCreation1hPricePresent p) of
                  Inl e \<Rightarrow> Err e
                | Inr (h, hp) \<Rightarrow>
                    Ok (p\<lparr>caCacheCreationCost := w, caCacheCreationPricePresent := wp,
                          caCacheCreationCostPriority := pw, caPriorityCacheWritePresent := pwp,
                          caCacheCreationCostAbove1hr := h, caCacheCreation1hPricePresent := hp\<rparr>))))"

text \<open>A tier takes the cache factors of its entry unless it has its own.\<close>

definition inherit_factors :: "CatalogAmounts \<Rightarrow> CatalogAmounts \<Rightarrow> CatalogAmounts" where
  "inherit_factors p tier =
     tier\<lparr>caRules := (caRules tier)\<lparr>
       crCacheWriteMultiplier := (case crCacheWriteMultiplier (caRules tier) of
         None \<Rightarrow> crCacheWriteMultiplier (caRules p) | Some m \<Rightarrow> Some m),
       crCacheWrite1hMultiplier := (case crCacheWrite1hMultiplier (caRules tier) of
         None \<Rightarrow> crCacheWrite1hMultiplier (caRules p) | Some m \<Rightarrow> Some m)\<rparr>\<rparr>"

fun deriveCatalogCachePrices :: "CatalogModelPricing \<Rightarrow> (perror, CatalogModelPricing) result"
  and derive_tiers :: "CatalogAmounts \<Rightarrow> CatalogContextPrice list \<Rightarrow> (perror, CatalogContextPrice list) result" where
  "deriveCatalogCachePrices (CatalogModelPricing a tiers) =
     (case derive_amounts a of
        Inl e \<Rightarrow> Err e
      | Inr b \<Rightarrow> (case derive_tiers a tiers of Inl e \<Rightarrow> Err e | Inr ts \<Rightarrow> Ok (CatalogModelPricing b ts)))"
| "derive_tiers a [] = Ok []"
| "derive_tiers a (CatalogContextPrice t None # ts) =
     (case derive_tiers a ts of Inl e \<Rightarrow> Err e | Inr us \<Rightarrow> Ok (CatalogContextPrice t None # us))"
| "derive_tiers a (CatalogContextPrice t (Some (CatalogModelPricing b inner)) # ts) =
     (case deriveCatalogCachePrices (CatalogModelPricing (inherit_factors a b) inner) of
        Inl e \<Rightarrow> Err e
      | Inr p \<Rightarrow> (case derive_tiers a ts of Inl e \<Rightarrow> Err e | Inr us \<Rightarrow> Ok (CatalogContextPrice t (Some p) # us)))"

section \<open>Catalog prices as model prices\<close>

definition catalog_amounts :: "CatalogAmounts \<Rightarrow> PriceAmounts" where
  "catalog_amounts c =
     (let price5m = caCacheCreationCost c; price1h = caCacheCreationCostAbove1hr c in
      \<lparr>mpTimePricing = crTimePricing (caRules c), mpCatalogSource = caSource c,
        mpPriorityInputPresent = caPriorityInputPresent c, mpPriorityOutputPresent = caPriorityOutputPresent c,
        mpPriorityCacheReadPresent = caPriorityCacheReadPresent c,
        mpPriorityCacheWritePresent = caPriorityCacheWritePresent c,
        mpInputPrice = caInputCost c, mpInputPricePriority = caInputCostPriority c,
        mpImageInputPrice = caInputCostPerImageToken c,
        mpOutputPrice = caOutputCost c, mpOutputPricePriority = caOutputCostPriority c,
        mpCacheCreationPrice = caCacheCreationCost c, mpCacheCreationPricePriority = caCacheCreationCostPriority c,
        mpCacheCreationPriceExplicit = (caSource c \<noteq> [] \<and> caCacheCreationPricePresent c \<and> caCacheCreationCost c = f0),
        mpCacheReadPrice = caCacheReadCost c, mpCacheReadPricePriority = caCacheReadCostPriority c,
        mpCacheCreation5mPrice = price5m, mpCacheCreation1hPrice = price1h,
        mpSupportsCacheBreakdown = (flt f0 price1h \<and> flt price5m price1h \<or> caCacheCreation1hPricePresent c),
        mpSupportsServiceTier = caSupportsServiceTier c,
        mpFastModeMultiplier = None, mpFastMultiplier = crFastMultiplier (caRules c),
        mpFlexMultiplier = crFlexMultiplier (caRules c),
        mpMaxReasoningEffortMultiplier = crMaxReasoningEffortMultiplier (caRules c),
        mpLongContextInputThreshold = caLongContextInputTokenThreshold c,
        mpLongContextThresholdInclusive = equal_fold (caProvider c) ''xai'',
        mpLongContextInputMultiplier = caLongContextInputCostMultiplier c,
        mpLongContextOutputMultiplier = caLongContextOutputCostMultiplier c,
        mpImageOutputPrice = caOutputCostPerImageToken c, mpImageOutputPriceExplicit = caImageOutputPricePresent c\<rparr>)"

text \<open>A tier without usable token prices is dropped; xAI tiers include their threshold.\<close>

fun resolve_entry :: "CatalogModelPricing \<Rightarrow> (perror, ModelPricing) result"
  and resolve_tiers :: "bool \<Rightarrow> CatalogContextPrice list \<Rightarrow> ContextModelPrice list" where
  "resolve_entry (CatalogModelPricing c tiers) =
     (if caSource c = ''unpriced'' \<or> caTokenPricingAbsent c then Err (unavailable ''for model'')
      else Ok (ModelPricing (catalog_amounts c) (resolve_tiers (equal_fold (caProvider c) ''xai'') tiers)))"
| "resolve_tiers inclusive [] = []"
| "resolve_tiers inclusive (CatalogContextPrice t None # ts) = resolve_tiers inclusive ts"
| "resolve_tiers inclusive (CatalogContextPrice t (Some p) # ts) =
     (case resolve_entry p of
        Inl e \<Rightarrow> resolve_tiers inclusive ts
      | Inr price \<Rightarrow>
          ContextModelPrice (if inclusive \<and> t > 0 then t - 1 else t) price # resolve_tiers inclusive ts)"

definition ResolveModelPricing :: "CatalogModelPricing option \<Rightarrow> (perror, ModelPricing) result" where
  "ResolveModelPricing catalogPrice =
     (case catalogPrice of None \<Rightarrow> Err (unavailable ''for model'') | Some p \<Rightarrow> resolve_entry p)"

section \<open>Image sizes\<close>

definition ImageBillingSize1K :: string where "ImageBillingSize1K = ''1K''"
definition ImageBillingSize2K :: string where "ImageBillingSize2K = ''2K''"
definition ImageBillingSize4K :: string where "ImageBillingSize4K = ''4K''"
definition ImageSizeSourceOutput :: string where "ImageSizeSourceOutput = ''output''"
definition ImageSizeSourceInput :: string where "ImageSizeSourceInput = ''input''"
definition ImageSizeSourceDefault :: string where "ImageSizeSourceDefault = ''default''"

lemmas image_sizes = ImageBillingSize1K_def ImageBillingSize2K_def ImageBillingSize4K_def

record ImageBillingSizeResolution =
  isBillingSize :: string
  isInputSize :: string
  isOutputSize :: string
  isSource :: string
  isBreakdown :: "(string \<rightharpoonup> int) option"

text \<open>strings.Split at a one-byte separator.\<close>

fun split_at :: "char \<Rightarrow> string \<Rightarrow> string list" where
  "split_at c [] = [[]]"
| "split_at c (a # s) =
     (if a = c then [] # split_at c s
      else (case split_at c s of [] \<Rightarrow> [[a]] | p # ps \<Rightarrow> (a # p) # ps))"

definition ParseImageBillingDimensions :: "string \<Rightarrow> (int \<times> int) option" where
  "ParseImageBillingDimensions sz =
     (case split_at (CHR ''x'') (to_lower (trim_space sz)) of
        [a, b] \<Rightarrow>
          (case (parse_int (trim_space a), parse_int (trim_space b)) of
             (Some width, Some height) \<Rightarrow> if width \<le> 0 \<or> height \<le> 0 then None else Some (width, height)
           | _ \<Rightarrow> None)
      | _ \<Rightarrow> None)"

definition ClassifyImageBillingTier :: "string \<Rightarrow> string option" where
  "ClassifyImageBillingTier sz =
     (let normalized = to_lower (trim_space sz) in
      if normalized \<in> {[], ''auto''} then None
      else if normalized = ''1k'' then Some ImageBillingSize1K
      else if normalized = ''2k'' then Some ImageBillingSize2K
      else if normalized = ''4k'' then Some ImageBillingSize4K
      else if normalized \<in> {''2048x2048'', ''2048x1152''} then Some ImageBillingSize2K
      else if normalized \<in> {''3840x2160'', ''2160x3840''} then Some ImageBillingSize4K
      else case ParseImageBillingDimensions (trim_space sz) of
        None \<Rightarrow> None
      | Some (width, height) \<Rightarrow>
          let maxEdge = max height width in
          Some (if maxEdge \<le> 1024 then ImageBillingSize1K else if maxEdge \<le> 2048 then ImageBillingSize2K
                else ImageBillingSize4K))"

definition NormalizeImageBillingTierOrDefault :: "string \<Rightarrow> string" where
  "NormalizeImageBillingTierOrDefault sz =
     (case ClassifyImageBillingTier sz of Some tier \<Rightarrow> tier | None \<Rightarrow> ImageBillingSize2K)"

definition CompactTrimmedStrings :: "string list \<Rightarrow> string list" where
  "CompactTrimmedStrings values = filter (\<lambda>s. s \<noteq> []) (map trim_space values)"

definition FirstDisplayImageOutputSize :: "string list \<Rightarrow> string" where
  "FirstDisplayImageOutputSize outputSizes =
     (case filter (\<lambda>s. s \<noteq> []) (map trim_space outputSizes) of [] \<Rightarrow> [] | s # _ \<Rightarrow> s)"

definition ImageTierRank :: "string \<Rightarrow> int" where
  "ImageTierRank tier =
     (let t = to_upper (trim_space tier) in
      if t = ImageBillingSize1K then 1 else if t = ImageBillingSize2K then 2 else if t = ImageBillingSize4K then 3 else 0)"

definition NormalizeImageSizeBreakdown :: "(string \<rightharpoonup> int) \<Rightarrow> (string \<rightharpoonup> int) option" where
  "NormalizeImageSizeBreakdown m =
     (let tiers = filter (\<lambda>t. mget0 m t > 0) [ImageBillingSize1K, ImageBillingSize2K, ImageBillingSize4K]
      in if tiers = [] then None else Some (map_of (map (\<lambda>t. (t, mget0 m t)) tiers)))"

text \<open>The loop over the outputs: counts per tier and the highest tier so far.\<close>

fun count_tiers :: "(string \<rightharpoonup> int) \<Rightarrow> string \<Rightarrow> string list \<Rightarrow> (string \<rightharpoonup> int) \<times> string" where
  "count_tiers m best [] = (m, best)"
| "count_tiers m best (output # os) =
     (case ClassifyImageBillingTier output of
        None \<Rightarrow> count_tiers m best os
      | Some tier \<Rightarrow>
          count_tiers (m(tier \<mapsto> mget0 m tier + 1))
            (if ImageTierRank tier > ImageTierRank best then tier else best) os)"

definition ResolveImageBillingSize :: "string \<Rightarrow> string list \<Rightarrow> ImageBillingSizeResolution" where
  "ResolveImageBillingSize inputSize outputSizes =
     (let inputSize = trim_space inputSize;
          outputSizes = CompactTrimmedStrings outputSizes;
          outputSize = FirstDisplayImageOutputSize outputSizes;
          (breakdown, outputTier) = count_tiers Map.empty [] outputSizes
      in if outputTier \<noteq> [] then
           \<lparr>isBillingSize = outputTier, isInputSize = inputSize, isOutputSize = outputSize,
             isSource = ImageSizeSourceOutput, isBreakdown = NormalizeImageSizeBreakdown breakdown\<rparr>
         else case ClassifyImageBillingTier inputSize of
           Some tier \<Rightarrow>
             \<lparr>isBillingSize = tier, isInputSize = inputSize, isOutputSize = outputSize,
               isSource = ImageSizeSourceInput, isBreakdown = None\<rparr>
         | None \<Rightarrow>
             \<lparr>isBillingSize = ImageBillingSize2K, isInputSize = inputSize, isOutputSize = outputSize,
               isSource = ImageSizeSourceDefault, isBreakdown = None\<rparr>)"

section \<open>Media and operation costs\<close>

definition HasImageUnitPrice :: "CatalogModelPricing option \<Rightarrow> bool" where
  "HasImageUnitPrice price =
     (case price of None \<Rightarrow> False
      | Some p \<Rightarrow> flt f0 (caOutputCostPerImage (catalogAmounts p)) \<or>
          caImagePricePresent (catalogAmounts p) \<and> caOutputCostPerImage (catalogAmounts p) = f0)"

definition HasExplicitImageGenerationPricing :: "CatalogModelPricing option \<Rightarrow> bool" where
  "HasExplicitImageGenerationPricing price =
     (HasImageUnitPrice price \<and>
      (case price of None \<Rightarrow> False | Some p \<Rightarrow> equal_fold (trim_space (caMode (catalogAmounts p))) ''image_generation''))"

definition DefaultImagePrice :: "CatalogModelPricing option \<Rightarrow> string \<Rightarrow> f64 option" where
  "DefaultImagePrice price sz =
     (case price of None \<Rightarrow> None
      | Some p \<Rightarrow>
          let prices = crImagePrices (caRules (catalogAmounts p)) in
          case map_of prices (NormalizeImageBillingTierOrDefault sz) of
            Some x \<Rightarrow> Some x
          | None \<Rightarrow>
              if prices \<noteq> [] then None
              else if HasImageUnitPrice price then Some (caOutputCostPerImage (catalogAmounts p)) else None)"

definition DefaultVideoPrice :: "CatalogModelPricing option \<Rightarrow> string \<Rightarrow> f64 option" where
  "DefaultVideoPrice price resolution =
     (case price of None \<Rightarrow> None
      | Some p \<Rightarrow>
          (case NormalizeVideoPrices (crVideoPrices (caRules (catalogAmounts p))) of
             Inl e \<Rightarrow> None
           | Inr prices \<Rightarrow> map_of prices (NormalizeVideoBillingResolutionOrDefault resolution)))"

definition ConfiguredImageUnitPrice :: "ResolvedPricing option \<Rightarrow> string \<Rightarrow> f64 option" where
  "ConfiguredImageUnitPrice rr sz =
     (case rr of None \<Rightarrow> None
      | Some r \<Rightarrow>
          if rpMode r \<noteq> BillingModeImage \<and> rpMode r \<noteq> BillingModePerRequest then None
          else ResolveRequestUnitPrice rr sz None)"

definition ValidateImageUnitPrice :: "f64 \<Rightarrow> (perror, f64) result" where
  "ValidateImageUnitPrice price =
     (if price = NaN \<or> is_inf price \<or> flt price f0 then Err (unavailable ''invalid image unit price'') else Ok price)"

definition ResolveImageUnitPrice ::
  "ResolvedPricing option \<Rightarrow> CatalogModelPricing option \<Rightarrow> string \<Rightarrow> (perror, f64) result" where
  "ResolveImageUnitPrice rr catalog sz =
     (let found = (case ConfiguredImageUnitPrice rr sz of
            Some x \<Rightarrow> Some x
          | None \<Rightarrow>
              if (case rr of None \<Rightarrow> True | Some r \<Rightarrow> rpMode r \<noteq> BillingModePerRequest)
              then DefaultImagePrice catalog sz else None)
      in case found of None \<Rightarrow> Err ErrModelPricingUnavailable | Some price \<Rightarrow> ValidateImageUnitPrice price)"

text \<open>A unit amount, its charge at the clamped user rate, and the mode of the breakdown.\<close>

definition unit_cost :: "f64 \<Rightarrow> f64 \<Rightarrow> string \<Rightarrow> CostBreakdown" where
  "unit_cost totalCost rate mode =
     zero_cost\<lparr>cbTotalCost := totalCost, cbActualCost := fmul totalCost (clamp_negative rate), cbBillingMode := mode\<rparr>"

definition CalculateImageCost :: "f64 \<Rightarrow> int \<Rightarrow> f64 \<Rightarrow> CostBreakdown" where
  "CalculateImageCost unitPrice imageCount rate =
     (if imageCount \<le> 0 then zero_cost else unit_cost (fmul unitPrice (float_of_int imageCount)) rate BillingModeImage)"

definition CalculateVideoCost :: "f64 \<Rightarrow> int \<Rightarrow> int \<Rightarrow> f64 \<Rightarrow> CostBreakdown" where
  "CalculateVideoCost perSecondPrice videoCount durationSeconds rate =
     (if videoCount \<le> 0 then zero_cost
      else unit_cost (fmul (fmul perSecondPrice (float_of_int (NormalizeVideoBillingDurationSecondsOrDefault durationSeconds)))
             (float_of_int videoCount)) rate BillingModeVideo)"

definition CalculateWebSearchCost :: "int \<Rightarrow> f64 option \<Rightarrow> f64 \<Rightarrow> CostBreakdown" where
  "CalculateWebSearchCost callCount groupPrice rate =
     (if callCount \<le> 0 then zero_cost
      else case groupPrice of
        None \<Rightarrow> zero_cost
      | Some unitPrice \<Rightarrow> unit_cost (fmul unitPrice (float_of_int callCount)) rate BillingModePerRequest)"

definition CalculateSearchCost :: "int \<Rightarrow> f64 option \<Rightarrow> f64 \<Rightarrow> CostBreakdown" where
  "CalculateSearchCost numCalls groupPricePer1k rate =
     (if numCalls \<le> 0 then zero_cost
      else case groupPricePer1k of
        None \<Rightarrow> zero_cost
      | Some pricePer1k \<Rightarrow>
          if flt pricePer1k f0 \<or> pricePer1k = f0 then zero_cost
          else unit_cost (fmul (fdiv pricePer1k (Fin 1000)) (float_of_int numCalls)) rate BillingModePerRequest)"

record AudioPriceConfig =
  apRealtimePerMin :: "f64 option"
  apTTSPerMChars :: "f64 option"
  apSTTPerHour :: "f64 option"

definition CalculateAudioCost :: "string \<Rightarrow> f64 \<Rightarrow> AudioPriceConfig option \<Rightarrow> f64 \<Rightarrow> CostBreakdown" where
  "CalculateAudioCost mode durationOrUnits groupConfig rate =
     (let price = (\<lambda>field. case groupConfig of None \<Rightarrow> f0 | Some c \<Rightarrow> (case field c of None \<Rightarrow> f0 | Some x \<Rightarrow> x));
          unitPrice = (if to_lower mode = ''realtime'' then Some (price apRealtimePerMin)
            else if to_lower mode = ''tts'' then Some (price apTTSPerMChars)
            else if to_lower mode = ''stt'' then Some (price apSTTPerHour) else None)
      in if fle durationOrUnits f0 then zero_cost
         else case unitPrice of
           None \<Rightarrow> zero_cost
         | Some x \<Rightarrow> if fle x f0 then zero_cost else unit_cost (fmul x durationOrUnits) rate BillingModePerRequest)"

section \<open>Lemmas: the billed image size\<close>

definition output_tiers :: "string list \<Rightarrow> string list" where
  "output_tiers os = List.map_filter ClassifyImageBillingTier os"

lemma output_tiers_simps [simp]:
  "output_tiers [] = []"
  "output_tiers (x # os) = (case ClassifyImageBillingTier x of None \<Rightarrow> output_tiers os | Some t \<Rightarrow> t # output_tiers os)"
  by (simp_all add: output_tiers_def List.map_filter_simps split: option.split)

lemma classify_range: "ClassifyImageBillingTier s = Some t \<Longrightarrow> t \<in> {ImageBillingSize1K, ImageBillingSize2K, ImageBillingSize4K}"
  by (auto simp: ClassifyImageBillingTier_def Let_def split: if_splits option.splits)

lemma output_tiers_range: "set (output_tiers os) \<subseteq> {ImageBillingSize1K, ImageBillingSize2K, ImageBillingSize4K}"
  by (induction os) (auto dest: classify_range split: option.splits)

lemma tier_rank [simp]: "ImageTierRank ImageBillingSize1K = 1" "ImageTierRank ImageBillingSize2K = 2"
  "ImageTierRank ImageBillingSize4K = 3" "ImageTierRank [] = 0"
  by code_simp+

lemma tier_names [simp]: "ImageBillingSize1K \<noteq> ImageBillingSize2K" "ImageBillingSize1K \<noteq> ImageBillingSize4K"
  "ImageBillingSize2K \<noteq> ImageBillingSize4K" "ImageBillingSize1K \<noteq> []" "ImageBillingSize2K \<noteq> []" "ImageBillingSize4K \<noteq> []"
  by (simp_all add: image_sizes)

lemma count_tiers_counts:
  "mget0 (fst (count_tiers m best os)) t = mget0 m t + int (count_list (output_tiers os) t)"
  by (induction os arbitrary: m best) (simp_all split: option.split)

lemma count_tiers_best:
  "best \<in> {[], ImageBillingSize1K, ImageBillingSize2K, ImageBillingSize4K} \<Longrightarrow>
     snd (count_tiers m best os) \<in> insert best (set (output_tiers os)) \<and>
     (\<forall>t \<in> insert best (set (output_tiers os)). ImageTierRank t \<le> ImageTierRank (snd (count_tiers m best os)))"
proof (induction os arbitrary: m best)
  case (Cons x os)
  show ?case
  proof (cases "ClassifyImageBillingTier x")
    case None
    then show ?thesis using Cons by simp
  next
    case (Some tier)
    let ?b = "if ImageTierRank tier > ImageTierRank best then tier else best"
    have "?b \<in> {[], ImageBillingSize1K, ImageBillingSize2K, ImageBillingSize4K}"
      using Cons.prems classify_range [OF Some] by auto
    note ih = Cons.IH [OF this]
    obtain m' where "count_tiers m best (x # os) = count_tiers m' ?b os" using Some by simp
    then show ?thesis using ih [of m'] Some by (auto split: if_splits)
  qed
qed simp

lemma breakdown_counts:
  assumes "t \<in> {ImageBillingSize1K, ImageBillingSize2K, ImageBillingSize4K}" "mget0 m t > 0"
  shows "\<exists>b. NormalizeImageSizeBreakdown m = Some b \<and> b t = Some (mget0 m t)"
  using assms by (auto simp: NormalizeImageSizeBreakdown_def Let_def)

text \<open>
  An image is billed by what was produced: when an output size is recognised,
  ResolveImageBillingSize bills the largest recognised output tier, records output as the
  evidence, and its breakdown counts exactly the recognised outputs of every tier; without
  one it bills a recognised input size, and otherwise 2K by default.
\<close>

theorem image_size_from_outputs:
  "let tiers = output_tiers (CompactTrimmedStrings outputs); r = ResolveImageBillingSize input outputs in
     if tiers = [] then
       isBreakdown r = None \<and>
       (case ClassifyImageBillingTier (trim_space input) of
          Some tier \<Rightarrow> isBillingSize r = tier \<and> isSource r = ImageSizeSourceInput
        | None \<Rightarrow> isBillingSize r = ImageBillingSize2K \<and> isSource r = ImageSizeSourceDefault)
     else
       isSource r = ImageSizeSourceOutput \<and> isBillingSize r \<in> set tiers \<and>
       (\<forall>t \<in> set tiers. ImageTierRank t \<le> ImageTierRank (isBillingSize r) \<and>
          (\<exists>b. isBreakdown r = Some b \<and> b t = Some (int (count_list tiers t))))"
proof -
  let ?os = "CompactTrimmedStrings outputs"
  obtain m best where mb: "count_tiers Map.empty [] ?os = (m, best)" by fastforce
  have best: "best \<in> insert [] (set (output_tiers ?os))" "\<forall>t \<in> insert [] (set (output_tiers ?os)). ImageTierRank t \<le> ImageTierRank best"
    using count_tiers_best [of "[]" Map.empty ?os] mb by auto
  have count: "mget0 m t = int (count_list (output_tiers ?os) t)" for t
    using count_tiers_counts [of Map.empty "[]" ?os t] mb by simp
  show ?thesis
  proof (cases "output_tiers ?os = []")
    case True
    then show ?thesis
      using best mb by (simp add: ResolveImageBillingSize_def Let_def split: option.split)
  next
    case False
    then obtain t where "t \<in> set (output_tiers ?os)" by (meson hd_in_set)
    then have "0 < ImageTierRank best" using best(2) output_tiers_range [of ?os] by fastforce
    then have ne: "best \<noteq> []" by auto
    have "\<exists>b. NormalizeImageSizeBreakdown m = Some b \<and> b t = Some (int (count_list (output_tiers ?os) t))"
      if "t \<in> set (output_tiers ?os)" for t
    proof -
      have "mget0 m t > 0" using that count count_list_0_iff [of "output_tiers ?os" t] by fastforce
      then show ?thesis using breakdown_counts [of t m] that output_tiers_range [of ?os] count by auto
    qed
    then show ?thesis using False ne best mb by (simp add: ResolveImageBillingSize_def Let_def)
  qed
qed

end
