(* ===== verification/PriceDisplay.thy ===== *)
theory PriceDisplay
  imports PriceCatalog "HOL-Library.AList"
begin

text \<open>
  Displayed prices: the display half of internal/billing/pricing/calculate.go and
  video_quote.go.  A quote shows the price of a token in every context range, in
  standard and Fast mode.  The lemmas relate the ranges to the prices a usage is
  charged: every positive count lies in a displayed range, and the record of that
  range charges the usage as the bill does, except at the threshold of an
  inclusive long-context rule.
\<close>

section \<open>Records\<close>

record ModelDisplayPricingInterval =
  diMinTokens :: int
  diMaxTokens :: "int option"
  diInput :: f64
  diImageInput :: f64
  diOutput :: f64
  diCacheWrite :: f64
  diCacheWrite1h :: f64
  diCacheRead :: f64
  diImageOutput :: f64
  diFastInput :: f64
  diFastImageInput :: f64
  diFastOutput :: f64
  diFastCacheWrite :: f64
  diFastCacheWrite1h :: f64
  diFastCacheRead :: f64
  diFastImageOutput :: f64

record ModelDisplayPricing =
  dpPricingMode :: string
  dpPriceStatus :: string
  dpInput :: f64
  dpImageInput :: f64
  dpOutput :: f64
  dpCacheWrite :: f64
  dpCacheWrite1h :: f64
  dpCacheRead :: f64
  dpImageOutput :: f64
  dpFastInput :: f64
  dpFastImageInput :: f64
  dpFastOutput :: f64
  dpFastCacheWrite :: f64
  dpFastCacheWrite1h :: f64
  dpFastCacheRead :: f64
  dpFastImageOutput :: f64
  dpContextIntervals :: "ModelDisplayPricingInterval list"
  dpMaxReasoningEffortMultiplier :: "f64 option"
  dpTimePricing :: "TimePricingConfig option"
  dpVideoPrices :: "(string \<times> f64) list"
  dpVideoPricePerSecond :: "f64 option"
  dpImagePriceSizes :: "string list"
  dpImagePrice1K :: f64
  dpImagePrice2K :: f64
  dpImagePrice4K :: f64

definition empty_display :: ModelDisplayPricing where
  "empty_display = \<lparr>dpPricingMode = [], dpPriceStatus = [], dpInput = f0, dpImageInput = f0, dpOutput = f0,
     dpCacheWrite = f0, dpCacheWrite1h = f0, dpCacheRead = f0, dpImageOutput = f0, dpFastInput = f0,
     dpFastImageInput = f0, dpFastOutput = f0, dpFastCacheWrite = f0, dpFastCacheWrite1h = f0, dpFastCacheRead = f0,
     dpFastImageOutput = f0, dpContextIntervals = [], dpMaxReasoningEffortMultiplier = None, dpTimePricing = None,
     dpVideoPrices = [], dpVideoPricePerSecond = None, dpImagePriceSizes = [], dpImagePrice1K = f0,
     dpImagePrice2K = f0, dpImagePrice4K = f0\<rparr>"

section \<open>The price of one record\<close>

definition HasAnyDisplayTokenPricing :: "ModelPricing \<Rightarrow> bool" where
  "HasAnyDisplayTokenPricing pricing =
     (let p = amounts pricing in
      (mpCatalogSource p \<noteq> [] \<and> mpCatalogSource p \<noteq> ''unpriced'') \<or> flt f0 (mpInputPrice p) \<or>
      flt f0 (mpImageInputPrice p) \<or> flt f0 (mpOutputPrice p) \<or> flt f0 (mpCacheCreationPrice p) \<or>
      flt f0 (mpCacheCreation1hPrice p) \<or> flt f0 (mpCacheReadPrice p) \<or> flt f0 (mpImageOutputPrice p))"

definition HasFastModeDisplayPricing :: "ModelPricing \<Rightarrow> bool" where
  "HasFastModeDisplayPricing pricing =
     (let p = amounts pricing in
      HasAnyDisplayTokenPricing pricing \<and>
      (mpFastModeMultiplier p \<noteq> None \<or> mpFastMultiplier p \<noteq> None \<or> mpPriorityInputPresent p \<or>
       mpPriorityOutputPresent p \<or> mpPriorityCacheReadPresent p \<or> mpPriorityCacheWritePresent p \<or>
       flt f0 (mpInputPricePriority p) \<or> flt f0 (mpOutputPricePriority p) \<or>
       flt f0 (mpCacheCreationPricePriority p) \<or> flt f0 (mpCacheReadPricePriority p)))"

definition CacheCreationDisplayPrices :: "PriceAmounts \<Rightarrow> f64 \<times> f64" where
  "CacheCreationDisplayPrices p =
     (let short = (if mpSupportsCacheBreakdown p \<and> flt f0 (mpCacheCreation5mPrice p)
                   then mpCacheCreation5mPrice p else mpCacheCreationPrice p)
      in if \<not> mpSupportsCacheBreakdown p then (short, f0) else (short, mpCacheCreation1hPrice p))"

definition priority_display :: "PriceAmounts \<Rightarrow> PriceAmounts" where
  "priority_display p =
     (let q = p;
          q = (if flt f0 (mpInputPricePriority p) \<or> mpPriorityInputPresent p
               then q\<lparr>mpInputPrice := mpInputPricePriority p\<rparr> else q);
          q = (if flt f0 (mpOutputPricePriority p) \<or> mpPriorityOutputPresent p
               then q\<lparr>mpOutputPrice := mpOutputPricePriority p\<rparr> else q);
          q = (if flt f0 (mpCacheCreationPricePriority p) \<or> mpPriorityCacheWritePresent p
               then (let q = q\<lparr>mpCacheCreationPrice := mpCacheCreationPricePriority p\<rparr> in
                     if mpSupportsCacheBreakdown p \<and> flt f0 (mpCacheCreationPrice p)
                     then (let ratio = fdiv (mpCacheCreationPricePriority p) (mpCacheCreationPrice p) in
                           q\<lparr>mpCacheCreation5mPrice := fmul (mpCacheCreation5mPrice q) ratio,
                             mpCacheCreation1hPrice := fmul (mpCacheCreation1hPrice q) ratio\<rparr>)
                     else q)
               else q)
      in if flt f0 (mpCacheReadPricePriority p) \<or> mpPriorityCacheReadPresent p
         then q\<lparr>mpCacheReadPrice := mpCacheReadPricePriority p\<rparr> else q)"

definition FastModeDisplayPricing :: "ModelPricing \<Rightarrow> ModelPricing option" where
  "FastModeDisplayPricing pricing =
     (if \<not> HasFastModeDisplayPricing pricing then None
      else case NormalizedFastModeMultiplier (amounts pricing) of
        Some m \<Rightarrow> Some (map_amounts (\<lambda>p. p\<lparr>mpFastModeMultiplier := None\<rparr>) (MultiplyModelPricing m pricing))
      | None \<Rightarrow>
          if UsePriorityServiceTierPricing ''priority'' (amounts pricing) then Some (map_amounts priority_display pricing)
          else
            let m = ConfiguredServiceTierMultiplier ''priority'' (amounts pricing) in
            Some (map_amounts (\<lambda>p. p\<lparr>mpInputPrice := fmul (mpInputPrice p) m,
              mpImageInputPrice := fmul (mpImageInputPrice p) m, mpOutputPrice := fmul (mpOutputPrice p) m,
              mpCacheCreationPrice := fmul (mpCacheCreationPrice p) m, mpCacheReadPrice := fmul (mpCacheReadPrice p) m,
              mpImageOutputPrice := fmul (mpImageOutputPrice p) m\<rparr>) pricing))"

definition ModelPricingDisplayInterval :: "int \<Rightarrow> int option \<Rightarrow> ModelPricing \<Rightarrow> f64 \<Rightarrow> ModelDisplayPricingInterval" where
  "ModelPricingDisplayInterval minTokens maxTokens pricing rate =
     (let p = amounts pricing;
          cw = CacheCreationDisplayPrices p;
          base = \<lparr>diMinTokens = minTokens, diMaxTokens = maxTokens, diInput = fmul (mpInputPrice p) rate,
            diImageInput = fmul (mpImageInputPrice p) rate, diOutput = fmul (mpOutputPrice p) rate,
            diCacheWrite = fmul (fst cw) rate, diCacheWrite1h = fmul (snd cw) rate,
            diCacheRead = fmul (mpCacheReadPrice p) rate, diImageOutput = fmul (mpImageOutputPrice p) rate,
            diFastInput = f0, diFastImageInput = f0, diFastOutput = f0, diFastCacheWrite = f0,
            diFastCacheWrite1h = f0, diFastCacheRead = f0, diFastImageOutput = f0\<rparr>
      in case FastModeDisplayPricing pricing of
           None \<Rightarrow> base
         | Some fast \<Rightarrow>
             let f = amounts fast; fw = CacheCreationDisplayPrices f in
             base\<lparr>diFastInput := fmul (mpInputPrice f) rate, diFastImageInput := fmul (mpImageInputPrice f) rate,
               diFastOutput := fmul (mpOutputPrice f) rate, diFastCacheWrite := fmul (fst fw) rate,
               diFastCacheWrite1h := fmul (snd fw) rate, diFastCacheRead := fmul (mpCacheReadPrice f) rate,
               diFastImageOutput := fmul (mpImageOutputPrice f) rate\<rparr>)"

text \<open>Go's equality of the two structs: equal counts and floats, NaN never equal.\<close>

definition same_interval :: "ModelDisplayPricingInterval \<Rightarrow> ModelDisplayPricingInterval \<Rightarrow> bool" where
  "same_interval a b =
     (diMinTokens a = diMinTokens b \<and> diMaxTokens a = diMaxTokens b \<and>
      list_all (\<lambda>f. float_eq (f a) (f b)) [diInput, diImageInput, diOutput, diCacheWrite, diCacheWrite1h, diCacheRead,
        diImageOutput, diFastInput, diFastImageInput, diFastOutput, diFastCacheWrite, diFastCacheWrite1h, diFastCacheRead,
        diFastImageOutput])"

definition SameDisplayTokenPricing :: "ModelPricing option \<Rightarrow> ModelPricing option \<Rightarrow> bool" where
  "SameDisplayTokenPricing a b =
     (case (a, b) of
        (Some p, Some q) \<Rightarrow> same_interval (ModelPricingDisplayInterval 0 None p (Fin 1)) (ModelPricingDisplayInterval 0 None q (Fin 1))
      | (None, None) \<Rightarrow> True
      | _ \<Rightarrow> False)"

section \<open>Built-in context ranges\<close>

definition WithoutLongContextDisplayPricing :: "ModelPricing \<Rightarrow> ModelPricing" where
  "WithoutLongContextDisplayPricing pricing =
     ModelPricing ((amounts pricing)\<lparr>mpLongContextInputThreshold := 0, mpLongContextInputMultiplier := f0,
       mpLongContextOutputMultiplier := f0\<rparr>) []"

definition ApplyLongContextDisplayMultipliers :: "ModelPricing \<Rightarrow> ModelPricing" where
  "ApplyLongContextDisplayMultipliers pricing =
     (let i = LongContextMultiplierOrOne (mpLongContextInputMultiplier (amounts pricing));
          out = LongContextMultiplierOrOne (mpLongContextOutputMultiplier (amounts pricing))
      in map_amounts (\<lambda>p. p\<lparr>mpInputPrice := fmul (mpInputPrice p) i, mpInputPricePriority := fmul (mpInputPricePriority p) i,
           mpOutputPrice := fmul (mpOutputPrice p) out, mpOutputPricePriority := fmul (mpOutputPricePriority p) out,
           mpCacheCreationPrice := fmul (mpCacheCreationPrice p) i,
           mpCacheCreationPricePriority := fmul (mpCacheCreationPricePriority p) i,
           mpCacheCreation5mPrice := fmul (mpCacheCreation5mPrice p) i,
           mpCacheCreation1hPrice := fmul (mpCacheCreation1hPrice p) i,
           mpCacheReadPrice := fmul (mpCacheReadPrice p) i, mpCacheReadPricePriority := fmul (mpCacheReadPricePriority p) i\<rparr>)
         pricing)"

definition HasLongContextDisplayPricing :: "ModelPricing \<Rightarrow> bool" where
  "HasLongContextDisplayPricing pricing =
     (HasAnyDisplayTokenPricing pricing \<and> mpLongContextInputThreshold (amounts pricing) > 0 \<and>
      (flt (Fin 1) (mpLongContextInputMultiplier (amounts pricing)) \<or> flt (Fin 1) (mpLongContextOutputMultiplier (amounts pricing))))"

fun tier_intervals :: "PriceAmounts \<Rightarrow> f64 \<Rightarrow> int \<Rightarrow> ModelPricing \<Rightarrow> ContextModelPrice list \<Rightarrow> ModelDisplayPricingInterval list" where
  "tier_intervals base rate start current [] = [ModelPricingDisplayInterval start None current rate]"
| "tier_intervals base rate start current (tier # ts) =
     ModelPricingDisplayInterval start (Some (Threshold tier)) current rate #
     tier_intervals base rate (Threshold tier) (inherit_modifiers base (tierPricing tier)) ts"

definition LongContextDisplayPricingIntervals :: "ModelPricing \<Rightarrow> f64 \<Rightarrow> ModelDisplayPricingInterval list" where
  "LongContextDisplayPricingIntervals pricing rate =
     (if ContextPrices pricing \<noteq> [] then tier_intervals (amounts pricing) rate 0 pricing (ContextPrices pricing)
      else if \<not> HasLongContextDisplayPricing pricing then []
      else let threshold = mpLongContextInputThreshold (amounts pricing) in
        [ModelPricingDisplayInterval 0 (Some threshold) pricing rate,
         ModelPricingDisplayInterval threshold None (ApplyLongContextDisplayMultipliers pricing) rate])"

definition BuildTokenIntervalDisplayPricing :: "ModelDisplayPricingInterval list \<Rightarrow> ModelDisplayPricing" where
  "BuildTokenIntervalDisplayPricing intervals =
     empty_display\<lparr>dpPricingMode := ''token'', dpPriceStatus := ''priced'', dpContextIntervals := intervals\<rparr>"

definition BuildTokenDisplayPricing :: "ModelPricing \<Rightarrow> f64 \<Rightarrow> ModelDisplayPricing" where
  "BuildTokenDisplayPricing pricing rate =
     (let intervals = LongContextDisplayPricingIntervals pricing rate in
      if intervals \<noteq> [] then BuildTokenIntervalDisplayPricing intervals
      else
        let di = ModelPricingDisplayInterval 0 None pricing rate in
        empty_display\<lparr>dpPricingMode := ''token'', dpPriceStatus := ''priced'', dpInput := diInput di,
          dpImageInput := diImageInput di, dpOutput := diOutput di, dpCacheWrite := diCacheWrite di,
          dpCacheWrite1h := diCacheWrite1h di, dpCacheRead := diCacheRead di, dpImageOutput := diImageOutput di,
          dpFastInput := diFastInput di, dpFastImageInput := diFastImageInput di, dpFastOutput := diFastOutput di,
          dpFastCacheWrite := diFastCacheWrite di, dpFastCacheWrite1h := diFastCacheWrite1h di,
          dpFastCacheRead := diFastCacheRead di, dpFastImageOutput := diFastImageOutput di\<rparr>)"

definition BuildImageDisplayPricing :: "f64 \<Rightarrow> f64 \<Rightarrow> f64 \<Rightarrow> ModelDisplayPricing" where
  "BuildImageDisplayPricing price1K price2K price4K =
     empty_display\<lparr>dpPricingMode := ''image'', dpPriceStatus := ''priced'', dpImagePriceSizes := [''1K'', ''2K'', ''4K''],
       dpImagePrice1K := price1K, dpImagePrice2K := price2K, dpImagePrice4K := price4K\<rparr>"

definition UnknownDisplayPricing :: ModelDisplayPricing where
  "UnknownDisplayPricing = empty_display\<lparr>dpPricingMode := ''unknown'', dpPriceStatus := ''unpriced''\<rparr>"

section \<open>Configured context ranges\<close>

record ResolvedTokenPriceRange =
  rgMinTokens :: int
  rgMaxTokens :: "int option"
  rgPricing :: "ModelPricing option"

definition gap_pricing :: "ResolvedPricing \<Rightarrow> ModelPricing option" where
  "gap_pricing r = map_option WithoutLongContextDisplayPricing (tokenPricingForInterval r None)"

fun price_ranges :: "ResolvedPricing \<Rightarrow> int \<Rightarrow> PricingInterval list \<Rightarrow> ResolvedTokenPriceRange list" where
  "price_ranges r cursor [] = [\<lparr>rgMinTokens = cursor, rgMaxTokens = None, rgPricing = gap_pricing r\<rparr>]"
| "price_ranges r cursor (iv # ivs) =
     (if ivMinTokens iv > cursor
      then [\<lparr>rgMinTokens = cursor, rgMaxTokens = Some (ivMinTokens iv), rgPricing = gap_pricing r\<rparr>] else []) @
     \<lparr>rgMinTokens = ivMinTokens iv, rgMaxTokens = ivMaxTokens iv, rgPricing = tokenPricingForInterval r (Some iv)\<rparr> #
     (case ivMaxTokens iv of None \<Rightarrow> [] | Some m \<Rightarrow> price_ranges r m ivs)"

definition ResolvedTokenPriceRanges :: "ResolvedPricing option \<Rightarrow> ResolvedTokenPriceRange list" where
  "ResolvedTokenPriceRanges rr =
     (case rr of None \<Rightarrow> []
      | Some r \<Rightarrow> if rpIntervals r = [] then [] else price_ranges r 0 (sort_by by_min (rpIntervals r)))"

definition ResolvedDisplayTokenPricing :: "ResolvedPricing option \<Rightarrow> ModelPricing option" where
  "ResolvedDisplayTokenPricing rr =
     (case rr of None \<Rightarrow> None
      | Some r \<Rightarrow>
          if rpIntervals r = [] then tokenPricingForInterval r None
          else
            let ranges = ResolvedTokenPriceRanges rr; pricing = rgPricing (hd ranges) in
            if list_ex (\<lambda>rg. rgPricing rg = None \<or> \<not> SameDisplayTokenPricing pricing (rgPricing rg)) ranges
            then None else pricing)"

definition ResolvedDisplayPricingIntervals :: "ResolvedPricing option \<Rightarrow> f64 \<Rightarrow> ModelDisplayPricingInterval list" where
  "ResolvedDisplayPricingIntervals rr rate =
     List.map_filter (\<lambda>rg. map_option (\<lambda>p. ModelPricingDisplayInterval (rgMinTokens rg) (rgMaxTokens rg) p rate) (rgPricing rg))
       (ResolvedTokenPriceRanges rr)"

definition ResolvedHasFastModeDisplayPricing :: "ResolvedPricing option \<Rightarrow> bool" where
  "ResolvedHasFastModeDisplayPricing rr =
     (case rr of None \<Rightarrow> False
      | Some r \<Rightarrow>
          if rpMode r \<noteq> BillingModeToken then False
          else (case tokenPricingForInterval r None of None \<Rightarrow> False | Some p \<Rightarrow> HasFastModeDisplayPricing p) \<or>
            list_ex (\<lambda>iv. case tokenPricingForInterval r (Some iv) of None \<Rightarrow> False | Some p \<Rightarrow> HasFastModeDisplayPricing p)
              (rpIntervals r))"

section \<open>The quote of a resolution\<close>

definition withTokenDisplayModifiers :: "ModelDisplayPricing \<Rightarrow> ResolvedPricing \<Rightarrow> ModelDisplayPricing" where
  "withTokenDisplayModifiers display r =
     (let m = (case rpBasePricing r of None \<Rightarrow> None | Some b \<Rightarrow> mpMaxReasoningEffortMultiplier (amounts b));
          display = (case m of
              Some x \<Rightarrow> if flt f0 x \<and> x \<noteq> Fin 1 then display\<lparr>dpMaxReasoningEffortMultiplier := Some x\<rparr> else display
            | None \<Rightarrow> display)
      in case rpConfigPricing r of
           None \<Rightarrow> display
         | Some c \<Rightarrow>
             (case ceTimePricing c of
                None \<Rightarrow> display
              | Some t \<Rightarrow>
                  if tpPeriods t \<noteq> [] \<and> ValidateTimePricingConfig (Some t) = Ok ()
                  then display\<lparr>dpTimePricing := Some t\<rparr> else display))"

text \<open>One label of the video quote, where the amount and its scaling are valid.\<close>

definition put_video :: "f64 \<Rightarrow> string \<Rightarrow> f64 option \<Rightarrow> (string \<times> f64) list \<Rightarrow> (string \<times> f64) list" where
  "put_video rate label price m =
     (case price of None \<Rightarrow> m
      | Some x \<Rightarrow> if validAmount x \<and> validAmount (fmul x rate) then AList.update label (fmul x rate) m else m)"

fun video_quotes :: "ResolvedPricing \<Rightarrow> f64 \<Rightarrow> PricingInterval list \<Rightarrow> (string \<times> f64) list \<Rightarrow> (string \<times> f64) list" where
  "video_quotes r rate [] m = m"
| "video_quotes r rate (tier # ts) m =
     (case LookupVideoBillingResolution (ivTierLabel tier) of
        None \<Rightarrow> video_quotes r rate ts m
      | Some label \<Rightarrow> video_quotes r rate ts (put_video rate label (ResolveRequestUnitPrice (Some r) label None) m))"

fun catalog_quotes :: "f64 \<Rightarrow> MediaPrices \<Rightarrow> (string \<times> f64) list \<Rightarrow> (string \<times> f64) list" where
  "catalog_quotes rate [] m = m"
| "catalog_quotes rate ((label, x) # ps) m =
     catalog_quotes rate ps (if validAmount (fmul x rate) then AList.update label (fmul x rate) m else m)"

definition BuildVideoDisplayPricing ::
  "ResolvedPricing option \<Rightarrow> CatalogModelPricing option \<Rightarrow> f64 \<Rightarrow> ModelDisplayPricing \<times> bool" where
  "BuildVideoDisplayPricing rr catalog rate =
     (let result = empty_display\<lparr>dpPricingMode := ''video'', dpPriceStatus := ''priced''\<rparr>;
          quoted = (\<lambda>res. (res, dpVideoPrices res \<noteq> [] \<or> dpVideoPricePerSecond res \<noteq> None))
      in case rr of
           Some r \<Rightarrow>
             if rpMode r \<noteq> BillingModeVideo then (empty_display, False)
             else
               let res = result\<lparr>dpVideoPrices := video_quotes r rate (rpRequestTiers r) []\<rparr> in
               (case ResolveRequestUnitPrice rr [] None of
                  Some x \<Rightarrow>
                    quoted (if validAmount x \<and> validAmount (fmul x rate)
                            then res\<lparr>dpVideoPricePerSecond := Some (fmul x rate)\<rparr> else res)
                | None \<Rightarrow> quoted res)
         | None \<Rightarrow>
             (case catalog of
                None \<Rightarrow> quoted result
              | Some c \<Rightarrow>
                  (case NormalizeVideoPrices (crVideoPrices (caRules (catalogAmounts c))) of
                     Inl e \<Rightarrow> (empty_display, False)
                   | Inr prices \<Rightarrow> quoted (result\<lparr>dpVideoPrices := catalog_quotes rate prices []\<rparr>))))"

definition put_image :: "ResolvedPricing \<Rightarrow> f64 \<Rightarrow> string \<Rightarrow> (f64 \<Rightarrow> ModelDisplayPricing \<Rightarrow> ModelDisplayPricing)
    \<Rightarrow> ModelDisplayPricing \<Rightarrow> ModelDisplayPricing" where
  "put_image r rate sz upd res =
     (case ConfiguredImageUnitPrice (Some r) sz of
        None \<Rightarrow> res
      | Some x \<Rightarrow> upd (fmul x rate) (res\<lparr>dpImagePriceSizes := dpImagePriceSizes res @ [sz]\<rparr>))"

definition image_quote :: "ResolvedPricing \<Rightarrow> f64 \<Rightarrow> ModelDisplayPricing \<times> bool" where
  "image_quote r rate =
     (let res = empty_display\<lparr>dpPricingMode := ''image'', dpPriceStatus := ''priced''\<rparr>;
          res = put_image r rate ''1K'' (\<lambda>x d. d\<lparr>dpImagePrice1K := x\<rparr>) res;
          res = put_image r rate ''2K'' (\<lambda>x d. d\<lparr>dpImagePrice2K := x\<rparr>) res;
          res = put_image r rate ''4K'' (\<lambda>x d. d\<lparr>dpImagePrice4K := x\<rparr>) res
      in (res, dpImagePriceSizes res \<noteq> []))"

definition DisplayPricingFromResolved :: "f64 \<Rightarrow> ResolvedPricing option \<Rightarrow> ModelDisplayPricing \<times> bool" where
  "DisplayPricingFromResolved rate rr =
     (case rr of None \<Rightarrow> (empty_display, False)
      | Some r \<Rightarrow>
          if rpMode r = BillingModeVideo then BuildVideoDisplayPricing rr None rate
          else if rpMode r = BillingModeToken then
            (let pricing = ResolvedDisplayTokenPricing rr;
                 pricing = (if rpLongContextPricingEnabled r then pricing
                            else map_option WithoutLongContextDisplayPricing pricing);
                 intervals = ResolvedDisplayPricingIntervals rr rate;
                 by_ranges = (if intervals \<noteq> []
                   then (withTokenDisplayModifiers (BuildTokenIntervalDisplayPricing intervals) r, True)
                   else (empty_display, False))
             in case pricing of
                  Some p \<Rightarrow>
                    if HasAnyDisplayTokenPricing p \<or> HasEffectiveOverridePricing rr
                    then (withTokenDisplayModifiers (BuildTokenDisplayPricing p rate) r, True) else by_ranges
                | None \<Rightarrow> by_ranges)
          else if rpMode r = BillingModeImage \<or> rpMode r = BillingModePerRequest then
            (if rpSource r \<noteq> PricingSourceConfig then (empty_display, False)
             else if rpMode r = BillingModePerRequest \<and>
               \<not> list_ex (\<lambda>tier. list_ex (\<lambda>sz. equal_fold (trim_space (ivTierLabel tier)) sz) [''512'', ''1K'', ''2K'', ''4K''])
                 (rpRequestTiers r)
             then (empty_display, False)
             else image_quote r rate)
          else (empty_display, False))"

section \<open>Lemmas: intervals of a resolved card\<close>

lemma sort_by_min_eq:
  assumes "mset ys = mset xs" "sorted_wrt before ys" "list_all proper ys"
  shows "sort_by by_min xs = ys"
proof -
  have lt: "sorted_wrt by_min ys"
    using assms(2,3) by (induction ys) (auto simp: by_min_def proper_def)
  have st: "set ys = set xs" using assms(1) by (metis set_mset_mset)
  have "strict_order_on (set xs) by_min"
    using sorted_wrt_total [OF lt] by (auto simp: strict_order_on_def st by_min_def)
  moreover have "sorted_wrt (\<lambda>x y. \<not> by_min y x) ys"
    using lt by (rule sorted_wrt_mono_rel [rotated]) (auto simp: by_min_def)
  ultimately show ?thesis using sort_by_unique [OF _ assms(1)] by simp
qed

lemma disjoint_filter: "disjoint_intervals ivs \<Longrightarrow> disjoint_intervals (filter P ivs)"
proof -
  assume d: "disjoint_intervals ivs"
  let ?s = "sort_by by_min ivs"
  have "list_all proper (filter P ?s)" "sorted_wrt before (filter P ?s)"
    using d by (auto simp: disjoint_intervals_def list_all_iff intro: sorted_wrt_filter)
  then have "sort_by by_min (filter P ivs) = filter P ?s"
    by (intro sort_by_min_eq) (simp_all add: mset_filter)
  then show ?thesis
    using d \<open>sorted_wrt before (filter P ?s)\<close> by (simp add: disjoint_intervals_def list_all_iff)
qed

lemma disjoint_map:
  assumes "disjoint_intervals ivs" "\<And>iv. ivMinTokens (f iv) = ivMinTokens iv" "\<And>iv. ivMaxTokens (f iv) = ivMaxTokens iv"
  shows "disjoint_intervals (map f ivs)"
proof -
  let ?s = "sort_by by_min ivs"
  have p: "proper (f iv) = proper iv" for iv using assms(2,3) by (cases "ivMaxTokens iv") (simp_all add: proper_def)
  have s: "sorted_wrt before (map f ?s)" using assms by (simp add: disjoint_intervals_def sorted_wrt_map)
  have "list_all proper (map f ?s)" using assms(1) p by (auto simp: disjoint_intervals_def list_all_iff)
  then have "sort_by by_min (map f ivs) = map f ?s" using s by (intro sort_by_min_eq) simp_all
  then show ?thesis using s p assms(1) by (auto simp: disjoint_intervals_def list_all_iff)
qed

lemma disjoint_resolved:
  assumes "ValidateIntervals (ceIntervals c) (entry_mode c) = Ok ()" "\<not> unit_mode (entry_mode c)"
  shows "disjoint_intervals (rpIntervals (ResolvePriceCards (Some c) base src lc))"
proof -
  note d = disjoint_filter [OF ValidateIntervals_disjoint [OF assms]]
  have "disjoint_intervals (MultiplyPricingIntervals m (filter has_token_terms (ceIntervals c)))" for m
    unfolding MultiplyPricingIntervals_def by (rule disjoint_map [OF d]) simp_all
  moreover have "disjoint_intervals []" by (simp add: disjoint_intervals_def)
  ultimately show ?thesis
    using assms(2) d by (simp add: ResolvePriceCards_def ResolveConfiguredPricing_def Let_def ApplyResolvedFastModeMultiplier_def
        ApplyResolvedPriceMultiplier_def ApplyTokenOverrides_def FilterValidTokenIntervals_def empty_resolved_def split: option.split)
qed

section \<open>Lemmas: the ranges and the bill\<close>

abbreviation spans :: "ResolvedTokenPriceRange \<Rightarrow> int \<Rightarrow> bool" where
  "spans rg n \<equiv> covers (rgMinTokens rg) (rgMaxTokens rg) n"

definition range_price :: "ResolvedPricing \<Rightarrow> PricingInterval list \<Rightarrow> int \<Rightarrow> ModelPricing option" where
  "range_price r ivs n =
     (case FindMatchingInterval ivs n of None \<Rightarrow> gap_pricing r | Some iv \<Rightarrow> tokenPricingForInterval r (Some iv))"

lemma price_ranges_above: "rg \<in> set (price_ranges r cursor ivs) \<Longrightarrow> sorted_wrt before ivs \<Longrightarrow> list_all proper ivs \<Longrightarrow>
   \<forall>iv \<in> set ivs. cursor \<le> ivMinTokens iv \<Longrightarrow> cursor \<le> rgMinTokens rg"
proof (induction r cursor ivs rule: price_ranges.induct)
  case (2 r cursor iv ivs)
  show ?case
  proof (cases "ivMaxTokens iv")
    case (Some m)
    have "cursor \<le> m" using 2(4,5) Some by (auto simp: proper_def)
    moreover have "m \<le> rgMinTokens rg" if "rg \<in> set (price_ranges r m ivs)"
      using 2(1) [OF Some that] 2(3,4) Some by auto
    ultimately show ?thesis using 2(2,5) Some by (auto split: if_splits)
  qed (use 2(2,5) in \<open>auto split: if_splits\<close>)
qed simp

lemma price_ranges_cover:
  "sorted_wrt before ivs \<Longrightarrow> list_all proper ivs \<Longrightarrow> \<forall>iv \<in> set ivs. cursor \<le> ivMinTokens iv \<Longrightarrow> cursor < n \<Longrightarrow>
     (\<exists>rg \<in> set (price_ranges r cursor ivs). spans rg n) \<and>
     (\<forall>rg \<in> set (price_ranges r cursor ivs). spans rg n \<longrightarrow> rgPricing rg = range_price r ivs n)"
proof (induction r cursor ivs rule: price_ranges.induct)
  case (1 r cursor)
  then show ?case by (simp add: covers_def range_price_def)
next
  case (2 r cursor iv ivs)
  have none: "\<not> matches n j" if "j \<in> set (iv # ivs)" "n \<le> ivMinTokens iv" for j
    using 2(2,3) that by (auto simp: covers_def proper_def split: option.splits)
  have after: "ivMinTokens iv < m \<and> m \<le> rgMinTokens rg"
    if "rg \<in> set (price_ranges r m ivs)" "ivMaxTokens iv = Some m" for rg m
  proof -
    have "sorted_wrt before ivs" "list_all proper ivs" "\<forall>j \<in> set ivs. m \<le> ivMinTokens j" "ivMinTokens iv < m"
      using 2(2,3) that(2) by (auto simp: proper_def [of iv])
    then show ?thesis using price_ranges_above [OF that(1)] by simp
  qed
  consider "n \<le> ivMinTokens iv" | "matches n iv" | m where "ivMaxTokens iv = Some m" "m < n"
    by (cases "ivMaxTokens iv") (fastforce simp: covers_def not_le)+
  then show ?case
  proof cases
    case 1
    then have lt: "cursor < ivMinTokens iv" using 2(5) by simp
    have price: "range_price r (iv # ivs) n = gap_pricing r"
      using none 1 FindMatchingInterval_None [of "iv # ivs" n] by (simp add: range_price_def)
    have "\<not> spans rg n" if "rg \<in> set (price_ranges r m ivs)" "ivMaxTokens iv = Some m" for rg m
      using after [OF that] 1 by (simp add: covers_def)
    then show ?thesis using 1 lt 2(5) price by (cases "ivMaxTokens iv") (auto simp: covers_def)
  next
    case inside: 2
    have price: "range_price r (iv # ivs) n = tokenPricingForInterval r (Some iv)"
      using inside by (simp add: range_price_def covers_def)
    have "\<not> spans rg n" if "rg \<in> set (price_ranges r m ivs)" "ivMaxTokens iv = Some m" for rg m
      using after [OF that] that(2) inside by (simp add: covers_def)
    then show ?thesis using inside price by (cases "ivMaxTokens iv") (auto simp: covers_def)
  next
    case (3 m)
    have "ivMinTokens iv < m" using 2(3) 3 by (simp add: proper_def)
    then have nm: "\<not> matches n iv" "ivMinTokens iv < n" using 3 by (auto simp: covers_def)
    then have price: "range_price r (iv # ivs) n = range_price r ivs n"
      by (simp add: range_price_def FindMatchingInterval_find)
    show ?thesis
      using 2(1) [OF 3(1)] 2(2,3) 3 nm price by (auto simp: covers_def)
  qed
qed

lemma FindMatchingInterval_sorted:
  assumes "disjoint_intervals ivs"
  shows "FindMatchingInterval (sort_by by_min ivs) n = FindMatchingInterval ivs n"
  by (rule disjoint_FindMatchingInterval_perm [OF assms]) simp

text \<open>Without the long-context rule a record charges as the record it is copied from does without it.\<close>

lemma without_long_context_breakdown:
  "ComputeTokenBreakdown (WithoutLongContextDisplayPricing p) t rate tier False = ComputeTokenBreakdown p t rate tier False"
proof -
  let ?q = "amounts (WithoutLongContextDisplayPricing p)"
  have sel:
    "mpInputPrice ?q = mpInputPrice (amounts p)" "mpInputPricePriority ?q = mpInputPricePriority (amounts p)"
    "mpImageInputPrice ?q = mpImageInputPrice (amounts p)" "mpOutputPrice ?q = mpOutputPrice (amounts p)"
    "mpOutputPricePriority ?q = mpOutputPricePriority (amounts p)"
    "mpCacheCreationPrice ?q = mpCacheCreationPrice (amounts p)"
    "mpCacheCreationPricePriority ?q = mpCacheCreationPricePriority (amounts p)"
    "mpCacheReadPrice ?q = mpCacheReadPrice (amounts p)"
    "mpCacheReadPricePriority ?q = mpCacheReadPricePriority (amounts p)"
    "mpCacheCreation5mPrice ?q = mpCacheCreation5mPrice (amounts p)"
    "mpCacheCreation1hPrice ?q = mpCacheCreation1hPrice (amounts p)"
    "mpSupportsCacheBreakdown ?q = mpSupportsCacheBreakdown (amounts p)"
    "mpPriorityInputPresent ?q = mpPriorityInputPresent (amounts p)"
    "mpPriorityOutputPresent ?q = mpPriorityOutputPresent (amounts p)"
    "mpPriorityCacheReadPresent ?q = mpPriorityCacheReadPresent (amounts p)"
    "mpPriorityCacheWritePresent ?q = mpPriorityCacheWritePresent (amounts p)"
    "mpFastModeMultiplier ?q = mpFastModeMultiplier (amounts p)"
    "mpFastMultiplier ?q = mpFastMultiplier (amounts p)" "mpFlexMultiplier ?q = mpFlexMultiplier (amounts p)"
    "mpImageOutputPrice ?q = mpImageOutputPrice (amounts p)"
    "mpImageOutputPriceExplicit ?q = mpImageOutputPriceExplicit (amounts p)"
    by (simp_all add: WithoutLongContextDisplayPricing_def)
  have "NormalizedFastModeMultiplier ?q = NormalizedFastModeMultiplier (amounts p)"
    by (simp only: NormalizedFastModeMultiplier_def sel)
  moreover have use: "UsePriorityServiceTierPricing tier ?q = UsePriorityServiceTierPricing tier (amounts p)"
    by (simp only: UsePriorityServiceTierPricing_def sel)
  ultimately have "select_prices ?q tier = select_prices (amounts p) tier"
    by (simp only: select_prices_def ConfiguredServiceTierMultiplier_def sel)
  moreover have "priced_components ?q t tier sp m = priced_components (amounts p) t tier sp m" for sp m
    by (simp only: priced_components_def unscaled_components_def ComputeCacheCreationCost_def sel use)
  ultimately show ?thesis by (simp only: ComputeTokenBreakdown_base)
qed

text \<open>
  C15: What a customer is shown is what is charged: for a card whose intervals passed
  validation, every positive context count lies in a displayed range, and a displayed range
  that contains the count carries no price exactly when the charge is refused, and otherwise a
  record that gives the same cost breakdown as the record CalculateTokenCost uses, for every
  usage, rate and service tier.
\<close>

theorem displayed_ranges_are_billed:
  assumes "ValidateIntervals (ceIntervals c) (entry_mode c) = Ok ()" "\<not> unit_mode (entry_mode c)"
    and "r = ResolvePriceCards (Some c) base src lc" "rpIntervals r \<noteq> []" "0 < n"
  shows "(\<exists>rg \<in> set (ResolvedTokenPriceRanges (Some r)). covers (rgMinTokens rg) (rgMaxTokens rg) n) \<and>
    (\<forall>rg \<in> set (ResolvedTokenPriceRanges (Some r)). covers (rgMinTokens rg) (rgMaxTokens rg) n \<longrightarrow>
      (case GetIntervalPricing r n of
         None \<Rightarrow> rgPricing rg = None
       | Some p \<Rightarrow> \<exists>q. rgPricing rg = Some q \<and>
           (\<forall>t rate tier. ComputeTokenBreakdown q t rate tier False = ComputeTokenBreakdown p t rate tier False)))"
proof -
  have d: "disjoint_intervals (rpIntervals r)" unfolding assms(3) by (rule disjoint_resolved [OF assms(1,2)])
  let ?s = "sort_by by_min (rpIntervals r)"
  have s: "sorted_wrt before ?s" "list_all proper ?s" "\<forall>iv \<in> set ?s. 0 \<le> ivMinTokens iv"
    using d by (auto simp: disjoint_intervals_def list_all_iff proper_def)
  have price: "case GetIntervalPricing r n of
         None \<Rightarrow> range_price r ?s n = None
       | Some p \<Rightarrow> \<exists>q. range_price r ?s n = Some q \<and>
           (\<forall>t rate tier. ComputeTokenBreakdown q t rate tier False = ComputeTokenBreakdown p t rate tier False)"
    by (auto simp: range_price_def GetIntervalPricing_def FindMatchingInterval_sorted [OF d] gap_pricing_def
        without_long_context_breakdown split: option.split)
  show ?thesis
    using price_ranges_cover [OF s assms(5), of r] price assms(4)
    by (cases "GetIntervalPricing r n") (auto simp: ResolvedTokenPriceRanges_def)
qed

definition sample_interval :: "int \<Rightarrow> int option \<Rightarrow> f64 option \<Rightarrow> PricingInterval" where
  "sample_interval lo hi price = \<lparr>ivID = 0, ivPricingID = 0, ivMinTokens = lo, ivMaxTokens = hi, ivTierLabel = [],
     ivInputPrice = price, ivOutputPrice = None, ivCacheWritePrice = None, ivCacheWrite1hPrice = None,
     ivCacheReadPrice = None, ivInputMultiplier = None, ivOutputMultiplier = None, ivCacheWriteMultiplier = None,
     ivCacheReadMultiplier = None, ivPerRequestPrice = None, ivSortOrder = 0\<rparr>"

definition sample_card :: ModelPricingEntry where
  "sample_card = empty_card\<lparr>ceModels := [''m''],
     ceIntervals := [sample_interval 2000 None (Some (Fin 2)), sample_interval 0 (Some 1000) (Some (Fin 1))]\<rparr>"

lemma sample_card_valid:
  "ValidateIntervals (ceIntervals sample_card) (entry_mode sample_card) = Ok ()" "\<not> unit_mode (entry_mode sample_card)"
  by code_simp+

definition sample_resolution :: ResolvedPricing where
  "sample_resolution = ResolvePriceCards (Some sample_card) None PricingSourceUnpriced True"

lemma sample_resolution:
  "rpIntervals sample_resolution = ceIntervals sample_card" "GetIntervalPricing sample_resolution 1500 = None"
  "GetIntervalPricing sample_resolution 500 \<noteq> None"
  by code_simp+

theorem displayed_ranges_are_billed_witness:
  "(\<exists>rg \<in> set (ResolvedTokenPriceRanges (Some sample_resolution)).
      covers (rgMinTokens rg) (rgMaxTokens rg) 1500 \<and> rgPricing rg = None) \<and>
   (\<exists>rg \<in> set (ResolvedTokenPriceRanges (Some sample_resolution)).
      covers (rgMinTokens rg) (rgMaxTokens rg) 500 \<and> rgPricing rg \<noteq> None)"
proof -
  have ne: "rpIntervals sample_resolution \<noteq> []"
    unfolding sample_resolution(1) by (simp add: sample_card_def empty_card_def)
  note r = displayed_ranges_are_billed [OF sample_card_valid sample_resolution_def ne]
  from r [of 1500] r [of 500] sample_resolution(2,3) show ?thesis
    by (fastforce split: option.splits)
qed

section \<open>Lemmas: built-in context tiers\<close>

definition ascending :: "int \<Rightarrow> ContextModelPrice list \<Rightarrow> bool" where
  "ascending start tiers = (sorted_wrt (<) (map Threshold tiers) \<and> list_all (\<lambda>tier. start \<le> Threshold tier) tiers)"

definition billed_record :: "PriceAmounts \<Rightarrow> ModelPricing \<Rightarrow> int \<Rightarrow> ContextModelPrice list \<Rightarrow> ModelPricing" where
  "billed_record base current n tiers =
     (case exceeded_tier n tiers of None \<Rightarrow> current | Some q \<Rightarrow> inherit_modifiers base q)"

lemma exceeded_tier_Cons:
  "exceeded_tier n (tier # ts) =
     (case exceeded_tier n ts of Some q \<Rightarrow> Some q | None \<Rightarrow> if n > Threshold tier then Some (tierPricing tier) else None)"
proof -
  have acc: "foldl (\<lambda>sel tier. if n > Threshold tier then Some (tierPricing tier) else sel) s ts =
    (case exceeded_tier n ts of Some q \<Rightarrow> Some q | None \<Rightarrow> s)" for s
    unfolding exceeded_tier_def
  proof (induction ts rule: rev_induct)
    case (snoc x xs)
    then show ?case by (simp split: option.split)
  qed simp
  show ?thesis by (simp add: exceeded_tier_def [of n "tier # ts"] acc)
qed

lemma tier_intervals_billed:
  "ascending start tiers \<Longrightarrow> start < n \<Longrightarrow>
     \<exists>lo hi. covers lo hi n \<and>
       ModelPricingDisplayInterval lo hi (billed_record base current n tiers) rate \<in> set (tier_intervals base rate start current tiers)"
proof (induction tiers arbitrary: start current)
  case Nil
  then show ?case
    by (auto simp: billed_record_def exceeded_tier_def covers_def intro!: exI [of _ start] exI [of _ "None :: int option"])
next
  case (Cons tier ts)
  show ?case
  proof (cases "Threshold tier < n")
    case True
    have "ascending (Threshold tier) ts" using Cons.prems(1) by (auto simp: ascending_def list_all_iff)
    from Cons.IH [OF this True, of "inherit_modifiers base (tierPricing tier)"]
    show ?thesis using True by (auto simp: billed_record_def exceeded_tier_Cons split: option.splits)
  next
    case False
    have "exceeded_tier n (tier # ts) = None"
      using False Cons.prems(1) exceeded_tier_in [of n "tier # ts"]
      by (cases "exceeded_tier n (tier # ts)") (fastforce simp: ascending_def)+
    then show ?thesis using False Cons.prems(2)
      by (auto simp: billed_record_def covers_def intro!: exI [of _ start] exI [of _ "Some (Threshold tier)"])
  qed
qed

lemma billed_record_breakdown:
  "ComputeTokenBreakdown pricing t rate tier True = bd \<Longrightarrow>
     mpLongContextInputThreshold (amounts pricing) \<le> 0 \<Longrightarrow>
     \<exists>b. bd = (ComputeTokenBreakdown (billed_record (amounts pricing) pricing (context_tokens t) (ContextPrices pricing)) t rate tier False)
            \<lparr>cbLongContextBillingApplied := b\<rparr>"
proof -
  assume bd: "ComputeTokenBreakdown pricing t rate tier True = bd" and th: "mpLongContextInputThreshold (amounts pricing) \<le> 0"
  show ?thesis
  proof (cases "exceeded_tier (context_tokens t) (ContextPrices pricing)")
    case None
    have "bd = ComputeTokenBreakdown pricing t rate tier False"
      using bd [symmetric] None th by (simp add: ComputeTokenBreakdown.simps [of pricing t rate tier True] Let_def
          ShouldApplySessionLongContextPricing_def ComputeTokenBreakdown_base)
    then show ?thesis using None
      by (auto simp: billed_record_def intro!: exI [of _ "cbLongContextBillingApplied bd"])
  next
    case (Some q)
    then show ?thesis using bd [symmetric]
      by (auto simp: ComputeTokenBreakdown.simps [of pricing t rate tier True] billed_record_def Let_def)
  qed
qed

text \<open>
  C16: Absolute context tiers are displayed as they are charged: for a record priced by ascending
  tiers alone, that is without a session long-context threshold of its own, every positive context
  count lies in a displayed interval built from exactly the record whose prices ComputeTokenBreakdown
  applies to a usage of that size.
\<close>

theorem context_tiers_are_billed:
  assumes "ascending 0 (ContextPrices pricing)" "ContextPrices pricing \<noteq> []" "0 < context_tokens t"
    and "mpLongContextInputThreshold (amounts pricing) \<le> 0"
  shows "\<exists>lo hi q b. covers lo hi (context_tokens t) \<and>
    ModelPricingDisplayInterval lo hi q display_rate \<in> set (LongContextDisplayPricingIntervals pricing display_rate) \<and>
    ComputeTokenBreakdown pricing t rate tier True =
      (ComputeTokenBreakdown q t rate tier False)\<lparr>cbLongContextBillingApplied := b\<rparr>"
proof -
  let ?q = "billed_record (amounts pricing) pricing (context_tokens t) (ContextPrices pricing)"
  obtain lo hi where "covers lo hi (context_tokens t)"
    "ModelPricingDisplayInterval lo hi ?q display_rate \<in> set (LongContextDisplayPricingIntervals pricing display_rate)"
    using tier_intervals_billed [OF assms(1,3), of "amounts pricing" pricing display_rate] assms(2)
    by (auto simp: LongContextDisplayPricingIntervals_def)
  moreover obtain b where "ComputeTokenBreakdown pricing t rate tier True = (ComputeTokenBreakdown ?q t rate tier False)\<lparr>cbLongContextBillingApplied := b\<rparr>"
    using billed_record_breakdown [OF refl assms(4)] by blast
  ultimately show ?thesis by blast
qed

theorem context_tiers_are_billed_witness:
  "\<exists>lo hi q b. covers lo hi 1310 \<and>
     ModelPricingDisplayInterval lo hi q (Fin 1) \<in> set (LongContextDisplayPricingIntervals sample_pricing (Fin 1)) \<and>
     ComputeTokenBreakdown sample_pricing sample_tokens (Fin 1) ''fast'' True =
       (ComputeTokenBreakdown q sample_tokens (Fin 1) ''fast'' False)\<lparr>cbLongContextBillingApplied := b\<rparr>"
proof -
  have n: "context_tokens sample_tokens = 1310"
    by (simp add: context_tokens_def sample_tokens_def)
  have p: "ascending 0 (ContextPrices sample_pricing)" "ContextPrices sample_pricing \<noteq> []"
    "mpLongContextInputThreshold (amounts sample_pricing) \<le> 0" "0 < context_tokens sample_tokens"
    by (simp_all add: n ascending_def sample_pricing_def sample_amounts_def)
  show ?thesis
    using context_tiers_are_billed [OF p(1,2,4,3), of "Fin 1" "Fin 1" "''fast''"] unfolding n .
qed

text \<open>
  The rule with an inclusive threshold is the exception: a usage of exactly the threshold is
  charged at the long-context price, and the displayed base range, whose upper end is
  documented as included, contains it.
\<close>

theorem inclusive_threshold_displayed_as_base:
  assumes "mpLongContextThresholdInclusive (amounts pricing)" "HasLongContextDisplayPricing pricing" "ContextPrices pricing = []"
    and "context_tokens t = mpLongContextInputThreshold (amounts pricing)"
  shows "ShouldApplySessionLongContextPricing t (amounts pricing) \<and>
    hd (LongContextDisplayPricingIntervals pricing rate) =
      ModelPricingDisplayInterval 0 (Some (context_tokens t)) pricing rate \<and> covers 0 (Some (context_tokens t)) (context_tokens t)"
proof -
  have "\<not> fle m (Fin 1)" if "flt (Fin 1) m" for m using that by (cases m) auto
  then show ?thesis
    using assms by (auto simp: ShouldApplySessionLongContextPricing_def HasLongContextDisplayPricing_def
        LongContextDisplayPricingIntervals_def covers_def Let_def)
qed

end
