(* ===== verification/PriceFacade.thy ===== *)
theory PriceFacade
  imports PriceDisplay
begin

text \<open>
  The billing facade over the price calculator: internal/billing/calculator.go,
  catalog_rules.go, media_pricing.go, price_resolver.go, public_quote.go and
  default_catalog.go.  The price catalog, the zone database, the clock and the
  readers of configured prices are the parameters of a calculator; log output and
  the labels of price sources are left out.
\<close>

section \<open>Settings of internal/billing/pricing/settings.go\<close>

record BillingSettings =
  bsPeakRateEnabled :: bool
  bsPeakStart :: string
  bsPeakEnd :: string
  bsPeakRateMultiplier :: f64
  bsLongContextPricingEnabled :: bool
  bsFreeOpenAIFast :: bool
  bsBatchImageDiscountMultiplier :: f64
  bsBatchImageHoldMultiplier :: f64
  bsWebSearchPricePerCall :: "f64 option"
  bsSearchPricePer1k :: "f64 option"
  bsAudioRealtimePricePerMin :: "f64 option"
  bsAudioTTSPricePerMillionChars :: "f64 option"
  bsAudioSTTPricePerHour :: "f64 option"

definition DefaultBillingSettings :: BillingSettings where
  "DefaultBillingSettings = \<lparr>bsPeakRateEnabled = False, bsPeakStart = [], bsPeakEnd = [], bsPeakRateMultiplier = Fin 1,
     bsLongContextPricingEnabled = True, bsFreeOpenAIFast = False, bsBatchImageDiscountMultiplier = Fin (1 / 2),
     bsBatchImageHoldMultiplier = rnd (6 / 10), bsWebSearchPricePerCall = None, bsSearchPricePer1k = None,
     bsAudioRealtimePricePerMin = None, bsAudioTTSPricePerMillionChars = None, bsAudioSTTPricePerHour = None\<rparr>"

text \<open>One or two digits for the hour, two for the minute.\<close>

definition clock_minutes :: "string \<Rightarrow> string \<Rightarrow> int option" where
  "clock_minutes hh mm =
     (if list_all is_digit hh \<and> list_all is_digit mm then
        let h = int (digits_value hh); m = int (digits_value mm) in
        if h > 23 \<or> m > 59 then None else Some (h * 60 + m)
      else None)"

fun parseMinutes :: "string \<Rightarrow> int option" where
  "parseMinutes [a, b, c, d] = (if b = CHR '':'' \<and> a \<noteq> CHR '':'' then clock_minutes [a] [c, d] else None)"
| "parseMinutes [a, b, c, d, e] =
     (if c = CHR '':'' \<and> a \<noteq> CHR '':'' \<and> b \<noteq> CHR '':'' then clock_minutes [a, b] [d, e] else None)"
| "parseMinutes _ = None"

definition PeakMultiplierAt :: "BillingSettings option \<Rightarrow> gtime \<Rightarrow> f64" where
  "PeakMultiplierAt ss now =
     (case ss of None \<Rightarrow> Fin 1
      | Some s \<Rightarrow>
          if \<not> bsPeakRateEnabled s \<or> bsPeakStart s = [] \<or> bsPeakEnd s = [] then Fin 1
          else case (parseMinutes (bsPeakStart s), parseMinutes (bsPeakEnd s)) of
            (Some start, Some finish) \<Rightarrow>
              if start \<ge> finish then Fin 1
              else let cur = (local_sec now mod day_secs) div 60 in
                if cur \<ge> start \<and> cur < finish then bsPeakRateMultiplier s else Fin 1
          | _ \<Rightarrow> Fin 1)"

section \<open>The calculator\<close>

record OperationPrices =
  opWebSearchPricePerCall :: "f64 option"
  opSearchPricePer1k :: "f64 option"
  opAudioRealtimePricePerMin :: "f64 option"
  opAudioTTSPricePerMillionChars :: "f64 option"
  opAudioSTTPricePerHour :: "f64 option"

record Calculator =
  calCatalog :: "(string \<Rightarrow> CatalogModelPricing option) option"
  calDefaults :: "OperationPrices option"
  calNow :: gtime
  calLoadLocation :: "string \<Rightarrow> location option"

definition RawModelPricing :: "Calculator \<Rightarrow> string \<Rightarrow> CatalogModelPricing option" where
  "RawModelPricing s model = (case calCatalog s of None \<Rightarrow> None | Some c \<Rightarrow> c model)"

definition GetModelPricing :: "Calculator \<Rightarrow> string \<Rightarrow> (perror, ModelPricing) result" where
  "GetModelPricing s model = ResolveModelPricing (RawModelPricing s (to_lower model))"

definition GetModelPricingWithConfig :: "Calculator \<Rightarrow> string \<Rightarrow> ModelPricingEntry option \<Rightarrow> (perror, ModelPricing) result" where
  "GetModelPricingWithConfig s model cfg =
     (case GetModelPricing s model of Inl e \<Rightarrow> Err e | Inr p \<Rightarrow> Ok (ApplyConfigPrice p cfg))"

definition applyCatalogTimePricing :: "Calculator \<Rightarrow> ModelPricing \<Rightarrow> gtime \<Rightarrow> ModelPricing" where
  "applyCatalogTimePricing s price inst =
     (case mpTimePricing (amounts price) of
        None \<Rightarrow> price
      | Some t \<Rightarrow> MultiplyModelPricing (MultiplierAt (Some t) inst (calLoadLocation s (tpTimezone t))) price)"

definition CalculateCostInternal ::
  "Calculator \<Rightarrow> string \<Rightarrow> UsageTokens \<Rightarrow> f64 \<Rightarrow> string \<Rightarrow> ModelPricingEntry option \<Rightarrow> (perror, CostBreakdown) result" where
  "CalculateCostInternal s model t rate serviceTier cfg =
     (case (case cfg of Some c \<Rightarrow> GetModelPricingWithConfig s model cfg | None \<Rightarrow> GetModelPricing s model) of
        Inl e \<Rightarrow> Err e
      | Inr pricing \<Rightarrow>
          let pricing = (if cfg = None then applyCatalogTimePricing s pricing (calNow s) else pricing) in
          Ok (ComputeTokenBreakdown pricing t rate serviceTier True))"

definition operationPrices :: "Calculator \<Rightarrow> OperationPrices" where
  "operationPrices s = (case calDefaults s of Some d \<Rightarrow> d
     | None \<Rightarrow> \<lparr>opWebSearchPricePerCall = None, opSearchPricePer1k = None, opAudioRealtimePricePerMin = None,
         opAudioTTSPricePerMillionChars = None, opAudioSTTPricePerHour = None\<rparr>)"

definition operationPrice :: "f64 option \<Rightarrow> f64 option \<Rightarrow> f64 option" where
  "operationPrice configured catalog = (case configured of Some x \<Rightarrow> Some x | None \<Rightarrow> catalog)"

definition audioPrices :: "Calculator \<Rightarrow> string \<Rightarrow> AudioPriceConfig option \<Rightarrow> AudioPriceConfig" where
  "audioPrices s mode configured =
     (let result = (case configured of Some c \<Rightarrow> c
            | None \<Rightarrow> \<lparr>apRealtimePerMin = None, apTTSPerMChars = None, apSTTPerHour = None\<rparr>);
          d = operationPrices s
      in if to_lower mode = ''realtime'' then
           result\<lparr>apRealtimePerMin := operationPrice (apRealtimePerMin result) (opAudioRealtimePricePerMin d)\<rparr>
         else if to_lower mode = ''tts'' then
           result\<lparr>apTTSPerMChars := operationPrice (apTTSPerMChars result) (opAudioTTSPricePerMillionChars d)\<rparr>
         else if to_lower mode = ''stt'' then
           result\<lparr>apSTTPerHour := operationPrice (apSTTPerHour result) (opAudioSTTPricePerHour d)\<rparr>
         else result)"

definition Calculator_WebSearchCost :: "Calculator \<Rightarrow> int \<Rightarrow> f64 option \<Rightarrow> f64 \<Rightarrow> CostBreakdown" where
  "Calculator_WebSearchCost s callCount groupPrice rate =
     CalculateWebSearchCost callCount (operationPrice groupPrice (opWebSearchPricePerCall (operationPrices s))) rate"

definition Calculator_SearchCost :: "Calculator \<Rightarrow> int \<Rightarrow> f64 option \<Rightarrow> f64 \<Rightarrow> CostBreakdown" where
  "Calculator_SearchCost s numCalls groupPricePer1k rate =
     CalculateSearchCost numCalls (operationPrice groupPricePer1k (opSearchPricePer1k (operationPrices s))) rate"

definition Calculator_AudioCost :: "Calculator \<Rightarrow> string \<Rightarrow> f64 \<Rightarrow> AudioPriceConfig option \<Rightarrow> f64 \<Rightarrow> CostBreakdown" where
  "Calculator_AudioCost s mode durationOrUnits groupConfig rate =
     CalculateAudioCost mode durationOrUnits (Some (audioPrices s mode groupConfig)) rate"

definition Calculator_DefaultImagePrice :: "Calculator \<Rightarrow> string \<Rightarrow> string \<Rightarrow> (perror, f64) result" where
  "Calculator_DefaultImagePrice s model imageSize =
     (case DefaultImagePrice (RawModelPricing s model) imageSize of
        None \<Rightarrow> Err (unavailable ''image pricing not found'') | Some price \<Rightarrow> ValidateImageUnitPrice price)"

definition Calculator_DefaultVideoPrice :: "Calculator \<Rightarrow> string \<Rightarrow> string \<Rightarrow> (perror, f64) result" where
  "Calculator_DefaultVideoPrice s model resolution =
     (case DefaultVideoPrice (RawModelPricing s model) resolution of
        Some price \<Rightarrow> ValidateImageUnitPrice price | None \<Rightarrow> Err (unavailable ''video pricing not found''))"

definition Calculator_ImageCost :: "Calculator \<Rightarrow> string \<Rightarrow> string \<Rightarrow> int \<Rightarrow> f64 \<Rightarrow> (perror, CostBreakdown) result" where
  "Calculator_ImageCost s model imageSize imageCount rate =
     (if imageCount \<le> 0 then Ok (CalculateImageCost f0 imageCount rate)
      else case Calculator_DefaultImagePrice s model (NormalizeImageBillingTierOrDefault imageSize) of
        Inl e \<Rightarrow> Err e | Inr price \<Rightarrow> Ok (CalculateImageCost price imageCount rate))"

definition Calculator_VideoCost ::
  "Calculator \<Rightarrow> string \<Rightarrow> string \<Rightarrow> int \<Rightarrow> int \<Rightarrow> f64 \<Rightarrow> (perror, CostBreakdown) result" where
  "Calculator_VideoCost s model resolution videoCount durationSeconds rate =
     (if videoCount \<le> 0 then Ok (CalculateVideoCost f0 videoCount durationSeconds rate)
      else case Calculator_DefaultVideoPrice s model (NormalizeVideoBillingResolutionOrDefault resolution) of
        Inl e \<Rightarrow> Err e
      | Inr price \<Rightarrow>
          Ok (CalculateVideoCost price videoCount (NormalizeVideoBillingDurationSecondsOrDefault durationSeconds) rate))"

section \<open>Resolving a model\<close>

text \<open>
  A resolution with the model its prices were looked up for.  The effective card
  and the settings of a group are read through parameters; the source form that
  names a reference model is the second kind of reader.
\<close>

record ResolvedModel =
  rmLookupModel :: string
  rmConfiguredReference :: bool
  rmPricing :: ResolvedPricing

datatype ConfigPrices =
    ReferenceReader "int \<Rightarrow> string \<Rightarrow> string \<times> ModelPricingEntry option"
  | CardReader "int \<Rightarrow> string \<Rightarrow> ModelPricingEntry option"

record PriceResolver =
  prConfigs :: "ConfigPrices option"
  prSettings :: "(int \<Rightarrow> BillingSettings) option"
  prCalculator :: Calculator
  prCandidates :: "string \<Rightarrow> string list"

definition ResolveBasePricing :: "PriceResolver \<Rightarrow> string \<Rightarrow> ModelPricing option \<times> string" where
  "ResolveBasePricing r model =
     (case GetModelPricing (prCalculator r) model of
        Inl e \<Rightarrow> (None, PricingSourceUnpriced) | Inr p \<Rightarrow> (Some p, PricingSourceCatalog))"

fun lookup_candidates :: "string \<Rightarrow> (string \<Rightarrow> ModelPricingEntry option) \<Rightarrow> string list \<Rightarrow> ModelPricingEntry option" where
  "lookup_candidates model look [] = None"
| "lookup_candidates model look (candidate # cs) =
     (if equal_fold candidate (trim_space model) then lookup_candidates model look cs
      else case look candidate of Some p \<Rightarrow> Some p | None \<Rightarrow> lookup_candidates model look cs)"

definition LookupPricingForModel ::
  "string \<Rightarrow> (string \<Rightarrow> ModelPricingEntry option) \<Rightarrow> (string \<Rightarrow> string list) \<Rightarrow> ModelPricingEntry option" where
  "LookupPricingForModel model look candidates =
     (case look model of Some p \<Rightarrow> Some p | None \<Rightarrow> lookup_candidates model look (candidates model))"

definition BillingSettingsOf :: "PriceResolver \<Rightarrow> int option \<Rightarrow> BillingSettings" where
  "BillingSettingsOf r groupID =
     (case (groupID, prSettings r) of (Some g, Some f) \<Rightarrow> f g | _ \<Rightarrow> DefaultBillingSettings)"

definition Resolve_price :: "PriceResolver \<Rightarrow> string \<Rightarrow> int option \<Rightarrow> ResolvedModel" where
  "Resolve_price r model groupID =
     (let (lookupModel, cfg) =
            (case (groupID, prConfigs r) of
               (Some g, Some (ReferenceReader f)) \<Rightarrow> f g model
             | (Some g, Some (CardReader f)) \<Rightarrow> (model, LookupPricingForModel model (f g) (prCandidates r))
             | _ \<Rightarrow> (model, None));
          (base, source) = (if PriceCardNeedsBase cfg then ResolveBasePricing r lookupModel else (None, PricingSourceUnpriced))
      in \<lparr>rmLookupModel = lookupModel, rmConfiguredReference = (lookupModel \<noteq> [] \<and> lookupModel \<noteq> model),
           rmPricing = ResolvePriceCards cfg base source (bsLongContextPricingEnabled (BillingSettingsOf r groupID))\<rparr>)"

definition resolvedImageUnitPrice :: "Calculator \<Rightarrow> string \<Rightarrow> ResolvedModel \<Rightarrow> (perror, f64) result" where
  "resolvedImageUnitPrice s sz rm =
     PriceCatalog.ResolveImageUnitPrice (Some (rmPricing rm)) (RawModelPricing s (rmLookupModel rm)) sz"

definition Resolver_ImageUnitPrice :: "PriceResolver \<Rightarrow> string \<Rightarrow> int option \<Rightarrow> string \<Rightarrow> (perror, f64) result" where
  "Resolver_ImageUnitPrice r model groupID sz =
     (if trim_space model = [] then Err ErrModelPricingUnavailable
      else resolvedImageUnitPrice (prCalculator r) sz (Resolve_price r model groupID))"

section \<open>The unified charge\<close>

record UnifiedInput =
  uiModel :: string
  uiGroupID :: "int option"
  uiTokens :: UsageTokens
  uiRequestCount :: int
  uiUsageUnits :: f64
  uiSizeTier :: string
  uiRateMultiplier :: f64
  uiPricingAt :: gtime
  uiServiceTier :: string
  uiReasoningEffort :: string

definition ProjectCostInput :: "Calculator \<Rightarrow> UnifiedInput \<Rightarrow> ResolvedPricing \<Rightarrow> CostInput" where
  "ProjectCostInput s input r =
     (let zone = (\<lambda>schedule. case schedule of None \<Rightarrow> None | Some t \<Rightarrow> calLoadLocation s (tpTimezone t)) in
      \<lparr>ciModelPricingAt = (if IsZero (uiPricingAt input) then calNow s else uiPricingAt input),
        ciModelTimeLocation = (case rpBasePricing r of None \<Rightarrow> None | Some b \<Rightarrow> zone (mpTimePricing (amounts b))),
        ciModel = uiModel input, ciTokens = uiTokens input, ciRequestCount = uiRequestCount input,
        ciUsageUnits = uiUsageUnits input, ciSizeTier = uiSizeTier input, ciRateMultiplier = uiRateMultiplier input,
        ciPricingAt = uiPricingAt input, ciServiceTier = uiServiceTier input, ciReasoningEffort = uiReasoningEffort input,
        ciTimePricingLocation = (case rpConfigPricing r of None \<Rightarrow> None | Some c \<Rightarrow> zone (ceTimePricing c))\<rparr>)"

definition CalculateCostUnified ::
  "Calculator \<Rightarrow> PriceResolver option \<Rightarrow> ResolvedModel option \<Rightarrow> UnifiedInput \<Rightarrow> (perror, CostBreakdown) result" where
  "CalculateCostUnified s resolver resolved input =
     (case resolver of
        None \<Rightarrow>
          (case CalculateCostInternal s (uiModel input) (uiTokens input) (uiRateMultiplier input) (uiServiceTier input) None of
             Inl e \<Rightarrow> Err e
           | Inr bd \<Rightarrow>
               Ok (case GetModelPricing s (uiModel input) of
                 Inl e \<Rightarrow> bd
               | Inr price \<Rightarrow> ApplyCostBreakdownMultiplier bd
                   (MaxReasoningEffortBillingMultiplier (uiReasoningEffort input) (amounts price))))
      | Some rs \<Rightarrow>
          let rm = (case resolved of Some m \<Rightarrow> m | None \<Rightarrow> Resolve_price rs (uiModel input) (uiGroupID input));
              r = rmPricing rm
          in if rpMode r = BillingModeImage then
               (case resolvedImageUnitPrice s (uiSizeTier input) rm of
                  Inl e \<Rightarrow> Err e
                | Inr price \<Rightarrow>
                    let r = r\<lparr>rpRequestTiers := [], rpDefaultPerRequestPrice := price, rpDefaultPerRequestPricePresent := True\<rparr>
                    in CalculateCost r (ProjectCostInput s input r))
             else CalculateCost r (ProjectCostInput s input r))"

section \<open>Quotes\<close>

text \<open>The three sizes of an image quote, with those that have a price.\<close>

definition image_display_price ::
  "f64 \<Rightarrow> ResolvedPricing option \<Rightarrow> CatalogModelPricing option \<Rightarrow> string \<Rightarrow> f64 option" where
  "image_display_price rate rr raw sz =
     (case PriceCatalog.ResolveImageUnitPrice rr raw sz of Inl e \<Rightarrow> None | Inr x \<Rightarrow> Some (fmul x rate))"

definition or_zero :: "f64 option \<Rightarrow> f64" where
  "or_zero x = (case x of None \<Rightarrow> f0 | Some v \<Rightarrow> v)"

definition imageDisplayPricingWithResolved ::
  "Calculator \<Rightarrow> string \<Rightarrow> f64 \<Rightarrow> ResolvedPricing option \<Rightarrow> ModelDisplayPricing \<times> bool" where
  "imageDisplayPricingWithResolved s model rate rr =
     (let raw = RawModelPricing s model;
          knownImage = (case raw of None \<Rightarrow> False | Some c \<Rightarrow> crImagePrices (caRules (catalogAmounts c)) \<noteq> []);
          tokensAbsent = (case raw of None \<Rightarrow> False | Some c \<Rightarrow> caTokenPricingAbsent (catalogAmounts c))
      in if rr = None \<and> \<not> knownImage \<and> \<not> HasExplicitImageGenerationPricing raw \<and> \<not> tokensAbsent
         then (empty_display, False)
         else
           let price = image_display_price rate rr raw;
               sizes = filter (\<lambda>sz. price sz \<noteq> None) [''1K'', ''2K'', ''4K'']
           in ((BuildImageDisplayPricing (or_zero (price ''1K'')) (or_zero (price ''2K'')) (or_zero (price ''4K'')))
                 \<lparr>dpImagePriceSizes := sizes\<rparr>, sizes \<noteq> []))"

definition DisplayPricing :: "Calculator \<Rightarrow> string \<Rightarrow> f64 \<Rightarrow> ModelDisplayPricing" where
  "DisplayPricing s model rate =
     (let rate = clamp_negative rate in
      case BuildVideoDisplayPricing None (RawModelPricing s model) rate of
        (quote, True) \<Rightarrow> quote
      | _ \<Rightarrow>
          (case imageDisplayPricingWithResolved s model rate None of
             (quote, True) \<Rightarrow> quote
           | _ \<Rightarrow>
               (case GetModelPricing s model of
                  Inl e \<Rightarrow> UnknownDisplayPricing
                | Inr pricing \<Rightarrow>
                    if \<not> HasAnyDisplayTokenPricing pricing then UnknownDisplayPricing
                    else BuildTokenDisplayPricing (applyCatalogTimePricing s pricing (calNow s)) rate)))"

definition or_unknown :: "ModelDisplayPricing \<times> bool \<Rightarrow> ModelDisplayPricing" where
  "or_unknown q = (if snd q then fst q else UnknownDisplayPricing)"

definition DisplayPricingWithResolvedMultipliers ::
  "Calculator \<Rightarrow> string \<Rightarrow> f64 \<Rightarrow> ResolvedModel option \<Rightarrow> ModelDisplayPricing" where
  "DisplayPricingWithResolvedMultipliers s model rate resolved =
     (case resolved of
        None \<Rightarrow> DisplayPricing s model (clamp_negative rate)
      | Some rm \<Rightarrow>
          let model = rmLookupModel rm; rate = clamp_negative rate; r = rmPricing rm in
          if rpMode r = BillingModeImage then or_unknown (imageDisplayPricingWithResolved s model rate (Some r))
          else if rpMode r = BillingModePerRequest \<or> rpMode r = BillingModeVideo then
            or_unknown (DisplayPricingFromResolved rate (Some r))
          else if rpConfigPricing r = None \<and> snd (BuildVideoDisplayPricing None (RawModelPricing s model) rate) then
            fst (BuildVideoDisplayPricing None (RawModelPricing s model) rate)
          else if IsUnpriced (Some r) then
            (if rpConfigPricing r = None then or_unknown (imageDisplayPricingWithResolved s model rate None)
             else UnknownDisplayPricing)
          else
            let r = (if rpSource r = PricingSourceCatalog
                     then r\<lparr>rpBasePricing := map_option (\<lambda>b. applyCatalogTimePricing s b (calNow s)) (rpBasePricing r)\<rparr>
                     else r);
                quote = DisplayPricingFromResolved rate (Some r)
            in if snd quote then fst quote else DisplayPricing s model rate)"

text \<open>A group that gives Fast for free quotes Fast at the standard price.\<close>

definition PublicQuote :: "PriceResolver \<Rightarrow> string \<Rightarrow> int option \<Rightarrow> f64 \<Rightarrow> bool \<Rightarrow> ModelDisplayPricing" where
  "PublicQuote r model groupID rate freeFastApplicable =
     (let rm = Resolve_price r model groupID;
          free = (bsFreeOpenAIFast (BillingSettingsOf r groupID) \<and> freeFastApplicable \<and>
            ResolvedHasFastModeDisplayPricing (Some (rmPricing rm)));
          rm = (if free then rm\<lparr>rmPricing := ApplyPricingModifiers (Some (empty_card\<lparr>ceFastMultiplier := Some (Fin 1)\<rparr>)) (rmPricing rm)\<rparr>
                else rm)
      in DisplayPricingWithResolvedMultipliers (prCalculator r) model rate (Some rm))"

end
