(* ===== verification/EligibilityCheck.thy ===== *)
theory EligibilityCheck
  imports Ledger
begin

text \<open>
  The funding precheck of a request: internal/billing/eligibility.go with
  eligibility_options.go, key_rate_limits.go, cache.go, mode.go and
  window_cost_rules.go.  The state is the breaker, the queue of cache writes and
  the counters of dropped writes.  What the caches, the database and the clocks
  answer during one check is a record of answers, so a statement for all answers
  covers every failure and every interleaved change there; calls that change
  those stores are listed in order.  The clock readings inside one evaluation of a
  subscription and of the key windows are one instant, and the two option reads of
  MinimumBalanceReserve see one configuration.  Log output and the cause behind a
  service error are left out.
\<close>

section \<open>Errors and constants\<close>

definition ErrBillingServiceUnavailable :: perror where
  "ErrBillingServiceUnavailable =
     App ''BILLING_SERVICE_ERROR'' ''Billing service temporarily unavailable. Please retry later.''"
definition ErrPreferredSubscriptionGroup :: perror where
  "ErrPreferredSubscriptionGroup =
     App ''PREFERRED_SUBSCRIPTION_GROUP_NOT_ALLOWED'' ''preferred subscription does not allow this group''"
definition ErrFundsInsufficient :: perror where
  "ErrFundsInsufficient = App ''INSUFFICIENT_BALANCE'' ''insufficient balance''"
definition ErrSubscriptionInvalid :: perror where
  "ErrSubscriptionInvalid = App ''SUBSCRIPTION_INVALID'' ''subscription is invalid or expired''"
definition ErrDailyLimitExceeded :: perror where
  "ErrDailyLimitExceeded = App ''DAILY_LIMIT_EXCEEDED'' ''daily usage limit exceeded''"
definition ErrWeeklyLimitExceeded :: perror where
  "ErrWeeklyLimitExceeded = App ''WEEKLY_LIMIT_EXCEEDED'' ''weekly usage limit exceeded''"
definition ErrMonthlyLimitExceeded :: perror where
  "ErrMonthlyLimitExceeded = App ''MONTHLY_LIMIT_EXCEEDED'' ''monthly usage limit exceeded''"

abbreviation preferred_invalid :: perror where
  "preferred_invalid \<equiv> allocation_perror ErrPreferredSubscriptionInvalid"
abbreviation preferred_insufficient :: perror where
  "preferred_insufficient \<equiv> allocation_perror ErrPreferredSubscriptionInsufficient"

lemmas precheck_errors = ErrBillingServiceUnavailable_def ErrPreferredSubscriptionGroup_def ErrFundsInsufficient_def
  ErrSubscriptionInvalid_def ErrDailyLimitExceeded_def ErrWeeklyLimitExceeded_def ErrMonthlyLimitExceeded_def
  ErrAPIKeyRateLimit5hExceeded_def ErrAPIKeyRateLimit1dExceeded_def ErrAPIKeyRateLimit7dExceeded_def

definition RateLimitWindow5h :: duration where "RateLimitWindow5h = 5 * hour"
definition RateLimitWindow1d :: duration where "RateLimitWindow1d = 24 * hour"
definition RateLimitWindow7d :: duration where "RateLimitWindow7d = 7 * 24 * hour"
definition cacheWriteBufferSize :: nat where "cacheWriteBufferSize = 1000"
definition cacheWriteDropLogInterval :: duration where "cacheWriteDropLogInterval = 5 * second"

section \<open>The circuit breaker\<close>

datatype billingCircuitBreakerState = billingCircuitClosed | billingCircuitOpen | billingCircuitHalfOpen

record billingCircuitBreaker =
  bkState :: billingCircuitBreakerState
  bkFailures :: int
  bkOpenedAt :: instant
  bkFailureThreshold :: int
  bkResetTimeout :: duration
  bkHalfOpenRequests :: int
  bkHalfOpenRemaining :: int

record CircuitBreakerOptions =
  coEnabled :: bool
  coFailureThreshold :: int
  coResetTimeoutSeconds :: int
  coHalfOpenRequests :: int

definition newBillingCircuitBreaker :: "CircuitBreakerOptions \<Rightarrow> billingCircuitBreaker option" where
  "newBillingCircuitBreaker cfg =
     (if \<not> coEnabled cfg then None
      else
        let resetTimeout = coResetTimeoutSeconds cfg * second in
        Some \<lparr>bkState = billingCircuitClosed, bkFailures = 0, bkOpenedAt = zero_time,
          bkFailureThreshold = (if coFailureThreshold cfg \<le> 0 then 5 else coFailureThreshold cfg),
          bkResetTimeout = (if resetTimeout \<le> 0 then 30 * second else resetTimeout),
          bkHalfOpenRequests = (if coHalfOpenRequests cfg \<le> 0 then 1 else coHalfOpenRequests cfg),
          bkHalfOpenRemaining = 0\<rparr>)"

text \<open>The half-open case, also reached from an open breaker whose timeout has passed.\<close>

definition take_probe :: "billingCircuitBreaker \<Rightarrow> bool \<times> billingCircuitBreaker" where
  "take_probe b =
     (if bkHalfOpenRemaining b \<le> 0 then (False, b)
      else (True, b\<lparr>bkHalfOpenRemaining := bkHalfOpenRemaining b - 1\<rparr>))"

definition Breaker_Allow :: "instant \<Rightarrow> billingCircuitBreaker \<Rightarrow> bool \<times> billingCircuitBreaker" where
  "Breaker_Allow now b =
     (case bkState b of
        billingCircuitClosed \<Rightarrow> (True, b)
      | billingCircuitOpen \<Rightarrow>
          if now - bkOpenedAt b < bkResetTimeout b then (False, b)
          else take_probe (b\<lparr>bkState := billingCircuitHalfOpen, bkHalfOpenRemaining := bkHalfOpenRequests b\<rparr>)
      | billingCircuitHalfOpen \<Rightarrow> take_probe b)"

definition Breaker_OnFailure :: "instant \<Rightarrow> billingCircuitBreaker \<Rightarrow> billingCircuitBreaker" where
  "Breaker_OnFailure now b =
     (case bkState b of
        billingCircuitOpen \<Rightarrow> b
      | billingCircuitHalfOpen \<Rightarrow>
          b\<lparr>bkState := billingCircuitOpen, bkOpenedAt := now, bkHalfOpenRemaining := 0\<rparr>
      | billingCircuitClosed \<Rightarrow>
          let b = b\<lparr>bkFailures := bkFailures b + 1\<rparr> in
          if bkFailures b \<ge> bkFailureThreshold b
          then b\<lparr>bkState := billingCircuitOpen, bkOpenedAt := now, bkHalfOpenRemaining := 0\<rparr> else b)"

definition Breaker_OnSuccess :: "billingCircuitBreaker \<Rightarrow> billingCircuitBreaker" where
  "Breaker_OnSuccess b = b\<lparr>bkState := billingCircuitClosed, bkFailures := 0, bkHalfOpenRemaining := 0\<rparr>"

section \<open>Cache writes\<close>

datatype cacheWriteTask =
    cacheWriteSetBalance int f64
  | cacheWriteDeductBalance int f64
  | cacheWriteUpdateRateLimitUsage int f64

datatype cacheWriteEnqueueResult = cacheWriteEnqueued | cacheWriteQueueFull | cacheWriteQueueClosed

record APIKeyRateLimitCacheData =
  rcUsage5h :: f64
  rcUsage1d :: f64
  rcUsage7d :: f64
  rcWindow5h :: int
  rcWindow1d :: int
  rcWindow7d :: int

record APIKeyRateLimitData =
  rdUsage5h :: f64
  rdUsage1d :: f64
  rdUsage7d :: f64
  rdWindow5hStart :: "gtime option"
  rdWindow1dStart :: "gtime option"
  rdWindow7dStart :: "gtime option"

text \<open>The calls that change a cache or the database.\<close>

datatype store_call =
    RunTask cacheWriteTask
  | SetAPIKeyRateLimit int APIKeyRateLimitCacheData
  | ResetRateLimitWindows int
  | InvalidateAPIKeyRateLimit int

record Eligibility =
  elCache :: bool
  elLoader :: bool
  elResetsWindows :: bool
  elMinimumBalanceReserve :: f64
  elCalendar :: Calendar
  elLocal :: "Calendar.location"
  elBreaker :: "billingCircuitBreaker option"
  elQueue :: "cacheWriteTask list option"
  elStopped :: bool
  elDropFullCount :: int
  elDropFullLastLog :: instant
  elDropClosedCount :: int
  elDropClosedLastLog :: instant

record Answers =
  anCacheBalance :: "(perror, f64) result"
  anLeader :: bool
  anStoredBalance :: "(perror, f64) result"
  anCacheRate :: "(perror, APIKeyRateLimitCacheData) result"
  anStoredRate :: "(perror, APIKeyRateLimitData) result"
  anAllowAt :: gtime
  anPreferredAt :: gtime
  anCommonAt :: gtime
  anOutcomeAt :: gtime
  anDropAt :: gtime
  anRateAt :: gtime

definition Start :: "Eligibility \<Rightarrow> Eligibility" where
  "Start s = (if \<not> elStopped s \<and> elQueue s = None then s\<lparr>elQueue := Some []\<rparr> else s)"

definition tryEnqueueCacheWrite :: "cacheWriteTask \<Rightarrow> Eligibility \<Rightarrow> cacheWriteEnqueueResult \<times> Eligibility" where
  "tryEnqueueCacheWrite task s =
     (if elStopped s then (cacheWriteQueueClosed, s)
      else case elQueue s of
        None \<Rightarrow> (cacheWriteQueueClosed, s)
      | Some ts \<Rightarrow>
          if length ts < cacheWriteBufferSize then (cacheWriteEnqueued, s\<lparr>elQueue := Some (ts @ [task])\<rparr>)
          else (cacheWriteQueueFull, s))"

text \<open>The counter of dropped writes restarts when its summary is printed.\<close>

definition drop_full :: "instant \<Rightarrow> Eligibility \<Rightarrow> Eligibility" where
  "drop_full now s =
     (let s = s\<lparr>elDropFullCount := elDropFullCount s + 1\<rparr> in
      if now - elDropFullLastLog s < cacheWriteDropLogInterval then s
      else s\<lparr>elDropFullLastLog := now, elDropFullCount := 0\<rparr>)"

definition drop_closed :: "instant \<Rightarrow> Eligibility \<Rightarrow> Eligibility" where
  "drop_closed now s =
     (let s = s\<lparr>elDropClosedCount := elDropClosedCount s + 1\<rparr> in
      if now - elDropClosedLastLog s < cacheWriteDropLogInterval then s
      else s\<lparr>elDropClosedLastLog := now, elDropClosedCount := 0\<rparr>)"

definition enqueueCacheWrite :: "instant \<Rightarrow> cacheWriteTask \<Rightarrow> Eligibility \<Rightarrow> bool \<times> Eligibility" where
  "enqueueCacheWrite now task s =
     (case tryEnqueueCacheWrite task s of
        (cacheWriteEnqueued, s) \<Rightarrow> (True, s)
      | (cacheWriteQueueFull, s) \<Rightarrow> (False, drop_full now s)
      | (cacheWriteQueueClosed, s) \<Rightarrow> (False, drop_closed now s))"

text \<open>A write that must not be lost to a full queue runs at once; a closed pool drops it.\<close>

definition queue_or_run :: "instant \<Rightarrow> cacheWriteTask \<Rightarrow> Eligibility \<Rightarrow> store_call list \<times> Eligibility" where
  "queue_or_run now task s =
     (if \<not> elCache s then ([], s)
      else case tryEnqueueCacheWrite task s of
        (cacheWriteEnqueued, s) \<Rightarrow> ([], s)
      | (cacheWriteQueueClosed, s) \<Rightarrow> ([], drop_closed now s)
      | (cacheWriteQueueFull, s) \<Rightarrow> ([RunTask task], s))"

definition QueueDeductBalance :: "instant \<Rightarrow> int \<Rightarrow> f64 \<Rightarrow> Eligibility \<Rightarrow> store_call list \<times> Eligibility" where
  "QueueDeductBalance now uid amount s = queue_or_run now (cacheWriteDeductBalance uid amount) s"

definition QueueUpdateAPIKeyRateLimitUsage :: "instant \<Rightarrow> int \<Rightarrow> f64 \<Rightarrow> Eligibility \<Rightarrow> store_call list \<times> Eligibility" where
  "QueueUpdateAPIKeyRateLimitUsage now keyID cost s = queue_or_run now (cacheWriteUpdateRateLimitUsage keyID cost) s"

text \<open>A worker takes the oldest task; Stop closes the channel and waits until it is drained.\<close>

definition cacheWriteWorker :: "Eligibility \<Rightarrow> store_call list \<times> Eligibility" where
  "cacheWriteWorker s =
     (case elQueue s of
        Some (task # ts) \<Rightarrow> (if elCache s then [RunTask task] else [], s\<lparr>elQueue := Some ts\<rparr>)
      | _ \<Rightarrow> ([], s))"

definition Stop :: "Eligibility \<Rightarrow> store_call list \<times> Eligibility" where
  "Stop s =
     (case elQueue s of
        None \<Rightarrow> ([], s\<lparr>elStopped := True\<rparr>)
      | Some ts \<Rightarrow> (if elCache s then map RunTask ts else [], s\<lparr>elStopped := True, elQueue := None\<rparr>))"

section \<open>The balance\<close>

definition getUserBalanceFromDB :: "Answers \<Rightarrow> (perror, f64) result" where
  "getUserBalanceFromDB an =
     (case anStoredBalance an of Inl e \<Rightarrow> Err (Wrap ''get user balance'' e) | Inr x \<Rightarrow> Ok x)"

text \<open>Concurrent loads of one user share one read; only the one that runs it queues the cache write.\<close>

definition GetUserBalance :: "Answers \<Rightarrow> int \<Rightarrow> Eligibility \<Rightarrow> (perror, f64) result \<times> Eligibility" where
  "GetUserBalance an uid s =
     (if \<not> elCache s then (getUserBalanceFromDB an, s)
      else case anCacheBalance an of
        Inr x \<Rightarrow> (Ok x, s)
      | Inl _ \<Rightarrow>
          (case getUserBalanceFromDB an of
             Inl e \<Rightarrow> (Err e, s)
           | Inr x \<Rightarrow>
               (Ok x, if anLeader an
                 then snd (enqueueCacheWrite (ns (anDropAt an)) (cacheWriteSetBalance uid x) s) else s)))"

definition MinimumBalanceReserve :: "Eligibility \<Rightarrow> f64" where
  "MinimumBalanceReserve s =
     (if fle (elMinimumBalanceReserve s) f0 then f0 else elMinimumBalanceReserve s)"

definition BalanceBelowEligibilityThreshold :: "Eligibility \<Rightarrow> f64 \<Rightarrow> bool" where
  "BalanceBelowEligibilityThreshold s bal =
     (if fle bal f0 then True
      else flt f0 (MinimumBalanceReserve s) \<and> flt bal (MinimumBalanceReserve s))"

definition on_breaker :: "(billingCircuitBreaker \<Rightarrow> billingCircuitBreaker) \<Rightarrow> Eligibility \<Rightarrow> Eligibility" where
  "on_breaker f s = s\<lparr>elBreaker := map_option f (elBreaker s)\<rparr>"

definition checkBalanceEligibility :: "Answers \<Rightarrow> int \<Rightarrow> Eligibility \<Rightarrow> (perror, unit) result \<times> Eligibility" where
  "checkBalanceEligibility an uid s =
     (case GetUserBalance an uid s of
        (Inl e, s) \<Rightarrow> (Err ErrBillingServiceUnavailable, on_breaker (Breaker_OnFailure (ns (anOutcomeAt an))) s)
      | (Inr bal, s) \<Rightarrow>
          let s = on_breaker Breaker_OnSuccess s in
          (if BalanceBelowEligibilityThreshold s bal then Err ErrFundsInsufficient else Ok (), s))"

section \<open>Subscriptions\<close>

definition SubscriptionWindowLimitExceeded :: "f64 option \<Rightarrow> f64 \<Rightarrow> f64 \<Rightarrow> bool" where
  "SubscriptionWindowLimitExceeded limit used additionalCost =
     (case limit of
        None \<Rightarrow> False
      | Some l \<Rightarrow>
          if fle l f0 then False
          else if additionalCost = f0 then fle l used
          else flt l (fadd used additionalCost))"

definition CheckSubscriptionUsageLimits :: "UserSubscription \<Rightarrow> f64 \<Rightarrow> (perror, unit) result" where
  "CheckSubscriptionUsageLimits sub additionalCost =
     (if SubscriptionWindowLimitExceeded (DailyLimitUSD sub) (DailyUsageUSD sub) additionalCost
      then Err ErrDailyLimitExceeded
      else if SubscriptionWindowLimitExceeded (WeeklyLimitUSD sub) (WeeklyUsageUSD sub) additionalCost
      then Err ErrWeeklyLimitExceeded
      else if SubscriptionWindowLimitExceeded (MonthlyLimitUSD sub) (MonthlyUsageUSD sub) additionalCost
      then Err ErrMonthlyLimitExceeded else Ok ())"

text \<open>The value copy with the usage of elapsed windows cleared.\<close>

definition elapsed_cleared :: "Calendar.location \<Rightarrow> Calendar \<Rightarrow> gtime \<Rightarrow> UserSubscription \<Rightarrow> UserSubscription" where
  "elapsed_cleared local cal now sub =
     (let s = (if NeedsDailyResetAt local (Some sub) now cal then sub\<lparr>DailyUsageUSD := f0\<rparr> else sub);
          s = (if NeedsWeeklyResetAt (Some s) now then s\<lparr>WeeklyUsageUSD := f0\<rparr> else s)
      in if NeedsMonthlyResetAt (Some s) now then s\<lparr>MonthlyUsageUSD := f0\<rparr> else s)"

definition CheckEffectiveSubscriptionEligibility ::
  "Calendar.location \<Rightarrow> Calendar \<Rightarrow> gtime \<Rightarrow> UserSubscription option \<Rightarrow> (perror, unit) result" where
  "CheckEffectiveSubscriptionEligibility local cal now sub =
     (case sub of
        None \<Rightarrow> Err ErrSubscriptionInvalid
      | Some s \<Rightarrow>
          if EffectiveStatus sub now \<in> {SubscriptionStatusExpired, SubscriptionStatusSuspended,
               SubscriptionStatusPending, SubscriptionStatusRevoked}
          then Err ErrSubscriptionInvalid
          else CheckSubscriptionUsageLimits (elapsed_cleared local cal now s) f0)"

definition IsSubscriptionQuotaExceeded :: "perror \<Rightarrow> bool" where
  "IsSubscriptionQuotaExceeded e =
     (unwraps_to e ErrDailyLimitExceeded \<or> unwraps_to e ErrWeeklyLimitExceeded \<or> unwraps_to e ErrMonthlyLimitExceeded)"

section \<open>Spending limits of a key\<close>

record KeySnapshot =
  keID :: int
  keBillingMode :: string
  keRateLimit5h :: f64
  keRateLimit1d :: f64
  keRateLimit7d :: f64

definition HasRateLimits :: "KeySnapshot \<Rightarrow> bool" where
  "HasRateLimits k = (flt f0 (keRateLimit5h k) \<or> flt f0 (keRateLimit1d k) \<or> flt f0 (keRateLimit7d k))"

definition effectiveKeyBillingMode :: "KeySnapshot option \<Rightarrow> string" where
  "effectiveKeyBillingMode kk =
     (case kk of
        None \<Rightarrow> APIKeyBillingModeAuto
      | Some k \<Rightarrow>
          (case NormalizeAPIKeyBillingMode (keBillingMode k) of
             (mode, ok) \<Rightarrow> if \<not> ok then APIKeyBillingModeAuto else mode))"

definition IsWindowExpired :: "instant \<Rightarrow> gtime option \<Rightarrow> duration \<Rightarrow> bool" where
  "IsWindowExpired now windowStart dur =
     (case windowStart of None \<Rightarrow> True | Some t \<Rightarrow> now - ns t \<ge> dur)"

definition EffectiveUsage5h :: "instant \<Rightarrow> APIKeyRateLimitData \<Rightarrow> f64" where
  "EffectiveUsage5h now d = (if IsWindowExpired now (rdWindow5hStart d) RateLimitWindow5h then f0 else rdUsage5h d)"

definition EffectiveUsage1d :: "instant \<Rightarrow> APIKeyRateLimitData \<Rightarrow> f64" where
  "EffectiveUsage1d now d = (if IsWindowExpired now (rdWindow1dStart d) RateLimitWindow1d then f0 else rdUsage1d d)"

definition EffectiveUsage7d :: "instant \<Rightarrow> APIKeyRateLimitData \<Rightarrow> f64" where
  "EffectiveUsage7d now d = (if IsWindowExpired now (rdWindow7dStart d) RateLimitWindow7d then f0 else rdUsage7d d)"

text \<open>The reset in the background: its calls, each made whether or not the other fails.\<close>

definition reset_calls :: "Eligibility \<Rightarrow> int \<Rightarrow> store_call list" where
  "reset_calls s keyID =
     (if elLoader s \<and> elResetsWindows s then [ResetRateLimitWindows keyID] else []) @
     (if elCache s then [InvalidateAPIKeyRateLimit keyID] else [])"

definition evaluateRateLimits ::
  "instant \<Rightarrow> KeySnapshot \<Rightarrow> APIKeyRateLimitData \<Rightarrow> Eligibility \<Rightarrow> (perror, unit) result \<times> store_call list" where
  "evaluateRateLimits now k d s =
     (let expired = (\<lambda>start dur. IsWindowExpired now start dur);
          e5 = expired (rdWindow5hStart d) RateLimitWindow5h;
          e1 = expired (rdWindow1dStart d) RateLimitWindow1d;
          e7 = expired (rdWindow7dStart d) RateLimitWindow7d;
          u5 = (if e5 then f0 else rdUsage5h d);
          u1 = (if e1 then f0 else rdUsage1d d);
          u7 = (if e7 then f0 else rdUsage7d d);
          calls = (if e5 \<or> e1 \<or> e7 then reset_calls s (keID k) else [])
      in (if flt f0 (keRateLimit5h k) \<and> fle (keRateLimit5h k) u5 then Err ErrAPIKeyRateLimit5hExceeded
          else if flt f0 (keRateLimit1d k) \<and> fle (keRateLimit1d k) u1 then Err ErrAPIKeyRateLimit1dExceeded
          else if flt f0 (keRateLimit7d k) \<and> fle (keRateLimit7d k) u7 then Err ErrAPIKeyRateLimit7dExceeded
          else Ok (), calls))"

text \<open>The cache keeps a window start as Unix seconds, zero for none.\<close>

definition cache_entry :: "APIKeyRateLimitData \<Rightarrow> APIKeyRateLimitCacheData" where
  "cache_entry d =
     (let seconds = (\<lambda>w. case w of None \<Rightarrow> 0 | Some t \<Rightarrow> unix_sec t) in
      \<lparr>rcUsage5h = rdUsage5h d, rcUsage1d = rdUsage1d d, rcUsage7d = rdUsage7d d,
        rcWindow5h = seconds (rdWindow5hStart d), rcWindow1d = seconds (rdWindow1dStart d),
        rcWindow7d = seconds (rdWindow7dStart d)\<rparr>)"

definition cached_start :: "Eligibility \<Rightarrow> int \<Rightarrow> gtime option" where
  "cached_start s w = (if w > 0 then Some \<lparr>ns = w * second, loc = elLocal s\<rparr> else None)"

definition cached_data :: "Eligibility \<Rightarrow> APIKeyRateLimitCacheData \<Rightarrow> APIKeyRateLimitData" where
  "cached_data s c =
     \<lparr>rdUsage5h = rcUsage5h c, rdUsage1d = rcUsage1d c, rdUsage7d = rcUsage7d c,
      rdWindow5hStart = cached_start s (rcWindow5h c), rdWindow1dStart = cached_start s (rcWindow1d c),
      rdWindow7dStart = cached_start s (rcWindow7d c)\<rparr>"

definition checkAPIKeyRateLimits ::
  "Answers \<Rightarrow> KeySnapshot \<Rightarrow> Eligibility \<Rightarrow> (perror, unit) result \<times> store_call list" where
  "checkAPIKeyRateLimits an k s =
     (let now = ns (anRateAt an) in
      if \<not> elCache s then
        (if \<not> elLoader s then (Ok (), [])
         else case anStoredRate an of Inl _ \<Rightarrow> (Ok (), []) | Inr d \<Rightarrow> evaluateRateLimits now k d s)
      else case anCacheRate an of
        Inr c \<Rightarrow> evaluateRateLimits now k (cached_data s c) s
      | Inl _ \<Rightarrow>
          if \<not> elLoader s then (Ok (), [])
          else (case anStoredRate an of
             Inl _ \<Rightarrow> (Ok (), [])
           | Inr d \<Rightarrow>
               (case evaluateRateLimits now k (cached_data s (cache_entry d)) s of
                  (res, calls) \<Rightarrow> (res, SetAPIKeyRateLimit (keID k) (cache_entry d) # calls))))"

section \<open>The check\<close>

definition breaker_admits :: "Answers \<Rightarrow> Eligibility \<Rightarrow> bool \<times> Eligibility" where
  "breaker_admits an s =
     (case elBreaker s of
        None \<Rightarrow> (True, s)
      | Some b \<Rightarrow> (case Breaker_Allow (ns (anAllowAt an)) b of (ok, b) \<Rightarrow> (ok, s\<lparr>elBreaker := Some b\<rparr>)))"

definition subscription_check :: "Eligibility \<Rightarrow> gtime \<Rightarrow> UserSubscription option \<Rightarrow> (perror, unit) result" where
  "subscription_check s now sub = CheckEffectiveSubscriptionEligibility (elLocal s) (elCalendar s) now sub"

text \<open>The demands of a key that is bound to its subscription.\<close>

definition preferred_check ::
  "Answers \<Rightarrow> int option \<Rightarrow> UserSubscription option \<Rightarrow> Eligibility \<Rightarrow> (perror, unit) result" where
  "preferred_check an grp sub s =
     (if sub = None then Err preferred_invalid
      else if (case grp of None \<Rightarrow> False | Some g \<Rightarrow> \<not> SubscriptionAllowsGroup sub g) then Err ErrPreferredSubscriptionGroup
      else case subscription_check s (anPreferredAt an) sub of
        Inl e \<Rightarrow> Err (if IsSubscriptionQuotaExceeded e then preferred_insufficient else preferred_invalid)
      | Inr _ \<Rightarrow> Ok ())"

definition funding_check ::
  "Answers \<Rightarrow> int \<Rightarrow> UserSubscription option \<Rightarrow> Eligibility \<Rightarrow> (perror, unit) result \<times> Eligibility" where
  "funding_check an uid sub s =
     (if sub = None then checkBalanceEligibility an uid s
      else case subscription_check s (anCommonAt an) sub of
        Inr _ \<Rightarrow> (Ok (), s)
      | Inl e \<Rightarrow> if \<not> IsSubscriptionQuotaExceeded e then (Err e, s) else checkBalanceEligibility an uid s)"

definition CheckBillingEligibility ::
  "Answers \<Rightarrow> int \<Rightarrow> KeySnapshot option \<Rightarrow> int option \<Rightarrow> UserSubscription option \<Rightarrow> Eligibility
     \<Rightarrow> (perror, unit) result \<times> Eligibility \<times> store_call list" where
  "CheckBillingEligibility an uid apiKey grp sub s =
     (case breaker_admits an s of
        (False, s) \<Rightarrow> (Err ErrBillingServiceUnavailable, s, [])
      | (True, s) \<Rightarrow>
          let mode = effectiveKeyBillingMode apiKey in
          case (if mode = APIKeyBillingModeSubscription then preferred_check an grp sub s else Ok ()) of
            Inl e \<Rightarrow> (Err e, s, [])
          | Inr _ \<Rightarrow>
              (case funding_check an uid (if mode = APIKeyBillingModeBalance then None else sub) s of
                 (Inl e, s) \<Rightarrow> (Err e, s, [])
               | (Inr _, s) \<Rightarrow>
                   (case apiKey of
                      None \<Rightarrow> (Ok (), s, [])
                    | Some k \<Rightarrow>
                        if \<not> HasRateLimits k then (Ok (), s, [])
                        else (case checkAPIKeyRateLimits an k s of (res, calls) \<Rightarrow> (res, s, calls)))))"

section \<open>Cost windows of a provider\<close>

datatype WindowCostSchedulability = WindowCostSchedulable | WindowCostStickyOnly | WindowCostNotSchedulable

definition CheckWindowCost :: "f64 \<Rightarrow> f64 \<Rightarrow> f64 \<Rightarrow> WindowCostSchedulability" where
  "CheckWindowCost current limit reserve =
     (if fle limit f0 \<or> flt current limit then WindowCostSchedulable
      else if flt current (fadd limit reserve) then WindowCostStickyOnly
      else WindowCostNotSchedulable)"

end
