(* ===== verification/EligibilitySafety.thy ===== *)
theory EligibilitySafety
  imports EligibilityCheck
begin

text \<open>
  What the funding precheck guarantees: a passed check was funded and within the
  key's spending limits; key windows read through the cache are judged as those of
  the database; every write the pool accepts is made once by the time it has stopped;
  the breaker described from the history of checks and outcomes; and the half-open breaker
  whose probes were spent by checks that read no balance, which never recovers.
\<close>

section \<open>A passed check\<close>

text \<open>A grant is open when it is active and every positive limit leaves something after elapsed windows are cleared.\<close>

definition room :: "f64 option \<Rightarrow> f64 \<Rightarrow> bool" where
  "room limit used = (case limit of None \<Rightarrow> True | Some l \<Rightarrow> fle l f0 \<or> \<not> fle l used)"

definition open_grant :: "Eligibility \<Rightarrow> gtime \<Rightarrow> UserSubscription \<Rightarrow> bool" where
  "open_grant s now sub =
     (let u = elapsed_cleared (elLocal s) (elCalendar s) now sub in
      EffectiveStatus (Some sub) now = SubscriptionStatusActive \<and>
      room (DailyLimitUSD sub) (DailyUsageUSD u) \<and> room (WeeklyLimitUSD sub) (WeeklyUsageUSD u) \<and>
      room (MonthlyLimitUSD sub) (MonthlyUsageUSD u))"

text \<open>A balance is usable when the answers give it and it is above zero and the reserve.\<close>

definition usable_balance :: "Answers \<Rightarrow> Eligibility \<Rightarrow> bool" where
  "usable_balance an s =
     (\<exists>bal. (anCacheBalance an = Ok bal \<and> elCache s \<or> anStoredBalance an = Ok bal) \<and>
        \<not> fle bal f0 \<and> \<not> flt bal (MinimumBalanceReserve s))"

definition within_key_limits :: "instant \<Rightarrow> KeySnapshot \<Rightarrow> APIKeyRateLimitData \<Rightarrow> bool" where
  "within_key_limits now k d =
     (\<not> (flt f0 (keRateLimit5h k) \<and> fle (keRateLimit5h k) (EffectiveUsage5h now d)) \<and>
      \<not> (flt f0 (keRateLimit1d k) \<and> fle (keRateLimit1d k) (EffectiveUsage1d now d)) \<and>
      \<not> (flt f0 (keRateLimit7d k) \<and> fle (keRateLimit7d k) (EffectiveUsage7d now d)))"

lemma effective_status_cases:
  "EffectiveStatus sub now \<in> {SubscriptionStatusExpired, SubscriptionStatusSuspended, SubscriptionStatusPending,
     SubscriptionStatusRevoked, SubscriptionStatusActive}"
  by (auto simp: EffectiveStatus_def split: option.split)

lemma elapsed_cleared_limits [simp]:
  "DailyLimitUSD (elapsed_cleared l c now s) = DailyLimitUSD s"
  "WeeklyLimitUSD (elapsed_cleared l c now s) = WeeklyLimitUSD s"
  "MonthlyLimitUSD (elapsed_cleared l c now s) = MonthlyLimitUSD s"
  by (simp_all add: elapsed_cleared_def Let_def)

lemma usage_limits_room:
  "CheckSubscriptionUsageLimits sub f0 = Ok () \<longleftrightarrow>
     room (DailyLimitUSD sub) (DailyUsageUSD sub) \<and> room (WeeklyLimitUSD sub) (WeeklyUsageUSD sub) \<and>
     room (MonthlyLimitUSD sub) (MonthlyUsageUSD sub)"
  by (auto simp: CheckSubscriptionUsageLimits_def SubscriptionWindowLimitExceeded_def room_def split: option.splits)

lemma subscription_check_ok:
  "subscription_check s now (Some sub) = Ok () \<longleftrightarrow> open_grant s now sub"
  using effective_status_cases [of "Some sub" now]
  by (auto simp: subscription_check_def CheckEffectiveSubscriptionEligibility_def open_grant_def Let_def
      usage_limits_room status_consts)

lemma on_breaker_same [simp]:
  "elMinimumBalanceReserve (on_breaker f s) = elMinimumBalanceReserve s" "elCache (on_breaker f s) = elCache s"
  "elLoader (on_breaker f s) = elLoader s" "elLocal (on_breaker f s) = elLocal s"
  "elCalendar (on_breaker f s) = elCalendar s" "elResetsWindows (on_breaker f s) = elResetsWindows s"
  by (simp_all add: on_breaker_def)

lemma drop_same [simp]:
  "elMinimumBalanceReserve (drop_full t s) = elMinimumBalanceReserve s" "elCache (drop_full t s) = elCache s"
  "elLoader (drop_full t s) = elLoader s" "elLocal (drop_full t s) = elLocal s" "elBreaker (drop_full t s) = elBreaker s"
  "elCalendar (drop_full t s) = elCalendar s" "elResetsWindows (drop_full t s) = elResetsWindows s"
  "elMinimumBalanceReserve (drop_closed t s) = elMinimumBalanceReserve s" "elCache (drop_closed t s) = elCache s"
  "elLoader (drop_closed t s) = elLoader s" "elLocal (drop_closed t s) = elLocal s" "elBreaker (drop_closed t s) = elBreaker s"
  "elCalendar (drop_closed t s) = elCalendar s" "elResetsWindows (drop_closed t s) = elResetsWindows s"
  by (simp_all add: drop_full_def drop_closed_def Let_def)

lemma tryEnqueue_same:
  "tryEnqueueCacheWrite t s = (r, s') \<Longrightarrow> \<exists>q. s' = s\<lparr>elQueue := q\<rparr>"
  by (cases s) (auto simp: tryEnqueueCacheWrite_def split: if_splits option.splits)

definition fixed_parts :: "Eligibility \<Rightarrow> f64 \<times> bool \<times> bool \<times> bool \<times> Calendar.location \<times> Calendar \<times> billingCircuitBreaker option" where
  "fixed_parts s = (elMinimumBalanceReserve s, elCache s, elLoader s, elResetsWindows s, elLocal s, elCalendar s, elBreaker s)"

lemma fixed_parts_queue [simp]: "fixed_parts (s\<lparr>elQueue := q\<rparr>) = fixed_parts s"
  by (simp add: fixed_parts_def)

lemma fixed_parts_drop [simp]: "fixed_parts (drop_full t s) = fixed_parts s" "fixed_parts (drop_closed t s) = fixed_parts s"
  by (simp_all add: fixed_parts_def)

lemma enqueue_same: "fixed_parts (snd (enqueueCacheWrite now t s)) = fixed_parts s"
proof -
  obtain r q where "tryEnqueueCacheWrite t s = (r, s\<lparr>elQueue := q\<rparr>)"
    using tryEnqueue_same by (metis surj_pair)
  then show ?thesis by (cases r) (simp_all add: enqueueCacheWrite_def)
qed

lemma GetUserBalance_same: "fixed_parts (snd (GetUserBalance an uid s)) = fixed_parts s"
  by (auto simp: GetUserBalance_def enqueue_same split: sum.split)

lemma GetUserBalance_value:
  "fst (GetUserBalance an uid s) = Ok bal \<Longrightarrow> anCacheBalance an = Ok bal \<and> elCache s \<or> anStoredBalance an = Ok bal"
  by (auto simp: GetUserBalance_def getUserBalanceFromDB_def split: if_splits sum.splits)

lemma above_reserve: "\<not> fle bal f0 \<Longrightarrow> \<not> (flt f0 m \<and> flt bal m) \<Longrightarrow> \<not> flt bal m"
  by (cases bal; cases m) auto

lemma checkBalance_ok:
  assumes "checkBalanceEligibility an uid s = (res, s')"
  shows "elCache s' = elCache s \<and> elLoader s' = elLoader s \<and> elLocal s' = elLocal s \<and>
    (res = Ok () \<longrightarrow> usable_balance an s)"
proof -
  obtain r s1 where g: "GetUserBalance an uid s = (r, s1)" by fastforce
  have same: "fixed_parts s1 = fixed_parts s" using GetUserBalance_same [of an uid s] g by simp
  have v: "anCacheBalance an = Ok bal \<and> elCache s \<or> anStoredBalance an = Ok bal" if "r = Ok bal" for bal
    using GetUserBalance_value [of an uid s bal] g that by simp
  show ?thesis
  proof (cases r)
    case (Inl e)
    then show ?thesis using assms g same by (auto simp: checkBalanceEligibility_def fixed_parts_def)
  next
    case (Inr bal)
    let ?t = "on_breaker Breaker_OnSuccess s1"
    have s': "s' = ?t" and res: "res = (if BalanceBelowEligibilityThreshold ?t bal then Err ErrFundsInsufficient else Ok ())"
      using assms g Inr by (auto simp: checkBalanceEligibility_def Let_def)
    have m: "MinimumBalanceReserve ?t = MinimumBalanceReserve s"
      using same by (simp add: MinimumBalanceReserve_def fixed_parts_def)
    have "\<not> fle bal f0 \<and> \<not> flt bal (MinimumBalanceReserve s)" if "res = Ok ()"
      using that above_reserve [of bal "MinimumBalanceReserve s"] unfolding res BalanceBelowEligibilityThreshold_def m
      by (auto split: if_splits)
    then have "res = Ok () \<longrightarrow> usable_balance an s" using v [OF Inr] unfolding usable_balance_def by blast
    then show ?thesis using same s' by (simp add: fixed_parts_def)
  qed
qed

text \<open>
  The key data a check judges: the cached entry, or the stored data in the form the
  cache keeps it, or the stored data where there is no cache; none when no source answers.
\<close>

definition judged_data :: "Answers \<Rightarrow> Eligibility \<Rightarrow> APIKeyRateLimitData option" where
  "judged_data an s =
     (if elCache s then
        (case anCacheRate an of
           Inr c \<Rightarrow> Some (cached_data s c)
         | Inl _ \<Rightarrow> if elLoader s then (case anStoredRate an of Inl _ \<Rightarrow> None | Inr d \<Rightarrow> Some (cached_data s (cache_entry d))) else None)
      else if elLoader s then (case anStoredRate an of Inl _ \<Rightarrow> None | Inr d \<Rightarrow> Some d) else None)"

lemma evaluate_ok: "fst (evaluateRateLimits now k d s) = Ok () \<longleftrightarrow> within_key_limits now k d"
  by (auto simp: evaluateRateLimits_def within_key_limits_def EffectiveUsage5h_def EffectiveUsage1d_def EffectiveUsage7d_def Let_def)

lemma check_rates_ok:
  "fst (checkAPIKeyRateLimits an k s) = Ok () \<longleftrightarrow>
     (case judged_data an s of None \<Rightarrow> True | Some d \<Rightarrow> within_key_limits (ns (anRateAt an)) k d)"
  by (simp add: checkAPIKeyRateLimits_def judged_data_def Let_def case_prod_beta evaluate_ok split: sum.split)

lemma funding_ok:
  assumes "funding_check an uid sub s = (Ok (), s')"
  shows "(\<exists>g. sub = Some g \<and> open_grant s (anCommonAt an) g) \<or> usable_balance an s"
    and "judged_data an s' = judged_data an s"
proof -
  have e: "elCache s' = elCache s \<and> elLoader s' = elLoader s \<and> elLocal s' = elLocal s"
    using assms checkBalance_ok by (auto simp: funding_check_def split: if_splits sum.splits)
  then show "judged_data an s' = judged_data an s"
    by (auto simp: judged_data_def cached_data_def cached_start_def split: sum.split)
  show "(\<exists>g. sub = Some g \<and> open_grant s (anCommonAt an) g) \<or> usable_balance an s"
    using assms checkBalance_ok [of an uid s _ s'] subscription_check_ok [of s "anCommonAt an"]
    by (cases sub) (auto simp: funding_check_def split: if_splits sum.splits)
qed

lemma breaker_admits_same: "breaker_admits an s = (ok, s') \<Longrightarrow> \<exists>br. s' = s\<lparr>elBreaker := br\<rparr>"
  by (cases s) (auto simp: breaker_admits_def split: option.splits prod.splits)

lemma breaker_irrelevant [simp]:
  "open_grant (s\<lparr>elBreaker := br\<rparr>) = open_grant s" "usable_balance an (s\<lparr>elBreaker := br\<rparr>) = usable_balance an s"
  "judged_data an (s\<lparr>elBreaker := br\<rparr>) = judged_data an s"
  "subscription_check (s\<lparr>elBreaker := br\<rparr>) = subscription_check s"
  by (simp_all add: open_grant_def usable_balance_def MinimumBalanceReserve_def judged_data_def cached_data_def
      cached_start_def subscription_check_def fun_eq_iff Let_def split: sum.split)

text \<open>
  C2: Whoever passes the precheck is funded, and within the key's limits as far as its usage is
  known: for all answers of caches, database and clocks, a passed CheckBillingEligibility had
  either a subscription that is active and has room in every limited window, or a balance above
  zero and the configured reserve; a key bound to its subscription had such a subscription that
  allows the group; and when the cache or the database answers with the key's usage, every
  positive spending limit of the key exceeds the usage of its running window.  When neither
  answers, the code lets the key pass (it fails open), so nothing is claimed about its limits.
\<close>

theorem eligible_is_funded:
  assumes "CheckBillingEligibility an uid key grp sub s = (Ok (), s', calls)"
  shows "((\<exists>g. sub = Some g \<and> effectiveKeyBillingMode key \<noteq> APIKeyBillingModeBalance \<and> open_grant s (anCommonAt an) g)
      \<or> usable_balance an s) \<and>
    (effectiveKeyBillingMode key = APIKeyBillingModeSubscription \<longrightarrow>
      (\<exists>g. sub = Some g \<and> open_grant s (anPreferredAt an) g \<and> (\<forall>i. grp = Some i \<longrightarrow> SubscriptionAllowsGroup sub i))) \<and>
    (\<forall>k d. key = Some k \<and> judged_data an s = Some d \<longrightarrow> within_key_limits (ns (anRateAt an)) k d)"
proof -
  let ?mode = "effectiveKeyBillingMode key"
  obtain s0 where b: "breaker_admits an s = (True, s0)"
    using assms by (cases "breaker_admits an s") (auto simp: CheckBillingEligibility_def split: bool.splits)
  obtain br where "s0 = s\<lparr>elBreaker := br\<rparr>" using breaker_admits_same [OF b] by blast
  then have s0: "open_grant s0 = open_grant s" "usable_balance an s0 = usable_balance an s" "judged_data an s0 = judged_data an s"
    "subscription_check s0 = subscription_check s"
    by simp_all
  have p: "?mode = APIKeyBillingModeSubscription \<longrightarrow> preferred_check an grp sub s0 = Ok ()"
    using assms b by (auto simp: CheckBillingEligibility_def Let_def split: sum.splits if_splits)
  obtain s1 where f: "funding_check an uid (if ?mode = APIKeyBillingModeBalance then None else sub) s0 = (Ok (), s1)"
    using assms b p by (auto simp: CheckBillingEligibility_def Let_def split: sum.splits if_splits prod.splits)
  have k: "key = Some k \<Longrightarrow> HasRateLimits k \<longrightarrow> fst (checkAPIKeyRateLimits an k s1) = Ok ()" for k
    using assms b p f by (auto simp: CheckBillingEligibility_def Let_def split: if_splits prod.splits)
  have "within_key_limits (ns (anRateAt an)) k d" if "key = Some k" "judged_data an s = Some d" for k d
    using k [OF that(1)] that(2) funding_ok(2) [OF f] s0(3) check_rates_ok [of an k s1]
    by (cases "HasRateLimits k") (auto simp: HasRateLimits_def within_key_limits_def)
  moreover have "\<exists>g. sub = Some g \<and> open_grant s (anPreferredAt an) g \<and> (\<forall>i. grp = Some i \<longrightarrow> SubscriptionAllowsGroup sub i)"
    if "?mode = APIKeyBillingModeSubscription"
    using p that subscription_check_ok s0 by (auto simp: preferred_check_def split: if_splits option.splits sum.splits)
  moreover have "(\<exists>g. sub = Some g \<and> ?mode \<noteq> APIKeyBillingModeBalance \<and> open_grant s (anCommonAt an) g) \<or> usable_balance an s"
    using funding_ok(1) [OF f] s0 by (auto split: if_splits)
  ultimately show ?thesis by blast
qed

definition sample_service :: "billingCircuitBreaker option \<Rightarrow> Eligibility" where
  "sample_service br = \<lparr>elCache = True, elLoader = True, elResetsWindows = True, elMinimumBalanceReserve = Fin 1,
     elCalendar = \<lparr>Calendar.location = None\<rparr>, elLocal = utc, elBreaker = br, elQueue = None, elStopped = False,
     elDropFullCount = 0, elDropFullLastLog = 0, elDropClosedCount = 0, elDropClosedLastLog = 0\<rparr>"

definition sample_time :: gtime where "sample_time = \<lparr>ns = 86400000000000, loc = utc\<rparr>"

definition sample_answers :: Answers where
  "sample_answers = \<lparr>anCacheBalance = Err (Plain ''nil''), anLeader = False, anStoredBalance = Ok (Fin 5),
     anCacheRate = Err (Plain ''nil''), anStoredRate = Ok \<lparr>rdUsage5h = Fin 9, rdUsage1d = Fin 3, rdUsage7d = Fin 3,
       rdWindow5hStart = None, rdWindow1dStart = Some sample_time, rdWindow7dStart = Some sample_time\<rparr>,
     anAllowAt = sample_time, anPreferredAt = sample_time, anCommonAt = sample_time, anOutcomeAt = sample_time,
     anDropAt = sample_time, anRateAt = sample_time\<rparr>"

definition sample_key :: KeySnapshot where
  "sample_key = \<lparr>keID = 1, keBillingMode = ''balance'', keRateLimit5h = Fin 9, keRateLimit1d = Fin 4, keRateLimit7d = f0\<rparr>"

theorem eligible_is_funded_witness:
  "fst (CheckBillingEligibility sample_answers 7 (Some sample_key) None None (sample_service None)) = Ok () \<and>
     usable_balance sample_answers (sample_service None) \<and>
     (\<exists>d. judged_data sample_answers (sample_service None) = Some d \<and> within_key_limits (ns sample_time) sample_key d)"
proof -
  obtain res s' calls
    where c: "CheckBillingEligibility sample_answers 7 (Some sample_key) None None (sample_service None) = (res, s', calls)"
    by (metis surj_pair)
  have ok: "fst (CheckBillingEligibility sample_answers 7 (Some sample_key) None None (sample_service None)) = Ok ()"
    by code_simp
  then have r: "res = Ok ()" using c by simp
  have t: "anRateAt sample_answers = sample_time" by (simp add: sample_answers_def)
  have "judged_data sample_answers (sample_service None) \<noteq> None"
    by (simp add: judged_data_def sample_answers_def sample_service_def)
  then obtain d where d: "judged_data sample_answers (sample_service None) = Some d" by blast
  show ?thesis using ok t d eligible_is_funded [OF c [unfolded r]] by simp
qed

section \<open>Key windows through the cache\<close>

definition whole_seconds :: "gtime option \<Rightarrow> bool" where
  "whole_seconds w = (case w of None \<Rightarrow> True | Some t \<Rightarrow> 0 < ns t \<and> ns t mod second = 0)"

text \<open>
  Stored window starts of whole seconds after 1970 survive the cache: the cached entry of a
  key is judged as its stored data, at every instant and for every limit.
\<close>

theorem cached_windows_agree:
  assumes "whole_seconds (rdWindow5hStart d)" "whole_seconds (rdWindow1dStart d)" "whole_seconds (rdWindow7dStart d)"
  shows "within_key_limits now k (cached_data s (cache_entry d)) = within_key_limits now k d"
proof -
  have w: "IsWindowExpired now (cached_start s (case_option 0 unix_sec w)) dur = IsWindowExpired now w dur"
    if "whole_seconds w" for w dur
  proof (cases w)
    case (Some t)
    then have "ns t mod second = 0" "0 < ns t" using that by (auto simp: whole_seconds_def)
    then have "ns t div second * second = ns t" "0 < ns t div second"
      by (auto simp: second_def millisecond_def pos_imp_zdiv_pos_iff)
    moreover have "unix_sec t = ns t div second" by (simp add: unix_sec_def nanos_def second_def millisecond_def)
    ultimately show ?thesis using Some by (simp add: cached_start_def IsWindowExpired_def)
  qed (simp add: cached_start_def IsWindowExpired_def)
  show ?thesis
    using assms by (simp add: within_key_limits_def EffectiveUsage5h_def EffectiveUsage1d_def EffectiveUsage7d_def
        cached_data_def cache_entry_def Let_def w)
qed

section \<open>Cache writes\<close>

text \<open>
  The producers and the worker of the pool: a deduction, a usage update, a balance read,
  which offers a population write after a miss, and a turn of the worker.
\<close>

datatype pool_op = Deduct instant int f64 | AddUsage instant int f64 | ReadBalance Answers int | Work

fun pool_step :: "pool_op \<Rightarrow> Eligibility \<Rightarrow> store_call list \<times> Eligibility" where
  "pool_step (Deduct now u x) s = QueueDeductBalance now u x s"
| "pool_step (AddUsage now k x) s = QueueUpdateAPIKeyRateLimitUsage now k x s"
| "pool_step (ReadBalance an u) s = ([], snd (GetUserBalance an u s))"
| "pool_step Work s = cacheWriteWorker s"

fun run_pool :: "pool_op list \<Rightarrow> Eligibility \<Rightarrow> store_call list \<times> Eligibility" where
  "run_pool [] s = ([], s)"
| "run_pool (x # xs) s =
     (case pool_step x s of (calls, s') \<Rightarrow> (case run_pool xs s' of (later, s'') \<Rightarrow> (calls @ later, s'')))"

text \<open>The writes that must be made, and the population writes a read offers.\<close>

fun submitted :: "pool_op \<Rightarrow> cacheWriteTask list" where
  "submitted (Deduct now u x) = [cacheWriteDeductBalance u x]"
| "submitted (AddUsage now k x) = [cacheWriteUpdateRateLimitUsage k x]"
| "submitted (ReadBalance an u) = []"
| "submitted Work = []"

fun offered :: "pool_op \<Rightarrow> cacheWriteTask list" where
  "offered (ReadBalance an u) =
     (case (anCacheBalance an, anStoredBalance an) of
        (Inl e, Inr x) \<Rightarrow> if anLeader an then [cacheWriteSetBalance u x] else []
      | _ \<Rightarrow> [])"
| "offered x = []"

definition queued :: "Eligibility \<Rightarrow> cacheWriteTask list" where
  "queued s = (case elQueue s of None \<Rightarrow> [] | Some ts \<Rightarrow> ts)"

text \<open>The population writes offered while the queue had room.\<close>

fun accepted :: "pool_op list \<Rightarrow> Eligibility \<Rightarrow> cacheWriteTask list" where
  "accepted [] s = []"
| "accepted (x # xs) s =
     (if length (queued s) < cacheWriteBufferSize then offered x else []) @ accepted xs (snd (pool_step x s))"

definition open_pool :: "Eligibility \<Rightarrow> bool" where
  "open_pool s = (elCache s \<and> \<not> elStopped s \<and> elQueue s \<noteq> None)"

lemma drop_full_pool [simp]:
  "elQueue (drop_full now s) = elQueue s" "elStopped (drop_full now s) = elStopped s"
  by (simp_all add: drop_full_def Let_def)

lemma pool_step_open:
  assumes "open_pool s" "pool_step x s = (calls, s')"
  shows "open_pool s' \<and> mset calls + image_mset RunTask (mset (queued s')) =
    image_mset RunTask (mset (queued s) + mset (submitted x) + mset (accepted [x] s))"
proof -
  obtain ts where q: "elQueue s = Some ts" "elCache s" "\<not> elStopped s" using assms(1) by (auto simp: open_pool_def)
  have enq: "queue_or_run now t s = (if length ts < cacheWriteBufferSize then ([], s\<lparr>elQueue := Some (ts @ [t])\<rparr>) else ([RunTask t], s))"
    for now t using q by (simp add: queue_or_run_def tryEnqueueCacheWrite_def)
  have pop: "snd (enqueueCacheWrite now t s) =
      (if length ts < cacheWriteBufferSize then s\<lparr>elQueue := Some (ts @ [t])\<rparr> else drop_full now s)"
    for now t using q by (simp add: enqueueCacheWrite_def tryEnqueueCacheWrite_def)
  show ?thesis
  proof (cases x)
    case Work
    then show ?thesis using assms(2) q by (cases ts) (auto simp: cacheWriteWorker_def open_pool_def queued_def)
  next
    case (ReadBalance an u)
    then show ?thesis using assms(2) q
      by (auto simp: GetUserBalance_def getUserBalanceFromDB_def pop open_pool_def queued_def split: sum.splits)
  qed (use assms(2) q in \<open>auto simp: QueueDeductBalance_def QueueUpdateAPIKeyRateLimitUsage_def enq open_pool_def queued_def
      split: if_splits\<close>)
qed

lemma run_pool_open:
  "open_pool s \<Longrightarrow> run_pool xs s = (calls, s') \<Longrightarrow>
     open_pool s' \<and> mset calls + image_mset RunTask (mset (queued s')) =
       image_mset RunTask (mset (queued s) + mset (concat (map submitted xs)) + mset (accepted xs s))"
proof (induction xs arbitrary: s calls)
  case (Cons x xs)
  obtain c1 s1 c2 where st: "pool_step x s = (c1, s1)" "run_pool xs s1 = (c2, s')" "calls = c1 @ c2"
    using Cons.prems(2) by (auto split: prod.splits)
  have "accepted (x # xs) s = accepted [x] s @ accepted xs s1" using st(1) by simp
  then show ?case using pool_step_open [OF Cons.prems(1) st(1)] Cons.IH [OF _ st(2)] st(3)
    by (simp del: accepted.simps add: ac_simps)
qed simp

text \<open>
  C22: The pool makes every write it owes, once: whatever the order of deductions, usage
  updates, balance reads and worker turns, and however often the queue is full, the writes made
  until Stop has drained the pool are exactly every deduction and usage update, and those
  population writes of balance reads that were offered while the queue had room; a population
  write offered to a full queue is dropped, and nothing is made twice.
\<close>

theorem pool_runs_every_write:
  assumes "elCache s" "\<not> elStopped s" "elQueue s = None" "run_pool xs (Start s) = (calls, s')" "Stop s' = (drained, s'')"
  shows "mset (calls @ drained) = mset (map RunTask (concat (map submitted xs) @ accepted xs (Start s))) \<and>
    elStopped s'' \<and> elQueue s'' = None"
proof -
  have o: "open_pool (Start s)" "queued (Start s) = []" using assms(1-3) by (simp_all add: open_pool_def queued_def Start_def)
  note r = run_pool_open [OF o(1) assms(4)]
  then obtain ts where "elQueue s' = Some ts" "elCache s'" by (auto simp: open_pool_def)
  then show ?thesis using r o(2) assms(5) by (auto simp: Stop_def queued_def)
qed

theorem pool_runs_every_write_witness:
  "\<exists>calls s' drained s''.
     run_pool [Deduct 0 1 (Fin 2), Work, ReadBalance (sample_answers\<lparr>anLeader := True\<rparr>) 1, AddUsage 0 7 (Fin 3)]
       (Start (sample_service None)) = (calls, s') \<and> Stop s' = (drained, s'') \<and>
     mset (calls @ drained) = {#RunTask (cacheWriteDeductBalance 1 (Fin 2)), RunTask (cacheWriteUpdateRateLimitUsage 7 (Fin 3)),
       RunTask (cacheWriteSetBalance 1 (Fin 5))#}"
proof -
  let ?xs = "[Deduct 0 1 (Fin 2), Work, ReadBalance (sample_answers\<lparr>anLeader := True\<rparr>) 1, AddUsage 0 7 (Fin 3)]"
  obtain calls s' where r: "run_pool ?xs (Start (sample_service None)) = (calls, s')"
    by (metis surj_pair)
  obtain drained s'' where d: "Stop s' = (drained, s'')" by (metis surj_pair)
  have pre: "elCache (sample_service None)" "\<not> elStopped (sample_service None)" "elQueue (sample_service None) = None"
    by (simp_all add: sample_service_def)
  have "accepted ?xs (Start (sample_service None)) = [cacheWriteSetBalance 1 (Fin 5)]" by code_simp
  then have "mset (calls @ drained) = {#RunTask (cacheWriteDeductBalance 1 (Fin 2)),
      RunTask (cacheWriteUpdateRateLimitUsage 7 (Fin 3)), RunTask (cacheWriteSetBalance 1 (Fin 5))#}"
    using pool_runs_every_write [OF pre r d] by (simp del: accepted.simps run_pool.simps)
  with r d show ?thesis by blast
qed

section \<open>The breaker under any interleaving\<close>

text \<open>
  A history lists what happened to a breaker, newest first: checks with their instants and
  whether they were admitted, and the outcomes of balance reads, also of reads admitted long
  ago.  They come in any order and at any instants.
\<close>

datatype breaker_event = Checked instant bool | Succeeded | Failed instant

inductive breaker_run :: "CircuitBreakerOptions \<Rightarrow> breaker_event list \<Rightarrow> billingCircuitBreaker \<Rightarrow> bool"
  for cfg :: CircuitBreakerOptions where
  fresh: "newBillingCircuitBreaker cfg = Some b \<Longrightarrow> breaker_run cfg [] b"
| checked: "breaker_run cfg h b \<Longrightarrow> Breaker_Allow t b = (ok, b') \<Longrightarrow> breaker_run cfg (Checked t ok # h) b'"
| succeeded: "breaker_run cfg h b \<Longrightarrow> breaker_run cfg (Succeeded # h) (Breaker_OnSuccess b)"
| failed: "breaker_run cfg h b \<Longrightarrow> breaker_run cfg (Failed t # h) (Breaker_OnFailure t b)"

text \<open>The configured values, or the defaults for those that are not positive.\<close>

definition failure_threshold :: "CircuitBreakerOptions \<Rightarrow> int" where
  "failure_threshold cfg = (if coFailureThreshold cfg \<le> 0 then 5 else coFailureThreshold cfg)"

definition reset_timeout :: "CircuitBreakerOptions \<Rightarrow> duration" where
  "reset_timeout cfg = (if coResetTimeoutSeconds cfg \<le> 0 then 30 else coResetTimeoutSeconds cfg) * second"

definition probe_budget :: "CircuitBreakerOptions \<Rightarrow> int" where
  "probe_budget cfg = (if coHalfOpenRequests cfg \<le> 0 then 1 else coHalfOpenRequests cfg)"

text \<open>
  Read off a history: the failures since the last success; and, once they reached the
  threshold, the instant of the failure that opened the breaker with the number of checks
  admitted since.  A failure after such a probe opens the breaker anew.
\<close>

fun in_row :: "breaker_event list \<Rightarrow> int" where
  "in_row [] = 0"
| "in_row (Checked t ok # h) = in_row h"
| "in_row (Succeeded # h) = 0"
| "in_row (Failed t # h) = in_row h + 1"

fun opened_at :: "int \<Rightarrow> breaker_event list \<Rightarrow> (instant \<times> int) option" where
  "opened_at k [] = None"
| "opened_at k (Checked t ok # h) =
     (case opened_at k h of None \<Rightarrow> None | Some (u, n) \<Rightarrow> Some (u, if ok then n + 1 else n))"
| "opened_at k (Succeeded # h) = None"
| "opened_at k (Failed t # h) =
     (case opened_at k h of
        None \<Rightarrow> if k \<le> in_row (Failed t # h) then Some (t, 0) else None
      | Some (u, n) \<Rightarrow> if 0 < n then Some (t, 0) else Some (u, n))"

definition breaker_inv :: "CircuitBreakerOptions \<Rightarrow> breaker_event list \<Rightarrow> billingCircuitBreaker \<Rightarrow> bool" where
  "breaker_inv cfg h b =
     (bkFailureThreshold b = failure_threshold cfg \<and> bkResetTimeout b = reset_timeout cfg \<and>
      bkHalfOpenRequests b = probe_budget cfg \<and>
      (case opened_at (failure_threshold cfg) h of
         None \<Rightarrow> bkState b = billingCircuitClosed \<and> bkFailures b = in_row h \<and> in_row h < failure_threshold cfg
       | Some (u, n) \<Rightarrow> failure_threshold cfg \<le> in_row h \<and> 0 \<le> n \<and> n \<le> probe_budget cfg \<and>
           (if n = 0 then bkState b = billingCircuitOpen \<and> bkOpenedAt b = u
            else bkState b = billingCircuitHalfOpen \<and> bkHalfOpenRemaining b = probe_budget cfg - n)))"

lemma breaker_config_pos: "0 < failure_threshold cfg" "0 < reset_timeout cfg" "0 < probe_budget cfg"
  by (simp_all add: failure_threshold_def reset_timeout_def probe_budget_def second_def)

lemma breaker_inv_run: "breaker_run cfg h b \<Longrightarrow> breaker_inv cfg h b"
proof (induction rule: breaker_run.induct)
  case (fresh b)
  then show ?case
    by (auto simp: newBillingCircuitBreaker_def breaker_inv_def failure_threshold_def reset_timeout_def probe_budget_def
        second_def Let_def split: if_splits)
next
  case (checked h b t ok b')
  then show ?case using breaker_config_pos [of cfg]
    by (auto simp: breaker_inv_def Breaker_Allow_def take_probe_def split: option.splits if_splits)
next
  case (succeeded h b)
  then show ?case using breaker_config_pos [of cfg]
    by (auto simp: breaker_inv_def Breaker_OnSuccess_def split: option.splits)
next
  case (failed h b t)
  then show ?case using breaker_config_pos [of cfg]
    by (auto simp: breaker_inv_def Breaker_OnFailure_def Let_def split: option.splits if_splits)
qed

text \<open>
  C23: The breaker's answers are determined by the history of checks and outcomes, whatever
  their interleaving: it is closed exactly while fewer failures than the threshold came in a
  row since the last success; closed, it admits every check; opened by a failure at instant u,
  it admits no check before u plus the reset timeout and the first one from then on; after that
  it admits probes while fewer than the configured number have been admitted since the
  opening, so never more than that number; and a failure after a probe opens it anew.
\<close>

theorem breaker_sheds_load:
  assumes "breaker_run cfg h b"
  shows "(bkState b = billingCircuitClosed \<longleftrightarrow> in_row h < failure_threshold cfg) \<and>
    (fst (Breaker_Allow t b) \<longleftrightarrow>
       (case opened_at (failure_threshold cfg) h of
          None \<Rightarrow> True
        | Some (u, n) \<Rightarrow> if n = 0 then u + reset_timeout cfg \<le> t else n < probe_budget cfg)) \<and>
    (case opened_at (failure_threshold cfg) h of
       None \<Rightarrow> bkState b = billingCircuitClosed
     | Some (u, n) \<Rightarrow> bkState b \<noteq> billingCircuitClosed \<and> 0 \<le> n \<and> n \<le> probe_budget cfg)"
  using breaker_inv_run [OF assms] breaker_config_pos [of cfg]
  by (auto simp: breaker_inv_def Breaker_Allow_def take_probe_def split: option.splits if_splits)

definition sample_breaker :: "billingCircuitBreakerState \<Rightarrow> billingCircuitBreaker" where
  "sample_breaker st = \<lparr>bkState = st, bkFailures = (if st = billingCircuitClosed then 0 else 1),
     bkOpenedAt = (if st = billingCircuitClosed then zero_time else 0), bkFailureThreshold = 1,
     bkResetTimeout = 30 * second, bkHalfOpenRequests = 1, bkHalfOpenRemaining = 0\<rparr>"

theorem breaker_sheds_load_witness:
  "bkState (sample_breaker billingCircuitOpen) \<noteq> billingCircuitClosed \<and>
   \<not> fst (Breaker_Allow 5 (sample_breaker billingCircuitOpen)) \<and>
   fst (Breaker_Allow (30 * second) (sample_breaker billingCircuitOpen))"
proof -
  let ?cfg = "\<lparr>coEnabled = True, coFailureThreshold = 1, coResetTimeoutSeconds = 30, coHalfOpenRequests = 1\<rparr>"
  have "newBillingCircuitBreaker ?cfg = Some (sample_breaker billingCircuitClosed)"
    by (simp add: newBillingCircuitBreaker_def sample_breaker_def second_def)
  then have "breaker_run ?cfg [Failed 0] (Breaker_OnFailure 0 (sample_breaker billingCircuitClosed))"
    by (intro breaker_run.intros)
  then have run: "breaker_run ?cfg [Failed 0] (sample_breaker billingCircuitOpen)"
    by (simp add: sample_breaker_def Breaker_OnFailure_def)
  show ?thesis
    using breaker_sheds_load [OF run, of 5] breaker_sheds_load [OF run, of "30 * second"]
    by (simp add: failure_threshold_def reset_timeout_def second_def)
qed

section \<open>Probes spent without a balance read\<close>

record Request =
  rqAnswers :: Answers
  rqUser :: int
  rqKey :: "KeySnapshot option"
  rqGroup :: "int option"
  rqSubscription :: "UserSubscription option"

definition check_request :: "Request \<Rightarrow> Eligibility \<Rightarrow> (perror, unit) result \<times> Eligibility \<times> store_call list" where
  "check_request r s = CheckBillingEligibility (rqAnswers r) (rqUser r) (rqKey r) (rqGroup r) (rqSubscription r) s"

fun run_checks :: "Request list \<Rightarrow> Eligibility \<Rightarrow> (perror, unit) result list \<times> Eligibility" where
  "run_checks [] s = ([], s)"
| "run_checks (r # rs) s =
     (case check_request r s of (res, s', calls) \<Rightarrow> (case run_checks rs s' of (ress, s'') \<Rightarrow> (res # ress, s'')))"

text \<open>Nothing left to try, and nothing that could report an outcome.\<close>

definition spent :: "Eligibility \<Rightarrow> bool" where
  "spent s = (\<exists>b. elBreaker s = Some b \<and> bkState b = billingCircuitHalfOpen \<and> bkHalfOpenRemaining b \<le> 0)"

text \<open>A key without a fixed source whose subscription pays, so that no balance is read.\<close>

definition paid_by_subscription :: "Eligibility \<Rightarrow> Request \<Rightarrow> bool" where
  "paid_by_subscription s r =
     (effectiveKeyBillingMode (rqKey r) = APIKeyBillingModeAuto \<and>
      (\<exists>g. rqSubscription r = Some g \<and> open_grant s (anCommonAt (rqAnswers r)) g))"

lemma spent_refuses: "spent s \<Longrightarrow> check_request r s = (Err ErrBillingServiceUnavailable, s, [])"
  by (cases s) (auto simp: spent_def check_request_def CheckBillingEligibility_def breaker_admits_def Breaker_Allow_def
      take_probe_def)

lemma spent_forever: "spent s \<Longrightarrow> run_checks rs s = (replicate (length rs) (Err ErrBillingServiceUnavailable), s)"
  by (induction rs) (simp_all add: spent_refuses)

lemma paid_keeps_breaker:
  assumes "breaker_admits (rqAnswers r) s = (True, s0)" "paid_by_subscription s r"
  shows "\<exists>res calls. check_request r s = (res, s0, calls)"
proof -
  obtain g where g: "rqSubscription r = Some g" "open_grant s (anCommonAt (rqAnswers r)) g"
    "effectiveKeyBillingMode (rqKey r) = APIKeyBillingModeAuto" using assms(2) by (auto simp: paid_by_subscription_def)
  obtain br where "s0 = s\<lparr>elBreaker := br\<rparr>" using breaker_admits_same [OF assms(1)] by blast
  then have "subscription_check s0 (anCommonAt (rqAnswers r)) (rqSubscription r) = Ok ()"
    using g subscription_check_ok by simp
  then have "funding_check (rqAnswers r) (rqUser r) (rqSubscription r) s0 = (Ok (), s0)"
    using g by (simp add: funding_check_def)
  then show ?thesis
    using assms(1) g by (auto simp: check_request_def CheckBillingEligibility_def Let_def mode_consts split: option.split prod.split)
qed

text \<open>A half-open breaker loses one probe to every such check.\<close>

lemma paid_run_spends:
  "elBreaker s = Some b \<Longrightarrow> bkState b = billingCircuitHalfOpen \<Longrightarrow> bkHalfOpenRemaining b = int (length rs) \<Longrightarrow>
     \<forall>r \<in> set rs. paid_by_subscription s r \<Longrightarrow> spent (snd (run_checks rs s))"
proof (induction rs arbitrary: s b)
  case (Cons r rs)
  let ?b = "b\<lparr>bkHalfOpenRemaining := bkHalfOpenRemaining b - 1\<rparr>"
  let ?s = "s\<lparr>elBreaker := Some ?b\<rparr>"
  have "breaker_admits (rqAnswers r) s = (True, ?s)"
    using Cons.prems(1-3) by (simp add: breaker_admits_def Breaker_Allow_def take_probe_def)
  then obtain res calls where c: "check_request r s = (res, ?s, calls)"
    using paid_keeps_breaker Cons.prems(4) by (metis list.set_intros(1))
  have "spent (snd (run_checks rs ?s))"
    using Cons.prems by (intro Cons.IH [of ?s ?b]) (auto simp: paid_by_subscription_def)
  then show ?case using c by (simp add: case_prod_beta)
qed (simp add: spent_def)

text \<open>
  C24: An open breaker whose probes go to subscription-paid requests never recovers: after the
  timeout such requests are admitted as probes but read no balance, so no outcome is reported;
  once the configured number of them has passed, every later check, of any user, at any time
  and with every store healthy, is refused as service unavailable.
\<close>

theorem spent_breaker_never_recovers:
  assumes "elBreaker s = Some b" "bkState b = billingCircuitOpen" "0 < bkHalfOpenRequests b"
    and "bkOpenedAt b + bkResetTimeout b \<le> ns (anAllowAt (rqAnswers (hd probes)))"
    and "int (length probes) = bkHalfOpenRequests b" "\<forall>r \<in> set probes. paid_by_subscription s r"
  shows "set (fst (run_checks later (snd (run_checks probes s)))) \<subseteq> {Err ErrBillingServiceUnavailable}"
proof -
  obtain r rs where p: "probes = r # rs" using assms(3,5) by (cases probes) auto
  let ?b = "b\<lparr>bkState := billingCircuitHalfOpen, bkHalfOpenRemaining := bkHalfOpenRequests b - 1\<rparr>"
  let ?s = "s\<lparr>elBreaker := Some ?b\<rparr>"
  have "breaker_admits (rqAnswers r) s = (True, ?s)"
    using assms p by (simp add: breaker_admits_def Breaker_Allow_def take_probe_def)
  then obtain res calls where c: "check_request r s = (res, ?s, calls)"
    using paid_keeps_breaker assms(6) p by (metis list.set_intros(1))
  have "spent (snd (run_checks rs ?s))"
    using assms(5,6) p by (intro paid_run_spends [of ?s ?b]) (auto simp: paid_by_subscription_def)
  then have "spent (snd (run_checks probes s))" using c p by (simp add: case_prod_beta)
  then show ?thesis by (auto simp: spent_forever)
qed

definition sample_request :: Request where
  "sample_request = \<lparr>rqAnswers = sample_answers, rqUser = 7, rqKey = None, rqGroup = None,
     rqSubscription = Some (sample_subscription\<lparr>WeeklyUsageUSD := Fin 5\<rparr>)\<rparr>"

theorem spent_breaker_never_recovers_witness:
  "set (fst (run_checks [sample_request, sample_request]
     (snd (run_checks [sample_request] (sample_service (Some (sample_breaker billingCircuitOpen)))))))
     \<subseteq> {Err ErrBillingServiceUnavailable}"
proof (rule spent_breaker_never_recovers)
  have "open_grant (sample_service (Some (sample_breaker billingCircuitOpen))) sample_time (sample_subscription\<lparr>WeeklyUsageUSD := Fin 5\<rparr>)"
    by code_simp
  then show "\<forall>r \<in> set [sample_request]. paid_by_subscription (sample_service (Some (sample_breaker billingCircuitOpen))) r"
    by (simp add: paid_by_subscription_def sample_request_def effectiveKeyBillingMode_def sample_answers_def)
  show "elBreaker (sample_service (Some (sample_breaker billingCircuitOpen))) = Some (sample_breaker billingCircuitOpen)"
    by (simp add: sample_service_def)
qed (simp_all add: sample_breaker_def sample_request_def sample_answers_def sample_time_def second_def)

end
