(* ===== verification/Spec2Isabelle.thy ===== *)
theory Spec2Isabelle
  imports Prelude ModelMap Failover MessagesLoop Float64 Calendar Subscription Allocation TaskFunds Connection Orders Fulfillment Confirmation OrderMoves OrderLifecycle OrderSafety Delivery AppError Idempotency Replays OperationLease Redis Concurrency ConcurrencyLoad Admission AdmissionLoad Amounts Wallet RefundStore RefundWorkflow Refunds RefundOutcome Database Ledger TaskLedger LedgerFrames LedgerClaims LedgerAccounts LedgerLimits LedgerSafety PriceFacade EligibilitySafety
begin

text \<open>
  TokenRouter is a gateway that sells access to language-model APIs: requests are
  authenticated, matched to an upstream account, forwarded with retries, metered
  and charged to subscriptions or a balance, which users buy through payment
  providers.  This development models the parts of the Go program under
  src/backend/internal that decide these things and proves what makes them
  correct.  Strings are byte lists, times are integers in nanoseconds, float64 is
  the rational number it holds with rounding after every operation.  State that
  several processes share (the order table, the idempotency table, the Redis
  server) is reached over a connection (theory Connection): before every command
  other processes may change it, and a call may fail before or after its commands
  ran.  A theorem about a quiet connection describes one operation on its own; a
  theorem about steps or about any connection covers the interleavings.

  Parts and theories:

  \<^item> routing/modelmap: ModelMap (Resolve, MatchWildcard, ResolveAction).  The result
    does not depend on Go's map order; exact names beat patterns, longer patterns
    beat shorter ones.
  \<^item> gateway/failover and the message loop of gateway/text: Failover and MessagesLoop.
    The retry and switch budgets, retry delays, and the loop RunMessages over its
    adapter interface, whose calls form a trace: completed at most once, repeated only
    after a skip, an accepted fallback or a failure before any output, and ended
    under the stated bounds.
  \<^item> scheduler/rediscache: Redis (the commands the scripts use, a locale of laws
    interpreted by an in-memory server), Concurrency and ConcurrencyLoad (the Lua
    scripts and every method of the cache), Admission and AdmissionLoad (slots and
    leases never exceed their maxima under any interleaving; keys of different
    kinds never collide; loads, counters and clean-up).
  \<^item> billing: Subscription (windows, limits, remaining amounts), Allocation (the
    ordered settlement of a request over subscriptions, in float64), TaskFunds (the
    capture of task holds), with Float64, Calendar (days across offset changes,
    pkg/timezone) and GoTime below them.
  \<^item> payment: Orders (labels, the order row, every conditional update and query of
    the store), Fulfillment and Confirmation (notification, confirmation, delivery,
    lease, retry of fulfillment.go), OrderLifecycle (closing and reconciliation of
    order_lifecycle.go).  OrderMoves and OrderSafety show that all operations move
    an order only along its status graph, under every interleaving; Delivery shows
    what a delivery, a confirmation and a takeover of a stale lease do.
  \<^item> idempotency: AppError (classified errors of pkg/apperror), Idempotency (the
    coordinator and its table), Replays (one unexpired claim per key while no command
    outlives its lock, replay of the stored response), OperationLease (the maintenance lease of ops/maintenance and
    its refinement of an abstract lease).
  \<^item> payment amounts: Amounts (recharge rates, credited balances, fees, minor units
    and the checkout's pay amounts, with the decimal package as a parameter that
    obeys \<open>decimal_laws\<close>).  Fees add up, minor units round trip, a refund never asks
    the channel for more than was paid.
  \<^item> billing wallet: Wallet (every statement on a user's balance, with numeric(20,8)
    columns).  Balances stay non-negative and in range; a refund deduction and its
    compensation restore the balance exactly.
  \<^item> payment refunds: RefundStore (receipts, audit documents, the transactions of
    postgres/refund.go), RefundWorkflow (request, plan, execution, recovery),
    Refunds (what the documents and transactions guarantee) and RefundOutcome (a
    refund is prepared and settled once, and where its funds are at the end).
  \<^item> stores: Database (errors, transactions that commit or undo, numeric columns,
    UPDATE statements, and what a transaction leaves alone).
  \<^item> billing settlement store: Ledger (the claim protocol, usage settlement and
    subscription resolution of postgres/settlement.go) and TaskLedger (reservation,
    capture and release of task funds).  LedgerFrames and LedgerClaims hold what the
    transactions leave alone and the claim map; LedgerAccounts states the account
    contract and its refinement; LedgerLimits relates reservations to limits;
    LedgerSafety has the properties: an action is charged once, money moves by one
    reported transfer and none is lost, reservations stay within the limits.  A
    usage settlement may overdraw a balance, the wallet statements of Wallet do not.
  \<^item> billing/pricing: PriceCards (configured cards and their validation), PriceTimes
    (daily schedules), TokenPrices and TokenCosts (the token calculator and bounds
    of its charges), PriceResolution (a card over catalog prices; request, image,
    video, search and audio charges), PriceCatalog (catalog entries, derived cache
    prices, media units) and PriceDisplay (quotes).  A charge is finite and never
    negative, usage without a price is refused, what a quote displays is what is
    billed, and the factor of a schedule is independent of its order.  PriceFacade
    is the calculator of the billing package over them.
  \<^item> billing precheck: EligibilityCheck (eligibility.go with the key windows of
    key_rate_limits.go and the provider windows of window_cost_rules.go) and
    EligibilitySafety: a passed check is funded, the circuit breaker's answers are
    determined by the history of checks and outcomes, and the pool makes every
    deduction, usage update and accepted population write exactly once.

  Within a theory the definitions follow the order of the code; a definition has the
  name of the Go function it translates, and a loop or a branch that got its own
  definition has a lower-case name.  Library contracts are locales: redis_laws
  (Redis), conditional_update (OrderMoves), refund_rights (RefundOutcome),
  account_store (LedgerAccounts); each is interpreted on the model's
  own definitions.

  Bounds and fuel: ToPaid and MarkPaymentFailed run the code's own five and three
  rounds; the retry delay of a conflict is exact while a lock ends within 97 days
  (float64 seconds keep nanoseconds that far); legacy order numbers and parsed
  integers are those of 64 bits; RunMessages is bounded by the explicit number of
  passes its termination theorem computes.  Everything else is structural recursion.

  What modelling showed: a daily quota window restarts on every settlement in the
  last hour of a day of 25 hours (Allocation), a skipped
  candidate reopens the failover set without a bound (MessagesLoop), amounts of
  currencies with three decimals lose the third in the order table, so that their
  payment is never confirmed (Amounts), a refund amount that is not whole cents
  makes an interrupted refund unrecoverable (RefundOutcome), the threshold of an
  inclusive long-context rule is displayed at the base price but billed at the
  long one (PriceDisplay), and a half-open breaker whose probes were spent by
  subscription-paid checks refuses every later check (EligibilitySafety).

  Not modelled: log output, metrics and notification mails; the third-party
  encoders, hashes and payment clients, which are parameters; wire protocols and
  HTTP handlers; the generated ORM (its statements are modelled as the updates they
  perform); background tickers, of which one round is a function.  Planned next: the
  scheduler's scoring and waiting loops, provider cost statistics, the parsing of
  the price catalog, redeem codes, checkout and provider selection, API-key limits,
  team and promotion quotas.
\<close>

end
